(* ===== verification/Prelude.thy ===== *)
theory Prelude
  imports Main "HOL-Library.Char_ord" "HOL-Library.List_Lexorder"
begin

text \<open>
  What every component of the model shares: Python's string predicates, results that may raise,
  database tables as lists of rows, and the transaction wrapper of the stores.

  A Python string is a \<^typ>\<open>string\<close>, so the code points are those below 256; every test the
  source makes on a character (control characters, blanks, letters and digits) is written out on
  the code point. A table is the list of its rows in the order they were inserted.
\<close>

named_theorems table_simps
named_theorems result_simps

section \<open>Results that may raise\<close>

text \<open>A call returns \<open>Inr v\<close>, or raises the exception \<open>e\<close> and is \<open>Inl e\<close>.\<close>

definition bind_res :: "'e + 'a \<Rightarrow> ('a \<Rightarrow> 'e + 'b) \<Rightarrow> 'e + 'b" where
  "bind_res r f = (case r of Inl e \<Rightarrow> Inl e | Inr v \<Rightarrow> f v)"

lemma bind_res_simps [simp]:
  "bind_res (Inl e) f = Inl e"
  "bind_res (Inr v) f = f v"
  by (simp_all add: bind_res_def)

lemma bind_res_Inr_iff [result_simps]:
  "bind_res r f = Inr y \<longleftrightarrow> (\<exists>v. r = Inr v \<and> f v = Inr y)"
  by (cases r) auto

lemma bind_res_Inl_iff [result_simps]:
  "bind_res r f = Inl e \<longleftrightarrow> r = Inl e \<or> (\<exists>v. r = Inr v \<and> f v = Inl e)"
  by (cases r) auto

text \<open>A loop that builds a tuple and lets the first exception escape.\<close>

fun map_res :: "('a \<Rightarrow> 'e + 'b) \<Rightarrow> 'a list \<Rightarrow> 'e + 'b list" where
  "map_res f [] = Inr []"
| "map_res f (x # xs) = bind_res (f x) (\<lambda>y. bind_res (map_res f xs) (\<lambda>ys. Inr (y # ys)))"

lemma map_res_Inr_iff: "map_res f xs = Inr ys \<longleftrightarrow> list_all2 (\<lambda>x y. f x = Inr y) xs ys"
proof (induction xs arbitrary: ys)
  case Nil
  then show ?case by auto
next
  case (Cons x xs)
  then show ?case by (cases ys) (auto simp: result_simps)
qed

text \<open>A loop that updates a state and lets the first exception escape.\<close>

fun fold_res :: "('x \<Rightarrow> 's \<Rightarrow> 'e + 's) \<Rightarrow> 'x list \<Rightarrow> 's \<Rightarrow> 'e + 's" where
  "fold_res f [] s = Inr s"
| "fold_res f (x # xs) s = bind_res (f x s) (fold_res f xs)"

lemma fold_res_invariant:
  assumes "fold_res f xs s = Inr s'" and "P s"
    and "\<And>x s s'. x \<in> set xs \<Longrightarrow> P s \<Longrightarrow> f x s = Inr s' \<Longrightarrow> P s'"
  shows "P s'"
  using assms by (induction xs arbitrary: s) (auto simp: result_simps)

text \<open>
  The transaction wrapper of the stores. The body computes a value and the database it leaves, or
  raises; when it raises, the database is rolled back to what it was at \<open>BEGIN IMMEDIATE\<close>.
\<close>

definition transaction :: "'e + ('a \<times> 's) \<Rightarrow> 's \<Rightarrow> ('e + 'a) \<times> 's" where
  "transaction r s = (case r of Inl e \<Rightarrow> (Inl e, s) | Inr (v, s') \<Rightarrow> (Inr v, s'))"

lemma transaction_simps [simp]:
  "transaction (Inl e) s = (Inl e, s)"
  "transaction (Inr (v, s')) s = (Inr v, s')"
  by (simp_all add: transaction_def)

lemma transaction_cases:
  assumes "transaction r s = (res, s')"
  obtains (raised) e where "r = Inl e" "res = Inl e" "s' = s"
  | (returned) v where "r = Inr (v, s')" "res = Inr v"
  using assms by (cases r) (auto simp: transaction_def)

section \<open>Strings\<close>

definition code :: "char \<Rightarrow> nat" where
  "code c = of_char c"

text \<open>The characters below 256 that \<open>str.strip()\<close> removes.\<close>

definition py_space :: "char \<Rightarrow> bool" where
  "py_space c = (let n = code c in (9 \<le> n \<and> n \<le> 13) \<or> (28 \<le> n \<and> n \<le> 32) \<or> n = 133 \<or> n = 160)"

definition py_strip :: "string \<Rightarrow> string" where
  "py_strip s = rev (dropWhile py_space (rev (dropWhile py_space s)))"

text \<open>\<open>not value.strip()\<close>\<close>

definition blank :: "string \<Rightarrow> bool" where
  "blank s = (py_strip s = [])"

lemma blank_iff: "blank s \<longleftrightarrow> list_all py_space s"
proof -
  have "(rev (dropWhile py_space (rev (dropWhile py_space s))) = []) \<longleftrightarrow>
      list_all py_space (dropWhile py_space s)"
    by (auto simp: dropWhile_eq_Nil_conv list_all_iff)
  also have "\<dots> \<longleftrightarrow> list_all py_space s"
    by (induction s) auto
  finally show ?thesis by (simp add: blank_def py_strip_def)
qed

lemma blank_Nil [simp]: "blank []"
  by (simp add: blank_iff)

definition control_char :: "char \<Rightarrow> bool" where
  "control_char c = (code c < 32 \<or> code c = 127)"

definition has_control :: "string \<Rightarrow> bool" where
  "has_control s = list_ex control_char s"

definition ascii_letter :: "char \<Rightarrow> bool" where
  "ascii_letter c = (let n = code c in (65 \<le> n \<and> n \<le> 90) \<or> (97 \<le> n \<and> n \<le> 122))"

definition ascii_digit :: "char \<Rightarrow> bool" where
  "ascii_digit c = (let n = code c in 48 \<le> n \<and> n \<le> 57)"

definition ascii_alnum :: "char \<Rightarrow> bool" where
  "ascii_alnum c = (ascii_letter c \<or> ascii_digit c)"

text \<open>\<open>str.lower()\<close> on code points below 256.\<close>

definition lower_char :: "char \<Rightarrow> char" where
  "lower_char c = (let n = code c in
     if (65 \<le> n \<and> n \<le> 90) \<or> (192 \<le> n \<and> n \<le> 222 \<and> n \<noteq> 215) then char_of (n + 32) else c)"

definition py_lower :: "string \<Rightarrow> string" where
  "py_lower s = map lower_char s"

definition starts_with :: "string \<Rightarrow> string \<Rightarrow> bool" where
  "starts_with s p = (take (length p) s = p)"

definition ends_with :: "string \<Rightarrow> string \<Rightarrow> bool" where
  "ends_with s p = (length p \<le> length s \<and> drop (length s - length p) s = p)"

text \<open>\<open>needle in haystack\<close> on strings.\<close>

fun contains_str :: "string \<Rightarrow> string \<Rightarrow> bool" where
  "contains_str [] p = (p = [])"
| "contains_str (c # cs) p = (starts_with (c # cs) p \<or> contains_str cs p)"

lemma starts_with_iff: "starts_with s p \<longleftrightarrow> (\<exists>r. s = p @ r)"
  unfolding starts_with_def by (metis append_eq_conv_conj append_take_drop_id)

lemma ends_with_iff: "ends_with s p \<longleftrightarrow> (\<exists>r. s = r @ p)"
proof
  assume "ends_with s p"
  then have "s = take (length s - length p) s @ p"
    unfolding ends_with_def by (metis append_take_drop_id)
  then show "\<exists>r. s = r @ p" by blast
qed (auto simp: ends_with_def)

lemma contains_str_iff: "contains_str s p \<longleftrightarrow> (\<exists>a b. s = a @ p @ b)"
proof (induction s)
  case Nil
  then show ?case by auto
next
  case (Cons c cs)
  show ?case
  proof
    assume "contains_str (c # cs) p"
    then consider (here) "starts_with (c # cs) p" | (later) "contains_str cs p"
      by auto
    then show "\<exists>a b. c # cs = a @ p @ b"
    proof cases
      case here
      then obtain r where "c # cs = [] @ p @ r"
        by (auto simp: starts_with_iff)
      then show ?thesis by blast
    next
      case later
      then obtain a b where "c # cs = (c # a) @ p @ b"
        using Cons.IH by auto
      then show ?thesis by blast
    qed
  next
    assume "\<exists>a b. c # cs = a @ p @ b"
    then obtain a b where ab: "c # cs = a @ p @ b" by blast
    show "contains_str (c # cs) p"
    proof (cases a)
      case Nil
      with ab have "starts_with (c # cs) p" by (auto simp: starts_with_iff)
      then show ?thesis by simp
    next
      case (Cons d a')
      with ab have "cs = a' @ p @ b" by simp
      with Cons.IH show ?thesis by auto
    qed
  qed
qed

text \<open>\<open>str.split(d)\<close> for a separator of one character, and the inverse \<open>d.join\<close>.\<close>

fun split_on :: "char \<Rightarrow> string \<Rightarrow> string list" where
  "split_on d [] = [[]]"
| "split_on d (c # cs) =
     (if c = d then [] # split_on d cs
      else case split_on d cs of [] \<Rightarrow> [[c]] | w # ws \<Rightarrow> (c # w) # ws)"

fun join_on :: "string \<Rightarrow> string list \<Rightarrow> string" where
  "join_on d [] = []"
| "join_on d [w] = w"
| "join_on d (w # ws) = w @ d @ join_on d ws"

lemma split_on_nonempty [simp]: "split_on d s \<noteq> []"
  by (induction s) (auto split: list.splits)

lemma join_split_on: "join_on [d] (split_on d s) = s"
proof (induction s)
  case Nil
  then show ?case by simp
next
  case (Cons c cs)
  obtain w ws where w: "split_on d cs = w # ws"
    by (cases "split_on d cs") auto
  show ?case
    using Cons.IH by (cases ws) (auto simp: w)
qed

lemma split_on_no_sep: "w \<in> set (split_on d s) \<Longrightarrow> d \<notin> set w"
proof (induction s arbitrary: w)
  case Nil
  then show ?case by simp
next
  case (Cons c cs)
  obtain v vs where v: "split_on d cs = v # vs"
    by (cases "split_on d cs") auto
  show ?case
    using Cons.prems Cons.IH by (auto simp: v split: if_splits)
qed

lemma butlast_last_split_on: "butlast (split_on d s) @ [last (split_on d s)] = split_on d s"
  by simp

section \<open>Decimal numbers\<close>

definition digit_char :: "nat \<Rightarrow> char" where
  "digit_char n = char_of (48 + n)"

definition digit_val :: "char \<Rightarrow> nat" where
  "digit_val c = code c - 48"

fun show_nat :: "nat \<Rightarrow> string" where
  "show_nat n = (if n < 10 then [digit_char n] else show_nat (n div 10) @ [digit_char (n mod 10)])"

declare show_nat.simps [simp del]

definition show_int :: "int \<Rightarrow> string" where
  "show_int i = (if i < 0 then CHR ''-'' # show_nat (nat (- i)) else show_nat (nat i))"

definition read_nat :: "string \<Rightarrow> nat" where
  "read_nat s = foldl (\<lambda>n c. 10 * n + digit_val c) 0 s"

lemma code_digit_char: "n < 10 \<Longrightarrow> code (digit_char n) = 48 + n"
  by (simp add: code_def digit_char_def)

lemma digit_val_char [simp]: "n < 10 \<Longrightarrow> digit_val (digit_char n) = n"
  by (simp add: digit_val_def code_digit_char)

lemma ascii_digit_char [simp]: "n < 10 \<Longrightarrow> ascii_digit (digit_char n)"
  by (simp add: ascii_digit_def code_digit_char)

lemma read_nat_snoc: "read_nat (s @ [c]) = 10 * read_nat s + digit_val c"
  by (simp add: read_nat_def)

lemma show_nat_nonempty [simp]: "show_nat n \<noteq> []"
  by (subst show_nat.simps) simp

lemma show_nat_digits: "list_all ascii_digit (show_nat n)"
proof (induction n rule: show_nat.induct)
  case (1 n)
  then show ?case by (subst show_nat.simps) (auto simp: list_all_append)
qed

lemma read_show_nat: "read_nat (show_nat n) = n"
proof (induction n rule: show_nat.induct)
  case (1 n)
  show ?case
  proof (cases "n < 10")
    case True
    then show ?thesis by (subst show_nat.simps) (simp add: read_nat_def)
  next
    case False
    with 1 have "read_nat (show_nat (n div 10)) = n div 10" by simp
    with False show ?thesis by (subst show_nat.simps) (simp add: read_nat_snoc)
  qed
qed

lemma show_nat_leading_zero: "hd (show_nat n) = CHR ''0'' \<Longrightarrow> n = 0"
proof (induction n rule: show_nat.induct)
  case (1 n)
  show ?case
  proof (cases "n < 10")
    case True
    with 1 have "digit_char n = CHR ''0''" by (subst (asm) (2) show_nat.simps) simp
    then have "code (digit_char n) = 48" by (simp add: code_def)
    with True show ?thesis by (simp add: code_digit_char)
  next
    case False
    then have "hd (show_nat n) = hd (show_nat (n div 10))"
      by (subst show_nat.simps) (simp add: hd_append)
    with 1 False have "n div 10 = 0" by simp
    with False show ?thesis by simp
  qed
qed

section \<open>Tables\<close>

text \<open>
  \<open>SELECT * ... WHERE key = k\<close> on a key column, and \<open>UPDATE ... SET ... WHERE key = k\<close>.
\<close>

definition find_row :: "('r \<Rightarrow> 'k) \<Rightarrow> 'k \<Rightarrow> 'r list \<Rightarrow> 'r option" where
  "find_row key k rows = List.find (\<lambda>r. key r = k) rows"

definition update_row :: "('r \<Rightarrow> 'k) \<Rightarrow> 'k \<Rightarrow> ('r \<Rightarrow> 'r) \<Rightarrow> 'r list \<Rightarrow> 'r list" where
  "update_row key k f rows = map (\<lambda>r. if key r = k then f r else r) rows"

lemma find_row_Nil [simp]: "find_row key k [] = None"
  by (simp add: find_row_def)

lemma find_row_Cons [simp]:
  "find_row key k (r # rs) = (if key r = k then Some r else find_row key k rs)"
  by (simp add: find_row_def)

lemma find_row_SomeD: "find_row key k rows = Some r \<Longrightarrow> r \<in> set rows \<and> key r = k"
  by (induction rows) (auto split: if_splits)

lemma find_row_None_iff [table_simps]: "find_row key k rows = None \<longleftrightarrow> k \<notin> key ` set rows"
  by (induction rows) auto

lemma find_row_unique:
  "distinct (map key rows) \<Longrightarrow> r \<in> set rows \<Longrightarrow> find_row key (key r) rows = Some r"
  by (induction rows) (auto simp: rev_image_eqI)

lemma find_row_unique_iff:
  "distinct (map key rows) \<Longrightarrow> find_row key k rows = Some r \<longleftrightarrow> r \<in> set rows \<and> key r = k"
  using find_row_SomeD find_row_unique by metis

lemma find_row_append [table_simps]:
  "find_row key k (xs @ ys) = (case find_row key k xs of Some r \<Rightarrow> Some r | None \<Rightarrow> find_row key k ys)"
  by (induction xs) auto

lemma update_row_Nil [simp]: "update_row key k f [] = []"
  by (simp add: update_row_def)

lemma update_row_Cons [simp]:
  "update_row key k f (r # rs) = (if key r = k then f r else r) # update_row key k f rs"
  by (simp add: update_row_def)

lemma map_update_row [table_simps]:
  "(\<And>r. key r = k \<Longrightarrow> g (f r) = g r) \<Longrightarrow> map g (update_row key k f rows) = map g rows"
  by (induction rows) auto

lemma find_update_row_same [table_simps]:
  "(\<And>r. key (f r) = key r) \<Longrightarrow>
   find_row key k (update_row key k f rows) = map_option f (find_row key k rows)"
  by (induction rows) auto

lemma find_update_row_other [table_simps]:
  "(\<And>r. key (f r) = key r) \<Longrightarrow> k \<noteq> k' \<Longrightarrow>
   find_row key k' (update_row key k f rows) = find_row key k' rows"
  by (induction rows) auto

lemma set_update_row:
  "distinct (map key rows) \<Longrightarrow> find_row key k rows = Some r \<Longrightarrow>
   set (update_row key k f rows) = insert (f r) (set rows - {r})"
proof (induction rows)
  case Nil
  then show ?case by simp
next
  case (Cons x xs)
  show ?case
  proof (cases "key x = k")
    case True
    with Cons.prems have "r = x" and "\<forall>y \<in> set xs. key y \<noteq> k"
      by (auto simp: image_iff)
    then have "update_row key k f xs = xs" and "x \<notin> set xs"
      using True by (auto simp: update_row_def map_idI)
    with True \<open>r = x\<close> show ?thesis by auto
  next
    case False
    with Cons.prems have "find_row key k xs = Some r" and "r \<noteq> x"
      by (auto dest: find_row_SomeD)
    with Cons False show ?thesis by auto
  qed
qed

lemma in_update_rowE:
  assumes "s \<in> set (update_row key k f rows)"
  obtains r where "r \<in> set rows" "key r = k" "s = f r"
  | "s \<in> set rows" "key s \<noteq> k"
  using assms by (auto simp: update_row_def split: if_splits)

text \<open>\<open>INSERT ... ON CONFLICT (key) DO UPDATE SET ...\<close>\<close>

definition upsert_row :: "('r \<Rightarrow> 'k) \<Rightarrow> 'r \<Rightarrow> ('r \<Rightarrow> 'r) \<Rightarrow> 'r list \<Rightarrow> 'r list" where
  "upsert_row key r f rows =
     (if find_row key (key r) rows = None then rows @ [r] else update_row key (key r) f rows)"

lemma find_upsert_row:
  "(\<And>x. key (f x) = key x) \<Longrightarrow>
   find_row key k (upsert_row key r f rows) =
     (if k = key r then Some (case find_row key k rows of None \<Rightarrow> r | Some x \<Rightarrow> f x)
      else find_row key k rows)"
proof (cases "find_row key (key r) rows")
  case None
  then show ?thesis
    by (cases "k = key r") (auto simp: upsert_row_def find_row_append split: option.splits)
next
  case (Some x)
  moreover assume "\<And>x. key (f x) = key x"
  ultimately show ?thesis
    by (cases "k = key r") (simp_all add: upsert_row_def find_update_row_same find_update_row_other)
qed

lemma map_key_update_row [simp]:
  "(\<And>x. key (f x) = key x) \<Longrightarrow> map key (update_row key' k f rows) = map key rows"
  by (induction rows) auto

lemma distinct_upsert_row:
  "(\<And>x. key (f x) = key x) \<Longrightarrow> distinct (map key rows) \<Longrightarrow> distinct (map key (upsert_row key r f rows))"
  by (auto simp: upsert_row_def find_row_None_iff)

text \<open>
  An \<open>AUTOINCREMENT\<close> key: one more than the last one used. No table with such a key loses rows,
  and a rolled back insert gives its number back.
\<close>

definition next_seq :: "('r \<Rightarrow> int) \<Rightarrow> 'r list \<Rightarrow> int" where
  "next_seq sq rows = (if rows = [] then 1 else sq (last rows) + 1)"

definition seq_ok :: "('r \<Rightarrow> int) \<Rightarrow> 'r list \<Rightarrow> bool" where
  "seq_ok sq rows = (map sq rows = map int [1..<Suc (length rows)])"

lemma seq_ok_Nil [simp]: "seq_ok sq []"
  by (simp add: seq_ok_def)

lemma seq_ok_next: "seq_ok sq rows \<Longrightarrow> next_seq sq rows = int (length rows) + 1"
proof (cases rows rule: rev_cases)
  case (snoc ys y)
  assume "seq_ok sq rows"
  then have "map sq (ys @ [y]) = map int ([1..<Suc (length ys)] @ [Suc (length ys)])"
    by (simp add: seq_ok_def snoc)
  then have "sq y = int (Suc (length ys))" by simp
  with snoc show ?thesis by (simp add: next_seq_def)
qed (simp add: next_seq_def)

lemma seq_ok_snoc: "seq_ok sq rows \<Longrightarrow> sq r = next_seq sq rows \<Longrightarrow> seq_ok sq (rows @ [r])"
  by (simp add: seq_ok_next) (simp add: seq_ok_def)

lemma length_update_row [simp]: "length (update_row key k f rows) = length rows"
  by (simp add: update_row_def)

lemma seq_ok_update_row [simp]:
  "(\<And>x. sq (f x) = sq x) \<Longrightarrow> seq_ok sq (update_row key k f rows) = seq_ok sq rows"
  unfolding seq_ok_def by (simp del: upt_Suc)

lemma seq_ok_distinct: "seq_ok sq rows \<Longrightarrow> distinct (map sq rows)"
  by (simp add: seq_ok_def distinct_map del: upt_Suc)

lemma seq_ok_sorted: "seq_ok sq rows \<Longrightarrow> sorted (map sq rows)"
  by (simp add: seq_ok_def sorted_iff_nth_mono del: upt_Suc)

end
