(* ===== verification/Py_Float.thy ===== *)
theory Py_Float
  imports Complex_Main Prelude
begin

text \<open>
  Python's numbers as the source uses them. An \<open>int\<close> is unbounded and is \<^typ>\<open>int\<close>. A \<open>float\<close> is an
  IEEE binary64 value: finite ones are \<open>Fin m e\<close>, the exact value \<open>m * 2 ^ e\<close>. Comparisons
  between numbers are exact, as Python's are, also between an \<open>int\<close> and a \<open>float\<close>; the one
  rounding operation the source uses, a float times a positive integer followed by \<open>int(...)\<close>,
  rounds to nearest even at 53 bits.
\<close>

datatype pyfloat = Fin int int | NegZero | PInf | NInf | NaN

definition is_finite :: "pyfloat \<Rightarrow> bool" where
  "is_finite x = (case x of Fin _ _ \<Rightarrow> True | NegZero \<Rightarrow> True | _ \<Rightarrow> False)"

text \<open>One representation per value: the mantissa is odd, or the value is zero.\<close>

definition float_wf :: "pyfloat \<Rightarrow> bool" where
  "float_wf x = (case x of Fin m e \<Rightarrow> odd m \<or> (m = 0 \<and> e = 0) | _ \<Rightarrow> True)"

section \<open>Exact comparison\<close>

definition dy_cmp :: "(int \<Rightarrow> int \<Rightarrow> bool) \<Rightarrow> int \<Rightarrow> int \<Rightarrow> int \<Rightarrow> int \<Rightarrow> bool" where
  "dy_cmp cmp m1 e1 m2 e2 =
     (let k = min e1 e2 in cmp (m1 * 2 ^ nat (e1 - k)) (m2 * 2 ^ nat (e2 - k)))"

definition of_int_num :: "int \<Rightarrow> pyfloat" where
  "of_int_num i = Fin i 0"

fun num_less :: "pyfloat \<Rightarrow> pyfloat \<Rightarrow> bool" where
  "num_less NaN y = False"
| "num_less x NaN = False"
| "num_less PInf y = False"
| "num_less x NInf = False"
| "num_less NInf y = True"
| "num_less x PInf = True"
| "num_less (Fin m e) (Fin n f) = dy_cmp (<) m e n f"
| "num_less NegZero (Fin n f) = (0 < n)"
| "num_less (Fin m e) NegZero = (m < 0)"
| "num_less NegZero NegZero = False"

fun num_eq :: "pyfloat \<Rightarrow> pyfloat \<Rightarrow> bool" where
  "num_eq (Fin m e) (Fin n f) = dy_cmp (=) m e n f"
| "num_eq NegZero (Fin n f) = (n = 0)"
| "num_eq (Fin m e) NegZero = (m = 0)"
| "num_eq NegZero NegZero = True"
| "num_eq PInf PInf = True"
| "num_eq NInf NInf = True"
| "num_eq x y = False"

definition num_le :: "pyfloat \<Rightarrow> pyfloat \<Rightarrow> bool" where
  "num_le x y = (num_less x y \<or> num_eq x y)"

text \<open>\<open>min(x, y)\<close> and \<open>max(x, y)\<close> return the first argument unless the second is strictly better.\<close>

definition num_min :: "pyfloat \<Rightarrow> pyfloat \<Rightarrow> pyfloat" where
  "num_min x y = (if num_less y x then y else x)"

definition num_max :: "pyfloat \<Rightarrow> pyfloat \<Rightarrow> pyfloat" where
  "num_max x y = (if num_less x y then y else x)"

text \<open>The exact value of a finite number, and the comparisons as comparisons of values.\<close>

definition num_val :: "pyfloat \<Rightarrow> real" where
  "num_val x = (case x of Fin m e \<Rightarrow> of_int m * 2 powi e | _ \<Rightarrow> 0)"

lemma dy_scale:
  assumes "k \<le> e"
  shows "of_int (m * 2 ^ nat (e - k)) * (2::real) powi k = of_int m * 2 powi e"
proof -
  have "(2::real) ^ nat (e - k) * 2 powi k = 2 powi (e - k) * 2 powi k"
    using assms by (simp add: power_int_def)
  also have "\<dots> = 2 powi e"
    by (simp add: power_int_add [symmetric])
  finally show ?thesis by (simp add: mult.assoc)
qed

lemma dy_cmp_val:
  "dy_cmp (<) m e n f \<longleftrightarrow> (of_int m * 2 powi e :: real) < of_int n * 2 powi f"
  "dy_cmp (=) m e n f \<longleftrightarrow> (of_int m * 2 powi e :: real) = of_int n * 2 powi f"
proof -
  define k where "k = min e f"
  have pos: "(0::real) < 2 powi k" by simp
  have m: "(of_int m * 2 powi e :: real) = of_int (m * 2 ^ nat (e - k)) * 2 powi k"
    by (rule dy_scale [symmetric]) (simp add: k_def)
  have n: "(of_int n * 2 powi f :: real) = of_int (n * 2 ^ nat (f - k)) * 2 powi k"
    by (rule dy_scale [symmetric]) (simp add: k_def)
  show "dy_cmp (<) m e n f \<longleftrightarrow> (of_int m * 2 powi e :: real) < of_int n * 2 powi f"
    unfolding m n dy_cmp_def k_def [symmetric] Let_def
    by (simp only: mult_less_cancel_right_pos [OF pos] of_int_less_iff)
  show "dy_cmp (=) m e n f \<longleftrightarrow> (of_int m * 2 powi e :: real) = of_int n * 2 powi f"
    unfolding m n dy_cmp_def k_def [symmetric] Let_def
    using pos by (simp only: mult_right_cancel [OF less_imp_neq [OF pos, symmetric]] of_int_eq_iff)
qed

lemma powi_not_neg [simp]: "\<not> (2::real) powi k < 0"
  by (simp add: not_less)

lemma num_less_val:
  "is_finite x \<Longrightarrow> is_finite y \<Longrightarrow> num_less x y \<longleftrightarrow> num_val x < num_val y"
  by (cases x; cases y) (auto simp: is_finite_def num_val_def dy_cmp_val zero_less_mult_iff mult_less_0_iff)

lemma num_eq_val:
  "is_finite x \<Longrightarrow> is_finite y \<Longrightarrow> num_eq x y \<longleftrightarrow> num_val x = num_val y"
  by (cases x; cases y) (auto simp: is_finite_def num_val_def dy_cmp_val)

lemma num_le_val:
  "is_finite x \<Longrightarrow> is_finite y \<Longrightarrow> num_le x y \<longleftrightarrow> num_val x \<le> num_val y"
  by (auto simp: num_le_def num_less_val num_eq_val)

lemma is_finite_of_int [simp]: "is_finite (of_int_num i)"
  by (simp add: is_finite_def of_int_num_def)

lemma num_val_of_int [simp]: "num_val (of_int_num i) = of_int i"
  by (simp add: num_val_def of_int_num_def)

lemma num_min_finite: "is_finite x \<Longrightarrow> is_finite y \<Longrightarrow> is_finite (num_min x y)"
  by (simp add: num_min_def)

lemma num_val_min:
  "is_finite x \<Longrightarrow> is_finite y \<Longrightarrow> num_val (num_min x y) = min (num_val x) (num_val y)"
  by (auto simp: num_min_def num_less_val min_def)

section \<open>Rounding and conversion to an integer\<close>

fun bitlen :: "nat \<Rightarrow> nat" where
  "bitlen n = (if n = 0 then 0 else Suc (bitlen (n div 2)))"

declare bitlen.simps [simp del]

text \<open>Drop \<open>s\<close> low bits of a magnitude, rounding to nearest, ties to even.\<close>

definition rne_shift :: "nat \<Rightarrow> nat \<Rightarrow> nat" where
  "rne_shift m s = (if s = 0 then m else
     let q = m div 2 ^ s; r = m mod 2 ^ s; half = 2 ^ (s - 1)
     in if r > half \<or> (r = half \<and> odd q) then Suc q else q)"

definition signed :: "int \<Rightarrow> nat \<Rightarrow> int" where
  "signed m q = (if m < 0 then - int q else int q)"

text \<open>The binary64 value nearest to \<open>m * 2 ^ e\<close>.\<close>

definition round64 :: "int \<Rightarrow> int \<Rightarrow> pyfloat" where
  "round64 m e = (if m = 0 then Fin 0 0 else
     let mag = nat \<bar>m\<bar>; e' = max (e + int (bitlen mag) - 53) (- 1074);
         q = (if e' \<le> e then mag else rne_shift mag (nat (e' - e)));
         f = (if e' \<le> e then e else e')
     in if 1024 < int (bitlen q) + f then (if m < 0 then NInf else PInf) else Fin (signed m q) f)"

text \<open>\<open>x * k\<close> for a positive integer \<open>k\<close> that is itself a binary64 value.\<close>

definition fmul_int :: "pyfloat \<Rightarrow> int \<Rightarrow> pyfloat" where
  "fmul_int x k = (case x of Fin m e \<Rightarrow> round64 (m * k) e | _ \<Rightarrow> x)"

text \<open>\<open>int(x)\<close> truncates towards zero; it raises on infinities and on NaN (\<open>None\<close>).\<close>

definition py_int :: "pyfloat \<Rightarrow> int option" where
  "py_int x = (case x of
     Fin m e \<Rightarrow> Some (if 0 \<le> e then m * 2 ^ nat e else signed m (nat \<bar>m\<bar> div 2 ^ nat (- e)))
   | NegZero \<Rightarrow> Some 0
   | _ \<Rightarrow> None)"

text \<open>\<open>int(seconds * 1_000_000_000)\<close>, the conversion every duration of the program goes through.\<close>

definition seconds_to_ns :: "pyfloat \<Rightarrow> int option" where
  "seconds_to_ns x = py_int (fmul_int x 1000000000)"

lemma bitlen_le: "n < 2 ^ k \<Longrightarrow> bitlen n \<le> k"
proof (induction k arbitrary: n)
  case 0
  then show ?case by (simp add: bitlen.simps)
next
  case (Suc k)
  then have "n div 2 < 2 ^ k" by auto
  then have "bitlen (n div 2) \<le> k" by (rule Suc.IH)
  then show ?case by (subst bitlen.simps) simp
qed

lemma seconds_to_ns_whole:
  assumes "0 \<le> s" and "s * 1000000000 < 2 ^ 53"
  shows "seconds_to_ns (of_int_num s) = Some (s * 1000000000)"
proof -
  have "nat (s * 1000000000) < 2 ^ 53"
    using assms by (simp add: nat_less_iff)
  then have "bitlen (nat (s * 1000000000)) \<le> 53" by (rule bitlen_le)
  then show ?thesis
    using assms
    by (auto simp: seconds_to_ns_def fmul_int_def of_int_num_def round64_def py_int_def signed_def Let_def)
qed

lemma seconds_to_ns_infinite: "\<not> is_finite x \<Longrightarrow> seconds_to_ns x = None"
  by (cases x) (auto simp: is_finite_def seconds_to_ns_def fmul_int_def py_int_def)

end
