(* ===== verification/Json.thy ===== *)
theory Json
  imports Py_Float
begin

text \<open>
  JSON values and their canonical text: \<open>_validate_json\<close> and \<open>canonical_json\<close> of
  runtime/models.py, \<open>json.dumps(..., sort_keys=True, separators=(",", ":"))\<close> and \<open>json.loads\<close>.

  A Python dict is the list of its items in insertion order, with distinct keys (\<open>json_wf\<close>).
  The digest function SHA-256 and the text of a float (\<open>float.__repr__\<close> and its inverse) are
  parameters, collected in the record \<open>codec\<close>; what the proofs rely on is \<open>codec_ok\<close>.
\<close>

datatype json =
    JNull
  | JBool bool
  | JInt int
  | JFloat pyfloat
  | JStr string
  | JList "json list"
  | JObj "(string \<times> json) list"

record codec =
  sha256_hex :: "string \<Rightarrow> string"
  float_repr :: "pyfloat \<Rightarrow> string"
  float_parse :: "string \<Rightarrow> pyfloat"

section \<open>Validation\<close>

datatype json_error = NonFinite string

text \<open>The first non-finite number, with the path that leads to it.\<close>

fun validate_json :: "string \<Rightarrow> json \<Rightarrow> json_error + unit"
  and validate_items :: "string \<Rightarrow> nat \<Rightarrow> json list \<Rightarrow> json_error + unit"
  and validate_members :: "string \<Rightarrow> (string \<times> json) list \<Rightarrow> json_error + unit" where
  "validate_json path (JFloat x) = (if is_finite x then Inr () else Inl (NonFinite path))"
| "validate_json path (JList xs) = validate_items path 0 xs"
| "validate_json path (JObj kvs) = validate_members path kvs"
| "validate_json path _ = Inr ()"
| "validate_items path i [] = Inr ()"
| "validate_items path i (x # xs) =
     bind_res (validate_json (path @ ''['' @ show_nat i @ '']'') x)
       (\<lambda>_. validate_items path (Suc i) xs)"
| "validate_members path [] = Inr ()"
| "validate_members path ((k, v) # kvs) =
     bind_res (validate_json (path @ ''.'' @ k) v) (\<lambda>_. validate_members path kvs)"

text \<open>Every number inside is finite, and every dict has distinct keys.\<close>

fun json_finite :: "json \<Rightarrow> bool" where
  "json_finite (JFloat x) = is_finite x"
| "json_finite (JList xs) = list_all json_finite xs"
| "json_finite (JObj kvs) = list_all (\<lambda>(k, v). json_finite v) kvs"
| "json_finite _ = True"

fun json_wf :: "json \<Rightarrow> bool" where
  "json_wf (JFloat x) = float_wf x"
| "json_wf (JList xs) = list_all json_wf xs"
| "json_wf (JObj kvs) = (distinct (map fst kvs) \<and> list_all (\<lambda>(k, v). json_wf v) kvs)"
| "json_wf _ = True"

lemma validate_json_iff:
  "validate_json path j = Inr () \<longleftrightarrow> json_finite j"
  "validate_items path i xs = Inr () \<longleftrightarrow> list_all json_finite xs"
  "validate_members path kvs = Inr () \<longleftrightarrow> list_all (\<lambda>(k, v). json_finite v) kvs"
  by (induction path j and path i xs and path kvs
      rule: validate_json_validate_items_validate_members.induct)
    (auto simp: result_simps)

section \<open>Equality\<close>

text \<open>
  Python's \<open>==\<close>: numbers compare by value, and \<open>True\<close> and \<open>False\<close> are the numbers 1 and 0; dicts
  compare without regard to order.
\<close>

definition as_number :: "json \<Rightarrow> pyfloat option" where
  "as_number j = (case j of
     JBool b \<Rightarrow> Some (of_int_num (if b then 1 else 0))
   | JInt i \<Rightarrow> Some (of_int_num i)
   | JFloat x \<Rightarrow> Some x
   | _ \<Rightarrow> None)"

fun py_eq :: "json \<Rightarrow> json \<Rightarrow> bool"
  and py_eq_items :: "json list \<Rightarrow> json list \<Rightarrow> bool"
  and py_eq_members :: "(string \<times> json) list \<Rightarrow> (string \<times> json) list \<Rightarrow> bool" where
  "py_eq (JList xs) b = (case b of JList ys \<Rightarrow> py_eq_items xs ys | _ \<Rightarrow> False)"
| "py_eq (JObj kvs) b =
     (case b of JObj kws \<Rightarrow> length kvs = length kws \<and> py_eq_members kvs kws | _ \<Rightarrow> False)"
| "py_eq JNull b = (b = JNull)"
| "py_eq (JStr s) b = (b = JStr s)"
| "py_eq a b = (case (as_number a, as_number b) of
     (Some x, Some y) \<Rightarrow> num_eq x y | _ \<Rightarrow> False)"
| "py_eq_items [] ys = (ys = [])"
| "py_eq_items (x # xs) ys = (case ys of [] \<Rightarrow> False | y # ys' \<Rightarrow> py_eq x y \<and> py_eq_items xs ys')"
| "py_eq_members [] kws = True"
| "py_eq_members ((k, v) # kvs) kws =
     (case map_of kws k of None \<Rightarrow> False | Some w \<Rightarrow> py_eq v w \<and> py_eq_members kvs kws)"

section \<open>Encoding\<close>

text \<open>Sorted keys, at every level.\<close>

fun json_norm :: "json \<Rightarrow> json" where
  "json_norm (JList xs) = JList (map json_norm xs)"
| "json_norm (JObj kvs) = JObj (sort_key fst (map (\<lambda>(k, v). (k, json_norm v)) kvs))"
| "json_norm j = j"

definition hex_digit :: "nat \<Rightarrow> char" where
  "hex_digit n = (if n < 10 then char_of (48 + n) else char_of (87 + n))"

text \<open>The \<open>ensure_ascii\<close> escapes of a code point below 256.\<close>

definition escape_char :: "char \<Rightarrow> string" where
  "escape_char c = (let n = code c in
     if n = 34 then [CHR 0x5C, CHR 0x22]
     else if n = 92 then [CHR 0x5C, CHR 0x5C]
     else if n = 10 then [CHR 0x5C, CHR ''n'']
     else if n = 13 then [CHR 0x5C, CHR ''r'']
     else if n = 9 then [CHR 0x5C, CHR ''t'']
     else if n = 12 then [CHR 0x5C, CHR ''f'']
     else if n = 8 then [CHR 0x5C, CHR ''b'']
     else if 32 \<le> n \<and> n \<le> 126 then [c]
     else [CHR 0x5C, CHR ''u'', CHR ''0'', CHR ''0'', hex_digit (n div 16), hex_digit (n mod 16)])"

definition encode_str :: "string \<Rightarrow> string" where
  "encode_str s = CHR 0x22 # concat (map escape_char s) @ [CHR 0x22]"

fun encode :: "codec \<Rightarrow> json \<Rightarrow> string"
  and encode_items :: "codec \<Rightarrow> json list \<Rightarrow> string"
  and encode_members :: "codec \<Rightarrow> (string \<times> json) list \<Rightarrow> string" where
  "encode K JNull = ''null''"
| "encode K (JBool b) = (if b then ''true'' else ''false'')"
| "encode K (JInt i) = show_int i"
| "encode K (JFloat x) = float_repr K x"
| "encode K (JStr s) = encode_str s"
| "encode K (JList xs) = CHR 0x5B # encode_items K xs @ [CHR 0x5D]"
| "encode K (JObj kvs) = CHR 0x7B # encode_members K kvs @ [CHR 0x7D]"
| "encode_items K [] = []"
| "encode_items K (x # xs) =
     encode K x @ (if xs = [] then [] else CHR 0x2C # encode_items K xs)"
| "encode_members K [] = []"
| "encode_members K (kv # kvs) =
     encode_str (fst kv) @ CHR 0x3A # encode K (snd kv) @
       (if kvs = [] then [] else CHR 0x2C # encode_members K kvs)"

definition dumps :: "codec \<Rightarrow> json \<Rightarrow> string" where
  "dumps K j = encode K (json_norm j)"

definition canonical_json :: "codec \<Rightarrow> json \<Rightarrow> string \<Rightarrow> json_error + string" where
  "canonical_json K j path = bind_res (validate_json path j) (\<lambda>_. Inr (dumps K j))"

section \<open>Dotted paths\<close>

text \<open>The value at a dotted path, \<open>None\<close> where a segment is missing.\<close>

fun lookup_path :: "json \<Rightarrow> string list \<Rightarrow> json option" where
  "lookup_path j [] = Some j"
| "lookup_path (JObj kvs) (s # ss) =
     (case map_of kvs s of None \<Rightarrow> None | Some v \<Rightarrow> lookup_path v ss)"
| "lookup_path _ (s # ss) = None"

end
