(* ===== verification/Json_Roundtrip.thy ===== *)
theory Json_Roundtrip
  imports Json_Text
begin

text \<open>
  Reading back what \<open>dumps\<close> wrote. The law the codec must obey is that the text of a float is a
  JSON float literal that reads back as the same float, which \<open>float.__repr__\<close> documents.
\<close>

definition codec_ok :: "codec \<Rightarrow> bool" where
  "codec_ok K = (\<forall>x. is_finite x \<longrightarrow> float_wf x \<longrightarrow>
     is_float_lit (float_repr K x) \<and> float_parse K (float_repr K x) = x)"

section \<open>Characters and strings\<close>

lemma code_less_256: "code c < 256"
  by (simp add: code_def)

lemma char_of_code [simp]: "char_of (code c) = c"
  by (simp add: code_def)

lemma code_char_of [simp]: "n < 256 \<Longrightarrow> code (char_of n) = n"
  by (simp add: code_def)

lemma code_inject: "code c = code d \<longleftrightarrow> c = d"
  by (metis char_of_code)

lemma code_eq_iff: "n < 256 \<Longrightarrow> code c = n \<longleftrightarrow> c = char_of n"
  by (metis char_of_code code_char_of)

lemma hex_val_digit: "n < 16 \<Longrightarrow> hex_val (hex_digit n) = Some n"
  by (auto simp: hex_val_def hex_digit_def Let_def)

lemma hex4_digits:
  "n < 256 \<Longrightarrow> hex4 (CHR ''0'') (CHR ''0'') (hex_digit (n div 16)) (hex_digit (n mod 16)) = Some n"
  by (simp add: hex4_def hex_val_digit) (simp add: hex_val_def code_def)

lemma code_literals [simp]:
  "code (CHR 0x5C) = 92" "code (CHR 0x22) = 34" "code (CHR ''u'') = 117"
  "code (CHR ''n'') = 110" "code (CHR ''r'') = 114" "code (CHR ''t'') = 116"
  "code (CHR ''f'') = 102" "code (CHR ''b'') = 98"
  "code (CHR 0x7B) = 123" "code (CHR 0x7D) = 125" "code (CHR 0x5B) = 91" "code (CHR 0x5D) = 93"
  "code (CHR 0x2C) = 44" "code (CHR 0x3A) = 58" "code (CHR ''0'') = 48"
  by (simp_all add: code_def)

lemma char_literals:
  "char_of (34::nat) = CHR 0x22" "char_of (92::nat) = CHR 0x5C" "char_of (48::nat) = CHR ''0''"
  by (simp_all add: code_inject [symmetric])

lemma parse_escape_char:
  "parse_str (escape_char c @ t) = map_option (\<lambda>(u, r). (c # u, r)) (parse_str t)"
proof -
  define n where "n = code c"
  have c: "c = char_of n" and n: "n < 256"
    by (simp_all add: n_def code_less_256)
  consider (quote) "n = 34" | (bslash) "n = 92" | (nl) "n = 10" | (cr) "n = 13" | (tab) "n = 9"
    | (ff) "n = 12" | (bs) "n = 8" | (plain) "32 \<le> n" "n \<le> 126" "n \<noteq> 34" "n \<noteq> 92"
    | (hex) "n < 32 \<or> 126 < n" "n \<noteq> 10" "n \<noteq> 13" "n \<noteq> 9" "n \<noteq> 12" "n \<noteq> 8"
    by linarith
  then show ?thesis
  proof cases
    case plain
    then show ?thesis by (simp add: escape_char_def n_def [symmetric] Let_def)
  next
    case hex
    then have "escape_char c = [CHR 0x5C, CHR ''u'', CHR ''0'', CHR ''0'',
        hex_digit (n div 16), hex_digit (n mod 16)]"
      by (auto simp: escape_char_def n_def [symmetric] Let_def)
    then show ?thesis
      using n c by (simp add: hex4_digits)
  qed (use c in \<open>simp_all add: escape_char_def escape_val_def n_def [symmetric] Let_def
        char_literals\<close>)
qed

lemma parse_str_encode: "parse_str (concat (map escape_char s) @ CHR 0x22 # r) = Some (s, r)"
  by (induction s) (simp_all add: parse_escape_char)

section \<open>Numbers\<close>

lemma digit_num_char: "ascii_digit c \<Longrightarrow> num_char c"
  by (simp add: num_char_def)

lemma int_part_num_char: "int_part_ok d \<Longrightarrow> list_all num_char d"
  by (auto simp: int_part_ok_def list_all_iff digit_num_char)

lemma exp_num_char: "exp_ok t \<Longrightarrow> list_all num_char t"
  by (auto simp: exp_ok_def list_all_iff num_char_def Let_def split: list.splits if_splits)

lemma drop_minus_num_char: "list_all num_char (drop_minus t) \<Longrightarrow> list_all num_char t"
  by (auto simp: drop_minus_def num_char_def split: list.splits if_splits)

lemma takeWhile_dropWhile_all: "list_all P t \<longleftrightarrow> list_all P (takeWhile Q t) \<and> list_all P (dropWhile Q t)"
  by (metis list_all_append takeWhile_dropWhile_id)

lemma frac_exp_num_char: "frac_exp_ok t \<Longrightarrow> list_all num_char t"
proof (cases t)
  case (Cons c r)
  assume ok: "frac_exp_ok t"
  show ?thesis
  proof (cases "c = CHR ''.''")
    case True
    have "list_all num_char (takeWhile ascii_digit r)"
      by (auto simp: list_all_iff digit_num_char dest: set_takeWhileD)
    moreover have "dropWhile ascii_digit r = [] \<or> exp_ok (dropWhile ascii_digit r)"
      using ok True Cons by (simp add: frac_exp_ok_def del: dropWhile_eq_Nil_conv)
    then have "list_all num_char (dropWhile ascii_digit r)"
      by (elim disjE) (simp_all only: list.pred_inject exp_num_char)
    ultimately have "list_all num_char r"
      by (subst takeWhile_dropWhile_all [where Q = ascii_digit]) simp
    with True Cons show ?thesis by (simp add: num_char_def)
  next
    case False
    with ok Cons have "exp_ok t" by (simp add: frac_exp_ok_def)
    then show ?thesis by (rule exp_num_char)
  qed
qed simp

lemma float_lit_num_char: "is_float_lit t \<Longrightarrow> list_all num_char t"
  unfolding is_float_lit_def Let_def
  by (rule drop_minus_num_char, subst takeWhile_dropWhile_all [where Q = ascii_digit])
    (auto simp: int_part_num_char frac_exp_num_char)

lemma int_lit_num_char: "is_int_lit t \<Longrightarrow> list_all num_char t"
  unfolding is_int_lit_def by (rule drop_minus_num_char) (rule int_part_num_char)

text \<open>A number starts with a digit, after at most one minus sign.\<close>

definition num_head :: "string \<Rightarrow> bool" where
  "num_head t = (drop_minus t \<noteq> [] \<and> ascii_digit (hd (drop_minus t)))"

lemma int_lit_head: "is_int_lit t \<Longrightarrow> num_head t"
  by (auto simp: is_int_lit_def int_part_ok_def num_head_def list_all_iff)

lemma float_lit_head: "is_float_lit t \<Longrightarrow> num_head t"
  by (cases "drop_minus t")
    (auto simp: is_float_lit_def int_part_ok_def num_head_def Let_def split: if_splits)

lemma float_lit_not_int: "is_float_lit t \<Longrightarrow> \<not> is_int_lit t"
proof
  assume fl: "is_float_lit t" and il: "is_int_lit t"
  from il have "dropWhile ascii_digit (drop_minus t) = []"
    by (simp add: is_int_lit_def int_part_ok_def list_all_iff)
  with fl show False
    by (simp only: is_float_lit_def Let_def) (simp add: frac_exp_ok_def)
qed

lemma show_nat_int_part: "int_part_ok (show_nat n)"
proof -
  have "show_nat 0 = ''0''"
    by (subst show_nat.simps) (simp add: digit_char_def char_literals)
  then show ?thesis
    using show_nat_leading_zero [of n] by (auto simp: int_part_ok_def show_nat_digits)
qed

lemma show_nat_no_minus: "take 1 (show_nat n) \<noteq> ''-''" "drop_minus (show_nat n) = show_nat n"
proof -
  obtain c r where cr: "show_nat n = c # r"
    by (cases "show_nat n") auto
  then have "ascii_digit c"
    using show_nat_digits [of n] by simp
  then have "c \<noteq> CHR ''-''"
    by (auto simp: ascii_digit_def code_def)
  then show "take 1 (show_nat n) \<noteq> ''-''" "drop_minus (show_nat n) = show_nat n"
    by (simp_all add: cr drop_minus_def)
qed

lemma show_int_lit: "is_int_lit (show_int i)"
  by (simp add: show_int_def is_int_lit_def show_nat_int_part show_nat_no_minus)
    (simp add: drop_minus_def show_nat_int_part)

lemma read_show_int: "read_int (show_int i) = i"
  by (auto simp: show_int_def read_int_def read_show_nat show_nat_no_minus [simplified])

text \<open>What may follow a value: the end, or a character no number contains.\<close>

definition follow_ok :: "string \<Rightarrow> bool" where
  "follow_ok r = (r = [] \<or> \<not> num_char (hd r))"

lemma span_num:
  assumes "list_all num_char t" and "follow_ok r"
  shows "takeWhile num_char (t @ r) = t" "dropWhile num_char (t @ r) = r"
proof -
  have "takeWhile num_char r = [] \<and> dropWhile num_char r = r"
    using assms(2) by (cases r) (auto simp: follow_ok_def)
  then show "takeWhile num_char (t @ r) = t" "dropWhile num_char (t @ r) = r"
    using assms(1) by (auto simp: takeWhile_append dropWhile_append list_all_iff)
qed

lemma parse_number_int: "follow_ok r \<Longrightarrow> parse_number K (show_int i @ r) = Some (JInt i, r)"
  by (simp add: parse_number_def span_num int_lit_num_char show_int_lit read_show_int)

lemma parse_number_float:
  assumes "codec_ok K" "is_finite x" "float_wf x" "follow_ok r"
  shows "parse_number K (float_repr K x @ r) = Some (JFloat x, r)"
  using assms
  by (auto simp: codec_ok_def parse_number_def span_num float_lit_num_char float_lit_not_int)

lemma digit_code: "ascii_digit c \<Longrightarrow> 48 \<le> code c \<and> code c \<le> 57"
  by (simp add: ascii_digit_def Let_def)

lemma parse_value_number:
  assumes "num_head t"
  shows "parse_value K (Suc n) (t @ r) = parse_number K (t @ r)"
proof -
  obtain c u where t: "t = c # u"
    using assms by (cases t) (auto simp: num_head_def drop_minus_def)
  show ?thesis
  proof (cases "c = CHR ''-''")
    case True
    then obtain d v where u: "u = d # v" and d: "ascii_digit d"
      using assms t by (cases u) (auto simp: num_head_def drop_minus_def)
    then have "d \<noteq> CHR ''I''" by (auto simp: ascii_digit_def code_def)
    then show ?thesis
      using True t u by (simp add: skip_ws_def json_space_def starts_with_def code_def)
  next
    case False
    then have d: "ascii_digit c"
      using assms t by (auto simp: num_head_def drop_minus_def)
    have "c \<noteq> CHR ''n''" "c \<noteq> CHR ''t''" "c \<noteq> CHR ''f''" "c \<noteq> CHR ''N''" "c \<noteq> CHR ''I''"
      using digit_code [OF d] by (auto simp: code_def)
    then show ?thesis
      using digit_code [OF d] t False by (auto simp: skip_ws_def json_space_def starts_with_def Let_def)
  qed
qed


section \<open>The round trip\<close>

lemma starts_literals:
  "starts_with (''null'' @ r) ''null''" "starts_with (''true'' @ r) ''true''"
  "starts_with (''false'' @ r) ''false''"
  by (simp_all add: starts_with_def)

definition value_head :: "string \<Rightarrow> bool" where
  "value_head t = (t \<noteq> [] \<and> \<not> json_space (hd t) \<and> code (hd t) \<notin> {93, 125, 44, 58})"

lemma num_value_head: "num_head t \<Longrightarrow> value_head t"
proof (cases t)
  case (Cons c u)
  assume "num_head t"
  with Cons have "c = CHR ''-'' \<or> ascii_digit c"
    by (auto simp: num_head_def drop_minus_def split: if_splits)
  with Cons show ?thesis
    by (auto simp: value_head_def json_space_def Let_def code_def dest: digit_code)
qed (simp add: num_head_def drop_minus_def)

lemma encode_head:
  assumes "codec_ok K" "json_finite j" "json_wf j"
  shows "value_head (encode K j)"
proof (cases j)
  case (JInt i)
  then show ?thesis by (simp add: num_value_head int_lit_head show_int_lit)
next
  case (JFloat x)
  then show ?thesis using assms by (simp add: num_value_head float_lit_head codec_ok_def)
qed (auto simp: value_head_def encode_str_def json_space_def code_def)

lemma follow_ok_seps [simp]:
  "follow_ok []" "follow_ok (CHR 0x2C # r)" "follow_ok (CHR 0x5D # r)" "follow_ok (CHR 0x7D # r)"
  by (simp_all add: follow_ok_def num_char_def ascii_digit_def)

lemma skip_ws_head: "value_head t \<Longrightarrow> skip_ws (t @ r) = t @ r"
  by (cases t) (auto simp: value_head_def skip_ws_def)

lemma skip_ws_seps [simp]:
  "skip_ws [] = []" "skip_ws (CHR 0x2C # r) = CHR 0x2C # r" "skip_ws (CHR 0x5D # r) = CHR 0x5D # r"
  "skip_ws (CHR 0x7D # r) = CHR 0x7D # r" "skip_ws (CHR 0x3A # r) = CHR 0x3A # r"
  "skip_ws (CHR 0x22 # r) = CHR 0x22 # r"
  by (simp_all add: skip_ws_def json_space_def)

lemma parse_encode_items:
  assumes "codec_ok K" "xs \<noteq> []" "list_all json_finite xs" "list_all json_wf xs"
    and "\<And>x n r. x \<in> set xs \<Longrightarrow> 2 * length (encode K x) \<le> n \<Longrightarrow> follow_ok r \<Longrightarrow>
      parse_value K n (encode K x @ r) = Some (x, r)"
    and "2 * length (encode_items K xs) + 1 \<le> n"
  shows "parse_items K n acc (encode_items K xs @ CHR 0x5D # r) = Some (JList (acc @ xs), r)"
  using assms(2-)
proof (induction xs arbitrary: n acc)
  case (Cons x xs)
  then obtain m where n: "n = Suc m" by (cases n) auto
  show ?case
  proof (cases "xs = []")
    case True
    then show ?thesis
      using Cons.prems(4) [of x m "CHR 0x5D # r"] Cons.prems(5) n by simp
  next
    case False
    have "parse_items K m (acc @ [x]) (encode_items K xs @ CHR 0x5D # r) =
        Some (JList ((acc @ [x]) @ xs), r)"
      using Cons.prems False n by (intro Cons.IH) auto
    then show ?thesis
      using Cons.prems(4) [of x m "CHR 0x2C # encode_items K xs @ CHR 0x5D # r"]
        Cons.prems(5) n False by simp
  qed
qed simp

lemma dict_put_fresh: "k \<notin> fst ` set acc \<Longrightarrow> dict_put k v acc = acc @ [(k, v)]"
  by (induction acc) auto

lemma parse_encode_members:
  assumes "codec_ok K" "kvs \<noteq> []" "list_all (\<lambda>(k, v). json_finite v) kvs"
    "list_all (\<lambda>(k, v). json_wf v) kvs" "distinct (map fst (acc @ kvs))"
    and "\<And>k v n r. (k, v) \<in> set kvs \<Longrightarrow> 2 * length (encode K v) \<le> n \<Longrightarrow> follow_ok r \<Longrightarrow>
      parse_value K n (encode K v @ r) = Some (v, r)"
    and "2 * length (encode_members K kvs) + 1 \<le> n"
  shows "parse_members K n acc (encode_members K kvs @ CHR 0x7D # r) = Some (JObj (acc @ kvs), r)"
  using assms(2-)
proof (induction kvs arbitrary: n acc)
  case (Cons kv kvs)
  then obtain m where n: "n = Suc m" by (cases n) auto
  obtain k v where kv: "kv = (k, v)" by (cases kv)
  have put: "dict_put k v acc = acc @ [(k, v)]"
    using Cons.prems(4) kv by (intro dict_put_fresh) auto
  show ?case
  proof (cases "kvs = []")
    case True
    then show ?thesis
      using Cons.prems(5) [of k v m "CHR 0x7D # r"] Cons.prems(6) n kv
      by (simp add: encode_str_def parse_str_encode put)
  next
    case False
    have "parse_members K m (acc @ [(k, v)]) (encode_members K kvs @ CHR 0x7D # r) =
        Some (JObj ((acc @ [(k, v)]) @ kvs), r)"
      using Cons.prems False n kv by (intro Cons.IH) auto
    then show ?thesis
      using Cons.prems(5) [of k v m "CHR 0x2C # encode_members K kvs @ CHR 0x7D # r"]
        Cons.prems(6) n kv False
      by (simp add: encode_str_def parse_str_encode put)
  qed
qed simp


lemma encode_nonempty: "codec_ok K \<Longrightarrow> json_finite j \<Longrightarrow> json_wf j \<Longrightarrow> encode K j \<noteq> []"
  using encode_head [of K j] by (simp add: value_head_def)

lemma items_head:
  "codec_ok K \<Longrightarrow> list_all json_finite xs \<Longrightarrow> list_all json_wf xs \<Longrightarrow> xs \<noteq> [] \<Longrightarrow>
   value_head (encode_items K xs)"
  using encode_head [of K "hd xs"] by (cases xs) (auto simp: value_head_def)

lemma parse_encode:
  assumes K: "codec_ok K"
  shows "json_finite j \<Longrightarrow> json_wf j \<Longrightarrow> 2 * length (encode K j) \<le> n \<Longrightarrow> follow_ok r \<Longrightarrow>
    parse_value K n (encode K j @ r) = Some (j, r)"
proof (induction j arbitrary: n r)
  case (JInt i)
  then show ?case
    using encode_nonempty [OF K JInt.prems(1,2)]
    by (cases n) (simp_all del: parse_value.simps
        add: parse_value_number int_lit_head show_int_lit parse_number_int)
next
  case (JFloat x)
  then show ?case
    using K encode_nonempty [OF K JFloat.prems(1,2)]
    by (cases n) (simp_all del: parse_value.simps
        add: parse_value_number float_lit_head parse_number_float codec_ok_def)
next
  case (JStr s)
  then show ?case
    by (cases n) (simp_all add: encode_str_def parse_str_encode)
next
  case (JList xs)
  show ?case
  proof (cases "xs = []")
    case True
    then show ?thesis using JList.prems by (cases n) (simp_all add: skip_ws_def json_space_def)
  next
    case False
    obtain m where n: "n = Suc m" using JList.prems by (cases n) auto
    have head: "value_head (encode_items K xs)"
      using K JList.prems False by (intro items_head) auto
    have "parse_items K m [] (encode_items K xs @ CHR 0x5D # r) = Some (JList ([] @ xs), r)"
      using K False JList n by (intro parse_encode_items) (auto simp: list_all_iff)
    moreover have "skip_ws (encode_items K xs @ CHR 0x5D # r) = encode_items K xs @ CHR 0x5D # r"
      by (rule skip_ws_head [OF head])
    ultimately show ?thesis
      using head n by (cases "encode_items K xs")
        (auto simp: value_head_def skip_ws_def json_space_def)
  qed
next
  case (JObj kvs)
  show ?case
  proof (cases "kvs = []")
    case True
    then show ?thesis using JObj.prems by (cases n) (simp_all add: skip_ws_def json_space_def)
  next
    case False
    obtain m where n: "n = Suc m" using JObj.prems by (cases n) auto
    have "parse_members K m [] (encode_members K kvs @ CHR 0x7D # r) = Some (JObj ([] @ kvs), r)"
      using K False JObj n by (intro parse_encode_members) (auto simp: list_all_iff, fastforce)
    then show ?thesis
      using n False by (cases kvs) (auto simp: encode_str_def skip_ws_def json_space_def)
  qed
next
  case JNull
  then show ?case by (cases n) (simp_all add: skip_ws_def json_space_def starts_with_def code_def)
next
  case (JBool b)
  then show ?case
    by (cases n; cases b) (simp_all add: skip_ws_def json_space_def starts_with_def code_def)
qed

section \<open>Canonical text\<close>

lemma json_norm_finite: "json_finite (json_norm j) = json_finite j"
  by (induction j) (auto simp: list_all_iff split: prod.splits)

lemma fst_norm_members: "map fst (map (\<lambda>(k, v). (k, json_norm v)) kvs) = map fst kvs"
  by (simp add: case_prod_beta)

lemma distinct_map_sort_key: "distinct (map fst (sort_key fst kvs)) = distinct (map fst kvs)"
  by (simp add: distinct_map)

lemma json_norm_wf: "json_wf j \<Longrightarrow> json_wf (json_norm j)"
proof (induction j)
  case (JObj kvs)
  then have "distinct (map fst (map (\<lambda>(k, v). (k, json_norm v)) kvs))"
    by (simp only: fst_norm_members) simp
  with JObj show ?case
    by (auto simp: list_all_iff distinct_map_sort_key split: prod.splits)
qed (auto simp: list_all_iff)

lemma json_norm_idem: "json_norm (json_norm j) = json_norm j"
proof (induction j)
  case (JObj kvs)
  define ms where "ms = map (\<lambda>(k, v). (k, json_norm v)) kvs"
  have "map (\<lambda>(k, v). (k, json_norm v)) (sort_key fst ms) = sort_key fst ms"
    using JObj by (intro map_idI) (auto simp: ms_def)
  then show ?case by (simp add: ms_def [symmetric] sort_key_id_if_sorted)
qed auto

theorem loads_dumps:
  assumes "codec_ok K" "json_finite j" "json_wf j"
  shows "loads K (dumps K j) = Some (json_norm j)"
proof -
  have "parse_value K (2 * length (dumps K j) + 2) (dumps K j @ []) = Some (json_norm j, [])"
    unfolding dumps_def using assms
    by (intro parse_encode) (auto simp: json_norm_finite json_norm_wf)
  then show ?thesis by (simp add: loads_def)
qed

corollary dumps_inject:
  assumes "codec_ok K" "json_finite j" "json_wf j" "json_finite k" "json_wf k"
    and "dumps K j = dumps K k"
  shows "json_norm j = json_norm k"
  using loads_dumps [of K j] loads_dumps [of K k] assms by simp

lemma canonical_json_Inr_iff:
  "canonical_json K j p = Inr s \<longleftrightarrow> json_finite j \<and> s = dumps K j"
  by (auto simp: canonical_json_def result_simps validate_json_iff)

section \<open>Fuel\<close>

lemma parse_str_consumes: "parse_str s = Some (t, r) \<Longrightarrow> length r < length s"
  by (induction s arbitrary: t r rule: parse_str.induct)
    (auto split: if_splits list.splits option.splits, fastforce+)

lemma parse_number_consumes: "parse_number K s = Some (j, r) \<Longrightarrow> length r < length s"
proof -
  assume "parse_number K s = Some (j, r)"
  then have "takeWhile num_char s \<noteq> []" "r = dropWhile num_char s"
    by (auto simp: parse_number_def is_int_lit_def is_float_lit_def int_part_ok_def drop_minus_def
        Let_def split: if_splits)
  moreover have "length (takeWhile num_char s) + length (dropWhile num_char s) = length s"
    by (metis length_append takeWhile_dropWhile_id)
  ultimately show ?thesis by (cases "takeWhile num_char s") auto
qed

lemma skip_ws_length: "skip_ws s = c # r \<Longrightarrow> length r < length s"
  by (metis Suc_le_eq length_Cons length_dropWhile_le skip_ws_def)

lemma starts_with_length: "starts_with s p \<Longrightarrow> length p \<le> length s"
  by (auto simp: starts_with_iff)


lemma parse_consumes:
  "parse_value K n s = Some (j, r) \<Longrightarrow> length r < length s"
  "parse_items K n acc s = Some (j, r) \<Longrightarrow> length r < length s"
  "parse_members K n macc s = Some (j, r) \<Longrightarrow> length r < length s"
proof (induction n arbitrary: j r s acc macc)
  case 0
  {
    case 1 then show ?case by simp
  next
    case 2 then show ?case by simp
  next
    case 3 then show ?case by simp
  }
next
  case (Suc n)
  note IH = Suc.IH
  {
    case 1
    then obtain c u where cu: "skip_ws s = c # u" by (auto split: list.splits)
    have len: "length u < length s" by (rule skip_ws_length [OF cu])
    have lit: "length r < length s" if "starts_with (c # u) p" "r = drop (length p) (c # u)" "p \<noteq> []" for p
      using that starts_with_length [OF that(1)] len by (cases p) auto
    show ?case
      using 1 len lit IH [of "_ # _"] parse_number_consumes [of K "c # u" j r]
      by (auto simp: cu split: if_splits list.splits dest!: parse_str_consumes IH skip_ws_length
          dest: starts_with_length)
  next
    case 2
    then obtain v r1 d r2 where v: "parse_value K n s = Some (v, r1)" and d: "skip_ws r1 = d # r2"
      by (auto split: option.splits list.splits)
    then have "length r2 < length s"
      using IH(1) [OF v] skip_ws_length [OF d] by simp
    with 2 v d show ?case by (auto split: if_splits dest: IH)
  next
    case 3
    then obtain q u k r1 d r2 v r3 d' r4 where
      q: "skip_ws s = q # u" and k: "parse_str u = Some (k, r1)" and d: "skip_ws r1 = d # r2"
      and v: "parse_value K n r2 = Some (v, r3)" and d': "skip_ws r3 = d' # r4"
      by (auto split: option.splits list.splits if_splits)
    then have "length r4 < length s"
      using skip_ws_length [OF q] parse_str_consumes [OF k] skip_ws_length [OF d]
        IH(1) [OF v] skip_ws_length [OF d'] by simp
    with 3 q k d v d' show ?case by (auto split: if_splits dest: IH)
  }
qed


text \<open>With fuel for twice the text and one more, more fuel changes nothing.\<close>

lemmas parse_steps = parse_value.simps parse_items.simps parse_members.simps

lemma parse_fuel_step:
  "2 * length s + 1 \<le> n \<Longrightarrow> parse_value K (Suc n) s = parse_value K n s"
  "2 * length s + 2 \<le> n \<Longrightarrow> parse_items K (Suc n) acc s = parse_items K n acc s"
  "2 * length s + 2 \<le> n \<Longrightarrow> parse_members K (Suc n) macc s = parse_members K n macc s"
proof (induction n arbitrary: s acc macc)
  case 0
  {
    case 1 then show ?case by simp
  next
    case 2 then show ?case by simp
  next
    case 3 then show ?case by simp
  }
next
  case (Suc n)
  note IH = Suc.IH
  {
    case 1
    have "parse_items K (Suc n) [] (d # r') = parse_items K n [] (d # r')"
      "parse_members K (Suc n) [] (d # r') = parse_members K n [] (d # r')"
      if "skip_ws s = c # r" "skip_ws r = d # r'" for c r d r'
      using 1 skip_ws_length [OF that(1)] skip_ws_length [OF that(2)] by (auto simp del: parse_steps intro!: IH)
    then show ?case
      unfolding parse_value.simps(2) [of K "Suc n" s] parse_value.simps(2) [of K n s]
      by (auto simp del: parse_steps split: list.split)
  next
    case 2
    then have v: "parse_value K (Suc n) s = parse_value K n s" by (intro IH) simp
    have "parse_items K (Suc n) acc' r' = parse_items K n acc' r'"
      if "parse_value K n s = Some (j, r)" "skip_ws r = d # r'" for j r d r' acc'
      using 2 parse_consumes(1) [OF that(1)] skip_ws_length [OF that(2)] by (intro IH) simp
    then show ?case
      unfolding parse_items.simps(2) [of K "Suc n" acc s] parse_items.simps(2) [of K n acc s]
      by
        (auto simp del: parse_steps simp: v split: list.split option.split)
  next
    case 3
    have v: "parse_value K (Suc n) r2 = parse_value K n r2"
      and m: "parse_value K n r2 = Some (j, r3) \<Longrightarrow> skip_ws r3 = d' # r4 \<Longrightarrow>
        parse_members K (Suc n) a r4 = parse_members K n a r4"
      if "skip_ws s = q # u" "parse_str u = Some (k, r1)" "skip_ws r1 = d # r2" for q u k r1 d r2 j r3 d' r4 a
      using 3 skip_ws_length [OF that(1)] parse_str_consumes [OF that(2)] skip_ws_length [OF that(3)]
        skip_ws_length [of r3 d' r4] parse_consumes(1) [of K n r2 j r3]
      by (auto simp del: parse_steps intro!: IH)
    show ?case
      unfolding parse_members.simps(2) [of K "Suc n" macc s] parse_members.simps(2) [of K n macc s]
      by
        (auto simp del: parse_steps simp: v m split: list.split option.split)
  }
qed

lemma parse_value_fuel:
  "2 * length s + 1 \<le> n \<Longrightarrow> parse_value K n s = parse_value K (2 * length s + 2) s"
proof (induction n)
  case (Suc n)
  then show ?case
    by (cases "2 * length s + 1 \<le> n")
      (auto simp del: parse_steps simp: parse_fuel_step(1) le_Suc_eq)
qed simp

section \<open>A concrete codec\<close>

text \<open>
  A codec that obeys the laws: the digest is the text itself, and a float is its mantissa and a
  power of two written in decimal.
\<close>

definition demo_codec :: codec where
  "demo_codec = \<lparr>
     sha256_hex = (\<lambda>s. s),
     float_repr = (\<lambda>x. case x of Fin m e \<Rightarrow> show_int m @ ''e'' @ show_int e | _ \<Rightarrow> ''-0.0''),
     float_parse = (\<lambda>t. if CHR ''e'' \<in> set t
        then Fin (read_int (takeWhile (\<lambda>c. c \<noteq> CHR ''e'') t))
                 (read_int (drop 1 (dropWhile (\<lambda>c. c \<noteq> CHR ''e'') t)))
        else NegZero)\<rparr>"

lemma show_nat_no_e: "c \<in> set (show_nat n) \<Longrightarrow> c \<noteq> CHR ''e''"
  using show_nat_digits [of n] by (auto simp: list_all_iff ascii_digit_def code_def)

lemma show_int_no_e: "c \<in> set (show_int i) \<Longrightarrow> c \<noteq> CHR ''e''"
  by (auto simp: show_int_def dest: show_nat_no_e split: if_splits)

lemma exp_ok_show_int: "exp_ok (CHR ''e'' # show_int i)"
proof (cases "i < 0")
  case True
  then show ?thesis by (simp add: exp_ok_def show_int_def show_nat_digits)
next
  case False
  obtain c r where cr: "show_nat (nat i) = c # r"
    by (cases "show_nat (nat i)") auto
  then have "ascii_digit c"
    using show_nat_digits [of "nat i"] by simp
  then have "c \<noteq> CHR ''-''" "c \<noteq> CHR ''+''"
    by (auto simp: ascii_digit_def code_def)
  then show ?thesis
    using False cr show_nat_digits [of "nat i"] by (simp add: exp_ok_def show_int_def)
qed

lemma span_e:
  "takeWhile (\<lambda>c. c \<noteq> CHR ''e'') (show_int m @ CHR ''e'' # r) = show_int m"
  "dropWhile (\<lambda>c. c \<noteq> CHR ''e'') (show_int m @ CHR ''e'' # r) = CHR ''e'' # r"
  using show_int_no_e [of _ m] by (simp_all add: takeWhile_append dropWhile_append)

lemma drop_minus_show_int:
  "takeWhile ascii_digit (drop_minus (show_int m @ CHR ''e'' # r)) = drop_minus (show_int m)"
  "dropWhile ascii_digit (drop_minus (show_int m @ CHR ''e'' # r)) = CHR ''e'' # r"
proof -
  have d: "drop_minus (show_int m @ CHR ''e'' # r) = drop_minus (show_int m) @ CHR ''e'' # r"
    using show_int_lit [of m] by (cases "show_int m") (auto simp: drop_minus_def is_int_lit_def int_part_ok_def)
  have "list_all ascii_digit (drop_minus (show_int m))"
    using show_int_lit [of m] by (simp add: is_int_lit_def int_part_ok_def)
  then show "takeWhile ascii_digit (drop_minus (show_int m @ CHR ''e'' # r)) = drop_minus (show_int m)"
    "dropWhile ascii_digit (drop_minus (show_int m @ CHR ''e'' # r)) = CHR ''e'' # r"
    unfolding d by (simp_all add: takeWhile_append dropWhile_append list_all_iff ascii_digit_def code_def)
qed

lemma demo_codec_ok: "codec_ok demo_codec"
proof -
  have lit: "is_float_lit (show_int m @ CHR ''e'' # show_int e)" for m e
    using show_int_lit [of m]
    by (simp add: is_float_lit_def drop_minus_show_int is_int_lit_def frac_exp_ok_def exp_ok_show_int)
  have "is_float_lit ''-0.0''"
    by (simp add: is_float_lit_def drop_minus_def ascii_digit_def code_def int_part_ok_def frac_exp_ok_def)
  with lit show ?thesis
    by (auto simp: codec_ok_def demo_codec_def is_finite_def span_e read_show_int split: pyfloat.splits)
qed

section \<open>The round trip\<close>

text \<open>
  C12. A canonical text is a faithful record: it reads back as the value it was made of, up to the
  order of object members, the text made of what was read is the same text again, and no other value
  has that text.
\<close>

theorem canonical_json_roundtrip:
  assumes "codec_ok K" and "json_wf j" and "canonical_json K j p = Inr t"
  shows "\<exists>v. loads K t = Some v \<and> v = json_norm j \<and> canonical_json K v q = Inr t \<and>
    (\<forall>k. json_wf k \<and> canonical_json K k q = Inr t \<longrightarrow> json_norm k = v)"
proof -
  have j: "json_finite j" "t = dumps K j" using assms(3) by (simp_all only: canonical_json_Inr_iff)
  have read: "loads K t = Some (json_norm j)"
    unfolding j(2) by (rule loads_dumps [OF assms(1) j(1) assms(2)])
  have again: "canonical_json K (json_norm j) q = Inr t"
    unfolding canonical_json_Inr_iff using j by (simp only: json_norm_finite dumps_def json_norm_idem)
  have "json_norm k = json_norm j" if "json_wf k" "canonical_json K k q = Inr t" for k
  proof -
    have k: "json_finite k" "dumps K k = t" using that(2) by (simp_all only: canonical_json_Inr_iff)
    show ?thesis by (rule dumps_inject [OF assms(1) k(1) that(1) j(1) assms(2)]) (simp only: k(2) j(2))
  qed
  then show ?thesis using read again by blast
qed

lemma canonical_json_roundtrip_witness:
  "\<exists>t. canonical_json demo_codec (JObj [(''b'', JInt 2), (''a'', JNull)]) ''x'' = Inr t \<and>
     loads demo_codec t = Some (JObj [(''a'', JNull), (''b'', JInt 2)])"
proof -
  let ?j = "JObj [(''b'', JInt 2), (''a'', JNull)]"
  have ok: "json_wf ?j" "canonical_json demo_codec ?j ''x'' = Inr (dumps demo_codec ?j)"
    by (simp_all add: canonical_json_Inr_iff)
  have "json_norm ?j = JObj [(''a'', JNull), (''b'', JInt 2)]" by code_simp
  with canonical_json_roundtrip [OF demo_codec_ok ok, of "''y''"] ok(2) show ?thesis by metis
qed

end
