(* ===== verification/Models.thy ===== *)
theory Models
  imports Json_Roundtrip
begin

text \<open>
  The value objects of runtime/models.py, the \<open>Decision\<close> of models.py and the exceptions of
  errors.py. Every dataclass is a record with its fields in the order of the source, every enum
  a datatype; a constructor that validates is a function into \<open>runtime_error + record\<close>.

  A canonical JSON text kept in a field or a column is represented by the value it denotes: the
  value with its keys sorted at every level (\<open>json_norm\<close>). \<open>request_arguments_text\<close> below shows
  that this is what reading the stored text back gives.
\<close>

section \<open>Enums\<close>

datatype policy_effect = ALLOW | DENY | REQUIRE_APPROVAL

datatype runtime_status =
  PENDING | APPROVED | REJECTED | DENIED | EXECUTING | SUCCEEDED | UNKNOWN | EXPIRED

datatype runtime_event =
  Ev_POLICY_ALLOWED | Ev_POLICY_DENIED | Ev_APPROVAL_REQUESTED | Ev_APPROVED | Ev_REJECTED
| Ev_EXPIRED | Ev_EXECUTION_STARTED | Ev_EXECUTION_SUCCEEDED | Ev_EXECUTION_UNKNOWN
| Ev_EXECUTION_ABANDONED | Ev_RECONCILIATION_COMMITTED | Ev_RECONCILIATION_NOT_COMMITTED
| Ev_RESULT_REPLAYED | Ev_EMERGENCY_PAUSE_BLOCKED | Ev_LIMIT_BLOCKED

datatype control_event =
  Cv_EMERGENCY_PAUSE_SET | Cv_EMERGENCY_PAUSE_CLEARED | Cv_LIMIT_CONFIGURED | Cv_LIMIT_DISABLED

datatype runtime_reconciliation = COMMITTED | NOT_COMMITTED

datatype condition_operator =
  Op_EXISTS | Op_EQ | Op_NE | Op_LT | Op_LE | Op_GT | Op_GE | Op_IN | Op_NOT_IN | Op_CONTAINS
| Op_STARTS_WITH | Op_ENDS_WITH

datatype claim_outcome = EXECUTE | REPLAY

datatype decision = APPROVE | REJECT

text \<open>The string values of the enums that are written out or read from text.\<close>

definition status_text :: "runtime_status \<Rightarrow> string" where
  "status_text s = (case s of
     PENDING \<Rightarrow> ''pending'' | APPROVED \<Rightarrow> ''approved'' | REJECTED \<Rightarrow> ''rejected''
   | DENIED \<Rightarrow> ''denied'' | EXECUTING \<Rightarrow> ''executing'' | SUCCEEDED \<Rightarrow> ''succeeded''
   | UNKNOWN \<Rightarrow> ''unknown'' | EXPIRED \<Rightarrow> ''expired'')"

definition event_text :: "runtime_event \<Rightarrow> string" where
  "event_text e = (case e of
     Ev_POLICY_ALLOWED \<Rightarrow> ''policy_allowed'' | Ev_POLICY_DENIED \<Rightarrow> ''policy_denied''
   | Ev_APPROVAL_REQUESTED \<Rightarrow> ''approval_requested'' | Ev_APPROVED \<Rightarrow> ''approved''
   | Ev_REJECTED \<Rightarrow> ''rejected'' | Ev_EXPIRED \<Rightarrow> ''expired''
   | Ev_EXECUTION_STARTED \<Rightarrow> ''execution_started''
   | Ev_EXECUTION_SUCCEEDED \<Rightarrow> ''execution_succeeded''
   | Ev_EXECUTION_UNKNOWN \<Rightarrow> ''execution_unknown''
   | Ev_EXECUTION_ABANDONED \<Rightarrow> ''execution_abandoned''
   | Ev_RECONCILIATION_COMMITTED \<Rightarrow> ''reconciliation_committed''
   | Ev_RECONCILIATION_NOT_COMMITTED \<Rightarrow> ''reconciliation_not_committed''
   | Ev_RESULT_REPLAYED \<Rightarrow> ''result_replayed''
   | Ev_EMERGENCY_PAUSE_BLOCKED \<Rightarrow> ''emergency_pause_blocked''
   | Ev_LIMIT_BLOCKED \<Rightarrow> ''limit_blocked'')"

definition control_event_text :: "control_event \<Rightarrow> string" where
  "control_event_text e = (case e of
     Cv_EMERGENCY_PAUSE_SET \<Rightarrow> ''emergency_pause_set''
   | Cv_EMERGENCY_PAUSE_CLEARED \<Rightarrow> ''emergency_pause_cleared''
   | Cv_LIMIT_CONFIGURED \<Rightarrow> ''limit_configured'' | Cv_LIMIT_DISABLED \<Rightarrow> ''limit_disabled'')"

text \<open>\<open>PolicyEffect(value)\<close> and \<open>ConditionOperator(value)\<close>; any other string is a \<open>ValueError\<close>.\<close>

definition effect_of_text :: "string \<Rightarrow> policy_effect option" where
  "effect_of_text s = (if s = ''allow'' then Some ALLOW else if s = ''deny'' then Some DENY
     else if s = ''require_approval'' then Some REQUIRE_APPROVAL else None)"

definition operator_of_text :: "string \<Rightarrow> condition_operator option" where
  "operator_of_text s = map_of
     [(''exists'', Op_EXISTS), (''eq'', Op_EQ), (''ne'', Op_NE), (''lt'', Op_LT), (''le'', Op_LE),
      (''gt'', Op_GT), (''ge'', Op_GE), (''in'', Op_IN), (''not_in'', Op_NOT_IN),
      (''contains'', Op_CONTAINS), (''starts_with'', Op_STARTS_WITH), (''ends_with'', Op_ENDS_WITH)] s"

lemma event_text_inject: "event_text a = event_text b \<longleftrightarrow> a = b"
  by (cases a; cases b) (simp_all add: event_text_def)

lemma control_event_text_inject: "control_event_text a = control_event_text b \<longleftrightarrow> a = b"
  by (cases a; cases b) (simp_all add: control_event_text_def)

section \<open>Records\<close>

record runtime_request =
  rq_action_id :: string
  rq_namespace :: string
  rq_tool_name :: string
  rq_idempotency_key :: string
  rq_policy_version :: string
  rq_created_at_ns :: int
  rq_organization_id :: string
  rq_requested_by :: "string option"
  rq_arguments :: json

record policy_decision =
  pd_effect :: policy_effect
  pd_rule_name :: string
  pd_policy_version :: string
  pd_approval_ttl_seconds :: "pyfloat option"

record runtime_action =
  ra_action_id :: string
  ra_namespace :: string
  ra_tool_name :: string
  ra_arguments :: json
  ra_idempotency_key :: string
  ra_request_digest :: string
  ra_policy_version :: string
  ra_policy_rule :: string
  ra_policy_effect :: policy_effect
  ra_status :: runtime_status
  ra_created_at_ns :: int
  ra_updated_at_ns :: int
  ra_expires_at_ns :: "int option"
  ra_approval_ttl_ns :: "int option"
  ra_execution_lease_expires_at_ns :: "int option"
  ra_result :: json
  ra_result_available :: bool
  ra_error :: "string option"
  ra_decided_by :: "string option"
  ra_decision_reason :: "string option"
  ra_organization_id :: string
  ra_requested_by :: "string option"

record decision_authorization =
  da_actor :: string
  da_organization_id :: string
  da_namespaces :: "string list"
  da_decisions :: "decision list"
  da_require_separate_approver :: bool
  da_reviewer_subject :: "string option"

record runtime_receipt =
  rc_sequence :: int
  rc_action_id :: string
  rc_event :: runtime_event
  rc_timestamp_ns :: int
  rc_request_digest :: string
  rc_actor :: "string option"
  rc_detail :: "string option"
  rc_previous_hash :: "string option"
  rc_receipt_hash :: string

record execution_claim =
  ec_outcome :: claim_outcome
  ec_action :: runtime_action
  ec_result :: json

record runtime_pause =
  rp_namespace :: "string option"
  rp_tool_name :: "string option"
  rp_paused_at_ns :: int
  rp_paused_by :: string
  rp_reason :: string

record runtime_limit =
  rl_limit_id :: string
  rl_namespace :: "string option"
  rl_tool_name :: "string option"
  rl_window_ns :: int
  rl_max_actions :: "int option"
  rl_value_argument :: "string option"
  rl_max_value :: "int option"
  rl_enabled :: bool
  rl_updated_at_ns :: int
  rl_updated_by :: string
  rl_reason :: string

record runtime_limit_usage =
  ru_limit_id :: string
  ru_window_started_at_ns :: int
  ru_actions_used :: int
  ru_value_used :: int

record control_receipt =
  cr_sequence :: int
  cr_event :: control_event
  cr_timestamp_ns :: int
  cr_actor :: string
  cr_scope :: string
  cr_detail :: string
  cr_previous_hash :: "string option"
  cr_receipt_hash :: string

section \<open>Exceptions\<close>

text \<open>
  The built-in exceptions carry their message; the package's own carry what the source gives
  their constructor.
\<close>

datatype runtime_error =
    ValueError string
  | TypeError string
  | KeyError string
  | OverflowError
  | IntegrityError string
  | RuntimeStoreError string
  | ActionBindingError
  | InvalidActionState string runtime_status
  | ApprovalRequired runtime_action
  | PolicyDenied runtime_action
  | ApprovalRejected runtime_action
  | ApprovalExpired runtime_action
  | ActionInProgress runtime_action
  | ActionOutcomeUnknown runtime_action
  | ApprovalAuthorizationError string
  | EmergencyPauseActive runtime_action string string
  | ActionLimitExceeded runtime_action string string int int int
  | ActionLimitValueError runtime_action string string

text \<open>\<open>getattr(error, "action", default)\<close>\<close>

definition error_action :: "runtime_error \<Rightarrow> runtime_action option" where
  "error_action e = (case e of
     ApprovalRequired a \<Rightarrow> Some a | PolicyDenied a \<Rightarrow> Some a | ApprovalRejected a \<Rightarrow> Some a
   | ApprovalExpired a \<Rightarrow> Some a | ActionInProgress a \<Rightarrow> Some a | ActionOutcomeUnknown a \<Rightarrow> Some a
   | EmergencyPauseActive a _ _ \<Rightarrow> Some a | ActionLimitExceeded a _ _ _ _ _ \<Rightarrow> Some a
   | ActionLimitValueError a _ _ \<Rightarrow> Some a | _ \<Rightarrow> None)"

text \<open>The \<open>ValueError\<close> of \<open>_validate_json\<close>.\<close>

definition json_result :: "json_error + 'a \<Rightarrow> runtime_error + 'a" where
  "json_result r = (case r of
     Inl (NonFinite path) \<Rightarrow> Inl (ValueError (path @ '' contains a non-finite number'')) | Inr v \<Rightarrow> Inr v)"

lemma json_result_Inr_iff [result_simps]: "json_result r = Inr v \<longleftrightarrow> r = Inr v"
  by (auto simp: json_result_def split: sum.splits json_error.splits)

section \<open>Validating constructors\<close>

definition require_nonempty :: "string \<Rightarrow> string \<Rightarrow> runtime_error + unit" where
  "require_nonempty name v =
     (if blank v then Inl (ValueError (name @ '' must not be empty'')) else Inr ())"

definition validate_runtime_identity :: "string \<Rightarrow> string \<Rightarrow> nat \<Rightarrow> runtime_error + unit" where
  "validate_runtime_identity v name maximum =
     (if blank v \<or> maximum < length v then
        Inl (ValueError (name @ '' must contain 1 to '' @ show_nat maximum @
          '' non-whitespace characters''))
      else if has_control v then
        Inl (ValueError (name @ '' must not contain control characters''))
      else Inr ())"

definition identity_ok :: "nat \<Rightarrow> string \<Rightarrow> bool" where
  "identity_ok maximum v = (\<not> blank v \<and> length v \<le> maximum \<and> \<not> has_control v)"

lemma require_nonempty_iff [result_simps]: "require_nonempty name v = Inr () \<longleftrightarrow> \<not> blank v"
  by (simp add: require_nonempty_def)

lemma validate_runtime_identity_iff [result_simps]:
  "validate_runtime_identity v name m = Inr () \<longleftrightarrow> identity_ok m v"
  by (auto simp: validate_runtime_identity_def identity_ok_def)

text \<open>
  \<open>RuntimeRequest.__init__\<close>: the six mandatory texts, the creation time, the two identities, then
  the canonical form of the arguments.
\<close>

definition make_request ::
  "codec \<Rightarrow> string \<Rightarrow> string \<Rightarrow> string \<Rightarrow> (string \<times> json) list \<Rightarrow> string \<Rightarrow> string \<Rightarrow> int \<Rightarrow> string \<Rightarrow>
   string option \<Rightarrow> runtime_error + runtime_request" where
  "make_request K action_id namespace tool_name arguments idempotency_key policy_version
     created_at_ns organization_id requested_by =
   bind_res (map_res (\<lambda>(n, v). require_nonempty n v)
     [(''action_id'', action_id), (''namespace'', namespace), (''tool_name'', tool_name),
      (''idempotency_key'', idempotency_key), (''policy_version'', policy_version),
      (''organization_id'', organization_id)]) (\<lambda>_.
   if created_at_ns < 0 then Inl (ValueError ''created_at_ns must not be negative'')
   else bind_res (validate_runtime_identity organization_id ''organization_id'' 128) (\<lambda>_.
   bind_res (case requested_by of None \<Rightarrow> Inr ()
     | Some r \<Rightarrow> validate_runtime_identity r ''requested_by'' 128) (\<lambda>_.
   bind_res (json_result (canonical_json K (JObj arguments) ''arguments'')) (\<lambda>encoded.
   Inr \<lparr>rq_action_id = action_id, rq_namespace = namespace, rq_tool_name = tool_name,
     rq_idempotency_key = idempotency_key, rq_policy_version = policy_version,
     rq_created_at_ns = created_at_ns, rq_organization_id = organization_id,
     rq_requested_by = requested_by, rq_arguments = json_norm (JObj arguments)\<rparr>))))"

definition opt_str :: "string option \<Rightarrow> json" where
  "opt_str s = (case s of None \<Rightarrow> JNull | Some t \<Rightarrow> JStr t)"

text \<open>The object a request's digest is taken of.\<close>

definition request_identity :: "runtime_request \<Rightarrow> (string \<times> json) list" where
  "request_identity r =
     [(''namespace'', JStr (rq_namespace r)), (''tool_name'', JStr (rq_tool_name r)),
      (''arguments'', rq_arguments r), (''idempotency_key'', JStr (rq_idempotency_key r)),
      (''policy_version'', JStr (rq_policy_version r))] @
     (if rq_organization_id r \<noteq> ''default'' \<or> rq_requested_by r \<noteq> None
      then [(''organization_id'', JStr (rq_organization_id r)),
            (''requested_by'', opt_str (rq_requested_by r))] else [])"

definition request_digest :: "codec \<Rightarrow> runtime_request \<Rightarrow> string" where
  "request_digest K r = sha256_hex K (dumps K (JObj (request_identity r)))"

text \<open>The approval lifetime both \<open>PolicyDecision\<close> and \<open>PolicyRule\<close> accept.\<close>

definition validate_ttl :: "pyfloat \<Rightarrow> runtime_error + unit" where
  "validate_ttl x =
     (if \<not> is_finite x \<or> num_le x (of_int_num 0) then
        Inl (ValueError ''approval_ttl_seconds must be finite and at least one nanosecond'')
      else case seconds_to_ns x of
        None \<Rightarrow> Inl OverflowError
      | Some n \<Rightarrow> if n < 1
          then Inl (ValueError ''approval_ttl_seconds must be finite and at least one nanosecond'')
          else Inr ())"

definition make_decision ::
  "policy_effect \<Rightarrow> string \<Rightarrow> string \<Rightarrow> pyfloat option \<Rightarrow> runtime_error + policy_decision" where
  "make_decision effect rule_name policy_version ttl =
   bind_res (require_nonempty ''policy decision rule_name'' rule_name) (\<lambda>_.
   bind_res (require_nonempty ''policy decision version'' policy_version) (\<lambda>_.
   bind_res (case ttl of None \<Rightarrow> Inr ()
     | Some x \<Rightarrow> bind_res (validate_ttl x) (\<lambda>_.
         if effect \<noteq> REQUIRE_APPROVAL then
           Inl (ValueError ''approval_ttl_seconds is valid only for require_approval decisions'')
         else Inr ())) (\<lambda>_.
   Inr \<lparr>pd_effect = effect, pd_rule_name = rule_name, pd_policy_version = policy_version,
     pd_approval_ttl_seconds = ttl\<rparr>)))"

definition make_authorization ::
  "string \<Rightarrow> string \<Rightarrow> string list \<Rightarrow> decision list \<Rightarrow> bool \<Rightarrow> string option \<Rightarrow>
   runtime_error + decision_authorization" where
  "make_authorization actor organization_id namespaces decisions separate subject =
   bind_res (validate_runtime_identity actor ''actor'' 512) (\<lambda>_.
   bind_res (validate_runtime_identity organization_id ''organization_id'' 128) (\<lambda>_.
   if namespaces = [] \<or> list_ex blank namespaces then
     Inl (ValueError ''namespaces must contain at least one non-empty namespace'')
   else if decisions = [] then Inl (ValueError ''decisions must contain at least one decision'')
   else bind_res (case subject of None \<Rightarrow> Inr ()
     | Some s \<Rightarrow> validate_runtime_identity s ''reviewer_subject'' 128) (\<lambda>_.
   Inr \<lparr>da_actor = actor, da_organization_id = organization_id, da_namespaces = namespaces,
     da_decisions = decisions, da_require_separate_approver = separate,
     da_reviewer_subject = subject\<rparr>)))"

section \<open>What the constructors accept\<close>

definition request_ok :: "runtime_request \<Rightarrow> bool" where
  "request_ok r \<longleftrightarrow>
     \<not> blank (rq_action_id r) \<and> \<not> blank (rq_namespace r) \<and> \<not> blank (rq_tool_name r) \<and>
     \<not> blank (rq_idempotency_key r) \<and> \<not> blank (rq_policy_version r) \<and> 0 \<le> rq_created_at_ns r \<and>
     identity_ok 128 (rq_organization_id r) \<and> (\<forall>u. rq_requested_by r = Some u \<longrightarrow> identity_ok 128 u) \<and>
     json_finite (rq_arguments r) \<and> json_norm (rq_arguments r) = rq_arguments r \<and>
     (\<exists>kvs. rq_arguments r = JObj kvs)"

lemma make_request_InrD:
  assumes "make_request K i ns t args k pv c org req = Inr r"
  shows "r = \<lparr>rq_action_id = i, rq_namespace = ns, rq_tool_name = t, rq_idempotency_key = k,
     rq_policy_version = pv, rq_created_at_ns = c, rq_organization_id = org,
     rq_requested_by = req, rq_arguments = json_norm (JObj args)\<rparr>"
    and "request_ok r"
  using assms json_norm_idem [of "JObj args"] json_norm_finite [of "JObj args"]
  by (auto simp: make_request_def result_simps request_ok_def canonical_json_Inr_iff
      split: if_splits option.splits)

lemma make_request_total:
  assumes "\<not> blank i" "\<not> blank ns" "\<not> blank t" "\<not> blank k" "\<not> blank pv" "0 \<le> c"
    "identity_ok 128 org" "\<And>u. req = Some u \<Longrightarrow> identity_ok 128 u" "json_finite (JObj args)"
  shows "\<exists>r. make_request K i ns t args k pv c org req = Inr r"
  using assms
  by (auto simp: make_request_def result_simps canonical_json_Inr_iff identity_ok_def
      split: option.splits)

lemma validate_ttl_InrD: "validate_ttl x = Inr () \<Longrightarrow> \<exists>ns \<ge> 1. seconds_to_ns x = Some ns"
  by (auto simp: validate_ttl_def split: if_splits option.splits)

lemma make_decision_InrD:
  assumes "make_decision e n v ttl = Inr d"
  shows "d = \<lparr>pd_effect = e, pd_rule_name = n, pd_policy_version = v, pd_approval_ttl_seconds = ttl\<rparr>"
    and "\<not> blank n" "\<not> blank v"
    and "ttl = Some x \<Longrightarrow> e = REQUIRE_APPROVAL \<and> (\<exists>ns \<ge> 1. seconds_to_ns x = Some ns)"
  using assms validate_ttl_InrD
  by (auto simp: make_decision_def result_simps split: option.splits if_splits)

section \<open>Identity of a request\<close>

lemma map_of_norm: "map_of (map (\<lambda>(k, v). (k, json_norm v)) kvs) k = map_option json_norm (map_of kvs k)"
  by (induction kvs) auto

lemma json_norm_obj_eq:
  assumes "json_norm (JObj as) = json_norm (JObj bs)"
    and "distinct (map fst as)" "distinct (map fst bs)"
  shows "map_option json_norm (map_of as k) = map_option json_norm (map_of bs k)"
proof -
  let ?n = "map (\<lambda>(k, v). (k, json_norm v))"
  have "sort_key fst (?n as) = sort_key fst (?n bs)"
    using assms(1) by (simp only: json_norm.simps json.inject)
  then have "set (?n as) = set (?n bs)"
    by (metis set_sort)
  then have "map_of (?n as) = map_of (?n bs)"
    using assms(2,3) by (subst map_of_inject_set) (simp_all only: fst_norm_members)
  then have "map_of (?n as) k = map_of (?n bs) k" by simp
  then show ?thesis by (simp only: map_of_norm)
qed

lemma request_identity_wf:
  "request_ok r \<Longrightarrow> json_wf (rq_arguments r) \<Longrightarrow>
   json_finite (JObj (request_identity r)) \<and> json_wf (JObj (request_identity r))"
  by (auto simp: request_ok_def request_identity_def opt_str_def split: option.splits)

lemma request_identity_lookup:
  "map_of (request_identity r) ''namespace'' = Some (JStr (rq_namespace r))"
  "map_of (request_identity r) ''tool_name'' = Some (JStr (rq_tool_name r))"
  "map_of (request_identity r) ''arguments'' = Some (rq_arguments r)"
  "map_of (request_identity r) ''idempotency_key'' = Some (JStr (rq_idempotency_key r))"
  "map_of (request_identity r) ''policy_version'' = Some (JStr (rq_policy_version r))"
  "map_of (request_identity r) ''organization_id'' =
     (if rq_organization_id r \<noteq> ''default'' \<or> rq_requested_by r \<noteq> None
      then Some (JStr (rq_organization_id r)) else None)"
  "map_of (request_identity r) ''requested_by'' =
     (if rq_organization_id r \<noteq> ''default'' \<or> rq_requested_by r \<noteq> None
      then Some (opt_str (rq_requested_by r)) else None)"
  by (simp_all add: request_identity_def)

lemma opt_str_inject [simp]: "opt_str a = opt_str b \<longleftrightarrow> a = b"
  by (auto simp: opt_str_def split: option.splits)

lemma json_norm_opt_str [simp]: "json_norm (opt_str a) = opt_str a"
  by (simp add: opt_str_def split: option.splits)

text \<open>What a request is, apart from its own id and creation time.\<close>

definition same_request :: "runtime_request \<Rightarrow> runtime_request \<Rightarrow> bool" where
  "same_request r s \<longleftrightarrow>
     rq_namespace r = rq_namespace s \<and> rq_tool_name r = rq_tool_name s \<and>
     rq_arguments r = rq_arguments s \<and> rq_idempotency_key r = rq_idempotency_key s \<and>
     rq_policy_version r = rq_policy_version s \<and> rq_organization_id r = rq_organization_id s \<and>
     rq_requested_by r = rq_requested_by s"

definition digest_payload :: "codec \<Rightarrow> runtime_request \<Rightarrow> string" where
  "digest_payload K r = dumps K (JObj (request_identity r))"

lemma identity_same_request:
  assumes "request_ok r" "request_ok s" "json_wf (rq_arguments r)" "json_wf (rq_arguments s)"
    and eq: "json_norm (JObj (request_identity r)) = json_norm (JObj (request_identity s))"
  shows "same_request r s"
proof -
  have "distinct (map fst (request_identity r))" "distinct (map fst (request_identity s))"
    using assms request_identity_wf by auto
  from json_norm_obj_eq [OF eq this]
  have look: "map_option json_norm (map_of (request_identity r) k) =
      map_option json_norm (map_of (request_identity s) k)" for k .
  have norm: "json_norm (rq_arguments r) = rq_arguments r" "json_norm (rq_arguments s) = rq_arguments s"
    using assms by (simp_all add: request_ok_def)
  have "rq_namespace r = rq_namespace s" "rq_tool_name r = rq_tool_name s"
    "rq_arguments r = rq_arguments s" "rq_idempotency_key r = rq_idempotency_key s"
    "rq_policy_version r = rq_policy_version s"
    using look [of "''namespace''"] look [of "''tool_name''"] look [of "''arguments''"]
      look [of "''idempotency_key''"] look [of "''policy_version''"]
    by (simp_all add: request_identity_lookup norm)
  moreover have "rq_organization_id r = rq_organization_id s \<and> rq_requested_by r = rq_requested_by s"
    using look [of "''organization_id''"] look [of "''requested_by''"]
    unfolding request_identity_lookup by (auto split: if_split_asm)
  ultimately show ?thesis by (simp add: same_request_def)
qed

lemma same_request_digest: "same_request r s \<Longrightarrow> request_digest K r = request_digest K s"
  by (simp add: same_request_def request_digest_def request_identity_def)


text \<open>
  C6. A request digest binds the request: of two accepted requests, the digests agree exactly when
  namespace, tool, arguments, idempotency key, policy version, organization and requester do, as
  long as SHA-256 does not collide on the two encoded identities. The digest never depends on the
  generated action id or on the time of the request.
\<close>

theorem digest_binds_request:
  assumes "make_request K i1 ns1 t1 args1 k1 pv1 c1 org1 by1 = Inr r"
    and "make_request K i2 ns2 t2 args2 k2 pv2 c2 org2 by2 = Inr s"
    and "json_wf (JObj args1)" "json_wf (JObj args2)" and "codec_ok K"
    and "inj_on (sha256_hex K) {digest_payload K r, digest_payload K s}"
  shows "request_digest K r = request_digest K s \<longleftrightarrow> same_request r s"
proof
  assume eq: "request_digest K r = request_digest K s"
  note r = make_request_InrD [OF assms(1)] and s = make_request_InrD [OF assms(2)]
  have wf: "json_wf (rq_arguments r)" "json_wf (rq_arguments s)"
    unfolding r(1) s(1) runtime_request.simps
    by (rule json_norm_wf [OF assms(3)], rule json_norm_wf [OF assms(4)])
  have ids: "json_finite (JObj (request_identity r))" "json_wf (JObj (request_identity r))"
    "json_finite (JObj (request_identity s))" "json_wf (JObj (request_identity s))"
    using request_identity_wf [OF r(2) wf(1)] request_identity_wf [OF s(2) wf(2)] by auto
  have "digest_payload K r = digest_payload K s"
    by (rule inj_onD [OF assms(6)]) (use eq in \<open>simp_all only: request_digest_def digest_payload_def insert_iff simp_thms\<close>)
  then have "json_norm (JObj (request_identity r)) = json_norm (JObj (request_identity s))"
    unfolding digest_payload_def by (rule dumps_inject [OF assms(5) ids])
  then show "same_request r s"
    by (rule identity_same_request [OF r(2) s(2) wf])
qed (rule same_request_digest)

definition demo_request :: "string \<Rightarrow> int \<Rightarrow> runtime_request" where
  "demo_request i amount = \<lparr>rq_action_id = i, rq_namespace = ''payments'', rq_tool_name = ''refund'',
     rq_idempotency_key = ''key-1'', rq_policy_version = ''v1'', rq_created_at_ns = 5,
     rq_organization_id = ''default'', rq_requested_by = None,
     rq_arguments = JObj [(''amount'', JInt amount), (''to'', JStr ''bob'')]\<rparr>"

lemma demo_codec_sha [simp]: "sha256_hex demo_codec = (\<lambda>s. s)"
  by (simp add: demo_codec_def)

lemma demo_request_made:
  assumes "\<not> blank i"
  shows "make_request demo_codec i ''payments'' ''refund'' [(''to'', JStr ''bob''), (''amount'', JInt amount)]
    ''key-1'' ''v1'' 5 ''default'' None = Inr (demo_request i amount)"
proof -
  have "\<exists>r. make_request demo_codec i ''payments'' ''refund''
      [(''to'', JStr ''bob''), (''amount'', JInt amount)] ''key-1'' ''v1'' 5 ''default'' None = Inr r"
    using assms by (intro make_request_total)
      (simp_all add: blank_iff py_space_def code_def identity_ok_def has_control_def control_char_def)
  then obtain r where r: "make_request demo_codec i ''payments'' ''refund''
      [(''to'', JStr ''bob''), (''amount'', JInt amount)] ''key-1'' ''v1'' 5 ''default'' None = Inr r" ..
  have "r = demo_request i amount"
    unfolding make_request_InrD(1) [OF r] by (simp add: demo_request_def)
  with r show ?thesis by simp
qed

lemma digest_binds_request_witness:
  "request_digest demo_codec (demo_request ''a1'' 5) = request_digest demo_codec (demo_request ''a2'' 5) \<and>
   request_digest demo_codec (demo_request ''a1'' 5) \<noteq> request_digest demo_codec (demo_request ''a2'' 6)"
proof -
  have ids: "\<not> blank ''a1''" "\<not> blank ''a2''"
    by (simp_all add: blank_iff py_space_def code_def)
  have "request_digest demo_codec (demo_request ''a1'' m) = request_digest demo_codec (demo_request ''a2'' n)
      \<longleftrightarrow> m = n" for m n
    using digest_binds_request [OF demo_request_made [OF ids(1), of m]
        demo_request_made [OF ids(2), of n] _ _ demo_codec_ok]
    by (simp add: inj_on_def same_request_def demo_request_def)
  then show ?thesis by simp
qed

end
