(* ===== verification/Glob.thy ===== *)
theory Glob
  imports Prelude
begin

text \<open>
  The tool patterns of runtime/policy.py: \<open>fnmatch.fnmatchcase\<close> of the standard library.
  \<open>parse_glob\<close> follows \<open>fnmatch.translate\<close>, a character class included (its split into chunks at
  the hyphens, the removal of empty ranges, and the negation read off the text that is left), and
  \<open>glob_match\<close> is the matcher; \<open>glob_match_iff\<close> shows that it decides the pattern's language.
\<close>

datatype glob_item =
    GChar char
  | GAny
  | GStar
  | GSet bool "(char \<times> char) list"

section \<open>Character classes\<close>

text \<open>
  The chunks of the text of a class: it is cut at a hyphen, and the next hyphen that cuts is at
  least three places further. \<open>n\<close> is how many characters must precede the next cut.
\<close>

fun class_chunks :: "nat \<Rightarrow> string \<Rightarrow> string \<Rightarrow> string list" where
  "class_chunks n acc [] = [acc]"
| "class_chunks (Suc n) acc (c # cs) = class_chunks n (acc @ [c]) cs"
| "class_chunks 0 acc (c # cs) =
     (if c = CHR ''-'' then acc # class_chunks 2 [] cs else class_chunks 0 (acc @ [c]) cs)"

text \<open>An empty last chunk means that the class ends in a hyphen, which is then an element.\<close>

definition close_chunks :: "string list \<Rightarrow> string list" where
  "close_chunks cs = (if cs \<noteq> [] \<and> last cs = [] \<and> butlast cs \<noteq> []
     then butlast (butlast cs) @ [last (butlast cs) @ ''-''] else cs)"

text \<open>From the right, two chunks whose range is empty become one without its two ends.\<close>

fun drop_empty_ranges :: "string list \<Rightarrow> string list" where
  "drop_empty_ranges [] = []"
| "drop_empty_ranges [c] = [c]"
| "drop_empty_ranges (c # cs) = (case drop_empty_ranges cs of
     [] \<Rightarrow> [c]
   | d # ds \<Rightarrow> if c \<noteq> [] \<and> d \<noteq> [] \<and> code (hd d) < code (last c)
       then (butlast c @ tl d) # ds else c # d # ds)"

text \<open>The ranges of the chunks: neighbours are joined by a range, other characters are alone.\<close>

fun chunk_ranges :: "string list \<Rightarrow> (char \<times> char) list" where
  "chunk_ranges [] = []"
| "chunk_ranges [c] = map (\<lambda>x. (x, x)) c"
| "chunk_ranges (c # d # ds) =
     (if c = [] then (CHR ''-'', CHR ''-'') # chunk_ranges (d # ds)
      else map (\<lambda>x. (x, x)) (butlast c) @ (last c, hd d) # chunk_ranges (tl d # ds))"

text \<open>
  A class from its text. An empty text never matches; a text that is, or has become, an exclamation
  mark followed by elements is negated.
\<close>

definition class_item :: "string \<Rightarrow> glob_item" where
  "class_item stuff =
     (let chunks = (if CHR ''-'' \<in> set stuff
          then drop_empty_ranges (close_chunks
            (class_chunks (if take 1 stuff = ''!'' then 2 else 1) [] stuff))
          else [stuff])
      in case chunks of
           (CHR ''!'' # c) # cs \<Rightarrow> GSet True (chunk_ranges (c # cs))
         | _ \<Rightarrow> GSet False (chunk_ranges chunks))"

text \<open>
  The text of a class after its opening bracket, and what follows the closing one; a closing
  bracket that comes first (after an exclamation mark) is an element.
\<close>

definition class_text :: "string \<Rightarrow> (string \<times> string) option" where
  "class_text s =
     (let a = (if take 1 s = ''!'' then 1 else 0);
          b = (if take 1 (drop a s) = '']'' then a + 1 else a);
          body = takeWhile (\<lambda>c. c \<noteq> CHR '']'') (drop b s);
          rest = dropWhile (\<lambda>c. c \<noteq> CHR '']'') (drop b s)
      in case rest of [] \<Rightarrow> None | _ # r \<Rightarrow> Some (take b s @ body, r))"

lemma class_text_length: "class_text s = Some (t, r) \<Longrightarrow> length r < length s"
proof -
  assume a: "class_text s = Some (t, r)"
  define b where "b = (let a = (if take 1 s = ''!'' then 1 else 0)
    in if take 1 (drop a s) = '']'' then a + 1 else a)"
  have "dropWhile (\<lambda>c. c \<noteq> CHR '']'') (drop b s) = CHR '']'' # r \<or>
      (\<exists>c. dropWhile (\<lambda>c. c \<noteq> CHR '']'') (drop b s) = c # r)"
    using a by (auto simp: class_text_def b_def Let_def split: list.splits if_splits)
  then have "length r < length (drop b s)"
    by (metis Suc_le_eq length_Cons length_dropWhile_le)
  also have "\<dots> \<le> length s" by simp
  finally show ?thesis .
qed

section \<open>Patterns\<close>

function parse_glob :: "string \<Rightarrow> glob_item list" where
  "parse_glob [] = []"
| "parse_glob (c # cs) =
     (if c = CHR ''*'' then GStar # parse_glob cs
      else if c = CHR ''?'' then GAny # parse_glob cs
      else if c = CHR ''['' then
        (case class_text cs of None \<Rightarrow> GChar c # parse_glob cs
         | Some (t, r) \<Rightarrow> class_item t # parse_glob r)
      else GChar c # parse_glob cs)"
  by pat_completeness auto
termination
  by (relation "measure length") (auto dest: class_text_length)

definition item_matches :: "glob_item \<Rightarrow> char \<Rightarrow> bool" where
  "item_matches i c = (case i of
     GChar d \<Rightarrow> c = d
   | GAny \<Rightarrow> True
   | GStar \<Rightarrow> False
   | GSet neg rs \<Rightarrow> neg \<noteq> list_ex (\<lambda>(a, b). code a \<le> code c \<and> code c \<le> code b) rs)"

fun glob_match :: "glob_item list \<Rightarrow> string \<Rightarrow> bool" where
  "glob_match [] s = (s = [])"
| "glob_match (GStar # is) [] = glob_match is []"
| "glob_match (GStar # is) (c # cs) = (glob_match is (c # cs) \<or> glob_match (GStar # is) cs)"
| "glob_match (i # is) [] = False"
| "glob_match (i # is) (c # cs) = (item_matches i c \<and> glob_match is cs)"

definition fnmatchcase :: "string \<Rightarrow> string \<Rightarrow> bool" where
  "fnmatchcase s pattern = glob_match (parse_glob pattern) s"

section \<open>The language of a pattern\<close>

inductive in_glob :: "glob_item list \<Rightarrow> string \<Rightarrow> bool" where
  nil: "in_glob [] []"
| star: "in_glob is s \<Longrightarrow> in_glob (GStar # is) (t @ s)"
| item: "item_matches i c \<Longrightarrow> in_glob is s \<Longrightarrow> in_glob (i # is) (c # s)"

inductive_cases in_glob_NilE [elim!]: "in_glob [] s"
inductive_cases in_glob_ConsE: "in_glob (i # is) s"

lemma glob_star_iff: "glob_match (GStar # is) s \<longleftrightarrow> (\<exists>t u. s = t @ u \<and> glob_match is u)"
proof (induction s)
  case (Cons c cs)
  have "(\<exists>t u. c # cs = t @ u \<and> glob_match is u) \<longleftrightarrow>
      glob_match is (c # cs) \<or> (\<exists>t u. cs = t @ u \<and> glob_match is u)"
    by (auto simp: Cons_eq_append_conv)
  with Cons.IH show ?case by simp
qed auto

lemma glob_item_iff:
  "i \<noteq> GStar \<Longrightarrow> glob_match (i # is) s \<longleftrightarrow> (\<exists>c u. s = c # u \<and> item_matches i c \<and> glob_match is u)"
  by (cases i; cases s) auto

lemma glob_match_iff: "glob_match is s \<longleftrightarrow> in_glob is s"
proof (induction "is" arbitrary: s)
  case (Cons i "is")
  show ?case
  proof (cases "i = GStar")
    case True
    then show ?thesis
      by (auto simp: glob_star_iff Cons.IH item_matches_def elim!: in_glob_ConsE intro: in_glob.star)
  next
    case False
    then show ?thesis
      by (auto simp: glob_item_iff Cons.IH elim!: in_glob_ConsE intro: in_glob.item)
  qed
qed (auto intro: in_glob.nil)

text \<open>A pattern with no special character matches itself only; \<open>*\<close> matches every name.\<close>

definition plain_char :: "char \<Rightarrow> bool" where
  "plain_char c = (c \<noteq> CHR ''*'' \<and> c \<noteq> CHR ''?'' \<and> c \<noteq> CHR ''['')"

lemma parse_glob_plain: "list_all plain_char p \<Longrightarrow> parse_glob p = map GChar p"
  by (induction p) (auto simp: plain_char_def)

lemma glob_match_chars: "glob_match (map GChar p) s \<longleftrightarrow> s = p"
proof (induction p arbitrary: s)
  case (Cons c p)
  then show ?case by (cases s) (auto simp: item_matches_def)
qed simp

lemma fnmatchcase_plain: "list_all plain_char p \<Longrightarrow> fnmatchcase s p \<longleftrightarrow> s = p"
  by (simp add: fnmatchcase_def parse_glob_plain glob_match_chars)

lemma fnmatchcase_star [simp]: "fnmatchcase s ''*''"
  by (simp add: fnmatchcase_def glob_star_iff)

lemma fnmatchcase_prefix:
  assumes "list_all plain_char p"
  shows "fnmatchcase s (p @ ''*'') \<longleftrightarrow> starts_with s p"
proof -
  have items: "parse_glob (p @ ''*'') = map GChar p @ [GStar]"
    using assms by (induction p) (auto simp: plain_char_def)
  have "glob_match (map GChar p @ [GStar]) s \<longleftrightarrow> starts_with s p"
  proof (induction p arbitrary: s)
    case Nil
    show ?case by (simp add: glob_star_iff starts_with_def)
  next
    case (Cons c p)
    then show ?case by (cases s) (auto simp: item_matches_def starts_with_def)
  qed
  with items show ?thesis by (simp add: fnmatchcase_def)
qed

end
