(* ===== verification/Policy.thy ===== *)
theory Policy
  imports Models Glob
begin

text \<open>
  Deterministic policy evaluation: runtime/policy.py. A policy document is a JSON object
  (\<open>policy_from_mapping\<close>); evaluation takes the first rule whose tool pattern and argument
  conditions match, and the default effect otherwise.
\<close>

section \<open>Argument conditions\<close>

record argument_condition =
  co_path :: string
  co_operator :: condition_operator
  co_value :: json

fun is_number :: "json \<Rightarrow> bool" where
  "is_number (JInt _) = True"
| "is_number (JFloat _) = True"
| "is_number _ = False"

fun is_str :: "json \<Rightarrow> bool" where
  "is_str (JStr _) = True"
| "is_str _ = False"

fun is_bool :: "json \<Rightarrow> bool" where
  "is_bool (JBool _) = True"
| "is_bool _ = False"

fun is_list :: "json \<Rightarrow> bool" where
  "is_list (JList _) = True"
| "is_list _ = False"

definition ordering_ops :: "condition_operator list" where
  "ordering_ops = [Op_LT, Op_LE, Op_GT, Op_GE]"

definition make_condition ::
  "codec \<Rightarrow> string \<Rightarrow> condition_operator \<Rightarrow> json \<Rightarrow> runtime_error + argument_condition" where
  "make_condition K path operator v =
   bind_res (require_nonempty ''condition path'' path) (\<lambda>_.
   bind_res (json_result (canonical_json K v ''condition value'')) (\<lambda>_.
   if operator = Op_EXISTS \<and> \<not> is_bool v then
     Inl (TypeError ''exists condition value must be a boolean'')
   else if operator \<in> {Op_IN, Op_NOT_IN} \<and> \<not> is_list v then
     Inl (TypeError ''condition value must be a list'')
   else if operator \<in> {Op_STARTS_WITH, Op_ENDS_WITH} \<and> \<not> is_str v then
     Inl (TypeError ''condition value must be a string'')
   else if operator \<in> set ordering_ops \<and> \<not> (is_number v \<or> is_str v) then
     Inl (TypeError ''condition value must be a number or string'')
   else Inr \<lparr>co_path = path, co_operator = operator, co_value = v\<rparr>))"

definition json_num :: "json \<Rightarrow> pyfloat" where
  "json_num j = (case j of JInt i \<Rightarrow> of_int_num i | JFloat x \<Rightarrow> x | _ \<Rightarrow> NaN)"

definition ordered_match :: "condition_operator \<Rightarrow> json \<Rightarrow> json \<Rightarrow> bool" where
  "ordered_match operator a v =
     (if is_number a \<and> is_number v then
        (if operator = Op_LT then num_less (json_num a) (json_num v)
         else if operator = Op_LE then num_le (json_num a) (json_num v)
         else if operator = Op_GT then num_less (json_num v) (json_num a)
         else num_le (json_num v) (json_num a))
      else case (a, v) of
        (JStr s, JStr t) \<Rightarrow>
          (if operator = Op_LT then s < t else if operator = Op_LE then s \<le> t
           else if operator = Op_GT then t < s else t \<le> s)
      | _ \<Rightarrow> False)"

definition contains_match :: "json \<Rightarrow> json \<Rightarrow> bool" where
  "contains_match a v = (case a of
     JStr s \<Rightarrow> (case v of JStr t \<Rightarrow> contains_str s t | _ \<Rightarrow> False)
   | JList xs \<Rightarrow> list_ex (\<lambda>x. py_eq x v) xs
   | JObj kvs \<Rightarrow> (case v of JStr t \<Rightarrow> map_of kvs t \<noteq> None | _ \<Rightarrow> False)
   | _ \<Rightarrow> False)"

definition condition_matches :: "argument_condition \<Rightarrow> json \<Rightarrow> bool" where
  "condition_matches c arguments =
     (let actual = lookup_path arguments (split_on (CHR ''.'') (co_path c));
          v = co_value c; operator = co_operator c
      in if operator = Op_EXISTS then (actual \<noteq> None) = (v = JBool True)
         else case actual of None \<Rightarrow> False
         | Some a \<Rightarrow>
             (case operator of
                Op_EQ \<Rightarrow> py_eq a v
              | Op_NE \<Rightarrow> \<not> py_eq a v
              | Op_IN \<Rightarrow> (case v of JList xs \<Rightarrow> list_ex (\<lambda>x. py_eq x a) xs | _ \<Rightarrow> False)
              | Op_NOT_IN \<Rightarrow> (case v of JList xs \<Rightarrow> \<not> list_ex (\<lambda>x. py_eq x a) xs | _ \<Rightarrow> False)
              | Op_CONTAINS \<Rightarrow> contains_match a v
              | Op_STARTS_WITH \<Rightarrow>
                  (case (a, v) of (JStr s, JStr t) \<Rightarrow> starts_with s t | _ \<Rightarrow> False)
              | Op_ENDS_WITH \<Rightarrow> (case (a, v) of (JStr s, JStr t) \<Rightarrow> ends_with s t | _ \<Rightarrow> False)
              | _ \<Rightarrow> ordered_match operator a v))"

section \<open>Rules and policies\<close>

record policy_rule =
  pr_name :: string
  pr_effect :: policy_effect
  pr_tool :: string
  pr_conditions :: "argument_condition list"
  pr_approval_ttl_seconds :: "pyfloat option"

record runtime_policy =
  po_version :: string
  po_rules :: "policy_rule list"
  po_default_effect :: policy_effect

definition make_rule ::
  "string \<Rightarrow> policy_effect \<Rightarrow> string \<Rightarrow> argument_condition list \<Rightarrow> pyfloat option \<Rightarrow>
   runtime_error + policy_rule" where
  "make_rule name effect tool conditions ttl =
   bind_res (require_nonempty ''rule name'' name) (\<lambda>_.
   bind_res (require_nonempty ''rule tool pattern'' tool) (\<lambda>_.
   bind_res (case ttl of None \<Rightarrow> Inr () | Some x \<Rightarrow> validate_ttl x) (\<lambda>_.
   if effect \<noteq> REQUIRE_APPROVAL \<and> ttl \<noteq> None then
     Inl (ValueError ''approval_ttl_seconds is valid only for require_approval rules'')
   else Inr \<lparr>pr_name = name, pr_effect = effect, pr_tool = tool, pr_conditions = conditions,
     pr_approval_ttl_seconds = ttl\<rparr>)))"

definition rule_matches :: "policy_rule \<Rightarrow> string \<Rightarrow> json \<Rightarrow> bool" where
  "rule_matches r tool_name arguments =
     (fnmatchcase tool_name (pr_tool r) \<and>
      list_all (\<lambda>c. condition_matches c arguments) (pr_conditions r))"

definition make_policy ::
  "string \<Rightarrow> policy_rule list \<Rightarrow> policy_effect \<Rightarrow> runtime_error + runtime_policy" where
  "make_policy version rules default_effect =
   bind_res (require_nonempty ''policy version'' version) (\<lambda>_.
   if \<not> distinct (map pr_name rules) then Inl (ValueError ''policy rule names must be unique'')
   else Inr \<lparr>po_version = version, po_rules = rules, po_default_effect = default_effect\<rparr>)"

text \<open>The loop of \<open>evaluate\<close> over the rules.\<close>

fun evaluate_rules ::
  "string \<Rightarrow> policy_effect \<Rightarrow> policy_rule list \<Rightarrow> string \<Rightarrow> json \<Rightarrow> runtime_error + policy_decision" where
  "evaluate_rules version default_effect [] tool_name arguments =
     make_decision default_effect ''<default>'' version None"
| "evaluate_rules version default_effect (r # rs) tool_name arguments =
     (if rule_matches r tool_name arguments
      then make_decision (pr_effect r) (pr_name r) version (pr_approval_ttl_seconds r)
      else evaluate_rules version default_effect rs tool_name arguments)"

definition evaluate :: "runtime_policy \<Rightarrow> string \<Rightarrow> json \<Rightarrow> runtime_error + policy_decision" where
  "evaluate p tool_name arguments =
   bind_res (require_nonempty ''tool_name'' tool_name) (\<lambda>_.
     evaluate_rules (po_version p) (po_default_effect p) (po_rules p) tool_name arguments)"

section \<open>Policy documents\<close>

definition validate_keys ::
  "(string \<times> json) list \<Rightarrow> string list \<Rightarrow> string \<Rightarrow> runtime_error + unit" where
  "validate_keys data allowed label =
     (let unknown = sort (filter (\<lambda>k. k \<notin> set allowed) (map fst data))
      in if unknown \<noteq> [] then
           Inl (ValueError (''unknown '' @ label @ '' keys: '' @ join_on '', '' unknown))
         else Inr ())"

text \<open>\<open>data.get(key, default)\<close>\<close>

definition dict_get :: "(string \<times> json) list \<Rightarrow> string \<Rightarrow> json \<Rightarrow> json" where
  "dict_get data key d = (case map_of data key of None \<Rightarrow> d | Some v \<Rightarrow> v)"

text \<open>\<open>float(x)\<close> of a number that is not a boolean; a huge integer overflows.\<close>

definition to_float :: "json \<Rightarrow> runtime_error + pyfloat" where
  "to_float j = (case j of
     JInt i \<Rightarrow> (case round64 i 0 of Fin m e \<Rightarrow> Inr (Fin m e) | _ \<Rightarrow> Inl OverflowError)
   | JFloat x \<Rightarrow> Inr x
   | _ \<Rightarrow> Inl (TypeError ''float''))"

definition parse_condition :: "codec \<Rightarrow> json \<Rightarrow> runtime_error + argument_condition" where
  "parse_condition K v = (case v of
     JObj c \<Rightarrow>
       bind_res (validate_keys c [''path'', ''operator'', ''value''] ''condition'') (\<lambda>_.
       (case (dict_get c ''path'' JNull, dict_get c ''operator'' JNull) of
          (JStr path, JStr operator) \<Rightarrow>
            (case operator_of_text operator of
               None \<Rightarrow> Inl (ValueError ''not a valid ConditionOperator'')
             | Some opr \<Rightarrow> make_condition K path opr (dict_get c ''value'' (JBool True)))
        | _ \<Rightarrow> Inl (TypeError ''condition path and operator must be strings'')))
   | _ \<Rightarrow> Inl (TypeError ''each policy condition must be an object''))"

definition parse_rule :: "codec \<Rightarrow> json \<Rightarrow> runtime_error + policy_rule" where
  "parse_rule K v = (case v of
     JObj r \<Rightarrow>
       bind_res (validate_keys r [''name'', ''effect'', ''tool'', ''approval_ttl_seconds'',
         ''conditions''] ''rule'') (\<lambda>_.
       (case (dict_get r ''name'' JNull, dict_get r ''effect'' JNull, dict_get r ''tool'' (JStr ''*'')) of
          (JStr name, JStr effect, JStr tool) \<Rightarrow>
            (let ttl = dict_get r ''approval_ttl_seconds'' JNull in
             if ttl \<noteq> JNull \<and> \<not> is_number ttl then
               Inl (TypeError ''approval_ttl_seconds must be a number'')
             else case dict_get r ''conditions'' (JList []) of
               JList raw \<Rightarrow>
                 bind_res (map_res (parse_condition K) raw) (\<lambda>conditions.
                 case effect_of_text effect of
                   None \<Rightarrow> Inl (ValueError ''not a valid PolicyEffect'')
                 | Some eff \<Rightarrow>
                     bind_res (if ttl = JNull then Inr None
                       else bind_res (to_float ttl) (\<lambda>x. Inr (Some x))) (\<lambda>t.
                     make_rule name eff tool conditions t))
             | _ \<Rightarrow> Inl (TypeError ''rule conditions must be a list''))
        | _ \<Rightarrow> Inl (TypeError ''rule name, effect, and tool must be strings'')))
   | _ \<Rightarrow> Inl (TypeError ''each policy rule must be an object''))"

definition policy_from_mapping :: "codec \<Rightarrow> (string \<times> json) list \<Rightarrow> runtime_error + runtime_policy" where
  "policy_from_mapping K data =
   bind_res (validate_keys data [''version'', ''default'', ''rules''] ''policy'') (\<lambda>_.
   case dict_get data ''version'' JNull of
     JStr version \<Rightarrow>
       (case dict_get data ''default'' (JStr ''deny'') of
          JStr default_value \<Rightarrow>
            (case dict_get data ''rules'' JNull of
               JList raw \<Rightarrow>
                 bind_res (map_res (parse_rule K) raw) (\<lambda>rules.
                 case effect_of_text default_value of
                   None \<Rightarrow> Inl (ValueError ''not a valid PolicyEffect'')
                 | Some eff \<Rightarrow> make_policy version rules eff)
             | _ \<Rightarrow> Inl (TypeError ''policy rules must be a list''))
        | _ \<Rightarrow> Inl (TypeError ''policy default must be a string''))
   | _ \<Rightarrow> Inl (TypeError ''policy version must be a string''))"

text \<open>\<open>from_file\<close>, on the text of the file.\<close>

definition policy_from_text :: "codec \<Rightarrow> string \<Rightarrow> runtime_error + runtime_policy" where
  "policy_from_text K text = (case loads K text of
     None \<Rightarrow> Inl (ValueError ''invalid JSON'')
   | Some (JObj data) \<Rightarrow> policy_from_mapping K data
   | Some _ \<Rightarrow> Inl (TypeError ''policy document must be a JSON object''))"

section \<open>What a loaded policy satisfies\<close>

definition rule_ok :: "policy_rule \<Rightarrow> bool" where
  "rule_ok r \<longleftrightarrow> \<not> blank (pr_name r) \<and> \<not> blank (pr_tool r) \<and>
     (\<forall>x. pr_approval_ttl_seconds r = Some x \<longrightarrow>
        pr_effect r = REQUIRE_APPROVAL \<and> validate_ttl x = Inr ())"

definition policy_ok :: "runtime_policy \<Rightarrow> bool" where
  "policy_ok p \<longleftrightarrow> \<not> blank (po_version p) \<and> distinct (map pr_name (po_rules p)) \<and>
     list_all rule_ok (po_rules p)"

lemma make_rule_ok: "make_rule n e t cs ttl = Inr r \<Longrightarrow> rule_ok r"
  by (auto simp: make_rule_def result_simps rule_ok_def split: if_splits option.splits)

lemma parse_rule_ok: "parse_rule K v = Inr r \<Longrightarrow> rule_ok r"
  by (auto simp: parse_rule_def result_simps Let_def dest: make_rule_ok
      split: json.splits option.splits if_splits)

lemma make_policy_Inr_iff [result_simps]:
  "make_policy v rs e = Inr p \<longleftrightarrow> \<not> blank v \<and> distinct (map pr_name rs) \<and>
     p = \<lparr>po_version = v, po_rules = rs, po_default_effect = e\<rparr>"
  by (auto simp: make_policy_def result_simps)

lemma map_parse_rule_ok: "map_res (parse_rule K) raw = Inr rs \<Longrightarrow> list_all rule_ok rs"
  by (auto simp: map_res_Inr_iff list_all2_conv_all_nth list_all_length dest: parse_rule_ok)

lemma policy_from_mapping_ok: "policy_from_mapping K data = Inr p \<Longrightarrow> policy_ok p"
  by (auto simp: policy_from_mapping_def result_simps policy_ok_def dest: map_parse_rule_ok
      split: json.splits option.splits)

lemma policy_from_text_ok: "policy_from_text K text = Inr p \<Longrightarrow> policy_ok p"
  by (auto simp: policy_from_text_def dest: policy_from_mapping_ok split: option.splits json.splits)

lemma make_decision_total:
  "\<not> blank n \<Longrightarrow> \<not> blank v \<Longrightarrow>
   (\<And>x. ttl = Some x \<Longrightarrow> e = REQUIRE_APPROVAL \<and> validate_ttl x = Inr ()) \<Longrightarrow>
   make_decision e n v ttl = Inr \<lparr>pd_effect = e, pd_rule_name = n, pd_policy_version = v,
     pd_approval_ttl_seconds = ttl\<rparr>"
  by (auto simp: make_decision_def require_nonempty_def split: option.splits)

lemma default_name_not_blank: "\<not> blank ''<default>''"
  by (simp add: blank_iff py_space_def code_def)

text \<open>The decision the first matching rule stands for, and the one of the default.\<close>

definition decision_of :: "runtime_policy \<Rightarrow> policy_rule option \<Rightarrow> policy_decision" where
  "decision_of p found = (case found of
     Some r \<Rightarrow> \<lparr>pd_effect = pr_effect r, pd_rule_name = pr_name r,
       pd_policy_version = po_version p, pd_approval_ttl_seconds = pr_approval_ttl_seconds r\<rparr>
   | None \<Rightarrow> \<lparr>pd_effect = po_default_effect p, pd_rule_name = ''<default>'',
       pd_policy_version = po_version p, pd_approval_ttl_seconds = None\<rparr>)"

lemma evaluate_rules_find:
  "\<not> blank (po_version p) \<Longrightarrow> list_all rule_ok rs \<Longrightarrow>
   evaluate_rules (po_version p) (po_default_effect p) rs t args =
   Inr (decision_of p (List.find (\<lambda>r. rule_matches r t args) rs))"
  by (induction rs)
    (auto simp: decision_of_def rule_ok_def default_name_not_blank intro!: make_decision_total)

lemma evaluate_find:
  "policy_ok p \<Longrightarrow> \<not> blank t \<Longrightarrow>
   evaluate p t args = Inr (decision_of p (List.find (\<lambda>r. rule_matches r t args) (po_rules p)))"
  by (simp add: evaluate_def policy_ok_def evaluate_rules_find require_nonempty_def)

lemma find_first_iff:
  "List.find P xs = Some x \<longleftrightarrow>
   (\<exists>i < length xs. xs ! i = x \<and> P x \<and> (\<forall>j < i. \<not> P (xs ! j)))"
  by (auto simp: find_Some_iff)

section \<open>A concrete policy\<close>

definition demo_document :: "(string \<times> json) list" where
  "demo_document =
     [(''rules'', JList
        [JObj [(''conditions'', JList [JObj [(''operator'', JStr ''gt''),
                 (''path'', JStr ''amount''), (''value'', JInt 100)]]),
               (''effect'', JStr ''require_approval''), (''name'', JStr ''big''),
               (''tool'', JStr ''pay_*'')],
         JObj [(''effect'', JStr ''allow''), (''name'', JStr ''small''), (''tool'', JStr ''pay_*'')]]),
      (''version'', JStr ''v1'')]"

definition demo_policy :: runtime_policy where
  "demo_policy = \<lparr>po_version = ''v1'', po_rules =
     [\<lparr>pr_name = ''big'', pr_effect = REQUIRE_APPROVAL, pr_tool = ''pay_*'', pr_conditions =
         [\<lparr>co_path = ''amount'', co_operator = Op_GT, co_value = JInt 100\<rparr>],
         pr_approval_ttl_seconds = None\<rparr>,
      \<lparr>pr_name = ''small'', pr_effect = ALLOW, pr_tool = ''pay_*'', pr_conditions = [],
         pr_approval_ttl_seconds = None\<rparr>], po_default_effect = DENY\<rparr>"

lemma demo_policy_loads: "policy_from_mapping demo_codec demo_document = Inr demo_policy"
  by code_simp

lemma demo_matches:
  "rule_matches (po_rules demo_policy ! 0) ''pay_bill'' (JObj [(''amount'', JInt 500)])"
  "\<not> rule_matches (po_rules demo_policy ! 0) ''pay_bill'' (JObj [(''amount'', JInt 50)])"
  by code_simp+

lemma demo_text_loads:
  "policy_from_text demo_codec (dumps demo_codec (JObj demo_document)) = Inr demo_policy"
proof -
  have "json_finite (JObj demo_document)" "json_wf (JObj demo_document)"
    "json_norm (JObj demo_document) = JObj demo_document"
    by code_simp+
  then show ?thesis
    using loads_dumps [OF demo_codec_ok, of "JObj demo_document"]
    by (simp add: policy_from_text_def demo_policy_loads)
qed

lemma demo_tool_not_blank: "\<not> blank ''pay_bill''" "\<not> blank ''delete''"
  by code_simp+

section \<open>Properties\<close>

text \<open>
  C13. Every policy document that loads is total and deterministic on non-blank tool names: the
  decision is that of the first rule in document order whose pattern and conditions all match, under
  the policy's version, and the default effect decides when no rule matches.
\<close>

theorem evaluate_first_match:
  assumes "policy_from_text K text = Inr p" and "\<not> blank t"
  shows "\<exists>d. evaluate p t args = Inr d \<and> pd_policy_version d = po_version p \<and>
    ((\<exists>i < length (po_rules p). let r = po_rules p ! i in
        rule_matches r t args \<and> (\<forall>j < i. \<not> rule_matches (po_rules p ! j) t args) \<and>
        pd_effect d = pr_effect r \<and> pd_rule_name d = pr_name r \<and>
        pd_approval_ttl_seconds d = pr_approval_ttl_seconds r) \<or>
     (\<forall>r \<in> set (po_rules p). \<not> rule_matches r t args) \<and>
        pd_effect d = po_default_effect p \<and> pd_rule_name d = ''<default>'')"
proof -
  have ev: "evaluate p t args =
      Inr (decision_of p (List.find (\<lambda>r. rule_matches r t args) (po_rules p)))"
    by (rule evaluate_find [OF policy_from_text_ok [OF assms(1)] assms(2)])
  show ?thesis
  proof (cases "List.find (\<lambda>r. rule_matches r t args) (po_rules p)")
    case None
    with ev have "evaluate p t args = Inr (decision_of p None)" by simp
    with None show ?thesis by (simp add: decision_of_def find_None_iff)
  next
    case (Some r)
    with ev have "evaluate p t args = Inr (decision_of p (Some r))" by simp
    moreover obtain i where "i < length (po_rules p)" "po_rules p ! i = r" "rule_matches r t args"
      "\<forall>j < i. \<not> rule_matches (po_rules p ! j) t args"
      using Some by (auto simp: find_first_iff)
    ultimately show ?thesis by (auto simp: decision_of_def Let_def)
  qed
qed

text \<open>
  A policy fails closed: a document that loads and names no default denies every tool call that
  no rule matches, whatever its arguments.
\<close>

theorem policy_default_deny:
  assumes "policy_from_mapping K data = Inr p" and "''default'' \<notin> fst ` set data"
    and "\<not> blank t" and "\<forall>r \<in> set (po_rules p). \<not> rule_matches r t args"
  shows "\<exists>d. evaluate p t args = Inr d \<and> pd_effect d = DENY \<and> pd_approval_ttl_seconds d = None"
proof -
  have "dict_get data ''default'' (JStr ''deny'') = JStr ''deny''"
    using assms(2) by (auto simp: dict_get_def map_of_eq_None_iff [symmetric] split: option.splits)
  then have "po_default_effect p = DENY"
    using assms(1)
    by (auto simp: policy_from_mapping_def make_policy_def result_simps effect_of_text_def
        split: json.splits option.splits if_splits)
  moreover have "List.find (\<lambda>r. rule_matches r t args) (po_rules p) = None"
    using assms(4) by (simp add: find_None_iff)
  ultimately show ?thesis
    by (simp add: evaluate_find [OF policy_from_mapping_ok [OF assms(1)] assms(3)] decision_of_def)
qed


lemma evaluate_first_match_witness:
  "\<exists>d. evaluate demo_policy ''pay_bill'' (JObj [(''amount'', JInt 500)]) = Inr d \<and>
     pd_policy_version d = ''v1''"
  using evaluate_first_match [OF demo_text_loads demo_tool_not_blank(1)]
  by (auto simp: demo_policy_def)

lemma policy_default_deny_witness:
  "\<exists>d. evaluate demo_policy ''delete'' (JObj []) = Inr d \<and> pd_effect d = DENY"
proof -
  have "\<forall>r \<in> set (po_rules demo_policy). \<not> rule_matches r ''delete'' (JObj [])"
    by code_simp
  moreover have "''default'' \<notin> fst ` set demo_document"
    by code_simp
  ultimately show ?thesis
    using policy_default_deny [OF demo_policy_loads _ demo_tool_not_blank(2)] by blast
qed

end
