(* ===== verification/Hash_Log.thy ===== *)
theory Hash_Log
  imports Models
begin

text \<open>
  The two integrity-linked logs of runtime/store.py: runtime receipts and control receipts. Each
  receipt stores the hash of the one before it and its own hash, taken of its payload and of that
  link. The interface of such a log, with what appending and verifying owe each other, is the
  locale \<open>hash_log\<close>; both logs interpret it.
\<close>

section \<open>The interface\<close>

text \<open>
  The loop both \<open>verify\<close> functions run: \<open>prev\<close> is the stored link of a receipt, \<open>own\<close> its stored
  hash and \<open>digest\<close> the hash computed again from its fields.
\<close>

fun verify_links ::
  "('r \<Rightarrow> string option) \<Rightarrow> ('r \<Rightarrow> string) \<Rightarrow> ('r \<Rightarrow> string) \<Rightarrow> string option \<Rightarrow> 'r list \<Rightarrow> bool" where
  "verify_links prev own digest previous_hash [] = True"
| "verify_links prev own digest previous_hash (r # rs) =
     (if prev r \<noteq> previous_hash then False
      else if own r \<noteq> digest r then False
      else verify_links prev own digest (Some (own r)) rs)"

text \<open>\<open>SELECT receipt_hash ... ORDER BY sequence DESC LIMIT 1\<close>\<close>

definition last_hash :: "('r \<Rightarrow> string) \<Rightarrow> 'r list \<Rightarrow> string option" where
  "last_hash own rs = (if rs = [] then None else Some (own (last rs)))"

locale hash_log =
  fixes prev :: "'r \<Rightarrow> string option" and own :: "'r \<Rightarrow> string" and digest :: "'r \<Rightarrow> string"
    and payload :: "'r \<Rightarrow> 'c" and link :: "'c \<Rightarrow> string option"
    and collision_free :: "'r set \<Rightarrow> bool"
  assumes payload_link: "link (payload r) = prev r"
    and digest_binds: "collision_free A \<Longrightarrow> r \<in> A \<Longrightarrow> s \<in> A \<Longrightarrow> digest r = digest s \<Longrightarrow>
      payload r = payload s"
begin

lemma verify_append:
  "verify_links prev own digest h (xs @ ys) \<longleftrightarrow>
   verify_links prev own digest h xs \<and>
   verify_links prev own digest (if xs = [] then h else last_hash own xs) ys"
  by (induction xs arbitrary: h) (auto simp: last_hash_def)

lemma verify_snoc:
  "verify_links prev own digest None (xs @ [r]) \<longleftrightarrow>
   verify_links prev own digest None xs \<and> prev r = last_hash own xs \<and> own r = digest r"
  by (auto simp: verify_append last_hash_def)

lemma verify_prefix:
  "verify_links prev own digest h (xs @ ys) \<Longrightarrow> verify_links prev own digest h xs"
  by (simp add: verify_append)

text \<open>The stored hash of the last receipt fixes every receipt before it.\<close>

lemma verify_unique:
  assumes "verify_links prev own digest None xs" "verify_links prev own digest None ys"
    and "collision_free (set xs \<union> set ys)" and "last_hash own xs = last_hash own ys"
  shows "map payload xs = map payload ys"
proof -
  have "map payload xs = map payload ys"
    if "verify_links prev own digest None xs" "verify_links prev own digest None ys"
      "collision_free A" "set xs \<subseteq> A" "set ys \<subseteq> A" "last_hash own xs = last_hash own ys" for A xs ys
    using that
  proof (induction xs arbitrary: ys rule: rev_induct)
    case Nil
    then show ?case by (simp add: last_hash_def split: if_splits)
  next
    case (snoc x xs)
    then obtain y zs where ys: "ys = zs @ [y]"
      by (cases ys rule: rev_cases) (auto simp: last_hash_def)
    have own: "own x = own y"
      using snoc.prems(6) by (simp add: last_hash_def ys)
    have xs: "verify_links prev own digest None xs" "prev x = last_hash own xs" "own x = digest x"
      and zs: "verify_links prev own digest None zs" "prev y = last_hash own zs" "own y = digest y"
      using snoc.prems(1,2) by (simp_all add: ys verify_snoc)
    have same: "payload x = payload y"
      using snoc.prems(3,4,5) own xs(3) zs(3) by (intro digest_binds [of A]) (auto simp: ys)
    then have "last_hash own xs = last_hash own zs"
      using payload_link [of x] payload_link [of y] xs(2) zs(2) by simp
    then have "map payload xs = map payload zs"
      using snoc.prems xs(1) zs(1) by (intro snoc.IH) (auto simp: ys)
    with same show ?case by (simp add: ys)
  qed
  from this [OF assms(1,2,3)] assms(4) show ?thesis by simp
qed

text \<open>A verified log in which one receipt's payload is changed no longer verifies to the same end.\<close>

lemma verify_tampered:
  assumes "verify_links prev own digest None xs" "collision_free (set xs \<union> set ys)"
    and "last_hash own xs = last_hash own ys" and "map payload xs \<noteq> map payload ys"
  shows "\<not> verify_links prev own digest None ys"
  using verify_unique assms by blast

end

section \<open>Runtime receipts\<close>

text \<open>\<open>_calculate_receipt_hash\<close>\<close>

definition receipt_object ::
  "string \<Rightarrow> runtime_event \<Rightarrow> int \<Rightarrow> string \<Rightarrow> string option \<Rightarrow> string option \<Rightarrow> string option \<Rightarrow> json" where
  "receipt_object action_id event timestamp_ns digest actor detail previous_hash = JObj
     [(''action_id'', JStr action_id), (''event'', JStr (event_text event)),
      (''timestamp_ns'', JInt timestamp_ns), (''request_digest'', JStr digest),
      (''actor'', opt_str actor), (''detail'', opt_str detail),
      (''previous_hash'', opt_str previous_hash)]"

definition calculate_receipt_hash ::
  "codec \<Rightarrow> string \<Rightarrow> runtime_event \<Rightarrow> int \<Rightarrow> string \<Rightarrow> string option \<Rightarrow> string option \<Rightarrow>
   string option \<Rightarrow> string" where
  "calculate_receipt_hash K action_id event timestamp_ns digest actor detail previous_hash =
     sha256_hex K (dumps K
       (receipt_object action_id event timestamp_ns digest actor detail previous_hash))"

text \<open>\<open>_append_receipt\<close>; the sequence number is the table's \<open>AUTOINCREMENT\<close> key.\<close>

definition append_receipt ::
  "codec \<Rightarrow> string \<Rightarrow> runtime_event \<Rightarrow> int \<Rightarrow> string \<Rightarrow> string option \<Rightarrow> string option \<Rightarrow>
   runtime_receipt list \<Rightarrow> runtime_receipt list" where
  "append_receipt K action_id event timestamp_ns digest actor detail rs =
     (let previous_hash = last_hash rc_receipt_hash rs in
      rs @ [\<lparr>rc_sequence = next_seq rc_sequence rs, rc_action_id = action_id, rc_event = event,
        rc_timestamp_ns = timestamp_ns, rc_request_digest = digest, rc_actor = actor,
        rc_detail = detail, rc_previous_hash = previous_hash,
        rc_receipt_hash = calculate_receipt_hash K action_id event timestamp_ns digest actor detail
          previous_hash\<rparr>])"

definition receipt_digest :: "codec \<Rightarrow> runtime_receipt \<Rightarrow> string" where
  "receipt_digest K r = calculate_receipt_hash K (rc_action_id r) (rc_event r) (rc_timestamp_ns r)
     (rc_request_digest r) (rc_actor r) (rc_detail r) (rc_previous_hash r)"

text \<open>\<open>verify_receipt_chain\<close>, on the receipts in the order of their sequence numbers.\<close>

definition verify_receipts :: "codec \<Rightarrow> runtime_receipt list \<Rightarrow> bool" where
  "verify_receipts K rs =
     verify_links rc_previous_hash rc_receipt_hash (receipt_digest K) None rs"

text \<open>What a receipt says, its sequence number and its own hash apart.\<close>

definition receipt_item :: "runtime_receipt \<Rightarrow>
  string \<times> runtime_event \<times> int \<times> string \<times> string option \<times> string option \<times> string option" where
  "receipt_item r = (rc_action_id r, rc_event r, rc_timestamp_ns r, rc_request_digest r,
     rc_actor r, rc_detail r, rc_previous_hash r)"

definition receipt_json :: "runtime_receipt \<Rightarrow> json" where
  "receipt_json r = receipt_object (rc_action_id r) (rc_event r) (rc_timestamp_ns r)
     (rc_request_digest r) (rc_actor r) (rc_detail r) (rc_previous_hash r)"

definition receipts_collision_free :: "codec \<Rightarrow> runtime_receipt set \<Rightarrow> bool" where
  "receipts_collision_free K A \<longleftrightarrow> codec_ok K \<and> inj_on (sha256_hex K) ((\<lambda>r. dumps K (receipt_json r)) ` A)"

lemma receipt_object_ok: "json_finite (receipt_object a b c d e f g)" "json_wf (receipt_object a b c d e f g)"
  by (auto simp: receipt_object_def opt_str_def split: option.splits)

lemma receipt_object_inject:
  assumes "json_norm (receipt_object a b c d e f g) = json_norm (receipt_object a' b' c' d' e' f' g')"
  shows "a = a' \<and> b = b' \<and> c = c' \<and> d = d' \<and> e = e' \<and> f = f' \<and> g = g'"
proof -
  note look = json_norm_obj_eq [OF assms [unfolded receipt_object_def]]
  show ?thesis
    using look [of "''action_id''"] look [of "''event''"] look [of "''timestamp_ns''"]
      look [of "''request_digest''"] look [of "''actor''"] look [of "''detail''"]
      look [of "''previous_hash''"]
    by (simp add: event_text_inject)
qed

interpretation receipt_log: hash_log rc_previous_hash rc_receipt_hash "receipt_digest K"
  receipt_item "\<lambda>(a, b, c, d, e, f, g). g" "receipts_collision_free K" for K
proof
  fix r
  show "(case receipt_item r of (a, b, c, d, e, f, g) \<Rightarrow> g) = rc_previous_hash r"
    by (simp add: receipt_item_def)
next
  fix A r s
  assume cf: "receipts_collision_free K A" and A: "r \<in> A" "s \<in> A"
    and eq: "receipt_digest K r = receipt_digest K s"
  have "dumps K (receipt_json r) = dumps K (receipt_json s)"
    using cf A eq by (auto simp: receipts_collision_free_def receipt_digest_def
        calculate_receipt_hash_def receipt_json_def dest: inj_onD)
  then have "json_norm (receipt_json r) = json_norm (receipt_json s)"
    using cf by (intro dumps_inject [of K])
      (simp_all only: receipts_collision_free_def receipt_json_def receipt_object_ok)
  then show "receipt_item r = receipt_item s"
    unfolding receipt_json_def by (auto dest: receipt_object_inject simp: receipt_item_def)
qed

lemma verify_append_receipt [simp]:
  "verify_receipts K (append_receipt K a e t d ac de rs) \<longleftrightarrow> verify_receipts K rs"
  by (simp add: verify_receipts_def append_receipt_def Let_def receipt_log.verify_snoc
      receipt_digest_def)

lemma verify_receipts_Nil [simp]: "verify_receipts K []"
  by (simp add: verify_receipts_def)

lemma seq_append_receipt [simp]:
  "seq_ok rc_sequence rs \<Longrightarrow> seq_ok rc_sequence (append_receipt K a e t d ac de rs)"
  by (simp add: append_receipt_def Let_def seq_ok_snoc)

section \<open>Control receipts\<close>

text \<open>\<open>_calculate_control_receipt_hash\<close>\<close>

definition control_object ::
  "control_event \<Rightarrow> int \<Rightarrow> string \<Rightarrow> string \<Rightarrow> string \<Rightarrow> string option \<Rightarrow> json" where
  "control_object event timestamp_ns actor scope detail previous_hash = JObj
     [(''event'', JStr (control_event_text event)), (''timestamp_ns'', JInt timestamp_ns),
      (''actor'', JStr actor), (''scope'', JStr scope), (''detail'', JStr detail),
      (''previous_hash'', opt_str previous_hash)]"

definition calculate_control_receipt_hash ::
  "codec \<Rightarrow> control_event \<Rightarrow> int \<Rightarrow> string \<Rightarrow> string \<Rightarrow> string \<Rightarrow> string option \<Rightarrow> string" where
  "calculate_control_receipt_hash K event timestamp_ns actor scope detail previous_hash =
     sha256_hex K (dumps K (control_object event timestamp_ns actor scope detail previous_hash))"

text \<open>\<open>_append_control_receipt\<close>\<close>

definition append_control_receipt ::
  "codec \<Rightarrow> control_event \<Rightarrow> int \<Rightarrow> string \<Rightarrow> string \<Rightarrow> string \<Rightarrow> control_receipt list \<Rightarrow>
   control_receipt list" where
  "append_control_receipt K event timestamp_ns actor scope detail rs =
     (let previous_hash = last_hash cr_receipt_hash rs in
      rs @ [\<lparr>cr_sequence = next_seq cr_sequence rs, cr_event = event,
        cr_timestamp_ns = timestamp_ns, cr_actor = actor, cr_scope = scope, cr_detail = detail,
        cr_previous_hash = previous_hash,
        cr_receipt_hash = calculate_control_receipt_hash K event timestamp_ns actor scope detail
          previous_hash\<rparr>])"

definition control_digest :: "codec \<Rightarrow> control_receipt \<Rightarrow> string" where
  "control_digest K r = calculate_control_receipt_hash K (cr_event r) (cr_timestamp_ns r)
     (cr_actor r) (cr_scope r) (cr_detail r) (cr_previous_hash r)"

text \<open>\<open>verify_control_receipt_chain\<close>\<close>

definition verify_control_receipts :: "codec \<Rightarrow> control_receipt list \<Rightarrow> bool" where
  "verify_control_receipts K rs =
     verify_links cr_previous_hash cr_receipt_hash (control_digest K) None rs"

definition control_payload :: "control_receipt \<Rightarrow>
  control_event \<times> int \<times> string \<times> string \<times> string \<times> string option" where
  "control_payload r = (cr_event r, cr_timestamp_ns r, cr_actor r, cr_scope r, cr_detail r,
     cr_previous_hash r)"

definition control_json :: "control_receipt \<Rightarrow> json" where
  "control_json r = control_object (cr_event r) (cr_timestamp_ns r) (cr_actor r) (cr_scope r)
     (cr_detail r) (cr_previous_hash r)"

definition controls_collision_free :: "codec \<Rightarrow> control_receipt set \<Rightarrow> bool" where
  "controls_collision_free K A \<longleftrightarrow> codec_ok K \<and> inj_on (sha256_hex K) ((\<lambda>r. dumps K (control_json r)) ` A)"

lemma control_object_ok: "json_finite (control_object a b c d e f)" "json_wf (control_object a b c d e f)"
  by (auto simp: control_object_def opt_str_def split: option.splits)

lemma control_object_inject:
  assumes "json_norm (control_object a b c d e f) = json_norm (control_object a' b' c' d' e' f')"
  shows "a = a' \<and> b = b' \<and> c = c' \<and> d = d' \<and> e = e' \<and> f = f'"
proof -
  note look = json_norm_obj_eq [OF assms [unfolded control_object_def]]
  show ?thesis
    using look [of "''event''"] look [of "''timestamp_ns''"] look [of "''actor''"]
      look [of "''scope''"] look [of "''detail''"] look [of "''previous_hash''"]
    by (simp add: control_event_text_inject)
qed

interpretation control_log: hash_log cr_previous_hash cr_receipt_hash "control_digest K"
  control_payload "\<lambda>(a, b, c, d, e, f). f" "controls_collision_free K" for K
proof
  fix r
  show "(case control_payload r of (a, b, c, d, e, f) \<Rightarrow> f) = cr_previous_hash r"
    by (simp add: control_payload_def)
next
  fix A r s
  assume cf: "controls_collision_free K A" and A: "r \<in> A" "s \<in> A"
    and eq: "control_digest K r = control_digest K s"
  have "dumps K (control_json r) = dumps K (control_json s)"
    using cf A eq by (auto simp: controls_collision_free_def control_digest_def
        calculate_control_receipt_hash_def control_json_def dest: inj_onD)
  then have "json_norm (control_json r) = json_norm (control_json s)"
    using cf by (intro dumps_inject [of K])
      (simp_all only: controls_collision_free_def control_json_def control_object_ok)
  then show "control_payload r = control_payload s"
    unfolding control_json_def by (auto dest: control_object_inject simp: control_payload_def)
qed

lemma verify_append_control [simp]:
  "verify_control_receipts K (append_control_receipt K e t a s d rs) \<longleftrightarrow> verify_control_receipts K rs"
  by (simp add: verify_control_receipts_def append_control_receipt_def Let_def
      control_log.verify_snoc control_digest_def)

lemma verify_control_Nil [simp]: "verify_control_receipts K []"
  by (simp add: verify_control_receipts_def)

lemma seq_append_control [simp]:
  "seq_ok cr_sequence rs \<Longrightarrow> seq_ok cr_sequence (append_control_receipt K e t a s d rs)"
  by (simp add: append_control_receipt_def Let_def seq_ok_snoc)

end
