(* ===== verification/Database.thy ===== *)
theory Database
  imports Hash_Log
begin

text \<open>
  The tables of runtime/store.py and the value objects read from their rows. A row is a record of
  its columns; the columns that hold the text of an enum or of a JSON value hold the value, and an
  empty namespace or tool name in a control table is the global scope, as in the source.
\<close>

section \<open>Rows\<close>

record action_row =
  r_action_id :: string
  r_organization_id :: string
  r_requested_by :: "string option"
  r_namespace :: string
  r_tool_name :: string
  r_arguments :: json
  r_idempotency_key :: string
  r_request_digest :: string
  r_policy_version :: string
  r_policy_rule :: string
  r_policy_effect :: policy_effect
  r_status :: runtime_status
  r_created_at_ns :: int
  r_updated_at_ns :: int
  r_expires_at_ns :: "int option"
  r_approval_ttl_ns :: "int option"
  r_execution_lease_expires_at_ns :: "int option"
  r_result :: "json option"
  r_error :: "string option"
  r_decided_by :: "string option"
  r_decision_reason :: "string option"

record pause_row =
  p_namespace :: string
  p_tool_name :: string
  p_paused_at_ns :: int
  p_paused_by :: string
  p_reason :: string

record limit_row =
  l_limit_id :: string
  l_namespace :: string
  l_tool_name :: string
  l_window_ns :: int
  l_max_actions :: "int option"
  l_value_argument :: "string option"
  l_max_value :: "int option"
  l_enabled :: bool
  l_updated_at_ns :: int
  l_updated_by :: string
  l_reason :: string

record usage_row =
  u_limit_id :: string
  u_window_started_at_ns :: int
  u_actions_used :: int
  u_value_used :: int

record reservation_row =
  rs_sequence :: int
  rs_action_id :: string
  rs_limit_id :: string
  rs_window_started_at_ns :: int
  rs_actions_reserved :: int
  rs_value_reserved :: int
  rs_released_at_ns :: "int option"

record db =
  db_actions :: "action_row list"
  db_receipts :: "runtime_receipt list"
  db_pauses :: "pause_row list"
  db_limits :: "limit_row list"
  db_usage :: "usage_row list"
  db_reservations :: "reservation_row list"
  db_controls :: "control_receipt list"

definition empty_db :: db where
  "empty_db = \<lparr>db_actions = [], db_receipts = [], db_pauses = [], db_limits = [], db_usage = [],
     db_reservations = [], db_controls = []\<rparr>"

section \<open>Value objects of rows\<close>

definition row_to_action :: "action_row \<Rightarrow> runtime_action" where
  "row_to_action r =
     \<lparr>ra_action_id = r_action_id r, ra_namespace = r_namespace r, ra_tool_name = r_tool_name r,
      ra_arguments = r_arguments r, ra_idempotency_key = r_idempotency_key r,
      ra_request_digest = r_request_digest r, ra_policy_version = r_policy_version r,
      ra_policy_rule = r_policy_rule r, ra_policy_effect = r_policy_effect r,
      ra_status = r_status r, ra_created_at_ns = r_created_at_ns r,
      ra_updated_at_ns = r_updated_at_ns r, ra_expires_at_ns = r_expires_at_ns r,
      ra_approval_ttl_ns = r_approval_ttl_ns r,
      ra_execution_lease_expires_at_ns = r_execution_lease_expires_at_ns r,
      ra_result = (case r_result r of None \<Rightarrow> JNull | Some j \<Rightarrow> j),
      ra_result_available = (r_result r \<noteq> None), ra_error = r_error r,
      ra_decided_by = r_decided_by r, ra_decision_reason = r_decision_reason r,
      ra_organization_id = r_organization_id r, ra_requested_by = r_requested_by r\<rparr>"

text \<open>\<open>namespace or None\<close>\<close>

definition none_if_empty :: "string \<Rightarrow> string option" where
  "none_if_empty s = (if s = [] then None else Some s)"

definition row_to_pause :: "pause_row \<Rightarrow> runtime_pause" where
  "row_to_pause p =
     \<lparr>rp_namespace = none_if_empty (p_namespace p), rp_tool_name = none_if_empty (p_tool_name p),
      rp_paused_at_ns = p_paused_at_ns p, rp_paused_by = p_paused_by p, rp_reason = p_reason p\<rparr>"

definition row_to_limit :: "limit_row \<Rightarrow> runtime_limit" where
  "row_to_limit l =
     \<lparr>rl_limit_id = l_limit_id l, rl_namespace = none_if_empty (l_namespace l),
      rl_tool_name = none_if_empty (l_tool_name l), rl_window_ns = l_window_ns l,
      rl_max_actions = l_max_actions l, rl_value_argument = l_value_argument l,
      rl_max_value = l_max_value l, rl_enabled = l_enabled l,
      rl_updated_at_ns = l_updated_at_ns l, rl_updated_by = l_updated_by l, rl_reason = l_reason l\<rparr>"

lemma row_to_action_simps [simp]:
  "ra_action_id (row_to_action r) = r_action_id r"
  "ra_namespace (row_to_action r) = r_namespace r"
  "ra_tool_name (row_to_action r) = r_tool_name r"
  "ra_arguments (row_to_action r) = r_arguments r"
  "ra_request_digest (row_to_action r) = r_request_digest r"
  "ra_policy_effect (row_to_action r) = r_policy_effect r"
  "ra_status (row_to_action r) = r_status r"
  "ra_approval_ttl_ns (row_to_action r) = r_approval_ttl_ns r"
  "ra_organization_id (row_to_action r) = r_organization_id r"
  "ra_requested_by (row_to_action r) = r_requested_by r"
  "ra_decided_by (row_to_action r) = r_decided_by r"
  "ra_decision_reason (row_to_action r) = r_decision_reason r"
  "ra_result (row_to_action r) = (case r_result r of None \<Rightarrow> JNull | Some j \<Rightarrow> j)"
  by (simp_all add: row_to_action_def)

section \<open>Lookups\<close>

abbreviation find_action :: "string \<Rightarrow> db \<Rightarrow> action_row option" where
  "find_action action_id s \<equiv> find_row r_action_id action_id (db_actions s)"

text \<open>\<open>_require_row\<close> and \<open>_require_limit_row\<close>\<close>

definition require_row :: "string \<Rightarrow> db \<Rightarrow> runtime_error + action_row" where
  "require_row action_id s = (case find_action action_id s of
     None \<Rightarrow> Inl (KeyError action_id) | Some r \<Rightarrow> Inr r)"

definition require_limit_row :: "string \<Rightarrow> db \<Rightarrow> runtime_error + limit_row" where
  "require_limit_row limit_id s = (case find_row l_limit_id limit_id (db_limits s) of
     None \<Rightarrow> Inl (KeyError limit_id) | Some r \<Rightarrow> Inr r)"

lemma require_row_Inr_iff [result_simps]: "require_row i s = Inr r \<longleftrightarrow> find_action i s = Some r"
  by (auto simp: require_row_def split: option.splits)

lemma require_limit_row_Inr_iff [result_simps]:
  "require_limit_row i s = Inr r \<longleftrightarrow> find_row l_limit_id i (db_limits s) = Some r"
  by (auto simp: require_limit_row_def split: option.splits)

end
