(* ===== verification/Controls.thy ===== *)
theory Controls
  imports Database "HOL-Library.Product_Lexorder"
begin

text \<open>
  The operator controls of runtime/store.py: emergency pauses, fixed-window execution limits, the
  reservation of limit capacity when an action is claimed and its release when an outcome is
  reconciled as not committed. An operation takes the codec, the time the clock returned, its
  arguments and the database, and returns its result or exception and the database it leaves.
\<close>

section \<open>Validation\<close>

definition require_text :: "string \<Rightarrow> string \<Rightarrow> runtime_error + string" where
  "require_text v name =
     (if blank v then Inl (ValueError (name @ '' must not be empty''))
      else if has_control v then Inl (ValueError (name @ '' must not contain control characters''))
      else Inr v)"

definition normalize_scope_value :: "string option \<Rightarrow> string \<Rightarrow> runtime_error + string" where
  "normalize_scope_value v name = (case v of None \<Rightarrow> Inr [] | Some t \<Rightarrow> require_text t name)"

definition normalize_value_argument :: "string \<Rightarrow> runtime_error + string" where
  "normalize_value_argument v =
   bind_res (require_text v ''value_argument'') (\<lambda>t.
   if list_ex (\<lambda>segment. segment = [] \<or> py_strip segment \<noteq> segment) (split_on (CHR ''.'') t)
   then Inl (ValueError ''value_argument must be a dot-separated object path'') else Inr t)"

definition format_scope :: "codec \<Rightarrow> string \<Rightarrow> string \<Rightarrow> string" where
  "format_scope K namespace tool_name = dumps K (JObj
     [(''namespace'', opt_str (none_if_empty namespace)),
      (''tool_name'', opt_str (none_if_empty tool_name))])"

definition opt_int :: "int option \<Rightarrow> json" where
  "opt_int i = (case i of None \<Rightarrow> JNull | Some n \<Rightarrow> JInt n)"

lemma require_text_Inr_iff [result_simps]:
  "require_text v name = Inr t \<longleftrightarrow> t = v \<and> \<not> blank v \<and> \<not> has_control v"
  by (auto simp: require_text_def)

section \<open>Emergency pauses\<close>

abbreviation pause_key :: "pause_row \<Rightarrow> string \<times> string" where
  "pause_key p \<equiv> (p_namespace p, p_tool_name p)"

text \<open>The transaction of \<open>set_pause\<close>.\<close>

definition set_pause_tx ::
  "codec \<Rightarrow> int \<Rightarrow> string \<Rightarrow> string \<Rightarrow> string \<Rightarrow> string \<Rightarrow> db \<Rightarrow> runtime_error + (runtime_pause \<times> db)" where
  "set_pause_tx K now actor detail namespace tool_name s =
     (let p = \<lparr>p_namespace = namespace, p_tool_name = tool_name, p_paused_at_ns = now,
            p_paused_by = actor, p_reason = detail\<rparr>;
          s' = s\<lparr>db_pauses := upsert_row pause_key p
                   (\<lambda>q. q\<lparr>p_paused_at_ns := now, p_paused_by := actor, p_reason := detail\<rparr>)
                   (db_pauses s),
                 db_controls := append_control_receipt K Cv_EMERGENCY_PAUSE_SET now actor
                   (format_scope K namespace tool_name) detail (db_controls s)\<rparr>
      in case find_row pause_key (namespace, tool_name) (db_pauses s') of
           None \<Rightarrow> Inl (ValueError ''emergency pause was not persisted'')
         | Some row \<Rightarrow> Inr (row_to_pause row, s'))"

definition set_pause ::
  "codec \<Rightarrow> int \<Rightarrow> string \<Rightarrow> string \<Rightarrow> string option \<Rightarrow> string option \<Rightarrow> db \<Rightarrow>
   (runtime_error + runtime_pause) \<times> db" where
  "set_pause K now paused_by reason namespace tool_name s =
     (case bind_res (require_text paused_by ''paused_by'') (\<lambda>actor.
           bind_res (require_text reason ''reason'') (\<lambda>detail.
           bind_res (normalize_scope_value namespace ''namespace'') (\<lambda>ns.
           bind_res (normalize_scope_value tool_name ''tool_name'') (\<lambda>tool.
           Inr (actor, detail, ns, tool))))) of
        Inl e \<Rightarrow> (Inl e, s)
      | Inr (actor, detail, ns, tool) \<Rightarrow>
          transaction (set_pause_tx K now actor detail ns tool s) s)"

definition clear_pause ::
  "codec \<Rightarrow> int \<Rightarrow> string \<Rightarrow> string \<Rightarrow> string option \<Rightarrow> string option \<Rightarrow> db \<Rightarrow>
   (runtime_error + bool) \<times> db" where
  "clear_pause K now resumed_by reason namespace tool_name s =
     (case bind_res (require_text resumed_by ''resumed_by'') (\<lambda>actor.
           bind_res (require_text reason ''reason'') (\<lambda>detail.
           bind_res (normalize_scope_value namespace ''namespace'') (\<lambda>ns.
           bind_res (normalize_scope_value tool_name ''tool_name'') (\<lambda>tool.
           Inr (actor, detail, ns, tool))))) of
        Inl e \<Rightarrow> (Inl e, s)
      | Inr (actor, detail, ns, tool) \<Rightarrow>
          (if find_row pause_key (ns, tool) (db_pauses s) = None then (Inr False, s)
           else (Inr True,
             s\<lparr>db_pauses := filter (\<lambda>p. pause_key p \<noteq> (ns, tool)) (db_pauses s),
               db_controls := append_control_receipt K Cv_EMERGENCY_PAUSE_CLEARED now actor
                 (format_scope K ns tool) detail (db_controls s)\<rparr>)))"

text \<open>\<open>(namespace != '') + (tool_name != '')\<close>\<close>

definition specificity :: "string \<Rightarrow> string \<Rightarrow> nat" where
  "specificity namespace tool_name =
     (if namespace \<noteq> [] then 1 else 0) + (if tool_name \<noteq> [] then 1 else 0)"

definition list_pauses :: "db \<Rightarrow> runtime_pause list" where
  "list_pauses s = map row_to_pause (sort_key
     (\<lambda>p. (specificity (p_namespace p) (p_tool_name p), p_namespace p, p_tool_name p)) (db_pauses s))"

text \<open>\<open>namespace IN ('', ?) AND tool_name IN ('', ?)\<close>\<close>

definition in_scope :: "string \<Rightarrow> string \<Rightarrow> runtime_action \<Rightarrow> bool" where
  "in_scope namespace tool_name a =
     ((namespace = [] \<or> namespace = ra_namespace a) \<and> (tool_name = [] \<or> tool_name = ra_tool_name a))"

text \<open>The narrowest pause in scope, the latest one of two equally narrow ones.\<close>

definition matching_pause :: "runtime_action \<Rightarrow> pause_row list \<Rightarrow> pause_row option" where
  "matching_pause a ps =
     (case sort_key (\<lambda>p. (- int (specificity (p_namespace p) (p_tool_name p)), - p_paused_at_ns p))
         (filter (\<lambda>p. in_scope (p_namespace p) (p_tool_name p) a) ps) of
        [] \<Rightarrow> None | p # _ \<Rightarrow> Some p)"

section \<open>Limits\<close>

definition max_sql_integer :: int where
  "max_sql_integer = 9223372036854775807"

definition sql_positive :: "int option \<Rightarrow> bool" where
  "sql_positive i = (case i of None \<Rightarrow> True | Some n \<Rightarrow> 1 \<le> n \<and> n \<le> max_sql_integer)"

definition limit_window :: "pyfloat \<Rightarrow> runtime_error + int" where
  "limit_window seconds =
     (if \<not> is_finite seconds \<or> num_le seconds (of_int_num 0) then
        Inl (ValueError ''window_seconds must be finite and greater than zero'')
      else case seconds_to_ns seconds of
        None \<Rightarrow> Inl OverflowError
      | Some window_ns \<Rightarrow>
          if window_ns < 1 then Inl (ValueError ''window_seconds must be at least one nanosecond'')
          else if max_sql_integer < window_ns then
            Inl (ValueError ''window_seconds exceeds the supported 64-bit integer range'')
          else Inr window_ns)"

text \<open>The validated definition of a limit, as the row that an insert would store.\<close>

definition limit_request ::
  "int \<Rightarrow> string \<Rightarrow> pyfloat \<Rightarrow> string \<Rightarrow> string \<Rightarrow> string option \<Rightarrow> string option \<Rightarrow> int option \<Rightarrow>
   string option \<Rightarrow> int option \<Rightarrow> runtime_error + limit_row" where
  "limit_request now limit_id window_seconds updated_by reason namespace tool_name max_actions
     value_argument max_val =
   bind_res (require_text limit_id ''limit_id'') (\<lambda>normalized_id.
   bind_res (require_text updated_by ''updated_by'') (\<lambda>actor.
   bind_res (require_text reason ''reason'') (\<lambda>update_reason.
   bind_res (normalize_scope_value namespace ''namespace'') (\<lambda>ns.
   bind_res (normalize_scope_value tool_name ''tool_name'') (\<lambda>tool.
   bind_res (limit_window window_seconds) (\<lambda>window_ns.
   if \<not> sql_positive max_actions then
     Inl (ValueError ''max_actions must be a positive integer within SQLite's range'')
   else if \<not> sql_positive max_val then
     Inl (ValueError ''max_value must be a positive integer within SQLite's range'')
   else if (value_argument = None) \<noteq> (max_val = None) then
     Inl (ValueError ''value_argument and max_value must be configured together'')
   else bind_res (case value_argument of None \<Rightarrow> Inr None
       | Some v \<Rightarrow> bind_res (normalize_value_argument v) (\<lambda>t. Inr (Some t))) (\<lambda>argument.
   if max_actions = None \<and> max_val = None then
     Inl (ValueError ''at least one of max_actions or max_value is required'')
   else Inr \<lparr>l_limit_id = normalized_id, l_namespace = ns, l_tool_name = tool,
     l_window_ns = window_ns, l_max_actions = max_actions, l_value_argument = argument,
     l_max_value = max_val, l_enabled = True, l_updated_at_ns = now, l_updated_by = actor,
     l_reason = update_reason\<rparr>)))))))"

definition immutable_part :: "limit_row \<Rightarrow> string \<times> string \<times> int \<times> string option" where
  "immutable_part l = (l_namespace l, l_tool_name l, l_window_ns l, l_value_argument l)"

definition limit_detail :: "codec \<Rightarrow> limit_row \<Rightarrow> string" where
  "limit_detail K l = dumps K (JObj
     [(''limit_id'', JStr (l_limit_id l)), (''max_actions'', opt_int (l_max_actions l)),
      (''max_value'', opt_int (l_max_value l)), (''reason'', JStr (l_reason l)),
      (''value_argument'', opt_str (l_value_argument l)), (''window_ns'', JInt (l_window_ns l))])"

definition configure_limit_tx ::
  "codec \<Rightarrow> int \<Rightarrow> limit_row \<Rightarrow> db \<Rightarrow> runtime_error + (runtime_limit \<times> db)" where
  "configure_limit_tx K now l s =
   bind_res (case find_row l_limit_id (l_limit_id l) (db_limits s) of
       None \<Rightarrow> Inr ()
     | Some existing \<Rightarrow> if immutable_part existing \<noteq> immutable_part l
         then Inl (ValueError ''an existing limit's scope, window, and value_argument are immutable'')
         else Inr ()) (\<lambda>_.
   let s' = s\<lparr>db_limits := upsert_row l_limit_id l
                (\<lambda>old. old\<lparr>l_max_actions := l_max_actions l, l_max_value := l_max_value l,
                   l_enabled := True, l_updated_at_ns := l_updated_at_ns l,
                   l_updated_by := l_updated_by l, l_reason := l_reason l\<rparr>) (db_limits s),
              db_controls := append_control_receipt K Cv_LIMIT_CONFIGURED now (l_updated_by l)
                (format_scope K (l_namespace l) (l_tool_name l)) (limit_detail K l) (db_controls s)\<rparr>
   in bind_res (require_limit_row (l_limit_id l) s') (\<lambda>row. Inr (row_to_limit row, s')))"

definition configure_limit ::
  "codec \<Rightarrow> int \<Rightarrow> string \<Rightarrow> pyfloat \<Rightarrow> string \<Rightarrow> string \<Rightarrow> string option \<Rightarrow> string option \<Rightarrow>
   int option \<Rightarrow> string option \<Rightarrow> int option \<Rightarrow> db \<Rightarrow> (runtime_error + runtime_limit) \<times> db" where
  "configure_limit K now limit_id window_seconds updated_by reason namespace tool_name max_actions
     value_argument max_val s =
     (case limit_request now limit_id window_seconds updated_by reason namespace tool_name
         max_actions value_argument max_val of
        Inl e \<Rightarrow> (Inl e, s)
      | Inr l \<Rightarrow> transaction (configure_limit_tx K now l s) s)"

definition disable_limit_tx ::
  "codec \<Rightarrow> int \<Rightarrow> string \<Rightarrow> string \<Rightarrow> string \<Rightarrow> db \<Rightarrow> runtime_error + (runtime_limit \<times> db)" where
  "disable_limit_tx K now limit_id actor reason s =
   bind_res (require_limit_row limit_id s) (\<lambda>existing.
   if \<not> l_enabled existing then Inr (row_to_limit existing, s)
   else
     let s' = s\<lparr>db_limits := update_row l_limit_id limit_id
                  (\<lambda>l. l\<lparr>l_enabled := False, l_updated_at_ns := now, l_updated_by := actor,
                     l_reason := reason\<rparr>) (db_limits s),
                db_controls := append_control_receipt K Cv_LIMIT_DISABLED now actor
                  (format_scope K (l_namespace existing) (l_tool_name existing))
                  (dumps K (JObj [(''limit_id'', JStr limit_id), (''reason'', JStr reason)]))
                  (db_controls s)\<rparr>
     in bind_res (require_limit_row limit_id s') (\<lambda>row. Inr (row_to_limit row, s')))"

definition disable_limit ::
  "codec \<Rightarrow> int \<Rightarrow> string \<Rightarrow> string \<Rightarrow> string \<Rightarrow> db \<Rightarrow> (runtime_error + runtime_limit) \<times> db" where
  "disable_limit K now limit_id updated_by reason s =
     (case bind_res (require_text limit_id ''limit_id'') (\<lambda>i.
           bind_res (require_text updated_by ''updated_by'') (\<lambda>actor.
           bind_res (require_text reason ''reason'') (\<lambda>r. Inr (i, actor, r)))) of
        Inl e \<Rightarrow> (Inl e, s)
      | Inr (i, actor, r) \<Rightarrow> transaction (disable_limit_tx K now i actor r s) s)"

definition list_limits :: "db \<Rightarrow> runtime_limit list" where
  "list_limits s = map row_to_limit (sort_key l_limit_id (db_limits s))"

section \<open>Usage\<close>

abbreviation usage_key :: "usage_row \<Rightarrow> string \<times> int" where
  "usage_key u \<equiv> (u_limit_id u, u_window_started_at_ns u)"

text \<open>\<open>now - (now % window_ns)\<close>\<close>

definition window_start :: "int \<Rightarrow> int \<Rightarrow> int" where
  "window_start now window_ns = now - now mod window_ns"

text \<open>The two counters of a limit's window, zero when there is no row.\<close>

definition usage_at :: "usage_row list \<Rightarrow> string \<Rightarrow> int \<Rightarrow> int \<times> int" where
  "usage_at us limit_id window = (case find_row usage_key (limit_id, window) us of
     None \<Rightarrow> (0, 0) | Some u \<Rightarrow> (u_actions_used u, u_value_used u))"

definition limit_usage_of :: "int \<Rightarrow> db \<Rightarrow> limit_row \<Rightarrow> runtime_limit_usage" where
  "limit_usage_of now s l =
     (let window = window_start now (l_window_ns l);
          used = usage_at (db_usage s) (l_limit_id l) window
      in \<lparr>ru_limit_id = l_limit_id l, ru_window_started_at_ns = window,
          ru_actions_used = fst used, ru_value_used = snd used\<rparr>)"

definition limit_usage ::
  "int \<Rightarrow> string option \<Rightarrow> db \<Rightarrow> runtime_error + runtime_limit_usage list" where
  "limit_usage now limit_id s =
   bind_res (case limit_id of None \<Rightarrow> Inr None
     | Some i \<Rightarrow> bind_res (require_text i ''limit_id'') (\<lambda>n. Inr (Some n))) (\<lambda>normalized_id.
   bind_res (case normalized_id of
       None \<Rightarrow> Inr (sort_key l_limit_id (db_limits s))
     | Some i \<Rightarrow> bind_res (require_limit_row i s) (\<lambda>row. Inr [row])) (\<lambda>rows.
   Inr (map (limit_usage_of now s) rows)))"

section \<open>Reserving capacity\<close>

text \<open>\<open>_extract_integer_argument\<close>\<close>

definition extract_integer_argument :: "json \<Rightarrow> string \<Rightarrow> int option" where
  "extract_integer_argument arguments dotted_path =
     (case lookup_path arguments (split_on (CHR ''.'') dotted_path) of
        Some (JInt i) \<Rightarrow> if i < 0 then None else Some i
      | _ \<Rightarrow> None)"

text \<open>The limits that apply to an action, by id.\<close>

definition applicable_limits :: "runtime_action \<Rightarrow> limit_row list \<Rightarrow> limit_row list" where
  "applicable_limits a ls = sort_key l_limit_id
     (filter (\<lambda>l. l_enabled l \<and> in_scope (l_namespace l) (l_tool_name l) a) ls)"

text \<open>
  One turn of the loop over them: what to reserve, or the exception that blocks the claim. The
  turn prices the action, checks the number of actions, then the value.
\<close>

definition requested_value :: "runtime_action \<Rightarrow> limit_row \<Rightarrow> runtime_error + int" where
  "requested_value a l = (case l_value_argument l of
     None \<Rightarrow> Inr 0
   | Some arg \<Rightarrow>
       (case extract_integer_argument (ra_arguments a) arg of
          None \<Rightarrow> Inl (ActionLimitValueError a (l_limit_id l) arg)
        | Some v \<Rightarrow> Inr v))"

definition check_actions :: "runtime_action \<Rightarrow> limit_row \<Rightarrow> int \<Rightarrow> runtime_error + unit" where
  "check_actions a l actions_used = (case l_max_actions l of
     None \<Rightarrow> Inr ()
   | Some m \<Rightarrow> if m < actions_used + 1
       then Inl (ActionLimitExceeded a (l_limit_id l) ''actions'' actions_used 1 m) else Inr ())"

definition check_value :: "runtime_action \<Rightarrow> limit_row \<Rightarrow> int \<Rightarrow> int \<Rightarrow> runtime_error + unit" where
  "check_value a l value_used value_requested = (case l_max_value l of
     None \<Rightarrow> Inr ()
   | Some m \<Rightarrow> if m < value_used + value_requested
       then Inl (ActionLimitExceeded a (l_limit_id l)
         (case l_value_argument l of
            None \<Rightarrow> ''value'' | Some arg \<Rightarrow> if arg = [] then ''value'' else arg)
         value_used value_requested m)
       else Inr ())"

definition plan_limit ::
  "runtime_action \<Rightarrow> int \<Rightarrow> usage_row list \<Rightarrow> limit_row \<Rightarrow>
   runtime_error + (string \<times> int \<times> int \<times> int)" where
  "plan_limit a now us l =
     (let window = window_start now (l_window_ns l);
          used = usage_at us (l_limit_id l) window
      in bind_res (requested_value a l) (\<lambda>value_requested.
         bind_res (check_actions a l (fst used)) (\<lambda>_.
         bind_res (check_value a l (snd used) value_requested) (\<lambda>_.
         Inr (l_limit_id l, window, 1, value_requested)))))"

text \<open>
  The two writes for one reservation. The insert fails on a window before the epoch, which the
  table's \<open>CHECK\<close> refuses.
\<close>

definition reserve_one ::
  "string \<Rightarrow> string \<times> int \<times> int \<times> int \<Rightarrow> db \<Rightarrow> runtime_error + db" where
  "reserve_one action_id r s = (case r of (limit_id, window, actions, v) \<Rightarrow>
     if window < 0 then Inl (IntegrityError ''window_started_at_ns >= 0'')
     else Inr (s\<lparr>db_usage := upsert_row usage_key
         \<lparr>u_limit_id = limit_id, u_window_started_at_ns = window, u_actions_used = actions,
          u_value_used = v\<rparr>
         (\<lambda>u. u\<lparr>u_actions_used := u_actions_used u + actions, u_value_used := u_value_used u + v\<rparr>)
         (db_usage s),
       db_reservations := db_reservations s @
         [\<lparr>rs_sequence = next_seq rs_sequence (db_reservations s), rs_action_id = action_id,
           rs_limit_id = limit_id, rs_window_started_at_ns = window, rs_actions_reserved = actions,
           rs_value_reserved = v, rs_released_at_ns = None\<rparr>]\<rparr>))"

text \<open>
  \<open>_reserve_limit_capacity\<close>: the exception that blocks the claim is returned, not raised, and then
  nothing was written; otherwise every applicable limit has its reservation.
\<close>

definition reserve_limit_capacity ::
  "runtime_action \<Rightarrow> int \<Rightarrow> db \<Rightarrow> runtime_error + (runtime_error option \<times> db)" where
  "reserve_limit_capacity a now s =
     (case map_res (plan_limit a now (db_usage s)) (applicable_limits a (db_limits s)) of
        Inl blocked \<Rightarrow> Inr (Some blocked, s)
      | Inr reservations \<Rightarrow>
          bind_res (fold_res (reserve_one (ra_action_id a)) reservations s) (\<lambda>s'. Inr (None, s')))"

definition limit_block_detail :: "codec \<Rightarrow> runtime_error \<Rightarrow> string" where
  "limit_block_detail K e = dumps K (JObj (case e of
     ActionLimitExceeded a limit_id resource used requested maximum \<Rightarrow>
       [(''limit_id'', JStr limit_id), (''maximum'', JInt maximum),
        (''requested'', JInt requested), (''resource'', JStr resource), (''used'', JInt used)]
   | ActionLimitValueError a limit_id arg \<Rightarrow>
       [(''limit_id'', JStr limit_id), (''resource'', JStr arg),
        (''error'', JStr ''invalid_or_missing_non_negative_integer'')]
   | _ \<Rightarrow> []))"

section \<open>Releasing capacity\<close>

text \<open>
  The two writes for one reservation. An update that would leave a counter negative fails the
  table's \<open>CHECK\<close>; a missing usage row is no error.
\<close>

definition release_one :: "int \<Rightarrow> reservation_row \<Rightarrow> db \<Rightarrow> runtime_error + db" where
  "release_one released_at r s =
     (let key = (rs_limit_id r, rs_window_started_at_ns r) in
      if (case find_row usage_key key (db_usage s) of None \<Rightarrow> False
          | Some u \<Rightarrow> u_actions_used u < rs_actions_reserved r \<or> u_value_used u < rs_value_reserved r)
      then Inl (IntegrityError ''actions_used >= 0'')
      else Inr (s\<lparr>db_usage := update_row usage_key key
          (\<lambda>u. u\<lparr>u_actions_used := u_actions_used u - rs_actions_reserved r,
             u_value_used := u_value_used u - rs_value_reserved r\<rparr>) (db_usage s),
        db_reservations := update_row rs_sequence (rs_sequence r)
          (\<lambda>q. q\<lparr>rs_released_at_ns := Some released_at\<rparr>) (db_reservations s)\<rparr>))"

definition release_limit_capacity :: "string \<Rightarrow> int \<Rightarrow> db \<Rightarrow> runtime_error + db" where
  "release_limit_capacity action_id released_at s =
     fold_res (release_one released_at)
       (filter (\<lambda>r. rs_action_id r = action_id \<and> rs_released_at_ns r = None) (db_reservations s)) s"

end
