(* ===== verification/Controls_Facts.thy ===== *)
theory Controls_Facts
  imports Controls
begin

text \<open>
  What the operator controls guarantee. A pause in scope is always found, and the one found is the
  narrowest. The usage counters of a limit's window are the sums of the reservations that are not
  released (\<open>accounting_ok\<close>): reserving and releasing keep this, releasing never drives a counter
  below zero, and a reservation that succeeds leaves every applicable limit within its maximum.
\<close>

section \<open>Pauses\<close>

definition pause_rank :: "pause_row \<Rightarrow> int \<times> int" where
  "pause_rank p = (int (specificity (p_namespace p) (p_tool_name p)), p_paused_at_ns p)"

lemma hd_sort_key:
  assumes "xs \<noteq> []"
  shows "hd (sort_key f xs) \<in> set xs \<and> (\<forall>x \<in> set xs. f (hd (sort_key f xs)) \<le> f x)"
proof -
  obtain y ys where ys: "sort_key f xs = y # ys"
    using assms by (metis list.exhaust set_empty set_sort)
  then have "sorted (map f (y # ys))" "set (y # ys) = set xs"
    using sorted_sort_key [of f xs] set_sort [of f xs] by simp_all
  then show ?thesis using ys by auto
qed

lemma matching_pause_None_iff:
  "matching_pause a ps = None \<longleftrightarrow> (\<forall>p \<in> set ps. \<not> in_scope (p_namespace p) (p_tool_name p) a)"
proof -
  have nil: "sort_key f xs = [] \<longleftrightarrow> xs = []" for f :: "pause_row \<Rightarrow> int \<times> int" and xs
    by (metis set_empty set_sort)
  have nil_case: "(case ys of [] \<Rightarrow> None | y # zs \<Rightarrow> Some y) = None \<longleftrightarrow> ys = []" for ys :: "pause_row list"
    by (cases ys) simp_all
  have "matching_pause a ps = None \<longleftrightarrow> filter (\<lambda>p. in_scope (p_namespace p) (p_tool_name p) a) ps = []"
    unfolding matching_pause_def nil_case nil ..
  then show ?thesis by (simp add: filter_empty_conv)
qed

lemma matching_pause_SomeD:
  assumes "matching_pause a ps = Some p"
  shows "p \<in> set ps" "in_scope (p_namespace p) (p_tool_name p) a"
    "q \<in> set ps \<Longrightarrow> in_scope (p_namespace q) (p_tool_name q) a \<Longrightarrow> pause_rank q \<le> pause_rank p"
proof -
  define f where "f = (\<lambda>p :: pause_row. (- int (specificity (p_namespace p) (p_tool_name p)), - p_paused_at_ns p))"
  define xs where "xs = filter (\<lambda>p. in_scope (p_namespace p) (p_tool_name p) a) ps"
  have hd: "p = hd (sort_key f xs)" "xs \<noteq> []"
    using assms by (auto simp: matching_pause_def f_def xs_def split: list.splits)
  from hd_sort_key [OF hd(2), of f]
  have "p \<in> set xs" and le: "\<And>x. x \<in> set xs \<Longrightarrow> f p \<le> f x"
    by (simp_all add: hd(1))
  then show "p \<in> set ps" "in_scope (p_namespace p) (p_tool_name p) a"
    by (simp_all add: xs_def)
  assume "q \<in> set ps" "in_scope (p_namespace q) (p_tool_name q) a"
  then have "f p \<le> f q" using le by (simp add: xs_def)
  then show "pause_rank q \<le> pause_rank p"
    by (auto simp: f_def pause_rank_def less_eq_prod_def less_prod_def)
qed

lemma set_pause_Inr:
  assumes "set_pause K now by why ns tool s = (Inr p, s')"
  shows "find_row pause_key (case ns of None \<Rightarrow> [] | Some n \<Rightarrow> n, case tool of None \<Rightarrow> [] | Some t \<Rightarrow> t)
      (db_pauses s') \<noteq> None"
    and "\<exists>ps cs. s' = s\<lparr>db_pauses := ps, db_controls := cs\<rparr>"
  using assms
  by (auto simp: set_pause_def set_pause_tx_def Let_def result_simps normalize_scope_value_def
      find_upsert_row split: sum.splits option.splits elim!: transaction_cases)

section \<open>Accounting\<close>

definition active :: "string \<Rightarrow> int \<Rightarrow> reservation_row \<Rightarrow> bool" where
  "active limit_id window r =
     (rs_limit_id r = limit_id \<and> rs_window_started_at_ns r = window \<and> rs_released_at_ns r = None)"

definition reserved :: "(reservation_row \<Rightarrow> int) \<Rightarrow> string \<Rightarrow> int \<Rightarrow> reservation_row list \<Rightarrow> int" where
  "reserved f limit_id window rs = sum_list (map f (filter (active limit_id window) rs))"

definition reservation_ok :: "reservation_row \<Rightarrow> bool" where
  "reservation_ok r = (0 < rs_actions_reserved r \<and> 0 \<le> rs_value_reserved r)"

definition accounting_ok :: "db \<Rightarrow> bool" where
  "accounting_ok s \<longleftrightarrow>
     (\<forall>i w. usage_at (db_usage s) i w =
        (reserved rs_actions_reserved i w (db_reservations s),
         reserved rs_value_reserved i w (db_reservations s))) \<and>
     list_all reservation_ok (db_reservations s) \<and> seq_ok rs_sequence (db_reservations s)"

definition only_capacity :: "db \<Rightarrow> db \<Rightarrow> bool" where
  "only_capacity s s' \<longleftrightarrow> db_actions s' = db_actions s \<and> db_receipts s' = db_receipts s \<and>
     db_pauses s' = db_pauses s \<and> db_limits s' = db_limits s \<and> db_controls s' = db_controls s"

lemma only_capacity_refl [simp]: "only_capacity s s"
  by (simp add: only_capacity_def)

lemma only_capacity_trans: "only_capacity a b \<Longrightarrow> only_capacity b c \<Longrightarrow> only_capacity a c"
  by (simp add: only_capacity_def)

lemma reserved_snoc: "reserved f i w (rs @ [r]) = reserved f i w rs + (if active i w r then f r else 0)"
  by (simp add: reserved_def)

lemma reserved_nonneg:
  "(\<And>r. r \<in> set rs \<Longrightarrow> 0 \<le> f r) \<Longrightarrow> 0 \<le> reserved f i w rs"
  unfolding reserved_def by (rule sum_list_nonneg) auto

lemma reserved_ge:
  assumes "r \<in> set rs" "active i w r" "\<And>r. r \<in> set rs \<Longrightarrow> 0 \<le> f r"
  shows "f r \<le> reserved f i w rs"
  using assms
proof (induction rs)
  case (Cons q qs)
  have "0 \<le> reserved f i w qs"
    using Cons.prems(3) by (intro reserved_nonneg) auto
  moreover have "0 \<le> f q"
    using Cons.prems(3) by simp
  ultimately show ?case
    using Cons by (auto simp: reserved_def intro: add_increasing)
qed simp

text \<open>Releasing one reservation takes exactly its share out of its own window.\<close>

lemma update_row_id: "k \<notin> key ` set rows \<Longrightarrow> update_row key k f rows = rows"
  by (auto simp: update_row_def intro!: map_idI)

lemma reserved_release:
  assumes "distinct (map rs_sequence rs)" "r \<in> set rs" "rs_released_at_ns r = None"
    and "f (r\<lparr>rs_released_at_ns := Some t\<rparr>) = f r"
  shows "reserved f i w (update_row rs_sequence (rs_sequence r)
      (\<lambda>q. q\<lparr>rs_released_at_ns := Some t\<rparr>) rs) =
    reserved f i w rs - (if active i w r then f r else 0)"
  using assms
proof (induction rs)
  case (Cons q qs)
  show ?case
  proof (cases "q = r")
    case True
    with Cons.prems have "update_row rs_sequence (rs_sequence r)
        (\<lambda>q. q\<lparr>rs_released_at_ns := Some t\<rparr>) qs = qs"
      by (intro update_row_id) auto
    with True show ?thesis by (simp add: reserved_def active_def)
  next
    case False
    with Cons.prems have "rs_sequence q \<noteq> rs_sequence r" by (auto simp: image_iff)
    with False Cons show ?thesis by (simp add: reserved_def)
  qed
qed simp


lemma usage_at_upsert:
  "usage_at (upsert_row usage_key \<lparr>u_limit_id = j, u_window_started_at_ns = v, u_actions_used = n,
       u_value_used = x\<rparr>
     (\<lambda>u. u\<lparr>u_actions_used := u_actions_used u + n, u_value_used := u_value_used u + x\<rparr>) us) i w =
   (if (i, w) = (j, v) then (fst (usage_at us i w) + n, snd (usage_at us i w) + x) else usage_at us i w)"
  unfolding usage_at_def
  by (subst find_upsert_row) (auto split: option.splits)

lemma usage_at_release:
  "usage_at (update_row usage_key (j, v)
     (\<lambda>u. u\<lparr>u_actions_used := u_actions_used u - n, u_value_used := u_value_used u - x\<rparr>) us) i w =
   (if (i, w) = (j, v) \<and> find_row usage_key (j, v) us \<noteq> None
    then (fst (usage_at us i w) - n, snd (usage_at us i w) - x) else usage_at us i w)"
proof (cases "(i, w) = (j, v)")
  case True
  then show ?thesis
    unfolding usage_at_def by (simp add: find_update_row_same split: option.splits)
next
  case False
  then show ?thesis
    unfolding usage_at_def by (subst find_update_row_other) auto
qed

lemma reserve_one_accounting:
  assumes "reserve_one a (i, w, n, v) s = Inr s'" "accounting_ok s" "0 < n" "0 \<le> v"
  shows "accounting_ok s'" "only_capacity s s'"
  using assms
  by (auto simp: reserve_one_def accounting_ok_def usage_at_upsert reserved_snoc active_def
      reservation_ok_def only_capacity_def seq_ok_snoc split: if_splits)

lemma release_one_accounting:
  assumes "accounting_ok s" "r \<in> set (db_reservations s)" "rs_released_at_ns r = None"
  obtains s' where "release_one t r s = Inr s'" "accounting_ok s'" "only_capacity s s'"
    "db_reservations s' = update_row rs_sequence (rs_sequence r)
       (\<lambda>q. q\<lparr>rs_released_at_ns := Some t\<rparr>) (db_reservations s)"
proof -
  let ?i = "rs_limit_id r" and ?w = "rs_window_started_at_ns r" and ?rs = "db_reservations s"
  have acc: "usage_at (db_usage s) i w = (reserved rs_actions_reserved i w ?rs, reserved rs_value_reserved i w ?rs)" for i w
    using assms(1) by (simp add: accounting_ok_def)
  have ok: "q \<in> set ?rs \<Longrightarrow> reservation_ok q" for q
    using assms(1) by (simp add: accounting_ok_def list_all_iff)
  have ge: "rs_actions_reserved r \<le> reserved rs_actions_reserved ?i ?w ?rs"
    "rs_value_reserved r \<le> reserved rs_value_reserved ?i ?w ?rs"
    using assms(2,3) ok by (auto intro!: reserved_ge simp: active_def reservation_ok_def less_imp_le)
  have dist: "distinct (map rs_sequence ?rs)"
    using assms(1) by (simp add: accounting_ok_def seq_ok_distinct)
  obtain u where u: "find_row usage_key (?i, ?w) (db_usage s) = Some u"
    using acc [of ?i ?w] ge ok [OF assms(2)]
    by (cases "find_row usage_key (?i, ?w) (db_usage s)") (auto simp: usage_at_def reservation_ok_def)
  define s' where "s' = s\<lparr>db_usage := update_row usage_key (?i, ?w)
      (\<lambda>u. u\<lparr>u_actions_used := u_actions_used u - rs_actions_reserved r,
         u_value_used := u_value_used u - rs_value_reserved r\<rparr>) (db_usage s),
    db_reservations := update_row rs_sequence (rs_sequence r)
      (\<lambda>q. q\<lparr>rs_released_at_ns := Some t\<rparr>) ?rs\<rparr>"
  have "release_one t r s = Inr s'"
    using acc [of ?i ?w] ge u by (simp add: release_one_def s'_def usage_at_def Let_def)
  moreover have "accounting_ok s'"
    unfolding accounting_ok_def
  proof (intro conjI allI)
    fix i w
    show "usage_at (db_usage s') i w = (reserved rs_actions_reserved i w (db_reservations s'),
        reserved rs_value_reserved i w (db_reservations s'))"
      using acc [of i w] u assms(3)
      by (auto simp: s'_def usage_at_release reserved_release [OF dist assms(2,3)] active_def)
    show "list_all reservation_ok (db_reservations s')"
      using ok by (auto simp: s'_def list_all_iff reservation_ok_def elim!: in_update_rowE)
    show "seq_ok rs_sequence (db_reservations s')"
      using assms(1) by (simp add: s'_def accounting_ok_def)
  qed
  ultimately show thesis
    by (intro that [of s']) (simp_all add: s'_def only_capacity_def)
qed


section \<open>Release\<close>

definition release_rows :: "string \<Rightarrow> int \<Rightarrow> reservation_row list \<Rightarrow> reservation_row list" where
  "release_rows action_id t rs = map (\<lambda>r.
     if rs_action_id r = action_id \<and> rs_released_at_ns r = None
     then r\<lparr>rs_released_at_ns := Some t\<rparr> else r) rs"

lemma release_fold:
  assumes "accounting_ok s" "distinct (map rs_sequence xs)"
    and "\<forall>x \<in> set xs. x \<in> set (db_reservations s) \<and> rs_released_at_ns x = None"
  shows "\<exists>s'. fold_res (release_one t) xs s = Inr s' \<and> accounting_ok s' \<and> only_capacity s s' \<and>
    db_reservations s' = map (\<lambda>q. if rs_sequence q \<in> rs_sequence ` set xs
      then q\<lparr>rs_released_at_ns := Some t\<rparr> else q) (db_reservations s)"
  using assms
proof (induction xs arbitrary: s)
  case (Cons x xs)
  then obtain s1 where s1: "release_one t x s = Inr s1" "accounting_ok s1" "only_capacity s s1"
    "db_reservations s1 = update_row rs_sequence (rs_sequence x)
       (\<lambda>q. q\<lparr>rs_released_at_ns := Some t\<rparr>) (db_reservations s)"
    using release_one_accounting [of s x t] by auto
  have "y \<in> set (db_reservations s1)" if "y \<in> set xs" for y
  proof -
    have "rs_sequence y \<in> rs_sequence ` set xs" "y \<in> set (db_reservations s)"
      using Cons.prems(3) that by auto
    moreover have "rs_sequence x \<notin> rs_sequence ` set xs"
      using Cons.prems(2) by simp
    ultimately have "rs_sequence y \<noteq> rs_sequence x" "y \<in> set (db_reservations s)"
      by auto
    then show ?thesis by (force simp: s1(4) update_row_def)
  qed
  then obtain s2 where s2: "fold_res (release_one t) xs s1 = Inr s2" "accounting_ok s2"
    "only_capacity s1 s2" "db_reservations s2 = map (\<lambda>q. if rs_sequence q \<in> rs_sequence ` set xs
      then q\<lparr>rs_released_at_ns := Some t\<rparr> else q) (db_reservations s1)"
    using Cons.IH [of s1] s1(2) Cons.prems by auto
  have "db_reservations s2 = map (\<lambda>q. if rs_sequence q \<in> rs_sequence ` set (x # xs)
      then q\<lparr>rs_released_at_ns := Some t\<rparr> else q) (db_reservations s)"
    by (simp add: s2(4) s1(4) update_row_def)
  then show ?case
    using s1 s2 only_capacity_trans by auto
qed simp

lemma release_total:
  assumes "accounting_ok s"
  obtains s' where "release_limit_capacity a t s = Inr s'" "accounting_ok s'" "only_capacity s s'"
    "db_reservations s' = release_rows a t (db_reservations s)"
proof -
  define xs where "xs = filter (\<lambda>r. rs_action_id r = a \<and> rs_released_at_ns r = None) (db_reservations s)"
  have dist: "distinct (map rs_sequence (db_reservations s))"
    using assms by (simp add: accounting_ok_def seq_ok_distinct)
  have "distinct (map rs_sequence xs)"
    using dist by (simp add: xs_def distinct_map_filter)
  moreover have "\<forall>x \<in> set xs. x \<in> set (db_reservations s) \<and> rs_released_at_ns x = None"
    by (simp add: xs_def)
  ultimately obtain s' where s': "fold_res (release_one t) xs s = Inr s'" "accounting_ok s'"
    "only_capacity s s'" "db_reservations s' = map (\<lambda>q. if rs_sequence q \<in> rs_sequence ` set xs
      then q\<lparr>rs_released_at_ns := Some t\<rparr> else q) (db_reservations s)"
    using release_fold [OF assms] by blast
  have "rs_sequence q \<in> rs_sequence ` set xs \<longleftrightarrow> q \<in> set xs" if "q \<in> set (db_reservations s)" for q
    using dist that unfolding xs_def distinct_map by (auto dest: inj_onD)
  then have "map (\<lambda>q. if rs_sequence q \<in> rs_sequence ` set xs
      then q\<lparr>rs_released_at_ns := Some t\<rparr> else q) (db_reservations s) =
      release_rows a t (db_reservations s)"
    by (auto simp: release_rows_def xs_def)
  then show thesis
    by (intro that [of s']) (use s' in \<open>simp_all add: release_limit_capacity_def xs_def\<close>)
qed

section \<open>Reservation\<close>

lemma requested_value_InrD:
  "requested_value a l = Inr v \<Longrightarrow> 0 \<le> v"
  "requested_value a l = Inr v \<Longrightarrow> l_value_argument l = Some arg \<Longrightarrow>
     extract_integer_argument (ra_arguments a) arg = Some v"
  by (auto simp: requested_value_def extract_integer_argument_def
      split: option.splits json.splits if_splits)

lemma check_actions_InrD: "check_actions a l n = Inr u \<Longrightarrow> l_max_actions l = Some m \<Longrightarrow> n + 1 \<le> m"
  by (auto simp: check_actions_def split: if_splits)

lemma check_value_InrD: "check_value a l n v = Inr u \<Longrightarrow> l_max_value l = Some m \<Longrightarrow> n + v \<le> m"
  by (auto simp: check_value_def split: if_splits)

lemma plan_limit_InrD:
  assumes "plan_limit a now us l = Inr (i, w, n, v)"
  shows "i = l_limit_id l" "w = window_start now (l_window_ns l)" "n = 1" "0 \<le> v"
    "l_max_actions l = Some m \<Longrightarrow> fst (usage_at us i w) + 1 \<le> m"
    "l_max_value l = Some m \<Longrightarrow> snd (usage_at us i w) + v \<le> m"
    "l_value_argument l = Some arg \<Longrightarrow> extract_integer_argument (ra_arguments a) arg = Some v"
  using assms
  by (auto simp: plan_limit_def Let_def result_simps
      dest: requested_value_InrD check_actions_InrD check_value_InrD)

text \<open>The counters after a list of reservations, as a sum over the list.\<close>

definition added :: "(int \<times> int \<Rightarrow> int) \<Rightarrow> string \<Rightarrow> int \<Rightarrow> (string \<times> int \<times> int \<times> int) list \<Rightarrow> int" where
  "added f i w xs = sum_list (map (\<lambda>(j, v, nx). if (j, v) = (i, w) then f nx else 0) xs)"

lemma added_simps [simp]:
  "added f i w [] = 0"
  "added f i w ((j, v, nx) # xs) = (if (j, v) = (i, w) then f nx else 0) + added f i w xs"
  by (simp_all add: added_def)

lemma reserve_one_usage:
  "reserve_one a (j, v, n, x) s = Inr s' \<Longrightarrow> usage_at (db_usage s') i w =
   (fst (usage_at (db_usage s) i w) + (if (j, v) = (i, w) then n else 0),
    snd (usage_at (db_usage s) i w) + (if (j, v) = (i, w) then x else 0))"
  by (auto simp: reserve_one_def usage_at_upsert split: if_splits)

lemma reserve_fold:
  assumes "fold_res (reserve_one a) xs s = Inr s'" "accounting_ok s"
    and "\<forall>(j, v, n, x) \<in> set xs. 0 < n \<and> 0 \<le> x"
  shows "accounting_ok s' \<and> only_capacity s s' \<and> usage_at (db_usage s') i w =
    (fst (usage_at (db_usage s) i w) + added fst i w xs,
     snd (usage_at (db_usage s) i w) + added snd i w xs)"
  using assms
proof (induction xs arbitrary: s)
  case (Cons y ys)
  obtain j v n x where y: "y = (j, v, n, x)" by (cases y)
  from Cons.prems(1) obtain s1 where s1: "reserve_one a (j, v, n, x) s = Inr s1"
    "fold_res (reserve_one a) ys s1 = Inr s'"
    by (auto simp: y result_simps)
  have pos: "0 < n" "0 \<le> x" using Cons.prems(3) by (simp_all add: y)
  note one = reserve_one_accounting [OF s1(1) Cons.prems(2) pos]
  from Cons.IH [OF s1(2) one(1)] Cons.prems(3) show ?case
    using one(2) only_capacity_trans reserve_one_usage [OF s1(1), of i w] by (auto simp: y)
qed simp

lemma added_single:
  assumes "distinct (map fst xs)" "(i, w, nx) \<in> set xs"
  shows "added f i w xs = f nx"
  using assms
proof (induction xs)
  case (Cons y ys)
  obtain j v mx where y: "y = (j, v, mx)" by (cases y) auto
  have none: "added f i w zs = 0" if "i \<notin> fst ` set zs" for zs
    using that by (induction zs) (auto simp: added_def)
  show ?case
    using Cons none [of ys] by (auto simp: y image_iff)
qed simp

text \<open>A reservation that succeeds: what is used afterwards of every applicable limit.\<close>

lemma map_res_nth: "map_res f xs = Inr ys \<Longrightarrow> x \<in> set xs \<Longrightarrow> \<exists>y \<in> set ys. f x = Inr y"
  by (auto simp: map_res_Inr_iff list_all2_conv_all_nth in_set_conv_nth)

lemma plan_ids:
  "map_res (plan_limit a now us) ls = Inr rsv \<Longrightarrow> map fst rsv = map l_limit_id ls"
  by (induction ls arbitrary: rsv) (auto simp: result_simps dest: plan_limit_InrD(1))

lemma plan_pos:
  "map_res (plan_limit a now us) ls = Inr rsv \<Longrightarrow> \<forall>(j, v, n, x) \<in> set rsv. 0 < n \<and> 0 \<le> x"
proof (induction ls arbitrary: rsv)
  case (Cons l ls)
  then obtain i w n v rsv' where "rsv = (i, w, n, v) # rsv'" "plan_limit a now us l = Inr (i, w, n, v)"
    "map_res (plan_limit a now us) ls = Inr rsv'"
    by (auto simp: result_simps)
  then show ?case
    using Cons.IH [of rsv'] plan_limit_InrD(3,4) [of a now us l i w n v] by simp
qed simp

lemma set_applicable: "set (applicable_limits a ls) =
    {l \<in> set ls. l_enabled l \<and> in_scope (l_namespace l) (l_tool_name l) a}"
  by (simp add: applicable_limits_def)

lemma distinct_applicable:
  "distinct (map l_limit_id ls) \<Longrightarrow> distinct (map l_limit_id (applicable_limits a ls))"
  by (simp add: applicable_limits_def distinct_map) (auto intro: inj_on_subset)

lemma reserve_ok:
  assumes "reserve_limit_capacity a now s = Inr (None, s')" "accounting_ok s"
    and "distinct (map l_limit_id (db_limits s))"
  shows "accounting_ok s'" "only_capacity s s'"
    and "l \<in> set (db_limits s) \<Longrightarrow> l_enabled l \<Longrightarrow> in_scope (l_namespace l) (l_tool_name l) a \<Longrightarrow>
      l_max_actions l = Some m \<Longrightarrow>
      fst (usage_at (db_usage s') (l_limit_id l) (window_start now (l_window_ns l))) \<le> m"
    and "l \<in> set (db_limits s) \<Longrightarrow> l_enabled l \<Longrightarrow> in_scope (l_namespace l) (l_tool_name l) a \<Longrightarrow>
      l_max_value l = Some m \<Longrightarrow>
      snd (usage_at (db_usage s') (l_limit_id l) (window_start now (l_window_ns l))) \<le> m"
proof -
  obtain rsv where plan: "map_res (plan_limit a now (db_usage s)) (applicable_limits a (db_limits s)) = Inr rsv"
    and fold: "fold_res (reserve_one (ra_action_id a)) rsv s = Inr s'"
    using assms(1) by (auto simp: reserve_limit_capacity_def result_simps split: sum.splits)
  note res = reserve_fold [OF fold assms(2) plan_pos [OF plan]]
  show "accounting_ok s'" "only_capacity s s'" using res by auto
  have dist: "distinct (map fst rsv)"
    using plan_ids [OF plan] distinct_applicable [OF assms(3), of a] by simp
  have used: "\<exists>n x. plan_limit a now (db_usage s) l = Inr (l_limit_id l, window_start now (l_window_ns l), n, x) \<and>
      usage_at (db_usage s') (l_limit_id l) (window_start now (l_window_ns l)) =
        (fst (usage_at (db_usage s) (l_limit_id l) (window_start now (l_window_ns l))) + n,
         snd (usage_at (db_usage s) (l_limit_id l) (window_start now (l_window_ns l))) + x)"
    if l: "l \<in> set (db_limits s)" "l_enabled l" "in_scope (l_namespace l) (l_tool_name l) a"
  proof -
    have "l \<in> set (applicable_limits a (db_limits s))"
      using l by (simp add: set_applicable)
    from map_res_nth [OF plan this] obtain i w n x where
      y: "(i, w, n, x) \<in> set rsv" "plan_limit a now (db_usage s) l = Inr (i, w, n, x)"
      by (metis prod_cases4)
    show ?thesis
      using plan_limit_InrD(1,2) [OF y(2)] y res [of i w] added_single [OF dist y(1), of fst]
        added_single [OF dist y(1), of snd] by auto
  qed
  show "fst (usage_at (db_usage s') (l_limit_id l) (window_start now (l_window_ns l))) \<le> m"
    if "l \<in> set (db_limits s)" "l_enabled l" "in_scope (l_namespace l) (l_tool_name l) a"
      "l_max_actions l = Some m"
    using used [OF that(1-3)] plan_limit_InrD(3,5) that(4) by fastforce
  show "snd (usage_at (db_usage s') (l_limit_id l) (window_start now (l_window_ns l))) \<le> m"
    if "l \<in> set (db_limits s)" "l_enabled l" "in_scope (l_namespace l) (l_tool_name l) a"
      "l_max_value l = Some m"
    using used [OF that(1-3)] plan_limit_InrD(6) that(4) by fastforce
qed


lemma reserve_rows:
  "reserve_limit_capacity a now s = Inr (b, s') \<Longrightarrow> q \<in> set (db_reservations s') \<Longrightarrow>
   q \<in> set (db_reservations s) \<or> rs_action_id q = ra_action_id a"
proof -
  have fold: "q \<in> set (db_reservations s) \<or> rs_action_id q = i"
    if "fold_res (reserve_one i) xs s = Inr s'" "q \<in> set (db_reservations s')" for i xs s s' q
    using that
  proof (induction xs arbitrary: s)
    case (Cons x xs)
    then obtain s1 where s1: "reserve_one i x s = Inr s1" "fold_res (reserve_one i) xs s1 = Inr s'"
      by (auto simp: result_simps)
    from Cons.IH [OF s1(2) Cons.prems(2)] s1(1) show ?case
      by (auto simp: reserve_one_def split: if_splits prod.splits)
  qed simp
  assume "reserve_limit_capacity a now s = Inr (b, s')" "q \<in> set (db_reservations s')"
  then show ?thesis
    by (auto simp: reserve_limit_capacity_def result_simps split: sum.splits dest: fold)
qed

lemma reserve_only_capacity:
  assumes "reserve_limit_capacity a now s = Inr (b, s')"
  shows "only_capacity s s'"
proof -
  have "only_capacity s s'" if "fold_res (reserve_one i) xs s = Inr s'" for i xs s'
    using that
    by (rule fold_res_invariant [where P = "only_capacity s"])
      (auto simp: reserve_one_def only_capacity_def split: if_splits prod.splits)
  with assms show ?thesis
    by (auto simp: reserve_limit_capacity_def result_simps split: sum.splits)
qed

lemma reserve_blocked:
  "reserve_limit_capacity a now s = Inr (Some e, s') \<Longrightarrow> s' = s \<and>
   map_res (plan_limit a now (db_usage s)) (applicable_limits a (db_limits s)) = Inl e"
  by (auto simp: reserve_limit_capacity_def result_simps split: sum.splits)

text \<open>Which exceptions a plan blocks with.\<close>

lemma map_res_mem: "map_res f xs = Inr ys \<Longrightarrow> y \<in> set ys \<Longrightarrow> \<exists>x \<in> set xs. f x = Inr y"
  by (induction xs arbitrary: ys) (auto simp: result_simps)

lemma map_res_Inl: "map_res f xs = Inl e \<Longrightarrow> \<exists>x \<in> set xs. f x = Inl e"
  by (induction xs) (auto simp: result_simps)

lemma plan_limit_InlD:
  assumes "plan_limit a now us l = Inl e"
  shows "(\<exists>arg. l_value_argument l = Some arg \<and> extract_integer_argument (ra_arguments a) arg = None \<and>
      e = ActionLimitValueError a (l_limit_id l) arg) \<or>
    (\<exists>m. l_max_actions l = Some m \<and>
      m < fst (usage_at us (l_limit_id l) (window_start now (l_window_ns l))) + 1 \<and>
      e = ActionLimitExceeded a (l_limit_id l) ''actions''
        (fst (usage_at us (l_limit_id l) (window_start now (l_window_ns l)))) 1 m) \<or>
    (\<exists>m v res. l_max_value l = Some m \<and> requested_value a l = Inr v \<and>
      m < snd (usage_at us (l_limit_id l) (window_start now (l_window_ns l))) + v \<and>
      e = ActionLimitExceeded a (l_limit_id l) res
        (snd (usage_at us (l_limit_id l) (window_start now (l_window_ns l)))) v m)"
proof -
  let ?u = "usage_at us (l_limit_id l) (window_start now (l_window_ns l))"
  from assms consider "requested_value a l = Inl e"
    | "check_actions a l (fst ?u) = Inl e"
    | v where "requested_value a l = Inr v" "check_value a l (snd ?u) v = Inl e"
    by (auto simp: plan_limit_def Let_def result_simps)
  then show ?thesis
  proof cases
    case 1
    then show ?thesis by (auto simp: requested_value_def split: option.splits)
  next
    case 2
    then show ?thesis by (auto simp: check_actions_def split: option.splits if_splits)
  next
    case 3
    then show ?thesis by (auto simp: check_value_def split: option.splits if_splits)
  qed
qed

text \<open>On a clock past the epoch a reservation never raises.\<close>

lemma window_start_nonneg: "0 \<le> now \<Longrightarrow> 0 < w \<Longrightarrow> 0 \<le> window_start now w"
  by (simp add: window_start_def zmod_le_nonneg_dividend)

lemma reserve_total:
  assumes "0 \<le> now" "\<forall>l \<in> set (db_limits s). 0 < l_window_ns l"
  shows "\<exists>b s'. reserve_limit_capacity a now s = Inr (b, s')"
proof (cases "map_res (plan_limit a now (db_usage s)) (applicable_limits a (db_limits s))")
  case (Inl e)
  then show ?thesis by (simp add: reserve_limit_capacity_def)
next
  case (Inr rsv)
  have "0 \<le> w" if r: "(i, w, n, x) \<in> set rsv" for i w n x
  proof -
    obtain l where l: "l \<in> set (applicable_limits a (db_limits s))"
      "plan_limit a now (db_usage s) l = Inr (i, w, n, x)"
      using map_res_mem [OF Inr r] by auto
    have "l \<in> set (db_limits s)" "w = window_start now (l_window_ns l)"
      using l(1) plan_limit_InrD(2) [OF l(2)] by (simp_all add: set_applicable)
    then show ?thesis
      using window_start_nonneg assms by auto
  qed
  then have "\<exists>s'. fold_res (reserve_one i) rsv s = Inr s'" for i
  proof (induction rsv arbitrary: s)
    case (Cons y ys)
    obtain j w n x where y: "y = (j, w, n, x)" by (cases y)
    have "0 \<le> w" using Cons.prems [of j w n x] by (simp add: y)
    then obtain s1 where "reserve_one i y s = Inr s1" by (simp add: y reserve_one_def)
    with Cons show ?case by fastforce
  qed simp
  with Inr show ?thesis by (auto simp: reserve_limit_capacity_def result_simps)
qed

end
