(* ===== verification/Store.thy ===== *)
theory Store
  imports Controls_Facts
begin

text \<open>
  The durable runtime store of runtime/store.py: submission, decisions, the execution claim, its
  completion, the recording of unknown outcomes, reconciliation, the reads that apply expiry, and
  the verification of the two logs. Every operation takes the codec and the time the clock
  returned; the body of its transaction computes a result and the database it leaves or raises, and
  \<open>transaction\<close> rolls back when it raises.
\<close>

section \<open>Configuration\<close>

text \<open>\<open>_configure_runtime_store\<close>: the lease in nanoseconds.\<close>

definition execution_lease :: "pyfloat \<Rightarrow> runtime_error + int" where
  "execution_lease seconds =
     (if \<not> is_finite seconds \<or> num_le seconds (of_int_num 0) then
        Inl (ValueError ''execution_lease_seconds must be finite and greater than zero'')
      else case seconds_to_ns seconds of
        None \<Rightarrow> Inl OverflowError
      | Some n \<Rightarrow> if n < 1
          then Inl (ValueError ''execution_lease_seconds must be at least one nanosecond'')
          else Inr n)"

section \<open>Writes\<close>

definition add_receipt ::
  "codec \<Rightarrow> string \<Rightarrow> runtime_event \<Rightarrow> int \<Rightarrow> string \<Rightarrow> string option \<Rightarrow> string option \<Rightarrow> db \<Rightarrow> db" where
  "add_receipt K action_id event now digest actor detail s =
     s\<lparr>db_receipts := append_receipt K action_id event now digest actor detail (db_receipts s)\<rparr>"

definition update_action :: "string \<Rightarrow> (action_row \<Rightarrow> action_row) \<Rightarrow> db \<Rightarrow> db" where
  "update_action action_id f s = s\<lparr>db_actions := update_row r_action_id action_id f (db_actions s)\<rparr>"

section \<open>Expiry\<close>

definition due :: "int option \<Rightarrow> int \<Rightarrow> bool" where
  "due t now = (case t of None \<Rightarrow> False | Some e \<Rightarrow> e \<le> now)"

definition refresh_expiry ::
  "codec \<Rightarrow> int \<Rightarrow> action_row \<Rightarrow> db \<Rightarrow> runtime_error + (action_row \<times> db)" where
  "refresh_expiry K now row s =
     (if r_status row \<in> {PENDING, APPROVED} \<and> due (r_expires_at_ns row) now then
        let s' = add_receipt K (r_action_id row) Ev_EXPIRED now (r_request_digest row)
                   (Some ''runtime'') None
                   (update_action (r_action_id row)
                      (\<lambda>r. r\<lparr>r_status := EXPIRED, r_updated_at_ns := now\<rparr>) s)
        in bind_res (require_row (r_action_id row) s') (\<lambda>r. Inr (r, s'))
      else Inr (row, s))"

definition refresh_state ::
  "codec \<Rightarrow> int \<Rightarrow> action_row \<Rightarrow> db \<Rightarrow> runtime_error + (action_row \<times> db)" where
  "refresh_state K now row0 s0 =
   bind_res (refresh_expiry K now row0 s0) (\<lambda>(row, s).
     if r_status row = EXECUTING \<and> due (r_execution_lease_expires_at_ns row) now then
       let s' = add_receipt K (r_action_id row) Ev_EXECUTION_ABANDONED now (r_request_digest row)
                  (Some ''runtime'') (Some ''ExecutionLeaseExpired'')
                  (update_action (r_action_id row)
                     (\<lambda>r. r\<lparr>r_status := UNKNOWN, r_updated_at_ns := now,
                        r_error := Some ''ExecutionLeaseExpired'',
                        r_execution_lease_expires_at_ns := None\<rparr>) s)
       in bind_res (require_row (r_action_id row) s') (\<lambda>r. Inr (r, s'))
     else Inr (row, s))"

section \<open>Submission\<close>

abbreviation binding_key :: "action_row \<Rightarrow> string \<times> string \<times> string" where
  "binding_key r \<equiv> (r_namespace r, r_tool_name r, r_idempotency_key r)"

definition initial_status :: "policy_effect \<Rightarrow> runtime_status" where
  "initial_status e = (case e of ALLOW \<Rightarrow> APPROVED | DENY \<Rightarrow> DENIED | REQUIRE_APPROVAL \<Rightarrow> PENDING)"

definition submit_event :: "policy_effect \<Rightarrow> runtime_event" where
  "submit_event e = (case e of ALLOW \<Rightarrow> Ev_POLICY_ALLOWED | DENY \<Rightarrow> Ev_POLICY_DENIED
     | REQUIRE_APPROVAL \<Rightarrow> Ev_APPROVAL_REQUESTED)"

definition decision_ttl_ns :: "policy_decision \<Rightarrow> runtime_error + int option" where
  "decision_ttl_ns d =
     (if pd_effect d = REQUIRE_APPROVAL then
        (case pd_approval_ttl_seconds d of
           None \<Rightarrow> Inr None
         | Some x \<Rightarrow> (case seconds_to_ns x of None \<Rightarrow> Inl OverflowError | Some n \<Rightarrow> Inr (Some n)))
      else Inr None)"

definition new_row ::
  "codec \<Rightarrow> int \<Rightarrow> runtime_request \<Rightarrow> policy_decision \<Rightarrow> int option \<Rightarrow> action_row" where
  "new_row K now rq d ttl =
     \<lparr>r_action_id = rq_action_id rq, r_organization_id = rq_organization_id rq,
      r_requested_by = rq_requested_by rq, r_namespace = rq_namespace rq,
      r_tool_name = rq_tool_name rq, r_arguments = rq_arguments rq,
      r_idempotency_key = rq_idempotency_key rq, r_request_digest = request_digest K rq,
      r_policy_version = rq_policy_version rq, r_policy_rule = pd_rule_name d,
      r_policy_effect = pd_effect d, r_status = initial_status (pd_effect d),
      r_created_at_ns = rq_created_at_ns rq, r_updated_at_ns = now,
      r_expires_at_ns = map_option (\<lambda>n. now + n) ttl, r_approval_ttl_ns = ttl,
      r_execution_lease_expires_at_ns = None, r_result = None, r_error = None,
      r_decided_by = (if pd_effect d = ALLOW then Some ''policy'' else None),
      r_decision_reason = None\<rparr>"

text \<open>The two inserts of a new action: its row and its first receipt.\<close>

definition inserted :: "codec \<Rightarrow> int \<Rightarrow> runtime_request \<Rightarrow> policy_decision \<Rightarrow> int option \<Rightarrow> db \<Rightarrow> db" where
  "inserted K now rq d ttl s =
     add_receipt K (rq_action_id rq) (submit_event (pd_effect d)) now (request_digest K rq)
       (Some ''policy'') (Some (''rule='' @ pd_rule_name d @ '';policy='' @ pd_policy_version d))
       (s\<lparr>db_actions := db_actions s @ [new_row K now rq d ttl]\<rparr>)"

definition submit_tx ::
  "codec \<Rightarrow> int \<Rightarrow> runtime_request \<Rightarrow> policy_decision \<Rightarrow> db \<Rightarrow>
   runtime_error + (runtime_action \<times> db)" where
  "submit_tx K now rq d s =
     (case find_row binding_key (rq_namespace rq, rq_tool_name rq, rq_idempotency_key rq)
         (db_actions s) of
        Some row0 \<Rightarrow>
          bind_res (refresh_state K now row0 s) (\<lambda>(row, s').
          if r_request_digest row \<noteq> request_digest K rq then Inl ActionBindingError
          else Inr (row_to_action row, s'))
      | None \<Rightarrow>
          bind_res (decision_ttl_ns d) (\<lambda>ttl.
          if find_action (rq_action_id rq) s \<noteq> None
          then Inl (IntegrityError ''runtime_actions.action_id'')
          else
            let s' = inserted K now rq d ttl s
            in bind_res (require_row (rq_action_id rq) s') (\<lambda>row. Inr (row_to_action row, s'))))"

definition submit ::
  "codec \<Rightarrow> int \<Rightarrow> runtime_request \<Rightarrow> policy_decision \<Rightarrow> db \<Rightarrow>
   (runtime_error + runtime_action) \<times> db" where
  "submit K now rq d s =
     (if pd_policy_version d \<noteq> rq_policy_version rq then
        (Inl (ValueError ''policy decision version does not match the runtime request''), s)
      else transaction (submit_tx K now rq d s) s)"

section \<open>Decisions\<close>

definition decide_locked ::
  "codec \<Rightarrow> int \<Rightarrow> runtime_action \<Rightarrow> decision \<Rightarrow> string \<Rightarrow> string option \<Rightarrow> db \<Rightarrow>
   runtime_error + (runtime_action \<times> db)" where
  "decide_locked K now a d decided_by reason s =
     (let target = (if d = APPROVE then APPROVED else REJECTED) in
      if ra_status a = target then Inr (a, s)
      else if ra_status a = EXPIRED then Inl (ApprovalExpired a)
      else if ra_status a \<noteq> PENDING then Inl (InvalidActionState (ra_action_id a) (ra_status a))
      else
        let s' = add_receipt K (ra_action_id a) (if d = APPROVE then Ev_APPROVED else Ev_REJECTED)
                   now (ra_request_digest a) (Some decided_by) reason
                   (update_action (ra_action_id a)
                      (\<lambda>r. r\<lparr>r_status := target, r_updated_at_ns := now,
                         r_decided_by := Some decided_by, r_decision_reason := reason\<rparr>) s)
        in bind_res (require_row (ra_action_id a) s') (\<lambda>row. Inr (row_to_action row, s')))"

definition decide ::
  "codec \<Rightarrow> int \<Rightarrow> string \<Rightarrow> decision \<Rightarrow> string \<Rightarrow> string option \<Rightarrow> db \<Rightarrow>
   (runtime_error + runtime_action) \<times> db" where
  "decide K now action_id d decided_by reason s =
     (if blank decided_by then (Inl (ValueError ''decided_by must not be empty''), s)
      else transaction
        (bind_res (require_row action_id s) (\<lambda>row0.
         bind_res (refresh_state K now row0 s) (\<lambda>(row, s').
         decide_locked K now (row_to_action row) d decided_by reason s'))) s)"

text \<open>The four constraints a reviewer's authorization puts on an action, in the order of the source.\<close>

definition check_authorization ::
  "runtime_action \<Rightarrow> decision \<Rightarrow> decision_authorization \<Rightarrow> runtime_error + unit" where
  "check_authorization a d auth =
     (if ra_organization_id a \<noteq> da_organization_id auth then
        Inl (ApprovalAuthorizationError ''organization_mismatch'')
      else if ra_namespace a \<notin> set (da_namespaces auth) then
        Inl (ApprovalAuthorizationError ''namespace_forbidden'')
      else if d \<notin> set (da_decisions auth) then
        Inl (ApprovalAuthorizationError ''decision_forbidden'')
      else if da_require_separate_approver auth \<and> ra_requested_by a \<noteq> None \<and>
          ra_requested_by a = Some (case da_reviewer_subject auth of
            None \<Rightarrow> da_actor auth | Some u \<Rightarrow> if u = [] then da_actor auth else u) then
        Inl (ApprovalAuthorizationError ''separation_of_duties'')
      else Inr ())"

definition decide_authorized ::
  "codec \<Rightarrow> int \<Rightarrow> string \<Rightarrow> decision \<Rightarrow> decision_authorization \<Rightarrow> string option \<Rightarrow> db \<Rightarrow>
   (runtime_error + runtime_action) \<times> db" where
  "decide_authorized K now action_id d auth reason s =
     transaction
       (bind_res (require_row action_id s) (\<lambda>row0.
        bind_res (refresh_state K now row0 s) (\<lambda>(row, s').
        let a = row_to_action row in
        bind_res (check_authorization a d auth) (\<lambda>_.
        decide_locked K now a d (da_actor auth) reason s')))) s"

section \<open>Execution\<close>

text \<open>
  The transaction of \<open>claim\<close>. What it returns is the claim, or the exception that is raised after
  the receipt that reports the block is committed.
\<close>

definition claim_approved ::
  "codec \<Rightarrow> int \<Rightarrow> int \<Rightarrow> runtime_action \<Rightarrow> string \<Rightarrow> db \<Rightarrow>
   runtime_error + ((runtime_error + execution_claim) \<times> db)" where
  "claim_approved K lease_ns now a digest s =
     (case matching_pause a (db_pauses s) of
        Some p \<Rightarrow>
          let scope = format_scope K (p_namespace p) (p_tool_name p); reason = p_reason p
          in Inr (Inl (EmergencyPauseActive a scope reason),
               add_receipt K (ra_action_id a) Ev_EMERGENCY_PAUSE_BLOCKED now digest (Some ''runtime'')
                 (Some (dumps K (JObj [(''reason'', JStr reason), (''scope'', JStr scope)]))) s)
      | None \<Rightarrow>
          bind_res (reserve_limit_capacity a now s) (\<lambda>(blocked, s1).
          case blocked of
            Some e \<Rightarrow>
              Inr (Inl e, add_receipt K (ra_action_id a) Ev_LIMIT_BLOCKED now digest
                (Some ''runtime'') (Some (limit_block_detail K e)) s1)
          | None \<Rightarrow>
              let s2 = add_receipt K (ra_action_id a) Ev_EXECUTION_STARTED now digest
                         (Some ''runtime'') None
                         (update_action (ra_action_id a)
                            (\<lambda>r. r\<lparr>r_status := EXECUTING, r_updated_at_ns := now,
                               r_execution_lease_expires_at_ns := Some (now + lease_ns)\<rparr>) s1)
              in bind_res (require_row (ra_action_id a) s2) (\<lambda>row.
                 Inr (Inr \<lparr>ec_outcome = EXECUTE, ec_action = row_to_action row,
                   ec_result = JNull\<rparr>, s2))))"

definition claim_tx ::
  "codec \<Rightarrow> int \<Rightarrow> int \<Rightarrow> string \<Rightarrow> string \<Rightarrow> db \<Rightarrow>
   runtime_error + ((runtime_error + execution_claim) \<times> db)" where
  "claim_tx K lease_ns now action_id digest s0 =
   bind_res (require_row action_id s0) (\<lambda>row0.
   bind_res (refresh_state K now row0 s0) (\<lambda>(row, s).
   let a = row_to_action row in
   if ra_request_digest a \<noteq> digest then Inl ActionBindingError
   else case ra_status a of
     SUCCEEDED \<Rightarrow> Inr (Inr \<lparr>ec_outcome = REPLAY, ec_action = a, ec_result = ra_result a\<rparr>,
       add_receipt K action_id Ev_RESULT_REPLAYED now digest (Some ''runtime'') None s)
   | APPROVED \<Rightarrow> claim_approved K lease_ns now a digest s
   | PENDING \<Rightarrow> Inl (ApprovalRequired a)
   | DENIED \<Rightarrow> Inl (PolicyDenied a)
   | REJECTED \<Rightarrow> Inl (ApprovalRejected a)
   | EXPIRED \<Rightarrow> Inl (ApprovalExpired a)
   | EXECUTING \<Rightarrow> Inl (ActionInProgress a)
   | UNKNOWN \<Rightarrow> Inl (ActionOutcomeUnknown a)))"

definition claim ::
  "codec \<Rightarrow> int \<Rightarrow> int \<Rightarrow> string \<Rightarrow> string \<Rightarrow> db \<Rightarrow> (runtime_error + execution_claim) \<times> db" where
  "claim K lease_ns now action_id digest s =
     (case transaction (claim_tx K lease_ns now action_id digest s) s of
        (Inl e, s') \<Rightarrow> (Inl e, s')
      | (Inr (Inl blocked), s') \<Rightarrow> (Inl blocked, s')
      | (Inr (Inr c), s') \<Rightarrow> (Inr c, s'))"

definition require_executing :: "runtime_action \<Rightarrow> string \<Rightarrow> runtime_error + unit" where
  "require_executing a digest =
     (if ra_request_digest a \<noteq> digest then Inl ActionBindingError
      else if ra_status a \<noteq> EXECUTING then Inl (InvalidActionState (ra_action_id a) (ra_status a))
      else Inr ())"

definition complete ::
  "codec \<Rightarrow> int \<Rightarrow> string \<Rightarrow> string \<Rightarrow> json \<Rightarrow> db \<Rightarrow> (runtime_error + runtime_action) \<times> db" where
  "complete K now action_id digest result s =
     (case json_result (canonical_json K result ''result'') of
        Inl e \<Rightarrow> (Inl e, s)
      | Inr result_json \<Rightarrow> transaction
          (bind_res (require_row action_id s) (\<lambda>row0.
           bind_res (require_executing (row_to_action row0) digest) (\<lambda>_.
           let s' = add_receipt K action_id Ev_EXECUTION_SUCCEEDED now digest (Some ''runtime'') None
                      (update_action action_id
                         (\<lambda>r. r\<lparr>r_status := SUCCEEDED, r_updated_at_ns := now,
                            r_result := Some (json_norm result), r_error := None,
                            r_execution_lease_expires_at_ns := None\<rparr>) s)
           in bind_res (require_row action_id s') (\<lambda>row. Inr (row_to_action row, s'))))) s)"

definition mark_unknown ::
  "codec \<Rightarrow> int \<Rightarrow> string \<Rightarrow> string \<Rightarrow> string \<Rightarrow> db \<Rightarrow> (runtime_error + runtime_action) \<times> db" where
  "mark_unknown K now action_id digest error s =
     (if blank error then (Inl (ValueError ''error must not be empty''), s)
      else transaction
        (bind_res (require_row action_id s) (\<lambda>row0.
         bind_res (require_executing (row_to_action row0) digest) (\<lambda>_.
         let s' = add_receipt K action_id Ev_EXECUTION_UNKNOWN now digest (Some ''runtime'')
                    (Some error)
                    (update_action action_id
                       (\<lambda>r. r\<lparr>r_status := UNKNOWN, r_updated_at_ns := now, r_error := Some error,
                          r_execution_lease_expires_at_ns := None\<rparr>) s)
         in bind_res (require_row action_id s') (\<lambda>row. Inr (row_to_action row, s'))))) s)"

section \<open>Reconciliation\<close>

text \<open>The columns a reconciliation sets: status, expiry, decider, reason, and the event it logs.\<close>

record reconcile_target =
  rt_status :: runtime_status
  rt_expires_at_ns :: "int option"
  rt_decided_by :: "string option"
  rt_decision_reason :: "string option"
  rt_event :: runtime_event

definition reconcile_target_of ::
  "int \<Rightarrow> runtime_action \<Rightarrow> runtime_reconciliation \<Rightarrow> runtime_error + reconcile_target" where
  "reconcile_target_of now a outcome =
     (if outcome = COMMITTED then
        Inr \<lparr>rt_status = SUCCEEDED, rt_expires_at_ns = None, rt_decided_by = ra_decided_by a,
          rt_decision_reason = ra_decision_reason a, rt_event = Ev_RECONCILIATION_COMMITTED\<rparr>
      else if ra_policy_effect a = REQUIRE_APPROVAL then
        Inr \<lparr>rt_status = PENDING,
          rt_expires_at_ns = map_option (\<lambda>n. now + n) (ra_approval_ttl_ns a),
          rt_decided_by = None, rt_decision_reason = None,
          rt_event = Ev_RECONCILIATION_NOT_COMMITTED\<rparr>
      else if ra_policy_effect a = ALLOW then
        Inr \<lparr>rt_status = APPROVED, rt_expires_at_ns = None, rt_decided_by = Some ''policy'',
          rt_decision_reason = None, rt_event = Ev_RECONCILIATION_NOT_COMMITTED\<rparr>
      else Inl (InvalidActionState (ra_action_id a) (ra_status a)))"

definition reconciled_row :: "int \<Rightarrow> reconcile_target \<Rightarrow> json option \<Rightarrow> action_row \<Rightarrow> action_row" where
  "reconciled_row now t result_json r =
     r\<lparr>r_status := rt_status t, r_updated_at_ns := now, r_expires_at_ns := rt_expires_at_ns t,
       r_execution_lease_expires_at_ns := None, r_result := result_json, r_error := None,
       r_decided_by := rt_decided_by t, r_decision_reason := rt_decision_reason t\<rparr>"

definition reconcile_write ::
  "codec \<Rightarrow> int \<Rightarrow> runtime_action \<Rightarrow> reconcile_target \<Rightarrow> string \<Rightarrow> string \<Rightarrow> json option \<Rightarrow> db \<Rightarrow>
   runtime_error + (runtime_action \<times> db)" where
  "reconcile_write K now a t resolved_by reason result_json s1 =
     (let s2 = add_receipt K (ra_action_id a) (rt_event t) now (ra_request_digest a)
                 (Some resolved_by) (Some reason)
                 (update_action (ra_action_id a) (reconciled_row now t result_json) s1)
      in bind_res (require_row (ra_action_id a) s2) (\<lambda>row. Inr (row_to_action row, s2)))"

definition reconcile_tx ::
  "codec \<Rightarrow> int \<Rightarrow> string \<Rightarrow> runtime_reconciliation \<Rightarrow> string \<Rightarrow> string \<Rightarrow> json option \<Rightarrow> db \<Rightarrow>
   runtime_error + (runtime_action \<times> db)" where
  "reconcile_tx K now action_id outcome resolved_by reason result_json s0 =
   bind_res (require_row action_id s0) (\<lambda>row0.
   bind_res (refresh_state K now row0 s0) (\<lambda>(row, s).
   let a = row_to_action row in
   if ra_status a \<noteq> UNKNOWN then Inl (InvalidActionState action_id (ra_status a))
   else
     bind_res (reconcile_target_of now a outcome) (\<lambda>t.
     bind_res (if outcome = NOT_COMMITTED then release_limit_capacity (ra_action_id a) now s
               else Inr s) (\<lambda>s1.
     reconcile_write K now a t resolved_by reason result_json s1))))"

definition reconcile ::
  "codec \<Rightarrow> int \<Rightarrow> string \<Rightarrow> runtime_reconciliation \<Rightarrow> string \<Rightarrow> string \<Rightarrow> json \<Rightarrow> db \<Rightarrow>
   (runtime_error + runtime_action) \<times> db" where
  "reconcile K now action_id outcome resolved_by reason result s =
     (if blank resolved_by then (Inl (ValueError ''resolved_by must not be empty''), s)
      else if blank reason then (Inl (ValueError ''reason must not be empty''), s)
      else if outcome = NOT_COMMITTED \<and> result \<noteq> JNull then
        (Inl (ValueError ''result is valid only for a committed reconciliation''), s)
      else case (if outcome = COMMITTED
            then bind_res (json_result (canonical_json K result ''reconciliation result''))
              (\<lambda>_. Inr (Some (json_norm result)))
            else Inr None) of
          Inl e \<Rightarrow> (Inl e, s)
        | Inr result_json \<Rightarrow>
            transaction (reconcile_tx K now action_id outcome resolved_by reason result_json s) s)"

section \<open>Reads\<close>

definition get_action ::
  "codec \<Rightarrow> int \<Rightarrow> string \<Rightarrow> db \<Rightarrow> (runtime_error + runtime_action) \<times> db" where
  "get_action K now action_id s = transaction
     (bind_res (require_row action_id s) (\<lambda>row0.
      bind_res (refresh_state K now row0 s) (\<lambda>(row, s'). Inr (row_to_action row, s')))) s"

fun refresh_all ::
  "codec \<Rightarrow> int \<Rightarrow> action_row list \<Rightarrow> db \<Rightarrow> runtime_error + (runtime_action list \<times> db)" where
  "refresh_all K now [] s = Inr ([], s)"
| "refresh_all K now (row # rows) s =
     bind_res (refresh_state K now row s) (\<lambda>(row', s1).
     bind_res (refresh_all K now rows s1) (\<lambda>(as, s2). Inr (row_to_action row' # as, s2)))"

definition list_actions ::
  "codec \<Rightarrow> int \<Rightarrow> runtime_status option \<Rightarrow> db \<Rightarrow> (runtime_error + runtime_action list) \<times> db" where
  "list_actions K now status s = transaction
     (bind_res (refresh_all K now (sort_key (\<lambda>r. (r_created_at_ns r, r_action_id r)) (db_actions s)) s)
       (\<lambda>(as, s'). Inr (case status of None \<Rightarrow> as | Some t \<Rightarrow> filter (\<lambda>a. ra_status a = t) as, s'))) s"

definition receipts :: "string option \<Rightarrow> db \<Rightarrow> runtime_receipt list" where
  "receipts action_id s = (case action_id of
     None \<Rightarrow> db_receipts s | Some i \<Rightarrow> filter (\<lambda>r. rc_action_id r = i) (db_receipts s))"

definition verify_receipt_chain :: "codec \<Rightarrow> db \<Rightarrow> bool" where
  "verify_receipt_chain K s = verify_receipts K (receipts None s)"

definition control_receipts :: "db \<Rightarrow> control_receipt list" where
  "control_receipts s = db_controls s"

definition verify_control_receipt_chain :: "codec \<Rightarrow> db \<Rightarrow> bool" where
  "verify_control_receipt_chain K s = verify_control_receipts K (control_receipts s)"

end
