(* ===== verification/Lifecycle.thy ===== *)
theory Lifecycle
  imports Models
begin

text \<open>
  The abstract specification of one protected action: an automaton over the audit events of
  runtime/models.py. \<open>Store_Inv\<close> shows that the store refines it: the receipts of an action, read
  in order, drive the automaton to the status its row holds. The lemmas here are the promises the
  automaton makes about any such log: an execution starts at most once more often than a reviewer
  has proved an earlier one uncommitted, an action that needs approval never starts without a fresh
  approval, a denied action never starts, and a finished one only replays.
\<close>

section \<open>The automaton\<close>

definition life_start :: "policy_effect \<Rightarrow> runtime_event \<Rightarrow> runtime_status option" where
  "life_start e ev = (case (e, ev) of
     (ALLOW, Ev_POLICY_ALLOWED) \<Rightarrow> Some APPROVED
   | (DENY, Ev_POLICY_DENIED) \<Rightarrow> Some DENIED
   | (REQUIRE_APPROVAL, Ev_APPROVAL_REQUESTED) \<Rightarrow> Some PENDING
   | _ \<Rightarrow> None)"

definition life_step :: "policy_effect \<Rightarrow> runtime_status \<Rightarrow> runtime_event \<Rightarrow> runtime_status option" where
  "life_step e st ev = (case (st, ev) of
     (PENDING, Ev_APPROVED) \<Rightarrow> Some APPROVED
   | (PENDING, Ev_REJECTED) \<Rightarrow> Some REJECTED
   | (PENDING, Ev_EXPIRED) \<Rightarrow> Some EXPIRED
   | (APPROVED, Ev_EXPIRED) \<Rightarrow> Some EXPIRED
   | (APPROVED, Ev_EMERGENCY_PAUSE_BLOCKED) \<Rightarrow> Some APPROVED
   | (APPROVED, Ev_LIMIT_BLOCKED) \<Rightarrow> Some APPROVED
   | (APPROVED, Ev_EXECUTION_STARTED) \<Rightarrow> Some EXECUTING
   | (EXECUTING, Ev_EXECUTION_SUCCEEDED) \<Rightarrow> Some SUCCEEDED
   | (EXECUTING, Ev_EXECUTION_UNKNOWN) \<Rightarrow> Some UNKNOWN
   | (EXECUTING, Ev_EXECUTION_ABANDONED) \<Rightarrow> Some UNKNOWN
   | (UNKNOWN, Ev_RECONCILIATION_COMMITTED) \<Rightarrow> Some SUCCEEDED
   | (UNKNOWN, Ev_RECONCILIATION_NOT_COMMITTED) \<Rightarrow>
       (case e of REQUIRE_APPROVAL \<Rightarrow> Some PENDING | ALLOW \<Rightarrow> Some APPROVED | DENY \<Rightarrow> None)
   | (SUCCEEDED, Ev_RESULT_REPLAYED) \<Rightarrow> Some SUCCEEDED
   | _ \<Rightarrow> None)"

fun life_run :: "policy_effect \<Rightarrow> runtime_status \<Rightarrow> runtime_event list \<Rightarrow> runtime_status option" where
  "life_run e st [] = Some st"
| "life_run e st (ev # evs) = (case life_step e st ev of None \<Rightarrow> None | Some st' \<Rightarrow> life_run e st' evs)"

text \<open>The status a complete log of an action leads to; \<open>None\<close> when it is no log of an action.\<close>

definition life_log :: "policy_effect \<Rightarrow> runtime_event list \<Rightarrow> runtime_status option" where
  "life_log e evs = (case evs of [] \<Rightarrow> None
     | ev # rest \<Rightarrow> (case life_start e ev of None \<Rightarrow> None | Some st \<Rightarrow> life_run e st rest))"

lemma life_log_Nil [simp]: "life_log e [] = None"
  by (simp add: life_log_def)

lemma life_run_append:
  "life_run e st (xs @ ys) = (case life_run e st xs of None \<Rightarrow> None | Some st' \<Rightarrow> life_run e st' ys)"
  by (induction xs arbitrary: st) (auto split: option.splits)

lemma life_log_snoc:
  "life_log e (evs @ [ev]) = (if evs = [] then life_start e ev
     else case life_log e evs of None \<Rightarrow> None | Some st \<Rightarrow> life_step e st ev)"
  by (cases evs) (auto simp: life_log_def life_run_append split: option.splits)

lemma life_log_single: "life_log e [ev] = life_start e ev"
  by (simp add: life_log_def split: option.splits)

section \<open>Counting executions\<close>

definition count_ev :: "runtime_event \<Rightarrow> runtime_event list \<Rightarrow> nat" where
  "count_ev ev evs = length (filter (\<lambda>x. x = ev) evs)"

lemma count_ev_simps [simp]:
  "count_ev ev [] = 0"
  "count_ev ev (x # xs) = (if x = ev then 1 else 0) + count_ev ev xs"
  "count_ev ev (xs @ ys) = count_ev ev xs + count_ev ev ys"
  by (simp_all add: count_ev_def)

text \<open>
  What the automaton counts: whether the action holds a running, finished or uncertain execution,
  and whether it holds an approval that has not been used.
\<close>

definition started :: "runtime_status \<Rightarrow> nat" where
  "started st = (if st \<in> {EXECUTING, SUCCEEDED, UNKNOWN} then 1 else 0)"

definition approved :: "runtime_status \<Rightarrow> nat" where
  "approved st = (if st = APPROVED then 1 else 0)"

lemma life_step_counts:
  assumes "life_step e st ev = Some st'"
  shows "started st + count_ev Ev_EXECUTION_STARTED [ev] =
      started st' + count_ev Ev_RECONCILIATION_NOT_COMMITTED [ev]"
    and "e = REQUIRE_APPROVAL \<Longrightarrow>
      count_ev Ev_EXECUTION_STARTED [ev] + approved st' \<le> count_ev Ev_APPROVED [ev] + approved st"
    and "st \<noteq> DENIED" "st \<noteq> REJECTED" "st \<noteq> EXPIRED"
    and "st = SUCCEEDED \<Longrightarrow> ev = Ev_RESULT_REPLAYED \<and> st' = SUCCEEDED"
    and "ev = Ev_EXECUTION_STARTED \<Longrightarrow> st = APPROVED \<and> st' = EXECUTING"
  using assms
  by (auto simp: life_step_def started_def approved_def
      split: runtime_status.splits runtime_event.splits policy_effect.splits)

lemma life_run_started:
  "life_run e st evs = Some st' \<Longrightarrow>
   started st + count_ev Ev_EXECUTION_STARTED evs =
   started st' + count_ev Ev_RECONCILIATION_NOT_COMMITTED evs"
proof (induction evs arbitrary: st)
  case (Cons ev evs)
  then obtain st1 where "life_step e st ev = Some st1" "life_run e st1 evs = Some st'"
    by (auto split: option.splits)
  with Cons.IH life_step_counts(1) show ?case by fastforce
qed simp

lemma life_run_approved:
  "life_run REQUIRE_APPROVAL st evs = Some st' \<Longrightarrow>
   count_ev Ev_EXECUTION_STARTED evs + approved st' \<le> count_ev Ev_APPROVED evs + approved st"
proof (induction evs arbitrary: st)
  case (Cons ev evs)
  then obtain st1 where "life_step REQUIRE_APPROVAL st ev = Some st1"
    "life_run REQUIRE_APPROVAL st1 evs = Some st'"
    by (auto split: option.splits)
  with Cons.IH life_step_counts(2) show ?case by fastforce
qed simp

lemma life_startD:
  "life_start e ev = Some st \<Longrightarrow> started st = 0 \<and> ev \<noteq> Ev_EXECUTION_STARTED \<and>
   ev \<noteq> Ev_RECONCILIATION_NOT_COMMITTED \<and> ev \<noteq> Ev_APPROVED \<and>
   (e = REQUIRE_APPROVAL \<longrightarrow> st = PENDING) \<and> (e = DENY \<longleftrightarrow> st = DENIED)"
  by (auto simp: life_start_def started_def split: policy_effect.splits runtime_event.splits)

lemma life_logE:
  assumes "life_log e evs = Some st"
  obtains ev rest st0 where "evs = ev # rest" "life_start e ev = Some st0" "life_run e st0 rest = Some st"
  using assms by (auto simp: life_log_def split: list.splits option.splits)

lemma life_log_started:
  assumes "life_log e evs = Some st"
  shows "count_ev Ev_EXECUTION_STARTED evs = started st + count_ev Ev_RECONCILIATION_NOT_COMMITTED evs"
  using assms by (elim life_logE) (auto dest!: life_startD life_run_started)

lemma life_log_approved:
  assumes "life_log REQUIRE_APPROVAL evs = Some st"
  shows "count_ev Ev_EXECUTION_STARTED evs + approved st \<le> count_ev Ev_APPROVED evs"
  using assms by (elim life_logE) (auto dest!: life_startD life_run_approved simp: approved_def)

lemma life_run_final:
  "life_run e st evs = Some st' \<Longrightarrow> st \<in> {DENIED, REJECTED, EXPIRED} \<Longrightarrow> evs = [] \<and> st' = st"
  using life_step_counts(3-5) by (cases evs) (auto split: option.splits)

lemma life_run_succeeded:
  "life_run e SUCCEEDED evs = Some st' \<Longrightarrow> st' = SUCCEEDED \<and> set evs \<subseteq> {Ev_RESULT_REPLAYED}"
proof (induction evs)
  case (Cons ev evs)
  then obtain st1 where s: "life_step e SUCCEEDED ev = Some st1" "life_run e st1 evs = Some st'"
    by (auto split: option.splits)
  with life_step_counts(6) [OF s(1)] Cons.IH show ?case by auto
qed simp

lemma life_log_denied: "life_log DENY evs = Some st \<Longrightarrow> evs = [Ev_POLICY_DENIED] \<and> st = DENIED"
proof (elim life_logE)
  fix ev rest st0
  assume a: "evs = ev # rest" "life_start DENY ev = Some st0" "life_run DENY st0 rest = Some st"
  then have "st0 = DENIED" "ev = Ev_POLICY_DENIED"
    by (auto simp: life_start_def split: runtime_event.splits)
  with a life_run_final show ?thesis by blast
qed

text \<open>Between two executions of an action that needs approval there is a new approval.\<close>

lemma life_approval_between:
  assumes "life_log REQUIRE_APPROVAL (as @ Ev_EXECUTION_STARTED # bs @ Ev_EXECUTION_STARTED # cs) = Some st"
  shows "Ev_RECONCILIATION_NOT_COMMITTED \<in> set bs \<and> Ev_APPROVED \<in> set bs"
proof -
  obtain ev rest st0 where w: "as @ Ev_EXECUTION_STARTED # bs @ Ev_EXECUTION_STARTED # cs = ev # rest"
    "life_start REQUIRE_APPROVAL ev = Some st0" "life_run REQUIRE_APPROVAL st0 rest = Some st"
    using assms by (elim life_logE) blast
  then obtain as' where "rest = as' @ Ev_EXECUTION_STARTED # bs @ Ev_EXECUTION_STARTED # cs"
    using life_startD [OF w(2)] by (cases as) auto
  with w(3) obtain s1 s1' s2 s3 where
    s: "life_step REQUIRE_APPROVAL s1 Ev_EXECUTION_STARTED = Some s1'"
    "life_run REQUIRE_APPROVAL s1' bs = Some s2"
    "life_step REQUIRE_APPROVAL s2 Ev_EXECUTION_STARTED = Some s3"
    by (auto simp: life_run_append split: option.splits)
  have e: "s2 = APPROVED" "life_run REQUIRE_APPROVAL EXECUTING bs = Some s2"
    using life_step_counts(7) [OF s(1)] life_step_counts(7) [OF s(3)] s(2) by simp_all
  have "1 \<le> count_ev Ev_RECONCILIATION_NOT_COMMITTED bs" "1 \<le> count_ev Ev_APPROVED bs"
    using life_run_started [OF e(2)] life_run_approved [of EXECUTING bs s2] e
    by (auto simp: started_def approved_def)
  then show ?thesis
    by (auto simp: count_ev_def filter_empty_conv Suc_le_eq)
qed

end
