(* ===== verification/Store_Inv.thy ===== *)
theory Store_Inv
  imports Store Lifecycle
begin

text \<open>
  The invariant of the runtime store. \<open>core_ok\<close> collects what every write keeps: distinct action
  ids and idempotency bindings, rows whose columns fit their status, logs that drive the lifecycle
  automaton to the stored status, verified hash links, usage counters that agree with the
  reservations, and well-formed limits. \<open>holders_ok\<close> says that capacity is held only by actions
  that have started. One lemma, \<open>transition_core\<close>, covers every status change of an existing row.
\<close>

section \<open>The invariant\<close>

definition started_status :: "runtime_status \<Rightarrow> bool" where
  "started_status st = (st \<in> {EXECUTING, SUCCEEDED, UNKNOWN})"

text \<open>The columns of a row that fit its status and its policy effect.\<close>

definition row_ok :: "action_row \<Rightarrow> bool" where
  "row_ok r \<longleftrightarrow>
     (r_status r = EXECUTING \<longleftrightarrow> r_execution_lease_expires_at_ns r \<noteq> None) \<and>
     (r_status r = SUCCEEDED \<longleftrightarrow> r_result r \<noteq> None) \<and>
     (r_status r = UNKNOWN \<longleftrightarrow> r_error r \<noteq> None) \<and>
     (r_status r = DENIED \<longleftrightarrow> r_policy_effect r = DENY) \<and>
     (r_status r \<in> {APPROVED, REJECTED} \<or> started_status (r_status r) \<longrightarrow> r_decided_by r \<noteq> None) \<and>
     (r_status r = PENDING \<longrightarrow> r_policy_effect r = REQUIRE_APPROVAL \<and> r_decided_by r = None) \<and>
     (r_policy_effect r = ALLOW \<longrightarrow> r_decided_by r = Some ''policy'') \<and>
     (r_policy_effect r \<noteq> REQUIRE_APPROVAL \<longrightarrow> r_expires_at_ns r = None \<and> r_approval_ttl_ns r = None)"

definition ids_ok :: "db \<Rightarrow> bool" where
  "ids_ok s \<longleftrightarrow> distinct (map r_action_id (db_actions s)) \<and> distinct (map binding_key (db_actions s))"

definition events_of :: "string \<Rightarrow> db \<Rightarrow> runtime_event list" where
  "events_of action_id s = map rc_event (receipts (Some action_id) s)"

definition log_ok :: "db \<Rightarrow> bool" where
  "log_ok s \<longleftrightarrow>
     (\<forall>r \<in> set (db_actions s). life_log (r_policy_effect r) (events_of (r_action_id r) s) = Some (r_status r)) \<and>
     (\<forall>q \<in> set (db_receipts s). \<exists>r \<in> set (db_actions s).
        r_action_id r = rc_action_id q \<and> r_request_digest r = rc_request_digest q)"

definition chains_ok :: "codec \<Rightarrow> db \<Rightarrow> bool" where
  "chains_ok K s \<longleftrightarrow>
     verify_receipt_chain K s \<and> seq_ok rc_sequence (db_receipts s) \<and>
     verify_control_receipt_chain K s \<and> seq_ok cr_sequence (db_controls s)"

text \<open>The \<open>CHECK\<close> constraints of the limits table.\<close>

definition limit_ok :: "limit_row \<Rightarrow> bool" where
  "limit_ok l \<longleftrightarrow>
     0 < l_window_ns l \<and> (\<forall>m. l_max_actions l = Some m \<longrightarrow> 0 < m) \<and>
     (\<forall>m. l_max_value l = Some m \<longrightarrow> 0 < m) \<and>
     (l_value_argument l = None \<longleftrightarrow> l_max_value l = None) \<and>
     (l_max_actions l \<noteq> None \<or> l_max_value l \<noteq> None)"

definition limits_ok :: "db \<Rightarrow> bool" where
  "limits_ok s \<longleftrightarrow> distinct (map l_limit_id (db_limits s)) \<and> list_all limit_ok (db_limits s) \<and>
     distinct (map pause_key (db_pauses s))"

definition holder :: "db \<Rightarrow> string \<Rightarrow> bool" where
  "holder s action_id \<longleftrightarrow> (\<exists>r. find_action action_id s = Some r \<and> started_status (r_status r))"

definition holders_ok :: "db \<Rightarrow> bool" where
  "holders_ok s \<longleftrightarrow>
     (\<forall>q \<in> set (db_reservations s). rs_released_at_ns q = None \<longrightarrow> holder s (rs_action_id q))"

definition core_ok :: "codec \<Rightarrow> db \<Rightarrow> bool" where
  "core_ok K s \<longleftrightarrow> ids_ok s \<and> list_all row_ok (db_actions s) \<and> log_ok s \<and> chains_ok K s \<and>
     accounting_ok s \<and> limits_ok s"

definition store_ok :: "codec \<Rightarrow> db \<Rightarrow> bool" where
  "store_ok K s \<longleftrightarrow> core_ok K s \<and> holders_ok s"

lemma store_ok_empty: "store_ok K empty_db"
  by (simp add: store_ok_def core_ok_def empty_db_def ids_ok_def log_ok_def chains_ok_def
      accounting_ok_def limits_ok_def holders_ok_def verify_receipt_chain_def receipts_def
      verify_control_receipt_chain_def control_receipts_def usage_at_def reserved_def)

section \<open>One transition\<close>

text \<open>What never changes once a row is inserted.\<close>

definition identity_of :: "action_row \<Rightarrow>
  (string \<times> string \<times> string option \<times> string \<times> string) \<times>
  (json \<times> string \<times> string \<times> string \<times> string) \<times> policy_effect \<times> int \<times> int option" where
  "identity_of r =
     ((r_action_id r, r_organization_id r, r_requested_by r, r_namespace r, r_tool_name r),
      (r_arguments r, r_idempotency_key r, r_request_digest r, r_policy_version r, r_policy_rule r),
      r_policy_effect r, r_created_at_ns r, r_approval_ttl_ns r)"

lemma identityD:
  assumes "identity_of q = identity_of r"
  shows "r_action_id q = r_action_id r" "r_policy_effect q = r_policy_effect r"
    "r_request_digest q = r_request_digest r" "r_namespace q = r_namespace r"
    "r_tool_name q = r_tool_name r" "r_idempotency_key q = r_idempotency_key r"
    "r_arguments q = r_arguments r" "r_organization_id q = r_organization_id r"
    "r_requested_by q = r_requested_by r" "r_approval_ttl_ns q = r_approval_ttl_ns r"
  using assms by (simp_all add: identity_of_def)

abbreviation transition ::
  "codec \<Rightarrow> string \<Rightarrow> (action_row \<Rightarrow> action_row) \<Rightarrow> runtime_event \<Rightarrow> int \<Rightarrow> string \<Rightarrow>
   string option \<Rightarrow> string option \<Rightarrow> db \<Rightarrow> db" where
  "transition K i f ev now digest actor detail s \<equiv>
     add_receipt K i ev now digest actor detail (update_action i f s)"

lemma add_receipt_simps [simp]:
  "db_actions (add_receipt K i ev now d ac de s) = db_actions s"
  "db_pauses (add_receipt K i ev now d ac de s) = db_pauses s"
  "db_limits (add_receipt K i ev now d ac de s) = db_limits s"
  "db_usage (add_receipt K i ev now d ac de s) = db_usage s"
  "db_reservations (add_receipt K i ev now d ac de s) = db_reservations s"
  "db_controls (add_receipt K i ev now d ac de s) = db_controls s"
  "db_receipts (add_receipt K i ev now d ac de s) = append_receipt K i ev now d ac de (db_receipts s)"
  by (simp_all add: add_receipt_def)

lemma update_action_simps [simp]:
  "db_actions (update_action i f s) = update_row r_action_id i f (db_actions s)"
  "db_receipts (update_action i f s) = db_receipts s"
  "db_pauses (update_action i f s) = db_pauses s"
  "db_limits (update_action i f s) = db_limits s"
  "db_usage (update_action i f s) = db_usage s"
  "db_reservations (update_action i f s) = db_reservations s"
  "db_controls (update_action i f s) = db_controls s"
  by (simp_all add: update_action_def)

lemma set_append_receipt:
  "set (append_receipt K i ev now d ac de rs) = insert
     \<lparr>rc_sequence = next_seq rc_sequence rs, rc_action_id = i, rc_event = ev, rc_timestamp_ns = now,
      rc_request_digest = d, rc_actor = ac, rc_detail = de, rc_previous_hash = last_hash rc_receipt_hash rs,
      rc_receipt_hash = calculate_receipt_hash K i ev now d ac de (last_hash rc_receipt_hash rs)\<rparr> (set rs)"
  by (simp add: append_receipt_def Let_def)

lemma events_of_add [simp]:
  "events_of j (add_receipt K i ev now d ac de s) = events_of j s @ (if j = i then [ev] else [])"
  by (simp add: events_of_def receipts_def append_receipt_def Let_def)

lemma events_of_update [simp]: "events_of j (update_action i f s) = events_of j s"
  by (simp add: events_of_def receipts_def)

lemma chains_add_receipt: "chains_ok K s \<Longrightarrow> chains_ok K (add_receipt K i ev now d ac de s)"
  by (simp add: chains_ok_def verify_receipt_chain_def receipts_def verify_control_receipt_chain_def
      control_receipts_def)

lemma chains_update: "chains_ok K (update_action i f s) = chains_ok K s"
  by (simp add: chains_ok_def verify_receipt_chain_def receipts_def verify_control_receipt_chain_def
      control_receipts_def)

lemma core_find: "core_ok K s \<Longrightarrow> find_action i s = Some r \<Longrightarrow>
    row_ok r \<and> r \<in> set (db_actions s) \<and> r_action_id r = i \<and>
    life_log (r_policy_effect r) (events_of i s) = Some (r_status r)"
  by (auto simp: core_ok_def log_ok_def list_all_iff dest: find_row_SomeD)

lemma find_transition:
  assumes "\<And>r. identity_of (f r) = identity_of r"
  shows "find_action j (transition K i f ev now d ac de s) =
    (if j = i then map_option f (find_action i s) else find_action j s)"
  using identityD(1) [OF assms] by (simp add: find_update_row_same find_update_row_other)

lemma transition_core:
  assumes core: "core_ok K s" and row: "find_action i s = Some row"
    and keep: "\<And>r. identity_of (f r) = identity_of r"
    and step: "life_step (r_policy_effect row) (r_status row) ev = Some (r_status (f row))"
    and ok: "row_ok (f row)" and d: "d = r_request_digest row"
  shows "core_ok K (transition K i f ev now d ac de s)"
proof -
  let ?t = "transition K i f ev now d ac de s"
  note id = identityD [OF keep]
  have dist: "distinct (map r_action_id (db_actions s))"
    using core by (simp add: core_ok_def ids_ok_def)
  have rows: "set (db_actions ?t) = insert (f row) (set (db_actions s) - {row})"
    using set_update_row [OF dist row, of f] by simp
  have r: "row \<in> set (db_actions s)" "r_action_id row = i"
    "life_log (r_policy_effect row) (events_of i s) = Some (r_status row)"
    using core_find [OF core row] by auto
  have other: "r_action_id q \<noteq> i" if "q \<in> set (db_actions s) - {row}" for q
    using that dist r by (auto simp: distinct_map dest: inj_onD)
  have "ids_ok ?t"
    using core by (simp add: core_ok_def ids_ok_def id)
  moreover have "list_all row_ok (db_actions ?t)"
    unfolding list_all_iff rows using core ok by (auto simp: core_ok_def list_all_iff)
  moreover have "log_ok ?t"
  proof -
    have new: "life_log (r_policy_effect (f row)) (events_of i s @ [ev]) = Some (r_status (f row))"
      using r(3) step by (cases "events_of i s = []") (auto simp: life_log_snoc id)
    have old: "life_log (r_policy_effect q) (events_of (r_action_id q) s) = Some (r_status q)"
      if "q \<in> set (db_actions s)" for q
      using core that by (simp add: core_ok_def log_ok_def)
    have "life_log (r_policy_effect q) (events_of (r_action_id q) ?t) = Some (r_status q)"
      if "q \<in> set (db_actions ?t)" for q
    proof -
      from that consider "q = f row" | "q \<in> set (db_actions s) - {row}"
        unfolding rows by blast
      then show ?thesis
        using new old other [of q] by cases (simp_all add: id r(2))
    qed
    moreover have "\<exists>q' \<in> set (db_actions ?t).
        r_action_id q' = rc_action_id q \<and> r_request_digest q' = rc_request_digest q"
      if "q \<in> set (db_receipts ?t)" for q
    proof (cases "q \<in> set (db_receipts s)")
      case True
      then obtain q' where "q' \<in> set (db_actions s)" "r_action_id q' = rc_action_id q"
        "r_request_digest q' = rc_request_digest q"
        using core by (auto simp: core_ok_def log_ok_def)
      then show ?thesis
        unfolding rows by (cases "q' = row") (auto simp: id)
    next
      case False
      then have "rc_action_id q = i" "rc_request_digest q = d"
        using that by (auto simp: set_append_receipt)
      then show ?thesis unfolding rows using d r by (auto simp: id)
    qed
    ultimately show ?thesis by (simp add: log_ok_def)
  qed
  moreover have "chains_ok K ?t"
    using core by (intro chains_add_receipt) (simp add: chains_update core_ok_def)
  moreover have "accounting_ok ?t" "limits_ok ?t"
    using core by (simp_all add: core_ok_def accounting_ok_def limits_ok_def)
  ultimately show ?thesis by (simp add: core_ok_def)
qed

lemma transition_holders:
  assumes row: "find_action i s = Some row" and keep: "\<And>r. identity_of (f r) = identity_of r"
    and hold: "\<And>q. q \<in> set (db_reservations s) \<Longrightarrow> rs_released_at_ns q = None \<Longrightarrow>
      (rs_action_id q = i \<and> started_status (r_status (f row))) \<or>
      (rs_action_id q \<noteq> i \<and> holder s (rs_action_id q))"
  shows "holders_ok (transition K i f ev now d ac de s)"
  unfolding holders_ok_def holder_def
  using hold row find_transition [of f _ K i ev now d ac de s, OF keep]
  by (auto simp: holder_def)

lemma transition_ok:
  assumes ok: "store_ok K s" and row: "find_action i s = Some row"
    and keep: "\<And>r. identity_of (f r) = identity_of r"
    and step: "life_step (r_policy_effect row) (r_status row) ev = Some (r_status (f row))"
    and "row_ok (f row)" "d = r_request_digest row"
    and start: "started_status (r_status row) \<Longrightarrow> started_status (r_status (f row))"
  shows "store_ok K (transition K i f ev now d ac de s)"
  unfolding store_ok_def
proof
  show "core_ok K (transition K i f ev now d ac de s)"
    using assms by (intro transition_core) (auto simp: store_ok_def)
  show "holders_ok (transition K i f ev now d ac de s)"
    using ok row start
    by (intro transition_holders [OF row keep]) (auto simp: store_ok_def holders_ok_def holder_def)
qed

end
