(* ===== verification/Store_Refresh.thy ===== *)
theory Store_Refresh
  imports Store_Inv
begin

text \<open>
  The refresh that precedes every decision, claim and read: an unanswered or unused approval
  whose time is over becomes expired, and an execution whose lease is over becomes unknown. It
  never raises on an existing row, keeps the invariant, and touches no other action.
\<close>

text \<open>What a write to the action \<open>i\<close> leaves alone.\<close>

definition frame :: "string \<Rightarrow> db \<Rightarrow> db \<Rightarrow> bool" where
  "frame i s s' \<longleftrightarrow>
     db_pauses s' = db_pauses s \<and> db_limits s' = db_limits s \<and> db_controls s' = db_controls s \<and>
     map r_action_id (db_actions s') = map r_action_id (db_actions s) \<and>
     map binding_key (db_actions s') = map binding_key (db_actions s) \<and>
     (\<forall>j. j \<noteq> i \<longrightarrow> find_action j s' = find_action j s \<and> events_of j s' = events_of j s)"

definition same_capacity :: "db \<Rightarrow> db \<Rightarrow> bool" where
  "same_capacity s s' \<longleftrightarrow> db_usage s' = db_usage s \<and> db_reservations s' = db_reservations s"

lemma frame_refl [simp]: "frame i s s" and same_capacity_refl [simp]: "same_capacity s s"
  by (simp_all add: frame_def same_capacity_def)

lemma frame_trans: "frame i a b \<Longrightarrow> frame i b c \<Longrightarrow> frame i a c"
  by (simp add: frame_def)

lemma frame_transition:
  assumes "\<And>r. identity_of (f r) = identity_of r"
  shows "frame i s (transition K i f ev now d ac de s)"
    and "same_capacity s (transition K i f ev now d ac de s)"
  using identityD [OF assms] find_transition [of f, OF assms]
  by (simp_all add: frame_def same_capacity_def)

lemma frame_add_receipt: "frame i s (add_receipt K i ev now d ac de s)"
  by (simp add: frame_def)

text \<open>The row a refresh leaves, and the event it logs for it.\<close>

definition expire_row :: "int \<Rightarrow> action_row \<Rightarrow> action_row" where
  "expire_row now r = r\<lparr>r_status := EXPIRED, r_updated_at_ns := now\<rparr>"

definition abandon_row :: "int \<Rightarrow> action_row \<Rightarrow> action_row" where
  "abandon_row now r = r\<lparr>r_status := UNKNOWN, r_updated_at_ns := now,
     r_error := Some ''ExecutionLeaseExpired'', r_execution_lease_expires_at_ns := None\<rparr>"

lemma identity_refresh [simp]:
  "identity_of (expire_row now r) = identity_of r" "identity_of (abandon_row now r) = identity_of r"
  by (simp_all add: identity_of_def expire_row_def abandon_row_def)

definition expiring :: "int \<Rightarrow> action_row \<Rightarrow> bool" where
  "expiring now r = (r_status r \<in> {PENDING, APPROVED} \<and> due (r_expires_at_ns r) now)"

definition abandoned :: "int \<Rightarrow> action_row \<Rightarrow> bool" where
  "abandoned now r = (r_status r = EXECUTING \<and> due (r_execution_lease_expires_at_ns r) now)"

definition refreshed :: "codec \<Rightarrow> int \<Rightarrow> action_row \<Rightarrow> db \<Rightarrow> action_row \<times> db" where
  "refreshed K now r s =
     (if expiring now r then
        (expire_row now r, transition K (r_action_id r) (expire_row now) Ev_EXPIRED now
           (r_request_digest r) (Some ''runtime'') None s)
      else if abandoned now r then
        (abandon_row now r, transition K (r_action_id r) (abandon_row now) Ev_EXECUTION_ABANDONED now
           (r_request_digest r) (Some ''runtime'') (Some ''ExecutionLeaseExpired'') s)
      else (r, s))"

lemma refresh_state_eq:
  assumes "find_action (r_action_id r) s = Some r"
  shows "refresh_state K now r s = Inr (refreshed K now r s)"
proof -
  have e: "(\<lambda>r. r\<lparr>r_status := EXPIRED, r_updated_at_ns := now\<rparr>) = expire_row now"
    "(\<lambda>r. r\<lparr>r_status := UNKNOWN, r_updated_at_ns := now, r_error := Some ''ExecutionLeaseExpired'',
       r_execution_lease_expires_at_ns := None\<rparr>) = abandon_row now"
    by (simp_all add: expire_row_def abandon_row_def fun_eq_iff)
  have found: "require_row (r_action_id r) (transition K (r_action_id r) f ev now d ac de s) = Inr (f r)"
    if "\<And>q. identity_of (f q) = identity_of q" for f ev d ac de
    using find_transition [of f, OF that] assms by (simp add: require_row_def)
  show ?thesis
  proof (cases "expiring now r")
    case True
    then have "refresh_expiry K now r s = Inr (refreshed K now r s)"
      unfolding refresh_expiry_def e expiring_def Let_def
      by (simp add: found refreshed_def expiring_def)
    moreover have "r_status (fst (refreshed K now r s)) = EXPIRED"
      using True by (simp add: refreshed_def expire_row_def)
    ultimately show ?thesis
      by (simp add: refresh_state_def case_prod_beta)
  next
    case False
    then have "refresh_expiry K now r s = Inr (r, s)"
      by (auto simp: refresh_expiry_def expiring_def)
    with False show ?thesis
      unfolding refresh_state_def e Let_def
      by (simp add: found refreshed_def abandoned_def)
  qed
qed

lemma expire_row_ok:
  assumes "expiring now r" "row_ok r"
  shows "row_ok (expire_row now r)"
    and "life_step (r_policy_effect r) (r_status r) Ev_EXPIRED = Some (r_status (expire_row now r))"
    and "\<not> started_status (r_status r)"
  using assms
  by (cases "r_status r"; simp add: expiring_def row_ok_def expire_row_def started_status_def life_step_def)+

lemma abandon_row_ok:
  assumes "abandoned now r" "row_ok r"
  shows "row_ok (abandon_row now r)"
    and "life_step (r_policy_effect r) (r_status r) Ev_EXECUTION_ABANDONED =
      Some (r_status (abandon_row now r))"
    and "started_status (r_status (abandon_row now r))"
  using assms
  by (simp_all add: abandoned_def row_ok_def abandon_row_def started_status_def life_step_def)

lemma refreshed_ok:
  assumes ok: "store_ok K s" and row: "find_action i s = Some r"
    and eq: "refreshed K now r s = (r', s')"
  shows "store_ok K s'" "find_action i s' = Some r'" "identity_of r' = identity_of r"
    "frame i s s'" "same_capacity s s'" "row_ok r'"
proof -
  have r: "row_ok r" "r_action_id r = i"
    using core_find [of K s i r] ok row by (simp_all add: store_ok_def)
  have exp: "store_ok K (transition K i (expire_row now) Ev_EXPIRED now (r_request_digest r) ac de s)"
    if "expiring now r" for ac de
    using expire_row_ok [OF that r(1)] by (intro transition_ok [OF ok row]) auto
  have aban: "store_ok K (transition K i (abandon_row now) Ev_EXECUTION_ABANDONED now (r_request_digest r) ac de s)"
    if "abandoned now r" for ac de
    using abandon_row_ok [OF that r(1)] by (intro transition_ok [OF ok row]) auto
  show "store_ok K s'"
    using eq ok exp aban by (auto simp: refreshed_def r(2) split: if_splits)
  show f: "find_action i s' = Some r'"
    using eq row find_transition [of "expire_row now"] find_transition [of "abandon_row now"]
    by (auto simp: refreshed_def r(2) split: if_splits)
  show "identity_of r' = identity_of r" "frame i s s'" "same_capacity s s'"
    using eq frame_transition by (auto simp: refreshed_def r(2) split: if_splits)
  show "row_ok r'"
    using core_find [OF _ f, of K] \<open>store_ok K s'\<close> by (simp add: store_ok_def)
qed

lemma refreshed_status:
  assumes "refreshed K now r s = (r', s')"
  shows "\<not> expiring now r'" "\<not> abandoned now r'"
    "r' = r \<and> s' = s \<or> r_status r \<in> {PENDING, APPROVED} \<and> r_status r' = EXPIRED \<or>
      r_status r = EXECUTING \<and> r_status r' = UNKNOWN"
  using assms
  by (auto simp: refreshed_def expire_row_def abandon_row_def expiring_def abandoned_def split: if_splits)

lemma refreshed_same:
  assumes "refreshed K now r s = (r', s')" and "r_status r' \<notin> {EXPIRED, UNKNOWN}"
  shows "r' = r" "s' = s"
  using refreshed_status(3) [OF assms(1)] assms(2) by auto

end
