(* ===== verification/Store_Safety.thy ===== *)
theory Store_Safety
  imports Store_Refresh
begin

text \<open>
  Every operation of the store keeps the invariant, and what each one does to the row of its
  action, on every branch. The operations are then the steps of a transition system, whose
  reachable databases satisfy the invariant.
\<close>

section \<open>Updates of one row\<close>

definition decided_row :: "runtime_status \<Rightarrow> int \<Rightarrow> string \<Rightarrow> string option \<Rightarrow> action_row \<Rightarrow> action_row" where
  "decided_row target now by why r = r\<lparr>r_status := target, r_updated_at_ns := now,
     r_decided_by := Some by, r_decision_reason := why\<rparr>"

definition claimed_row :: "int \<Rightarrow> int \<Rightarrow> action_row \<Rightarrow> action_row" where
  "claimed_row now lease r = r\<lparr>r_status := EXECUTING, r_updated_at_ns := now,
     r_execution_lease_expires_at_ns := Some (now + lease)\<rparr>"

definition completed_row :: "int \<Rightarrow> json \<Rightarrow> action_row \<Rightarrow> action_row" where
  "completed_row now result r = r\<lparr>r_status := SUCCEEDED, r_updated_at_ns := now,
     r_result := Some result, r_error := None, r_execution_lease_expires_at_ns := None\<rparr>"

definition unknown_row :: "int \<Rightarrow> string \<Rightarrow> action_row \<Rightarrow> action_row" where
  "unknown_row now error r = r\<lparr>r_status := UNKNOWN, r_updated_at_ns := now, r_error := Some error,
     r_execution_lease_expires_at_ns := None\<rparr>"

lemma row_updates:
  "(\<lambda>r. r\<lparr>r_status := target, r_updated_at_ns := now, r_decided_by := Some by,
     r_decision_reason := why\<rparr>) = decided_row target now by why"
  "(\<lambda>r. r\<lparr>r_status := EXECUTING, r_updated_at_ns := now,
     r_execution_lease_expires_at_ns := Some (now + lease)\<rparr>) = claimed_row now lease"
  "(\<lambda>r. r\<lparr>r_status := SUCCEEDED, r_updated_at_ns := now, r_result := Some result, r_error := None,
     r_execution_lease_expires_at_ns := None\<rparr>) = completed_row now result"
  "(\<lambda>r. r\<lparr>r_status := UNKNOWN, r_updated_at_ns := now, r_error := Some error,
     r_execution_lease_expires_at_ns := None\<rparr>) = unknown_row now error"
  by (simp_all add: decided_row_def claimed_row_def completed_row_def unknown_row_def fun_eq_iff)

lemma identity_updates [simp]:
  "identity_of (decided_row target now by why r) = identity_of r"
  "identity_of (claimed_row now lease r) = identity_of r"
  "identity_of (completed_row now result r) = identity_of r"
  "identity_of (unknown_row now error r) = identity_of r"
  "identity_of (reconciled_row now t result' r) = identity_of r"
  by (simp_all add: identity_of_def decided_row_def claimed_row_def completed_row_def
      unknown_row_def reconciled_row_def)

lemma status_updates [simp]:
  "r_status (decided_row target now by why r) = target"
  "r_status (claimed_row now lease r) = EXECUTING"
  "r_status (completed_row now result r) = SUCCEEDED"
  "r_status (unknown_row now error r) = UNKNOWN"
  "r_status (reconciled_row now t result' r) = rt_status t"
  by (simp_all add: decided_row_def claimed_row_def completed_row_def unknown_row_def
      reconciled_row_def)

lemma decided_row_ok:
  "row_ok r \<Longrightarrow> r_status r = PENDING \<Longrightarrow> target \<in> {APPROVED, REJECTED} \<Longrightarrow>
   row_ok (decided_row target now by why r)"
  by (auto simp: row_ok_def decided_row_def started_status_def)

lemma claimed_row_ok: "row_ok r \<Longrightarrow> r_status r = APPROVED \<Longrightarrow> row_ok (claimed_row now lease r)"
  by (simp add: row_ok_def claimed_row_def started_status_def)

lemma completed_row_ok: "row_ok r \<Longrightarrow> r_status r = EXECUTING \<Longrightarrow> row_ok (completed_row now j r)"
  by (simp add: row_ok_def completed_row_def started_status_def)

lemma unknown_row_ok: "row_ok r \<Longrightarrow> r_status r = EXECUTING \<Longrightarrow> row_ok (unknown_row now e r)"
  by (simp add: row_ok_def unknown_row_def started_status_def)

lemma reconciled_row_ok:
  assumes "row_ok r" "r_status r = UNKNOWN" "reconcile_target_of now (row_to_action r) outcome = Inr t"
    and "(outcome = COMMITTED) = (result \<noteq> None)"
  shows "row_ok (reconciled_row now t result r)"
    and "life_step (r_policy_effect r) UNKNOWN (rt_event t) = Some (rt_status t)"
    and "started_status (rt_status t) = (outcome = COMMITTED)"
  using assms
  by (cases outcome; cases "r_policy_effect r";
      auto simp: row_ok_def reconciled_row_def reconcile_target_of_def started_status_def life_step_def)+

lemma require_found: "find_action i s = Some r \<Longrightarrow> require_row i s = Inr r"
  by (simp add: require_row_def)

lemma require_transition:
  assumes "find_action i s = Some r" "\<And>q. identity_of (f q) = identity_of q"
  shows "require_row i (transition K i f ev now d ac de s) = Inr (f r)"
  using find_transition [of f, OF assms(2)] assms(1) by (simp add: require_row_def)

section \<open>Decisions\<close>

definition decision_target :: "decision \<Rightarrow> runtime_status" where
  "decision_target d = (if d = APPROVE then APPROVED else REJECTED)"

definition decision_event :: "decision \<Rightarrow> runtime_event" where
  "decision_event d = (if d = APPROVE then Ev_APPROVED else Ev_REJECTED)"

lemma decide_locked_cases:
  assumes "find_action (r_action_id r) s = Some r"
  obtains
    (same) "r_status r = decision_target d"
      "decide_locked K now (row_to_action r) d by why s = Inr (row_to_action r, s)"
  | (expired) "r_status r = EXPIRED"
      "decide_locked K now (row_to_action r) d by why s = Inl (ApprovalExpired (row_to_action r))"
  | (wrong) "r_status r \<notin> {PENDING, EXPIRED, decision_target d}"
      "decide_locked K now (row_to_action r) d by why s =
         Inl (InvalidActionState (r_action_id r) (r_status r))"
  | (decided) "r_status r = PENDING"
      "decide_locked K now (row_to_action r) d by why s =
        Inr (row_to_action (decided_row (decision_target d) now by why r),
             transition K (r_action_id r) (decided_row (decision_target d) now by why)
               (decision_event d) now (r_request_digest r) (Some by) why s)"
proof -
  have req: "require_row (r_action_id r) (transition K (r_action_id r) (decided_row t now by why) ev now
      (r_request_digest r) ac de s) = Inr (decided_row t now by why r)" for t ev ac de
    by (rule require_transition [OF assms]) simp
  have "r_status r = decision_target d \<or> r_status r = EXPIRED \<or>
      r_status r \<notin> {PENDING, EXPIRED, decision_target d} \<or> r_status r = PENDING"
    by auto
  then show thesis
    by (elim disjE)
      (auto intro: that simp: decide_locked_def Let_def decision_target_def decision_event_def
        row_updates req)
qed

lemma decide_locked_ok:
  assumes ok: "store_ok K s" and row: "find_action i s = Some r"
    and res: "decide_locked K now (row_to_action r) d by why s = Inr (a, s')"
  shows "store_ok K s'" "frame i s s'" "same_capacity s s'"
    "\<exists>r'. find_action i s' = Some r' \<and> a = row_to_action r' \<and> identity_of r' = identity_of r \<and>
       r_status r' = decision_target d \<and> r_status r \<in> {PENDING, decision_target d}"
proof -
  have r: "row_ok r" "r_action_id r = i"
    using core_find [of K s i r] ok row by (simp_all add: store_ok_def)
  have row': "find_action (r_action_id r) s = Some r" using row r(2) by simp
  let ?f = "decided_row (decision_target d) now by why"
  have "store_ok K s' \<and> frame i s s' \<and> same_capacity s s' \<and>
    (\<exists>r'. find_action i s' = Some r' \<and> a = row_to_action r' \<and> identity_of r' = identity_of r \<and>
       r_status r' = decision_target d \<and> r_status r \<in> {PENDING, decision_target d})"
  proof (rule decide_locked_cases [OF row', of d K now "by" why])
    assume pending: "r_status r = PENDING" and eq: "decide_locked K now (row_to_action r) d by why s =
        Inr (row_to_action (?f r), transition K (r_action_id r) ?f (decision_event d) now
          (r_request_digest r) (Some by) why s)"
    have "decision_target d \<in> {APPROVED, REJECTED}" by (simp add: decision_target_def)
    then have "row_ok (?f r)" by (rule decided_row_ok [OF r(1) pending])
    moreover have "life_step (r_policy_effect r) (r_status r) (decision_event d) = Some (decision_target d)"
      by (cases d) (simp_all add: pending life_step_def decision_target_def decision_event_def)
    ultimately have "store_ok K (transition K i ?f (decision_event d) now (r_request_digest r) (Some by) why s)"
      by (intro transition_ok [OF ok row]) (auto simp: pending started_status_def)
    moreover have "frame i s (transition K i ?f (decision_event d) now (r_request_digest r) (Some by) why s)"
      "same_capacity s (transition K i ?f (decision_event d) now (r_request_digest r) (Some by) why s)"
      by (rule frame_transition; simp)+
    moreover have "find_action i (transition K i ?f (decision_event d) now (r_request_digest r) (Some by) why s) = Some (?f r)"
      using row by (subst find_transition) simp_all
    ultimately show ?thesis using eq pending res r(2) by auto
  qed (use ok row res in auto)
  then show "store_ok K s'" "frame i s s'" "same_capacity s s'"
    "\<exists>r'. find_action i s' = Some r' \<and> a = row_to_action r' \<and> identity_of r' = identity_of r \<and>
       r_status r' = decision_target d \<and> r_status r \<in> {PENDING, decision_target d}" by auto
qed


lemma refresh_obtain:
  assumes ok: "store_ok K s" and row: "find_action i s = Some r0"
  obtains r s1 where "refresh_state K now r0 s = Inr (r, s1)" "store_ok K s1" "find_action i s1 = Some r"
    "identity_of r = identity_of r0" "frame i s s1" "same_capacity s s1" "row_ok r"
    "\<not> expiring now r" "\<not> abandoned now r"
    "r = r0 \<and> s1 = s \<or> r_status r0 \<in> {PENDING, APPROVED} \<and> r_status r = EXPIRED \<or>
      r_status r0 = EXECUTING \<and> r_status r = UNKNOWN"
proof -
  have id: "r_action_id r0 = i"
    using row by (auto dest: find_row_SomeD)
  obtain r s1 where eq: "refreshed K now r0 s = (r, s1)" by fastforce
  then have "refresh_state K now r0 s = Inr (r, s1)"
    using refresh_state_eq [of r0 s K now] row id by simp
  from that [OF this refreshed_ok [OF ok row eq] refreshed_status [OF eq]] show thesis .
qed

text \<open>What a successful decision did.\<close>

definition decided :: "string \<Rightarrow> decision \<Rightarrow> int \<Rightarrow> db \<Rightarrow> runtime_action \<Rightarrow> db \<Rightarrow> bool" where
  "decided i d now s a s' \<longleftrightarrow> (\<exists>r r'. find_action i s = Some r \<and> find_action i s' = Some r' \<and>
     a = row_to_action r' \<and> identity_of r' = identity_of r \<and> r_status r' = decision_target d \<and>
     r_status r \<in> {PENDING, decision_target d} \<and> \<not> expiring now r)"

lemma decide_body:
  assumes ok: "store_ok K s" and row0: "find_action i s = Some r0"
    and refr: "refresh_state K now r0 s = Inr (r, s1)"
    and res: "decide_locked K now (row_to_action r) d by why s1 = Inr (a, s')"
  shows "store_ok K s'" "frame i s s'" "same_capacity s s'" "decided i d now s a s'" "r = r0" "s1 = s"
proof -
  obtain r2 s2 where eq: "refresh_state K now r0 s = Inr (r2, s2)" and
    ref: "store_ok K s2" "find_action i s2 = Some r2" "\<not> expiring now r2"
    "r2 = r0 \<and> s2 = s \<or> r_status r0 \<in> {PENDING, APPROVED} \<and> r_status r2 = EXPIRED \<or>
      r_status r0 = EXECUTING \<and> r_status r2 = UNKNOWN"
    by (rule refresh_obtain [OF ok row0, of now]) blast
  have [simp]: "r2 = r" "s2 = s1" using eq refr by auto
  note dl = decide_locked_ok [OF ref(1,2) [simplified] res]
  from dl(4) have "r_status r \<in> {PENDING, decision_target d}" by blast
  then show same: "r = r0" "s1 = s"
    using ref(4) by (auto simp: decision_target_def split: if_splits)
  show "store_ok K s'" "frame i s s'" "same_capacity s s'"
    using dl same by simp_all
  show "decided i d now s a s'"
    using dl(4) row0 ref(3) same by (auto simp: decided_def)
qed

lemma decide_ok:
  assumes ok: "store_ok K s" and res: "decide K now i d by why s = (res, s')"
  shows "store_ok K s'"
    "res = Inr a \<Longrightarrow> decided i d now s a s' \<and> frame i s s' \<and> same_capacity s s' \<and> \<not> blank by"
    "res = Inl e \<Longrightarrow> s' = s"
proof -
  have "store_ok K s' \<and>
    (\<forall>a. res = Inr a \<longrightarrow> decided i d now s a s' \<and> frame i s s' \<and> same_capacity s s' \<and> \<not> blank by) \<and>
    (\<forall>e. res = Inl e \<longrightarrow> s' = s)"
    using ok res decide_body [OF ok]
    by (auto simp: decide_def result_simps split: if_splits elim!: transaction_cases)
  then show "store_ok K s'"
    "res = Inr a \<Longrightarrow> decided i d now s a s' \<and> frame i s s' \<and> same_capacity s s' \<and> \<not> blank by"
    "res = Inl e \<Longrightarrow> s' = s" by auto
qed

definition authorized :: "action_row \<Rightarrow> decision \<Rightarrow> decision_authorization \<Rightarrow> bool" where
  "authorized r d auth \<longleftrightarrow>
     r_organization_id r = da_organization_id auth \<and> r_namespace r \<in> set (da_namespaces auth) \<and>
     d \<in> set (da_decisions auth) \<and>
     (da_require_separate_approver auth \<longrightarrow> (\<forall>u. r_requested_by r = Some u \<longrightarrow>
        u \<noteq> (case da_reviewer_subject auth of None \<Rightarrow> da_actor auth
              | Some v \<Rightarrow> if v = [] then da_actor auth else v)))"

lemma check_authorization_iff [result_simps]:
  "check_authorization (row_to_action r) d auth = Inr () \<longleftrightarrow> authorized r d auth"
  by (auto simp: check_authorization_def authorized_def)

lemma decide_authorized_ok:
  assumes ok: "store_ok K s" and res: "decide_authorized K now i d auth why s = (res, s')"
  shows "store_ok K s'"
    "res = Inr a \<Longrightarrow> decided i d now s a s' \<and> frame i s s' \<and> same_capacity s s' \<and>
      (\<exists>r. find_action i s = Some r \<and> authorized r d auth)"
    "res = Inl e \<Longrightarrow> s' = s"
proof -
  have "store_ok K s' \<and>
    (\<forall>a. res = Inr a \<longrightarrow> decided i d now s a s' \<and> frame i s s' \<and> same_capacity s s' \<and>
      (\<exists>r. find_action i s = Some r \<and> authorized r d auth)) \<and>
    (\<forall>e. res = Inl e \<longrightarrow> s' = s)"
  proof (cases res)
    case (Inl e)
    then show ?thesis
      using ok res by (auto simp: decide_authorized_def elim!: transaction_cases)
  next
    case (Inr a)
    then obtain r0 r s1 where b: "find_action i s = Some r0" "refresh_state K now r0 s = Inr (r, s1)"
      "authorized r d auth" "decide_locked K now (row_to_action r) d (da_actor auth) why s1 = Inr (a, s')"
      using res by (auto simp: decide_authorized_def Let_def result_simps elim!: transaction_cases)
    note body = decide_body [OF ok b(1,2,4)]
    with b Inr show ?thesis by auto
  qed
  then show "store_ok K s'"
    "res = Inr a \<Longrightarrow> decided i d now s a s' \<and> frame i s s' \<and> same_capacity s s' \<and>
      (\<exists>r. find_action i s = Some r \<and> authorized r d auth)"
    "res = Inl e \<Longrightarrow> s' = s" by auto
qed


section \<open>Completion and unknown outcomes\<close>

text \<open>A write to one row: the result is the row as stored, nothing else changed.\<close>

definition wrote :: "string \<Rightarrow> (action_row \<Rightarrow> action_row) \<Rightarrow> db \<Rightarrow> runtime_action \<Rightarrow> db \<Rightarrow> bool" where
  "wrote i f s a s' \<longleftrightarrow> (\<exists>r. find_action i s = Some r \<and> find_action i s' = Some (f r) \<and>
     a = row_to_action (f r) \<and> identity_of (f r) = identity_of r) \<and> frame i s s'"

lemma find_updated:
  assumes "find_action i s = Some r" "\<And>q. identity_of (f q) = identity_of q"
  shows "find_row r_action_id i (update_row r_action_id i f (db_actions s)) = Some (f r)"
  using find_update_row_same [of r_action_id f i "db_actions s"] identityD(1) [OF assms(2)] assms(1)
  by simp

lemma wrote_transition:
  assumes "find_action i s = Some r" "\<And>q. identity_of (f q) = identity_of q"
  shows "wrote i f s (row_to_action (f r)) (transition K i f ev now d ac de s)"
  unfolding wrote_def using assms frame_transition(1) [of f, OF assms(2)]
  by (simp add: find_updated [OF assms])

lemma require_executing_iff [result_simps]:
  "require_executing (row_to_action r) dg = Inr () \<longleftrightarrow> r_request_digest r = dg \<and> r_status r = EXECUTING"
  by (auto simp: require_executing_def)

lemma complete_InrD:
  assumes ok: "store_ok K s" and res: "complete K now i dg result s = (Inr a, s')"
  shows "store_ok K s'" "wrote i (completed_row now (json_norm result)) s a s'" "same_capacity s s'"
    "\<exists>r. find_action i s = Some r \<and> r_status r = EXECUTING \<and> r_request_digest r = dg"
    "json_finite result" "events_of i s' = events_of i s @ [Ev_EXECUTION_SUCCEEDED]"
proof -
  let ?f = "completed_row now (json_norm result)"
  let ?t = "transition K i ?f Ev_EXECUTION_SUCCEEDED now dg (Some ''runtime'') None s"
  obtain r r' where r: "find_action i s = Some r" "r_request_digest r = dg" "r_status r = EXECUTING"
    and a: "find_row r_action_id i (update_row r_action_id i ?f (db_actions s)) = Some r'"
      "a = row_to_action r'" "s' = ?t"
    and fin: "json_finite result"
    using res by (auto simp: complete_def Let_def result_simps row_updates canonical_json_Inr_iff
        split: sum.splits elim!: transaction_cases)
  have s': "s' = ?t" "a = row_to_action (?f r)"
    using a find_updated [OF r(1), of ?f] by simp_all
  have "row_ok r" using core_find [of K s i r] ok r(1) by (simp add: store_ok_def)
  then show "store_ok K s'"
    unfolding s' using r completed_row_ok
    by (intro transition_ok [OF ok r(1)]) (auto simp: life_step_def started_status_def)
  show "wrote i ?f s a s'" unfolding s' by (rule wrote_transition [OF r(1)]) simp
  show "same_capacity s s'" unfolding s' by (rule frame_transition) simp
  show "\<exists>r. find_action i s = Some r \<and> r_status r = EXECUTING \<and> r_request_digest r = dg" "json_finite result"
    "events_of i s' = events_of i s @ [Ev_EXECUTION_SUCCEEDED]"
    using r fin s' by auto
qed

lemma complete_InlD: "complete K now i dg result s = (Inl e, s') \<Longrightarrow> s' = s"
  by (auto simp: complete_def split: sum.splits elim!: transaction_cases)

lemma mark_unknown_InrD:
  assumes ok: "store_ok K s" and res: "mark_unknown K now i dg error s = (Inr a, s')"
  shows "store_ok K s'" "wrote i (unknown_row now error) s a s'" "same_capacity s s'"
    "\<exists>r. find_action i s = Some r \<and> r_status r = EXECUTING \<and> r_request_digest r = dg"
    "events_of i s' = events_of i s @ [Ev_EXECUTION_UNKNOWN]"
proof -
  let ?f = "unknown_row now error"
  let ?t = "transition K i ?f Ev_EXECUTION_UNKNOWN now dg (Some ''runtime'') (Some error) s"
  obtain r r' where r: "find_action i s = Some r" "r_request_digest r = dg" "r_status r = EXECUTING"
    and a: "find_row r_action_id i (update_row r_action_id i ?f (db_actions s)) = Some r'"
      "a = row_to_action r'" "s' = ?t"
    using res by (auto simp: mark_unknown_def Let_def result_simps row_updates
        split: if_splits elim!: transaction_cases)
  have s': "s' = ?t" "a = row_to_action (?f r)"
    using a find_updated [OF r(1), of ?f] by simp_all
  have "row_ok r" using core_find [of K s i r] ok r(1) by (simp add: store_ok_def)
  then show "store_ok K s'"
    unfolding s' using r unknown_row_ok
    by (intro transition_ok [OF ok r(1)]) (auto simp: life_step_def started_status_def)
  show "wrote i ?f s a s'" unfolding s' by (rule wrote_transition [OF r(1)]) simp
  show "same_capacity s s'" unfolding s' by (rule frame_transition) simp
  show "\<exists>r. find_action i s = Some r \<and> r_status r = EXECUTING \<and> r_request_digest r = dg"
    "events_of i s' = events_of i s @ [Ev_EXECUTION_UNKNOWN]"
    using r s' by auto
qed

lemma mark_unknown_InlD: "mark_unknown K now i dg error s = (Inl e, s') \<Longrightarrow> s' = s"
  by (auto simp: mark_unknown_def split: if_splits elim!: transaction_cases)


section \<open>Claims\<close>

text \<open>A receipt that reports something without changing the status.\<close>

lemma note_ok:
  assumes ok: "store_ok K s" and row: "find_action i s = Some r"
    and step: "life_step (r_policy_effect r) (r_status r) ev = Some (r_status r)"
  shows "store_ok K (add_receipt K i ev now (r_request_digest r) ac de s)"
proof -
  have "update_action i (\<lambda>r. r) s = s"
    by (simp add: update_action_def update_row_def)
  moreover have "row_ok r" using core_find [of K s i r] ok row by (simp add: store_ok_def)
  ultimately show ?thesis
    using transition_ok [OF ok row, of "\<lambda>r. r" ev "r_request_digest r" now ac de] step by simp
qed

text \<open>The three ways a claim commits.\<close>

definition claim_replays :: "codec \<Rightarrow> int \<Rightarrow> string \<Rightarrow> db \<Rightarrow> execution_claim \<Rightarrow> db \<Rightarrow> bool" where
  "claim_replays K now i s c s' \<longleftrightarrow> (\<exists>r. find_action i s = Some r \<and> r_status r = SUCCEEDED \<and>
     c = \<lparr>ec_outcome = REPLAY, ec_action = row_to_action r, ec_result = ra_result (row_to_action r)\<rparr> \<and>
     s' = add_receipt K i Ev_RESULT_REPLAYED now (r_request_digest r) (Some ''runtime'') None s)"

definition claim_executes ::
  "codec \<Rightarrow> int \<Rightarrow> int \<Rightarrow> string \<Rightarrow> db \<Rightarrow> execution_claim \<Rightarrow> db \<Rightarrow> bool" where
  "claim_executes K lease now i s c s' \<longleftrightarrow> (\<exists>r s1. find_action i s = Some r \<and> r_status r = APPROVED \<and>
     \<not> due (r_expires_at_ns r) now \<and> matching_pause (row_to_action r) (db_pauses s) = None \<and>
     reserve_limit_capacity (row_to_action r) now s = Inr (None, s1) \<and>
     c = \<lparr>ec_outcome = EXECUTE, ec_action = row_to_action (claimed_row now lease r), ec_result = JNull\<rparr> \<and>
     s' = transition K i (claimed_row now lease) Ev_EXECUTION_STARTED now (r_request_digest r)
            (Some ''runtime'') None s1)"

definition claim_blocked :: "codec \<Rightarrow> int \<Rightarrow> string \<Rightarrow> db \<Rightarrow> runtime_error \<Rightarrow> db \<Rightarrow> bool" where
  "claim_blocked K now i s e s' \<longleftrightarrow> (\<exists>r. find_action i s = Some r \<and> r_status r = APPROVED \<and>
     \<not> due (r_expires_at_ns r) now \<and>
     ((\<exists>p. matching_pause (row_to_action r) (db_pauses s) = Some p \<and>
        e = EmergencyPauseActive (row_to_action r) (format_scope K (p_namespace p) (p_tool_name p)) (p_reason p) \<and>
        s' = add_receipt K i Ev_EMERGENCY_PAUSE_BLOCKED now (r_request_digest r) (Some ''runtime'')
          (Some (dumps K (JObj [(''reason'', JStr (p_reason p)),
             (''scope'', JStr (format_scope K (p_namespace p) (p_tool_name p)))]))) s) \<or>
      matching_pause (row_to_action r) (db_pauses s) = None \<and>
        reserve_limit_capacity (row_to_action r) now s = Inr (Some e, s) \<and>
        s' = add_receipt K i Ev_LIMIT_BLOCKED now (r_request_digest r) (Some ''runtime'')
          (Some (limit_block_detail K e)) s))"

lemma claim_body:
  assumes ok: "store_ok K s" and res: "claim_tx K lease now i dg s = Inr (x, s')"
  shows "(\<exists>r. find_action i s = Some r \<and> r_request_digest r = dg) \<and>
    (case x of Inl e \<Rightarrow> claim_blocked K now i s e s'
     | Inr c \<Rightarrow> claim_replays K now i s c s' \<or> claim_executes K lease now i s c s')"
proof -
  obtain r0 where r0: "find_action i s = Some r0"
    using res by (auto simp: claim_tx_def result_simps)
  obtain r s1 where r: "refresh_state K now r0 s = Inr (r, s1)" "find_action i s1 = Some r"
    "identity_of r = identity_of r0" "\<not> expiring now r"
    "r = r0 \<and> s1 = s \<or> r_status r0 \<in> {PENDING, APPROVED} \<and> r_status r = EXPIRED \<or>
      r_status r0 = EXECUTING \<and> r_status r = UNKNOWN"
    by (rule refresh_obtain [OF ok r0, of now]) blast
  have dg: "r_request_digest r = dg" and st: "r_status r \<in> {SUCCEEDED, APPROVED}"
    using res r0 r(1) by (auto simp: claim_tx_def result_simps Let_def
        split: if_splits runtime_status.splits)
  have same: "r = r0" "s1 = s" using r(5) st by auto
  have id: "r_action_id r = i" using r(2) by (auto dest: find_row_SomeD)
  show ?thesis
  proof (cases "r_status r = SUCCEEDED")
    case True
    then show ?thesis
      using res r0 r(1) dg same by (auto simp: claim_tx_def require_found Let_def claim_replays_def)
  next
    case False
    with st have appr: "r_status r = APPROVED" by simp
    with r(4) have fresh: "\<not> due (r_expires_at_ns r) now" by (simp add: expiring_def)
    have body: "claim_approved K lease now (row_to_action r) dg s = Inr (x, s')"
      using res r0 r(1) dg same appr by (simp add: claim_tx_def require_found Let_def)
    show ?thesis
    proof (cases "matching_pause (row_to_action r) (db_pauses s)")
      case (Some p)
      then show ?thesis
        using body r0 same appr fresh dg id
        by (auto simp: claim_approved_def Let_def claim_blocked_def)
    next
      case None
      then obtain b s2 where b: "reserve_limit_capacity (row_to_action r) now s = Inr (b, s2)"
        using body by (auto simp: claim_approved_def result_simps)
      show ?thesis
      proof (cases b)
        case (Some e)
        then show ?thesis
          using body None b r0 same appr fresh dg id reserve_blocked [of "row_to_action r" now s e s2]
          by (auto simp: claim_approved_def claim_blocked_def)
      next
        case None': None
        have "find_action i s2 = Some r"
          using reserve_only_capacity [OF b] r(2) same by (simp add: only_capacity_def)
        then show ?thesis
          using body None None' b r0 same appr fresh dg id
          by (auto simp: claim_approved_def Let_def row_updates claim_executes_def
              require_transition)
      qed
    qed
  qed
qed


lemma claim_result:
  assumes "store_ok K s" and "claim K lease now i dg s = (res, s')"
  shows "res = Inr c \<Longrightarrow> claim_replays K now i s c s' \<or> claim_executes K lease now i s c s'"
    "res = Inr c \<Longrightarrow> \<exists>r. find_action i s = Some r \<and> r_request_digest r = dg"
    "res = Inl e \<Longrightarrow> s' = s \<or> claim_blocked K now i s e s'"
  using assms claim_body [of K s lease now i dg]
  by (auto simp: claim_def split: prod.splits sum.splits elim!: transaction_cases)

lemma find_reserved:
  "reserve_limit_capacity a now s = Inr (b, s1) \<Longrightarrow> find_action i s1 = find_action i s \<and>
   events_of i s1 = events_of i s \<and> db_limits s1 = db_limits s \<and> db_pauses s1 = db_pauses s \<and>
   frame j s s1"
  using reserve_only_capacity [of a now s b s1]
  by (simp add: only_capacity_def events_of_def receipts_def frame_def)

lemma core_capacity:
  "core_ok K s \<Longrightarrow> only_capacity s s1 \<Longrightarrow> accounting_ok s1 \<Longrightarrow> core_ok K s1"
  by (simp add: core_ok_def only_capacity_def ids_ok_def log_ok_def chains_ok_def limits_ok_def
      events_of_def receipts_def verify_receipt_chain_def verify_control_receipt_chain_def
      control_receipts_def)

lemma capacity_frame: "only_capacity s s1 \<Longrightarrow> frame i s s1"
  by (simp add: only_capacity_def frame_def events_of_def receipts_def)

lemma reserve_core:
  assumes "core_ok K s" and res: "reserve_limit_capacity a now s = Inr (None, s1)"
  shows "core_ok K s1"
proof (rule core_capacity [OF assms(1) reserve_only_capacity [OF res]])
  show "accounting_ok s1"
    using assms(1) by (intro reserve_ok(1) [OF res]) (simp_all add: core_ok_def limits_ok_def)
qed

lemma claim_executes_ok:
  assumes ok: "store_ok K s" and ex: "claim_executes K lease now i s c s'"
  shows "store_ok K s'" "frame i s s'" "events_of i s' = events_of i s @ [Ev_EXECUTION_STARTED]"
    "\<exists>r. find_action i s = Some r \<and> r_status r = APPROVED \<and>
       find_action i s' = Some (claimed_row now lease r) \<and>
       ec_action c = row_to_action (claimed_row now lease r)"
proof -
  obtain r s1 where r: "find_action i s = Some r" "r_status r = APPROVED"
    and res: "reserve_limit_capacity (row_to_action r) now s = Inr (None, s1)"
    and c: "ec_action c = row_to_action (claimed_row now lease r)"
    and s': "s' = transition K i (claimed_row now lease) Ev_EXECUTION_STARTED now (r_request_digest r)
            (Some ''runtime'') None s1"
    using ex by (auto simp: claim_executes_def)
  have id: "r_action_id r = i" using r by (auto dest: find_row_SomeD)
  have row: "row_ok r" using core_find [of K s i r] ok r by (simp add: store_ok_def)
  have r1: "find_action i s1 = Some r" using find_reserved [OF res] r by simp
  show f: "frame i s s'"
    using find_reserved [OF res, of i i] frame_transition(1) [of "claimed_row now lease" i s1]
    unfolding s' by (auto intro: frame_trans)
  show "events_of i s' = events_of i s @ [Ev_EXECUTION_STARTED]"
    using find_reserved [OF res, of i] by (simp add: s')
  show "\<exists>r. find_action i s = Some r \<and> r_status r = APPROVED \<and>
      find_action i s' = Some (claimed_row now lease r) \<and>
      ec_action c = row_to_action (claimed_row now lease r)"
    using r c find_updated [OF r1, of "claimed_row now lease"] by (simp add: s')
  show "store_ok K s'"
    unfolding store_ok_def
  proof
    show "core_ok K s'"
      unfolding s' using claimed_row_ok [OF row r(2)] ok r(2)
      by (intro transition_core [OF reserve_core [OF _ res] r1])
        (simp_all add: store_ok_def life_step_def)
    show "holders_ok s'"
      unfolding s'
    proof (rule transition_holders [OF r1])
      fix q assume q: "q \<in> set (db_reservations s1)" "rs_released_at_ns q = None"
      from reserve_rows [OF res q(1)] consider "rs_action_id q = i" | "q \<in> set (db_reservations s)"
        by (auto simp: id)
      then show "(rs_action_id q = i \<and> started_status (r_status (claimed_row now lease r))) \<or>
          (rs_action_id q \<noteq> i \<and> holder s1 (rs_action_id q))"
      proof cases
        case 2
        then have "holder s (rs_action_id q)"
          using ok q(2) by (simp add: store_ok_def holders_ok_def)
        then show ?thesis
          using find_reserved [OF res] r(2) by (auto simp: holder_def started_status_def)
      qed (simp add: started_status_def)
    qed simp
  qed
qed

lemma claim_ok:
  assumes ok: "store_ok K s" and res: "claim K lease now i dg s = (res, s')"
  shows "store_ok K s'" "frame i s s'"
proof -
  have noted: "store_ok K (add_receipt K i ev now (r_request_digest r) ac de s)"
    if "find_action i s = Some r" "life_step (r_policy_effect r) (r_status r) ev = Some (r_status r)"
    for r ev ac de
    using note_ok [OF ok that] .
  have "store_ok K s' \<and> frame i s s'"
  proof (cases res)
    case (Inl e)
    from claim_result(3) [OF ok res Inl] noted ok show ?thesis
      by (auto simp: claim_blocked_def life_step_def frame_add_receipt)
  next
    case (Inr c)
    from claim_result(1) [OF ok res Inr] show ?thesis
    proof
      assume "claim_replays K now i s c s'"
      with noted show ?thesis by (auto simp: claim_replays_def life_step_def frame_add_receipt)
    next
      assume "claim_executes K lease now i s c s'"
      from claim_executes_ok [OF ok this] show ?thesis by simp
    qed
  qed
  then show "store_ok K s'" "frame i s s'" by auto
qed


section \<open>Reconciliation\<close>

text \<open>
  What a reconciliation did to an unknown row: a proof that the effect did not happen released the
  action's capacity, a proof that it did left the capacity in use.
\<close>

definition reconciles ::
  "codec \<Rightarrow> int \<Rightarrow> string \<Rightarrow> runtime_reconciliation \<Rightarrow> string \<Rightarrow> string \<Rightarrow> json option \<Rightarrow> db \<Rightarrow>
   runtime_action \<Rightarrow> db \<Rightarrow> bool" where
  "reconciles K now i outcome by why result s a s' \<longleftrightarrow>
     (\<exists>r t s1. find_action i s = Some r \<and> r_status r = UNKNOWN \<and>
        reconcile_target_of now (row_to_action r) outcome = Inr t \<and>
        (if outcome = NOT_COMMITTED then release_limit_capacity i now s = Inr s1 else s1 = s) \<and>
        a = row_to_action (reconciled_row now t result r) \<and>
        s' = transition K i (reconciled_row now t result) (rt_event t) now
               (r_request_digest r) (Some by) (Some why) s1)"

lemma reconcile_body:
  assumes ok: "store_ok K s" and res: "reconcile_tx K now i outcome by why result s = Inr (a, s')"
  shows "\<exists>r0 r s0. find_action i s = Some r0 \<and> refreshed K now r0 s = (r, s0) \<and>
    reconciles K now i outcome by why result s0 a s'"
proof -
  obtain r0 where r0: "find_action i s = Some r0"
    using res by (auto simp: reconcile_tx_def result_simps)
  have id0: "r_action_id r0 = i" using r0 by (auto dest: find_row_SomeD)
  obtain r s0 where eq: "refreshed K now r0 s = (r, s0)" by fastforce
  have r: "refresh_state K now r0 s = Inr (r, s0)"
    using refresh_state_eq [of r0 s K now] r0 id0 eq by simp
  note rok = refreshed_ok [OF ok r0 eq]
  have id: "r_action_id r = i" using rok(2) by (auto dest: find_row_SomeD)
  have st: "r_status r = UNKNOWN"
    using res r0 r by (auto simp: reconcile_tx_def require_found Let_def split: if_splits)
  obtain t s1 where t: "reconcile_target_of now (row_to_action r) outcome = Inr t"
    and s1: "(if outcome = NOT_COMMITTED then release_limit_capacity i now s0 else Inr s0) = Inr s1"
    and w: "reconcile_write K now (row_to_action r) t by why result s1 = Inr (a, s')"
    using res r0 r st id
    by (auto simp: reconcile_tx_def require_found Let_def bind_res_Inr_iff simp del: if_split split: if_split_asm)
  have "accounting_ok s0" using rok(1) by (simp add: store_ok_def core_ok_def)
  then have "only_capacity s0 s1"
    using s1 release_total [of s0 i now] by (auto split: if_splits)
  then have r1: "find_action i s1 = Some r" using rok(2) by (simp add: only_capacity_def)
  have "reconciles K now i outcome by why result s0 a s'"
    using w require_transition [OF r1, of "reconciled_row now t result"] rok(2) st t s1 id
    by (auto simp: reconciles_def reconcile_write_def Let_def split: if_splits)
  with r0 eq show ?thesis by blast
qed


lemma release_rowsD:
  "q \<in> set (release_rows i t rs) \<Longrightarrow> rs_released_at_ns q = None \<Longrightarrow> q \<in> set rs \<and> rs_action_id q \<noteq> i"
  by (auto simp: release_rows_def split: if_splits)

lemma reconciles_ok:
  assumes ok: "store_ok K s" and rc: "reconciles K now i outcome by why result s a s'"
    and res: "(outcome = COMMITTED) = (result \<noteq> None)"
  shows "store_ok K s'" "frame i s s'"
    "events_of i s' = events_of i s @
       [if outcome = COMMITTED then Ev_RECONCILIATION_COMMITTED else Ev_RECONCILIATION_NOT_COMMITTED]"
proof -
  obtain r t s1 where r: "find_action i s = Some r" "r_status r = UNKNOWN"
    and t: "reconcile_target_of now (row_to_action r) outcome = Inr t"
    and s1: "if outcome = NOT_COMMITTED then release_limit_capacity i now s = Inr s1 else s1 = s"
    and s': "s' = transition K i (reconciled_row now t result) (rt_event t) now
               (r_request_digest r) (Some by) (Some why) s1"
    using rc by (auto simp: reconciles_def)
  have row: "row_ok r" using core_find [of K s i r] ok r by (simp add: store_ok_def)
  note rok = reconciled_row_ok [OF row r(2) t res]
  have acc: "accounting_ok s" using ok by (simp add: store_ok_def core_ok_def)
  obtain cap: "only_capacity s s1" and acc1: "accounting_ok s1"
    and rows: "db_reservations s1 = (if outcome = NOT_COMMITTED
      then release_rows i now (db_reservations s) else db_reservations s)"
    using s1 acc release_total [OF acc, of i now] by (cases outcome) auto
  have r1: "find_action i s1 = Some r" using r cap by (simp add: only_capacity_def)
  have ev: "rt_event t = (if outcome = COMMITTED then Ev_RECONCILIATION_COMMITTED
      else Ev_RECONCILIATION_NOT_COMMITTED)"
    using t by (auto simp: reconcile_target_of_def split: if_splits)
  show "frame i s s'"
    unfolding s' by (rule frame_trans [OF capacity_frame [OF cap]], rule frame_transition(1)) simp
  show "events_of i s' = events_of i s @
      [if outcome = COMMITTED then Ev_RECONCILIATION_COMMITTED else Ev_RECONCILIATION_NOT_COMMITTED]"
    using cap by (simp add: s' ev only_capacity_def events_of_def receipts_def append_receipt_def Let_def)
  show "store_ok K s'"
    unfolding store_ok_def
  proof
    show "core_ok K s'"
      unfolding s' using rok r ok acc1 cap
      by (intro transition_core [OF core_capacity [OF _ cap acc1] r1]) (simp_all add: store_ok_def)
    show "holders_ok s'"
      unfolding s'
    proof (rule transition_holders [OF r1])
      fix q assume q: "q \<in> set (db_reservations s1)" "rs_released_at_ns q = None"
      have old: "q \<in> set (db_reservations s)" "outcome = NOT_COMMITTED \<Longrightarrow> rs_action_id q \<noteq> i"
        using q rows release_rowsD by (auto split: if_splits)
      then have "holder s1 (rs_action_id q)"
        using ok q(2) cap by (simp add: store_ok_def holders_ok_def holder_def only_capacity_def)
      then show "(rs_action_id q = i \<and> started_status (r_status (reconciled_row now t result r))) \<or>
          (rs_action_id q \<noteq> i \<and> holder s1 (rs_action_id q))"
        using old(2) rok(3) by (cases outcome) auto
    qed simp
  qed
qed

lemma reconcile_InrD:
  assumes ok: "store_ok K s" and res: "reconcile K now i outcome by why result s = (Inr a, s')"
  shows "store_ok K s'" "frame i s s'"
    "\<exists>r0 r s0 result_json. find_action i s = Some r0 \<and> refreshed K now r0 s = (r, s0) \<and> store_ok K s0 \<and>
       reconciles K now i outcome by why result_json s0 a s' \<and>
       result_json = (if outcome = COMMITTED then Some (json_norm result) else None)"
proof -
  let ?j = "if outcome = COMMITTED then Some (json_norm result) else None"
  have "reconcile_tx K now i outcome by why ?j s = Inr (a, s')"
    using res
    by (auto simp: reconcile_def result_simps split: if_splits sum.splits elim!: transaction_cases)
  from reconcile_body [OF ok this] obtain r0 r s0 where
    r: "find_action i s = Some r0" "refreshed K now r0 s = (r, s0)"
    "reconciles K now i outcome by why ?j s0 a s'"
    by blast
  note rok = refreshed_ok [OF ok r(1,2)]
  have "(outcome = COMMITTED) = (?j \<noteq> None)" by simp
  note rec = reconciles_ok [OF rok(1) r(3) this]
  show "store_ok K s'" "frame i s s'"
    using rec rok(4) frame_trans by blast+
  show "\<exists>r0 r s0 result_json. find_action i s = Some r0 \<and> refreshed K now r0 s = (r, s0) \<and> store_ok K s0 \<and>
       reconciles K now i outcome by why result_json s0 a s' \<and> result_json = ?j"
    using r rok(1) by blast
qed

lemma reconcile_InlD: "reconcile K now i outcome by why result s = (Inl e, s') \<Longrightarrow> s' = s"
  by (auto simp: reconcile_def split: if_splits sum.splits elim!: transaction_cases)

end
