(* ===== verification/Store_Reach.thy ===== *)
theory Store_Reach
  imports Store_Safety
begin

text \<open>
  Submission, the reads that refresh, and the operator controls keep the invariant too; the
  operations then make a transition system, with one rule for each of the store's calls, and every
  database reachable from an empty one satisfies \<open>store_ok\<close>.
\<close>

section \<open>Submission\<close>

lemma decision_ttl: "decision_ttl_ns d = Inr ttl \<Longrightarrow> pd_effect d \<noteq> REQUIRE_APPROVAL \<Longrightarrow> ttl = None"
  by (simp add: decision_ttl_ns_def)

lemma new_row_ok:
  assumes "decision_ttl_ns d = Inr ttl"
  shows "row_ok (new_row K now rq d ttl)"
    and "life_start (pd_effect d) (submit_event (pd_effect d)) = Some (initial_status (pd_effect d))"
  using decision_ttl [OF assms]
  by (cases "pd_effect d"; simp add: row_ok_def new_row_def started_status_def initial_status_def
      life_start_def submit_event_def)+

lemma new_row_simps [simp]:
  "r_action_id (new_row K now rq d ttl) = rq_action_id rq"
  "binding_key (new_row K now rq d ttl) = (rq_namespace rq, rq_tool_name rq, rq_idempotency_key rq)"
  "r_request_digest (new_row K now rq d ttl) = request_digest K rq"
  "r_policy_effect (new_row K now rq d ttl) = pd_effect d"
  "r_status (new_row K now rq d ttl) = initial_status (pd_effect d)"
  by (simp_all add: new_row_def)

lemma events_of_fresh:
  assumes "core_ok K s" "find_action i s = None"
  shows "events_of i s = []"
proof -
  have "rc_action_id q \<noteq> i" if "q \<in> set (db_receipts s)" for q
  proof -
    have "\<forall>q \<in> set (db_receipts s). \<exists>r \<in> set (db_actions s).
        r_action_id r = rc_action_id q \<and> r_request_digest r = rc_request_digest q"
      using assms(1) by (simp add: core_ok_def log_ok_def)
    with that obtain r where "r \<in> set (db_actions s)" "r_action_id r = rc_action_id q" by blast
    with assms(2) show ?thesis by (auto simp: find_row_None_iff image_iff)
  qed
  then show ?thesis by (simp add: events_of_def receipts_def)
qed

lemma inserted_ok:
  assumes ok: "store_ok K s" and fresh: "find_action (rq_action_id rq) s = None"
    "find_row binding_key (rq_namespace rq, rq_tool_name rq, rq_idempotency_key rq) (db_actions s) = None"
    and ttl: "decision_ttl_ns d = Inr ttl"
  shows "store_ok K (inserted K now rq d ttl s)"
    and "find_action (rq_action_id rq) (inserted K now rq d ttl s) = Some (new_row K now rq d ttl)"
    and "events_of (rq_action_id rq) (inserted K now rq d ttl s) = [submit_event (pd_effect d)]"
    and "j \<noteq> rq_action_id rq \<Longrightarrow> find_action j (inserted K now rq d ttl s) = find_action j s"
proof -
  let ?r = "new_row K now rq d ttl" and ?s = "inserted K now rq d ttl s"
  have core: "core_ok K s" using ok by (simp add: store_ok_def)
  have act: "db_actions ?s = db_actions s @ [?r]" by (simp add: inserted_def)
  have ev: "events_of j ?s = events_of j s @ (if j = rq_action_id rq then [submit_event (pd_effect d)] else [])" for j
    by (simp add: inserted_def events_of_def receipts_def append_receipt_def Let_def)
  show new: "find_action (rq_action_id rq) ?s = Some ?r"
    using fresh(1) by (simp add: act find_row_append)
  show evs: "events_of (rq_action_id rq) ?s = [submit_event (pd_effect d)]"
    using events_of_fresh [OF core fresh(1)] by (simp add: ev)
  show old: "find_action j ?s = find_action j s" if "j \<noteq> rq_action_id rq" for j
    using that by (simp add: act find_row_append split: option.split)
  have "ids_ok ?s"
    using core fresh by (auto simp: core_ok_def ids_ok_def act find_row_None_iff)
  moreover have "list_all row_ok (db_actions ?s)"
    using core new_row_ok(1) [OF ttl] by (simp add: core_ok_def act)
  moreover have "log_ok ?s"
  proof -
    have "life_log (r_policy_effect r) (events_of (r_action_id r) ?s) = Some (r_status r)"
      if "r \<in> set (db_actions ?s)" for r
    proof (cases "r = ?r")
      case True
      then show ?thesis using evs new_row_ok(2) [OF ttl] by (simp add: life_log_single)
    next
      case False
      with that have "r \<in> set (db_actions s)" by (simp add: act)
      moreover from this have "r_action_id r \<noteq> rq_action_id rq"
        using fresh(1) by (auto simp: find_row_None_iff image_iff)
      ultimately show ?thesis
        using core by (simp add: ev core_ok_def log_ok_def)
    qed
    moreover have "\<exists>r \<in> set (db_actions ?s). r_action_id r = rc_action_id q \<and> r_request_digest r = rc_request_digest q"
      if "q \<in> set (db_receipts ?s)" for q
    proof (cases "q \<in> set (db_receipts s)")
      case True
      then show ?thesis using core by (auto simp: act core_ok_def log_ok_def)
    next
      case False
      with that have "rc_action_id q = rq_action_id rq" "rc_request_digest q = request_digest K rq"
        by (auto simp: inserted_def set_append_receipt)
      then show ?thesis by (simp add: act)
    qed
    ultimately show ?thesis by (simp add: log_ok_def)
  qed
  moreover have "chains_ok K ?s"
    using core unfolding inserted_def
    by (intro chains_add_receipt) (simp add: core_ok_def chains_ok_def verify_receipt_chain_def
        receipts_def verify_control_receipt_chain_def control_receipts_def)
  moreover have "accounting_ok ?s" "limits_ok ?s"
    using core by (simp_all add: inserted_def core_ok_def accounting_ok_def limits_ok_def)
  moreover have "holders_ok ?s"
    using ok fresh(1) old
    by (simp add: inserted_def store_ok_def holders_ok_def holder_def) (metis option.distinct(1))
  ultimately show "store_ok K ?s" by (simp add: store_ok_def core_ok_def)
qed

text \<open>The two ways a submission succeeds.\<close>

definition submits_new ::
  "codec \<Rightarrow> int \<Rightarrow> runtime_request \<Rightarrow> policy_decision \<Rightarrow> db \<Rightarrow> runtime_action \<Rightarrow> db \<Rightarrow> bool" where
  "submits_new K now rq d s a s' \<longleftrightarrow> (\<exists>ttl.
     find_row binding_key (rq_namespace rq, rq_tool_name rq, rq_idempotency_key rq) (db_actions s) = None \<and>
     find_action (rq_action_id rq) s = None \<and> decision_ttl_ns d = Inr ttl \<and>
     a = row_to_action (new_row K now rq d ttl) \<and> s' = inserted K now rq d ttl s)"

definition submits_existing ::
  "codec \<Rightarrow> int \<Rightarrow> runtime_request \<Rightarrow> db \<Rightarrow> runtime_action \<Rightarrow> db \<Rightarrow> bool" where
  "submits_existing K now rq s a s' \<longleftrightarrow> (\<exists>r0 r.
     find_row binding_key (rq_namespace rq, rq_tool_name rq, rq_idempotency_key rq) (db_actions s) = Some r0 \<and>
     refreshed K now r0 s = (r, s') \<and> r_request_digest r0 = request_digest K rq \<and> a = row_to_action r)"

lemma find_own:
  "store_ok K s \<Longrightarrow> r \<in> set (db_actions s) \<Longrightarrow> find_action (r_action_id r) s = Some r"
  by (auto simp: store_ok_def core_ok_def ids_ok_def intro: find_row_unique)

lemma submit_InrD:
  assumes ok: "store_ok K s" and res: "submit K now rq d s = (Inr a, s')"
  shows "store_ok K s'" "submits_new K now rq d s a s' \<or> submits_existing K now rq s a s'"
    "pd_policy_version d = rq_policy_version rq"
proof -
  have tx: "submit_tx K now rq d s = Inr (a, s')" and v: "pd_policy_version d = rq_policy_version rq"
    using res by (auto simp: submit_def split: if_splits elim!: transaction_cases)
  show "pd_policy_version d = rq_policy_version rq" by (rule v)
  let ?k = "(rq_namespace rq, rq_tool_name rq, rq_idempotency_key rq)"
  have "store_ok K s' \<and> (submits_new K now rq d s a s' \<or> submits_existing K now rq s a s')"
  proof (cases "find_row binding_key ?k (db_actions s)")
    case None
    then obtain ttl where ttl: "decision_ttl_ns d = Inr ttl" "find_action (rq_action_id rq) s = None"
      using tx by (auto simp: submit_tx_def result_simps split: if_splits)
    note ins = inserted_ok [OF ok ttl(2) None ttl(1), where now = now]
    have "require_row (rq_action_id rq) (inserted K now rq d ttl s) = Inr (new_row K now rq d ttl)"
      using ins(2) by (simp add: require_row_def)
    then have "a = row_to_action (new_row K now rq d ttl)" "s' = inserted K now rq d ttl s"
      using tx None ttl by (simp_all add: submit_tx_def Let_def)
    with ins None ttl show ?thesis by (auto simp: submits_new_def)
  next
    case (Some r0)
    then have "r0 \<in> set (db_actions s)" by (auto dest: find_row_SomeD)
    then have f: "find_action (r_action_id r0) s = Some r0" by (rule find_own [OF ok])
    obtain r s1 where eq: "refreshed K now r0 s = (r, s1)" by fastforce
    note rok = refreshed_ok [OF ok f eq]
    have "a = row_to_action r" "s' = s1" "r_request_digest r = request_digest K rq"
      using tx Some refresh_state_eq [OF f, of K now] eq
      by (auto simp: submit_tx_def split: if_splits)
    then show ?thesis
      using rok(1) Some eq identityD(3) [OF rok(3)] by (auto simp: submits_existing_def)
  qed
  then show "store_ok K s'" "submits_new K now rq d s a s' \<or> submits_existing K now rq s a s'" by auto
qed

lemma submit_InlD: "submit K now rq d s = (Inl e, s') \<Longrightarrow> s' = s"
  by (auto simp: submit_def split: if_splits elim!: transaction_cases)

section \<open>Reads\<close>

lemma get_action_ok:
  assumes ok: "store_ok K s" and res: "get_action K now i s = (res, s')"
  shows "store_ok K s'"
    "res = Inr a \<Longrightarrow> \<exists>r0 r. find_action i s = Some r0 \<and> refreshed K now r0 s = (r, s') \<and> a = row_to_action r"
proof -
  have "store_ok K s' \<and> (\<forall>a. res = Inr a \<longrightarrow>
      (\<exists>r0 r. find_action i s = Some r0 \<and> refreshed K now r0 s = (r, s') \<and> a = row_to_action r))"
  proof (cases "find_action i s")
    case None
    then show ?thesis using ok res by (auto simp: get_action_def require_row_def)
  next
    case (Some r0)
    then have id: "r_action_id r0 = i" by (auto dest: find_row_SomeD)
    obtain r s1 where eq: "refreshed K now r0 s = (r, s1)" by fastforce
    show ?thesis
      using refreshed_ok(1) [OF ok Some eq] refresh_state_eq [of r0 s K now] Some res eq id
      by (auto simp: get_action_def require_row_def)
  qed
  then show "store_ok K s'"
    "res = Inr a \<Longrightarrow> \<exists>r0 r. find_action i s = Some r0 \<and> refreshed K now r0 s = (r, s') \<and> a = row_to_action r"
    by auto
qed

lemma refresh_all_ok:
  assumes "store_ok K s" "distinct (map r_action_id rows)"
    and "\<forall>r \<in> set rows. find_action (r_action_id r) s = Some r"
  shows "\<exists>as s'. refresh_all K now rows s = Inr (as, s') \<and> store_ok K s' \<and>
    list_all2 (\<lambda>a r. find_action (r_action_id r) s' \<noteq> None \<and>
      a = row_to_action (the (find_action (r_action_id r) s'))) as rows \<and>
    (\<forall>j. j \<notin> r_action_id ` set rows \<longrightarrow> find_action j s' = find_action j s)"
  using assms
proof (induction rows arbitrary: s)
  case (Cons r rows)
  obtain r1 s1 where eq: "refreshed K now r s = (r1, s1)" by fastforce
  have f: "find_action (r_action_id r) s = Some r" using Cons.prems(3) by simp
  note rok = refreshed_ok [OF Cons.prems(1) f eq]
  have other: "find_action j s1 = find_action j s" if "j \<noteq> r_action_id r" for j
    using rok(4) that by (simp add: frame_def)
  have "\<forall>q \<in> set rows. find_action (r_action_id q) s1 = Some q"
    using Cons.prems(2,3) other by (auto simp: image_iff)
  then obtain as s2 where s2: "refresh_all K now rows s1 = Inr (as, s2)" "store_ok K s2"
    "list_all2 (\<lambda>a r. find_action (r_action_id r) s2 \<noteq> None \<and>
      a = row_to_action (the (find_action (r_action_id r) s2))) as rows"
    "\<forall>j. j \<notin> r_action_id ` set rows \<longrightarrow> find_action j s2 = find_action j s1"
    using Cons.IH [OF rok(1)] Cons.prems(2) by auto
  have "find_action (r_action_id r) s2 = Some r1"
    using s2(4) rok(2) Cons.prems(2) by simp
  then show ?case
    using refresh_state_eq [OF f, of K now] eq s2 other by auto
qed simp

lemma list_actions_ok:
  assumes ok: "store_ok K s" and res: "list_actions K now status s = (res, s')"
  shows "store_ok K s'" "\<exists>as. res = Inr as"
proof -
  let ?rows = "sort_key (\<lambda>r. (r_created_at_ns r, r_action_id r)) (db_actions s)"
  have "distinct (map r_action_id ?rows)" "\<forall>r \<in> set ?rows. find_action (r_action_id r) s = Some r"
    using ok find_own [OF ok] by (auto simp: store_ok_def core_ok_def ids_ok_def distinct_map)
  then obtain as s1 where "refresh_all K now ?rows s = Inr (as, s1)" "store_ok K s1"
    using refresh_all_ok [OF ok] by blast
  then show "store_ok K s'" "\<exists>as. res = Inr as"
    using res by (auto simp: list_actions_def)
qed


section \<open>Operator controls\<close>

definition only_controls :: "db \<Rightarrow> db \<Rightarrow> bool" where
  "only_controls s s' \<longleftrightarrow> db_actions s' = db_actions s \<and> db_receipts s' = db_receipts s \<and>
     db_usage s' = db_usage s \<and> db_reservations s' = db_reservations s"

definition control_logged :: "codec \<Rightarrow> db \<Rightarrow> db \<Rightarrow> bool" where
  "control_logged K s s' \<longleftrightarrow> db_controls s' = db_controls s \<or>
     (\<exists>e t a c d. db_controls s' = append_control_receipt K e t a c d (db_controls s))"

lemma control_logged_simps [simp]:
  "db_controls s' = db_controls s \<Longrightarrow> control_logged K s s'"
  "control_logged K s (x\<lparr>db_controls := append_control_receipt K e t a c d (db_controls s)\<rparr>)"
  by (simp_all add: control_logged_def) blast

lemma controls_ok:
  assumes "store_ok K s" "only_controls s s'" "limits_ok s'" "control_logged K s s'"
  shows "store_ok K s'"
proof -
  have "verify_control_receipt_chain K s' \<and> seq_ok cr_sequence (db_controls s')"
    using assms(1,4) by (auto simp: store_ok_def core_ok_def chains_ok_def
        verify_control_receipt_chain_def control_receipts_def control_logged_def)
  then show ?thesis
    using assms(1-3)
    by (simp add: store_ok_def core_ok_def only_controls_def ids_ok_def log_ok_def events_of_def
        receipts_def chains_ok_def verify_receipt_chain_def accounting_ok_def holders_ok_def holder_def)
qed

lemma set_pause_ok:
  assumes ok: "store_ok K s" and res: "set_pause K now by why ns tool s = (r, s')"
  shows "store_ok K s'"
proof (cases r)
  case (Inl e)
  then show ?thesis
    using ok res by (auto simp: set_pause_def split: sum.splits elim!: transaction_cases)
next
  case (Inr p)
  obtain n t actor detail where tx: "set_pause_tx K now actor detail n t s = Inr (p, s')"
    using res Inr by (auto simp: set_pause_def split: sum.splits elim!: transaction_cases)
  then have "only_controls s s'" "limits_ok s'"
    "control_logged K s s'"
    using ok by (auto simp: set_pause_tx_def Let_def only_controls_def limits_ok_def store_ok_def
        core_ok_def split: option.splits intro!: distinct_upsert_row)
  then show ?thesis by (intro controls_ok [OF ok]) auto
qed

lemma clear_pause_ok:
  assumes ok: "store_ok K s" and res: "clear_pause K now by why ns tool s = (r, s')"
  shows "store_ok K s'"
proof -
  have "only_controls s s' \<and> limits_ok s' \<and> control_logged K s s'"
    using ok res by (auto simp: clear_pause_def only_controls_def limits_ok_def store_ok_def
        core_ok_def distinct_map_filter split: sum.splits if_splits)
  then show ?thesis by (intro controls_ok [OF ok]) auto
qed

lemma limit_request_ok:
  assumes "limit_request now i w by why ns tool ma va mv = Inr l"
  shows "limit_ok l"
proof -
  have w: "0 < n" if "limit_window w = Inr n" for n
    using that by (auto simp: limit_window_def split: if_splits option.splits)
  have pos: "sql_positive x \<Longrightarrow> x = Some m \<Longrightarrow> 0 < m" for x m
    by (simp add: sql_positive_def)
  show ?thesis
    using assms
    by (auto simp: limit_request_def result_simps limit_ok_def dest: w pos
        split: if_split_asm option.split_asm)
qed

lemma limit_ok_update [simp]:
  "limit_ok (l\<lparr>l_enabled := e, l_updated_at_ns := n, l_updated_by := a, l_reason := y\<rparr>) = limit_ok l"
  by (simp add: limit_ok_def)

lemma list_all_update:
  "list_all P rows \<Longrightarrow> (\<And>x. P x \<Longrightarrow> P (f x)) \<Longrightarrow> list_all P (update_row key k f rows)"
  by (auto simp: list_all_iff elim!: in_update_rowE)

lemma list_all_upsert:
  assumes "list_all P rows" "P r" "\<And>x. x \<in> set rows \<Longrightarrow> key x = key r \<Longrightarrow> P x \<Longrightarrow> P (f x)"
  shows "list_all P (upsert_row key r f rows)"
  using assms by (auto simp: upsert_row_def list_all_iff elim!: in_update_rowE)

lemma configure_limit_ok:
  assumes ok: "store_ok K s"
    and res: "configure_limit K now i w by why ns tool ma va mv s = (r, s')"
  shows "store_ok K s'"
proof (cases r)
  case (Inl e)
  then show ?thesis
    using ok res by (auto simp: configure_limit_def split: sum.splits elim!: transaction_cases)
next
  case (Inr p)
  obtain l where l: "limit_request now i w by why ns tool ma va mv = Inr l"
    and tx: "configure_limit_tx K now l s = Inr (p, s')"
    using res Inr by (auto simp: configure_limit_def split: sum.splits elim!: transaction_cases)
  note lok = limit_request_ok [OF l]
  define f where "f = (\<lambda>old. old\<lparr>l_max_actions := l_max_actions l, l_max_value := l_max_value l,
    l_enabled := True, l_updated_at_ns := l_updated_at_ns l,
    l_updated_by := l_updated_by l, l_reason := l_reason l\<rparr> :: limit_row)"
  have imm: "immutable_part x = immutable_part l" if "x \<in> set (db_limits s)" "l_limit_id x = l_limit_id l" for x
  proof -
    have "find_row l_limit_id (l_limit_id l) (db_limits s) = Some x"
      using ok that by (auto simp: store_ok_def core_ok_def limits_ok_def find_row_unique_iff)
    with tx show ?thesis
      by (auto simp: configure_limit_tx_def result_simps split: if_splits)
  qed
  have "list_all limit_ok (upsert_row l_limit_id l f (db_limits s))"
  proof (rule list_all_upsert)
    show "list_all limit_ok (db_limits s)"
      using ok by (simp add: store_ok_def core_ok_def limits_ok_def)
    fix x assume "x \<in> set (db_limits s)" "l_limit_id x = l_limit_id l" "limit_ok x"
    with imm [of x] lok show "limit_ok (f x)"
      by (auto simp: f_def limit_ok_def immutable_part_def)
  qed (rule lok)
  moreover have "distinct (map l_limit_id (upsert_row l_limit_id l f (db_limits s)))"
    using ok by (intro distinct_upsert_row) (simp_all add: f_def store_ok_def core_ok_def limits_ok_def)
  moreover have "db_limits s' = upsert_row l_limit_id l f (db_limits s)" "only_controls s s'"
    "db_pauses s' = db_pauses s"
    "control_logged K s s'"
    using tx by (auto simp: configure_limit_tx_def Let_def result_simps only_controls_def f_def)
  ultimately show ?thesis
    using ok by (intro controls_ok [OF ok]) (auto simp: limits_ok_def store_ok_def core_ok_def)
qed

lemma disable_limit_ok:
  assumes ok: "store_ok K s" and res: "disable_limit K now i by why s = (r, s')"
  shows "store_ok K s'"
proof (cases r)
  case (Inl e)
  then show ?thesis
    using ok res by (auto simp: disable_limit_def split: sum.splits elim!: transaction_cases)
next
  case (Inr p)
  obtain i' actor why' where tx: "disable_limit_tx K now i' actor why' s = Inr (p, s')"
    using res Inr by (auto simp: disable_limit_def split: sum.splits elim!: transaction_cases)
  then have "only_controls s s' \<and> limits_ok s' \<and> control_logged K s s'"
    using ok by (auto simp: disable_limit_tx_def Let_def result_simps only_controls_def limits_ok_def
        store_ok_def core_ok_def split: if_splits intro!: list_all_update)
  then show ?thesis by (intro controls_ok [OF ok]) auto
qed


section \<open>The transition system\<close>

text \<open>
  One rule per call, with any arguments at any time of the clock, whether it returns or raises.
\<close>

inductive store_step :: "codec \<Rightarrow> int \<Rightarrow> db \<Rightarrow> db \<Rightarrow> bool" for K :: codec and lease :: int where
  step_submit: "submit K now rq d s = (r1, s') \<Longrightarrow> store_step K lease s s'"
| step_decide: "decide K now i d by why s = (r2, s') \<Longrightarrow> store_step K lease s s'"
| step_authorized: "decide_authorized K now i d auth why s = (r3, s') \<Longrightarrow> store_step K lease s s'"
| step_claim: "claim K lease now i dg s = (r4, s') \<Longrightarrow> store_step K lease s s'"
| step_complete: "complete K now i dg result s = (r5, s') \<Longrightarrow> store_step K lease s s'"
| step_unknown: "mark_unknown K now i dg error s = (r6, s') \<Longrightarrow> store_step K lease s s'"
| step_reconcile: "reconcile K now i outcome by text result s = (r7, s') \<Longrightarrow> store_step K lease s s'"
| step_get: "get_action K now i s = (r8, s') \<Longrightarrow> store_step K lease s s'"
| step_list: "list_actions K now status s = (r9, s') \<Longrightarrow> store_step K lease s s'"
| step_set_pause: "set_pause K now by text ns tool s = (r10, s') \<Longrightarrow> store_step K lease s s'"
| step_clear_pause: "clear_pause K now by text ns tool s = (r11, s') \<Longrightarrow> store_step K lease s s'"
| step_configure: "configure_limit K now i w by text ns tool ma va mv s = (r12, s') \<Longrightarrow> store_step K lease s s'"
| step_disable: "disable_limit K now i by text s = (r13, s') \<Longrightarrow> store_step K lease s s'"

inductive reachable :: "codec \<Rightarrow> int \<Rightarrow> db \<Rightarrow> bool" for K :: codec and lease :: int where
  reach_init: "reachable K lease empty_db"
| reach_step: "reachable K lease s \<Longrightarrow> store_step K lease s s' \<Longrightarrow> reachable K lease s'"

lemma submit_ok: "store_ok K s \<Longrightarrow> submit K now rq d s = (r, s') \<Longrightarrow> store_ok K s'"
  using submit_InrD(1) [of K s now rq d] submit_InlD [of K now rq d s] by (cases r) auto

lemma complete_ok: "store_ok K s \<Longrightarrow> complete K now i dg j s = (r, s') \<Longrightarrow> store_ok K s'"
  using complete_InrD(1) [of K s now i dg j] complete_InlD [of K now i dg j s] by (cases r) auto

lemma mark_unknown_ok: "store_ok K s \<Longrightarrow> mark_unknown K now i dg e s = (r, s') \<Longrightarrow> store_ok K s'"
  using mark_unknown_InrD(1) [of K s now i dg e] mark_unknown_InlD [of K now i dg e s] by (cases r) auto

lemma reconcile_ok: "store_ok K s \<Longrightarrow> reconcile K now i out by why j s = (r, s') \<Longrightarrow> store_ok K s'"
  using reconcile_InrD(1) [of K s now i out "by" why j] reconcile_InlD [of K now i out "by" why j s]
  by (cases r) auto

lemma step_ok: "store_step K lease s s' \<Longrightarrow> store_ok K s \<Longrightarrow> store_ok K s'"
  by (induction rule: store_step.induct)
    (blast intro: submit_ok decide_ok(1) decide_authorized_ok(1) claim_ok(1) complete_ok
      mark_unknown_ok reconcile_ok get_action_ok(1) list_actions_ok(1) set_pause_ok clear_pause_ok
      configure_limit_ok disable_limit_ok)+

lemma reachable_ok: "reachable K lease s \<Longrightarrow> store_ok K s"
  by (induction rule: reachable.induct) (auto intro: store_ok_empty step_ok)

end
