(* ===== verification/Store_Progress.thy ===== *)
theory Store_Progress
  imports Store_Reach
begin

text \<open>
  The other half of the store's contract: in a database that satisfies the invariant the calls
  that should succeed do. A pending action can be decided, an approved one that no control blocks
  can be claimed, an executing one can be completed or reported unknown, and an unknown one can
  always be reconciled, because the release of its capacity never fails. A concrete run follows.
\<close>

lemma unchanged_refresh:
  "find_action i s = Some r \<Longrightarrow> \<not> expiring now r \<Longrightarrow> \<not> abandoned now r \<Longrightarrow>
   refresh_state K now r s = Inr (r, s)"
  using refresh_state_eq [of r s K now] by (auto simp: refreshed_def dest: find_row_SomeD)

lemma decide_succeeds:
  assumes "find_action i s = Some r" "r_status r = PENDING" "\<not> due (r_expires_at_ns r) now" "\<not> blank by"
  shows "decide K now i d by why s =
    (Inr (row_to_action (decided_row (decision_target d) now by why r)),
     transition K i (decided_row (decision_target d) now by why) (decision_event d) now
       (r_request_digest r) (Some by) why s)"
proof -
  have id: "r_action_id r = i" using assms(1) by (auto dest: find_row_SomeD)
  have "refresh_state K now r s = Inr (r, s)"
    using assms by (intro unchanged_refresh) (simp_all add: expiring_def abandoned_def)
  moreover have "decide_locked K now (row_to_action r) d by why s =
      Inr (row_to_action (decided_row (decision_target d) now by why r),
        transition K i (decided_row (decision_target d) now by why) (decision_event d) now
          (r_request_digest r) (Some by) why s)"
  proof (rule decide_locked_cases [of r s d K now "by" why])
    show "find_action (r_action_id r) s = Some r" using assms(1) id by simp
  qed (use assms(2) id in \<open>simp_all add: decision_target_def split: if_splits\<close>)
  ultimately show ?thesis
    using assms by (simp add: decide_def require_found)
qed

lemma claim_succeeds:
  assumes "find_action i s = Some r" "r_status r = APPROVED" "\<not> due (r_expires_at_ns r) now"
    and "matching_pause (row_to_action r) (db_pauses s) = None"
    and res: "reserve_limit_capacity (row_to_action r) now s = Inr (None, s1)"
  shows "claim K lease now i (r_request_digest r) s =
    (Inr \<lparr>ec_outcome = EXECUTE, ec_action = row_to_action (claimed_row now lease r), ec_result = JNull\<rparr>,
     transition K i (claimed_row now lease) Ev_EXECUTION_STARTED now (r_request_digest r)
       (Some ''runtime'') None s1)"
proof -
  have id: "r_action_id r = i" using assms(1) by (auto dest: find_row_SomeD)
  have "refresh_state K now r s = Inr (r, s)"
    using assms by (intro unchanged_refresh) (simp_all add: expiring_def abandoned_def)
  moreover have "find_action i s1 = Some r"
    using find_reserved [OF res] assms(1) by simp
  then have "require_row i (transition K i (claimed_row now lease) Ev_EXECUTION_STARTED now
      (r_request_digest r) (Some ''runtime'') None s1) = Inr (claimed_row now lease r)"
    by (rule require_transition) simp
  ultimately show ?thesis
    using assms id
    by (simp add: claim_def claim_tx_def require_found Let_def claim_approved_def row_updates)
qed

lemma complete_succeeds:
  assumes "find_action i s = Some r" "r_status r = EXECUTING" "json_finite result"
  shows "complete K now i (r_request_digest r) result s =
    (Inr (row_to_action (completed_row now (json_norm result) r)),
     transition K i (completed_row now (json_norm result)) Ev_EXECUTION_SUCCEEDED now
       (r_request_digest r) (Some ''runtime'') None s)"
proof -
  have can: "canonical_json K result p = Inr (dumps K result)" for p
    using assms(3) by (simp add: canonical_json_Inr_iff)
  have "require_row i (transition K i (completed_row now (json_norm result)) Ev_EXECUTION_SUCCEEDED now
      (r_request_digest r) (Some ''runtime'') None s) = Inr (completed_row now (json_norm result) r)"
    by (rule require_transition [OF assms(1)]) simp
  then show ?thesis
    using assms by (simp add: complete_def can json_result_def require_found require_executing_def
        Let_def row_updates)
qed

lemma mark_unknown_succeeds:
  assumes "find_action i s = Some r" "r_status r = EXECUTING" "\<not> blank error"
  shows "mark_unknown K now i (r_request_digest r) error s =
    (Inr (row_to_action (unknown_row now error r)),
     transition K i (unknown_row now error) Ev_EXECUTION_UNKNOWN now
       (r_request_digest r) (Some ''runtime'') (Some error) s)"
proof -
  have "require_row i (transition K i (unknown_row now error) Ev_EXECUTION_UNKNOWN now
      (r_request_digest r) (Some ''runtime'') (Some error) s) = Inr (unknown_row now error r)"
    by (rule require_transition [OF assms(1)]) simp
  then show ?thesis
    using assms by (simp add: mark_unknown_def require_found require_executing_def Let_def row_updates)
qed

lemma started_not_denied:
  "row_ok r \<Longrightarrow> r_status r \<in> {APPROVED, EXECUTING, UNKNOWN, SUCCEEDED, PENDING} \<Longrightarrow> r_policy_effect r \<noteq> DENY"
  by (cases "r_status r") (simp_all add: row_ok_def)

lemma reconcile_succeeds:
  assumes ok: "store_ok K s" and row: "find_action i s = Some r" "r_status r = UNKNOWN"
    and "\<not> blank by" "\<not> blank why" "outcome = NOT_COMMITTED \<Longrightarrow> result = JNull"
    "outcome = COMMITTED \<Longrightarrow> json_finite result"
  shows "\<exists>a s'. reconcile K now i outcome by why result s = (Inr a, s')"
proof -
  have "row_ok r" using core_find [of K s i r] ok row by (simp add: store_ok_def)
  then have "r_policy_effect r \<noteq> DENY"
    using row(2) by (intro started_not_denied) simp_all
  then have "\<exists>t. reconcile_target_of now (row_to_action r) outcome = Inr t"
    by (cases "r_policy_effect r") (simp_all add: reconcile_target_of_def)
  then obtain t where t: "reconcile_target_of now (row_to_action r) outcome = Inr t" ..
  have id: "r_action_id r = i" using row(1) by (auto dest: find_row_SomeD)
  have acc: "accounting_ok s" using ok by (simp add: store_ok_def core_ok_def)
  obtain s0 where "release_limit_capacity i now s = Inr s0" "only_capacity s s0"
    by (rule release_total [OF acc])
  then obtain s1 where s1:
    "(if outcome = NOT_COMMITTED then release_limit_capacity i now s else Inr s) = Inr s1"
    "only_capacity s s1"
    by (cases "outcome = NOT_COMMITTED") auto
  have r1: "find_action i s1 = Some r" using row s1(2) by (simp add: only_capacity_def)
  have refr: "refresh_state K now r s = Inr (r, s)"
    using row by (intro unchanged_refresh) (simp_all add: expiring_def abandoned_def)
  have w: "reconcile_write K now (row_to_action r) t by why j s1 =
      Inr (row_to_action (reconciled_row now t j r),
        transition K i (reconciled_row now t j) (rt_event t) now (r_request_digest r) (Some by) (Some why) s1)" for j
    using require_transition [OF r1, of "reconciled_row now t j"] id
    by (simp add: reconcile_write_def Let_def)
  have can: "outcome = COMMITTED \<Longrightarrow> canonical_json K result p = Inr (dumps K result)" for p
    using assms(7) by (simp add: canonical_json_Inr_iff)
  show ?thesis
    using assms(4-6) can row refr t s1(1) w id
    by (cases outcome) (auto simp: reconcile_def reconcile_tx_def require_found Let_def json_result_def)
qed

end
