(* ===== verification/Store_Demo.thy ===== *)
theory Store_Demo
  imports Store_Progress
begin

text \<open>
  A concrete run of the store, which the properties are applied to: one action that needs approval
  is submitted, approved, claimed and completed, or its outcome is reported unknown. Every database
  of the run is reachable.
\<close>

definition demo_decision :: policy_decision where
  "demo_decision = \<lparr>pd_effect = REQUIRE_APPROVAL, pd_rule_name = ''big'', pd_policy_version = ''v1'',
     pd_approval_ttl_seconds = None\<rparr>"

definition demo_digest :: string where
  "demo_digest = request_digest demo_codec (demo_request ''a1'' 5)"

definition demo_row :: action_row where
  "demo_row = new_row demo_codec 10 (demo_request ''a1'' 5) demo_decision None"

definition demo_submitted :: db where
  "demo_submitted = snd (submit demo_codec 10 (demo_request ''a1'' 5) demo_decision empty_db)"

definition demo_approved :: db where
  "demo_approved = snd (decide demo_codec 20 ''a1'' APPROVE ''alice'' None demo_submitted)"

definition demo_claimed :: db where
  "demo_claimed = snd (claim demo_codec 100 30 ''a1'' demo_digest demo_approved)"

definition demo_completed :: db where
  "demo_completed = snd (complete demo_codec 40 ''a1'' demo_digest (JInt 7) demo_claimed)"

definition demo_unknown :: db where
  "demo_unknown = snd (mark_unknown demo_codec 40 ''a1'' demo_digest ''Timeout'' demo_claimed)"

lemma snd_step: "f = (r, s') \<Longrightarrow> snd f = s'"
  by simp

lemma demo_reachable:
  "reachable demo_codec 100 demo_submitted" "reachable demo_codec 100 demo_approved"
  "reachable demo_codec 100 demo_claimed" "reachable demo_codec 100 demo_completed"
  "reachable demo_codec 100 demo_unknown"
proof -
  show 1: "reachable demo_codec 100 demo_submitted"
    unfolding demo_submitted_def by (rule reach_step [OF reach_init step_submit], rule prod.collapse [symmetric])
  show 2: "reachable demo_codec 100 demo_approved"
    unfolding demo_approved_def by (rule reach_step [OF 1 step_decide], rule prod.collapse [symmetric])
  show 3: "reachable demo_codec 100 demo_claimed"
    unfolding demo_claimed_def by (rule reach_step [OF 2 step_claim], rule prod.collapse [symmetric])
  show "reachable demo_codec 100 demo_completed"
    unfolding demo_completed_def by (rule reach_step [OF 3 step_complete], rule prod.collapse [symmetric])
  show "reachable demo_codec 100 demo_unknown"
    unfolding demo_unknown_def by (rule reach_step [OF 3 step_unknown], rule prod.collapse [symmetric])
qed

lemma demo_row_simps [simp]:
  "r_action_id demo_row = ''a1''" "r_status demo_row = PENDING"
  "r_policy_effect demo_row = REQUIRE_APPROVAL" "r_request_digest demo_row = demo_digest"
  "r_expires_at_ns demo_row = None" "r_namespace demo_row = ''payments''"
  "r_tool_name demo_row = ''refund''" "r_organization_id demo_row = ''default''"
  "r_requested_by demo_row = None" "r_idempotency_key demo_row = ''key-1''"
  "r_arguments demo_row = JObj [(''amount'', JInt 5), (''to'', JStr ''bob'')]"
  "r_execution_lease_expires_at_ns demo_row = None"
  by (simp_all add: demo_row_def new_row_def demo_request_def demo_decision_def initial_status_def
      demo_digest_def)

lemma demo_submit:
  "submit demo_codec 10 (demo_request ''a1'' 5) demo_decision empty_db =
     (Inr (row_to_action demo_row), demo_submitted)"
  "db_actions demo_submitted = [demo_row]" "db_pauses demo_submitted = []"
  "db_limits demo_submitted = []" "db_reservations demo_submitted = []"
  "events_of ''a1'' demo_submitted = [Ev_APPROVAL_REQUESTED]"
proof -
  let ?rq = "demo_request ''a1'' 5"
  have eq: "submit demo_codec 10 ?rq demo_decision empty_db =
      (Inr (row_to_action demo_row), inserted demo_codec 10 ?rq demo_decision None empty_db)"
    by (simp add: submit_def submit_tx_def demo_decision_def demo_request_def empty_db_def
        decision_ttl_ns_def inserted_def require_row_def demo_row_def Let_def)
  then have s: "demo_submitted = inserted demo_codec 10 ?rq demo_decision None empty_db"
    by (simp add: demo_submitted_def)
  show "submit demo_codec 10 ?rq demo_decision empty_db = (Inr (row_to_action demo_row), demo_submitted)"
    using eq s by simp
  show "db_actions demo_submitted = [demo_row]" "db_pauses demo_submitted = []"
    "db_limits demo_submitted = []" "db_reservations demo_submitted = []"
    "events_of ''a1'' demo_submitted = [Ev_APPROVAL_REQUESTED]"
    by (simp_all add: s inserted_def empty_db_def demo_row_def events_of_def receipts_def
        append_receipt_def Let_def demo_request_def demo_decision_def submit_event_def)
qed

lemma demo_find_submitted: "find_action ''a1'' demo_submitted = Some demo_row"
  by (simp add: demo_submit)

lemma alice_not_blank: "\<not> blank ''alice''" "\<not> blank ''Timeout''"
  by (simp_all add: blank_iff py_space_def code_def)

definition demo_row_approved :: action_row where
  "demo_row_approved = decided_row APPROVED 20 ''alice'' None demo_row"

lemma demo_decide:
  "decide demo_codec 20 ''a1'' APPROVE ''alice'' None demo_submitted =
     (Inr (row_to_action demo_row_approved), demo_approved)"
  "db_actions demo_approved = [demo_row_approved]" "db_pauses demo_approved = []"
  "db_limits demo_approved = []" "db_reservations demo_approved = []"
  "events_of ''a1'' demo_approved = [Ev_APPROVAL_REQUESTED, Ev_APPROVED]"
proof -
  have eq: "decide demo_codec 20 ''a1'' APPROVE ''alice'' None demo_submitted =
      (Inr (row_to_action demo_row_approved),
       transition demo_codec ''a1'' (decided_row APPROVED 20 ''alice'' None) Ev_APPROVED 20
         demo_digest (Some ''alice'') None demo_submitted)"
    using decide_succeeds [OF demo_find_submitted, of 20 "''alice''" demo_codec APPROVE None]
    by (simp add: due_def alice_not_blank decision_target_def decision_event_def demo_row_approved_def)
  then have s: "demo_approved = transition demo_codec ''a1'' (decided_row APPROVED 20 ''alice'' None)
      Ev_APPROVED 20 demo_digest (Some ''alice'') None demo_submitted"
    by (simp add: demo_approved_def)
  show "decide demo_codec 20 ''a1'' APPROVE ''alice'' None demo_submitted =
      (Inr (row_to_action demo_row_approved), demo_approved)"
    using eq s by simp
  show "db_actions demo_approved = [demo_row_approved]" "db_pauses demo_approved = []"
    "db_limits demo_approved = []" "db_reservations demo_approved = []"
    "events_of ''a1'' demo_approved = [Ev_APPROVAL_REQUESTED, Ev_APPROVED]"
    by (simp_all add: s demo_submit demo_row_approved_def)
qed

lemma demo_row_approved_simps [simp]:
  "r_action_id demo_row_approved = ''a1''" "r_status demo_row_approved = APPROVED"
  "r_policy_effect demo_row_approved = REQUIRE_APPROVAL" "r_request_digest demo_row_approved = demo_digest"
  "r_expires_at_ns demo_row_approved = None" "identity_of demo_row_approved = identity_of demo_row"
  by (simp_all add: demo_row_approved_def decided_row_def) (simp add: identity_of_def)

definition demo_row_claimed :: action_row where
  "demo_row_claimed = claimed_row 30 100 demo_row_approved"

lemma demo_claim:
  "claim demo_codec 100 30 ''a1'' demo_digest demo_approved =
     (Inr \<lparr>ec_outcome = EXECUTE, ec_action = row_to_action demo_row_claimed, ec_result = JNull\<rparr>, demo_claimed)"
  "db_actions demo_claimed = [demo_row_claimed]" "db_pauses demo_claimed = []"
  "db_limits demo_claimed = []"
  "events_of ''a1'' demo_claimed = [Ev_APPROVAL_REQUESTED, Ev_APPROVED, Ev_EXECUTION_STARTED]"
proof -
  have f: "find_action ''a1'' demo_approved = Some demo_row_approved"
    by (simp add: demo_decide)
  have none: "matching_pause (row_to_action demo_row_approved) (db_pauses demo_approved) = None"
    "reserve_limit_capacity (row_to_action demo_row_approved) 30 demo_approved = Inr (None, demo_approved)"
    by (simp_all add: demo_decide matching_pause_None_iff reserve_limit_capacity_def applicable_limits_def)
  have eq: "claim demo_codec 100 30 ''a1'' demo_digest demo_approved =
      (Inr \<lparr>ec_outcome = EXECUTE, ec_action = row_to_action demo_row_claimed, ec_result = JNull\<rparr>,
       transition demo_codec ''a1'' (claimed_row 30 100) Ev_EXECUTION_STARTED 30 demo_digest
         (Some ''runtime'') None demo_approved)"
    using claim_succeeds [OF f _ _ none] by (simp add: due_def demo_row_claimed_def)
  then have s: "demo_claimed = transition demo_codec ''a1'' (claimed_row 30 100) Ev_EXECUTION_STARTED 30
      demo_digest (Some ''runtime'') None demo_approved"
    by (simp add: demo_claimed_def)
  show "claim demo_codec 100 30 ''a1'' demo_digest demo_approved =
      (Inr \<lparr>ec_outcome = EXECUTE, ec_action = row_to_action demo_row_claimed, ec_result = JNull\<rparr>, demo_claimed)"
    using eq s by simp
  show "db_actions demo_claimed = [demo_row_claimed]" "db_pauses demo_claimed = []"
    "db_limits demo_claimed = []"
    "events_of ''a1'' demo_claimed = [Ev_APPROVAL_REQUESTED, Ev_APPROVED, Ev_EXECUTION_STARTED]"
    by (simp_all add: s demo_decide demo_row_claimed_def)
qed

lemma demo_row_claimed_simps [simp]:
  "r_action_id demo_row_claimed = ''a1''" "r_status demo_row_claimed = EXECUTING"
  "r_policy_effect demo_row_claimed = REQUIRE_APPROVAL" "r_request_digest demo_row_claimed = demo_digest"
  by (simp_all add: demo_row_claimed_def claimed_row_def)

definition demo_row_completed :: action_row where
  "demo_row_completed = completed_row 40 (JInt 7) demo_row_claimed"

lemma demo_complete:
  "db_actions demo_completed = [demo_row_completed]"
  "events_of ''a1'' demo_completed =
     [Ev_APPROVAL_REQUESTED, Ev_APPROVED, Ev_EXECUTION_STARTED, Ev_EXECUTION_SUCCEEDED]"
  "r_action_id demo_row_completed = ''a1''" "r_status demo_row_completed = SUCCEEDED"
  "r_result demo_row_completed = Some (JInt 7)" "r_request_digest demo_row_completed = demo_digest"
proof -
  have "find_action ''a1'' demo_claimed = Some demo_row_claimed"
    by (simp add: demo_claim)
  from complete_succeeds [OF this, of "JInt 7" demo_codec 40]
  have s: "demo_completed = transition demo_codec ''a1'' (completed_row 40 (JInt 7))
      Ev_EXECUTION_SUCCEEDED 40 demo_digest (Some ''runtime'') None demo_claimed"
    by (simp add: demo_completed_def)
  show "db_actions demo_completed = [demo_row_completed]"
    "events_of ''a1'' demo_completed =
     [Ev_APPROVAL_REQUESTED, Ev_APPROVED, Ev_EXECUTION_STARTED, Ev_EXECUTION_SUCCEEDED]"
    by (simp_all add: s demo_claim demo_row_completed_def)
  show "r_action_id demo_row_completed = ''a1''" "r_status demo_row_completed = SUCCEEDED"
    "r_result demo_row_completed = Some (JInt 7)" "r_request_digest demo_row_completed = demo_digest"
    using demo_row_claimed_simps by (simp_all add: demo_row_completed_def completed_row_def)
qed

lemma demo_mark_unknown:
  "db_actions demo_unknown = [unknown_row 40 ''Timeout'' demo_row_claimed]"
  "find_action ''a1'' demo_unknown = Some (unknown_row 40 ''Timeout'' demo_row_claimed)"
proof -
  have "find_action ''a1'' demo_claimed = Some demo_row_claimed"
    by (simp add: demo_claim)
  from mark_unknown_succeeds [OF this, of "''Timeout''" demo_codec 40]
  have s: "demo_unknown = transition demo_codec ''a1'' (unknown_row 40 ''Timeout'')
      Ev_EXECUTION_UNKNOWN 40 demo_digest (Some ''runtime'') (Some ''Timeout'') demo_claimed"
    by (simp add: demo_unknown_def alice_not_blank)
  show "db_actions demo_unknown = [unknown_row 40 ''Timeout'' demo_row_claimed]"
    by (simp add: s demo_claim)
  then show "find_action ''a1'' demo_unknown = Some (unknown_row 40 ''Timeout'' demo_row_claimed)"
    by (simp add: unknown_row_def)
qed

end
