(* ===== verification/Store_History.thy ===== *)
theory Store_History
  imports Store_Demo
begin

text \<open>
  What no call can undo. Both logs only grow, a row keeps its identity, and a row in a final status
  is never written again; \<open>extends\<close> collects this as one transitive relation that every step of
  the store satisfies.
\<close>

definition final_status :: "runtime_status \<Rightarrow> bool" where
  "final_status st = (st \<in> {SUCCEEDED, DENIED, REJECTED, EXPIRED})"

definition extends :: "db \<Rightarrow> db \<Rightarrow> bool" where
  "extends s s' \<longleftrightarrow>
     (\<exists>new. db_receipts s' = db_receipts s @ new) \<and> (\<exists>new. db_controls s' = db_controls s @ new) \<and>
     (\<forall>i r. find_action i s = Some r \<longrightarrow> (\<exists>r'. find_action i s' = Some r' \<and>
        identity_of r' = identity_of r \<and> (final_status (r_status r) \<longrightarrow> r' = r)))"

lemma extendsD:
  assumes "extends s s'"
  shows "\<exists>new. db_receipts s' = db_receipts s @ new" "\<exists>new. db_controls s' = db_controls s @ new"
    "find_action i s = Some r \<Longrightarrow> \<exists>r'. find_action i s' = Some r' \<and>
        identity_of r' = identity_of r \<and> (final_status (r_status r) \<longrightarrow> r' = r)"
  using assms by (auto simp: extends_def)

lemma extends_refl [simp]: "extends s s"
  by (simp add: extends_def)

lemma extends_trans:
  assumes "extends a b" "extends b c"
  shows "extends a c"
proof -
  have "\<exists>new. db_receipts c = db_receipts a @ new" "\<exists>new. db_controls c = db_controls a @ new"
    using extendsD(1,2) [OF assms(1)] extendsD(1,2) [OF assms(2)] by auto
  moreover have "\<exists>r'. find_action i c = Some r' \<and> identity_of r' = identity_of r \<and>
      (final_status (r_status r) \<longrightarrow> r' = r)" if "find_action i a = Some r" for i r
    using extendsD(3) [OF assms(1) that] extendsD(3) [OF assms(2)] by metis
  ultimately show ?thesis by (simp add: extends_def)
qed

lemma extends_add_receipt: "extends s (add_receipt K i ev now d ac de s)"
  by (simp add: extends_def append_receipt_def Let_def)

lemma extends_only_capacity: "only_capacity s s' \<Longrightarrow> extends s s'"
  by (simp add: extends_def only_capacity_def)

lemma extends_transition:
  assumes row: "find_action i s = Some r" "\<not> final_status (r_status r)"
    and keep: "\<And>q. identity_of (f q) = identity_of q"
  shows "extends s (transition K i f ev now d ac de s)"
proof -
  have "\<exists>r'. find_action j (transition K i f ev now d ac de s) = Some r' \<and>
      identity_of r' = identity_of q \<and> (final_status (r_status q) \<longrightarrow> r' = q)"
    if "find_action j s = Some q" for j q
    using find_transition [of f j K i ev now d ac de s, OF keep] that row keep by (cases "j = i") auto
  then show ?thesis
    by (simp add: extends_def append_receipt_def Let_def)
qed

lemma extends_refreshed:
  assumes "find_action (r_action_id r) s = Some r" "refreshed K now r s = (r', s')"
  shows "extends s s'"
  using assms extends_transition [OF assms(1)]
  by (auto simp: refreshed_def expiring_def abandoned_def final_status_def split: if_splits)

lemma extends_decide_locked:
  assumes "find_action (r_action_id r) s = Some r"
    and "decide_locked K now (row_to_action r) d by why s = Inr (a, s')"
  shows "extends s s'"
  using assms(2)
  by (rule_tac decide_locked_cases [OF assms(1), of d K now "by" why])
    (auto simp: final_status_def intro!: extends_transition [OF assms(1)])

section \<open>Every call extends\<close>

lemma own_id: "find_action i s = Some r \<Longrightarrow> r_action_id r = i \<and> find_action (r_action_id r) s = Some r"
  by (auto dest: find_row_SomeD)

lemma extends_submit:
  assumes ok: "store_ok K s" and res: "submit K now rq d s = (r, s')"
  shows "extends s s'"
proof (cases r)
  case (Inl e)
  with res have "s' = s" by (auto dest: submit_InlD)
  then show ?thesis by simp
next
  case (Inr a)
  from submit_InrD(2) [OF ok res [unfolded Inr]] show ?thesis
  proof
    assume "submits_new K now rq d s a s'"
    then show ?thesis
      by (auto simp: submits_new_def extends_def inserted_def append_receipt_def Let_def find_row_append)
  next
    assume "submits_existing K now rq s a s'"
    then obtain r0 r1 where r0: "find_row binding_key
        (rq_namespace rq, rq_tool_name rq, rq_idempotency_key rq) (db_actions s) = Some r0"
      and eq: "refreshed K now r0 s = (r1, s')"
      by (auto simp: submits_existing_def)
    from r0 have "r0 \<in> set (db_actions s)" by (auto dest: find_row_SomeD)
    from extends_refreshed [OF find_own [OF ok this] eq] show ?thesis .
  qed
qed

lemma extends_decide_body:
  assumes ok: "store_ok K s" and row0: "find_action i s = Some r0"
    and refr: "refresh_state K now r0 s = Inr (r, s1)"
    and res: "decide_locked K now (row_to_action r) d by why s1 = Inr (a, s')"
  shows "extends s s'"
proof -
  note same = decide_body(5,6) [OF ok row0 refr res]
  have f: "find_action (r_action_id r0) s = Some r0" using own_id [OF row0] ..
  show ?thesis by (rule extends_decide_locked [OF f res [unfolded same]])
qed

lemma extends_decide:
  assumes "store_ok K s" "decide K now i d by why s = (r, s')"
  shows "extends s s'"
  using assms extends_decide_body [OF assms(1)]
  by (auto simp: decide_def result_simps split: if_splits elim!: transaction_cases)

lemma extends_authorized:
  assumes "store_ok K s" "decide_authorized K now i d auth why s = (r, s')"
  shows "extends s s'"
  using assms extends_decide_body [OF assms(1)]
  by (auto simp: decide_authorized_def result_simps Let_def elim!: transaction_cases)

lemma extends_claim:
  assumes ok: "store_ok K s" and res: "claim K lease now i dg s = (r, s')"
  shows "extends s s'"
proof (cases r)
  case (Inl e)
  from claim_result(3) [OF ok res Inl] show ?thesis
    by (auto simp: claim_blocked_def intro: extends_add_receipt)
next
  case (Inr c)
  from claim_result(1) [OF ok res Inr] show ?thesis
  proof
    assume "claim_replays K now i s c s'"
    then show ?thesis by (auto simp: claim_replays_def intro: extends_add_receipt)
  next
    assume "claim_executes K lease now i s c s'"
    then obtain q s1 where q: "find_action i s = Some q" "r_status q = APPROVED"
      and cap: "reserve_limit_capacity (row_to_action q) now s = Inr (None, s1)"
      and s': "s' = transition K i (claimed_row now lease) Ev_EXECUTION_STARTED now (r_request_digest q)
            (Some ''runtime'') None s1"
      by (auto simp: claim_executes_def)
    note oc = reserve_only_capacity [OF cap]
    have "find_action i s1 = Some q" using q oc by (simp add: only_capacity_def)
    then have "extends s1 s'"
      unfolding s' using q by (intro extends_transition) (auto simp: final_status_def)
    with extends_only_capacity [OF oc] show ?thesis by (rule extends_trans)
  qed
qed

lemma extends_complete:
  assumes ok: "store_ok K s" and res: "complete K now i dg result s = (r, s')"
  shows "extends s s'"
proof (cases r)
  case (Inl e)
  with res have "s' = s" by (auto dest: complete_InlD)
  then show ?thesis by simp
next
  case (Inr a)
  obtain q where q: "find_action i s = Some q" "r_status q = EXECUTING" "r_request_digest q = dg"
    using complete_InrD(4) [OF ok res [unfolded Inr]] by blast
  have "json_finite result" using complete_InrD(5) [OF ok res [unfolded Inr]] .
  then have "s' = transition K i (completed_row now (json_norm result)) Ev_EXECUTION_SUCCEEDED now
       dg (Some ''runtime'') None s"
    using complete_succeeds [OF q(1,2), of result K now] q(3) res by simp
  then show ?thesis
    using q by (auto intro!: extends_transition simp: final_status_def)
qed

lemma extends_mark_unknown:
  assumes ok: "store_ok K s" and res: "mark_unknown K now i dg error s = (r, s')"
  shows "extends s s'"
proof (cases r)
  case (Inl e)
  with res have "s' = s" by (auto dest: mark_unknown_InlD)
  then show ?thesis by simp
next
  case (Inr a)
  obtain q where q: "find_action i s = Some q" "r_status q = EXECUTING" "r_request_digest q = dg"
    using mark_unknown_InrD(4) [OF ok res [unfolded Inr]] by blast
  have "\<not> blank error" using res Inr by (auto simp: mark_unknown_def)
  then have "s' = transition K i (unknown_row now error) Ev_EXECUTION_UNKNOWN now dg
      (Some ''runtime'') (Some error) s"
    using mark_unknown_succeeds [OF q(1,2), of error K now] q(3) res by simp
  then show ?thesis
    using q by (auto intro!: extends_transition simp: final_status_def)
qed

lemma extends_reconcile:
  assumes ok: "store_ok K s" and res: "reconcile K now i outcome by why result s = (r, s')"
  shows "extends s s'"
proof (cases r)
  case (Inl e)
  with res have "s' = s" by (auto dest: reconcile_InlD)
  then show ?thesis by simp
next
  case (Inr a)
  obtain r0 r1 s0 j where r0: "find_action i s = Some r0" "refreshed K now r0 s = (r1, s0)"
    and s0: "store_ok K s0" "reconciles K now i outcome by why j s0 a s'"
    using reconcile_InrD(3) [OF ok res [unfolded Inr]] by blast
  then obtain q t s1 where q: "find_action i s0 = Some q" "r_status q = UNKNOWN"
    and s1: "if outcome = NOT_COMMITTED then release_limit_capacity i now s0 = Inr s1 else s1 = s0"
    and s': "s' = transition K i (reconciled_row now t j) (rt_event t) now
               (r_request_digest q) (Some by) (Some why) s1"
    by (auto simp: reconciles_def)
  have "accounting_ok s0" using s0(1) by (simp add: store_ok_def core_ok_def)
  then have oc: "only_capacity s0 s1"
    using s1 release_total [of s0 i now] by (auto split: if_splits)
  have "find_action i s1 = Some q" using q oc by (simp add: only_capacity_def)
  then have "extends s1 s'"
    unfolding s' using q by (intro extends_transition) (auto simp: final_status_def)
  moreover have "extends s s0"
    by (rule extends_refreshed [OF conjunct2 [OF own_id [OF r0(1)]] r0(2)])
  ultimately show ?thesis
    using extends_only_capacity [OF oc] extends_trans by blast
qed

lemma extends_get:
  assumes ok: "store_ok K s" and res: "get_action K now i s = (r, s')"
  shows "extends s s'"
proof (cases r)
  case (Inl e)
  then show ?thesis using res by (auto simp: get_action_def elim!: transaction_cases)
next
  case (Inr a)
  then obtain r0 q where "find_action i s = Some r0" "refreshed K now r0 s = (q, s')"
    using get_action_ok(2) [OF ok res] by blast
  with own_id extends_refreshed show ?thesis by metis
qed

lemma extends_refresh_all:
  assumes "store_ok K s" "distinct (map r_action_id rows)"
    and "\<forall>r \<in> set rows. find_action (r_action_id r) s = Some r"
    and "refresh_all K now rows s = Inr (as, s')"
  shows "extends s s'"
  using assms
proof (induction rows arbitrary: s as)
  case (Cons r rows)
  obtain r1 s1 where eq: "refreshed K now r s = (r1, s1)" by fastforce
  have f: "find_action (r_action_id r) s = Some r" using Cons.prems(3) by simp
  note rok = refreshed_ok [OF Cons.prems(1) f eq]
  have "\<forall>q \<in> set rows. find_action (r_action_id q) s1 = Some q"
    using Cons.prems(2,3) rok(4) by (auto simp: image_iff frame_def)
  moreover obtain as2 where "refresh_all K now rows s1 = Inr (as2, s')"
    using Cons.prems(4) refresh_state_eq [OF f, of K now] eq by (auto simp: result_simps)
  ultimately have "extends s1 s'"
    using Cons.IH [OF rok(1)] Cons.prems(2) by simp
  then show ?case
    using extends_refreshed [OF f eq] extends_trans by blast
qed simp

lemma extends_list:
  assumes ok: "store_ok K s" and res: "list_actions K now status s = (r, s')"
  shows "extends s s'"
proof -
  let ?rows = "sort_key (\<lambda>r. (r_created_at_ns r, r_action_id r)) (db_actions s)"
  have "distinct (map r_action_id ?rows)" "\<forall>r \<in> set ?rows. find_action (r_action_id r) s = Some r"
    using ok find_own [OF ok] by (auto simp: store_ok_def core_ok_def ids_ok_def distinct_map)
  then show ?thesis
    using res extends_refresh_all [OF ok]
    by (auto simp: list_actions_def result_simps elim!: transaction_cases)
qed

lemma extends_controls:
  "set_pause K now by why ns tool s = (r1, s') \<Longrightarrow> extends s s'"
  "clear_pause K now by why ns tool s = (r2, s') \<Longrightarrow> extends s s'"
  "configure_limit K now i w by why ns tool ma va mv s = (r3, s') \<Longrightarrow> extends s s'"
  "disable_limit K now i by why s = (r4, s') \<Longrightarrow> extends s s'"
  by (auto simp: extends_def append_control_receipt_def set_pause_def set_pause_tx_def Let_def
      clear_pause_def configure_limit_def configure_limit_tx_def disable_limit_def
      disable_limit_tx_def result_simps split: sum.splits option.splits if_splits
      elim!: transaction_cases)

lemma step_extends: "store_step K lease s s' \<Longrightarrow> store_ok K s \<Longrightarrow> extends s s'"
  by (induction rule: store_step.induct)
    (blast intro: extends_submit extends_decide extends_authorized extends_claim extends_complete
      extends_mark_unknown extends_reconcile extends_get extends_list extends_controls)+

text \<open>Any number of further calls.\<close>

inductive later :: "codec \<Rightarrow> int \<Rightarrow> db \<Rightarrow> db \<Rightarrow> bool" for K :: codec and lease :: int where
  later_refl: "later K lease s s"
| later_step: "later K lease s s' \<Longrightarrow> store_step K lease s' s'' \<Longrightarrow> later K lease s s''"

lemma later_reachable: "later K lease s s' \<Longrightarrow> reachable K lease s \<Longrightarrow> reachable K lease s'"
  by (induction rule: later.induct) (auto intro: reach_step)

lemma later_extends:
  "later K lease s s' \<Longrightarrow> reachable K lease s \<Longrightarrow> extends s s'"
proof (induction rule: later.induct)
  case (later_step s s' s'')
  then show ?case
    using step_extends [OF later_step.hyps(2)] reachable_ok later_reachable extends_trans by metis
qed simp

end
