(* ===== verification/Store_Props.thy ===== *)
theory Store_Props
  imports Store_History
begin

text \<open>
  The properties of the runtime store, each over the databases reachable from an empty one by any
  sequence of calls at any times of the clock, applied to the concrete run of \<open>Store_Demo\<close>.
\<close>

section \<open>Facts the properties share\<close>

lemma reachable_row:
  assumes "reachable K lease s" "find_action i s = Some r"
  shows "r \<in> set (db_actions s)" "r_action_id r = i" "row_ok r"
    "life_log (r_policy_effect r) (events_of i s) = Some (r_status r)"
  using core_find [of K s i r] reachable_ok [OF assms(1)] assms(2) by (simp_all add: store_ok_def)

lemma reachable_accounting: "reachable K lease s \<Longrightarrow> accounting_ok s"
  by (auto simp: store_ok_def core_ok_def dest: reachable_ok)

lemma life_log_prefix:
  assumes "life_log e (as @ bs) = Some st" "as \<noteq> []"
  shows "\<exists>st'. life_log e as = Some st' \<and> life_run e st' bs = Some st"
  using assms by (cases as) (auto simp: life_log_def life_run_append split: option.splits)

lemma demo_found:
  "find_action ''a1'' demo_approved = Some demo_row_approved"
  "find_action ''a1'' demo_claimed = Some demo_row_claimed"
  "find_action ''a1'' demo_completed = Some demo_row_completed"
  by (simp_all add: demo_decide demo_claim demo_complete)

section \<open>The audit log and the stored status\<close>

text \<open>
  C4. The store refines the lifecycle automaton: in every reachable database the receipts of an
  action, read in order, drive the automaton from its start to exactly the status the row holds.
\<close>

theorem receipts_refine_lifecycle:
  assumes "reachable K lease s" and "find_action i s = Some r"
  shows "life_log (r_policy_effect r) (map rc_event (receipts (Some i) s)) = Some (r_status r)"
  using reachable_row(4) [OF assms] by (simp add: events_of_def)

lemma receipts_refine_lifecycle_witness:
  "life_log REQUIRE_APPROVAL (map rc_event (receipts (Some ''a1'') demo_completed)) = Some SUCCEEDED"
  using receipts_refine_lifecycle [OF demo_reachable(4) demo_found(3)]
  by (simp add: demo_row_completed_def completed_row_def)

text \<open>
  C1. An effect is executed at most once: the log of an action holds one execution start for each
  time a reviewer proved an earlier one uncommitted, and one more exactly while the action is
  executing, succeeded or uncertain.
\<close>

theorem execution_at_most_once:
  assumes "reachable K lease s" and "find_action i s = Some r"
  shows "length (filter (\<lambda>q. rc_event q = Ev_EXECUTION_STARTED) (receipts (Some i) s)) =
    length (filter (\<lambda>q. rc_event q = Ev_RECONCILIATION_NOT_COMMITTED) (receipts (Some i) s)) +
    (if r_status r \<in> {EXECUTING, SUCCEEDED, UNKNOWN} then 1 else 0)"
proof -
  have "count_ev ev (events_of i s) = length (filter (\<lambda>q. rc_event q = ev) (receipts (Some i) s))" for ev
    by (simp add: count_ev_def events_of_def filter_map o_def)
  then show ?thesis
    using life_log_started [OF reachable_row(4) [OF assms]] by (simp add: started_def)
qed

lemma execution_at_most_once_witness:
  "length (filter (\<lambda>q. rc_event q = Ev_EXECUTION_STARTED) (receipts (Some ''a1'') demo_unknown)) =
   length (filter (\<lambda>q. rc_event q = Ev_RECONCILIATION_NOT_COMMITTED) (receipts (Some ''a1'') demo_unknown)) + 1"
  using execution_at_most_once [OF demo_reachable(5) demo_mark_unknown(2)]
  by (simp add: unknown_row_def)

text \<open>
  C3. An action that needs approval never starts without a fresh one: before every execution start
  in its log there are strictly more approvals than execution starts.
\<close>

theorem approval_before_execution:
  assumes "reachable K lease s" and "find_action i s = Some r"
    and "r_policy_effect r = REQUIRE_APPROVAL"
    and "map rc_event (receipts (Some i) s) = as @ Ev_EXECUTION_STARTED # bs"
  shows "count_ev Ev_EXECUTION_STARTED as < count_ev Ev_APPROVED as"
proof -
  have log: "life_log REQUIRE_APPROVAL ((as @ [Ev_EXECUTION_STARTED]) @ bs) = Some (r_status r)"
    using reachable_row(4) [OF assms(1,2)] assms(3,4) by (simp add: events_of_def)
  then obtain st where "life_log REQUIRE_APPROVAL (as @ [Ev_EXECUTION_STARTED]) = Some st"
    using life_log_prefix [OF log] by auto
  from life_log_approved [OF this] show ?thesis by simp
qed

lemma approval_before_execution_witness:
  "count_ev Ev_EXECUTION_STARTED [Ev_APPROVAL_REQUESTED, Ev_APPROVED] <
   count_ev Ev_APPROVED [Ev_APPROVAL_REQUESTED, Ev_APPROVED] \<and>
   map rc_event (receipts (Some ''a1'') demo_claimed) =
     [Ev_APPROVAL_REQUESTED, Ev_APPROVED, Ev_EXECUTION_STARTED]"
proof -
  have "map rc_event (receipts (Some ''a1'') demo_claimed) =
      [Ev_APPROVAL_REQUESTED, Ev_APPROVED] @ Ev_EXECUTION_STARTED # []"
    using demo_claim(5) by (simp add: events_of_def)
  with approval_before_execution [OF demo_reachable(3) demo_found(2) demo_row_claimed_simps(3) this]
  show ?thesis by simp
qed

text \<open>
  A denied action never executes and can never be approved: its log is the single receipt of the
  denial, in every reachable database.
\<close>

theorem denied_is_final:
  assumes "reachable K lease s" and "find_action i s = Some r" and "r_policy_effect r = DENY"
  shows "r_status r = DENIED \<and> map rc_event (receipts (Some i) s) = [Ev_POLICY_DENIED]"
  using reachable_row(4) [OF assms(1,2)] life_log_denied [of "events_of i s"] assms(3)
  by (simp_all add: events_of_def)

definition demo_denial :: policy_decision where
  "demo_denial = \<lparr>pd_effect = DENY, pd_rule_name = ''never'', pd_policy_version = ''v1'',
     pd_approval_ttl_seconds = None\<rparr>"

definition demo_denied :: db where
  "demo_denied = snd (submit demo_codec 10 (demo_request ''a1'' 5) demo_denial empty_db)"

lemma demo_denied_facts:
  "reachable demo_codec 100 demo_denied"
  "find_action ''a1'' demo_denied =
     Some (new_row demo_codec 10 (demo_request ''a1'' 5) demo_denial None)"
proof -
  show "reachable demo_codec 100 demo_denied"
    unfolding demo_denied_def by (rule reach_step [OF reach_init step_submit], rule prod.collapse [symmetric])
  show "find_action ''a1'' demo_denied =
     Some (new_row demo_codec 10 (demo_request ''a1'' 5) demo_denial None)"
    by (simp add: demo_denied_def submit_def submit_tx_def demo_denial_def demo_request_def
        empty_db_def decision_ttl_ns_def inserted_def require_row_def Let_def)
qed

lemma denied_is_final_witness:
  "map rc_event (receipts (Some ''a1'') demo_denied) = [Ev_POLICY_DENIED]"
  using denied_is_final [OF demo_denied_facts]
  by (simp add: new_row_def demo_denial_def)

text \<open>
  C8. History is append-only: whatever calls follow, both logs keep every receipt they hold, in
  order, no action disappears, no action changes its request, policy or digest, and an action that
  has succeeded, was denied, rejected or has expired is never written again.
\<close>

theorem history_append_only:
  assumes "reachable K lease s" and "later K lease s s'"
  shows "(\<exists>new. receipts None s' = receipts None s @ new) \<and>
    (\<exists>new. control_receipts s' = control_receipts s @ new) \<and>
    (\<forall>i r. find_action i s = Some r \<longrightarrow> (\<exists>r'. find_action i s' = Some r' \<and>
       identity_of r' = identity_of r \<and>
       (r_status r \<in> {SUCCEEDED, DENIED, REJECTED, EXPIRED} \<longrightarrow> r' = r)))"
  using later_extends [OF assms(2,1)]
  by (auto simp: extends_def receipts_def control_receipts_def final_status_def)

lemma history_append_only_witness:
  "\<exists>r'. find_action ''a1'' (snd (claim demo_codec 100 50 ''a1'' demo_digest demo_completed)) = Some r' \<and>
     r' = demo_row_completed"
proof -
  let ?s = "snd (claim demo_codec 100 50 ''a1'' demo_digest demo_completed)"
  have "later demo_codec 100 demo_completed ?s"
    by (rule later_step [OF later_refl step_claim], rule prod.collapse [symmetric])
  with history_append_only [OF demo_reachable(4) this] demo_found(3) demo_complete(4)
  show ?thesis by fastforce
qed

end
