(* ===== verification/Claim_Props.thy ===== *)
theory Claim_Props
  imports Store_Props
begin

text \<open>
  The properties of the execution claim and of the operator controls that guard it: when a claim
  may execute, what it leaves, what it replays, what blocks it, how capacity is counted and how an
  uncertain outcome gives it back.
\<close>

section \<open>Executing\<close>

lemma claim_execute_iff:
  assumes ok: "store_ok K s" and res: "claim K lease now i dg s = (Inr c, s')" and "ec_outcome c = EXECUTE"
  shows "claim_executes K lease now i s c s' \<and> (\<exists>r. find_action i s = Some r \<and> r_request_digest r = dg)"
  using claim_result(1,2) [OF ok res refl] assms(3) by (auto simp: claim_replays_def)

lemma claim_executes_limits:
  assumes ok: "store_ok K s" and ex: "claim_executes K lease now i s c s'"
    and l: "l \<in> set (db_limits s')" "l_enabled l"
      "in_scope (l_namespace l) (l_tool_name l) (ec_action c)"
  shows "\<And>m. l_max_actions l = Some m \<Longrightarrow> ru_actions_used (limit_usage_of now s' l) \<le> m"
    and "\<And>m. l_max_value l = Some m \<Longrightarrow> ru_value_used (limit_usage_of now s' l) \<le> m"
proof -
  obtain r s1 where res: "reserve_limit_capacity (row_to_action r) now s = Inr (None, s1)"
    and c: "ec_action c = row_to_action (claimed_row now lease r)"
    and s': "s' = transition K i (claimed_row now lease) Ev_EXECUTION_STARTED now (r_request_digest r)
            (Some ''runtime'') None s1"
    using ex by (auto simp: claim_executes_def)
  have acc: "accounting_ok s" "distinct (map l_limit_id (db_limits s))"
    using ok by (simp_all add: store_ok_def core_ok_def limits_ok_def)
  have same: "db_limits s' = db_limits s" "db_usage s' = db_usage s1"
    using reserve_only_capacity [OF res] by (simp_all add: s' only_capacity_def)
  have "ra_namespace (ec_action c) = r_namespace r" "ra_tool_name (ec_action c) = r_tool_name r"
    by (simp_all add: c claimed_row_def)
  then have scope: "in_scope (l_namespace l) (l_tool_name l) (row_to_action r)"
    using l(3) by (simp add: in_scope_def)
  note bounds = reserve_ok(3,4) [OF res acc l(1) [unfolded same] l(2) scope]
  show "\<And>m. l_max_actions l = Some m \<Longrightarrow> ru_actions_used (limit_usage_of now s' l) \<le> m"
    "\<And>m. l_max_value l = Some m \<Longrightarrow> ru_value_used (limit_usage_of now s' l) \<le> m"
    using bounds by (simp_all add: limit_usage_of_def Let_def same)
qed



text \<open>
  While an execution holds its lease nobody else can start the action: a second claim with the
  same digest is refused as in progress and leaves the database as it was.
\<close>

theorem claim_is_exclusive:
  assumes "reachable K lease s" and "claim K lease now i dg s = (Inr c, s')"
    and "ec_outcome c = EXECUTE" and "later_now < now + lease"
  shows "claim K lease later_now i dg s' = (Inl (ActionInProgress (ec_action c)), s')"
proof -
  have ok: "store_ok K s" using assms(1) by (rule reachable_ok)
  from claim_execute_iff [OF ok assms(2,3)] claim_executes_ok(4) [OF ok]
  obtain r where r: "find_action i s' = Some (claimed_row now lease r)" "r_request_digest r = dg"
    "ec_action c = row_to_action (claimed_row now lease r)"
    by fastforce
  have "refresh_state K later_now (claimed_row now lease r) s' = Inr (claimed_row now lease r, s')"
    using assms(4) by (intro unchanged_refresh [OF r(1)])
      (simp_all add: expiring_def abandoned_def claimed_row_def due_def)
  then show ?thesis
    using r by (simp add: claim_def claim_tx_def require_found) (simp add: claimed_row_def)
qed

lemma claim_is_exclusive_witness:
  "claim demo_codec 100 60 ''a1'' demo_digest demo_claimed =
     (Inl (ActionInProgress (row_to_action demo_row_claimed)), demo_claimed)"
  using claim_is_exclusive [OF demo_reachable(2) demo_claim(1), of 60] by simp

lemma succeeded_claim_replays_eq:
  assumes "find_action i s = Some r" and "r_status r = SUCCEEDED" and "r_result r = Some result"
  shows "claim K lease now i (r_request_digest r) s =
    (Inr \<lparr>ec_outcome = REPLAY, ec_action = row_to_action r, ec_result = result\<rparr>,
     add_receipt K i Ev_RESULT_REPLAYED now (r_request_digest r) (Some ''runtime'') None s)"
proof -
  have "refresh_state K now r s = Inr (r, s)"
    using assms by (intro unchanged_refresh) (simp_all add: expiring_def abandoned_def)
  then show ?thesis
    using assms by (simp add: claim_def claim_tx_def require_found)
qed

text \<open>
  A finished action is never executed again: every claim of it with its digest replays the
  stored result, at any time and under any pause and limit, and only adds the receipt of the replay.
\<close>

theorem succeeded_claim_replays:
  assumes "find_action i s = Some r" and "r_status r = SUCCEEDED" and "r_result r = Some result"
  shows "claim K lease now i (r_request_digest r) s =
    (Inr \<lparr>ec_outcome = REPLAY, ec_action = row_to_action r, ec_result = result\<rparr>,
     add_receipt K i Ev_RESULT_REPLAYED now (r_request_digest r) (Some ''runtime'') None s)"
  using succeeded_claim_replays_eq [OF assms] .

lemma succeeded_claim_replays_witness:
  "ec_result (projr (fst (claim demo_codec 100 999 ''a1'' demo_digest demo_completed))) = JInt 7"
  using succeeded_claim_replays [OF demo_found(3) demo_complete(4,5)] demo_complete(6) by simp

text \<open>
  An emergency pause stops execution: a claim of an approved action that any stored pause covers
  is refused with the narrowest such pause, the action stays approved and reserves nothing, and one
  receipt reports the block.
\<close>

theorem pause_blocks_claim:
  assumes "find_action i s = Some r" and "r_status r = APPROVED" and "\<not> due (r_expires_at_ns r) now"
    and "p \<in> set (db_pauses s)" and "in_scope (p_namespace p) (p_tool_name p) (row_to_action r)"
  shows "\<exists>q s'. claim K lease now i (r_request_digest r) s =
      (Inl (EmergencyPauseActive (row_to_action r) (format_scope K (p_namespace q) (p_tool_name q)) (p_reason q)), s') \<and>
    q \<in> set (db_pauses s) \<and> in_scope (p_namespace q) (p_tool_name q) (row_to_action r) \<and>
    specificity (p_namespace p) (p_tool_name p) \<le> specificity (p_namespace q) (p_tool_name q) \<and>
    db_actions s' = db_actions s \<and> db_usage s' = db_usage s \<and> db_reservations s' = db_reservations s \<and>
    map rc_event (receipts (Some i) s') = map rc_event (receipts (Some i) s) @ [Ev_EMERGENCY_PAUSE_BLOCKED]"
proof -
  obtain q where q: "matching_pause (row_to_action r) (db_pauses s) = Some q"
    using assms(4,5) by (cases "matching_pause (row_to_action r) (db_pauses s)")
      (auto simp: matching_pause_None_iff)
  note m = matching_pause_SomeD [OF q]
  have "pause_rank p \<le> pause_rank q" by (rule m(3) [OF assms(4,5)])
  then have rank: "specificity (p_namespace p) (p_tool_name p) \<le> specificity (p_namespace q) (p_tool_name q)"
    by (auto simp: pause_rank_def less_eq_prod_def)
  have id: "r_action_id r = i" using own_id [OF assms(1)] ..
  have refr: "refresh_state K now r s = Inr (r, s)"
    using assms by (intro unchanged_refresh) (simp_all add: expiring_def abandoned_def)
  let ?t = "add_receipt K i Ev_EMERGENCY_PAUSE_BLOCKED now (r_request_digest r) (Some ''runtime'')
         (Some (dumps K (JObj [(''reason'', JStr (p_reason q)),
            (''scope'', JStr (format_scope K (p_namespace q) (p_tool_name q)))]))) s"
  have "claim K lease now i (r_request_digest r) s =
      (Inl (EmergencyPauseActive (row_to_action r) (format_scope K (p_namespace q) (p_tool_name q)) (p_reason q)), ?t)"
    using refr assms(1,2) q id by (simp add: claim_def claim_tx_def require_found claim_approved_def Let_def)
  with m(1,2) rank show ?thesis
    using events_of_add [of i K i Ev_EMERGENCY_PAUSE_BLOCKED now _ _ _ s]
    by (intro exI [of _ q] exI [of _ ?t]) (simp add: events_of_def)
qed

text \<open>An approved action under a pause of its tool and a global pause.\<close>

definition demo_pauses :: "pause_row list" where
  "demo_pauses =
     [\<lparr>p_namespace = [], p_tool_name = [], p_paused_at_ns = 25, p_paused_by = ''ops'', p_reason = ''all''\<rparr>,
      \<lparr>p_namespace = ''payments'', p_tool_name = ''refund'', p_paused_at_ns = 21, p_paused_by = ''ops'',
       p_reason = ''refunds''\<rparr>]"

definition demo_paused :: db where
  "demo_paused = demo_approved\<lparr>db_pauses := demo_pauses\<rparr>"

lemma demo_row_approved_scope [simp]:
  "r_namespace demo_row_approved = ''payments''" "r_tool_name demo_row_approved = ''refund''"
  "r_expires_at_ns demo_row_approved = None"
  by (simp_all add: demo_row_approved_def decided_row_def)

lemma pause_blocks_claim_witness:
  "\<exists>e s'. claim demo_codec 100 30 ''a1'' demo_digest demo_paused = (Inl e, s') \<and>
     db_actions s' = [demo_row_approved]"
proof -
  have f: "find_action ''a1'' demo_paused = Some demo_row_approved"
    by (simp add: demo_paused_def demo_decide)
  have "demo_pauses ! 1 \<in> set (db_pauses demo_paused)"
    by (simp add: demo_paused_def demo_pauses_def)
  from pause_blocks_claim [OF f _ _ this, of 30 demo_codec 100]
  show ?thesis
    by (auto simp: due_def demo_pauses_def in_scope_def demo_paused_def demo_decide)
qed

end
