(* ===== verification/Outcome_Props.thy ===== *)
theory Outcome_Props
  imports Claim_Props
begin

text \<open>
  The properties of the store that concern what follows an execution or never leads to one:
  capacity accounting, reconciliation, expiry and abandoned leases, submission and authorized
  decisions, errors, and the two verified logs.
\<close>

section \<open>Capacity\<close>



section \<open>Reconciliation\<close>

lemma unknown_refreshed: "r_status r = UNKNOWN \<Longrightarrow> refreshed K now r s = (r, s)"
  by (simp add: refreshed_def expiring_def abandoned_def)

lemma reconcile_unknown:
  assumes "reachable K lease s" "find_action i s = Some r" "r_status r = UNKNOWN"
    and "\<not> blank by" "\<not> blank why" "outcome = NOT_COMMITTED \<Longrightarrow> result = JNull"
    "outcome = COMMITTED \<Longrightarrow> json_finite result"
  obtains t s1 s' where
    "reconcile K now i outcome by why result s = (Inr (row_to_action (reconciled_row now t
       (if outcome = COMMITTED then Some (json_norm result) else None) r)), s')"
    "reconcile_target_of now (row_to_action r) outcome = Inr t"
    "if outcome = NOT_COMMITTED then release_limit_capacity i now s = Inr s1 else s1 = s"
    "find_action i s' = Some (reconciled_row now t
       (if outcome = COMMITTED then Some (json_norm result) else None) r)"
    "db_reservations s' = db_reservations s1"
proof -
  let ?j = "if outcome = COMMITTED then Some (json_norm result) else None"
  have ok: "store_ok K s" using assms(1) by (rule reachable_ok)
  obtain a s' where rec: "reconcile K now i outcome by why result s = (Inr a, s')"
    using reconcile_succeeds [OF ok assms(2,3,4,5,6,7)] by blast
  obtain r0 q s0 where "find_action i s = Some r0" "refreshed K now r0 s = (q, s0)"
    "reconciles K now i outcome by why ?j s0 a s'"
    using reconcile_InrD(3) [OF ok rec] by blast
  then have rc: "reconciles K now i outcome by why ?j s a s'"
    using assms(2,3) unknown_refreshed by auto
  then obtain t s1 where t: "reconcile_target_of now (row_to_action r) outcome = Inr t"
    and s1: "if outcome = NOT_COMMITTED then release_limit_capacity i now s = Inr s1 else s1 = s"
    and a: "a = row_to_action (reconciled_row now t ?j r)"
    and s': "s' = transition K i (reconciled_row now t ?j) (rt_event t) now
               (r_request_digest r) (Some by) (Some why) s1"
    using assms(2) by (auto simp: reconciles_def)
  have "only_capacity s s1"
    using s1 release_total [of s i now] reachable_accounting [OF assms(1)] by (auto split: if_splits)
  then have "find_action i s1 = Some r" using assms(2) by (simp add: only_capacity_def)
  then have "find_action i s' = Some (reconciled_row now t ?j r)"
    unfolding s' using find_transition [of "reconciled_row now t ?j"] by simp
  with that [OF rec [unfolded a] t s1] show thesis by (simp add: s')
qed

text \<open>
  Proving that an uncertain effect did not happen always succeeds, frees every unit of capacity
  the action held, and never lets it run on the old approval: an action that needs approval is
  pending again, with nobody as its decider and the approval time counted afresh.
\<close>

theorem reconcile_not_committed:
  assumes "reachable K lease s" and "find_action i s = Some r" and "r_status r = UNKNOWN"
    and "\<not> blank by" and "\<not> blank why"
  shows "\<exists>a s'. reconcile K now i NOT_COMMITTED by why JNull s = (Inr a, s') \<and>
    (\<forall>q \<in> set (db_reservations s'). rs_action_id q = i \<longrightarrow> rs_released_at_ns q \<noteq> None) \<and>
    ra_result_available a = False \<and>
    (if r_policy_effect r = REQUIRE_APPROVAL
     then ra_status a = PENDING \<and> ra_decided_by a = None \<and>
       ra_expires_at_ns a = map_option (\<lambda>n. now + n) (r_approval_ttl_ns r)
     else ra_status a = APPROVED \<and> ra_decided_by a = Some ''policy'' \<and> ra_expires_at_ns a = None)"
proof -
  obtain t s1 s' where res: "reconcile K now i NOT_COMMITTED by why JNull s =
       (Inr (row_to_action (reconciled_row now t None r)), s')"
    and t: "reconcile_target_of now (row_to_action r) NOT_COMMITTED = Inr t"
    and s1: "release_limit_capacity i now s = Inr s1" "db_reservations s' = db_reservations s1"
    by (rule reconcile_unknown [OF assms, of NOT_COMMITTED JNull now]) auto
  have "db_reservations s' = release_rows i now (db_reservations s)"
    using s1 release_total [OF reachable_accounting [OF assms(1)], of i now] by auto
  then have "\<forall>q \<in> set (db_reservations s'). rs_action_id q = i \<longrightarrow> rs_released_at_ns q \<noteq> None"
    by (auto dest!: release_rowsD)
  then show ?thesis
    using res t by (auto simp: reconcile_target_of_def row_to_action_def reconciled_row_def split: if_splits)
qed

lemma unknown_demo: "r_status (unknown_row 40 ''Timeout'' demo_row_claimed) = UNKNOWN"
  by simp

lemma reconcile_not_committed_witness:
  "\<exists>a s'. reconcile demo_codec 50 ''a1'' NOT_COMMITTED ''alice'' ''Timeout'' JNull demo_unknown = (Inr a, s') \<and>
     ra_status a = PENDING"
  using reconcile_not_committed [OF demo_reachable(5) demo_mark_unknown(2) unknown_demo
      alice_not_blank, of 50]
  by (auto simp: unknown_row_def)

text \<open>
  Proving that an uncertain effect did happen settles it: the supplied result is stored, the
  capacity stays in use, and from then on every claim replays that result.
\<close>

theorem reconcile_committed:
  assumes "reachable K lease s" and "find_action i s = Some r" and "r_status r = UNKNOWN"
    and "\<not> blank by" and "\<not> blank why" and "json_finite result"
  shows "\<exists>a s'. reconcile K now i COMMITTED by why result s = (Inr a, s') \<and>
    ra_status a = SUCCEEDED \<and> ra_result a = json_norm result \<and>
    db_reservations s' = db_reservations s \<and>
    (\<forall>t. \<exists>s2. claim K lease t i (r_request_digest r) s' =
       (Inr \<lparr>ec_outcome = REPLAY, ec_action = a, ec_result = json_norm result\<rparr>, s2))"
proof -
  obtain t s' where res: "reconcile K now i COMMITTED by why result s =
       (Inr (row_to_action (reconciled_row now t (Some (json_norm result)) r)), s')"
    and t: "reconcile_target_of now (row_to_action r) COMMITTED = Inr t"
    and s': "find_action i s' = Some (reconciled_row now t (Some (json_norm result)) r)"
      "db_reservations s' = db_reservations s"
    by (rule reconcile_unknown [OF assms(1-5), of COMMITTED result now]) (use assms(6) in auto)
  let ?r = "reconciled_row now t (Some (json_norm result)) r"
  have "rt_status t = SUCCEEDED" using t by (auto simp: reconcile_target_of_def)
  then have r: "r_status ?r = SUCCEEDED" "r_result ?r = Some (json_norm result)"
    "r_request_digest ?r = r_request_digest r"
    by (simp_all add: reconciled_row_def)
  show ?thesis
    using res s'(2) r succeeded_claim_replays_eq [OF s'(1) r(1,2), of K lease]
    by (intro exI [of _ "row_to_action ?r"] exI [of _ s']) auto
qed

lemma reconcile_committed_witness:
  "\<exists>a s'. reconcile demo_codec 50 ''a1'' COMMITTED ''alice'' ''Timeout'' (JInt 3) demo_unknown = (Inr a, s') \<and>
     ra_result a = JInt 3"
  using reconcile_committed [OF demo_reachable(5) demo_mark_unknown(2) unknown_demo
      alice_not_blank, of "JInt 3" 50]
  by auto

section \<open>Expiry\<close>

text \<open>
  Time only closes doors: reading an unanswered or unused approval at or after its expiry finds
  it expired, and reading an execution at or after the end of its lease finds its outcome unknown,
  never approved again; each is recorded by one receipt.
\<close>

theorem overdue_is_closed:
  assumes "reachable K lease s" and "find_action i s = Some r"
    and "r_status r \<in> {PENDING, APPROVED} \<and> due (r_expires_at_ns r) now \<or>
      r_status r = EXECUTING \<and> due (r_execution_lease_expires_at_ns r) now"
  shows "\<exists>a s'. get_action K now i s = (Inr a, s') \<and>
    ra_status a = (if r_status r = EXECUTING then UNKNOWN else EXPIRED) \<and>
    map rc_event (receipts (Some i) s') = map rc_event (receipts (Some i) s) @
      [if r_status r = EXECUTING then Ev_EXECUTION_ABANDONED else Ev_EXPIRED] \<and>
    db_reservations s' = db_reservations s"
proof -
  have id: "r_action_id r = i" "find_action (r_action_id r) s = Some r"
    using own_id [OF assms(2)] by auto
  have get: "get_action K now i s = (Inr (row_to_action (fst (refreshed K now r s))), snd (refreshed K now r s))"
    using assms(2) refresh_state_eq [OF id(2), of K now]
    by (simp add: get_action_def require_found case_prod_beta)
  show ?thesis
    unfolding get
    using assms(3) id(1) by (auto simp: refreshed_def expiring_def abandoned_def expire_row_def
        abandon_row_def receipts_def append_receipt_def Let_def)
qed

lemma overdue_is_closed_witness:
  "\<exists>a s'. get_action demo_codec 130 ''a1'' demo_claimed = (Inr a, s') \<and> ra_status a = UNKNOWN"
  using overdue_is_closed [OF demo_reachable(3) demo_found(2), of 130]
  by (auto simp: demo_row_claimed_def claimed_row_def due_def)

section \<open>Decisions\<close>


definition demo_auth :: decision_authorization where
  "demo_auth = \<lparr>da_actor = ''oidc:alice'', da_organization_id = ''default'', da_namespaces = [''payments''],
     da_decisions = [APPROVE], da_require_separate_approver = True, da_reviewer_subject = Some ''alice''\<rparr>"

lemma demo_authorized:
  "\<exists>a s'. decide_authorized demo_codec 20 ''a1'' APPROVE demo_auth None demo_submitted = (Inr a, s')"
proof -
  have "refresh_state demo_codec 20 demo_row demo_submitted = Inr (demo_row, demo_submitted)"
    by (intro unchanged_refresh [OF demo_find_submitted]) (simp_all add: expiring_def abandoned_def due_def)
  moreover have "authorized demo_row APPROVE demo_auth"
    by (simp add: authorized_def demo_auth_def)
  then have "check_authorization (row_to_action demo_row) APPROVE demo_auth = Inr ()"
    by (simp add: check_authorization_iff)
  moreover have "\<exists>x. decide_locked demo_codec 20 (row_to_action demo_row) APPROVE (da_actor demo_auth) None
      demo_submitted = Inr x"
  proof (rule decide_locked_cases [of demo_row demo_submitted APPROVE demo_codec 20 "da_actor demo_auth" None])
    show "find_action (r_action_id demo_row) demo_submitted = Some demo_row"
      using demo_find_submitted by simp
  qed (auto simp: decision_target_def)
  ultimately show ?thesis
    by (auto simp: decide_authorized_def require_found [OF demo_find_submitted] Let_def transaction_def
        split: prod.splits)
qed


section \<open>Submission\<close>

lemma find_binding:
  assumes "store_ok K s" "r \<in> set (db_actions s)"
  shows "find_row binding_key (binding_key r) (db_actions s) = Some r"
  using assms by (auto simp: store_ok_def core_ok_def ids_ok_def intro: find_row_unique)

lemma submit_bound:
  assumes ok: "store_ok K s" and row: "r \<in> set (db_actions s)"
    and key: "binding_key r = (rq_namespace rq, rq_tool_name rq, rq_idempotency_key rq)"
    and v: "pd_policy_version d = rq_policy_version rq"
  shows "submit K now rq d s = (if r_request_digest r \<noteq> request_digest K rq then (Inl ActionBindingError, s)
    else (Inr (row_to_action (fst (refreshed K now r s))), snd (refreshed K now r s)))"
proof -
  obtain q t where eq: "refreshed K now r s = (q, t)" by fastforce
  have f: "find_action (r_action_id r) s = Some r" by (rule find_own [OF ok row])
  have "r_request_digest q = r_request_digest r"
    by (rule identityD(3) [OF refreshed_ok(3) [OF ok f eq]])
  then show ?thesis
    using find_binding [OF ok row] key v eq refresh_state_eq [OF f, of K now]
    by (simp add: submit_def submit_tx_def)
qed

text \<open>
  C5. Submission is idempotent: whatever happens after an action was submitted, submitting a request
  with the same namespace, tool and idempotency key never creates a second action. With the same
  digest it returns the first action; with another digest it is refused as a binding error and
  changes nothing.
\<close>

theorem submit_is_idempotent:
  assumes "reachable K lease s" and "submit K now rq d s = (Inr a, s1)" and "later K lease s1 s2"
    and "rq_namespace rq2 = rq_namespace rq" "rq_tool_name rq2 = rq_tool_name rq"
      "rq_idempotency_key rq2 = rq_idempotency_key rq"
    and "pd_policy_version d2 = rq_policy_version rq2"
  shows "if request_digest K rq2 = request_digest K rq
    then \<exists>b s3. submit K now2 rq2 d2 s2 = (Inr b, s3) \<and> ra_action_id b = ra_action_id a \<and>
      map r_action_id (db_actions s3) = map r_action_id (db_actions s2)
    else submit K now2 rq2 d2 s2 = (Inl ActionBindingError, s2)"
proof -
  have ok: "store_ok K s" using assms(1) by (rule reachable_ok)
  have r1: "reachable K lease s1" by (rule reach_step [OF assms(1) step_submit [OF assms(2)]])
  have ok1: "store_ok K s1" by (rule reachable_ok [OF r1])
  have ok2: "store_ok K s2" by (rule reachable_ok [OF later_reachable [OF assms(3) r1]])
  let ?k = "(rq_namespace rq, rq_tool_name rq, rq_idempotency_key rq)"
  have "\<exists>r. find_action (ra_action_id a) s1 = Some r \<and> binding_key r = ?k \<and>
      r_request_digest r = request_digest K rq"
    using submit_InrD(2) [OF ok assms(2)]
  proof
    assume "submits_new K now rq d s a s1"
    then obtain ttl where "find_action (rq_action_id rq) s = None" "decision_ttl_ns d = Inr ttl"
      "find_row binding_key ?k (db_actions s) = None"
      and a: "a = row_to_action (new_row K now rq d ttl)" "s1 = inserted K now rq d ttl s"
      by (auto simp: submits_new_def)
    then show ?thesis
      using inserted_ok(2) [OF ok, of rq d ttl now] by (simp add: new_row_def)
  next
    assume "submits_existing K now rq s a s1"
    then obtain r0 r where r0: "find_row binding_key ?k (db_actions s) = Some r0"
      "refreshed K now r0 s = (r, s1)" "r_request_digest r0 = request_digest K rq" "a = row_to_action r"
      by (auto simp: submits_existing_def)
    then have "r0 \<in> set (db_actions s)" "binding_key r0 = ?k" by (auto dest: find_row_SomeD)
    with refreshed_ok(2,3) [OF ok find_own [OF ok] r0(2)] r0(3,4) show ?thesis
      using identityD [of r r0] by auto
  qed
  then obtain r where r: "find_action (ra_action_id a) s1 = Some r" "binding_key r = ?k"
    "r_request_digest r = request_digest K rq" by blast
  obtain q where q: "find_action (ra_action_id a) s2 = Some q" "identity_of q = identity_of r"
    using extendsD(3) [OF later_extends [OF assms(3) r1] r(1)] by blast
  note id = identityD [OF q(2)]
  have in2: "q \<in> set (db_actions s2)" "r_action_id q = ra_action_id a"
    using q(1) by (auto dest: find_row_SomeD)
  have sub: "submit K now2 rq2 d2 s2 = (if r_request_digest q \<noteq> request_digest K rq2
    then (Inl ActionBindingError, s2)
    else (Inr (row_to_action (fst (refreshed K now2 q s2))), snd (refreshed K now2 q s2)))"
    using id r(2) assms(4-6) by (intro submit_bound [OF ok2 in2(1) _ assms(7)]) simp
  obtain q' s3 where eq: "refreshed K now2 q s2 = (q', s3)" by fastforce
  note ref = refreshed_ok(3,4) [OF ok2 find_own [OF ok2 in2(1)] eq]
  then show ?thesis
    using sub r(3) id(3) eq in2(2) identityD(1) [OF ref(1)] by (simp add: frame_def)
qed

lemma submit_is_idempotent_witness:
  "\<exists>b s3. submit demo_codec 60 (demo_request ''a2'' 5) demo_decision demo_completed = (Inr b, s3) \<and>
     ra_action_id b = ''a1''"
proof -
  have "later demo_codec 100 demo_submitted demo_completed"
    unfolding demo_completed_def demo_claimed_def demo_approved_def
    by (rule later_step [OF later_step [OF later_step [OF later_refl step_decide] step_claim] step_complete])
      (rule prod.collapse [symmetric])+
  moreover have "request_digest demo_codec (demo_request ''a2'' 5) = request_digest demo_codec (demo_request ''a1'' 5)"
    by (rule same_request_digest) (simp add: same_request_def demo_request_def)
  ultimately show ?thesis
    using submit_is_idempotent [OF reach_init demo_submit(1), of 100 demo_completed "demo_request ''a2'' 5"
        demo_decision 60]
    by (auto simp: demo_request_def demo_decision_def)
qed

section \<open>Errors\<close>

lemma claim_blockedD:
  assumes "claim_blocked K now i s e s'" "find_action i s = Some r"
  shows "(\<exists>scope reason detail. e = EmergencyPauseActive (row_to_action r) scope reason \<and>
      s' = add_receipt K i Ev_EMERGENCY_PAUSE_BLOCKED now (r_request_digest r) (Some ''runtime'') (Some detail) s) \<or>
    (reserve_limit_capacity (row_to_action r) now s = Inr (Some e, s) \<and>
      (\<exists>detail. s' = add_receipt K i Ev_LIMIT_BLOCKED now (r_request_digest r) (Some ''runtime'') (Some detail) s))"
proof -
  from assms(1) [unfolded claim_blocked_def] obtain q where q: "find_action i s = Some q"
    and d: "(\<exists>p. matching_pause (row_to_action q) (db_pauses s) = Some p \<and>
        e = EmergencyPauseActive (row_to_action q) (format_scope K (p_namespace p) (p_tool_name p)) (p_reason p) \<and>
        s' = add_receipt K i Ev_EMERGENCY_PAUSE_BLOCKED now (r_request_digest q) (Some ''runtime'')
          (Some (dumps K (JObj [(''reason'', JStr (p_reason p)),
             (''scope'', JStr (format_scope K (p_namespace p) (p_tool_name p)))]))) s) \<or>
      matching_pause (row_to_action q) (db_pauses s) = None \<and>
        reserve_limit_capacity (row_to_action q) now s = Inr (Some e, s) \<and>
        s' = add_receipt K i Ev_LIMIT_BLOCKED now (r_request_digest q) (Some ''runtime'')
          (Some (limit_block_detail K e)) s"
    by (elim exE conjE)
  have "q = r" using q assms(2) by simp
  with d show ?thesis by (elim disjE exE conjE) metis+
qed

lemma claim_blocked_errors:
  assumes ok: "store_ok K s" and res: "claim K lease now i dg s = (Inl e, s')"
  shows "s' = s \<or> (\<exists>ev detail. (ev = Ev_EMERGENCY_PAUSE_BLOCKED \<and> (\<exists>a scope reason. e = EmergencyPauseActive a scope reason) \<or>
      ev = Ev_LIMIT_BLOCKED \<and> ((\<exists>a l res u q m. e = ActionLimitExceeded a l res u q m) \<or>
        (\<exists>a l arg. e = ActionLimitValueError a l arg))) \<and>
      s' = add_receipt K i ev now dg (Some ''runtime'') (Some detail) s)"
proof (cases "claim_tx K lease now i dg s")
  case (Inl e')
  then show ?thesis using res by (simp add: claim_def)
next
  case (Inr xs)
  then obtain x where x: "claim_tx K lease now i dg s = Inr (Inl e, s')"
    using res by (cases xs) (auto simp: claim_def split: sum.splits)
  from claim_body [OF ok x] obtain r where r: "find_action i s = Some r" "r_request_digest r = dg"
    and b: "claim_blocked K now i s e s'"
    by auto
  from claim_blockedD [OF b r(1)] show ?thesis
  proof (elim disjE exE conjE)
    fix scope reason detail
    assume "e = EmergencyPauseActive (row_to_action r) scope reason"
      "s' = add_receipt K i Ev_EMERGENCY_PAUSE_BLOCKED now (r_request_digest r) (Some ''runtime'') (Some detail) s"
    then show ?thesis
      using r(2) by (intro disjI2 exI [of _ Ev_EMERGENCY_PAUSE_BLOCKED] exI [of _ detail]) simp
  next
    fix detail
    assume "reserve_limit_capacity (row_to_action r) now s = Inr (Some e, s)"
      and s': "s' = add_receipt K i Ev_LIMIT_BLOCKED now (r_request_digest r) (Some ''runtime'') (Some detail) s"
    from reserve_blocked [OF this(1)] obtain l where
      "plan_limit (row_to_action r) now (db_usage s) l = Inl e"
      by (auto dest: map_res_Inl)
    from plan_limit_InlD [OF this]
    have "(\<exists>a l res u q m. e = ActionLimitExceeded a l res u q m) \<or> (\<exists>a l arg. e = ActionLimitValueError a l arg)"
      by blast
    then show ?thesis
      using s' r(2) by (intro disjI2 exI [of _ Ev_LIMIT_BLOCKED] exI [of _ detail]) simp
  qed
qed



section \<open>The logs\<close>

text \<open>
  Both logs verify at all times: in every reachable database the hash chain of the receipts and
  the hash chain of the control receipts pass the store's own verification.
\<close>

theorem chains_always_verify:
  assumes "reachable K lease s"
  shows "verify_receipt_chain K s \<and> verify_control_receipt_chain K s"
  using reachable_ok [OF assms] by (simp add: store_ok_def core_ok_def chains_ok_def)

lemma chains_always_verify_witness: "verify_receipt_chain demo_codec demo_completed"
  using chains_always_verify [OF demo_reachable(4)] ..

text \<open>
  C9. The receipts cannot be rewritten: a database whose receipts end in the same hash as those of a
  reachable one and still verify says the same, receipt by receipt, as long as SHA-256 does not
  collide on the receipts of the two. A receipt that was changed, dropped or reordered therefore
  fails verification or changes the last hash.
\<close>

theorem receipts_tamper_evident:
  assumes "reachable K lease s" and "verify_receipt_chain K t"
    and "last_hash rc_receipt_hash (receipts None t) = last_hash rc_receipt_hash (receipts None s)"
    and "receipts_collision_free K (set (receipts None t) \<union> set (receipts None s))"
  shows "map receipt_item (receipts None t) = map receipt_item (receipts None s)"
proof (rule receipt_log.verify_unique [where K = K])
  have "verify_receipt_chain K s"
    using reachable_ok [OF assms(1)] by (simp add: store_ok_def core_ok_def chains_ok_def)
  then show "verify_links rc_previous_hash rc_receipt_hash (receipt_digest K) None (receipts None s)"
    by (simp add: verify_receipt_chain_def verify_receipts_def)
  show "verify_links rc_previous_hash rc_receipt_hash (receipt_digest K) None (receipts None t)"
    using assms(2) by (simp add: verify_receipt_chain_def verify_receipts_def)
qed (use assms in auto)

lemma demo_collision_free: "receipts_collision_free demo_codec A"
  by (auto simp: receipts_collision_free_def demo_codec_ok inj_on_def)

lemma receipts_tamper_evident_witness:
  "map receipt_item (receipts None (demo_claimed\<lparr>db_actions := []\<rparr>)) =
   map receipt_item (receipts None demo_claimed)"
proof -
  have "verify_receipt_chain demo_codec (demo_claimed\<lparr>db_actions := []\<rparr>)"
    using reachable_ok [OF demo_reachable(3)]
    by (simp add: store_ok_def core_ok_def chains_ok_def verify_receipt_chain_def receipts_def)
  from receipts_tamper_evident [OF demo_reachable(3) this _ demo_collision_free]
  show ?thesis by (simp add: receipts_def)
qed

end
