(* ===== verification/Protocol.thy ===== *)
theory Protocol
  imports Store_History
begin

text \<open>
  The \<open>RuntimeStore\<close> protocol of runtime/protocol.py as a record of operations over any state, the
  contract that its clients rely on as a locale, and the interpretation of that locale on the SQL
  store of runtime/store.py. Every operation takes the time its store's clock returns.
\<close>

section \<open>The operations\<close>

record 's store_ops =
  st_submit :: "int \<Rightarrow> runtime_request \<Rightarrow> policy_decision \<Rightarrow> 's \<Rightarrow> (runtime_error + runtime_action) \<times> 's"
  st_decide :: "int \<Rightarrow> string \<Rightarrow> decision \<Rightarrow> string \<Rightarrow> string option \<Rightarrow> 's \<Rightarrow>
    (runtime_error + runtime_action) \<times> 's"
  st_decide_authorized :: "int \<Rightarrow> string \<Rightarrow> decision \<Rightarrow> decision_authorization \<Rightarrow> string option \<Rightarrow> 's \<Rightarrow>
    (runtime_error + runtime_action) \<times> 's"
  st_set_pause :: "int \<Rightarrow> string \<Rightarrow> string \<Rightarrow> string option \<Rightarrow> string option \<Rightarrow> 's \<Rightarrow>
    (runtime_error + runtime_pause) \<times> 's"
  st_clear_pause :: "int \<Rightarrow> string \<Rightarrow> string \<Rightarrow> string option \<Rightarrow> string option \<Rightarrow> 's \<Rightarrow>
    (runtime_error + bool) \<times> 's"
  st_list_pauses :: "'s \<Rightarrow> runtime_pause list"
  st_configure_limit :: "int \<Rightarrow> string \<Rightarrow> pyfloat \<Rightarrow> string \<Rightarrow> string \<Rightarrow> string option \<Rightarrow> string option \<Rightarrow>
    int option \<Rightarrow> string option \<Rightarrow> int option \<Rightarrow> 's \<Rightarrow> (runtime_error + runtime_limit) \<times> 's"
  st_disable_limit :: "int \<Rightarrow> string \<Rightarrow> string \<Rightarrow> string \<Rightarrow> 's \<Rightarrow> (runtime_error + runtime_limit) \<times> 's"
  st_list_limits :: "'s \<Rightarrow> runtime_limit list"
  st_limit_usage :: "int \<Rightarrow> string option \<Rightarrow> 's \<Rightarrow> runtime_error + runtime_limit_usage list"
  st_control_receipts :: "'s \<Rightarrow> control_receipt list"
  st_verify_control_receipt_chain :: "'s \<Rightarrow> bool"
  st_claim :: "int \<Rightarrow> string \<Rightarrow> string \<Rightarrow> 's \<Rightarrow> (runtime_error + execution_claim) \<times> 's"
  st_complete :: "int \<Rightarrow> string \<Rightarrow> string \<Rightarrow> json \<Rightarrow> 's \<Rightarrow> (runtime_error + runtime_action) \<times> 's"
  st_mark_unknown :: "int \<Rightarrow> string \<Rightarrow> string \<Rightarrow> string \<Rightarrow> 's \<Rightarrow> (runtime_error + runtime_action) \<times> 's"
  st_reconcile :: "int \<Rightarrow> string \<Rightarrow> runtime_reconciliation \<Rightarrow> string \<Rightarrow> string \<Rightarrow> json \<Rightarrow> 's \<Rightarrow>
    (runtime_error + runtime_action) \<times> 's"
  st_get_action :: "int \<Rightarrow> string \<Rightarrow> 's \<Rightarrow> (runtime_error + runtime_action) \<times> 's"
  st_list_actions :: "int \<Rightarrow> runtime_status option \<Rightarrow> 's \<Rightarrow> (runtime_error + runtime_action list) \<times> 's"
  st_receipts :: "string option \<Rightarrow> 's \<Rightarrow> runtime_receipt list"
  st_verify_receipt_chain :: "'s \<Rightarrow> bool"

text \<open>The SQL store behind the protocol, with its codec and its lease.\<close>

definition sql_store :: "codec \<Rightarrow> int \<Rightarrow> db store_ops" where
  "sql_store K lease =
     \<lparr>st_submit = submit K, st_decide = decide K, st_decide_authorized = decide_authorized K,
      st_set_pause = set_pause K, st_clear_pause = clear_pause K, st_list_pauses = list_pauses,
      st_configure_limit = configure_limit K, st_disable_limit = disable_limit K,
      st_list_limits = list_limits, st_limit_usage = limit_usage,
      st_control_receipts = control_receipts,
      st_verify_control_receipt_chain = verify_control_receipt_chain K,
      st_claim = claim K lease, st_complete = complete K, st_mark_unknown = mark_unknown K,
      st_reconcile = reconcile K, st_get_action = get_action K, st_list_actions = list_actions K,
      st_receipts = receipts, st_verify_receipt_chain = verify_receipt_chain K\<rparr>"

lemma sql_store_simps [simp]:
  "st_submit (sql_store K lease) = submit K"
  "st_decide_authorized (sql_store K lease) = decide_authorized K"
  "st_claim (sql_store K lease) = claim K lease"
  "st_complete (sql_store K lease) = complete K"
  "st_mark_unknown (sql_store K lease) = mark_unknown K"
  "st_get_action (sql_store K lease) = get_action K"
  "st_list_actions (sql_store K lease) = list_actions K"
  "st_receipts (sql_store K lease) = receipts"
  "st_verify_receipt_chain (sql_store K lease) = verify_receipt_chain K"
  by (simp_all add: sql_store_def)

section \<open>The contract\<close>

text \<open>
  What a client may rely on, over the stored actions \<open>view\<close> of a state that satisfies \<open>inv\<close>: a
  submission returns the stored action of exactly this request; a claim starts only an approved
  action with the claimed digest and replays only a stored result; completion and report apply to
  the executing action and, with sound arguments, succeed on it; an error changes no action.
\<close>

locale store_contract =
  fixes ops :: "'s store_ops" and view :: "'s \<Rightarrow> string \<Rightarrow> runtime_action option"
    and inv :: "'s \<Rightarrow> bool" and K :: codec
  assumes submit_inv: "inv s \<Longrightarrow> st_submit ops now rq d s = (sub, s') \<Longrightarrow> inv s'"
    and claim_inv: "inv s \<Longrightarrow> st_claim ops now i dg s = (cl, s') \<Longrightarrow> inv s'"
    and complete_inv: "inv s \<Longrightarrow> st_complete ops now i dg j s = (co, s') \<Longrightarrow> inv s'"
    and unknown_inv: "inv s \<Longrightarrow> st_mark_unknown ops now i dg e s = (un, s') \<Longrightarrow> inv s'"
    and submit_law: "inv s \<Longrightarrow> st_submit ops now rq d s = (Inr a, s') \<Longrightarrow>
      view s' (ra_action_id a) = Some a \<and> ra_request_digest a = request_digest K rq"
    and claim_law: "inv s \<Longrightarrow> st_claim ops now i dg s = (Inr c, s') \<Longrightarrow> ec_outcome c = EXECUTE \<Longrightarrow>
      (\<exists>a. view s i = Some a \<and> ra_status a = APPROVED \<and> ra_request_digest a = dg) \<and>
      view s' i = Some (ec_action c) \<and> ra_status (ec_action c) = EXECUTING \<and>
      ra_request_digest (ec_action c) = dg \<and> ra_action_id (ec_action c) = i"
    and replay_law: "inv s \<Longrightarrow> st_claim ops now i dg s = (Inr c, s') \<Longrightarrow> ec_outcome c = REPLAY \<Longrightarrow>
      view s i = Some (ec_action c) \<and> ra_status (ec_action c) = SUCCEEDED \<and>
      ec_result c = ra_result (ec_action c) \<and> view s' i = view s i"
    and complete_law: "inv s \<Longrightarrow> view s i = Some a \<Longrightarrow> ra_status a = EXECUTING \<Longrightarrow>
      ra_request_digest a = dg \<Longrightarrow> json_finite j \<Longrightarrow>
      \<exists>b s'. st_complete ops now i dg j s = (Inr b, s') \<and> view s' i = Some b \<and>
        ra_status b = SUCCEEDED \<and> ra_result b = json_norm j"
    and unknown_law: "inv s \<Longrightarrow> view s i = Some a \<Longrightarrow> ra_status a = EXECUTING \<Longrightarrow>
      ra_request_digest a = dg \<Longrightarrow> \<not> blank e \<Longrightarrow>
      \<exists>b s'. st_mark_unknown ops now i dg e s = (Inr b, s') \<and> view s' i = Some b \<and>
        ra_status b = UNKNOWN \<and> ra_error b = Some e"
    and unknown_status: "inv s \<Longrightarrow> st_mark_unknown ops now i dg e s = (Inr b, s') \<Longrightarrow> ra_status b = UNKNOWN"
    and complete_error: "inv s \<Longrightarrow> st_complete ops now i dg j s = (Inl x, s') \<Longrightarrow> s' = s"
    and unknown_error: "inv s \<Longrightarrow> st_mark_unknown ops now i dg e s = (Inl x, s') \<Longrightarrow> s' = s"

section \<open>The SQL store keeps the contract\<close>

definition sql_view :: "db \<Rightarrow> string \<Rightarrow> runtime_action option" where
  "sql_view s i = map_option row_to_action (find_action i s)"

lemma submit_view:
  assumes ok: "store_ok K s" and res: "submit K now rq d s = (Inr a, s')"
  shows "\<exists>r. find_action (ra_action_id a) s' = Some r \<and> a = row_to_action r \<and>
    r_request_digest r = request_digest K rq \<and>
    binding_key r = (rq_namespace rq, rq_tool_name rq, rq_idempotency_key rq)"
  using submit_InrD(2) [OF ok res]
proof
  assume "submits_new K now rq d s a s'"
  then obtain ttl where "find_action (rq_action_id rq) s = None" "decision_ttl_ns d = Inr ttl"
    "find_row binding_key (rq_namespace rq, rq_tool_name rq, rq_idempotency_key rq) (db_actions s) = None"
    "a = row_to_action (new_row K now rq d ttl)" "s' = inserted K now rq d ttl s"
    by (auto simp: submits_new_def)
  then show ?thesis
    using inserted_ok(2) [OF ok, of rq d ttl now] by (simp add: new_row_def)
next
  assume "submits_existing K now rq s a s'"
  then obtain r0 r where r0: "find_row binding_key
      (rq_namespace rq, rq_tool_name rq, rq_idempotency_key rq) (db_actions s) = Some r0"
    "refreshed K now r0 s = (r, s')" "r_request_digest r0 = request_digest K rq" "a = row_to_action r"
    by (auto simp: submits_existing_def)
  then have "r0 \<in> set (db_actions s)"
    "binding_key r0 = (rq_namespace rq, rq_tool_name rq, rq_idempotency_key rq)"
    by (auto dest: find_row_SomeD)
  with refreshed_ok(2,3) [OF ok find_own [OF ok] r0(2)] r0(3,4) show ?thesis
    using identityD [of r r0] by auto
qed

lemma claim_sql:
  assumes ok: "store_ok K s" and res: "claim K lease now i dg s = (Inr c, s')"
  shows "if ec_outcome c = EXECUTE then
      (\<exists>r. find_action i s = Some r \<and> r_status r = APPROVED \<and> r_request_digest r = dg \<and>
         find_action i s' = Some (claimed_row now lease r) \<and>
         ec_action c = row_to_action (claimed_row now lease r))
    else \<exists>r. find_action i s = Some r \<and> r_status r = SUCCEEDED \<and> ec_action c = row_to_action r \<and>
      ec_result c = ra_result (row_to_action r) \<and> find_action i s' = Some r"
  using claim_result(1) [OF ok res refl]
proof
  assume ex: "claim_executes K lease now i s c s'"
  then have "ec_outcome c = EXECUTE" by (auto simp: claim_executes_def)
  then show ?thesis
    using claim_executes_ok(4) [OF ok ex] claim_result(2) [OF ok res refl] by fastforce
next
  assume "claim_replays K now i s c s'"
  then show ?thesis by (auto simp: claim_replays_def)
qed

lemma claimed_row_simps [simp]:
  "r_status (claimed_row now lease r) = EXECUTING"
  "r_request_digest (claimed_row now lease r) = r_request_digest r"
  "r_action_id (claimed_row now lease r) = r_action_id r"
  by (simp_all add: claimed_row_def)

interpretation sql: store_contract "sql_store K lease" sql_view "store_ok K" K for K lease
proof
  fix s now rq d a s' assume "store_ok K s" "st_submit (sql_store K lease) now rq d s = (Inr a, s')"
  from submit_view [OF this [simplified]]
  show "sql_view s' (ra_action_id a) = Some a \<and> ra_request_digest a = request_digest K rq"
    by (auto simp: sql_view_def)
next
  fix s now i dg c s' assume ok: "store_ok K s" and res: "st_claim (sql_store K lease) now i dg s = (Inr c, s')"
    and "ec_outcome c = EXECUTE"
  then show "(\<exists>a. sql_view s i = Some a \<and> ra_status a = APPROVED \<and> ra_request_digest a = dg) \<and>
      sql_view s' i = Some (ec_action c) \<and> ra_status (ec_action c) = EXECUTING \<and>
      ra_request_digest (ec_action c) = dg \<and> ra_action_id (ec_action c) = i"
    using claim_sql [OF ok res [simplified]] by (auto simp: sql_view_def dest: find_row_SomeD)
next
  fix s now i dg c s' assume ok: "store_ok K s" and res: "st_claim (sql_store K lease) now i dg s = (Inr c, s')"
    and "ec_outcome c = REPLAY"
  then show "sql_view s i = Some (ec_action c) \<and> ra_status (ec_action c) = SUCCEEDED \<and>
      ec_result c = ra_result (ec_action c) \<and> sql_view s' i = sql_view s i"
    using claim_sql [OF ok res [simplified]] by (auto simp: sql_view_def)
next
  fix s i a dg j now assume "store_ok K s" "sql_view s i = Some a" "ra_status a = EXECUTING"
    "ra_request_digest a = dg" "json_finite j"
  then show "\<exists>b s'. st_complete (sql_store K lease) now i dg j s = (Inr b, s') \<and> sql_view s' i = Some b \<and>
        ra_status b = SUCCEEDED \<and> ra_result b = json_norm j"
    using complete_succeeds [of i s _ j K now]
    by (auto simp: sql_view_def find_updated) (simp add: completed_row_def)
next
  fix s i a dg e now assume "store_ok K s" "sql_view s i = Some a" "ra_status a = EXECUTING"
    "ra_request_digest a = dg" "\<not> blank e"
  then show "\<exists>b s'. st_mark_unknown (sql_store K lease) now i dg e s = (Inr b, s') \<and> sql_view s' i = Some b \<and>
        ra_status b = UNKNOWN \<and> ra_error b = Some e"
    using mark_unknown_succeeds [of i s _ e K now]
    by (auto simp: sql_view_def find_updated) (simp add: unknown_row_def row_to_action_def)
next
  fix s now i dg e b s' assume "store_ok K s" "st_mark_unknown (sql_store K lease) now i dg e s = (Inr b, s')"
  from mark_unknown_InrD(2) [OF this [simplified]] show "ra_status b = UNKNOWN"
    by (auto simp: wrote_def)
qed (auto intro: submit_ok claim_ok(1) complete_ok mark_unknown_ok dest: complete_InlD mark_unknown_InlD)

end
