(* ===== verification/Barrier.thy ===== *)
theory Barrier
  imports Policy Protocol
begin

text \<open>
  The execution barrier of runtime/barrier.py and its guarded observation of
  runtime/observation.py: binding and canonicalising the arguments, selecting the idempotency key,
  evaluating the policy, submitting, claiming, running the operation, and recording its result or
  that its outcome is unknown. The store is any record of operations; the lemmas about it are proved
  in the contract's locale. What other workers do to the store between the calls is a parameter.
\<close>

section \<open>What surrounds an attempt\<close>

text \<open>
  How the protected function ends: with a JSON value, with a value that \<open>_validate_json\<close> refuses
  with a \<open>TypeError\<close>, or by raising an exception of the named type.
\<close>

datatype op_outcome = Op_Returned json | Op_Unsupported | Op_Raised string

datatype call_error = Runtime_Exn runtime_error | Foreign_Exn string

datatype observation =
  Obs_bind runtime_action
| Obs_finish string runtime_action
| Obs_fail call_error "runtime_action option"

record runtime_barrier =
  ba_policy :: runtime_policy
  ba_namespace :: string
  ba_organization_id :: string
  ba_requested_by :: "string option"

text \<open>\<open>RuntimeBarrier.__init__\<close>\<close>

definition make_barrier ::
  "runtime_policy \<Rightarrow> string \<Rightarrow> string \<Rightarrow> string option \<Rightarrow> runtime_error + runtime_barrier" where
  "make_barrier policy namespace organization_id requested_by =
   bind_res (require_nonempty ''namespace'' namespace) (\<lambda>_.
   bind_res (require_nonempty ''organization_id'' organization_id) (\<lambda>_.
   bind_res (case requested_by of None \<Rightarrow> Inr ()
     | Some r \<Rightarrow> if blank r then Inl (ValueError ''requested_by must not be empty when provided'')
         else Inr ()) (\<lambda>_.
   Inr \<lparr>ba_policy = policy, ba_namespace = namespace, ba_organization_id = organization_id,
     ba_requested_by = requested_by\<rparr>)))"

text \<open>
  One attempt: the generated action id, the readings of the two clocks, what the operation does to
  the state and how it ends, and what others do before the claim and before a late report.
\<close>

record 's attempt =
  at_action_id :: string
  at_created_at_ns :: int
  at_submit_ns :: int
  at_claim_ns :: int
  at_complete_ns :: int
  at_report_ns :: int
  at_before_claim :: "'s \<Rightarrow> 's"
  at_operation :: "'s \<Rightarrow> op_outcome \<times> 's"
  at_before_report :: "'s \<Rightarrow> 's"

text \<open>
  What an attempt leaves: its result or exception, the state, the state in which the operation was
  called if it was, and the calls made on the observation.
\<close>

record 's run =
  xr_result :: "call_error + json"
  xr_state :: 's
  xr_called :: "'s option"
  xr_observed :: "observation list"

section \<open>Observation\<close>

text \<open>
  \<open>_GuardedActionObservation\<close>: the observer's handler raises the named exception or returns, and the
  guard returns in both cases.
\<close>

definition guarded :: "(observation \<Rightarrow> string option) \<Rightarrow> observation \<Rightarrow> string option" where
  "guarded handler event = (case handler event of Some raised \<Rightarrow> None | None \<Rightarrow> None)"

section \<open>Preparing the request\<close>

text \<open>\<open>canonical_json\<close> and \<open>json.loads\<close> of the arguments, which must be an object.\<close>

definition detach :: "codec \<Rightarrow> (string \<times> json) list \<Rightarrow> string \<Rightarrow> runtime_error + (string \<times> json) list" where
  "detach K arguments path =
   bind_res (json_result (canonical_json K (JObj arguments) path)) (\<lambda>encoded.
   case loads K encoded of
     Some (JObj decoded) \<Rightarrow> Inr decoded
   | _ \<Rightarrow> Inl (RuntimeStoreError ''arguments did not encode as an object''))"

text \<open>\<open>_select_idempotency_key\<close>: the name of an argument, or a function of the arguments.\<close>

datatype selector = Sel_Argument string | Sel_Function "(string \<times> json) list \<Rightarrow> runtime_error + json"

definition select_idempotency_key ::
  "selector \<Rightarrow> (string \<times> json) list \<Rightarrow> runtime_error + string" where
  "select_idempotency_key sel arguments =
   bind_res (case sel of
       Sel_Argument name \<Rightarrow> (case map_of arguments name of
           None \<Rightarrow> Inl (ValueError ''idempotency argument was not bound'')
         | Some (JStr k) \<Rightarrow> Inr k
         | Some _ \<Rightarrow> Inl (TypeError ''idempotency argument must be a string''))
     | Sel_Function f \<Rightarrow> bind_res (f arguments) (\<lambda>v. case v of
           JStr k \<Rightarrow> Inr k | _ \<Rightarrow> Inl (TypeError ''idempotency selector must return a string'')))
   (\<lambda>key. if blank key then Inl (ValueError ''idempotency key must not be empty'') else Inr key)"

definition prepare_request ::
  "'s store_ops \<Rightarrow> codec \<Rightarrow> runtime_barrier \<Rightarrow> 's attempt \<Rightarrow> string \<Rightarrow> (string \<times> json) list \<Rightarrow> string \<Rightarrow>
   's \<Rightarrow> (runtime_error + (runtime_request \<times> runtime_action)) \<times> 's" where
  "prepare_request ops K b att tool_name arguments key s =
     (case
        bind_res (require_nonempty ''tool_name'' tool_name) (\<lambda>_.
        bind_res (require_nonempty ''idempotency_key'' key) (\<lambda>_.
        bind_res (detach K arguments ''arguments'') (\<lambda>normalized.
        bind_res (make_request K (at_action_id att) (ba_namespace b) tool_name normalized key
            (po_version (ba_policy b)) (at_created_at_ns att) (ba_organization_id b)
            (ba_requested_by b)) (\<lambda>rq.
        bind_res (evaluate (ba_policy b) tool_name (rq_arguments rq)) (\<lambda>d. Inr (rq, d)))))) of
        Inl e \<Rightarrow> (Inl e, s)
      | Inr (rq, d) \<Rightarrow> (case st_submit ops (at_submit_ns att) rq d s of
            (Inl e, s') \<Rightarrow> (Inl e, s')
          | (Inr a, s') \<Rightarrow> (Inr (rq, a), s')))"

section \<open>Recording the outcome\<close>

text \<open>\<open>type(error).__name__\<close>\<close>

definition exn_name :: "runtime_error \<Rightarrow> string" where
  "exn_name e = (case e of
     ValueError _ \<Rightarrow> ''ValueError'' | TypeError _ \<Rightarrow> ''TypeError'' | KeyError _ \<Rightarrow> ''KeyError''
   | OverflowError \<Rightarrow> ''OverflowError'' | IntegrityError _ \<Rightarrow> ''IntegrityError''
   | RuntimeStoreError _ \<Rightarrow> ''RuntimeStoreError'' | ActionBindingError \<Rightarrow> ''ActionBindingError''
   | InvalidActionState _ _ \<Rightarrow> ''InvalidActionState'' | ApprovalRequired _ \<Rightarrow> ''ApprovalRequired''
   | PolicyDenied _ \<Rightarrow> ''PolicyDenied'' | ApprovalRejected _ \<Rightarrow> ''ApprovalRejected''
   | ApprovalExpired _ \<Rightarrow> ''ApprovalExpired'' | ActionInProgress _ \<Rightarrow> ''ActionInProgress''
   | ActionOutcomeUnknown _ \<Rightarrow> ''ActionOutcomeUnknown''
   | ApprovalAuthorizationError _ \<Rightarrow> ''ApprovalAuthorizationError''
   | EmergencyPauseActive _ _ _ \<Rightarrow> ''EmergencyPauseActive''
   | ActionLimitExceeded _ _ _ _ _ _ \<Rightarrow> ''ActionLimitExceeded''
   | ActionLimitValueError _ _ _ \<Rightarrow> ''ActionLimitValueError'')"

text \<open>\<open>_record_unknown\<close>: when the store cannot record it, the caller still learns that it is unknown.\<close>

definition record_unknown ::
  "'s store_ops \<Rightarrow> codec \<Rightarrow> int \<Rightarrow> runtime_action \<Rightarrow> runtime_request \<Rightarrow> string \<Rightarrow> 's \<Rightarrow>
   runtime_action \<times> 's" where
  "record_unknown ops K now a rq detail s =
     (case st_mark_unknown ops now (ra_action_id a) (request_digest K rq) detail s of
        (Inr u, s') \<Rightarrow> (u, s')
      | (Inl _, s') \<Rightarrow> (a\<lparr>ra_status := UNKNOWN, ra_error := Some detail\<rparr>, s'))"

text \<open>\<open>_complete\<close>: encode the result, read it back, complete; any failure makes the outcome unknown.\<close>

definition encode_result :: "codec \<Rightarrow> op_outcome \<Rightarrow> string + json" where
  "encode_result K out = (case out of
     Op_Returned v \<Rightarrow> (case json_result (canonical_json K v ''result'') of
         Inl e \<Rightarrow> Inl (exn_name e)
       | Inr encoded \<Rightarrow> (case loads K encoded of None \<Rightarrow> Inl ''JSONDecodeError'' | Some n \<Rightarrow> Inr n))
   | _ \<Rightarrow> Inl ''TypeError'')"

definition complete_result ::
  "'s store_ops \<Rightarrow> codec \<Rightarrow> 's attempt \<Rightarrow> runtime_action \<Rightarrow> runtime_request \<Rightarrow> op_outcome \<Rightarrow> 's \<Rightarrow>
   (runtime_action + runtime_action) \<times> 's" where
  "complete_result ops K att a rq out s =
     (case (case encode_result K out of
          Inl name \<Rightarrow> (Inl name, s)
        | Inr n \<Rightarrow> (case st_complete ops (at_complete_ns att) (ra_action_id a) (request_digest K rq) n s of
              (Inl e, s') \<Rightarrow> (Inl (exn_name e), s') | (Inr done, s') \<Rightarrow> (Inr done, s'))) of
        (Inr done, s') \<Rightarrow> (Inr done, s')
      | (Inl name, s') \<Rightarrow>
          (case record_unknown ops K (at_report_ns att) a rq name (at_before_report att s') of
             (u, s'') \<Rightarrow> (Inl u, s'')))"

section \<open>Executing\<close>

text \<open>
  The body of \<open>execute\<close> inside its \<open>try\<close>: the result or exception, the action observed so far, the
  state, where the operation was called, and the observation calls.
\<close>

type_synonym 's body =
  "(call_error + json) \<times> runtime_action option \<times> 's \<times> 's option \<times> observation list"

definition observe_end ::
  "(observation \<Rightarrow> string option) \<Rightarrow> string \<Rightarrow> runtime_action \<Rightarrow> json \<Rightarrow> 's \<Rightarrow> 's option \<Rightarrow>
   observation list \<Rightarrow> 's body" where
  "observe_end handler outcome a result s called evs =
     (let ev = Obs_finish outcome a in
      (case guarded handler ev of
         Some x \<Rightarrow> (Inl (Foreign_Exn x), Some a, s, called, evs @ [ev])
       | None \<Rightarrow> (Inr result, Some a, s, called, evs @ [ev])))"

definition run_operation ::
  "'s store_ops \<Rightarrow> codec \<Rightarrow> (observation \<Rightarrow> string option) \<Rightarrow> 's attempt \<Rightarrow> runtime_request \<Rightarrow>
   runtime_action \<Rightarrow> 's \<Rightarrow> observation list \<Rightarrow> 's body" where
  "run_operation ops K handler att rq a s evs =
     (case at_operation att s of
        (Op_Raised x, s1) \<Rightarrow>
          (case record_unknown ops K (at_report_ns att) a rq x (at_before_report att s1) of
             (u, s2) \<Rightarrow> (Inl (Foreign_Exn x), Some u, s2, Some s, evs))
      | (out, s1) \<Rightarrow>
          (case complete_result ops K att a rq out s1 of
             (Inl u, s2) \<Rightarrow> (Inl (Runtime_Exn (ActionOutcomeUnknown u)), Some a, s2, Some s, evs)
           | (Inr done, s2) \<Rightarrow> observe_end handler ''succeeded'' done
               (case out of Op_Returned v \<Rightarrow> v | _ \<Rightarrow> JNull) s2 (Some s) evs))"

definition execute_body ::
  "'s store_ops \<Rightarrow> codec \<Rightarrow> (observation \<Rightarrow> string option) \<Rightarrow> runtime_barrier \<Rightarrow> 's attempt \<Rightarrow> string \<Rightarrow>
   (string \<times> json) list \<Rightarrow> string \<Rightarrow> 's \<Rightarrow> 's body" where
  "execute_body ops K handler b att tool_name arguments key s =
     (case prepare_request ops K b att tool_name arguments key s of
        (Inl e, s1) \<Rightarrow> (Inl (Runtime_Exn e), None, s1, None, [])
      | (Inr (rq, a), s1) \<Rightarrow>
          (case guarded handler (Obs_bind a) of
             Some x \<Rightarrow> (Inl (Foreign_Exn x), Some a, s1, None, [Obs_bind a])
           | None \<Rightarrow>
               (case st_claim ops (at_claim_ns att) (ra_action_id a) (request_digest K rq)
                   (at_before_claim att s1) of
                  (Inl e, s2) \<Rightarrow> (Inl (Runtime_Exn e), Some a, s2, None, [Obs_bind a])
                | (Inr c, s2) \<Rightarrow>
                    if ec_outcome c = REPLAY
                    then observe_end handler ''replayed'' (ec_action c) (ec_result c) s2 None [Obs_bind a]
                    else run_operation ops K handler att rq (ec_action c) s2 [Obs_bind a])))"

text \<open>\<open>getattr(error, "action", observed)\<close>\<close>

definition action_from_error :: "call_error \<Rightarrow> runtime_action option \<Rightarrow> runtime_action option" where
  "action_from_error e observed = (case e of
     Runtime_Exn r \<Rightarrow> (case error_action r of Some a \<Rightarrow> Some a | None \<Rightarrow> observed)
   | Foreign_Exn _ \<Rightarrow> observed)"

definition execute ::
  "'s store_ops \<Rightarrow> codec \<Rightarrow> (observation \<Rightarrow> string option) \<Rightarrow> runtime_barrier \<Rightarrow> 's attempt \<Rightarrow> string \<Rightarrow>
   (string \<times> json) list \<Rightarrow> string \<Rightarrow> 's \<Rightarrow> 's run" where
  "execute ops K handler b att tool_name arguments key s =
     (case execute_body ops K handler b att tool_name arguments key s of
        (Inr v, observed, s', called, evs) \<Rightarrow>
          \<lparr>xr_result = Inr v, xr_state = s', xr_called = called, xr_observed = evs\<rparr>
      | (Inl e, observed, s', called, evs) \<Rightarrow>
          (let ev = Obs_fail e (action_from_error e observed) in
           case guarded handler ev of
             Some x \<Rightarrow> \<lparr>xr_result = Inl (Foreign_Exn x), xr_state = s', xr_called = called,
                        xr_observed = evs @ [ev]\<rparr>
           | None \<Rightarrow> \<lparr>xr_result = Inl e, xr_state = s', xr_called = called,
                      xr_observed = evs @ [ev]\<rparr>))"

text \<open>
  \<open>execute_async\<close> has the same body with \<open>await operation()\<close>: the awaited operation runs in segments,
  after each of which the event loop runs other tasks, and ends with its outcome.
\<close>

fun awaited :: "(('s \<Rightarrow> 's) \<times> ('s \<Rightarrow> 's)) list \<Rightarrow> ('s \<Rightarrow> 'r \<times> 's) \<Rightarrow> 's \<Rightarrow> 'r \<times> 's" where
  "awaited [] last_segment s = last_segment s"
| "awaited ((segment, others) # rest) last_segment s = awaited rest last_segment (others (segment s))"

definition execute_async ::
  "'s store_ops \<Rightarrow> codec \<Rightarrow> (observation \<Rightarrow> string option) \<Rightarrow> runtime_barrier \<Rightarrow> 's attempt \<Rightarrow>
   (('s \<Rightarrow> 's) \<times> ('s \<Rightarrow> 's)) list \<Rightarrow> string \<Rightarrow> (string \<times> json) list \<Rightarrow> string \<Rightarrow> 's \<Rightarrow> 's run" where
  "execute_async ops K handler b att segments tool_name arguments key s =
     execute ops K handler b (att\<lparr>at_operation := awaited segments (at_operation att)\<rparr>) tool_name arguments key s"

text \<open>
  The wrapper that \<open>protect\<close> returns, from the arguments bound to the function's signature with its
  defaults: what fails before \<open>execute\<close> is neither observed nor stored.
\<close>

definition protected_call ::
  "'s store_ops \<Rightarrow> codec \<Rightarrow> (observation \<Rightarrow> string option) \<Rightarrow> runtime_barrier \<Rightarrow> selector \<Rightarrow> 's attempt \<Rightarrow>
   string \<Rightarrow> (string \<times> json) list \<Rightarrow> 's \<Rightarrow> 's run" where
  "protected_call ops K handler b sel att tool_name bound s =
     (case bind_res (detach K bound ''arguments'') (\<lambda>arguments.
           bind_res (select_idempotency_key sel arguments) (\<lambda>key. Inr (arguments, key))) of
        Inl e \<Rightarrow> \<lparr>xr_result = Inl (Runtime_Exn e), xr_state = s, xr_called = None, xr_observed = []\<rparr>
      | Inr (arguments, key) \<Rightarrow> execute ops K handler b att tool_name arguments key s)"

end
