(* ===== verification/Barrier_Facts.thy ===== *)
theory Barrier_Facts
  imports Barrier
begin

text \<open>
  What the barrier guarantees over any store that keeps the contract: a state in which the operation
  is called was just left by an executing claim of the submitted action, and how an undisturbed
  operation ends decides the stored status. Then the facts about preparation that only concern JSON.
\<close>

lemma guarded_None [simp]: "guarded handler event = None"
  by (simp add: guarded_def split: option.split)

lemma observe_end_eq [simp]:
  "observe_end handler outcome a result s called evs =
     (Inr result, Some a, s, called, evs @ [Obs_finish outcome a])"
  by (simp add: observe_end_def)

text \<open>The run, without the observer.\<close>

lemma execute_simp:
  "execute ops K handler b att t args key s =
     (case execute_body ops K handler b att t args key s of
        (Inr v, observed, s', called, evs) \<Rightarrow>
          \<lparr>xr_result = Inr v, xr_state = s', xr_called = called, xr_observed = evs\<rparr>
      | (Inl e, observed, s', called, evs) \<Rightarrow>
          \<lparr>xr_result = Inl e, xr_state = s', xr_called = called,
           xr_observed = evs @ [Obs_fail e (action_from_error e observed)]\<rparr>)"
  by (simp add: execute_def Let_def split: sum.split prod.split)

lemma execute_prepare_error:
  "prepare_request ops K b att t args key s = (Inl e, s1) \<Longrightarrow>
   execute ops K handler b att t args key s =
     \<lparr>xr_result = Inl (Runtime_Exn e), xr_state = s1, xr_called = None,
      xr_observed = [Obs_fail (Runtime_Exn e) (action_from_error (Runtime_Exn e) None)]\<rparr>"
  by (simp add: execute_simp execute_body_def)

lemma execute_claim_error:
  "prepare_request ops K b att t args key s = (Inr (rq, a), s1) \<Longrightarrow>
   st_claim ops (at_claim_ns att) (ra_action_id a) (request_digest K rq) (at_before_claim att s1) = (Inl e, s2) \<Longrightarrow>
   execute ops K handler b att t args key s =
     \<lparr>xr_result = Inl (Runtime_Exn e), xr_state = s2, xr_called = None,
      xr_observed = [Obs_bind a, Obs_fail (Runtime_Exn e) (action_from_error (Runtime_Exn e) (Some a))]\<rparr>"
  by (simp add: execute_simp execute_body_def)

lemma execute_replay:
  "prepare_request ops K b att t args key s = (Inr (rq, a), s1) \<Longrightarrow>
   st_claim ops (at_claim_ns att) (ra_action_id a) (request_digest K rq) (at_before_claim att s1) = (Inr c, s2) \<Longrightarrow>
   ec_outcome c = REPLAY \<Longrightarrow>
   execute ops K handler b att t args key s =
     \<lparr>xr_result = Inr (ec_result c), xr_state = s2, xr_called = None,
      xr_observed = [Obs_bind a, Obs_finish ''replayed'' (ec_action c)]\<rparr>"
  by (simp add: execute_simp execute_body_def)

lemma execute_run:
  assumes "prepare_request ops K b att t args key s = (Inr (rq, a), s1)"
    and "st_claim ops (at_claim_ns att) (ra_action_id a) (request_digest K rq) (at_before_claim att s1) = (Inr c, s2)"
    and "ec_outcome c = EXECUTE"
  shows "xr_called (execute ops K handler b att t args key s) = Some s2"
    and "at_operation att s2 = (Op_Raised x, s3) \<Longrightarrow>
      record_unknown ops K (at_report_ns att) (ec_action c) rq x (at_before_report att s3) = (u, s4) \<Longrightarrow>
      xr_result (execute ops K handler b att t args key s) = Inl (Foreign_Exn x) \<and>
      xr_state (execute ops K handler b att t args key s) = s4"
    and "at_operation att s2 = (out, s3) \<Longrightarrow> (\<And>x. out \<noteq> Op_Raised x) \<Longrightarrow>
      complete_result ops K att (ec_action c) rq out s3 = (Inl u, s4) \<Longrightarrow>
      xr_result (execute ops K handler b att t args key s) = Inl (Runtime_Exn (ActionOutcomeUnknown u)) \<and>
      xr_state (execute ops K handler b att t args key s) = s4"
    and "at_operation att s2 = (Op_Returned v, s3) \<Longrightarrow>
      complete_result ops K att (ec_action c) rq (Op_Returned v) s3 = (Inr u, s4) \<Longrightarrow>
      xr_result (execute ops K handler b att t args key s) = Inr v \<and>
      xr_state (execute ops K handler b att t args key s) = s4"
proof -
  have body: "execute_body ops K handler b att t args key s =
      run_operation ops K handler att rq (ec_action c) s2 [Obs_bind a]"
    using assms by (simp add: execute_body_def)
  show "xr_called (execute ops K handler b att t args key s) = Some s2"
    by (simp add: execute_simp body run_operation_def split: op_outcome.split prod.split sum.split)
  show "at_operation att s2 = (Op_Raised x, s3) \<Longrightarrow>
      record_unknown ops K (at_report_ns att) (ec_action c) rq x (at_before_report att s3) = (u, s4) \<Longrightarrow>
      xr_result (execute ops K handler b att t args key s) = Inl (Foreign_Exn x) \<and>
      xr_state (execute ops K handler b att t args key s) = s4"
    by (simp add: execute_simp body run_operation_def)
  show "at_operation att s2 = (out, s3) \<Longrightarrow> (\<And>x. out \<noteq> Op_Raised x) \<Longrightarrow>
      complete_result ops K att (ec_action c) rq out s3 = (Inl u, s4) \<Longrightarrow>
      xr_result (execute ops K handler b att t args key s) = Inl (Runtime_Exn (ActionOutcomeUnknown u)) \<and>
      xr_state (execute ops K handler b att t args key s) = s4"
    by (cases out) (auto simp add: execute_simp body run_operation_def)
  show "at_operation att s2 = (Op_Returned v, s3) \<Longrightarrow>
      complete_result ops K att (ec_action c) rq (Op_Returned v) s3 = (Inr u, s4) \<Longrightarrow>
      xr_result (execute ops K handler b att t args key s) = Inr v \<and>
      xr_state (execute ops K handler b att t args key s) = s4"
    by (simp add: execute_simp body run_operation_def)
qed

text \<open>How an attempt can go.\<close>

lemma execute_cases:
  obtains (prepare) e s1 where "prepare_request ops K b att t args key s = (Inl e, s1)"
  | (refused) rq a s1 e s2 where "prepare_request ops K b att t args key s = (Inr (rq, a), s1)"
      "st_claim ops (at_claim_ns att) (ra_action_id a) (request_digest K rq) (at_before_claim att s1) = (Inl e, s2)"
  | (replay) rq a s1 c s2 where "prepare_request ops K b att t args key s = (Inr (rq, a), s1)"
      "st_claim ops (at_claim_ns att) (ra_action_id a) (request_digest K rq) (at_before_claim att s1) = (Inr c, s2)"
      "ec_outcome c = REPLAY"
  | (runs) rq a s1 c s2 where "prepare_request ops K b att t args key s = (Inr (rq, a), s1)"
      "st_claim ops (at_claim_ns att) (ra_action_id a) (request_digest K rq) (at_before_claim att s1) = (Inr c, s2)"
      "ec_outcome c = EXECUTE"
proof (cases "prepare_request ops K b att t args key s")
  case (Pair r s1)
  show thesis
  proof (cases r)
    case (Inl e)
    then show thesis using Pair by (intro that(1)) simp
  next
    case (Inr x)
    obtain rq a where x: "x = (rq, a)" by (cases x)
    obtain cr s2 where c: "st_claim ops (at_claim_ns att) (ra_action_id a) (request_digest K rq)
        (at_before_claim att s1) = (cr, s2)" by fastforce
    show thesis
    proof (cases cr)
      case (Inl e)
      then show thesis using Pair Inr x c by (intro that(2)) simp_all
    next
      case (Inr c')
      then show thesis
        using Pair \<open>r = Inr x\<close> x c that(3,4) by (cases "ec_outcome c'") auto
    qed
  qed
qed

section \<open>Over the contract\<close>

context store_contract
begin

lemma prepare_inv:
  assumes "inv s" "prepare_request ops K b att t args key s = (r, s')"
  shows "inv s'" "r = Inr (rq, a) \<Longrightarrow> view s' (ra_action_id a) = Some a \<and>
    ra_request_digest a = request_digest K rq"
proof -
  have "inv s' \<and> (\<forall>rq a. r = Inr (rq, a) \<longrightarrow> view s' (ra_action_id a) = Some a \<and>
      ra_request_digest a = request_digest K rq)"
    using assms submit_inv [OF assms(1)] submit_law [OF assms(1)]
    by (auto simp: prepare_request_def split: sum.splits prod.splits)
  then show "inv s'" "r = Inr (rq, a) \<Longrightarrow> view s' (ra_action_id a) = Some a \<and>
    ra_request_digest a = request_digest K rq" by auto
qed

lemma record_unknown_ok:
  assumes "inv s" "record_unknown ops K now a rq detail s = (u, s')"
  shows "inv s'" "ra_status u = UNKNOWN"
    "view s (ra_action_id a) = Some a \<Longrightarrow> ra_status a = EXECUTING \<Longrightarrow>
     ra_request_digest a = request_digest K rq \<Longrightarrow> \<not> blank detail \<Longrightarrow>
     view s' (ra_action_id a) = Some u \<and> ra_error u = Some detail"
proof -
  show "inv s'"
    using assms unknown_inv [OF assms(1)] by (auto simp: record_unknown_def split: sum.splits prod.splits)
  show "ra_status u = UNKNOWN"
    using assms unknown_status [OF assms(1)] by (auto simp: record_unknown_def split: sum.splits prod.splits)
  assume "view s (ra_action_id a) = Some a" "ra_status a = EXECUTING"
    "ra_request_digest a = request_digest K rq" "\<not> blank detail"
  then show "view s' (ra_action_id a) = Some u \<and> ra_error u = Some detail"
    using assms(2) unknown_law [OF assms(1), of "ra_action_id a" a "request_digest K rq" detail now]
    by (auto simp: record_unknown_def)
qed

text \<open>The state in which the operation is called is the one an executing claim has just left.\<close>

lemma called_under_claim:
  assumes "inv s" "\<And>x. inv x \<Longrightarrow> inv (at_before_claim att x)"
    and called: "xr_called (execute ops K handler b att t args key s) = Some s2"
  obtains rq a s1 c where "prepare_request ops K b att t args key s = (Inr (rq, a), s1)" "inv s1"
    "inv (at_before_claim att s1)" "inv s2"
    "st_claim ops (at_claim_ns att) (ra_action_id a) (request_digest K rq) (at_before_claim att s1) = (Inr c, s2)"
    "ec_outcome c = EXECUTE"
    "view s2 (ra_action_id a) = Some (ec_action c)" "ra_status (ec_action c) = EXECUTING"
    "ra_request_digest (ec_action c) = request_digest K rq" "ra_action_id (ec_action c) = ra_action_id a"
proof (rule execute_cases [of ops K b att t args key s])
  fix rq a s1 c s2'
  assume r: "prepare_request ops K b att t args key s = (Inr (rq, a), s1)"
    "st_claim ops (at_claim_ns att) (ra_action_id a) (request_digest K rq) (at_before_claim att s1) = (Inr c, s2')"
    "ec_outcome c = EXECUTE"
  then have s2: "s2' = s2" using called execute_run(1) [OF r, of handler] by simp
  note i1 = prepare_inv(1) [OF assms(1) r(1)]
  note i2 = assms(2) [OF i1]
  show thesis
    using claim_law [OF i2 r(2,3)]
    by (intro that [OF r(1) i1 i2 claim_inv [OF i2 r(2)[unfolded s2]] r(2)[unfolded s2] r(3)]) (simp_all add: s2)
qed (use called in \<open>simp_all add: execute_prepare_error execute_claim_error execute_replay\<close>)

text \<open>An operation that leaves its own action alone decides the outcome.\<close>

lemma complete_result_ok:
  assumes "inv s" "view s (ra_action_id a) = Some a" "ra_status a = EXECUTING"
    "ra_request_digest a = request_digest K rq" "encode_result K out = Inr n" "json_finite n"
  obtains u s' where "complete_result ops K att a rq out s = (Inr u, s')"
    "view s' (ra_action_id a) = Some u" "ra_status u = SUCCEEDED" "ra_result u = json_norm n"
  using complete_law [OF assms(1-4,6), of "at_complete_ns att"] assms(5)
  by (auto simp: complete_result_def)

lemma complete_result_fails:
  assumes "inv s" "complete_result ops K att a rq out s = (Inl u, s')"
    and "\<And>x. inv x \<Longrightarrow> inv (at_before_report att x)"
  shows "inv s'" "ra_status u = UNKNOWN"
proof -
  have "\<exists>name. record_unknown ops K (at_report_ns att) a rq name (at_before_report att s) = (u, s')"
  proof (cases "encode_result K out")
    case (Inl name)
    then show ?thesis
      using assms(2) by (auto simp: complete_result_def split: prod.splits)
  next
    case (Inr n)
    obtain r s1 where r: "st_complete ops (at_complete_ns att) (ra_action_id a) (request_digest K rq) n s = (r, s1)"
      by fastforce
    then obtain e where e: "r = Inl e"
      using assms(2) Inr by (cases r) (auto simp: complete_result_def)
    then have "s1 = s" using r complete_error [OF assms(1)] by auto
    with r e Inr show ?thesis
      using assms(2) by (auto simp: complete_result_def split: prod.splits)
  qed
  then obtain name s1 where s1: "inv s1" "record_unknown ops K (at_report_ns att) a rq name (at_before_report att s1) = (u, s')"
    using assms(1) by blast
  with record_unknown_ok(1,2) [OF assms(3) [OF s1(1)] s1(2)] show "inv s'" "ra_status u = UNKNOWN" by auto
qed

end

section \<open>Preparation\<close>

text \<open>The request that an attempt submits.\<close>

definition barrier_request ::
  "runtime_barrier \<Rightarrow> 's attempt \<Rightarrow> string \<Rightarrow> (string \<times> json) list \<Rightarrow> string \<Rightarrow> runtime_request" where
  "barrier_request b att t args key =
     \<lparr>rq_action_id = at_action_id att, rq_namespace = ba_namespace b, rq_tool_name = t,
      rq_idempotency_key = key, rq_policy_version = po_version (ba_policy b),
      rq_created_at_ns = at_created_at_ns att, rq_organization_id = ba_organization_id b,
      rq_requested_by = ba_requested_by b, rq_arguments = json_norm (JObj args)\<rparr>"

lemma barrier_request_simps [simp]:
  "rq_namespace (barrier_request b att t args key) = ba_namespace b"
  "rq_tool_name (barrier_request b att t args key) = t"
  "rq_idempotency_key (barrier_request b att t args key) = key"
  "rq_policy_version (barrier_request b att t args key) = po_version (ba_policy b)"
  "rq_action_id (barrier_request b att t args key) = at_action_id att"
  "rq_arguments (barrier_request b att t args key) = json_norm (JObj args)"
  by (simp_all add: barrier_request_def)

lemma barrier_digest: "request_digest K (barrier_request b att t args key) =
    request_digest K (barrier_request b att' t args key)"
  by (rule same_request_digest) (simp add: same_request_def barrier_request_def)

lemma detach_eq:
  assumes "codec_ok K" "json_wf (JObj args)" "json_finite (JObj args)"
  obtains d where "detach K args path = Inr d" "JObj d = json_norm (JObj args)"
proof -
  obtain d where d: "json_norm (JObj args) = JObj d" by simp
  have "canonical_json K (JObj args) path = Inr (dumps K (JObj args))"
    using assms(3) by (simp only: canonical_json_Inr_iff)
  then have "detach K args path = Inr d"
    using loads_dumps [OF assms(1,3,2)] by (simp add: detach_def json_result_def d del: json_norm.simps)
  with that d show thesis by simp
qed

lemma detach_finite: "detach K args path = Inr d \<Longrightarrow> json_finite (JObj args)"
  by (auto simp only: detach_def result_simps canonical_json_Inr_iff)

lemma prepare_InrD:
  assumes "codec_ok K" "json_wf (JObj args)"
    and prep: "prepare_request ops K b att t args key s = (Inr (rq, a), s1)"
  shows "rq = barrier_request b att t args key" "request_ok rq" "json_finite (JObj args)"
    "\<exists>d. evaluate (ba_policy b) t (json_norm (JObj args)) = Inr d \<and>
       st_submit ops (at_submit_ns att) rq d s = (Inr a, s1)"
proof -
  obtain n d where n: "detach K args ''arguments'' = Inr n"
    and rq: "make_request K (at_action_id att) (ba_namespace b) t n key
            (po_version (ba_policy b)) (at_created_at_ns att) (ba_organization_id b)
            (ba_requested_by b) = Inr rq"
    and d: "evaluate (ba_policy b) t (rq_arguments rq) = Inr d"
      "st_submit ops (at_submit_ns att) rq d s = (Inr a, s1)"
    using prep by (auto simp: prepare_request_def result_simps split: sum.splits prod.splits)
  show fin: "json_finite (JObj args)" by (rule detach_finite [OF n])
  have n': "JObj n = json_norm (JObj args)"
    using detach_eq [OF assms(1,2) fin, of "''arguments''"] n by auto
  note mk = make_request_InrD [OF rq]
  show req: "rq = barrier_request b att t args key"
    unfolding mk(1) n' by (simp add: barrier_request_def json_norm_idem del: json_norm.simps)
  show "request_ok rq" by (rule mk(2))
  show "\<exists>d. evaluate (ba_policy b) t (json_norm (JObj args)) = Inr d \<and>
       st_submit ops (at_submit_ns att) rq d s = (Inr a, s1)"
    using d by (auto simp only: req barrier_request_simps)
qed

lemma prepare_total:
  assumes "codec_ok K" "json_wf (JObj args)" "request_ok (barrier_request b att t args key)"
    and "evaluate (ba_policy b) t (json_norm (JObj args)) = Inr d"
  shows "prepare_request ops K b att t args key s =
    (case st_submit ops (at_submit_ns att) (barrier_request b att t args key) d s of
       (Inl e, s') \<Rightarrow> (Inl e, s') | (Inr a, s') \<Rightarrow> (Inr (barrier_request b att t args key, a), s'))"
proof -
  let ?rq = "barrier_request b att t args key"
  have ok: "\<not> blank (at_action_id att)" "\<not> blank (ba_namespace b)" "\<not> blank t" "\<not> blank key"
    "\<not> blank (po_version (ba_policy b))" "0 \<le> at_created_at_ns att"
    "identity_ok 128 (ba_organization_id b)" "\<And>u. ba_requested_by b = Some u \<Longrightarrow> identity_ok 128 u"
    and fin: "json_finite (json_norm (JObj args))"
    using assms(3) unfolding request_ok_def by (simp_all add: barrier_request_def del: json_norm.simps)
  have fin': "json_finite (JObj args)" using fin unfolding json_norm_finite .
  obtain n where n: "detach K args ''arguments'' = Inr n" "JObj n = json_norm (JObj args)"
    by (rule detach_eq [OF assms(1,2) fin'])
  obtain rq where rq: "make_request K (at_action_id att) (ba_namespace b) t n key
            (po_version (ba_policy b)) (at_created_at_ns att) (ba_organization_id b)
            (ba_requested_by b) = Inr rq"
    using make_request_total [OF ok, where args = n and K = K] fin
    unfolding n(2) by blast
  have "rq = ?rq"
    unfolding make_request_InrD(1) [OF rq] n(2) by (simp add: barrier_request_def json_norm_idem del: json_norm.simps)
  then show ?thesis
    using n rq ok assms(4)
    by (simp add: prepare_request_def require_nonempty_def del: json_norm.simps)
qed

lemma request_ok_again:
  "request_ok (barrier_request b att t args key) \<Longrightarrow> \<not> blank (at_action_id att') \<Longrightarrow>
   0 \<le> at_created_at_ns att' \<Longrightarrow> request_ok (barrier_request b att' t args key)"
  by (simp add: request_ok_def barrier_request_def del: json_norm.simps)

lemma encode_result_eq:
  assumes "codec_ok K" "json_wf v"
  shows "encode_result K (Op_Returned v) = (if json_finite v then Inr (json_norm v) else Inl ''ValueError'')"
proof (cases "json_finite v")
  case True
  then have "canonical_json K v ''result'' = Inr (dumps K v)" by (simp add: canonical_json_Inr_iff)
  with True show ?thesis
    using loads_dumps [OF assms(1) True assms(2)] by (simp add: encode_result_def json_result_def)
next
  case False
  then obtain e where "canonical_json K v ''result'' = Inl e"
    by (cases "canonical_json K v ''result''") (auto simp: canonical_json_Inr_iff)
  with False show ?thesis
    by (cases e) (simp add: encode_result_def json_result_def exn_name_def)
qed

end
