(* ===== verification/Barrier_Props.thy ===== *)
theory Barrier_Props
  imports Barrier_Facts Outcome_Props
begin

text \<open>
  The properties of the execution barrier over the SQL store: policy, store and barrier together.
  Between its calls any other worker may make any calls on the store.
\<close>

section \<open>What an attempt leaves behind\<close>

lemma prepare_reachable:
  assumes r: "reachable K lease s"
    and prep: "prepare_request (sql_store K lease) K b att t args key s = (Inr (rq, a), s1)"
    and wf: "codec_ok K" "json_wf (JObj args)"
  shows "reachable K lease s1"
    "\<exists>r. find_action (ra_action_id a) s1 = Some r \<and> a = row_to_action r \<and>
       r_request_digest r = request_digest K rq \<and>
       binding_key r = (ba_namespace b, t, key)"
proof -
  obtain d where d: "submit K (at_submit_ns att) rq d s = (Inr a, s1)"
    using prepare_InrD(4) [OF wf prep] by auto
  show "reachable K lease s1" by (rule reach_step [OF r step_submit [OF d]])
  show "\<exists>r. find_action (ra_action_id a) s1 = Some r \<and> a = row_to_action r \<and>
       r_request_digest r = request_digest K rq \<and>
       binding_key r = (ba_namespace b, t, key)"
    using submit_view [OF reachable_ok [OF r] d] by (simp add: prepare_InrD(1) [OF wf prep])
qed

text \<open>The claim behind a call of the operation: the action, the claim, the states and the claimed row.\<close>

definition claimed_run ::
  "codec \<Rightarrow> int \<Rightarrow> runtime_barrier \<Rightarrow> db attempt \<Rightarrow> string \<Rightarrow> (string \<times> json) list \<Rightarrow> string \<Rightarrow> db \<Rightarrow> db \<Rightarrow>
   runtime_action \<Rightarrow> execution_claim \<Rightarrow> db \<Rightarrow> action_row \<Rightarrow> bool" where
  "claimed_run K lease b att t args key s s2 a c s1 row \<longleftrightarrow>
    prepare_request (sql_store K lease) K b att t args key s = (Inr (barrier_request b att t args key, a), s1) \<and>
    reachable K lease (at_before_claim att s1) \<and> reachable K lease s2 \<and>
    st_claim (sql_store K lease) (at_claim_ns att) (ra_action_id a)
      (request_digest K (barrier_request b att t args key)) (at_before_claim att s1) = (Inr c, s2) \<and>
    ec_outcome c = EXECUTE \<and>
    find_action (ra_action_id a) (at_before_claim att s1) = Some row \<and> r_status row = APPROVED \<and>
    r_request_digest row = request_digest K (barrier_request b att t args key) \<and>
    binding_key row = (ba_namespace b, t, key) \<and>
    find_action (ra_action_id a) s2 = Some (claimed_row (at_claim_ns att) lease row) \<and>
    ec_action c = row_to_action (claimed_row (at_claim_ns att) lease row)"

lemma called_facts:
  assumes r: "reachable K lease s" and env: "\<And>x. later K lease x (at_before_claim att x)"
    and wf: "codec_ok K" "json_wf (JObj args)"
    and called: "xr_called (execute (sql_store K lease) K handler b att t args key s) = Some s2"
  obtains a c s1 row where "claimed_run K lease b att t args key s s2 a c s1 row"
proof (rule execute_cases [of "sql_store K lease" K b att t args key s])
  let ?rq = "barrier_request b att t args key"
  fix rq a s1 c s2'
  assume run: "prepare_request (sql_store K lease) K b att t args key s = (Inr (rq, a), s1)"
    "st_claim (sql_store K lease) (at_claim_ns att) (ra_action_id a) (request_digest K rq) (at_before_claim att s1) = (Inr c, s2')"
    "ec_outcome c = EXECUTE"
  have s2: "s2' = s2" using called execute_run(1) [OF run, of handler] by simp
  have rq: "rq = ?rq" by (rule prepare_InrD(1) [OF wf run(1)])
  note p = prepare_reachable [OF r run(1) wf]
  have rc: "reachable K lease (at_before_claim att s1)" by (rule later_reachable [OF env p(1)])
  have cl: "claim K lease (at_claim_ns att) (ra_action_id a) (request_digest K ?rq)
       (at_before_claim att s1) = (Inr c, s2)"
    using run(2) by (simp add: s2 rq)
  have r2: "reachable K lease s2" by (rule reach_step [OF rc step_claim [OF cl]])
  obtain row where row: "find_action (ra_action_id a) (at_before_claim att s1) = Some row"
    "r_status row = APPROVED" "r_request_digest row = request_digest K ?rq"
    "find_action (ra_action_id a) s2 = Some (claimed_row (at_claim_ns att) lease row)"
    "ec_action c = row_to_action (claimed_row (at_claim_ns att) lease row)"
    using claim_sql [OF reachable_ok [OF rc] cl] run(3) by auto
  obtain r1 where r1: "find_action (ra_action_id a) s1 = Some r1" "binding_key r1 = (ba_namespace b, t, key)"
    using p(2) by blast
  obtain row' where "find_action (ra_action_id a) (at_before_claim att s1) = Some row'"
    "identity_of row' = identity_of r1"
    using extendsD(3) [OF later_extends [OF env p(1)] r1(1)] by blast
  then have key: "binding_key row = (ba_namespace b, t, key)"
    using row(1) r1(2) identityD [of row' r1] by simp
  show thesis
    using run(1,3) rc r2 cl row key by (intro that [of a c s1 row]) (simp add: claimed_run_def rq)
qed (use called in \<open>simp_all add: execute_prepare_error execute_claim_error execute_replay\<close>)

section \<open>The operation runs only under a claim\<close>

text \<open>What the claimed row and its log say.\<close>

lemma claimed_run_action:
  assumes "claimed_run K lease b att t args key s s2 a c s1 row"
  shows "\<exists>i r. find_action i s2 = Some r \<and> r_status r = EXECUTING \<and>
    r_execution_lease_expires_at_ns r = Some (at_claim_ns att + lease) \<and>
    (r_namespace r, r_tool_name r, r_idempotency_key r) = (ba_namespace b, t, key) \<and>
    r_request_digest r = request_digest K (barrier_request b att t args key) \<and>
    r_policy_effect r \<noteq> DENY \<and>
    (r_policy_effect r = REQUIRE_APPROVAL \<longrightarrow> Ev_APPROVED \<in> set (map rc_event (receipts (Some i) s2)))"
proof -
  from assms have run: "reachable K lease (at_before_claim att s1)" "reachable K lease s2"
    "find_action (ra_action_id a) (at_before_claim att s1) = Some row" "r_status row = APPROVED"
    "r_request_digest row = request_digest K (barrier_request b att t args key)"
    "binding_key row = (ba_namespace b, t, key)"
    "find_action (ra_action_id a) s2 = Some (claimed_row (at_claim_ns att) lease row)"
    by (simp_all add: claimed_run_def)
  let ?r = "claimed_row (at_claim_ns att) lease row"
  note row2 = reachable_row [OF run(2,7)]
  have "r_policy_effect ?r \<noteq> DENY"
    using row2(3) by (simp add: row_ok_def)
  moreover have "Ev_APPROVED \<in> set (events_of (ra_action_id a) s2)" if "r_policy_effect ?r = REQUIRE_APPROVAL"
  proof -
    have log: "life_log REQUIRE_APPROVAL (events_of (ra_action_id a) s2) = Some EXECUTING"
      using row2(4) that by simp
    have "0 < count_ev Ev_APPROVED (events_of (ra_action_id a) s2)"
      using life_log_approved [OF log] life_log_started [OF log] by (simp add: started_def)
    then show ?thesis by (auto simp: count_ev_def filter_empty_conv)
  qed
  ultimately show ?thesis
    using run(5-7) by (intro exI [of _ "ra_action_id a"] exI [of _ ?r])
      (simp add: events_of_def, simp add: claimed_row_def)
qed


section \<open>Policy denial\<close>

text \<open>
  A tool call that the policy denies never runs: when no action is bound to its key yet, the
  attempt ends in an exception without calling the protected function, whatever others do meanwhile.
\<close>

theorem denied_call_never_runs:
  assumes "reachable K lease s" and "\<And>x. later K lease x (at_before_claim att x)"
    and "codec_ok K" and "json_wf (JObj args)"
    and "evaluate (ba_policy b) t (json_norm (JObj args)) = Inr d" and "pd_effect d = DENY"
    and "find_row binding_key (ba_namespace b, t, key) (db_actions s) = None"
  shows "xr_called (execute (sql_store K lease) K handler b att t args key s) = None"
proof (rule ccontr)
  assume "xr_called (execute (sql_store K lease) K handler b att t args key s) \<noteq> None"
  then obtain s2 where called: "xr_called (execute (sql_store K lease) K handler b att t args key s) = Some s2"
    by auto
  obtain a c s1 row where cr: "claimed_run K lease b att t args key s s2 a c s1 row"
    by (rule called_facts [OF assms(1-4) called])
  then have run:
    "prepare_request (sql_store K lease) K b att t args key s = (Inr (barrier_request b att t args key, a), s1)"
    "find_action (ra_action_id a) (at_before_claim att s1) = Some row" "r_status row = APPROVED"
    by (simp_all add: claimed_run_def)
  have sub: "submit K (at_submit_ns att) (barrier_request b att t args key) d s = (Inr a, s1)"
    using prepare_InrD(4) [OF assms(3,4) run(1)] assms(5) by auto
  have ok: "store_ok K s" using assms(1) by (rule reachable_ok)
  have "submits_new K (at_submit_ns att) (barrier_request b att t args key) d s a s1"
    using submit_InrD(2) [OF ok sub] assms(7) by (auto simp: submits_existing_def)
  then obtain ttl where new: "find_action (at_action_id att) s = None" "decision_ttl_ns d = Inr ttl"
    "a = row_to_action (new_row K (at_submit_ns att) (barrier_request b att t args key) d ttl)"
    "s1 = inserted K (at_submit_ns att) (barrier_request b att t args key) d ttl s"
    by (auto simp: submits_new_def)
  let ?row = "new_row K (at_submit_ns att) (barrier_request b att t args key) d ttl"
  have row1: "find_action (ra_action_id a) s1 = Some ?row"
    using inserted_ok(2) [OF ok _ _ new(2), of "barrier_request b att t args key" "at_submit_ns att"] new assms(7)
    by simp
  have "final_status (r_status ?row)"
    using assms(6) by (simp add: initial_status_def final_status_def)
  moreover have "reachable K lease s1" by (rule reach_step [OF assms(1) step_submit [OF sub]])
  ultimately have "find_action (ra_action_id a) (at_before_claim att s1) = Some ?row"
    using extendsD(3) [OF later_extends [OF assms(2)] row1] by metis
  then show False
    using run(2,3) assms(6) by (simp add: initial_status_def)
qed

section \<open>Repeating a call\<close>

lemma bound_again:
  assumes r: "reachable K lease s" and row: "find_action i s = Some r"
    and key: "binding_key r = (ba_namespace b, t, key)"
    and dg: "r_request_digest r = request_digest K (barrier_request b att t args key)"
    and rq: "request_ok (barrier_request b att t args key)" and wf: "codec_ok K" "json_wf (JObj args)"
    and ev: "evaluate (ba_policy b) t (json_norm (JObj args)) = Inr d" "pd_policy_version d = po_version (ba_policy b)"
    and stay: "r_status r \<notin> {PENDING, APPROVED, EXECUTING}"
  shows "prepare_request (sql_store K lease) K b att t args key s =
    (Inr (barrier_request b att t args key, row_to_action r), s)"
proof -
  have id: "r \<in> set (db_actions s)" "r_action_id r = i" using row by (auto dest: find_row_SomeD)
  have "refreshed K (at_submit_ns att) r s = (r, s)"
    using stay by (auto simp: refreshed_def expiring_def abandoned_def)
  then have "submit K (at_submit_ns att) (barrier_request b att t args key) d s = (Inr (row_to_action r), s)"
    using submit_bound [OF reachable_ok [OF r] id(1), of "barrier_request b att t args key" d "at_submit_ns att"]
      key dg ev(2) by simp
  then show ?thesis
    by (simp add: prepare_total [OF wf rq ev(1)])
qed

lemma prepared_decision:
  assumes wf: "codec_ok K" "json_wf (JObj args)"
    and prep: "prepare_request (sql_store K lease) K b att t args key s = (Inr (rq, a), s1)"
  obtains d where "evaluate (ba_policy b) t (json_norm (JObj args)) = Inr d"
    "pd_policy_version d = po_version (ba_policy b)" "request_ok (barrier_request b att t args key)"
proof -
  obtain d where d: "evaluate (ba_policy b) t (json_norm (JObj args)) = Inr d"
    "submit K (at_submit_ns att) rq d s = (Inr a, s1)"
    using prepare_InrD(4) [OF wf prep] by auto
  have "pd_policy_version d = rq_policy_version rq"
    using d(2) by (auto simp: submit_def split: if_splits)
  with that d(1) prepare_InrD(1,2) [OF wf prep] show thesis by simp
qed

text \<open>An attempt that ran the operation and returned a value has completed its action with it.\<close>

lemma returned_value:
  assumes run: "prepare_request (sql_store K lease) K b att t args key s = (Inr (rq, a), s1)"
      "st_claim (sql_store K lease) (at_claim_ns att) (ra_action_id a) (request_digest K rq) (at_before_claim att s1) = (Inr c, s2)"
      "ec_outcome c = EXECUTE"
    and res: "xr_result (execute (sql_store K lease) K h b att t args key s) = Inr v"
  obtains u s3 where "at_operation att s2 = (Op_Returned v, s3)"
    "complete_result (sql_store K lease) K att (ec_action c) rq (Op_Returned v) s3 =
      (Inr u, xr_state (execute (sql_store K lease) K h b att t args key s))"
proof -
  note er = execute_run [OF run, where handler = h]
  obtain out s3 where op: "at_operation att s2 = (out, s3)" by fastforce
  show thesis
  proof (cases out)
    case (Op_Raised x)
    obtain u s4 where "record_unknown (sql_store K lease) K (at_report_ns att) (ec_action c) rq x
        (at_before_report att s3) = (u, s4)" by fastforce
    with er(2) [of x s3 u s4] op Op_Raised res show thesis by simp
  next
    case Op_Unsupported
    obtain r s4 where c: "complete_result (sql_store K lease) K att (ec_action c) rq out s3 = (r, s4)" by fastforce
    then obtain u where "r = Inl u"
      using Op_Unsupported by (auto simp: complete_result_def encode_result_def split: prod.splits)
    with er(3) [OF op] c Op_Unsupported res show thesis by simp
  next
    case (Op_Returned w)
    obtain r s4 where c: "complete_result (sql_store K lease) K att (ec_action c) rq out s3 = (r, s4)" by fastforce
    show thesis
    proof (cases r)
      case (Inl u)
      with er(3) [OF op] c Op_Returned res show thesis by simp
    next
      case (Inr u)
      with er(4) [of w s3 u s4] op c Op_Returned res that [of s3 u] show thesis by auto
    qed
  qed
qed

lemma returned_leaves:
  assumes "reachable K lease s" and "\<And>x. later K lease x (at_before_claim att x)"
    and op: "\<And>x. later K lease x (snd (at_operation att x))"
    and wf: "codec_ok K" "json_wf (JObj args)" "json_wf v"
    and called: "xr_called (execute (sql_store K lease) K h b att t args key s) \<noteq> None"
    and res: "xr_result (execute (sql_store K lease) K h b att t args key s) = Inr v"
  obtains i r d where "reachable K lease (xr_state (execute (sql_store K lease) K h b att t args key s))"
    "find_action i (xr_state (execute (sql_store K lease) K h b att t args key s)) = Some r"
    "r_status r = SUCCEEDED" "r_result r = Some (json_norm v)" "binding_key r = (ba_namespace b, t, key)"
    "r_request_digest r = request_digest K (barrier_request b att t args key)"
    "evaluate (ba_policy b) t (json_norm (JObj args)) = Inr d"
    "pd_policy_version d = po_version (ba_policy b)" "request_ok (barrier_request b att t args key)"
proof -
  let ?rq = "barrier_request b att t args key"
  let ?s4 = "xr_state (execute (sql_store K lease) K h b att t args key s)"
  obtain s2 where s2: "xr_called (execute (sql_store K lease) K h b att t args key s) = Some s2"
    using called by blast
  obtain a c s1 row where cr: "claimed_run K lease b att t args key s s2 a c s1 row"
    by (rule called_facts [OF assms(1,2) wf(1,2) s2])
  then have run:
    "prepare_request (sql_store K lease) K b att t args key s = (Inr (?rq, a), s1)"
    "st_claim (sql_store K lease) (at_claim_ns att) (ra_action_id a) (request_digest K ?rq) (at_before_claim att s1) = (Inr c, s2)"
    "ec_outcome c = EXECUTE" and r2: "reachable K lease s2"
    and row: "r_request_digest row = request_digest K ?rq" "binding_key row = (ba_namespace b, t, key)"
    "find_action (ra_action_id a) s2 = Some (claimed_row (at_claim_ns att) lease row)"
    "ec_action c = row_to_action (claimed_row (at_claim_ns att) lease row)"
    by (simp_all add: claimed_run_def)
  obtain u s3 where s3: "at_operation att s2 = (Op_Returned v, s3)"
    "complete_result (sql_store K lease) K att (ec_action c) ?rq (Op_Returned v) s3 = (Inr u, ?s4)"
    by (rule returned_value [OF run res])
  have r3: "reachable K lease s3"
    using later_reachable [OF op r2] by (simp add: s3)
  have enc: "encode_result K (Op_Returned v) = Inr (json_norm v)"
    using s3(2) encode_result_eq [OF wf(1,3)]
    by (auto simp: complete_result_def split: if_splits prod.splits)
  let ?i = "ra_action_id a"
  have "ra_action_id (ec_action c) = ?i"
    using row(3,4) by (auto dest: find_row_SomeD)
  then obtain u where comp: "complete K (at_complete_ns att) ?i (request_digest K ?rq) (json_norm v) s3 = (Inr u, ?s4)"
    using s3(2) enc by (auto simp: complete_result_def split: prod.splits sum.splits)
  note cD = complete_InrD [OF reachable_ok [OF r3] comp]
  obtain q where q: "find_action ?i s3 = Some q" "identity_of q = identity_of (claimed_row (at_claim_ns att) lease row)"
    using extendsD(3) [OF later_extends [OF op r2] row(3)] by (auto simp: s3)
  define r where "r = completed_row (at_complete_ns att) (json_norm v) q"
  have f: "find_action ?i ?s4 = Some r"
    using cD(2) q(1) by (auto simp: wrote_def r_def json_norm_idem)
  have "r_status r = SUCCEEDED" "r_result r = Some (json_norm v)" "identity_of r = identity_of q"
    by (simp_all add: r_def) (simp_all add: completed_row_def)
  then have r: "r_status r = SUCCEEDED" "r_result r = Some (json_norm v)"
    "binding_key r = (ba_namespace b, t, key)" "r_request_digest r = request_digest K ?rq"
    using identityD [of r q] identityD [OF q(2)] row(1,2) by (simp_all add: claimed_row_def)
  obtain d where d: "evaluate (ba_policy b) t (json_norm (JObj args)) = Inr d"
    "pd_policy_version d = po_version (ba_policy b)" "request_ok ?rq"
    by (rule prepared_decision [OF wf(1,2) run(1)])
  show thesis by (rule that [OF reach_step [OF r3 step_complete [OF comp]] f r d])
qed

text \<open>
  An effect happens once and its result is replayed: after an attempt ran the protected function
  and returned its result, any later attempt with the same barrier, tool, arguments and key, after
  any calls of any workers, returns the recorded result without calling the function.
\<close>

theorem repeated_call_replays:
  assumes "reachable K lease s" and "\<And>x. later K lease x (at_before_claim att x)"
    and "\<And>x. later K lease x (snd (at_operation att x))"
    and "codec_ok K" and "json_wf (JObj args)" and "json_wf v"
    and "xr_called (execute (sql_store K lease) K h b att t args key s) \<noteq> None"
    and "xr_result (execute (sql_store K lease) K h b att t args key s) = Inr v"
    and "later K lease (xr_state (execute (sql_store K lease) K h b att t args key s)) s'"
    and "\<not> blank (at_action_id att')" and "0 \<le> at_created_at_ns att'"
    and "\<And>x. later K lease x (at_before_claim att' x)"
  shows "xr_called (execute (sql_store K lease) K h b att' t args key s') = None \<and>
    xr_result (execute (sql_store K lease) K h b att' t args key s') = Inr (json_norm v)"
proof -
  let ?s4 = "xr_state (execute (sql_store K lease) K h b att t args key s)"
  obtain i r d where r: "reachable K lease ?s4" "find_action i ?s4 = Some r" "r_status r = SUCCEEDED"
    "r_result r = Some (json_norm v)" "binding_key r = (ba_namespace b, t, key)"
    "r_request_digest r = request_digest K (barrier_request b att t args key)"
    and d: "evaluate (ba_policy b) t (json_norm (JObj args)) = Inr d"
    "pd_policy_version d = po_version (ba_policy b)" "request_ok (barrier_request b att t args key)"
    by (rule returned_leaves [OF assms(1-8)])
  have fin: "final_status (r_status r)" by (simp add: r(3) final_status_def)
  have s': "reachable K lease s'" by (rule later_reachable [OF assms(9) r(1)])
  have f': "find_action i s' = Some r"
    using extendsD(3) [OF later_extends [OF assms(9) r(1)] r(2)] fin by simp
  have dg: "r_request_digest r = request_digest K (barrier_request b att' t args key)"
    using r(6) barrier_digest [of K b att' t args key att] by simp
  have prep: "prepare_request (sql_store K lease) K b att' t args key s' =
      (Inr (barrier_request b att' t args key, row_to_action r), s')"
    by (rule bound_again [OF s' f' r(5) dg request_ok_again [OF d(3) assms(10,11)] assms(4,5) d(1,2)])
      (simp add: r(3))
  have f2: "find_action i (at_before_claim att' s') = Some r"
    using extendsD(3) [OF later_extends [OF assms(12) s'] f'] fin by simp
  have id: "r_action_id r = i" using f' by (auto dest: find_row_SomeD)
  have cl: "st_claim (sql_store K lease) (at_claim_ns att') (ra_action_id (row_to_action r))
      (request_digest K (barrier_request b att' t args key)) (at_before_claim att' s') =
      (Inr \<lparr>ec_outcome = REPLAY, ec_action = row_to_action r, ec_result = json_norm v\<rparr>,
       add_receipt K i Ev_RESULT_REPLAYED (at_claim_ns att') (r_request_digest r) (Some ''runtime'') None
         (at_before_claim att' s'))"
    using succeeded_claim_replays_eq [OF f2 r(3,4), of K lease "at_claim_ns att'"] dg id by simp
  show ?thesis by (simp add: execute_replay [OF prep cl])
qed

end
