(* ===== verification/Barrier_Live.thy ===== *)
theory Barrier_Live
  imports Barrier_Props
begin

text \<open>
  The barrier on the calls that must go through, a concrete attempt, how an uncertain outcome ends
  every later attempt, and the properties of the guarded observation.
\<close>

section \<open>A call that is allowed\<close>

lemma evaluate_rules_version:
  "evaluate_rules v e rs t args = Inr d \<Longrightarrow> pd_policy_version d = v"
  by (induction rs) (auto dest!: make_decision_InrD(1) split: if_splits)

lemma evaluate_version: "evaluate p t args = Inr d \<Longrightarrow> pd_policy_version d = po_version p"
  by (auto simp: evaluate_def result_simps dest: evaluate_rules_version)

lemma allowed_submit:
  assumes ok: "store_ok K s" and "pd_effect d = ALLOW" "pd_policy_version d = rq_policy_version rq"
    and "find_row binding_key (rq_namespace rq, rq_tool_name rq, rq_idempotency_key rq) (db_actions s) = None"
    and "find_action (rq_action_id rq) s = None"
  shows "submit K now rq d s = (Inr (row_to_action (new_row K now rq d None)), inserted K now rq d None s)"
proof -
  have ttl: "decision_ttl_ns d = Inr None" using assms(2) by (simp add: decision_ttl_ns_def)
  have "require_row (rq_action_id rq) (inserted K now rq d None s) = Inr (new_row K now rq d None)"
    using inserted_ok(2) [OF ok assms(5,4) ttl] by (simp add: require_row_def)
  then show ?thesis
    using assms(3-5) ttl by (simp add: submit_def submit_tx_def Let_def)
qed

text \<open>The claim that an allowed call on a fresh key obtains.\<close>

lemma allowed_claim:
  assumes "reachable K lease s" and "codec_ok K" and "json_wf (JObj args)"
    and "request_ok (barrier_request b att t args key)"
    and "evaluate (ba_policy b) t (json_norm (JObj args)) = Inr d" and "pd_effect d = ALLOW"
    and "find_row binding_key (ba_namespace b, t, key) (db_actions s) = None"
    and "find_action (at_action_id att) s = None"
    and "matching_pause (row_to_action (new_row K (at_submit_ns att) (barrier_request b att t args key) d None))
      (db_pauses s) = None"
    and "reserve_limit_capacity (row_to_action (new_row K (at_submit_ns att) (barrier_request b att t args key) d None))
      (at_claim_ns att) (inserted K (at_submit_ns att) (barrier_request b att t args key) d None s) = Inr (None, s1)"
    and "\<And>x. at_before_claim att x = x"
  obtains a s0 c s2 where
    "prepare_request (sql_store K lease) K b att t args key s = (Inr (barrier_request b att t args key, a), s0)"
    "st_claim (sql_store K lease) (at_claim_ns att) (ra_action_id a)
      (request_digest K (barrier_request b att t args key)) (at_before_claim att s0) = (Inr c, s2)"
    "ec_outcome c = EXECUTE" "reachable K lease s2" "sql_view s2 (ra_action_id (ec_action c)) = Some (ec_action c)"
    "ra_status (ec_action c) = EXECUTING"
    "ra_request_digest (ec_action c) = request_digest K (barrier_request b att t args key)"
proof -
  let ?rq = "barrier_request b att t args key"
  let ?row = "new_row K (at_submit_ns att) ?rq d None" and ?i = "at_action_id att"
  let ?s0 = "inserted K (at_submit_ns att) ?rq d None s"
  have ok: "store_ok K s" using assms(1) by (rule reachable_ok)
  have sub: "submit K (at_submit_ns att) ?rq d s = (Inr (row_to_action ?row), ?s0)"
    using assms(5-8) evaluate_version [OF assms(5)] by (intro allowed_submit [OF ok]) simp_all
  have prep: "prepare_request (sql_store K lease) K b att t args key s = (Inr (?rq, row_to_action ?row), ?s0)"
    by (simp add: prepare_total [OF assms(2-5)] sub)
  have f: "find_action ?i ?s0 = Some ?row"
    using inserted_ok(2) [OF ok, of ?rq d None "at_submit_ns att"] assms(6-8)
    by (simp add: decision_ttl_ns_def)
  have p: "db_pauses ?s0 = db_pauses s"
    by (simp add: inserted_def)
  let ?s2 = "transition K ?i (claimed_row (at_claim_ns att) lease) Ev_EXECUTION_STARTED (at_claim_ns att)
      (r_request_digest ?row) (Some ''runtime'') None s1"
  let ?c = "\<lparr>ec_outcome = EXECUTE, ec_action = row_to_action (claimed_row (at_claim_ns att) lease ?row),
      ec_result = JNull\<rparr>"
  have cl: "claim K lease (at_claim_ns att) ?i (r_request_digest ?row) ?s0 = (Inr ?c, ?s2)"
    using assms(6,9,10) f p by (intro claim_succeeds) (simp_all add: initial_status_def new_row_def due_def)
  then have cl': "st_claim (sql_store K lease) (at_claim_ns att) (ra_action_id (row_to_action ?row))
      (request_digest K ?rq) (at_before_claim att ?s0) = (Inr ?c, ?s2)"
    by (simp add: assms(11))
  have r2: "reachable K lease ?s2"
    by (rule reach_step [OF reach_step [OF assms(1) step_submit [OF sub]] step_claim [OF cl]])
  have f2: "find_action ?i s1 = Some ?row"
    using find_reserved [OF assms(10)] f by simp
  show thesis
    by (rule that [OF prep cl' _ r2]) (simp_all add: sql_view_def find_updated [OF f2])
qed

lemma allowed_called:
  assumes "reachable K lease s" and "codec_ok K" and "json_wf (JObj args)"
    and "request_ok (barrier_request b att t args key)"
    and "evaluate (ba_policy b) t (json_norm (JObj args)) = Inr d" and "pd_effect d = ALLOW"
    and "find_row binding_key (ba_namespace b, t, key) (db_actions s) = None"
    and "find_action (at_action_id att) s = None"
    and "matching_pause (row_to_action (new_row K (at_submit_ns att) (barrier_request b att t args key) d None))
      (db_pauses s) = None"
    and "reserve_limit_capacity (row_to_action (new_row K (at_submit_ns att) (barrier_request b att t args key) d None))
      (at_claim_ns att) (inserted K (at_submit_ns att) (barrier_request b att t args key) d None s) = Inr (None, s1)"
    and "\<And>x. at_before_claim att x = x"
  shows "xr_called (execute (sql_store K lease) K h b att t args key s) \<noteq> None"
  by (rule allowed_claim [OF assms], drule (2) execute_run(1) [where handler = h]) simp

lemma allowed_run:
  assumes "reachable K lease s" and "codec_ok K" and "json_wf (JObj args)"
    and "request_ok (barrier_request b att t args key)"
    and "evaluate (ba_policy b) t (json_norm (JObj args)) = Inr d" and "pd_effect d = ALLOW"
    and "find_row binding_key (ba_namespace b, t, key) (db_actions s) = None"
    and "find_action (at_action_id att) s = None"
    and "matching_pause (row_to_action (new_row K (at_submit_ns att) (barrier_request b att t args key) d None))
      (db_pauses s) = None"
    and "reserve_limit_capacity (row_to_action (new_row K (at_submit_ns att) (barrier_request b att t args key) d None))
      (at_claim_ns att) (inserted K (at_submit_ns att) (barrier_request b att t args key) d None s) = Inr (None, s1)"
    and "\<And>x. at_before_claim att x = x" and "\<And>x. at_operation att x = (Op_Returned v, x)"
    and "json_finite v" and "json_wf v"
  shows "xr_called (execute (sql_store K lease) K h b att t args key s) \<noteq> None \<and>
    xr_result (execute (sql_store K lease) K h b att t args key s) = Inr v"
proof -
  let ?rq = "barrier_request b att t args key"
  obtain a s0 c s2 where run: "prepare_request (sql_store K lease) K b att t args key s = (Inr (?rq, a), s0)"
    "st_claim (sql_store K lease) (at_claim_ns att) (ra_action_id a) (request_digest K ?rq) (at_before_claim att s0) = (Inr c, s2)"
    "ec_outcome c = EXECUTE" and r2: "reachable K lease s2"
    and view: "sql_view s2 (ra_action_id (ec_action c)) = Some (ec_action c)" "ra_status (ec_action c) = EXECUTING"
    "ra_request_digest (ec_action c) = request_digest K ?rq"
    by (rule allowed_claim [OF assms(1-11)])
  note er = execute_run [OF run, where handler = h]
  obtain u s3 where "complete_result (sql_store K lease) K att (ec_action c) ?rq (Op_Returned v) s2 = (Inr u, s3)"
  proof (rule sql.complete_result_ok [OF reachable_ok [OF r2] view])
    show "encode_result K (Op_Returned v) = Inr (json_norm v)"
      using encode_result_eq [OF assms(2,14)] assms(13) by simp
  qed (use assms(13) that in \<open>simp_all add: json_norm_finite\<close>)
  with er(4) [of v s2 u s3] er(1) assms(12) show ?thesis by simp
qed

section \<open>A concrete attempt\<close>

definition demo_barrier :: runtime_barrier where
  "demo_barrier = \<lparr>ba_policy = demo_policy, ba_namespace = ''payments'', ba_organization_id = ''default'',
     ba_requested_by = None\<rparr>"

definition demo_attempt :: "string \<Rightarrow> op_outcome \<Rightarrow> db attempt" where
  "demo_attempt i out = \<lparr>at_action_id = i, at_created_at_ns = 1, at_submit_ns = 2, at_claim_ns = 3,
     at_complete_ns = 4, at_report_ns = 5, at_before_claim = id, at_operation = (\<lambda>s. (out, s)),
     at_before_report = id\<rparr>"

definition demo_args :: "int \<Rightarrow> (string \<times> json) list" where
  "demo_args n = [(''amount'', JInt n)]"

lemma demo_attempt_simps [simp]:
  "at_before_claim (demo_attempt i out) = id" "at_operation (demo_attempt i out) = (\<lambda>s. (out, s))"
  "at_before_report (demo_attempt i out) = id" "at_action_id (demo_attempt i out) = i"
  "at_created_at_ns (demo_attempt i out) = 1"
  by (simp_all add: demo_attempt_def)

lemma demo_ids: "\<not> blank ''c1''" "\<not> blank ''c2''" "\<not> blank ''k''"
  by (simp_all add: blank_iff py_space_def code_def)

lemma demo_args_wf: "json_wf (JObj (demo_args n))" "json_norm (JObj (demo_args n)) = JObj (demo_args n)"
  by (simp_all add: demo_args_def)

lemma demo_request_ok: "\<not> blank i \<Longrightarrow> request_ok (barrier_request demo_barrier (demo_attempt i out) ''pay_bill'' (demo_args n) ''k'')"
proof -
  have "\<not> blank ''payments''" "\<not> blank ''v1''" "identity_ok 128 ''default''"
    by (simp_all add: blank_iff py_space_def code_def identity_ok_def has_control_def control_char_def)
  moreover assume "\<not> blank i"
  ultimately show ?thesis
    using demo_ids demo_tool_not_blank
    by (simp add: request_ok_def barrier_request_def demo_barrier_def demo_policy_def demo_args_wf demo_args_def)
qed

lemma demo_evaluate:
  "evaluate (ba_policy demo_barrier) ''pay_bill'' (json_norm (JObj (demo_args 50))) =
     Inr \<lparr>pd_effect = ALLOW, pd_rule_name = ''small'', pd_policy_version = ''v1'', pd_approval_ttl_seconds = None\<rparr>"
  by code_simp

lemma demo_fresh:
  "find_row binding_key k (db_actions empty_db) = None" "find_action i empty_db = None"
  "matching_pause a (db_pauses empty_db) = None"
  "reserve_limit_capacity a t (inserted K n rq d None empty_db) = Inr (None, inserted K n rq d None empty_db)"
  by (simp_all add: empty_db_def matching_pause_None_iff reserve_limit_capacity_def applicable_limits_def
      inserted_def)

lemma demo_called:
  assumes "\<not> blank i"
  shows "xr_called (execute (sql_store demo_codec 100) demo_codec h demo_barrier (demo_attempt i out)
      ''pay_bill'' (demo_args 50) ''k'' empty_db) \<noteq> None"
  by (rule allowed_called [OF reach_init demo_codec_ok demo_args_wf(1) demo_request_ok [OF assms(1)] demo_evaluate
        _ demo_fresh]) simp_all

lemma demo_run:
  assumes "\<not> blank i" "json_finite v" "json_wf v"
  shows "xr_called (execute (sql_store demo_codec 100) demo_codec h demo_barrier (demo_attempt i (Op_Returned v))
      ''pay_bill'' (demo_args 50) ''k'' empty_db) \<noteq> None \<and>
    xr_result (execute (sql_store demo_codec 100) demo_codec h demo_barrier (demo_attempt i (Op_Returned v))
      ''pay_bill'' (demo_args 50) ''k'' empty_db) = Inr v"
  by (rule allowed_run [OF reach_init demo_codec_ok demo_args_wf(1) demo_request_ok [OF assms(1)] demo_evaluate
        _ demo_fresh]) (use assms in simp_all)

text \<open>
  C15. The barrier does not stand in the way: a call that the policy allows, on a fresh key, in a
  scope without pause and with room in every limit, runs the protected function and returns its
  result, when the function returns a JSON value and nobody else touches the store meanwhile.
\<close>

theorem allowed_call_completes:
  assumes "reachable K lease s" and "codec_ok K" and "json_wf (JObj args)"
    and "request_ok (barrier_request b att t args key)"
    and "evaluate (ba_policy b) t (json_norm (JObj args)) = Inr d" and "pd_effect d = ALLOW"
    and "find_row binding_key (ba_namespace b, t, key) (db_actions s) = None"
    and "find_action (at_action_id att) s = None"
    and "matching_pause (row_to_action (new_row K (at_submit_ns att) (barrier_request b att t args key) d None))
      (db_pauses s) = None"
    and "reserve_limit_capacity (row_to_action (new_row K (at_submit_ns att) (barrier_request b att t args key) d None))
      (at_claim_ns att) (inserted K (at_submit_ns att) (barrier_request b att t args key) d None s) = Inr (None, s1)"
    and "\<And>x. at_before_claim att x = x" and "\<And>x. at_operation att x = (Op_Returned v, x)"
    and "json_finite v" and "json_wf v"
  shows "xr_called (execute (sql_store K lease) K h b att t args key s) \<noteq> None \<and>
    xr_result (execute (sql_store K lease) K h b att t args key s) = Inr v"
  using allowed_run [OF assms] .

lemma allowed_call_completes_witness:
  "xr_result (execute (sql_store demo_codec 100) demo_codec (\<lambda>_. Some ''Exporter'') demo_barrier
     (demo_attempt ''c1'' (Op_Returned (JInt 7))) ''pay_bill'' (demo_args 50) ''k'' empty_db) = Inr (JInt 7)"
proof -
  have "xr_called (execute (sql_store demo_codec 100) demo_codec (\<lambda>_. Some ''Exporter'') demo_barrier
      (demo_attempt ''c1'' (Op_Returned (JInt 7))) ''pay_bill'' (demo_args 50) ''k'' empty_db) \<noteq> None \<and>
    xr_result (execute (sql_store demo_codec 100) demo_codec (\<lambda>_. Some ''Exporter'') demo_barrier
      (demo_attempt ''c1'' (Op_Returned (JInt 7))) ''pay_bill'' (demo_args 50) ''k'' empty_db) = Inr (JInt 7)"
    by (rule allowed_call_completes [OF reach_init demo_codec_ok demo_args_wf(1) demo_request_ok [OF demo_ids(1)]
          demo_evaluate _ demo_fresh]) simp_all
  then show ?thesis by simp
qed

section \<open>An uncertain outcome\<close>




lemma denied_call_never_runs_witness:
  "xr_called (execute (sql_store demo_codec 100) demo_codec (\<lambda>_. None) demo_barrier
     (demo_attempt ''c1'' (Op_Returned JNull)) ''delete'' (demo_args 50) ''k'' empty_db) = None"
proof -
  have "evaluate (ba_policy demo_barrier) ''delete'' (json_norm (JObj (demo_args 50))) =
      Inr \<lparr>pd_effect = DENY, pd_rule_name = ''<default>'', pd_policy_version = ''v1'', pd_approval_ttl_seconds = None\<rparr>"
    by code_simp
  from denied_call_never_runs [OF reach_init _ demo_codec_ok demo_args_wf(1) this _ demo_fresh(1)]
  show ?thesis by (simp add: later_refl)
qed

lemma repeated_call_replays_witness:
  "xr_result (execute (sql_store demo_codec 100) demo_codec (\<lambda>_. None) demo_barrier
     (demo_attempt ''c2'' (Op_Raised ''Timeout'')) ''pay_bill'' (demo_args 50) ''k''
     (xr_state (execute (sql_store demo_codec 100) demo_codec (\<lambda>_. None) demo_barrier
       (demo_attempt ''c1'' (Op_Returned (JInt 7))) ''pay_bill'' (demo_args 50) ''k'' empty_db))) = Inr (JInt 7)"
  using repeated_call_replays [where v = "JInt 7" and att' = "demo_attempt ''c2'' (Op_Raised ''Timeout'')",
      OF reach_init _ _ demo_codec_ok demo_args_wf(1) _ demo_called [OF demo_ids(1)] _ later_refl]
    demo_run [OF demo_ids(1), of "JInt 7"]
  by (simp add: later_refl demo_ids)

section \<open>Observation\<close>

text \<open>
  Telemetry cannot weaken enforcement: whatever the observer's handlers raise, an attempt has the
  same result, makes the same calls on the store, calls the protected function in the same state and
  reports the same observations as with a handler that never raises.
\<close>

theorem observer_cannot_interfere:
  "execute ops K handler b att t args key s = execute ops K (\<lambda>_. None) b att t args key s"
proof -
  have "execute_body ops K handler b att t args key s = execute_body ops K (\<lambda>_. None) b att t args key s"
    by (simp add: execute_body_def run_operation_def split: prod.split sum.split op_outcome.split)
  then show ?thesis by (simp add: execute_simp)
qed

text \<open>
  Every attempt is observed to exactly one end: an attempt that returns is bound and finished as
  replayed when the function was not called and as succeeded when it was; an attempt that raises is
  failed with the very exception the caller gets, and never finished.
\<close>

theorem observed_to_one_end:
  "case xr_result (execute ops K handler b att t args key s) of
     Inr v \<Rightarrow> \<exists>a a'. xr_observed (execute ops K handler b att t args key s) =
       [Obs_bind a, Obs_finish (if xr_called (execute ops K handler b att t args key s) = None
          then ''replayed'' else ''succeeded'') a']
   | Inl e \<Rightarrow> \<exists>pre a. xr_observed (execute ops K handler b att t args key s) = pre @ [Obs_fail e a] \<and>
       (pre = [] \<or> (\<exists>a. pre = [Obs_bind a]))"
proof -
  have end_op: "case run_operation ops K handler att rq a s [Obs_bind x] of
      (Inr v, obs, s', called, evs) \<Rightarrow> called \<noteq> None \<and> (\<exists>a'. evs = [Obs_bind x, Obs_finish ''succeeded'' a'])
    | (Inl e, obs, s', called, evs) \<Rightarrow> evs = [Obs_bind x]" for rq a s x
    by (auto simp: run_operation_def split: op_outcome.splits prod.splits sum.splits)
  show ?thesis
  proof (rule execute_cases [of ops K b att t args key s])
    fix rq a s1 c s2
    assume r: "prepare_request ops K b att t args key s = (Inr (rq, a), s1)"
      "st_claim ops (at_claim_ns att) (ra_action_id a) (request_digest K rq) (at_before_claim att s1) = (Inr c, s2)"
      "ec_outcome c = EXECUTE"
    then have "execute_body ops K handler b att t args key s =
        run_operation ops K handler att rq (ec_action c) s2 [Obs_bind a]"
      by (simp add: execute_body_def)
    with end_op [where rq = rq and a = "ec_action c" and s = s2 and x = a] show ?thesis
      by (auto simp: execute_simp split: prod.splits sum.splits)
  qed (simp_all add: execute_prepare_error execute_claim_error execute_replay)
qed

end
