(* ===== verification/Auth.thy ===== *)
theory Auth
  imports Policy
begin

text \<open>
  Static bearer authentication of service/auth.py: principals and their validation, credentials, the
  two versions of the auth document, and the authentication of a header. A \<open>frozenset\<close> is the list of
  its elements without repetition, in an order nothing depends on. The digest of a token is the
  codec's SHA-256.
\<close>

section \<open>Principals\<close>

definition all_service_scopes :: "string list" where
  "all_service_scopes = [''actions:read'', ''actions:decide'', ''audit:read'', ''mcp:call'']"

record principal =
  pc_subject :: string
  pc_scopes :: "string list"
  pc_organization_id :: "string option"
  pc_kind :: string
  pc_roles :: "string list"
  pc_namespaces :: "string list"
  pc_decisions :: "decision list"
  pc_require_separate_approver :: bool

definition token_char :: "char \<Rightarrow> bool" where
  "token_char c = (ascii_alnum c \<or> c \<in> set ''._~+/=-'')"

definition identifier_char :: "char \<Rightarrow> bool" where
  "identifier_char c = (ascii_alnum c \<or> c \<in> set ''._:-'')"

text \<open>\<open>_IDENTIFIER_PATTERN.fullmatch\<close>\<close>

definition identifier_ok :: "string \<Rightarrow> bool" where
  "identifier_ok v = (case v of [] \<Rightarrow> False
     | c # cs \<Rightarrow> ascii_alnum c \<and> length cs \<le> 127 \<and> list_all identifier_char cs)"

definition validate_identifier :: "string \<Rightarrow> string \<Rightarrow> runtime_error + unit" where
  "validate_identifier v name = (if identifier_ok v then Inr () else Inl (ValueError (name @
     '' must contain 1 to 128 letters, digits, dots, colons, underscores, or hyphens'')))"

lemma validate_identifier_iff [result_simps]: "validate_identifier v name = Inr () \<longleftrightarrow> identifier_ok v"
  by (simp add: validate_identifier_def)

text \<open>\<open>Principal.__post_init__\<close>\<close>

definition make_principal :: "principal \<Rightarrow> runtime_error + principal" where
  "make_principal p =
     (if blank (pc_subject p) \<or> 128 < length (pc_subject p) then
        Inl (ValueError ''principal subject must contain 1 to 128 non-whitespace characters'')
      else if has_control (pc_subject p) then
        Inl (ValueError ''principal subject must not contain control characters'')
      else if \<not> set (pc_scopes p) \<subseteq> set all_service_scopes then
        Inl (ValueError ''unknown AgentBarrier service scopes'')
      else case pc_organization_id p of
        None \<Rightarrow>
          if pc_kind p \<noteq> ''legacy'' \<or> pc_roles p \<noteq> [] \<or> pc_namespaces p \<noteq> [] \<or> pc_decisions p \<noteq> [] then
            Inl (ValueError ''legacy principals must not carry organization authorization'')
          else Inr p
      | Some org \<Rightarrow>
          bind_res (validate_identifier org ''organization id'') (\<lambda>_.
          if pc_kind p \<notin> {''user'', ''service''} then
            Inl (ValueError (''principal kind must be 'user' or 'service'' @ [CHR 0x27]))
          else if pc_roles p = [] then
            Inl (ValueError ''organization principals must carry at least one role'')
          else if pc_namespaces p = [] then
            Inl (ValueError ''organization principals must carry at least one namespace'')
          else if (''actions:decide'' \<in> set (pc_scopes p)) \<noteq> (pc_decisions p \<noteq> []) then
            Inl (ValueError ''organization principals must carry actions:decide exactly when they carry approval decisions'')
          else Inr p))"

definition has_scope :: "principal \<Rightarrow> string \<Rightarrow> bool" where
  "has_scope p scope = (scope \<in> set (pc_scopes p))"

definition can_access_action :: "principal \<Rightarrow> runtime_action \<Rightarrow> bool" where
  "can_access_action p a = (case pc_organization_id p of
     None \<Rightarrow> True
   | Some org \<Rightarrow> ra_organization_id a = org \<and> ra_namespace a \<in> set (pc_namespaces p))"

text \<open>\<open>decision_authorization\<close>, with the validation of \<open>DecisionAuthorization\<close>.\<close>

definition principal_authorization :: "principal \<Rightarrow> runtime_error + decision_authorization" where
  "principal_authorization p = (case pc_organization_id p of
     None \<Rightarrow> Inl (ValueError ''legacy principals do not carry decision authorization'')
   | Some org \<Rightarrow> make_authorization (pc_subject p) org (pc_namespaces p) (pc_decisions p)
       (pc_require_separate_approver p) (Some (pc_subject p)))"

section \<open>Credentials\<close>

record credential =
  cd_principal :: principal
  cd_token_digest :: string

definition make_credential :: "principal \<Rightarrow> string \<Rightarrow> runtime_error + credential" where
  "make_credential p digest =
     (if length digest = 64 \<and> list_all (\<lambda>c. hex_val c \<noteq> None) digest
      then Inr \<lparr>cd_principal = p, cd_token_digest = py_lower digest\<rparr>
      else Inl (ValueError ''token_sha256 must be exactly 64 hexadecimal characters''))"

text \<open>\<open>StaticBearerAuth.__init__\<close>\<close>

definition make_auth :: "credential list \<Rightarrow> runtime_error + credential list" where
  "make_auth cs =
     (if cs = [] then Inl (ValueError ''AgentBarrier service auth must configure at least one token'')
      else if 100 < length cs then
        Inl (ValueError ''AgentBarrier service auth supports at most 100 static tokens'')
      else if \<not> distinct (map cd_token_digest cs) then
        Inl (ValueError ''token_sha256 values must be unique'')
      else Inr cs)"

definition validate_presented_token :: "string \<Rightarrow> runtime_error + unit" where
  "validate_presented_token token =
     (if \<not> (16 \<le> length token \<and> length token \<le> 512) then
        Inl (ValueError ''bearer token must contain 16 to 512 characters'')
      else if \<not> list_all token_char token then
        Inl (ValueError ''bearer token contains invalid characters'')
      else Inr ())"

definition hash_bearer_token :: "codec \<Rightarrow> string \<Rightarrow> runtime_error + string" where
  "hash_bearer_token K token =
     bind_res (validate_presented_token token) (\<lambda>_. Inr (sha256_hex K token))"

section \<open>The auth document\<close>

definition str_of :: "json \<Rightarrow> string option" where
  "str_of j = (case j of JStr s \<Rightarrow> Some s | _ \<Rightarrow> None)"

text \<open>A JSON list of strings, without the checks that follow it.\<close>

fun strings_of :: "json list \<Rightarrow> string list option" where
  "strings_of [] = Some []"
| "strings_of (JStr s # js) = map_option (\<lambda>ss. s # ss) (strings_of js)"
| "strings_of (_ # js) = None"

definition string_set :: "json \<Rightarrow> string \<Rightarrow> runtime_error + string list" where
  "string_set v name = (case v of
     JList js \<Rightarrow> (case strings_of js of
         None \<Rightarrow> Inl (TypeError (''every '' @ name @ '' value must be a string''))
       | Some items \<Rightarrow>
           if \<not> distinct items then Inl (ValueError (name @ '' must not contain duplicates''))
           else bind_res (map_res (\<lambda>i. validate_identifier i name) items) (\<lambda>_. Inr items))
   | _ \<Rightarrow> Inl (TypeError (name @ '' must be a list'')))"

definition require_object_list :: "json \<Rightarrow> string \<Rightarrow> runtime_error + (string \<times> json) list list" where
  "require_object_list v name = (case v of
     JList js \<Rightarrow>
       if js = [] then Inl (ValueError (''AgentBarrier service auth '' @ name @ '' must not be empty''))
       else map_res (\<lambda>j. case j of JObj kvs \<Rightarrow> Inr kvs | _ \<Rightarrow> Inl (TypeError (''every AgentBarrier service auth ''
         @ name @ '' entry must be an object''))) js
   | _ \<Rightarrow> Inl (TypeError (''AgentBarrier service auth '' @ name @ '' must be a list'')))"

text \<open>\<open>Principal(subject=subject, scopes=scopes)\<close>, with the defaults of the other fields.\<close>

definition legacy_principal :: "string \<Rightarrow> string list \<Rightarrow> principal" where
  "legacy_principal subject scopes = \<lparr>pc_subject = subject, pc_scopes = scopes, pc_organization_id = None,
     pc_kind = ''legacy'', pc_roles = [], pc_namespaces = [], pc_decisions = [],
     pc_require_separate_approver = False\<rparr>"

definition parse_v1_credential :: "json \<Rightarrow> runtime_error + credential" where
  "parse_v1_credential v = (case v of
     JObj item \<Rightarrow>
       bind_res (validate_keys item [''subject'', ''token_sha256'', ''scopes''] ''token'') (\<lambda>_.
       case (str_of (dict_get item ''subject'' JNull), str_of (dict_get item ''token_sha256'' JNull)) of
         (Some subject, Some digest) \<Rightarrow>
           (case dict_get item ''scopes'' JNull of
              JList raw \<Rightarrow> (case strings_of raw of
                  None \<Rightarrow> Inl (TypeError ''every token scope must be a string'')
                | Some scopes \<Rightarrow>
                    if \<not> distinct scopes then Inl (ValueError ''token scopes must not contain duplicates'')
                    else bind_res (make_principal (legacy_principal subject scopes)) (\<lambda>p.
                      make_credential p digest))
            | _ \<Rightarrow> Inl (TypeError ''token scopes must be a list''))
       | _ \<Rightarrow> Inl (TypeError ''token subject and token_sha256 must be strings''))
   | _ \<Rightarrow> Inl (TypeError ''each AgentBarrier service token must be an object''))"

record organization =
  og_identifier :: string
  og_namespaces :: "string list"
  og_require_separate_approver :: bool

record role =
  ro_identifier :: string
  ro_scopes :: "string list"
  ro_decisions :: "decision list"

definition parse_organization :: "(string \<times> json) list \<Rightarrow> runtime_error + organization" where
  "parse_organization v =
   bind_res (validate_keys v [''id'', ''namespaces'', ''require_separate_approver''] ''organization'') (\<lambda>_.
   case dict_get v ''id'' JNull of
     JStr identifier \<Rightarrow>
       bind_res (validate_identifier identifier ''organization id'') (\<lambda>_.
       bind_res (string_set (dict_get v ''namespaces'' JNull) ''organization namespaces'') (\<lambda>namespaces.
       if namespaces = [] then Inl (ValueError ''organization namespaces must not be empty'')
       else case dict_get v ''require_separate_approver'' (JBool False) of
         JBool separation \<Rightarrow> Inr \<lparr>og_identifier = identifier, og_namespaces = namespaces,
           og_require_separate_approver = separation\<rparr>
       | _ \<Rightarrow> Inl (TypeError ''require_separate_approver must be a boolean'')))
   | _ \<Rightarrow> Inl (TypeError ''organization id must be a string''))"

text \<open>\<open>Decision(item)\<close>\<close>

definition decision_of_text :: "string \<Rightarrow> decision option" where
  "decision_of_text s = (if s = ''approve'' then Some APPROVE else if s = ''reject'' then Some REJECT else None)"

definition parse_role :: "(string \<times> json) list \<Rightarrow> runtime_error + role" where
  "parse_role v =
   bind_res (validate_keys v [''id'', ''scopes'', ''decisions''] ''role'') (\<lambda>_.
   case dict_get v ''id'' JNull of
     JStr identifier \<Rightarrow>
       bind_res (validate_identifier identifier ''role id'') (\<lambda>_.
       bind_res (string_set (dict_get v ''scopes'' JNull) ''role scopes'') (\<lambda>scopes.
       if \<not> set scopes \<subseteq> set all_service_scopes then
         Inl (ValueError ''unknown AgentBarrier service scopes'')
       else bind_res (string_set (dict_get v ''decisions'' JNull) ''role decisions'') (\<lambda>raw_decisions.
       bind_res (map_res (\<lambda>s. case decision_of_text s of
           None \<Rightarrow> Inl (ValueError (''role decisions must contain only 'approve' or 'reject'' @ [CHR 0x27]))
         | Some d \<Rightarrow> Inr d) raw_decisions) (\<lambda>decisions.
       if (''actions:decide'' \<in> set scopes) \<noteq> (decisions \<noteq> []) then
         Inl (ValueError ''roles must grant actions:decide exactly when they grant approval decisions'')
       else Inr \<lparr>ro_identifier = identifier, ro_scopes = scopes, ro_decisions = decisions\<rparr>))))
   | _ \<Rightarrow> Inl (TypeError ''role id must be a string''))"

text \<open>\<open>_unique_by_identifier\<close>\<close>

definition unique_by :: "('a \<Rightarrow> string) \<Rightarrow> 'a list \<Rightarrow> string \<Rightarrow> runtime_error + 'a list" where
  "unique_by key xs label =
     (if distinct (map key xs) then Inr xs else Inl (ValueError (''duplicate '' @ label @ '' id'')))"

text \<open>The owners of the namespaces, organization by organization.\<close>

fun check_owners :: "(string \<times> string) list \<Rightarrow> (string \<times> string) list \<Rightarrow> runtime_error + unit" where
  "check_owners owners [] = Inr ()"
| "check_owners owners ((namespace, org) # rest) =
     (case map_of owners namespace of
        None \<Rightarrow> check_owners ((namespace, org) # owners) rest
      | Some owner \<Rightarrow> if owner \<noteq> org
          then Inl (ValueError ''namespace belongs to more than one organization'')
          else check_owners owners rest)"

definition parse_v2_credential ::
  "organization list \<Rightarrow> role list \<Rightarrow> (string \<times> json) list \<Rightarrow> runtime_error + credential" where
  "parse_v2_credential organizations roles v =
   bind_res (validate_keys v [''subject'', ''kind'', ''organization'', ''roles'', ''token_sha256''] ''token'') (\<lambda>_.
   case (str_of (dict_get v ''subject'' JNull), str_of (dict_get v ''kind'' JNull),
       str_of (dict_get v ''organization'' JNull), str_of (dict_get v ''token_sha256'' JNull)) of
     (Some subject, Some kind, Some organization_id, Some digest) \<Rightarrow>
       (case find_row og_identifier organization_id organizations of
          None \<Rightarrow> Inl (ValueError ''token references unknown organization'')
        | Some org \<Rightarrow>
            if kind \<notin> {''user'', ''service''} then Inl (ValueError (''token kind must be 'user' or 'service'' @ [CHR 0x27]))
            else bind_res (string_set (dict_get v ''roles'' JNull) ''token roles'') (\<lambda>role_ids.
              if role_ids = [] then Inl (ValueError ''token roles must not be empty'')
              else if \<not> set role_ids \<subseteq> ro_identifier ` set roles then
                Inl (ValueError ''token references unknown roles'')
              else
                let assigned = filter (\<lambda>r. ro_identifier r \<in> set role_ids) roles in
                bind_res (make_principal \<lparr>pc_subject = subject,
                    pc_scopes = remdups (concat (map ro_scopes assigned)),
                    pc_organization_id = Some (og_identifier org), pc_kind = kind, pc_roles = role_ids,
                    pc_namespaces = og_namespaces org,
                    pc_decisions = remdups (concat (map ro_decisions assigned)),
                    pc_require_separate_approver = og_require_separate_approver org\<rparr>) (\<lambda>p.
                  make_credential p digest)))
   | _ \<Rightarrow> Inl (TypeError ''token subject, kind, organization, and token_sha256 must be strings''))"

definition auth_from_v2 :: "(string \<times> json) list \<Rightarrow> runtime_error + credential list" where
  "auth_from_v2 data =
   bind_res (validate_keys data [''version'', ''organizations'', ''roles'', ''tokens''] ''auth document'') (\<lambda>_.
   bind_res (require_object_list (dict_get data ''organizations'' JNull) ''organizations'') (\<lambda>raw_organizations.
   bind_res (require_object_list (dict_get data ''roles'' JNull) ''roles'') (\<lambda>raw_roles.
   bind_res (require_object_list (dict_get data ''tokens'' JNull) ''tokens'') (\<lambda>raw_tokens.
   bind_res (map_res parse_organization raw_organizations) (\<lambda>organizations.
   bind_res (map_res parse_role raw_roles) (\<lambda>roles.
   bind_res (unique_by og_identifier organizations ''organization'') (\<lambda>_.
   bind_res (unique_by ro_identifier roles ''role'') (\<lambda>_.
   bind_res (check_owners []
     (concat (map (\<lambda>og. map (\<lambda>n. (n, og_identifier og)) (og_namespaces og)) organizations))) (\<lambda>_.
   bind_res (map_res (parse_v2_credential organizations roles) raw_tokens) make_auth)))))))))"

definition auth_from_mapping :: "(string \<times> json) list \<Rightarrow> runtime_error + credential list" where
  "auth_from_mapping data =
     (if dict_get data ''version'' JNull = JStr ''2'' then auth_from_v2 data
      else bind_res (validate_keys data [''version'', ''tokens''] ''auth document'') (\<lambda>_.
        if dict_get data ''version'' JNull \<noteq> JStr ''1'' then
          Inl (ValueError (''AgentBarrier service auth version must be '1' or '2'' @ [CHR 0x27]))
        else case dict_get data ''tokens'' JNull of
          JList raw \<Rightarrow> bind_res (map_res parse_v1_credential raw) make_auth
        | _ \<Rightarrow> Inl (TypeError ''AgentBarrier service auth tokens must be a list'')))"

text \<open>\<open>from_file\<close>, on the text of the file.\<close>

definition auth_from_text :: "codec \<Rightarrow> string \<Rightarrow> runtime_error + credential list" where
  "auth_from_text K text = (case loads K text of
     None \<Rightarrow> Inl (ValueError ''invalid JSON'')
   | Some (JObj data) \<Rightarrow> auth_from_mapping data
   | Some _ \<Rightarrow> Inl (TypeError ''AgentBarrier service auth document must be a JSON object''))"

section \<open>Authentication\<close>

record auth_error =
  ae_code :: string
  ae_message :: string
  ae_status :: int
  ae_challenge :: string

definition invalid_token :: auth_error where
  "invalid_token = \<lparr>ae_code = ''invalid_bearer_token'', ae_message = ''the bearer token is invalid'',
     ae_status = 401, ae_challenge = ''Bearer realm=\"agentbarrier\", error=\"invalid_token\"''\<rparr>"

definition missing_token :: auth_error where
  "missing_token = \<lparr>ae_code = ''missing_bearer_token'', ae_message = ''a bearer token is required'',
     ae_status = 401, ae_challenge = ''Bearer realm=\"agentbarrier\"''\<rparr>"

text \<open>\<open>authorization.partition(" ")\<close>: the scheme, whether there was a blank, and the rest.\<close>

definition partition_blank :: "string \<Rightarrow> string \<times> bool \<times> string" where
  "partition_blank s = (takeWhile (\<lambda>c. c \<noteq> CHR '' '') s, CHR '' '' \<in> set s,
     drop 1 (dropWhile (\<lambda>c. c \<noteq> CHR '' '') s))"

text \<open>The loop over all credentials: the last one with the digest.\<close>

definition matched_principal :: "credential list \<Rightarrow> string \<Rightarrow> principal option" where
  "matched_principal cs digest =
     foldl (\<lambda>m c. if cd_token_digest c = digest then Some (cd_principal c) else m) None cs"

definition authenticate ::
  "codec \<Rightarrow> credential list \<Rightarrow> string option \<Rightarrow> auth_error + principal" where
  "authenticate K cs authorization = (case authorization of
     None \<Rightarrow> Inl missing_token
   | Some header \<Rightarrow> (case partition_blank header of
       (scheme, separator, token) \<Rightarrow>
         if \<not> separator \<or> py_lower scheme \<noteq> ''bearer'' then Inl invalid_token
         else if validate_presented_token token \<noteq> Inr () then Inl invalid_token
         else case matched_principal cs (sha256_hex K token) of
           None \<Rightarrow> Inl invalid_token | Some p \<Rightarrow> Inr p))"

definition require_scope :: "principal \<Rightarrow> string \<Rightarrow> auth_error + unit" where
  "require_scope p scope = (if has_scope p scope then Inr ()
     else Inl \<lparr>ae_code = ''insufficient_scope'',
       ae_message = ''the bearer token does not grant the required scope'', ae_status = 403,
       ae_challenge = ''Bearer error=\"insufficient_scope\", scope=\"'' @ scope @ ''\"''\<rparr>)"

end
