(* ===== verification/Serialization.thy ===== *)
theory Serialization
  imports Store
begin

text \<open>
  The JSON views of runtime state of runtime/serialization.py, which the services and the command
  line send out.
\<close>

definition effect_text :: "policy_effect \<Rightarrow> string" where
  "effect_text e = (case e of ALLOW \<Rightarrow> ''allow'' | DENY \<Rightarrow> ''deny''
     | REQUIRE_APPROVAL \<Rightarrow> ''require_approval'')"

definition action_payload :: "runtime_action \<Rightarrow> json" where
  "action_payload a = JObj
     [(''action_id'', JStr (ra_action_id a)),
      (''organization_id'', JStr (ra_organization_id a)),
      (''requested_by'', opt_str (ra_requested_by a)),
      (''namespace'', JStr (ra_namespace a)),
      (''tool_name'', JStr (ra_tool_name a)),
      (''arguments'', ra_arguments a),
      (''idempotency_key'', JStr (ra_idempotency_key a)),
      (''request_digest'', JStr (ra_request_digest a)),
      (''policy_version'', JStr (ra_policy_version a)),
      (''policy_rule'', JStr (ra_policy_rule a)),
      (''policy_effect'', JStr (effect_text (ra_policy_effect a))),
      (''status'', JStr (status_text (ra_status a))),
      (''created_at_ns'', JInt (ra_created_at_ns a)),
      (''updated_at_ns'', JInt (ra_updated_at_ns a)),
      (''expires_at_ns'', opt_int (ra_expires_at_ns a)),
      (''approval_ttl_ns'', opt_int (ra_approval_ttl_ns a)),
      (''execution_lease_expires_at_ns'', opt_int (ra_execution_lease_expires_at_ns a)),
      (''result'', if ra_result_available a then ra_result a else JNull),
      (''result_available'', JBool (ra_result_available a)),
      (''error'', opt_str (ra_error a)),
      (''decided_by'', opt_str (ra_decided_by a)),
      (''decision_reason'', opt_str (ra_decision_reason a))]"

definition receipt_payload :: "runtime_receipt \<Rightarrow> json" where
  "receipt_payload r = JObj
     [(''sequence'', JInt (rc_sequence r)),
      (''action_id'', JStr (rc_action_id r)),
      (''event'', JStr (event_text (rc_event r))),
      (''timestamp_ns'', JInt (rc_timestamp_ns r)),
      (''request_digest'', JStr (rc_request_digest r)),
      (''actor'', opt_str (rc_actor r)),
      (''detail'', opt_str (rc_detail r)),
      (''previous_hash'', opt_str (rc_previous_hash r)),
      (''receipt_hash'', JStr (rc_receipt_hash r))]"

definition pause_payload :: "runtime_pause \<Rightarrow> json" where
  "pause_payload p = JObj
     [(''namespace'', opt_str (rp_namespace p)),
      (''tool_name'', opt_str (rp_tool_name p)),
      (''paused_at_ns'', JInt (rp_paused_at_ns p)),
      (''paused_by'', JStr (rp_paused_by p)),
      (''reason'', JStr (rp_reason p))]"

definition limit_payload :: "runtime_limit \<Rightarrow> json" where
  "limit_payload l = JObj
     [(''limit_id'', JStr (rl_limit_id l)),
      (''namespace'', opt_str (rl_namespace l)),
      (''tool_name'', opt_str (rl_tool_name l)),
      (''window_ns'', JInt (rl_window_ns l)),
      (''max_actions'', opt_int (rl_max_actions l)),
      (''value_argument'', opt_str (rl_value_argument l)),
      (''max_value'', opt_int (rl_max_value l)),
      (''enabled'', JBool (rl_enabled l)),
      (''updated_at_ns'', JInt (rl_updated_at_ns l)),
      (''updated_by'', JStr (rl_updated_by l)),
      (''reason'', JStr (rl_reason l))]"

definition limit_usage_payload :: "runtime_limit_usage \<Rightarrow> json" where
  "limit_usage_payload u = JObj
     [(''limit_id'', JStr (ru_limit_id u)),
      (''window_started_at_ns'', JInt (ru_window_started_at_ns u)),
      (''actions_used'', JInt (ru_actions_used u)),
      (''value_used'', JInt (ru_value_used u))]"

definition control_receipt_payload :: "control_receipt \<Rightarrow> json" where
  "control_receipt_payload r = JObj
     [(''sequence'', JInt (cr_sequence r)),
      (''event'', JStr (control_event_text (cr_event r))),
      (''timestamp_ns'', JInt (cr_timestamp_ns r)),
      (''actor'', JStr (cr_actor r)),
      (''scope'', JStr (cr_scope r)),
      (''detail'', JStr (cr_detail r)),
      (''previous_hash'', opt_str (cr_previous_hash r)),
      (''receipt_hash'', JStr (cr_receipt_hash r))]"

end
