(* ===== verification/Api.thy ===== *)
theory Api
  imports Auth Protocol Serialization
begin

text \<open>
  The approval service of service/api.py over any runtime store: the parsing of its requests, its
  endpoints, its error responses, its OpenAPI document. A request is what the handlers ask the web
  framework for: three headers, the items of the query string, the action id of the path, and the
  byte chunks of the body. Routing itself and the sending of responses are the framework's.
\<close>

record request =
  hr_authorization :: "string option"
  hr_content_type :: "string option"
  hr_content_length :: "string option"
  hr_query :: "(string \<times> string) list"
  hr_action_id :: string
  hr_chunks :: "string list"

section \<open>Errors\<close>

record service_error =
  se_status :: int
  se_code :: string
  se_message :: string
  se_headers :: "(string \<times> string) list"

text \<open>What a handler raises: an error with its response, or an exception it does not foresee.\<close>

datatype failure = Service service_error | Uncaught runtime_error

definition service_failure :: "int \<Rightarrow> string \<Rightarrow> string \<Rightarrow> failure" where
  "service_failure status err_code message =
     Service \<lparr>se_status = status, se_code = err_code, se_message = message, se_headers = []\<rparr>"

definition not_found :: failure where
  "not_found = service_failure 404 ''action_not_found'' ''the requested runtime action does not exist''"

definition quoted :: "string \<Rightarrow> string" where
  "quoted s = [CHR 0x27] @ s @ [CHR 0x27]"

section \<open>Integers\<close>

text \<open>
  \<open>int(text)\<close> for text below code point 256: blanks around, a sign, digits with single underscores
  between them, and the interpreter's limit of 4300 digits.
\<close>

definition int_space :: "char \<Rightarrow> bool" where
  "int_space c = (let n = code c in (9 \<le> n \<and> n \<le> 13) \<or> n = 32 \<or> n = 133 \<or> n = 160)"

definition int_strip :: "string \<Rightarrow> string" where
  "int_strip s = rev (dropWhile int_space (rev (dropWhile int_space s)))"

fun digit_groups :: "string \<Rightarrow> bool" where
  "digit_groups [] = False"
| "digit_groups [c] = ascii_digit c"
| "digit_groups (c # d # r) =
     (ascii_digit c \<and> (if d = CHR ''_'' then digit_groups r else digit_groups (d # r)))"

definition int_of_text :: "string \<Rightarrow> int option" where
  "int_of_text s =
     (let t = int_strip s;
          d = (case t of [] \<Rightarrow> [] | c # r \<Rightarrow> if c \<in> {CHR ''+'', CHR ''-''} then r else t);
          ds = filter (\<lambda>c. c \<noteq> CHR ''_'') d
      in if digit_groups d \<and> length ds \<le> 4300
         then Some (if take 1 t = ''-'' then - int (read_nat ds) else int (read_nat ds)) else None)"

section \<open>Request parsing\<close>

definition path_action_id :: "request \<Rightarrow> failure + string" where
  "path_action_id rq =
     (if blank (hr_action_id rq) \<or> 128 < length (hr_action_id rq)
      then Inl (service_failure 400 ''invalid_action_id'' ''action_id must contain 1 to 128 characters'')
      else Inr (hr_action_id rq))"

definition reject_unknown_query :: "request \<Rightarrow> string list \<Rightarrow> failure + unit" where
  "reject_unknown_query rq allowed =
     (let unknown = sort (remdups (filter (\<lambda>k. k \<notin> set allowed) (map fst (hr_query rq))))
      in if unknown \<noteq> [] then Inl (service_failure 400 ''unknown_query_parameters''
           (''unknown query parameters: '' @ join_on '', '' unknown))
         else Inr ())"

definition single_query_value :: "request \<Rightarrow> string \<Rightarrow> failure + string option" where
  "single_query_value rq name =
     (case map snd (filter (\<lambda>(k, v). k = name) (hr_query rq)) of
        [] \<Rightarrow> Inr None
      | [v] \<Rightarrow> Inr (Some v)
      | _ \<Rightarrow> Inl (service_failure 400 ''duplicate_query_parameter''
          (''query parameter '' @ quoted name @ '' must not be repeated'')))"

definition range_message :: "int \<Rightarrow> int option \<Rightarrow> string" where
  "range_message minimum maximum = (case maximum of
     Some m \<Rightarrow> ''between '' @ show_int minimum @ '' and '' @ show_int m
   | None \<Rightarrow> ''at least '' @ show_int minimum)"

definition parse_nonnegative_integer ::
  "request \<Rightarrow> string \<Rightarrow> int \<Rightarrow> int \<Rightarrow> int option \<Rightarrow> failure + int" where
  "parse_nonnegative_integer rq name initial minimum maximum =
   bind_res (single_query_value rq name) (\<lambda>raw. case raw of
     None \<Rightarrow> Inr initial
   | Some t \<Rightarrow> (case int_of_text t of
       None \<Rightarrow> Inl (service_failure 400 (''invalid_'' @ name) (name @ '' must be an integer''))
     | Some v \<Rightarrow>
         if v < minimum \<or> (case maximum of None \<Rightarrow> False | Some m \<Rightarrow> m < v) then
           Inl (service_failure 400 (''invalid_'' @ name) (name @ '' must be '' @ range_message minimum maximum))
         else Inr v))"

definition parse_limit :: "request \<Rightarrow> failure + int" where
  "parse_limit rq = parse_nonnegative_integer rq ''limit'' 50 1 (Some 100)"

definition status_of_text :: "string \<Rightarrow> runtime_status option" where
  "status_of_text t = List.find (\<lambda>st. status_text st = t)
     [PENDING, APPROVED, REJECTED, DENIED, EXECUTING, SUCCEEDED, UNKNOWN, EXPIRED]"

definition parse_status :: "string option \<Rightarrow> failure + runtime_status option" where
  "parse_status raw = (case raw of None \<Rightarrow> Inr None
   | Some t \<Rightarrow> (case status_of_text t of
       None \<Rightarrow> Inl (service_failure 400 ''invalid_status'' ''status is not a recognized runtime action state'')
     | Some st \<Rightarrow> Inr (Some st)))"

section \<open>Decision bodies\<close>

definition max_body_bytes :: int where
  "max_body_bytes = 16384"

definition body_too_large :: failure where
  "body_too_large = service_failure 413 ''body_too_large'' ''request body must not exceed 16384 bytes''"

text \<open>The loop over the chunks of the stream, with the bytes and their number so far.\<close>

fun read_chunks :: "string list \<Rightarrow> string \<Rightarrow> failure + string" where
  "read_chunks [] body = Inr body"
| "read_chunks (chunk # chunks) body =
     (if max_body_bytes < int (length body + length chunk) then Inl body_too_large
      else read_chunks chunks (body @ chunk))"

definition read_limited_body :: "request \<Rightarrow> failure + string" where
  "read_limited_body rq =
   bind_res (case hr_content_length rq of
       None \<Rightarrow> Inr ()
     | Some raw \<Rightarrow> (case int_of_text raw of
         None \<Rightarrow> Inl (service_failure 400 ''invalid_content_length'' ''Content-Length must be an integer'')
       | Some n \<Rightarrow> if max_body_bytes < n then Inl body_too_large else Inr ()))
     (\<lambda>_. read_chunks (hr_chunks rq) [])"

text \<open>UTF-8, for the code points below 256.\<close>

fun utf8_decode :: "string \<Rightarrow> string option" where
  "utf8_decode [] = Some []"
| "utf8_decode (c # r) =
     (if code c < 128 then map_option (\<lambda>t. c # t) (utf8_decode r)
      else case r of [] \<Rightarrow> None
        | d # r' \<Rightarrow>
            if code c \<in> {194, 195} \<and> 128 \<le> code d \<and> code d < 192
            then map_option (\<lambda>t. char_of ((code c - 192) * 64 + (code d - 128)) # t) (utf8_decode r')
            else None)"

definition media_type :: "request \<Rightarrow> string" where
  "media_type rq = py_lower (py_strip (takeWhile (\<lambda>c. c \<noteq> CHR '';'')
     (case hr_content_type rq of None \<Rightarrow> [] | Some t \<Rightarrow> t)))"

definition check_reason :: "json \<Rightarrow> failure + string option" where
  "check_reason v = (case v of
     JNull \<Rightarrow> Inr None
   | JStr reason \<Rightarrow>
       if blank reason \<or> 2000 < length reason then Inl (service_failure 400 ''invalid_reason''
         ''reason must contain 1 to 2000 characters when provided'')
       else if list_ex (\<lambda>c. code c < 32 \<and> code c \<notin> {9, 10, 13}) reason then
         Inl (service_failure 400 ''invalid_reason'' ''reason contains unsupported control characters'')
       else Inr (Some reason)
   | _ \<Rightarrow> Inl (service_failure 400 ''invalid_reason''
       ''reason must contain 1 to 2000 characters when provided''))"

definition read_decision_reason :: "codec \<Rightarrow> request \<Rightarrow> failure + string option" where
  "read_decision_reason K rq =
   bind_res (read_limited_body rq) (\<lambda>body.
   if body = [] then Inr None
   else if media_type rq \<noteq> ''application/json'' then
     Inl (service_failure 415 ''unsupported_media_type'' ''decision bodies must use application/json'')
   else case Option.bind (utf8_decode body) (loads K) of
     None \<Rightarrow> Inl (service_failure 400 ''invalid_json'' ''request body is not valid UTF-8 JSON'')
   | Some (JObj data) \<Rightarrow>
       (let unknown = sort (filter (\<lambda>k. k \<noteq> ''reason'') (map fst data))
        in if unknown \<noteq> [] then Inl (service_failure 400 ''unknown_body_fields''
             (''unknown decision body fields: '' @ join_on '', '' unknown))
           else check_reason (dict_get data ''reason'' JNull))
   | Some _ \<Rightarrow> Inl (service_failure 400 ''invalid_body'' ''decision body must be a JSON object''))"

section \<open>Endpoints\<close>

definition authorize :: "codec \<Rightarrow> credential list \<Rightarrow> request \<Rightarrow> string \<Rightarrow> failure + principal" where
  "authorize K cs rq scope =
     (case bind_res (authenticate K cs (hr_authorization rq)) (\<lambda>p.
        bind_res (require_scope p scope) (\<lambda>_. Inr p)) of
        Inr p \<Rightarrow> Inr p
      | Inl e \<Rightarrow> Inl (Service \<lparr>se_status = ae_status e, se_code = ae_code e, se_message = ae_message e,
          se_headers = [(''WWW-Authenticate'', ae_challenge e)]\<rparr>))"

text \<open>The actions after the cursor; the loop without a \<open>break\<close> raises.\<close>

fun seek_action :: "string \<Rightarrow> runtime_action list \<Rightarrow> runtime_action list option" where
  "seek_action i [] = None"
| "seek_action i (a # as) = (if ra_action_id a = i then Some as else seek_action i as)"

definition action_page ::
  "int \<Rightarrow> string option \<Rightarrow> runtime_action list \<Rightarrow> failure + (runtime_action list \<times> string option)" where
  "action_page limit after actions =
   bind_res (case after of None \<Rightarrow> Inr actions
     | Some i \<Rightarrow> (case seek_action i actions of
         Some rest \<Rightarrow> Inr rest
       | None \<Rightarrow> Inl (service_failure 400 ''invalid_cursor''
           ''after does not identify an action in the selected result set'')))
     (\<lambda>rest. let page = take (nat limit) rest
        in Inr (page, if limit < int (length rest) \<and> page \<noteq> [] then Some (ra_action_id (last page)) else None))"

definition list_query ::
  "codec \<Rightarrow> credential list \<Rightarrow> request \<Rightarrow> failure + (principal \<times> runtime_status option \<times> int)" where
  "list_query K cs rq =
   bind_res (authorize K cs rq ''actions:read'') (\<lambda>p.
   bind_res (reject_unknown_query rq [''status'', ''limit'', ''after'']) (\<lambda>_.
   bind_res (single_query_value rq ''status'') (\<lambda>raw_status.
   bind_res (parse_status raw_status) (\<lambda>status.
   bind_res (parse_limit rq) (\<lambda>limit. Inr (p, status, limit))))))"

definition api_list_actions ::
  "'s store_ops \<Rightarrow> codec \<Rightarrow> credential list \<Rightarrow> int \<Rightarrow> request \<Rightarrow> 's \<Rightarrow> (failure + json) \<times> 's" where
  "api_list_actions ops K cs now rq s = (case list_query K cs rq of
     Inl e \<Rightarrow> (Inl e, s)
   | Inr (p, status, limit) \<Rightarrow> (case st_list_actions ops now status s of
       (Inl e, s') \<Rightarrow> (Inl (Uncaught e), s')
     | (Inr listed, s') \<Rightarrow>
         (bind_res (single_query_value rq ''after'') (\<lambda>after.
          bind_res (action_page limit after (filter (can_access_action p) listed)) (\<lambda>(page, cursor).
          Inr (JObj [(''data'', JList (map action_payload page)), (''next_cursor'', opt_str cursor)]))), s')))"

definition api_get_action ::
  "'s store_ops \<Rightarrow> codec \<Rightarrow> credential list \<Rightarrow> int \<Rightarrow> request \<Rightarrow> 's \<Rightarrow> (failure + json) \<times> 's" where
  "api_get_action ops K cs now rq s =
     (case bind_res (authorize K cs rq ''actions:read'') (\<lambda>p.
         bind_res (reject_unknown_query rq []) (\<lambda>_.
         bind_res (path_action_id rq) (\<lambda>i. Inr (p, i)))) of
        Inl e \<Rightarrow> (Inl e, s)
      | Inr (p, i) \<Rightarrow> (case st_get_action ops now i s of
          (Inl (KeyError m), s') \<Rightarrow> (Inl not_found, s')
        | (Inl e, s') \<Rightarrow> (Inl (Uncaught e), s')
        | (Inr a, s') \<Rightarrow>
            (if can_access_action p a then Inr (JObj [(''data'', action_payload a)]) else Inl not_found, s')))"

text \<open>\<open>str(error)\<close> of the four refusals of \<open>decide_authorized\<close>.\<close>

definition refusal_message :: "string \<Rightarrow> string" where
  "refusal_message c =
     (if c = ''organization_mismatch'' then ''the reviewer cannot access this organization'' @ [CHR 0x27] @ ''s action''
      else if c = ''namespace_forbidden'' then ''the reviewer cannot access this action namespace''
      else if c = ''decision_forbidden'' then ''the reviewer is not allowed to make this decision''
      else ''the requester cannot approve or reject their own action'')"

text \<open>The \<open>except\<close> clauses of \<open>_decide\<close>, in their order.\<close>

definition decision_failure :: "runtime_error \<Rightarrow> failure" where
  "decision_failure e = (case e of
     KeyError _ \<Rightarrow> not_found
   | ApprovalAuthorizationError c \<Rightarrow>
       if c \<in> {''organization_mismatch'', ''namespace_forbidden''} then not_found
       else service_failure 403 c (refusal_message c)
   | InvalidActionState _ _ \<Rightarrow> service_failure 409 ''action_state_conflict''
       ''the action cannot accept that decision in its current state''
   | _ \<Rightarrow> if error_action e \<noteq> None then service_failure 409 ''action_state_conflict''
       ''the action cannot accept that decision in its current state''
     else Uncaught e)"

definition decide_store ::
  "'s store_ops \<Rightarrow> int \<Rightarrow> principal \<Rightarrow> string \<Rightarrow> decision \<Rightarrow> string option \<Rightarrow> 's \<Rightarrow>
   (runtime_error + runtime_action) \<times> 's" where
  "decide_store ops now p i d reason s =
     (if pc_organization_id p = None then st_decide ops now i d (pc_subject p) reason s
      else case principal_authorization p of
        Inl e \<Rightarrow> (Inl e, s)
      | Inr auth \<Rightarrow> st_decide_authorized ops now i d auth reason s)"

definition api_decide ::
  "'s store_ops \<Rightarrow> codec \<Rightarrow> credential list \<Rightarrow> int \<Rightarrow> decision \<Rightarrow> request \<Rightarrow> 's \<Rightarrow>
   (failure + json) \<times> 's" where
  "api_decide ops K cs now d rq s =
     (case bind_res (authorize K cs rq ''actions:decide'') (\<lambda>p.
         bind_res (reject_unknown_query rq []) (\<lambda>_.
         bind_res (path_action_id rq) (\<lambda>i.
         bind_res (read_decision_reason K rq) (\<lambda>reason. Inr (p, i, reason))))) of
        Inl e \<Rightarrow> (Inl e, s)
      | Inr (p, i, reason) \<Rightarrow> (case decide_store ops now p i d reason s of
          (Inl e, s') \<Rightarrow> (Inl (decision_failure e), s')
        | (Inr a, s') \<Rightarrow> (Inr (JObj [(''data'', action_payload a)]), s')))"

definition audit_page :: "int \<Rightarrow> runtime_receipt list \<Rightarrow> runtime_receipt list \<times> int option" where
  "audit_page limit rs = (let page = take (nat limit) rs
     in (page, if limit < int (length rs) \<and> page \<noteq> [] then Some (rc_sequence (last page)) else None))"

definition audit_query ::
  "codec \<Rightarrow> credential list \<Rightarrow> request \<Rightarrow> failure + (principal \<times> string option \<times> int \<times> int)" where
  "audit_query K cs rq =
   bind_res (authorize K cs rq ''audit:read'') (\<lambda>p.
   bind_res (reject_unknown_query rq [''action_id'', ''after_sequence'', ''limit'']) (\<lambda>_.
   bind_res (single_query_value rq ''action_id'') (\<lambda>i.
   bind_res (case i of None \<Rightarrow> Inr ()
     | Some t \<Rightarrow> if blank t \<or> 128 < length t then
         Inl (service_failure 400 ''invalid_action_id'' ''action_id must contain 1 to 128 characters'')
       else Inr ()) (\<lambda>_.
   bind_res (parse_nonnegative_integer rq ''after_sequence'' 0 0 None) (\<lambda>after_sequence.
   bind_res (parse_limit rq) (\<lambda>limit. Inr (p, i, after_sequence, limit)))))))"

definition api_list_audit ::
  "'s store_ops \<Rightarrow> codec \<Rightarrow> credential list \<Rightarrow> int \<Rightarrow> request \<Rightarrow> 's \<Rightarrow> (failure + json) \<times> 's" where
  "api_list_audit ops K cs now rq s = (case audit_query K cs rq of
     Inl e \<Rightarrow> (Inl e, s)
   | Inr (p, i, after_sequence, limit) \<Rightarrow> (case st_list_actions ops now None s of
       (Inl e, s') \<Rightarrow> (Inl (Uncaught e), s')
     | (Inr listed, s') \<Rightarrow>
         (let visible = map ra_action_id (filter (can_access_action p) listed) in
          if (case i of None \<Rightarrow> False | Some t \<Rightarrow> t \<notin> set visible) then (Inl not_found, s')
          else case audit_page limit (filter (\<lambda>r. after_sequence < rc_sequence r \<and> rc_action_id r \<in> set visible)
              (st_receipts ops i s')) of
            (page, next_sequence) \<Rightarrow> (Inr (JObj [(''data'', JList (map receipt_payload page)),
              (''next_sequence'', opt_int next_sequence),
              (''chain_valid'', JBool (st_verify_receipt_chain ops s'))]), s'))))"

section \<open>The application\<close>

text \<open>\<open>agentbarrier.__version__\<close>\<close>

definition package_version :: string where
  "package_version = ''1.1.0''"

definition readiness :: "string \<Rightarrow> json" where
  "readiness schema_version = JObj [(''status'', JStr ''ready''),
     (''schema_version'', JStr schema_version), (''version'', JStr package_version)]"

datatype endpoint = Readiness | Openapi | List_Actions | Get_Action | Approve_Action | Reject_Action | List_Audit

text \<open>The routes: path, method and handler.\<close>

definition api_routes :: "(string \<times> string \<times> endpoint) list" where
  "api_routes =
     [(''/health/ready'', ''GET'', Readiness),
      (''/openapi.json'', ''GET'', Openapi),
      (''/v1/actions'', ''GET'', List_Actions),
      (''/v1/actions/{action_id:str}'', ''GET'', Get_Action),
      (''/v1/actions/{action_id:str}/approve'', ''POST'', Approve_Action),
      (''/v1/actions/{action_id:str}/reject'', ''POST'', Reject_Action),
      (''/v1/audit'', ''GET'', List_Audit)]"

definition action_id_parameter :: json where
  "action_id_parameter = JObj [(''name'', JStr ''action_id''), (''in'', JStr ''path''),
     (''required'', JBool True),
     (''schema'', JObj [(''type'', JStr ''string''), (''minLength'', JInt 1), (''maxLength'', JInt 128)])]"

definition described :: "string \<times> string \<Rightarrow> string \<times> json" where
  "described sd = (fst sd, JObj [(''description'', JStr (snd sd))])"

definition bearer_security :: json where
  "bearer_security = JList [JObj [(''bearerAuth'', JList [])]]"

definition decision_operation :: "string \<Rightarrow> string \<Rightarrow> json" where
  "decision_operation operation_id summary = JObj
     [(''operationId'', JStr operation_id),
      (''summary'', JStr summary),
      (''security'', bearer_security),
      (''x-agentbarrier-scope'', JStr ''actions:decide''),
      (''parameters'', JList [action_id_parameter]),
      (''requestBody'', JObj [(''required'', JBool False), (''content'', JObj [(''application/json'',
         JObj [(''schema'', JObj [(''$ref'', JStr ''#/components/schemas/DecisionRequest'')])])])]),
      (''responses'', JObj (map described
         [(''200'', ''Decision recorded or replayed idempotently''),
          (''401'', ''Missing or invalid bearer token''),
          (''403'', ''Insufficient scope''),
          (''404'', ''Action not found''),
          (''409'', ''Action state conflict'')]))]"

definition action_response :: "(string \<times> string) list" where
  "action_response = [(''200'', ''Runtime action''), (''401'', ''Missing or invalid bearer token''),
     (''403'', ''Insufficient scope'')]"

definition openapi_paths :: "(string \<times> json) list" where
  "openapi_paths =
     [(''/health/ready'', JObj [(''get'', JObj
         [(''operationId'', JStr ''readiness''),
          (''responses'', JObj (map described [(''200'', ''Service is ready'')]))])]),
      (''/openapi.json'', JObj [(''get'', JObj
         [(''operationId'', JStr ''openapiDocument''),
          (''responses'', JObj (map described [(''200'', ''OpenAPI document'')]))])]),
      (''/v1/actions'', JObj [(''get'', JObj
         [(''operationId'', JStr ''listActions''), (''security'', bearer_security),
          (''x-agentbarrier-scope'', JStr ''actions:read''),
          (''responses'', JObj (map described action_response))])]),
      (''/v1/actions/{action_id}'', JObj [(''get'', JObj
         [(''operationId'', JStr ''getAction''), (''security'', bearer_security),
          (''x-agentbarrier-scope'', JStr ''actions:read''),
          (''parameters'', JList [action_id_parameter]),
          (''responses'', JObj (map described (action_response @ [(''404'', ''Action not found'')])))])]),
      (''/v1/actions/{action_id}/approve'', JObj [(''post'',
         decision_operation ''approveAction'' ''Approve an exact pending action'')]),
      (''/v1/actions/{action_id}/reject'', JObj [(''post'',
         decision_operation ''rejectAction'' ''Reject an exact pending action'')]),
      (''/v1/audit'', JObj [(''get'', JObj
         [(''operationId'', JStr ''listAuditReceipts''), (''security'', bearer_security),
          (''x-agentbarrier-scope'', JStr ''audit:read''),
          (''responses'', JObj (map described action_response))])])]"

definition openapi_document :: json where
  "openapi_document = JObj
     [(''openapi'', JStr ''3.1.0''),
      (''info'', JObj [(''title'', JStr ''AgentBarrier Approval API''),
         (''version'', JStr package_version),
         (''description'', JStr ''Scoped review and audit operations for exact AI-agent tool calls.'')]),
      (''paths'', JObj openapi_paths),
      (''components'', JObj
         [(''securitySchemes'', JObj [(''bearerAuth'', JObj [(''type'', JStr ''http''), (''scheme'', JStr ''bearer'')])]),
          (''schemas'', JObj [(''DecisionRequest'', JObj
             [(''type'', JStr ''object''),
              (''properties'', JObj [(''reason'', JObj [(''type'', JStr ''string''), (''maxLength'', JInt 2000)])]),
              (''additionalProperties'', JBool False)])])])]"

text \<open>The handler of each route.\<close>

definition api_endpoint ::
  "'s store_ops \<Rightarrow> codec \<Rightarrow> credential list \<Rightarrow> string \<Rightarrow> int \<Rightarrow> endpoint \<Rightarrow> request \<Rightarrow> 's \<Rightarrow>
   (failure + json) \<times> 's" where
  "api_endpoint ops K cs schema_version now e rq s = (case e of
     Readiness \<Rightarrow> (Inr (readiness schema_version), s)
   | Openapi \<Rightarrow> (Inr openapi_document, s)
   | List_Actions \<Rightarrow> api_list_actions ops K cs now rq s
   | Get_Action \<Rightarrow> api_get_action ops K cs now rq s
   | Approve_Action \<Rightarrow> api_decide ops K cs now APPROVE rq s
   | Reject_Action \<Rightarrow> api_decide ops K cs now REJECT rq s
   | List_Audit \<Rightarrow> api_list_audit ops K cs now rq s)"

section \<open>Responses\<close>

record response =
  re_status :: int
  re_headers :: "(string \<times> string) list"
  re_body :: json

definition error_response ::
  "string \<Rightarrow> int \<Rightarrow> string \<Rightarrow> string \<Rightarrow> (string \<times> string) list \<Rightarrow> response" where
  "error_response request_id status err_code message headers =
     \<lparr>re_status = status, re_headers = headers, re_body = JObj [(''error'', JObj
        [(''code'', JStr err_code), (''message'', JStr message), (''request_id'', JStr request_id)])]\<rparr>"

definition service_error_handler :: "string \<Rightarrow> service_error \<Rightarrow> response" where
  "service_error_handler request_id e =
     error_response request_id (se_status e) (se_code e) (se_message e) (se_headers e)"

definition http_error_handler :: "string \<Rightarrow> int \<Rightarrow> (string \<times> string) list \<Rightarrow> response" where
  "http_error_handler request_id status headers = error_response request_id status
     (if status = 404 then ''route_not_found'' else ''method_not_allowed'')
     (if status = 404 then ''the requested route does not exist'' else ''the HTTP method is not allowed'')
     headers"

definition internal_error_handler :: "string \<Rightarrow> response" where
  "internal_error_handler request_id = error_response request_id 500 ''internal_error''
     ''the approval service could not complete the request'' []"

definition respond :: "string \<Rightarrow> failure + json \<Rightarrow> response" where
  "respond request_id r = (case r of
     Inr body \<Rightarrow> \<lparr>re_status = 200, re_headers = [], re_body = body\<rparr>
   | Inl (Service e) \<Rightarrow> service_error_handler request_id e
   | Inl (Uncaught _) \<Rightarrow> internal_error_handler request_id)"

text \<open>The request identifier of the middleware: the caller's when it is safe, or a fresh one.\<close>

definition request_id_ok :: "string \<Rightarrow> bool" where
  "request_id_ok t = (1 \<le> length t \<and> length t \<le> 128 \<and> list_all identifier_char t)"

definition request_id_of :: "string option \<Rightarrow> string \<Rightarrow> string" where
  "request_id_of candidate fresh = (case candidate of
     None \<Rightarrow> fresh | Some c \<Rightarrow> if request_id_ok c then c else fresh)"

definition put_header :: "string \<Rightarrow> string \<Rightarrow> (string \<times> string) list \<Rightarrow> (string \<times> string) list" where
  "put_header name v headers = filter (\<lambda>(k, _). py_lower k \<noteq> py_lower name) headers @ [(name, v)]"

definition send_with_headers :: "string \<Rightarrow> (string \<times> string) list \<Rightarrow> (string \<times> string) list" where
  "send_with_headers request_id headers =
     put_header ''Referrer-Policy'' ''no-referrer''
     (put_header ''Content-Security-Policy'' (''default-src '' @ quoted ''none'')
     (put_header ''X-Content-Type-Options'' ''nosniff''
     (put_header ''Cache-Control'' ''no-store''
     (put_header ''X-Request-Id'' request_id headers))))"

end
