(* ===== verification/Auth_Props.thy ===== *)
theory Auth_Props
  imports Auth
begin

text \<open>
  What a loaded auth document guarantees, and what the authentication of a header decides: lemmas
  on the loader's checks, the meaning of a matched token, and the separation of the tenants.
\<close>

section \<open>Matching a token\<close>

lemma partition_blank_iff:
  "partition_blank s = (scheme, True, token) \<longleftrightarrow> s = scheme @ '' '' @ token \<and> CHR '' '' \<notin> set scheme"
proof
  assume eq: "partition_blank s = (scheme, True, token)"
  then have blank: "CHR '' '' \<in> set s" and scheme: "scheme = takeWhile (\<lambda>c. c \<noteq> CHR '' '') s"
    and token: "token = drop 1 (dropWhile (\<lambda>c. c \<noteq> CHR '' '') s)"
    by (auto simp: partition_blank_def)
  obtain c cs where rest: "dropWhile (\<lambda>c. c \<noteq> CHR '' '') s = c # cs"
    using blank by (cases "dropWhile (\<lambda>c. c \<noteq> CHR '' '') s") (auto simp: dropWhile_eq_Nil_conv)
  then have "c = CHR '' ''" using hd_dropWhile [of "\<lambda>c. c \<noteq> CHR '' ''" s] by auto
  with rest token have "dropWhile (\<lambda>c. c \<noteq> CHR '' '') s = '' '' @ token" by simp
  then have "s = scheme @ '' '' @ token"
    using takeWhile_dropWhile_id [of "\<lambda>c. c \<noteq> CHR '' ''" s] scheme by metis
  moreover have "CHR '' '' \<notin> set scheme" using scheme by (auto dest: set_takeWhileD)
  ultimately show "s = scheme @ '' '' @ token \<and> CHR '' '' \<notin> set scheme" by blast
next
  assume "s = scheme @ '' '' @ token \<and> CHR '' '' \<notin> set scheme"
  then show "partition_blank s = (scheme, True, token)"
    by (auto simp: partition_blank_def takeWhile_append dropWhile_append)
qed

lemma matched_fold:
  assumes "distinct (map cd_token_digest cs)"
  shows "foldl (\<lambda>m c. if cd_token_digest c = digest then Some (cd_principal c) else m) m cs =
    (case find_row cd_token_digest digest cs of None \<Rightarrow> m | Some c \<Rightarrow> Some (cd_principal c))"
  using assms
proof (induction cs arbitrary: m)
  case (Cons c cs)
  show ?case
  proof (cases "cd_token_digest c = digest")
    case True
    with Cons.prems have "find_row cd_token_digest digest cs = None"
      by (auto simp: find_row_None_iff)
    with True Cons show ?thesis by simp
  qed (use Cons in simp)
qed simp

lemma matched_principal_iff:
  assumes "distinct (map cd_token_digest cs)"
  shows "matched_principal cs digest = Some p \<longleftrightarrow>
    (\<exists>c \<in> set cs. cd_token_digest c = digest \<and> cd_principal c = p)"
  using matched_fold [OF assms, of digest None] find_row_unique_iff [OF assms, of digest]
  by (auto simp: matched_principal_def split: option.splits) (metis option.distinct(1))

text \<open>What the header of a caller presents: a token after the scheme, of the documented shape.\<close>

definition presents :: "string \<Rightarrow> string \<Rightarrow> bool" where
  "presents header token \<longleftrightarrow> (\<exists>scheme. header = scheme @ '' '' @ token \<and> CHR '' '' \<notin> set scheme \<and>
     py_lower scheme = ''bearer'') \<and> 16 \<le> length token \<and> length token \<le> 512 \<and> list_all token_char token"

lemma validate_presented_token_iff [result_simps]:
  "validate_presented_token token = Inr () \<longleftrightarrow>
     16 \<le> length token \<and> length token \<le> 512 \<and> list_all token_char token"
  by (auto simp: validate_presented_token_def)

lemma make_auth_InrD: "make_auth cs0 = Inr cs \<Longrightarrow> cs = cs0 \<and> cs \<noteq> [] \<and> length cs \<le> 100 \<and>
    distinct (map cd_token_digest cs)"
  by (auto simp: make_auth_def split: if_splits)

lemma authenticate_cases:
  assumes "distinct (map cd_token_digest cs)"
  shows "authenticate K cs (Some header) = Inr p \<longleftrightarrow>
    (\<exists>token. presents header token \<and>
       (\<exists>c \<in> set cs. cd_token_digest c = sha256_hex K token \<and> cd_principal c = p))"
proof -
  obtain scheme sep token where part: "partition_blank header = (scheme, sep, token)"
    using prod_cases3 by blast
  have "authenticate K cs (Some header) = Inr p \<longleftrightarrow>
      sep \<and> py_lower scheme = ''bearer'' \<and> validate_presented_token token = Inr () \<and>
      matched_principal cs (sha256_hex K token) = Some p"
    using part by (auto simp: authenticate_def split: option.splits)
  moreover have "presents header t \<longleftrightarrow> sep \<and> py_lower scheme = ''bearer'' \<and> t = token \<and>
      validate_presented_token token = Inr ()" for t
    using part partition_blank_iff [of header _ t] unfolding presents_def validate_presented_token_iff
    by fastforce
  ultimately show ?thesis using matched_principal_iff [OF assms] by auto
qed

section \<open>What a loaded document holds\<close>

text \<open>The branches of a check that returns, as existential facts: what a parser's success says.\<close>

lemma checked_Inr:
  "(case x of None \<Rightarrow> Inl e | Some a \<Rightarrow> p a) = Inr y \<longleftrightarrow> (\<exists>a. x = Some a \<and> p a = Inr y)"
  "(if c then Inl e else r) = Inr y \<longleftrightarrow> \<not> c \<and> r = Inr y"
  by (auto split: option.splits)

lemma json_case_Inr [result_simps]:
  "(case j of JStr s \<Rightarrow> f s | _ \<Rightarrow> Inl e) = Inr y \<longleftrightarrow> (\<exists>s. j = JStr s \<and> f s = Inr y)"
  "(case j of JBool b \<Rightarrow> g b | _ \<Rightarrow> Inl e) = Inr y \<longleftrightarrow> (\<exists>b. j = JBool b \<and> g b = Inr y)"
  "(case j of JList js \<Rightarrow> h js | _ \<Rightarrow> Inl e) = Inr y \<longleftrightarrow> (\<exists>js. j = JList js \<and> h js = Inr y)"
  "(case j of JObj kvs \<Rightarrow> k kvs | _ \<Rightarrow> Inl e) = Inr y \<longleftrightarrow> (\<exists>kvs. j = JObj kvs \<and> k kvs = Inr y)"
  by (cases j; simp)+

definition principal_ok :: "principal \<Rightarrow> bool" where
  "principal_ok p \<longleftrightarrow> identity_ok 128 (pc_subject p) \<and> set (pc_scopes p) \<subseteq> set all_service_scopes \<and>
     (case pc_organization_id p of
        None \<Rightarrow> pc_kind p = ''legacy'' \<and> pc_roles p = [] \<and> pc_namespaces p = [] \<and> pc_decisions p = []
      | Some org \<Rightarrow> identifier_ok org \<and> pc_kind p \<in> {''user'', ''service''} \<and> pc_roles p \<noteq> [] \<and>
          pc_namespaces p \<noteq> [] \<and> (has_scope p ''actions:decide'' \<longleftrightarrow> pc_decisions p \<noteq> []))"

lemma make_principal_iff: "make_principal p = Inr q \<longleftrightarrow> p = q \<and> principal_ok p"
  by (auto simp: make_principal_def principal_ok_def identity_ok_def has_scope_def result_simps
      split: option.splits)

lemma make_credential_InrD: "make_credential p d = Inr c \<Longrightarrow> cd_principal c = p \<and>
    cd_token_digest c = py_lower d \<and> length (cd_token_digest c) = 64"
  by (auto simp: make_credential_def py_lower_def split: if_splits)

lemma parse_v1_credential_InrD:
  assumes "parse_v1_credential v = Inr c"
  shows "principal_ok (cd_principal c) \<and> pc_organization_id (cd_principal c) = None"
proof -
  obtain subject scopes p d where p: "make_principal (legacy_principal subject scopes) = Inr p"
    "make_credential p d = Inr c"
    using assms unfolding parse_v1_credential_def json_case_Inr bind_res_Inr_iff prod.case checked_Inr
    by (elim exE conjE) blast
  then show ?thesis using make_credential_InrD [OF p(2)]
    by (auto simp: make_principal_iff legacy_principal_def)
qed

lemma map_res_validate_iff [result_simps]:
  "(\<exists>us. map_res (\<lambda>i. validate_identifier i name) items = Inr us) \<longleftrightarrow> list_all identifier_ok items"
  by (induction items) (auto simp: result_simps)

lemma string_set_InrD: "string_set v name = Inr items \<Longrightarrow> list_all identifier_ok items \<and> distinct items"
  using map_res_validate_iff [of name items]
  by (auto simp: string_set_def result_simps split: option.splits if_splits)

lemma parse_organization_InrD: "parse_organization v = Inr og \<Longrightarrow>
    identifier_ok (og_identifier og) \<and> og_namespaces og \<noteq> [] \<and> list_all identifier_ok (og_namespaces og)"
  by (auto simp: parse_organization_def result_simps split: if_splits dest!: string_set_InrD)

lemma parse_v2_credential_InrD:
  assumes "parse_v2_credential ogs ros v = Inr c"
  shows "principal_ok (cd_principal c) \<and> (\<exists>og \<in> set ogs.
    pc_organization_id (cd_principal c) = Some (og_identifier og) \<and>
    pc_namespaces (cd_principal c) = og_namespaces og \<and>
    pc_require_separate_approver (cd_principal c) = og_require_separate_approver og)"
  using assms by (auto simp: parse_v2_credential_def result_simps make_principal_iff Let_def
      split: option.splits if_splits dest!: make_credential_InrD find_row_SomeD)

lemma check_owners_InrD:
  assumes "check_owners owners nss = Inr ()"
  shows "\<forall>(n, g) \<in> set nss. map_of owners n = None \<or> map_of owners n = Some g"
    and "\<forall>(n, g) \<in> set nss. \<forall>(n', g') \<in> set nss. n = n' \<longrightarrow> g = g'"
proof -
  have both: "(\<forall>(n, g) \<in> set nss. map_of owners n = None \<or> map_of owners n = Some g) \<and>
      (\<forall>(n, g) \<in> set nss. \<forall>(n', g') \<in> set nss. n = n' \<longrightarrow> g = g')"
    using assms
  proof (induction owners nss rule: check_owners.induct)
    case (2 owners n g rest)
    show ?case
    proof (cases "map_of owners n")
      case None
      with 2 show ?thesis by (auto split: if_splits)
    next
      case (Some owner)
      with 2 show ?thesis by (auto split: if_splits)
    qed
  qed simp
  then show "\<forall>(n, g) \<in> set nss. map_of owners n = None \<or> map_of owners n = Some g"
    and "\<forall>(n, g) \<in> set nss. \<forall>(n', g') \<in> set nss. n = n' \<longrightarrow> g = g'" by blast+
qed

text \<open>The credentials of a service: at most a hundred, with distinct digests and valid principals.\<close>

definition auth_ok :: "credential list \<Rightarrow> bool" where
  "auth_ok cs \<longleftrightarrow> cs \<noteq> [] \<and> length cs \<le> 100 \<and> distinct (map cd_token_digest cs) \<and>
     (\<forall>c \<in> set cs. principal_ok (cd_principal c) \<and> list_all identifier_ok (pc_namespaces (cd_principal c)))"

definition tenants_separate :: "credential list \<Rightarrow> bool" where
  "tenants_separate cs \<longleftrightarrow> (\<forall>c \<in> set cs. \<forall>d \<in> set cs. \<forall>g h.
     pc_organization_id (cd_principal c) = Some g \<longrightarrow> pc_organization_id (cd_principal d) = Some h \<longrightarrow>
     g \<noteq> h \<longrightarrow> set (pc_namespaces (cd_principal c)) \<inter> set (pc_namespaces (cd_principal d)) = {})"

lemma map_res_InD: "map_res f xs = Inr ys \<Longrightarrow> y \<in> set ys \<Longrightarrow> \<exists>x \<in> set xs. f x = Inr y"
  by (auto simp: map_res_Inr_iff list_all2_conv_all_nth in_set_conv_nth) (metis nth_mem)

lemma auth_from_v2_InrD:
  assumes "auth_from_v2 data = Inr cs"
  shows "auth_ok cs \<and> tenants_separate cs \<and> (\<forall>c \<in> set cs. pc_organization_id (cd_principal c) \<noteq> None)"
proof -
  obtain raw_ogs ogs ros raws cs0 where ogs: "map_res parse_organization raw_ogs = Inr ogs"
    and owners: "check_owners []
        (concat (map (\<lambda>og. map (\<lambda>n. (n, og_identifier og)) (og_namespaces og)) ogs)) = Inr ()"
    and cs: "map_res (parse_v2_credential ogs ros) raws = Inr cs0" "make_auth cs0 = Inr cs"
    using assms by (auto simp: auth_from_v2_def result_simps)
  let ?owned = "concat (map (\<lambda>og. map (\<lambda>n. (n, og_identifier og)) (og_namespaces og)) ogs)"
  let ?of = "\<lambda>c og. og \<in> set ogs \<and> pc_organization_id (cd_principal c) = Some (og_identifier og) \<and>
    pc_namespaces (cd_principal c) = og_namespaces og"
  have cred: "principal_ok (cd_principal c) \<and> (\<exists>og. ?of c og)" if "c \<in> set cs" for c
    using map_res_InD [OF cs(1)] make_auth_InrD [OF cs(2)] that parse_v2_credential_InrD by metis
  moreover have "list_all identifier_ok (og_namespaces og)" if "og \<in> set ogs" for og
    using map_res_InD [OF ogs that] parse_organization_InrD by blast
  ultimately have "principal_ok (cd_principal c) \<and> list_all identifier_ok (pc_namespaces (cd_principal c))"
    if "c \<in> set cs" for c using that by metis
  with make_auth_InrD [OF cs(2)] have "auth_ok cs" by (auto simp: auth_ok_def)
  moreover have "tenants_separate cs" unfolding tenants_separate_def
  proof (intro ballI allI impI)
    fix c d g h assume "c \<in> set cs" "d \<in> set cs" "g \<noteq> h"
      "pc_organization_id (cd_principal c) = Some g" "pc_organization_id (cd_principal d) = Some h"
    then obtain og oh where og: "?of c og" "og_identifier og = g" and oh: "?of d oh" "og_identifier oh = h"
      using cred [of c] cred [of d] by fastforce
    have "n \<notin> set (og_namespaces oh)" if "n \<in> set (og_namespaces og)" for n
    proof
      assume "n \<in> set (og_namespaces oh)"
      with that og oh have "(n, g) \<in> set ?owned" "(n, h) \<in> set ?owned" by auto
      with check_owners_InrD(2) [OF owners] \<open>g \<noteq> h\<close> show False by fastforce
    qed
    then show "set (pc_namespaces (cd_principal c)) \<inter> set (pc_namespaces (cd_principal d)) = {}"
      using og oh by auto
  qed
  ultimately show ?thesis using cred by auto
qed

lemma auth_from_text_InrD:
  assumes "auth_from_text K t = Inr cs"
  shows "auth_ok cs" "tenants_separate cs"
proof -
  have "auth_ok cs \<and> tenants_separate cs"
  proof -
    obtain data where "auth_from_mapping data = Inr cs"
      using assms by (auto simp: auth_from_text_def split: option.splits json.splits)
    then consider "auth_from_v2 data = Inr cs"
      | raw cs0 where "map_res parse_v1_credential raw = Inr cs0" "make_auth cs0 = Inr cs"
      by (auto simp: auth_from_mapping_def result_simps split: if_splits json.splits)
    then show ?thesis
    proof cases
      case 1
      then show ?thesis using auth_from_v2_InrD by blast
    next
      case 2
      have legacy: "principal_ok (cd_principal c) \<and> pc_organization_id (cd_principal c) = None"
        if "c \<in> set cs" for c
        using map_res_InD [OF 2(1)] make_auth_InrD [OF 2(2)] that parse_v1_credential_InrD by metis
      then have "pc_namespaces (cd_principal c) = []" if "c \<in> set cs" for c
        using legacy [OF that] by (auto simp: principal_ok_def split: option.splits)
      with legacy make_auth_InrD [OF 2(2)] show ?thesis
        by (auto simp: auth_ok_def tenants_separate_def)
    qed
  qed
  then show "auth_ok cs" "tenants_separate cs" by auto
qed

section \<open>The authorization of a reviewer\<close>

lemma ascii_alnum_plain: "ascii_alnum c \<Longrightarrow> \<not> py_space c \<and> \<not> control_char c"
  by (auto simp: ascii_alnum_def ascii_letter_def ascii_digit_def py_space_def control_char_def Let_def)

lemma identifier_char_plain: "identifier_char c \<Longrightarrow> \<not> control_char c"
  using ascii_alnum_plain by (auto simp: identifier_char_def control_char_def code_def)

lemma identifier_ok_identity:
  assumes "identifier_ok v" shows "identity_ok 128 v" "\<not> blank v"
  using assms ascii_alnum_plain identifier_char_plain
  by (auto simp: identifier_ok_def identity_ok_def blank_iff has_control_def list_all_iff list_ex_iff
      split: list.splits)

lemma principal_authorization_eq:
  assumes ok: "principal_ok p" and org: "pc_organization_id p = Some org"
    and namespaces: "list_all identifier_ok (pc_namespaces p)" and decides: "has_scope p ''actions:decide''"
  shows "principal_authorization p = Inr \<lparr>da_actor = pc_subject p, da_organization_id = org,
    da_namespaces = pc_namespaces p, da_decisions = pc_decisions p,
    da_require_separate_approver = pc_require_separate_approver p,
    da_reviewer_subject = Some (pc_subject p)\<rparr>"
proof -
  have subject: "identity_ok 128 (pc_subject p)" "identity_ok 512 (pc_subject p)"
    using ok by (auto simp: principal_ok_def identity_ok_def)
  have "identifier_ok org" "pc_namespaces p \<noteq> []" "pc_decisions p \<noteq> []"
    using ok org decides by (auto simp: principal_ok_def)
  moreover have "\<not> list_ex blank (pc_namespaces p)"
    using namespaces identifier_ok_identity(2) by (auto simp: list_all_iff list_ex_iff)
  ultimately show ?thesis
    using org subject identifier_ok_identity(1) [of org]
    by (simp add: principal_authorization_def make_authorization_def result_simps
        validate_runtime_identity_iff [THEN iffD2])
qed

section \<open>Properties\<close>

text \<open>
  A service whose auth document loads authenticates exactly the holders of its tokens: a header
  yields a principal iff it is a bearer header with a well-formed token whose digest is that of the
  principal's credential, and that credential is unique.
\<close>

theorem authenticated_by_token:
  assumes "auth_from_text K t = Inr cs"
  shows "authenticate K cs (Some header) = Inr p \<longleftrightarrow>
    (\<exists>token. presents header token \<and>
       (\<exists>!c. c \<in> set cs \<and> cd_token_digest c = sha256_hex K token) \<and>
       (\<exists>c \<in> set cs. cd_token_digest c = sha256_hex K token \<and> cd_principal c = p))"
proof -
  have dist: "distinct (map cd_token_digest cs)"
    using auth_from_text_InrD(1) [OF assms] by (simp add: auth_ok_def)
  then have "\<exists>!c. c \<in> set cs \<and> cd_token_digest c = sha256_hex K token"
    if "c \<in> set cs" "cd_token_digest c = sha256_hex K token" for c token
    using that by (metis distinct_map inj_onD)
  then show ?thesis unfolding authenticate_cases [OF dist] by blast
qed

text \<open>
  C18. Two credentials of different organizations never share a namespace, so no action can be seen
  or decided by both; and a caller of either is confined to the namespaces of its own organization.
\<close>

theorem tenants_are_separate:
  assumes "auth_from_text K t = Inr cs" and "c \<in> set cs" and "d \<in> set cs"
    and "pc_organization_id (cd_principal c) = Some g" and "pc_organization_id (cd_principal d) = Some h"
    and "g \<noteq> h"
  shows "set (pc_namespaces (cd_principal c)) \<inter> set (pc_namespaces (cd_principal d)) = {} \<and>
    (\<forall>a. can_access_action (cd_principal c) a \<longrightarrow>
       ra_namespace a \<in> set (pc_namespaces (cd_principal c)) \<and> \<not> can_access_action (cd_principal d) a)"
  using auth_from_text_InrD(2) [OF assms(1)] assms(2-)
  by (auto simp: tenants_separate_def can_access_action_def)

text \<open>
  The authorization a reviewer hands to the store is never refused by its constructor and holds
  exactly the reviewer's subject, organization, namespaces, decisions and separation rule.
\<close>

theorem reviewer_authorization:
  assumes "auth_from_text K t = Inr cs" and "authenticate K cs (Some header) = Inr p"
    and "pc_organization_id p = Some org" and "require_scope p ''actions:decide'' = Inr ()"
  shows "\<exists>auth. principal_authorization p = Inr auth \<and> da_actor auth = pc_subject p \<and>
    da_organization_id auth = org \<and> da_namespaces auth = pc_namespaces p \<and>
    da_decisions auth = pc_decisions p \<and> pc_decisions p \<noteq> [] \<and>
    da_require_separate_approver auth = pc_require_separate_approver p \<and>
    da_reviewer_subject auth = Some (pc_subject p)"
proof -
  have ok: "auth_ok cs" using auth_from_text_InrD(1) [OF assms(1)] .
  then obtain c where "c \<in> set cs" "cd_principal c = p"
    using assms(2) authenticate_cases [of cs K header p] by (auto simp: auth_ok_def)
  with ok have p: "principal_ok p" "list_all identifier_ok (pc_namespaces p)"
    by (auto simp: auth_ok_def)
  have scope: "has_scope p ''actions:decide''"
    using assms(4) by (auto simp: require_scope_def split: if_splits)
  then have "pc_decisions p \<noteq> []" using p(1) assms(3) by (simp add: principal_ok_def)
  with principal_authorization_eq [OF p(1) assms(3) p(2) scope] show ?thesis by simp
qed

section \<open>A concrete document\<close>

text \<open>Two organizations, a reviewer in the first one and a reader in the second one.\<close>

definition demo_token :: string where
  "demo_token = replicate 64 CHR ''a''"

definition demo_auth_document :: "(string \<times> json) list" where
  "demo_auth_document =
     [(''organizations'', JList
        [JObj [(''id'', JStr ''default''), (''namespaces'', JList [JStr ''payments'']),
           (''require_separate_approver'', JBool True)],
         JObj [(''id'', JStr ''umbrella''), (''namespaces'', JList [JStr ''lab''])]]),
      (''roles'', JList
        [JObj [(''decisions'', JList [JStr ''approve'', JStr ''reject'']), (''id'', JStr ''approver''),
           (''scopes'', JList [JStr ''actions:read'', JStr ''actions:decide''])],
         JObj [(''decisions'', JList []), (''id'', JStr ''reader''), (''scopes'', JList [JStr ''actions:read''])]]),
      (''tokens'', JList
        [JObj [(''kind'', JStr ''user''), (''organization'', JStr ''default''), (''roles'', JList [JStr ''approver'']),
           (''subject'', JStr ''alice''), (''token_sha256'', JStr demo_token)],
         JObj [(''kind'', JStr ''service''), (''organization'', JStr ''umbrella''), (''roles'', JList [JStr ''reader'']),
           (''subject'', JStr ''bob''), (''token_sha256'', JStr (replicate 64 CHR ''b''))]]),
      (''version'', JStr ''2'')]"

definition alice :: principal where
  "alice = \<lparr>pc_subject = ''alice'', pc_scopes = [''actions:read'', ''actions:decide''],
     pc_organization_id = Some ''default'', pc_kind = ''user'', pc_roles = [''approver''],
     pc_namespaces = [''payments''], pc_decisions = [APPROVE, REJECT], pc_require_separate_approver = True\<rparr>"

definition bob :: principal where
  "bob = \<lparr>pc_subject = ''bob'', pc_scopes = [''actions:read''], pc_organization_id = Some ''umbrella'',
     pc_kind = ''service'', pc_roles = [''reader''], pc_namespaces = [''lab''], pc_decisions = [],
     pc_require_separate_approver = False\<rparr>"

definition demo_credentials :: "credential list" where
  "demo_credentials = [\<lparr>cd_principal = alice, cd_token_digest = demo_token\<rparr>,
     \<lparr>cd_principal = bob, cd_token_digest = replicate 64 CHR ''b''\<rparr>]"

lemma demo_auth_mapping: "auth_from_mapping demo_auth_document = Inr demo_credentials"
  by code_simp

lemma demo_auth_loads:
  "auth_from_text demo_codec (dumps demo_codec (JObj demo_auth_document)) = Inr demo_credentials"
proof -
  have "json_finite (JObj demo_auth_document)" "json_wf (JObj demo_auth_document)"
    "json_norm (JObj demo_auth_document) = JObj demo_auth_document"
    by code_simp+
  then show ?thesis
    using loads_dumps [OF demo_codec_ok] demo_auth_mapping by (simp add: auth_from_text_def)
qed

definition demo_header :: string where
  "demo_header = ''Bearer '' @ demo_token"

lemma demo_header_authenticates: "authenticate demo_codec demo_credentials (Some demo_header) = Inr alice"
  by code_simp

lemma authenticated_by_token_witness:
  "\<exists>token. presents demo_header token \<and>
     (\<exists>c \<in> set demo_credentials. cd_token_digest c = sha256_hex demo_codec token \<and> cd_principal c = alice)"
  using authenticated_by_token [OF demo_auth_loads, of demo_header alice] demo_header_authenticates by blast

lemma tenants_are_separate_witness:
  "set (pc_namespaces alice) \<inter> set (pc_namespaces bob) = {}"
  using tenants_are_separate [OF demo_auth_loads, of "demo_credentials ! 0" "demo_credentials ! 1"
      "''default''" "''umbrella''"]
  by (simp add: demo_credentials_def alice_def bob_def)

lemma reviewer_authorization_witness:
  "\<exists>auth. principal_authorization alice = Inr auth \<and> da_actor auth = ''alice'' \<and>
     da_decisions auth = [APPROVE, REJECT]"
  using reviewer_authorization [OF demo_auth_loads demo_header_authenticates, of "''default''"]
  by (auto simp: alice_def require_scope_def has_scope_def)

end
