(* ===== verification/Api_Facts.thy ===== *)
theory Api_Facts
  imports Api Auth_Props
begin

text \<open>
  What the approval service asks of a runtime store, as a locale, its interpretation on the SQL
  store, and what the endpoints do over every store that keeps it.
\<close>

section \<open>The interface of a reviewer\<close>

text \<open>What a refresh or a decision never changes in an action.\<close>

definition same_subject :: "runtime_action \<Rightarrow> runtime_action \<Rightarrow> bool" where
  "same_subject a b \<longleftrightarrow> ra_action_id a = ra_action_id b \<and> ra_organization_id a = ra_organization_id b \<and>
     ra_namespace a = ra_namespace b \<and> ra_requested_by a = ra_requested_by b \<and>
     ra_request_digest a = ra_request_digest b"

lemma can_access_same: "same_subject a b \<Longrightarrow> can_access_action p a = can_access_action p b"
  by (auto simp: same_subject_def can_access_action_def split: option.splits)

text \<open>A refusal that the service turns into a response.\<close>

definition foreseen :: "runtime_error \<Rightarrow> bool" where
  "foreseen e \<longleftrightarrow> (\<forall>x. decision_failure e \<noteq> Uncaught x)"

definition conflict :: failure where
  "conflict = service_failure 409 ''action_state_conflict''
     ''the action cannot accept that decision in its current state''"

text \<open>The constraints of an authorization on the action before the decision.\<close>

definition may_decide :: "decision_authorization \<Rightarrow> decision \<Rightarrow> runtime_action \<Rightarrow> bool" where
  "may_decide auth d a \<longleftrightarrow> check_authorization a d auth = Inr ()"

locale review_store =
  fixes ops :: "'s store_ops" and view :: "'s \<Rightarrow> string \<Rightarrow> runtime_action option" and inv :: "'s \<Rightarrow> bool"
  assumes list_law: "inv s \<Longrightarrow> \<exists>as s'. st_list_actions ops now status s = (Inr as, s') \<and> inv s' \<and>
      distinct (map ra_action_id as) \<and>
      set as = {a. view s' (ra_action_id a) = Some a \<and> (\<forall>t. status = Some t \<longrightarrow> ra_status a = t)}"
    and get_none: "inv s \<Longrightarrow> view s i = None \<Longrightarrow> \<exists>m. st_get_action ops now i s = (Inl (KeyError m), s)"
    and get_some: "inv s \<Longrightarrow> view s i = Some a \<Longrightarrow>
      \<exists>b s'. st_get_action ops now i s = (Inr b, s') \<and> inv s' \<and> view s' i = Some b \<and> same_subject a b"
    and decide_law: "inv s \<Longrightarrow> st_decide ops now i d by why s = (Inr b, s') \<Longrightarrow>
      inv s' \<and> (\<exists>a. view s i = Some a \<and> view s' i = Some b \<and> same_subject a b \<and>
        ra_status a \<in> {PENDING, decision_target d} \<and> ra_status b = decision_target d)"
    and decide_error: "inv s \<Longrightarrow> st_decide ops now i d by why s = (Inl e, s') \<Longrightarrow>
      s' = s \<and> (blank by \<or> foreseen e)"
    and decide_again: "inv s \<Longrightarrow> st_decide ops now i d by why s = (Inr b, s') \<Longrightarrow> \<not> blank by \<Longrightarrow>
      st_decide ops now i d by why' s' = (Inr b, s') \<and>
      (d' \<noteq> d \<longrightarrow> (\<exists>e. st_decide ops now i d' by why' s' = (Inl e, s') \<and> decision_failure e = conflict))"
    and authorized_law: "inv s \<Longrightarrow> st_decide_authorized ops now i d auth why s = (Inr b, s') \<Longrightarrow>
      inv s' \<and> (\<exists>a. view s i = Some a \<and> view s' i = Some b \<and> same_subject a b \<and> may_decide auth d a \<and>
        ra_status a \<in> {PENDING, decision_target d} \<and> ra_status b = decision_target d)"
    and authorized_error: "inv s \<Longrightarrow> st_decide_authorized ops now i d auth why s = (Inl e, s') \<Longrightarrow>
      s' = s \<and> foreseen e"
    and authorized_again: "inv s \<Longrightarrow> st_decide_authorized ops now i d auth why s = (Inr b, s') \<Longrightarrow>
      st_decide_authorized ops now i d auth why' s' = (Inr b, s') \<and>
      (d' \<noteq> d \<longrightarrow> d' \<in> set (da_decisions auth) \<longrightarrow>
        (\<exists>e. st_decide_authorized ops now i d' auth why' s' = (Inl e, s') \<and> decision_failure e = conflict))"

section \<open>The SQL store keeps it\<close>

lemma foreseen_simps [simp]:
  "foreseen (KeyError m)" "foreseen (ApprovalAuthorizationError c)" "foreseen (InvalidActionState i st)"
  "foreseen (ApprovalExpired a)"
  by (simp_all add: foreseen_def decision_failure_def not_found_def service_failure_def error_action_def)

lemma conflict_simps [simp]:
  "decision_failure (InvalidActionState i st) = conflict" "decision_failure (ApprovalExpired a) = conflict"
  by (simp_all add: decision_failure_def conflict_def error_action_def)

lemma same_subject_row: "identity_of q = identity_of r \<Longrightarrow> same_subject (row_to_action r) (row_to_action q)"
  by (auto simp: same_subject_def dest: identityD)

lemma list_actions_result:
  assumes ok: "store_ok K s"
  shows "\<exists>as s'. list_actions K now status s = (Inr as, s') \<and> store_ok K s' \<and>
    distinct (map ra_action_id as) \<and>
    set as = {a. sql_view s' (ra_action_id a) = Some a \<and> (\<forall>t. status = Some t \<longrightarrow> ra_status a = t)}"
proof -
  let ?rows = "sort_key (\<lambda>r. (r_created_at_ns r, r_action_id r)) (db_actions s)"
  have rows: "distinct (map r_action_id ?rows)" "\<forall>r \<in> set ?rows. find_action (r_action_id r) s = Some r"
    using ok find_own [OF ok] by (auto simp: store_ok_def core_ok_def ids_ok_def distinct_map)
  then obtain as s1 where s1: "refresh_all K now ?rows s = Inr (as, s1)" "store_ok K s1"
    and two: "list_all2 (\<lambda>a r. find_action (r_action_id r) s1 \<noteq> None \<and>
      a = row_to_action (the (find_action (r_action_id r) s1))) as ?rows"
    and other: "\<forall>j. j \<notin> r_action_id ` set ?rows \<longrightarrow> find_action j s1 = find_action j s"
    using refresh_all_ok [OF ok] by blast
  have own: "r_action_id r = i" if "find_action i s1 = Some r" for i r
    using that by (auto dest: find_row_SomeD)
  have "map ra_action_id as = map r_action_id ?rows"
    using two by (induction rule: list_all2_induct) (auto dest: own)
  with rows have dist: "distinct (map ra_action_id as)" by simp
  have pairs: "a = row_to_action r" if mem: "a \<in> set as" and "find_action (ra_action_id a) s1 = Some r" for a r
  proof -
    obtain k where k: "k < length as" "as ! k = a"
      using mem unfolding in_set_conv_nth by blast
    then have "k < length ?rows" using list_all2_lengthD [OF two] by simp
    with two k have "find_action (r_action_id (?rows ! k)) s1 \<noteq> None"
      "a = row_to_action (the (find_action (r_action_id (?rows ! k)) s1))"
      by (auto simp: list_all2_conv_all_nth)
    then obtain q where q: "find_action (r_action_id (?rows ! k)) s1 = Some q" "a = row_to_action q" by auto
    then have "ra_action_id a = r_action_id (?rows ! k)" using own by simp
    with q that(2) show ?thesis by simp
  qed
  have ids: "i \<in> ra_action_id ` set as \<longleftrightarrow> find_action i s1 \<noteq> None" for i
  proof -
    have "i \<in> ra_action_id ` set as \<longleftrightarrow> i \<in> r_action_id ` set ?rows"
      using \<open>map ra_action_id as = _\<close> by (metis list.set_map)
    also have "\<dots> \<longleftrightarrow> find_action i s1 \<noteq> None"
    proof
      assume "i \<in> r_action_id ` set ?rows"
      then obtain q where "q \<in> set ?rows" "r_action_id q = i" by blast
      then obtain k where "k < length ?rows" "r_action_id (?rows ! k) = i"
        unfolding in_set_conv_nth by blast
      with two show "find_action i s1 \<noteq> None" by (auto simp: list_all2_conv_all_nth)
    next
      assume "find_action i s1 \<noteq> None"
      then have "i \<in> r_action_id ` set ?rows \<or> find_action i s \<noteq> None" using other by metis
      then show "i \<in> r_action_id ` set ?rows" by (auto simp: find_row_None_iff)
    qed
    finally show ?thesis .
  qed
  have all: "set as = {a. sql_view s1 (ra_action_id a) = Some a}"
  proof (intro set_eqI iffI)
    fix a assume "a \<in> set as"
    moreover from this obtain r where "find_action (ra_action_id a) s1 = Some r"
      using ids [of "ra_action_id a"] by auto
    ultimately show "a \<in> {a. sql_view s1 (ra_action_id a) = Some a}" using pairs by (auto simp: sql_view_def)
  next
    fix a assume "a \<in> {a. sql_view s1 (ra_action_id a) = Some a}"
    then obtain r where r: "find_action (ra_action_id a) s1 = Some r" "a = row_to_action r"
      by (auto simp: sql_view_def)
    then obtain b where "b \<in> set as" "ra_action_id b = ra_action_id a"
      using ids [of "ra_action_id a"] by auto
    with pairs r show "a \<in> set as" by metis
  qed
  show ?thesis
    using s1 dist all by (auto simp: list_actions_def distinct_map_filter split: option.splits)
qed

lemma refresh_found: "find_action i s = Some r \<Longrightarrow> refresh_state K now r s = Inr (refreshed K now r s)"
  by (rule refresh_state_eq) (auto dest: find_row_SomeD)

lemma decide_result:
  assumes ok: "store_ok K s" and row: "find_action i s = Some r0"
  shows "(\<exists>x. decide_locked K now (row_to_action (fst (refreshed K now r0 s))) d by why
      (snd (refreshed K now r0 s)) = Inl x \<and> foreseen x) \<or>
    (\<exists>b s'. decide_locked K now (row_to_action (fst (refreshed K now r0 s))) d by why
      (snd (refreshed K now r0 s)) = Inr (b, s'))"
proof -
  obtain r s1 where eq: "refreshed K now r0 s = (r, s1)" by fastforce
  have f: "find_action (r_action_id r) s1 = Some r"
    using refreshed_ok(2) [OF ok row eq] by (auto dest: find_row_SomeD)
  show ?thesis unfolding eq fst_conv snd_conv
    by (rule decide_locked_cases [OF f, of d K now "by" why]) auto
qed

lemma decide_foreseen:
  assumes ok: "store_ok K s" and "\<not> blank by" and res: "decide K now i d by why s = (Inl e, s')"
  shows "foreseen e"
proof (cases "find_action i s")
  case None
  with assms show ?thesis by (auto simp: decide_def require_row_def)
next
  case (Some r0)
  moreover have "refresh_state K now r0 s = Inr (refreshed K now r0 s)"
    by (rule refresh_found [OF Some])
  ultimately show ?thesis
    using decide_result [OF ok Some, of now d "by" why] assms
    by (auto simp: decide_def require_found split: prod.splits)
qed

lemma authorized_foreseen:
  assumes ok: "store_ok K s" and res: "decide_authorized K now i d auth why s = (Inl e, s')"
  shows "foreseen e"
proof (cases "find_action i s")
  case None
  with assms show ?thesis by (auto simp: decide_authorized_def require_row_def)
next
  case (Some r0)
  moreover have "refresh_state K now r0 s = Inr (refreshed K now r0 s)"
    by (rule refresh_found [OF Some])
  moreover obtain r s1 where "refreshed K now r0 s = (r, s1)" by fastforce
  moreover have "check_authorization (row_to_action r) d auth = Inr () \<or>
      (\<exists>c. check_authorization (row_to_action r) d auth = Inl (ApprovalAuthorizationError c))"
    by (simp add: check_authorization_def)
  ultimately show ?thesis
    using decide_result [OF ok Some, of now d "da_actor auth" why] assms
    by (auto simp: decide_authorized_def require_found Let_def)
qed

lemma decide_locked_final:
  assumes "find_action i s = Some r" "r_status r = decision_target d"
  shows "decide_locked K now (row_to_action r) d by why s = Inr (row_to_action r, s)"
    and "d' \<noteq> d \<Longrightarrow> decide_locked K now (row_to_action r) d' by why s =
      Inl (InvalidActionState i (r_status r))"
  using assms by (auto simp: decide_locked_def decision_target_def Let_def dest: find_row_SomeD
      split: if_splits) (metis decision.exhaust)+

lemma decide_refresh:
  assumes "find_action i s = Some r"
  shows "decide K now i d by why s = (if blank by then (Inl (ValueError ''decided_by must not be empty''), s)
    else transaction (decide_locked K now (row_to_action (fst (refreshed K now r s))) d by why
      (snd (refreshed K now r s))) s)"
    and "decide_authorized K now i d auth why s = transaction (
      bind_res (check_authorization (row_to_action (fst (refreshed K now r s))) d auth) (\<lambda>_.
      decide_locked K now (row_to_action (fst (refreshed K now r s))) d (da_actor auth) why
        (snd (refreshed K now r s)))) s"
  by (simp_all add: decide_def decide_authorized_def require_found [OF assms] refresh_found [OF assms]
      split_def Let_def)

text \<open>A decision that was just taken is still in force at the same time.\<close>

definition settled :: "codec \<Rightarrow> int \<Rightarrow> string \<Rightarrow> decision \<Rightarrow> runtime_action \<Rightarrow> db \<Rightarrow> bool" where
  "settled K now i d b s \<longleftrightarrow> (\<exists>r. find_action i s = Some r \<and> b = row_to_action r \<and>
     r_status r = decision_target d \<and> refreshed K now r s = (r, s))"

lemma decided_settled:
  assumes ok: "store_ok K s" and row: "find_action i s = Some r0"
    and res: "decide_locked K now (row_to_action (fst (refreshed K now r0 s))) d by why
      (snd (refreshed K now r0 s)) = Inr (b, s')"
  shows "settled K now i d b s'"
proof -
  obtain r s1 where eq: "refreshed K now r0 s = (r, s1)" by fastforce
  note fresh = refreshed_ok(2) [OF ok row eq] refreshed_status(1,2) [OF eq]
  have id: "r_action_id r = i" using fresh(1) by (auto dest: find_row_SomeD)
  let ?f = "decided_row (decision_target d) now by why"
  show ?thesis
  proof (rule decide_locked_cases [of r s1 d K now "by" why])
    show "find_action (r_action_id r) s1 = Some r" using fresh(1) id by simp
  next
    assume "r_status r = decision_target d"
      "decide_locked K now (row_to_action r) d by why s1 = Inr (row_to_action r, s1)"
    with res eq fresh show ?thesis by (auto simp: settled_def refreshed_def)
  next
    assume "r_status r = PENDING" and dl: "decide_locked K now (row_to_action r) d by why s1 =
        Inr (row_to_action (?f r), transition K (r_action_id r) ?f
          (decision_event d) now (r_request_digest r) (Some by) why s1)"
    then have "\<not> expiring now (?f r)" "\<not> abandoned now (?f r)"
      using fresh by (auto simp: expiring_def abandoned_def decided_row_def decision_target_def)
    moreover have "find_action i (transition K i ?f ev now dg ac de s1) = Some (?f r)" for ev dg ac de
      using fresh(1) by (subst find_transition) simp_all
    moreover have "b = row_to_action (?f r)" "s' = transition K i ?f (decision_event d) now
        (r_request_digest r) (Some by) why s1"
      using res eq dl id by auto
    ultimately show ?thesis by (auto simp: settled_def refreshed_def decided_row_def)
  qed (use res eq in auto)
qed

lemma settled_again:
  assumes "settled K now i d b s"
  shows "\<not> blank by \<Longrightarrow> decide K now i d by why s = (Inr b, s)"
    and "\<not> blank by \<Longrightarrow> d' \<noteq> d \<Longrightarrow>
      \<exists>e. decide K now i d' by why s = (Inl e, s) \<and> decision_failure e = conflict"
    and "check_authorization b d auth = Inr () \<Longrightarrow> decide_authorized K now i d auth why s = (Inr b, s)"
    and "check_authorization b d' auth = Inr () \<Longrightarrow> d' \<noteq> d \<Longrightarrow>
      \<exists>e. decide_authorized K now i d' auth why s = (Inl e, s) \<and> decision_failure e = conflict"
  using assms decide_locked_final by (auto simp: settled_def decide_refresh)

interpretation sql_review: review_store "sql_store K lease" sql_view "store_ok K" for K lease
proof
  fix s now status assume "store_ok K s"
  then show "\<exists>as s'. st_list_actions (sql_store K lease) now status s = (Inr as, s') \<and> store_ok K s' \<and>
      distinct (map ra_action_id as) \<and>
      set as = {a. sql_view s' (ra_action_id a) = Some a \<and> (\<forall>t. status = Some t \<longrightarrow> ra_status a = t)}"
    using list_actions_result by simp
next
  fix s now i assume "store_ok K s" "sql_view s i = None"
  then show "\<exists>m. st_get_action (sql_store K lease) now i s = (Inl (KeyError m), s)"
    by (auto simp: sql_view_def get_action_def require_row_def)
next
  fix s now i a assume ok: "store_ok K s" and "sql_view s i = Some a"
  then obtain r where r: "find_action i s = Some r" "a = row_to_action r" by (auto simp: sql_view_def)
  obtain r' s' where eq: "refreshed K now r s = (r', s')" by fastforce
  have "get_action K now i s = (Inr (row_to_action r'), s')"
    by (simp add: get_action_def require_found [OF r(1)] refresh_found [OF r(1)] eq)
  with refreshed_ok [OF ok r(1) eq] r(2) same_subject_row
  show "\<exists>b s'. st_get_action (sql_store K lease) now i s = (Inr b, s') \<and> store_ok K s' \<and>
      sql_view s' i = Some b \<and> same_subject a b"
    by (auto simp: sql_view_def)
next
  fix s now i d "by" why b s'
  assume ok: "store_ok K s" and res: "st_decide (sql_store K lease) now i d by why s = (Inr b, s')"
  from decide_ok(1,2) [OF ok res [unfolded sql_store_def, simplified]] same_subject_row
  show "store_ok K s' \<and> (\<exists>a. sql_view s i = Some a \<and> sql_view s' i = Some b \<and> same_subject a b \<and>
        ra_status a \<in> {PENDING, decision_target d} \<and> ra_status b = decision_target d)"
    by (fastforce simp: decided_def sql_view_def)
next
  fix s now i d "by" why e s'
  assume ok: "store_ok K s" and res: "st_decide (sql_store K lease) now i d by why s = (Inl e, s')"
  from decide_ok(3) [OF ok res [unfolded sql_store_def, simplified]] decide_foreseen [OF ok]
    res [unfolded sql_store_def, simplified]
  show "s' = s \<and> (blank by \<or> foreseen e)" by blast
next
  fix s now i d auth why b s'
  assume ok: "store_ok K s" and res: "st_decide_authorized (sql_store K lease) now i d auth why s = (Inr b, s')"
  from decide_authorized_ok(1,2) [OF ok res [simplified]] same_subject_row
  show "store_ok K s' \<and> (\<exists>a. sql_view s i = Some a \<and> sql_view s' i = Some b \<and> same_subject a b \<and>
        may_decide auth d a \<and> ra_status a \<in> {PENDING, decision_target d} \<and> ra_status b = decision_target d)"
    by (fastforce simp: decided_def sql_view_def may_decide_def check_authorization_iff)
next
  fix s now i d auth why e s'
  assume ok: "store_ok K s" and res: "st_decide_authorized (sql_store K lease) now i d auth why s = (Inl e, s')"
  from decide_authorized_ok(3) [OF ok res [simplified]] authorized_foreseen [OF ok res [simplified]]
  show "s' = s \<and> foreseen e" by blast
next
  fix s now i d d' "by" why why' b s'
  assume ok: "store_ok K s" and res: "st_decide (sql_store K lease) now i d by why s = (Inr b, s')"
    and nb: "\<not> blank by"
  have dec: "decide K now i d by why s = (Inr b, s')"
    using res by (simp add: sql_store_def)
  then obtain r0 where r0: "find_action i s = Some r0"
    using decide_ok(2) [OF ok dec refl] by (auto simp: decided_def)
  have "settled K now i d b s'"
    using dec nb decided_settled [OF ok r0] by (auto simp: decide_refresh [OF r0] elim!: transaction_cases)
  from settled_again(1,2) [OF this nb]
  show "st_decide (sql_store K lease) now i d by why' s' = (Inr b, s') \<and>
      (d' \<noteq> d \<longrightarrow> (\<exists>e. st_decide (sql_store K lease) now i d' by why' s' = (Inl e, s') \<and>
        decision_failure e = conflict))"
    by (auto simp: sql_store_def)
next
  fix s now i d d' auth why why' b s'
  assume ok: "store_ok K s" and res: "st_decide_authorized (sql_store K lease) now i d auth why s = (Inr b, s')"
  obtain r r' where r: "find_action i s = Some r" "authorized r d auth" "b = row_to_action r'"
    "identity_of r' = identity_of r"
    using decide_authorized_ok(2) [OF ok res [simplified] refl] by (auto simp: decided_def)
  have "settled K now i d b s'"
    using res decided_settled [OF ok r(1)]
    by (auto simp: decide_refresh [OF r(1)] result_simps elim!: transaction_cases)
  moreover have "check_authorization b d auth = Inr ()"
    "d' \<in> set (da_decisions auth) \<Longrightarrow> check_authorization b d' auth = Inr ()"
    using r by (auto simp: check_authorization_iff authorized_def dest: identityD)
  ultimately show "st_decide_authorized (sql_store K lease) now i d auth why' s' = (Inr b, s') \<and>
      (d' \<noteq> d \<longrightarrow> d' \<in> set (da_decisions auth) \<longrightarrow>
        (\<exists>e. st_decide_authorized (sql_store K lease) now i d' auth why' s' = (Inl e, s') \<and>
          decision_failure e = conflict))"
    using settled_again(3,4) by auto
qed

section \<open>The endpoints over every such store\<close>

lemma authorize_iff: "authorize K cs rq scope = Inr p \<longleftrightarrow>
    authenticate K cs (hr_authorization rq) = Inr p \<and> has_scope p scope"
  by (auto simp: authorize_def require_scope_def bind_res_def split: sum.splits if_splits)

definition found :: "runtime_action \<Rightarrow> json" where
  "found a = JObj [(''data'', action_payload a)]"

lemma not_found_service: "\<exists>err. not_found = Service err \<and> se_status err = 404"
  by (simp add: not_found_def service_failure_def)

context review_store
begin

lemma get_exact:
  assumes "inv s" "authorize K cs rq ''actions:read'' = Inr p" "hr_query rq = []" "path_action_id rq = Inr i"
  shows "\<exists>s'. case view s i of
      None \<Rightarrow> api_get_action ops K cs now rq s = (Inl not_found, s')
    | Some a \<Rightarrow> if can_access_action p a
        then \<exists>b. same_subject a b \<and> view s' i = Some b \<and> api_get_action ops K cs now rq s = (Inr (found b), s')
        else api_get_action ops K cs now rq s = (Inl not_found, s')"
proof (cases "view s i")
  case None
  with get_none [OF assms(1) None, of now] assms show ?thesis
    by (auto simp: api_get_action_def reject_unknown_query_def)
next
  case (Some a)
  then obtain b s' where "st_get_action ops now i s = (Inr b, s')" "view s' i = Some b" "same_subject a b"
    using get_some [OF assms(1)] by blast
  with Some assms show ?thesis
    by (auto simp: api_get_action_def reject_unknown_query_def found_def can_access_same)
qed

lemma decide_store_ok:
  assumes inv: "inv s" and p: "principal_ok p" "list_all identifier_ok (pc_namespaces p)"
    and scope: "has_scope p ''actions:decide''" and res: "decide_store ops now p i d why s = (Inr b, s')"
  shows "inv s' \<and> (\<exists>a. view s i = Some a \<and> view s' i = Some b \<and> same_subject a b \<and>
      ra_status a \<in> {PENDING, decision_target d} \<and> ra_status b = decision_target d \<and> can_access_action p a \<and>
      (pc_organization_id p \<noteq> None \<longrightarrow> d \<in> set (pc_decisions p) \<and>
        (pc_require_separate_approver p \<longrightarrow> ra_requested_by a \<noteq> Some (pc_subject p))))"
proof (cases "pc_organization_id p")
  case None
  with res decide_law [OF inv] show ?thesis
    by (fastforce simp: decide_store_def can_access_action_def)
next
  case (Some org)
  have "pc_subject p \<noteq> []" using p(1) by (auto simp: principal_ok_def identity_ok_def)
  with Some authorized_law [OF inv] res principal_authorization_eq [OF p(1) Some p(2) scope]
  show ?thesis
    by (fastforce simp: decide_store_def can_access_action_def may_decide_def check_authorization_def
        split: if_splits)
qed

lemma decide_store_error:
  assumes inv: "inv s" and p: "principal_ok p" "list_all identifier_ok (pc_namespaces p)"
    and scope: "has_scope p ''actions:decide''" and res: "decide_store ops now p i d why s = (Inl e, s')"
  shows "s' = s \<and> foreseen e"
proof (cases "pc_organization_id p")
  case None
  have "\<not> blank (pc_subject p)" using p(1) by (auto simp: principal_ok_def identity_ok_def)
  moreover have "st_decide ops now i d (pc_subject p) why s = (Inl e, s')"
    using None res by (simp add: decide_store_def)
  ultimately show ?thesis using decide_error [OF inv] by blast
next
  case (Some org)
  with authorized_error [OF inv] res principal_authorization_eq [OF p(1) Some p(2) scope]
  show ?thesis by (auto simp: decide_store_def)
qed

lemma decide_store_again:
  assumes inv: "inv s" and p: "principal_ok p" "list_all identifier_ok (pc_namespaces p)"
    and scope: "has_scope p ''actions:decide''" and res: "decide_store ops now p i d why s = (Inr b, s')"
  shows "decide_store ops now p i d why' s' = (Inr b, s') \<and>
    (d' \<noteq> d \<longrightarrow> pc_organization_id p = None \<or> d' \<in> set (pc_decisions p) \<longrightarrow>
      (\<exists>e. decide_store ops now p i d' why' s' = (Inl e, s') \<and> decision_failure e = conflict))"
proof (cases "pc_organization_id p")
  case None
  have "\<not> blank (pc_subject p)" using p(1) by (auto simp: principal_ok_def identity_ok_def)
  moreover have "st_decide ops now i d (pc_subject p) why s = (Inr b, s')"
    using None res by (simp add: decide_store_def)
  ultimately show ?thesis
    using decide_again [OF inv, of now i d "pc_subject p" why b s' why' d'] None
    by (simp add: decide_store_def)
next
  case (Some org)
  obtain auth where auth: "principal_authorization p = Inr auth" "da_decisions auth = pc_decisions p"
    using principal_authorization_eq [OF p(1) Some p(2) scope] by simp
  with Some res have "st_decide_authorized ops now i d auth why s = (Inr b, s')"
    by (simp add: decide_store_def)
  with Some auth show ?thesis
    using authorized_again [OF inv, of now i d auth why b s' why' d'] by (simp add: decide_store_def)
qed

end

text \<open>Who a request authenticates as, for a document that loads.\<close>

lemma authorized_principal:
  assumes "auth_from_text K t = Inr cs" "authorize K cs rq scope = Inr p"
  shows "principal_ok p" "list_all identifier_ok (pc_namespaces p)" "has_scope p scope"
    "authenticate K cs (hr_authorization rq) = Inr p"
proof -
  have ok: "auth_ok cs" by (rule auth_from_text_InrD(1) [OF assms(1)])
  show "has_scope p scope" "authenticate K cs (hr_authorization rq) = Inr p"
    using assms(2) by (auto simp: authorize_iff)
  then obtain c where "c \<in> set cs" "cd_principal c = p"
    using ok authenticate_cases [of cs K _ p]
    by (cases "hr_authorization rq") (auto simp: auth_ok_def authenticate_def)
  with ok show "principal_ok p" "list_all identifier_ok (pc_namespaces p)"
    by (auto simp: auth_ok_def)
qed

end
