(* ===== verification/Api_Props.thy ===== *)
theory Api_Props
  imports Api_Facts Store_Demo
begin

text \<open>
  The properties of the approval service on the SQL store: no endpoint acts without its documented
  scope, actions of other tenants cannot be told from missing ones, decisions are sound, repeatable
  and never an internal error, listings are complete, and bodies are bounded.
\<close>

section \<open>Keyset pagination\<close>

text \<open>
  Keyset pagination: what a client collects that follows the cursors of a listing, stated once for
  every listing whose page after a key is the beginning of what follows that key, and interpreted on
  the action pages and on the audit pages of the service.
\<close>

text \<open>A client that follows the cursors, for at most the given number of requests.\<close>

fun walk :: "('c option \<Rightarrow> ('x list \<times> 'c option) option) \<Rightarrow> nat \<Rightarrow> 'c option \<Rightarrow> 'x list option" where
  "walk page 0 after = None"
| "walk page (Suc n) after = (case page after of
     None \<Rightarrow> None
   | Some (xs, None) \<Rightarrow> Some xs
   | Some (xs, Some c) \<Rightarrow> map_option (\<lambda>ys. xs @ ys) (walk page n (Some c)))"

definition cut :: "nat \<Rightarrow> ('x \<Rightarrow> 'c) \<Rightarrow> 'x list \<Rightarrow> 'x list \<times> 'c option" where
  "cut limit key xs = (take limit xs, if limit < length xs then Some (key (xs ! (limit - 1))) else None)"

locale pager =
  fixes key :: "'x \<Rightarrow> 'c" and page :: "'x list \<Rightarrow> nat \<Rightarrow> 'c option \<Rightarrow> ('x list \<times> 'c option) option"
    and ok :: "'x list \<Rightarrow> bool"
  assumes first: "ok xs \<Longrightarrow> 0 < n \<Longrightarrow> page xs n None = Some (cut n key xs)"
    and after: "ok (xs @ y # zs) \<Longrightarrow> 0 < n \<Longrightarrow> page (xs @ y # zs) n (Some (key y)) = Some (cut n key zs)"
begin

lemma walk_after:
  assumes "ok (xs @ y # zs)" "0 < n" "length zs < fuel"
  shows "walk (page (xs @ y # zs) n) fuel (Some (key y)) = Some zs"
  using assms
proof (induction fuel arbitrary: xs y zs)
  case (Suc fuel)
  note pg = after [OF Suc.prems(1,2)]
  show ?case
  proof (cases "n < length zs")
    case True
    let ?z = "zs ! (n - 1)" and ?pre = "xs @ y # take (n - 1) zs"
    have split: "zs = take (n - 1) zs @ ?z # drop n zs" "take n zs = take (n - 1) zs @ [?z]"
      using True Suc.prems(2) id_take_nth_drop [of "n - 1" zs] take_Suc_conv_app_nth [of "n - 1" zs]
      by simp_all
    then have whole: "xs @ y # zs = ?pre @ ?z # drop n zs" by simp
    have "ok (?pre @ ?z # drop n zs)" using Suc.prems(1) whole by metis
    then have "walk (page (?pre @ ?z # drop n zs) n) fuel (Some (key ?z)) = Some (drop n zs)"
      using Suc.prems True by (intro Suc.IH) simp_all
    then have "walk (page (xs @ y # zs) n) fuel (Some (key ?z)) = Some (drop n zs)"
      using whole by metis
    then show ?thesis using pg True by (simp add: cut_def)
  qed (use pg in \<open>simp add: cut_def\<close>)
qed simp

lemma walk_all:
  assumes "ok xs" "0 < n"
  shows "walk (page xs n) (Suc (length xs)) None = Some xs"
proof (cases "n < length xs")
  case True
  let ?z = "xs ! (n - 1)"
  have split: "take n xs = take (n - 1) xs @ [?z]" "xs = take (n - 1) xs @ ?z # drop n xs"
    using True assms(2) id_take_nth_drop [of "n - 1" xs] take_Suc_conv_app_nth [of "n - 1" xs] by simp_all
  then have "walk (page xs n) (length xs) (Some (key ?z)) = Some (drop n xs)"
    using walk_after [of "take (n - 1) xs" ?z "drop n xs" n "length xs"] assms True by simp
  then show ?thesis using first [OF assms] True by (simp add: cut_def)
qed (use first [OF assms] in \<open>simp add: cut_def\<close>)

end

subsection \<open>The action pages\<close>

definition ok_page :: "failure + ('a \<times> 'b) \<Rightarrow> ('a \<times> 'b) option" where
  "ok_page r = (case r of Inl _ \<Rightarrow> None | Inr p \<Rightarrow> Some p)"

lemma last_take: "0 < n \<Longrightarrow> n < length xs \<Longrightarrow> last (take n xs) = xs ! (n - 1)"
  by (cases n) (simp_all add: take_Suc_conv_app_nth)

lemma seek_action_split:
  "distinct (map ra_action_id (xs @ y # zs)) \<Longrightarrow> seek_action (ra_action_id y) (xs @ y # zs) = Some zs"
  by (induction xs) auto

lemma action_page_cut:
  assumes "0 < n"
  shows "action_page (int n) None xs = Inr (cut n ra_action_id xs)"
    and "seek_action i xs = Some ys \<Longrightarrow> action_page (int n) (Some i) xs = Inr (cut n ra_action_id ys)"
  using assms by (auto simp: action_page_def cut_def last_take Let_def)

interpretation action_pager: pager ra_action_id "\<lambda>xs n after. ok_page (action_page (int n) after xs)"
  "\<lambda>xs. distinct (map ra_action_id xs)"
  by unfold_locales (simp_all only: ok_page_def action_page_cut(1) action_page_cut(2) [OF _ seek_action_split]
      sum.case)

subsection \<open>The audit pages\<close>

lemma audit_page_cut: "0 < n \<Longrightarrow> audit_page (int n) rs = cut n rc_sequence rs"
  by (auto simp: audit_page_def cut_def last_take Let_def)

text \<open>The receipts after a sequence number; the first request asks for those after zero.\<close>

definition audit_after :: "runtime_receipt list \<Rightarrow> nat \<Rightarrow> int option \<Rightarrow> (runtime_receipt list \<times> int option) option" where
  "audit_after rs n after = Some (audit_page (int n)
     (filter (\<lambda>r. (case after of None \<Rightarrow> 0 | Some c \<Rightarrow> c) < rc_sequence r) rs))"

definition numbered :: "runtime_receipt list \<Rightarrow> bool" where
  "numbered rs \<longleftrightarrow> sorted_wrt (\<lambda>a b. rc_sequence a < rc_sequence b) rs \<and> (\<forall>r \<in> set rs. 0 < rc_sequence r)"

lemma seq_ok_numbered:
  assumes "seq_ok rc_sequence rs" shows "numbered rs"
proof -
  have "rc_sequence (rs ! k) = int k + 1" if "k < length rs" for k
    using arg_cong [OF assms [unfolded seq_ok_def], of "\<lambda>xs. xs ! k"] that by (simp del: upt_Suc)
  then show ?thesis
    by (auto simp: numbered_def sorted_wrt_iff_nth_less in_set_conv_nth)
qed

interpretation audit_pager: pager rc_sequence audit_after numbered
proof
  fix xs :: "runtime_receipt list" and n :: nat assume "numbered xs" "0 < n"
  moreover from this have "filter (\<lambda>r. 0 < rc_sequence r) xs = xs"
    by (simp add: numbered_def filter_id_conv)
  ultimately show "audit_after xs n None = Some (cut n rc_sequence xs)"
    by (simp add: audit_after_def audit_page_cut)
next
  fix xs zs :: "runtime_receipt list" and y and n :: nat assume ok: "numbered (xs @ y # zs)" and "0 < n"
  then have "filter (\<lambda>r. rc_sequence y < rc_sequence r) xs = []" "filter (\<lambda>r. rc_sequence y < rc_sequence r) zs = zs"
    by (auto simp: numbered_def sorted_wrt_append filter_id_conv filter_empty_conv)
  with \<open>0 < n\<close> show "audit_after (xs @ y # zs) n (Some (rc_sequence y)) = Some (cut n rc_sequence zs)"
    by (simp add: audit_after_def audit_page_cut)
qed

section \<open>Failures of the request parser\<close>

definition client_error :: "failure \<Rightarrow> bool" where
  "client_error f \<longleftrightarrow> (\<exists>err. f = Service err \<and> se_status err \<in> {400, 401, 403, 404, 409, 413, 415})"

lemma client_error_simps [simp]:
  "client_error (service_failure st c m) \<longleftrightarrow> st \<in> {400, 401, 403, 404, 409, 413, 415}"
  "client_error not_found" "client_error conflict" "client_error body_too_large"
  by (simp_all add: client_error_def service_failure_def not_found_def conflict_def body_too_large_def)

lemma authenticate_status: "authenticate K cs h = Inl e \<Longrightarrow> ae_status e = 401"
  by (auto simp: authenticate_def missing_token_def invalid_token_def split: option.splits if_splits prod.splits)

lemma authorize_error:
  assumes "authorize K cs rq scope = Inl f"
  shows "\<exists>err. f = Service err \<and> se_status err \<in> {401, 403} \<and>
    (\<exists>ch. se_headers err = [(''WWW-Authenticate'', ch)])"
  using assms by (auto simp: authorize_def require_scope_def bind_res_def dest: authenticate_status
      split: sum.splits if_splits)

lemma parser_errors:
  "authorize K cs rq scope = Inl f \<Longrightarrow> client_error f"
  "reject_unknown_query rq allowed = Inl f \<Longrightarrow> client_error f"
  "path_action_id rq = Inl f \<Longrightarrow> client_error f"
  "check_reason v = Inl f \<Longrightarrow> client_error f"
  using authorize_error [of K cs rq scope f]
  by (auto simp: client_error_def reject_unknown_query_def path_action_id_def check_reason_def
      service_failure_def Let_def split: if_splits json.splits)

lemma read_chunks_iff:
  assumes "int (length body) \<le> max_body_bytes"
  shows "read_chunks chunks body = (if int (length body + length (concat chunks)) \<le> max_body_bytes
    then Inr (body @ concat chunks) else Inl body_too_large)"
  using assms by (induction chunks arbitrary: body) auto

lemma read_limited_body_Inr: "read_limited_body rq = Inr body \<Longrightarrow>
    body = concat (hr_chunks rq) \<and> length body \<le> 16384"
  using read_chunks_iff [of "[]" "hr_chunks rq"]
  by (auto simp: read_limited_body_def result_simps max_body_bytes_def split: if_splits)

lemma read_limited_body_Inl: "read_limited_body rq = Inl f \<Longrightarrow> client_error f"
  using read_chunks_iff [of "[]" "hr_chunks rq"]
  by (auto simp: read_limited_body_def result_simps max_body_bytes_def split: if_splits option.splits)

lemma read_decision_reason_Inl: "read_decision_reason K rq = Inl f \<Longrightarrow> client_error f"
  by (auto simp: read_decision_reason_def result_simps Let_def split: if_splits option.splits json.splits
      dest: read_limited_body_Inl parser_errors(4))

lemma check_reason_Inr: "check_reason v = Inr (Some r) \<Longrightarrow>
    \<not> blank r \<and> length r \<le> 2000 \<and> (\<forall>c \<in> set r. code c < 32 \<longrightarrow> code c \<in> {9, 10, 13})"
  by (auto simp: check_reason_def list_ex_iff split: json.splits if_splits)

section \<open>Scopes\<close>

text \<open>The scope the OpenAPI document gives for a route, whose path it writes without the convertor.\<close>

fun drop_convertor :: "string \<Rightarrow> string" where
  "drop_convertor [] = []"
| "drop_convertor (c # cs) = (if starts_with (c # cs) '':str}'' then CHR ''}'' # drop 5 (c # cs)
     else c # drop_convertor cs)"

definition member :: "string \<Rightarrow> json \<Rightarrow> json" where
  "member k j = (case j of JObj kvs \<Rightarrow> dict_get kvs k JNull | _ \<Rightarrow> JNull)"

definition documented_scope :: "string \<Rightarrow> string \<Rightarrow> string option" where
  "documented_scope path meth = str_of (member ''x-agentbarrier-scope''
     (member (py_lower meth) (member (drop_convertor path) (member ''paths'' openapi_document))))"

definition endpoint_scope :: "endpoint \<Rightarrow> string option" where
  "endpoint_scope e = (case e of Readiness \<Rightarrow> None | Openapi \<Rightarrow> None
   | List_Actions \<Rightarrow> Some ''actions:read'' | Get_Action \<Rightarrow> Some ''actions:read''
   | Approve_Action \<Rightarrow> Some ''actions:decide'' | Reject_Action \<Rightarrow> Some ''actions:decide''
   | List_Audit \<Rightarrow> Some ''audit:read'')"

lemma documented_scopes:
  "list_all (\<lambda>(path, meth, e). documented_scope path meth = endpoint_scope e) api_routes"
  by code_simp

lemma endpoint_unauthorized:
  assumes "endpoint_scope e = Some scope" and "authorize K cs rq scope = Inl f"
  shows "api_endpoint ops K cs sv now e rq s = (Inl f, s)"
  using assms by (cases e) (auto simp: endpoint_scope_def api_endpoint_def api_list_actions_def list_query_def
      api_get_action_def api_decide_def api_list_audit_def audit_query_def)

text \<open>
  C17. No request reaches the store without the scope the OpenAPI document states: on every documented
  route, a caller whose token is missing, invalid or lacks that scope gets 401 or 403 with a
  challenge, and the store, whichever it is, keeps its state.
\<close>

theorem scope_is_required:
  assumes "(path, meth, e) \<in> set api_routes" and "documented_scope path meth = Some scope"
    and "\<forall>p. authenticate K cs (hr_authorization rq) = Inr p \<longrightarrow> \<not> has_scope p scope"
  shows "\<exists>err ch. api_endpoint ops K cs sv now e rq s = (Inl (Service err), s) \<and>
    se_status err \<in> {401, 403} \<and> se_headers err = [(''WWW-Authenticate'', ch)]"
proof -
  have scope: "endpoint_scope e = Some scope"
    using documented_scopes assms(1,2) by (auto simp: list_all_iff)
  have "authorize K cs rq scope \<noteq> Inr p" for p
    using assms(3) by (auto simp: authorize_iff)
  then obtain f where f: "authorize K cs rq scope = Inl f" by (cases "authorize K cs rq scope") auto
  obtain err ch where err: "f = Service err" "se_status err \<in> {401, 403}"
    "se_headers err = [(''WWW-Authenticate'', ch)]"
    using authorize_error [OF f] by blast
  from endpoint_unauthorized [OF scope f, of ops sv now s] err show ?thesis
    by (intro exI [of _ err] exI [of _ ch]) simp
qed

section \<open>Tenants\<close>

text \<open>
  A reader learns nothing of other tenants: for a well-formed read by an authorized caller the
  service answers with the action when the caller may see it, and otherwise with one and the same
  404, whether the action exists in another tenant or not at all.
\<close>

theorem foreign_actions_are_hidden:
  assumes "reachable K lease s" and "authorize K cs rq ''actions:read'' = Inr p"
    and "hr_query rq = []" and "path_action_id rq = Inr i"
  shows "case find_action i s of
      None \<Rightarrow> fst (api_get_action (sql_store K lease) K cs now rq s) = Inl not_found
    | Some r \<Rightarrow> if can_access_action p (row_to_action r)
        then \<exists>a. same_subject (row_to_action r) a \<and>
          fst (api_get_action (sql_store K lease) K cs now rq s) = Inr (JObj [(''data'', action_payload a)])
        else fst (api_get_action (sql_store K lease) K cs now rq s) = Inl not_found"
proof -
  obtain s' where "case sql_view s i of
      None \<Rightarrow> api_get_action (sql_store K lease) K cs now rq s = (Inl not_found, s')
    | Some a \<Rightarrow> if can_access_action p a
        then \<exists>b. same_subject a b \<and> sql_view s' i = Some b \<and>
          api_get_action (sql_store K lease) K cs now rq s = (Inr (found b), s')
        else api_get_action (sql_store K lease) K cs now rq s = (Inl not_found, s')"
    using sql_review.get_exact [OF reachable_ok [OF assms(1)] assms(2-4), of lease now] by blast
  then show ?thesis
    by (cases "find_action i s"; cases "can_access_action p (row_to_action (the (find_action i s)))")
      (auto simp: sql_view_def found_def)
qed

section \<open>Decisions\<close>

definition decide_query :: "codec \<Rightarrow> credential list \<Rightarrow> request \<Rightarrow> failure + (principal \<times> string \<times> string option)" where
  "decide_query K cs rq =
     bind_res (authorize K cs rq ''actions:decide'') (\<lambda>p.
     bind_res (reject_unknown_query rq []) (\<lambda>_.
     bind_res (path_action_id rq) (\<lambda>i.
     bind_res (read_decision_reason K rq) (\<lambda>reason. Inr (p, i, reason)))))"

lemma api_decide_eq: "api_decide ops K cs now d rq s = (case decide_query K cs rq of
    Inl e \<Rightarrow> (Inl e, s)
  | Inr (p, i, reason) \<Rightarrow> (case decide_store ops now p i d reason s of
      (Inl e, s') \<Rightarrow> (Inl (decision_failure e), s')
    | (Inr a, s') \<Rightarrow> (Inr (found a), s')))"
  unfolding api_decide_def decide_query_def found_def ..

lemma decide_query_InrD:
  assumes "auth_from_text K t = Inr cs" "decide_query K cs rq = Inr (p, i, reason)"
  shows "principal_ok p" "list_all identifier_ok (pc_namespaces p)" "has_scope p ''actions:decide''"
    "authenticate K cs (hr_authorization rq) = Inr p" "i = hr_action_id rq"
  using assms(2) authorized_principal [OF assms(1), of rq "''actions:decide''" p]
  by (auto simp: decide_query_def result_simps path_action_id_def split: if_splits)

lemma decide_query_Inl: "decide_query K cs rq = Inl f \<Longrightarrow> client_error f"
  by (auto simp: decide_query_def result_simps dest: parser_errors(1-3) read_decision_reason_Inl)

lemma api_decide_InrD:
  assumes "auth_from_text K t = Inr cs" "api_decide ops K cs now d rq s = (Inr j, s')"
  obtains p reason a where "decide_query K cs rq = Inr (p, hr_action_id rq, reason)"
    "decide_store ops now p (hr_action_id rq) d reason s = (Inr a, s')" "j = found a"
    "principal_ok p" "list_all identifier_ok (pc_namespaces p)" "has_scope p ''actions:decide''"
    "authenticate K cs (hr_authorization rq) = Inr p"
proof -
  obtain p i reason a where q: "decide_query K cs rq = Inr (p, i, reason)"
    "decide_store ops now p i d reason s = (Inr a, s')" "j = found a"
    using assms(2) by (auto simp: api_decide_eq split: sum.splits prod.splits)
  note props = decide_query_InrD [OF assms(1) q(1)]
  show thesis by (rule that [OF q [unfolded props(5)] props(1-4)])
qed

text \<open>
  C19. A decision the service confirms is one the caller may take: its token carries the decision
  scope, the action is in its tenant and was pending or already so decided, it holds this decision,
  and it is not the requester where its organization separates the two; the answer is the stored
  action in its new state.
\<close>

theorem decision_is_authorized:
  assumes "reachable K lease s" and "auth_from_text K t = Inr cs"
    and "api_decide (sql_store K lease) K cs now d rq s = (Inr j, s')"
  shows "\<exists>p a b. authenticate K cs (hr_authorization rq) = Inr p \<and> has_scope p ''actions:decide'' \<and>
    sql_view s (hr_action_id rq) = Some a \<and> can_access_action p a \<and>
    ra_status a \<in> {PENDING, decision_target d} \<and>
    (pc_organization_id p \<noteq> None \<longrightarrow> d \<in> set (pc_decisions p) \<and>
      (pc_require_separate_approver p \<longrightarrow> ra_requested_by a \<noteq> Some (pc_subject p))) \<and>
    sql_view s' (hr_action_id rq) = Some b \<and> same_subject a b \<and> ra_status b = decision_target d \<and>
    j = JObj [(''data'', action_payload b)]"
proof (rule api_decide_InrD [OF assms(2,3)])
  fix p reason b assume p: "principal_ok p" "list_all identifier_ok (pc_namespaces p)"
    "has_scope p ''actions:decide''" "authenticate K cs (hr_authorization rq) = Inr p" and "j = found b"
    and res: "decide_store (sql_store K lease) now p (hr_action_id rq) d reason s = (Inr b, s')"
  from sql_review.decide_store_ok [OF reachable_ok [OF assms(1)] p(1-3) res] p(3,4) \<open>j = found b\<close>
  show ?thesis unfolding found_def by blast
qed

text \<open>
  A decision request never ends in an internal error and never half-happens: every refusal is a
  documented client error, and leaves the store as it was.
\<close>

theorem refused_decision_is_clean:
  assumes "reachable K lease s" and "auth_from_text K t = Inr cs"
    and "api_decide (sql_store K lease) K cs now d rq s = (Inl f, s')"
  shows "s' = s \<and> (\<exists>err. f = Service err \<and> se_status err \<in> {400, 401, 403, 404, 409, 413, 415})"
proof (cases "decide_query K cs rq")
  case (Inl g)
  with assms(3) decide_query_Inl [OF Inl] show ?thesis by (auto simp: api_decide_eq client_error_def)
next
  case (Inr q)
  obtain p i reason where q: "q = (p, i, reason)" by (cases q) auto
  then obtain e where e: "decide_store (sql_store K lease) now p i d reason s = (Inl e, s')" "f = decision_failure e"
    using assms(3) Inr by (auto simp: api_decide_eq split: sum.splits prod.splits)
  have "s' = s \<and> foreseen e"
    by (rule sql_review.decide_store_error [OF reachable_ok [OF assms(1)]
          decide_query_InrD(1-3) [OF assms(2) Inr [unfolded q]] e(1)])
  moreover have "client_error (decision_failure e)" if "foreseen e"
    using that by (auto simp: foreseen_def decision_failure_def service_failure_def not_found_def
        client_error_def split: runtime_error.splits if_splits)
  ultimately show ?thesis using e(2) by (simp add: client_error_def)
qed

text \<open>
  Decisions are idempotent and final for the reviewers: the same request again is answered with
  the same body and changes nothing, not even the audit log, and the opposite decision by a caller
  who holds it is refused with the conflict response.
\<close>

theorem decision_is_repeatable:
  assumes "reachable K lease s" and "auth_from_text K t = Inr cs"
    and "api_decide (sql_store K lease) K cs now d rq s = (Inr j, s')"
    and "authenticate K cs (hr_authorization rq) = Inr p"
    and "d' \<noteq> d" and "pc_organization_id p = None \<or> d' \<in> set (pc_decisions p)"
  shows "api_decide (sql_store K lease) K cs now d rq s' = (Inr j, s') \<and>
    api_decide (sql_store K lease) K cs now d' rq s' = (Inl (service_failure 409 ''action_state_conflict''
      ''the action cannot accept that decision in its current state''), s')"
proof (rule api_decide_InrD [OF assms(2,3)])
  fix q reason b assume q: "decide_query K cs rq = Inr (q, hr_action_id rq, reason)" "j = found b"
    "principal_ok q" "list_all identifier_ok (pc_namespaces q)" "has_scope q ''actions:decide''"
    "authenticate K cs (hr_authorization rq) = Inr q"
    and res: "decide_store (sql_store K lease) now q (hr_action_id rq) d reason s = (Inr b, s')"
  have "q = p" using q(6) assms(4) by simp
  with sql_review.decide_store_again [OF reachable_ok [OF assms(1)] q(3-5) res, of reason d'] assms(5,6) q(1,2)
  show ?thesis by (auto simp: api_decide_eq conflict_def)
qed


section \<open>Listings\<close>


text \<open>
  The audit listing is complete: a client that follows the sequence cursors with any page size
  collects exactly the receipts of the actions it may see, in the order of the log.
\<close>

theorem audit_is_complete:
  assumes "reachable K lease s" and "0 < n" and "rs = filter (\<lambda>r. rc_action_id r \<in> visible) (receipts i s)"
  shows "walk (audit_after rs n) (Suc (length rs)) None = Some rs"
proof (rule audit_pager.walk_all [OF _ assms(2)])
  have "seq_ok rc_sequence (db_receipts s)"
    using reachable_ok [OF assms(1)] by (simp add: store_ok_def core_ok_def chains_ok_def)
  then have "numbered (db_receipts s)" by (rule seq_ok_numbered)
  then show "numbered rs"
    by (cases i) (auto simp: assms(3) receipts_def numbered_def sorted_wrt_filter)
qed

section \<open>A concrete review\<close>

text \<open>Alice of the demo document reviews the action of the demo run over HTTP.\<close>

definition demo_http :: request where
  "demo_http = \<lparr>hr_authorization = Some demo_header, hr_content_type = None, hr_content_length = None,
     hr_query = [], hr_action_id = ''a1'', hr_chunks = []\<rparr>"

definition demo_body :: request where
  "demo_body = demo_http\<lparr>hr_content_type := Some ''application/json; charset=utf-8'',
     hr_chunks := [''{'' @ [CHR 0x22] @ ''reason'' @ [CHR 0x22], '':'' @ [CHR 0x22] @ ''ok'' @ [CHR 0x22] @ ''}'']\<rparr>"

definition alice_authorization :: decision_authorization where
  "alice_authorization = \<lparr>da_actor = ''alice'', da_organization_id = ''default'', da_namespaces = [''payments''],
     da_decisions = [APPROVE, REJECT], da_require_separate_approver = True, da_reviewer_subject = Some ''alice''\<rparr>"

lemma demo_query:
  "decide_query demo_codec demo_credentials demo_http = Inr (alice, ''a1'', None)"
  "authorize demo_codec demo_credentials demo_http ''actions:read'' = Inr alice"
  "authorize demo_codec demo_credentials demo_http ''audit:read'' \<noteq> Inr p"
  "principal_authorization alice = Inr alice_authorization"
  "hr_query demo_http = []" "path_action_id demo_http = Inr ''a1''" "hr_action_id demo_http = ''a1''"
  "hr_authorization demo_http = Some demo_header"
  by code_simp+

lemma demo_reviewed:
  "\<exists>j s'. api_decide (sql_store demo_codec 100) demo_codec demo_credentials 20 APPROVE demo_http demo_submitted =
     (Inr j, s')"
proof -
  have "refreshed demo_codec 20 demo_row demo_submitted = (demo_row, demo_submitted)"
    by (simp add: refreshed_def expiring_def abandoned_def due_def)
  moreover have "check_authorization (row_to_action demo_row) APPROVE alice_authorization = Inr ()"
    by (simp add: check_authorization_iff authorized_def alice_authorization_def)
  moreover have "find_action (r_action_id demo_row) demo_submitted = Some demo_row"
    using demo_find_submitted by simp
  then have "\<exists>x. decide_locked demo_codec 20 (row_to_action demo_row) APPROVE (da_actor alice_authorization) None
      demo_submitted = Inr x"
    by (rule decide_locked_cases [of demo_row demo_submitted APPROVE demo_codec 20 "da_actor alice_authorization" None])
      (auto simp: decision_target_def)
  ultimately have "\<exists>a s'. decide_authorized demo_codec 20 ''a1'' APPROVE alice_authorization None demo_submitted =
      (Inr a, s')"
    by (auto simp: decide_refresh [OF demo_find_submitted] transaction_def split: prod.splits)
  then show ?thesis
    by (auto simp: api_decide_eq demo_query decide_store_def)
      (simp add: alice_def)
qed

lemma demo_refused:
  "api_decide (sql_store demo_codec 100) demo_codec demo_credentials 20 APPROVE
     (demo_http\<lparr>hr_authorization := None\<rparr>) demo_submitted =
   (Inl (Service \<lparr>se_status = 401, se_code = ''missing_bearer_token'', se_message = ''a bearer token is required'',
      se_headers = [(''WWW-Authenticate'', ae_challenge missing_token)]\<rparr>), demo_submitted)"
  by (simp add: api_decide_def authorize_def authenticate_def missing_token_def)

lemma scope_is_required_witness:
  "\<exists>err ch. api_endpoint (sql_store demo_codec 100) demo_codec demo_credentials ''4'' 20 List_Audit demo_http
      demo_submitted = (Inl (Service err), demo_submitted) \<and>
    se_status err \<in> {401, 403} \<and> se_headers err = [(''WWW-Authenticate'', ch)]"
proof (rule scope_is_required)
  show "(''/v1/audit'', ''GET'', List_Audit) \<in> set api_routes" by (simp add: api_routes_def)
  show "documented_scope ''/v1/audit'' ''GET'' = Some ''audit:read''" by code_simp
  show "\<forall>p. authenticate demo_codec demo_credentials (hr_authorization demo_http) = Inr p \<longrightarrow>
      \<not> has_scope p ''audit:read''"
    using demo_query(3) by (auto simp: authorize_iff)
qed

lemma foreign_actions_are_hidden_witness:
  "\<exists>a. fst (api_get_action (sql_store demo_codec 100) demo_codec demo_credentials 20 demo_http demo_submitted) =
     Inr (JObj [(''data'', action_payload a)])"
  using foreign_actions_are_hidden [OF demo_reachable(1) demo_query(2,5,6), of 20] demo_find_submitted
  by (auto simp: can_access_action_def alice_def)

lemma decision_is_authorized_witness:
  "\<exists>j s' b. api_decide (sql_store demo_codec 100) demo_codec demo_credentials 20 APPROVE demo_http demo_submitted =
     (Inr j, s') \<and> sql_view s' ''a1'' = Some b \<and> ra_status b = APPROVED"
  using demo_reviewed decision_is_authorized [OF demo_reachable(1) demo_auth_loads]
  by (fastforce simp: demo_query decision_target_def)

lemma refused_decision_is_clean_witness:
  "\<exists>f s'. api_decide (sql_store demo_codec 100) demo_codec demo_credentials 20 APPROVE
      (demo_http\<lparr>hr_authorization := None\<rparr>) demo_submitted = (Inl f, s') \<and> s' = demo_submitted"
  using demo_refused refused_decision_is_clean [OF demo_reachable(1) demo_auth_loads demo_refused] by blast

lemma decision_is_repeatable_witness:
  "\<exists>j s'. api_decide (sql_store demo_codec 100) demo_codec demo_credentials 20 APPROVE demo_http demo_submitted =
      (Inr j, s') \<and>
    api_decide (sql_store demo_codec 100) demo_codec demo_credentials 20 APPROVE demo_http s' = (Inr j, s')"
proof -
  obtain j s' where first: "api_decide (sql_store demo_codec 100) demo_codec demo_credentials 20 APPROVE demo_http
      demo_submitted = (Inr j, s')"
    using demo_reviewed by blast
  have "REJECT \<in> set (pc_decisions alice)" by (simp add: alice_def)
  with first decision_is_repeatable [OF demo_reachable(1) demo_auth_loads first, of alice REJECT]
  show ?thesis using demo_query(8) demo_header_authenticates by simp
qed



lemma audit_is_complete_witness:
  "\<exists>rs. rs = filter (\<lambda>r. rc_action_id r \<in> {''a1''}) (receipts None demo_submitted) \<and>
     walk (audit_after rs 1) (Suc (length rs)) None = Some rs"
  by (intro exI conjI, rule refl, rule audit_is_complete [OF demo_reachable(1) _ refl]) simp

end
