(* ===== verification/Url.thy ===== *)
theory Url
  imports Prelude
begin

text \<open>
  The parts of \<open>urllib.parse.urlsplit\<close> that the services look at, for code points below 256. Whether
  the text between the brackets of a host is an IP literal is a parameter (the module \<open>ipaddress\<close>).
\<close>

text \<open>\<open>s.partition(sep)\<close>: before the first separator, whether there is one, after it.\<close>

definition partition_at :: "(char \<Rightarrow> bool) \<Rightarrow> string \<Rightarrow> string \<times> bool \<times> string" where
  "partition_at sep s = (takeWhile (\<lambda>c. \<not> sep c) s, list_ex sep s, drop 1 (dropWhile (\<lambda>c. \<not> sep c) s))"

text \<open>\<open>s.rpartition(sep)\<close>: what precedes the last separator, if there is one, and what follows it.\<close>

definition rpartition_at :: "char \<Rightarrow> string \<Rightarrow> string option \<times> string" where
  "rpartition_at d s = (if d \<in> set s
     then (Some (rev (drop 1 (dropWhile (\<lambda>c. c \<noteq> d) (rev s)))), rev (takeWhile (\<lambda>c. c \<noteq> d) (rev s)))
     else (None, s))"

record url_parts =
  up_scheme :: string
  up_netloc :: string
  up_path :: string
  up_query :: string
  up_fragment :: string

definition scheme_char :: "char \<Rightarrow> bool" where
  "scheme_char c = (ascii_alnum c \<or> c \<in> {CHR ''+'', CHR ''-'', CHR ''.''})"

definition split_scheme :: "string \<Rightarrow> string \<times> string" where
  "split_scheme url = (case partition_at (\<lambda>c. c = CHR '':'') url of (s, colon, rest) \<Rightarrow>
     if colon \<and> s \<noteq> [] \<and> ascii_letter (hd s) \<and> list_all scheme_char s then (py_lower s, rest) else ([], url))"

definition brackets_ok :: "(string \<Rightarrow> bool) \<Rightarrow> string \<Rightarrow> bool" where
  "brackets_ok literal netloc =
     (if CHR ''['' \<in> set netloc \<and> CHR '']'' \<in> set netloc
      then literal (fst (partition_at (\<lambda>c. c = CHR '']'') (snd (snd (partition_at (\<lambda>c. c = CHR ''['') netloc)))))
      else CHR ''['' \<notin> set netloc \<and> CHR '']'' \<notin> set netloc)"

definition urlsplit :: "(string \<Rightarrow> bool) \<Rightarrow> string \<Rightarrow> url_parts option" where
  "urlsplit literal raw =
     (let url = filter (\<lambda>c. code c \<notin> {9, 10, 13}) (dropWhile (\<lambda>c. code c \<le> 32) raw);
          (scheme, rest) = split_scheme url;
          (netloc, tail) = (if starts_with rest ''//''
             then (takeWhile (\<lambda>c. c \<notin> set ''/?#'') (drop 2 rest), dropWhile (\<lambda>c. c \<notin> set ''/?#'') (drop 2 rest))
             else ([], rest));
          (before, hash, fragment) = partition_at (\<lambda>c. c = CHR ''#'') tail;
          (path, mark, query) = partition_at (\<lambda>c. c = CHR ''?'') before
      in if brackets_ok literal netloc
         then Some \<lparr>up_scheme = scheme, up_netloc = netloc, up_path = path, up_query = query, up_fragment = fragment\<rparr> else None)"

text \<open>The host and the text of the port, without the user information.\<close>

definition host_and_port :: "string \<Rightarrow> string \<times> string" where
  "host_and_port netloc =
     (let info = snd (rpartition_at (CHR ''@'') netloc);
          (before, open_bracket, bracketed) = partition_at (\<lambda>c. c = CHR ''['') info
      in if open_bracket then
           (let (host, _, rest) = partition_at (\<lambda>c. c = CHR '']'') bracketed
            in (host, snd (snd (partition_at (\<lambda>c. c = CHR '':'') rest))))
         else (let (host, _, port) = partition_at (\<lambda>c. c = CHR '':'') info in (host, port)))"

definition hostname :: "url_parts \<Rightarrow> string option" where
  "hostname u = (let host = fst (host_and_port (up_netloc u)) in
     if host = [] then None
     else Some (py_lower (takeWhile (\<lambda>c. c \<noteq> CHR ''%'') host) @ dropWhile (\<lambda>c. c \<noteq> CHR ''%'') host))"

definition has_user_info :: "url_parts \<Rightarrow> bool" where
  "has_user_info u = (CHR ''@'' \<in> set (up_netloc u))"

definition url_port :: "url_parts \<Rightarrow> int option" where
  "url_port u = (let port = snd (host_and_port (up_netloc u)) in if port = [] then None else Some (int (read_nat port)))"

text \<open>Whether reading \<open>parsed.port\<close> returns.\<close>

definition port_ok :: "url_parts \<Rightarrow> bool" where
  "port_ok u = (let port = snd (host_and_port (up_netloc u)) in
     port = [] \<or> list_all ascii_digit port \<and> length port \<le> 4300 \<and> read_nat port \<le> 65535)"

end
