(* ===== verification/Webhook_Config.thy ===== *)
theory Webhook_Config
  imports Auth Url
begin

text \<open>
  The endpoints of service/webhooks.py: their validation, the digest that binds stored delivery state
  to a configuration, and the configuration document.
\<close>

record webhook_endpoint =
  we_endpoint_id :: string
  we_url :: string
  we_secret :: string
  we_secret_env :: string
  we_events :: "runtime_event list"
  we_redact_argument_paths :: "string list"
  we_timeout_seconds :: pyfloat
  we_max_attempts :: int
  we_initial_backoff_seconds :: pyfloat
  we_max_backoff_seconds :: pyfloat
  we_start_from :: string

definition endpoint_id_ok :: "string \<Rightarrow> bool" where
  "endpoint_id_ok t = (1 \<le> length t \<and> length t \<le> 64 \<and>
     list_all (\<lambda>c. ascii_alnum c \<or> c \<in> set ''._-'') t)"

definition validate_webhook_url :: "(string \<Rightarrow> bool) \<Rightarrow> string \<Rightarrow> runtime_error + unit" where
  "validate_webhook_url literal url = (case urlsplit literal url of
     None \<Rightarrow> Inl (ValueError ''Invalid IPv6 URL'')
   | Some u \<Rightarrow>
       if up_scheme u \<notin> {''http'', ''https''} \<or> hostname u = None then
         Inl (ValueError ''webhook URL must be an absolute HTTP or HTTPS URL'')
       else if has_user_info u then Inl (ValueError ''webhook URL must not contain user information'')
       else if up_query u \<noteq> [] \<or> up_fragment u \<noteq> [] then
         Inl (ValueError ''webhook URL must not contain a query string or fragment'')
       else if \<not> port_ok u then Inl (ValueError ''webhook URL must contain a valid port'')
       else if up_scheme u = ''http'' \<and> hostname u \<notin> {Some ''localhost'', Some ''127.0.0.1'', Some ''::1''} then
         Inl (ValueError ''non-loopback webhook URLs must use HTTPS'')
       else Inr ())"

definition validate_redaction_path :: "string \<Rightarrow> runtime_error + unit" where
  "validate_redaction_path path =
     (if blank path \<or> [] \<in> set (split_on (CHR ''.'') path)
      then Inl (ValueError ''webhook redaction paths must contain non-empty dotted segments'') else Inr ())"

definition check_backoff :: "string \<Rightarrow> pyfloat \<Rightarrow> runtime_error + unit" where
  "check_backoff name x =
     (if \<not> is_finite x \<or> num_le x (of_int_num 0)
      then Inl (ValueError (''webhook '' @ name @ '' must be finite and greater than zero'')) else Inr ())"

text \<open>\<open>WebhookEndpoint.__post_init__\<close>\<close>

definition make_webhook_endpoint :: "(string \<Rightarrow> bool) \<Rightarrow> webhook_endpoint \<Rightarrow> runtime_error + webhook_endpoint" where
  "make_webhook_endpoint literal e =
     (if \<not> endpoint_id_ok (we_endpoint_id e) then
        Inl (ValueError ''webhook endpoint id must contain 1 to 64 letters, numbers, dots, dashes, or underscores'')
      else bind_res (validate_webhook_url literal (we_url e)) (\<lambda>_.
        if blank (we_secret_env e) then Inl (ValueError ''webhook secret_env must not be empty'')
        else if \<not> (32 \<le> length (we_secret e) \<and> length (we_secret e) \<le> 512) \<or>
            list_ex (\<lambda>c. 128 \<le> code c) (we_secret e) then
          Inl (ValueError ''webhook signing secret must contain 32 to 512 ASCII characters'')
        else if list_ex (\<lambda>c. code c < 33 \<or> 126 < code c) (we_secret e) then
          Inl (ValueError ''webhook signing secret must contain printable non-whitespace ASCII'')
        else if we_events e = [] then
          Inl (ValueError ''webhook endpoint must select at least one runtime event'')
        else bind_res (map_res validate_redaction_path (we_redact_argument_paths e)) (\<lambda>_.
        if \<not> distinct (we_redact_argument_paths e) then
          Inl (ValueError ''webhook redaction paths must not contain duplicates'')
        else if \<not> is_finite (we_timeout_seconds e) \<or> num_le (we_timeout_seconds e) (of_int_num 0) \<or>
            num_less (of_int_num 30) (we_timeout_seconds e) then
          Inl (ValueError ''webhook timeout_seconds must be finite and between 0 and 30'')
        else if \<not> (1 \<le> we_max_attempts e \<and> we_max_attempts e \<le> 20) then
          Inl (ValueError ''webhook max_attempts must be between 1 and 20'')
        else bind_res (check_backoff ''initial_backoff_seconds'' (we_initial_backoff_seconds e)) (\<lambda>_.
        bind_res (check_backoff ''max_backoff_seconds'' (we_max_backoff_seconds e)) (\<lambda>_.
        if num_less (we_max_backoff_seconds e) (we_initial_backoff_seconds e) then
          Inl (ValueError ''webhook max_backoff_seconds must not be below initial backoff'')
        else if we_start_from e \<notin> {''beginning'', ''latest''} then
          Inl (ValueError (''webhook start_from must be 'beginning' or 'latest'' @ [CHR 0x27]))
        else Inr e)))))"

text \<open>\<open>config_digest\<close>: every field but the secret.\<close>

definition endpoint_object :: "webhook_endpoint \<Rightarrow> json" where
  "endpoint_object e = JObj
     [(''endpoint_id'', JStr (we_endpoint_id e)), (''url'', JStr (we_url e)),
      (''secret_env'', JStr (we_secret_env e)),
      (''events'', JList (map JStr (sort (map event_text (we_events e))))),
      (''redact_argument_paths'', JList (map JStr (we_redact_argument_paths e))),
      (''timeout_seconds'', JFloat (we_timeout_seconds e)),
      (''max_attempts'', JInt (we_max_attempts e)),
      (''initial_backoff_seconds'', JFloat (we_initial_backoff_seconds e)),
      (''max_backoff_seconds'', JFloat (we_max_backoff_seconds e)),
      (''start_from'', JStr (we_start_from e))]"

definition config_digest :: "codec \<Rightarrow> webhook_endpoint \<Rightarrow> string" where
  "config_digest K e = sha256_hex K (dumps K (endpoint_object e))"

section \<open>The configuration document\<close>

definition make_webhook_config :: "webhook_endpoint list \<Rightarrow> runtime_error + webhook_endpoint list" where
  "make_webhook_config es =
     (if es = [] then Inl (ValueError ''webhook config must contain at least one endpoint'')
      else if \<not> distinct (map we_endpoint_id es) then Inl (ValueError ''webhook endpoint ids must be unique'')
      else Inr es)"

definition all_runtime_events :: "runtime_event list" where
  "all_runtime_events = [Ev_POLICY_ALLOWED, Ev_POLICY_DENIED, Ev_APPROVAL_REQUESTED, Ev_APPROVED, Ev_REJECTED,
     Ev_EXPIRED, Ev_EXECUTION_STARTED, Ev_EXECUTION_SUCCEEDED, Ev_EXECUTION_UNKNOWN, Ev_EXECUTION_ABANDONED,
     Ev_RECONCILIATION_COMMITTED, Ev_RECONCILIATION_NOT_COMMITTED, Ev_RESULT_REPLAYED,
     Ev_EMERGENCY_PAUSE_BLOCKED, Ev_LIMIT_BLOCKED]"

text \<open>\<open>RuntimeEvent(text)\<close>\<close>

definition event_of_text :: "string \<Rightarrow> runtime_error + runtime_event" where
  "event_of_text t = (case List.find (\<lambda>e. event_text e = t) all_runtime_events of
     None \<Rightarrow> Inl (ValueError ''not a valid RuntimeEvent'') | Some e \<Rightarrow> Inr e)"

definition json_list_of :: "json \<Rightarrow> string \<Rightarrow> runtime_error + json list" where
  "json_list_of j message = (case j of JList js \<Rightarrow> Inr js | _ \<Rightarrow> Inl (TypeError message))"

definition json_strings_of :: "json list \<Rightarrow> string \<Rightarrow> runtime_error + string list" where
  "json_strings_of js message = (case strings_of js of None \<Rightarrow> Inl (TypeError message) | Some ss \<Rightarrow> Inr ss)"

definition webhook_number :: "json \<Rightarrow> string \<Rightarrow> runtime_error + pyfloat" where
  "webhook_number j name = (case j of
     JInt _ \<Rightarrow> to_float j | JFloat _ \<Rightarrow> to_float j
   | _ \<Rightarrow> Inl (TypeError (''webhook '' @ name @ '' must be a number'')))"

definition parse_endpoint_fields ::
  "(string \<times> json) list \<Rightarrow> string \<Rightarrow> string \<Rightarrow> string \<Rightarrow> string \<Rightarrow> runtime_error + webhook_endpoint" where
  "parse_endpoint_fields item endpoint_id url secret_env secret =
   bind_res (json_list_of (dict_get item ''events'' (JList (map (\<lambda>e. JStr (event_text e)) all_runtime_events)))
     ''webhook endpoint events must be a list'') (\<lambda>raw_events.
   bind_res (json_list_of (dict_get item ''redact_argument_paths'' (JList []))
     ''webhook endpoint redact_argument_paths must be a list'') (\<lambda>raw_paths.
   bind_res (json_strings_of raw_events ''every webhook event must be a string'') (\<lambda>event_names.
   bind_res (json_strings_of raw_paths ''every webhook redaction path must be a string'') (\<lambda>paths.
   bind_res (map_res event_of_text event_names) (\<lambda>events.
   if \<not> distinct events then Inl (ValueError ''webhook endpoint events must not contain duplicates'')
   else
   bind_res (webhook_number (dict_get item ''timeout_seconds'' (JInt 10)) ''timeout_seconds'') (\<lambda>timeout.
   bind_res (webhook_number (dict_get item ''initial_backoff_seconds'' (JInt 1)) ''initial_backoff_seconds'') (\<lambda>initial.
   bind_res (webhook_number (dict_get item ''max_backoff_seconds'' (JInt 60)) ''max_backoff_seconds'') (\<lambda>maximum.
   case dict_get item ''max_attempts'' (JInt 5) of
     JInt attempts \<Rightarrow>
       (case dict_get item ''start_from'' (JStr ''beginning'') of
          JStr start_from \<Rightarrow> Inr \<lparr>we_endpoint_id = endpoint_id, we_url = url, we_secret = secret,
            we_secret_env = secret_env, we_events = events, we_redact_argument_paths = paths,
            we_timeout_seconds = timeout, we_max_attempts = attempts,
            we_initial_backoff_seconds = initial, we_max_backoff_seconds = maximum,
            we_start_from = start_from\<rparr>
        | _ \<Rightarrow> Inl (TypeError ''webhook start_from must be a string''))
   | _ \<Rightarrow> Inl (TypeError ''webhook max_attempts must be an integer'')))))))))"

definition parse_endpoint ::
  "(string \<Rightarrow> bool) \<Rightarrow> (string \<Rightarrow> string option) \<Rightarrow> json \<Rightarrow> runtime_error + webhook_endpoint" where
  "parse_endpoint literal environment v = (case v of
     JObj item \<Rightarrow>
       bind_res (validate_keys item [''id'', ''url'', ''secret_env'', ''events'', ''redact_argument_paths'',
         ''timeout_seconds'', ''max_attempts'', ''initial_backoff_seconds'', ''max_backoff_seconds'',
         ''start_from''] ''webhook endpoint'') (\<lambda>_.
       case (str_of (dict_get item ''id'' JNull), str_of (dict_get item ''url'' JNull),
           str_of (dict_get item ''secret_env'' JNull)) of
         (Some endpoint_id, Some url, Some secret_env) \<Rightarrow>
           (case environment secret_env of
              None \<Rightarrow> Inl (ValueError ''webhook secret environment variable is not set'')
            | Some secret \<Rightarrow>
                bind_res (parse_endpoint_fields item endpoint_id url secret_env secret)
                  (make_webhook_endpoint literal))
       | _ \<Rightarrow> Inl (TypeError ''webhook endpoint id, url, and secret_env must be strings''))
   | _ \<Rightarrow> Inl (TypeError ''each webhook endpoint must be an object''))"

definition webhook_config_from_mapping ::
  "(string \<Rightarrow> bool) \<Rightarrow> (string \<Rightarrow> string option) \<Rightarrow> (string \<times> json) list \<Rightarrow>
   runtime_error + webhook_endpoint list" where
  "webhook_config_from_mapping literal environment data =
   bind_res (validate_keys data [''version'', ''endpoints''] ''webhook config'') (\<lambda>_.
   if dict_get data ''version'' JNull \<noteq> JStr ''1'' then
     Inl (ValueError (''webhook config version must be '1'' @ [CHR 0x27]))
   else bind_res (json_list_of (dict_get data ''endpoints'' JNull) ''webhook endpoints must be a list'') (\<lambda>raw.
   bind_res (map_res (parse_endpoint literal environment) raw) make_webhook_config))"

definition webhook_config_from_text ::
  "(string \<Rightarrow> bool) \<Rightarrow> (string \<Rightarrow> string option) \<Rightarrow> codec \<Rightarrow> string \<Rightarrow>
   runtime_error + webhook_endpoint list" where
  "webhook_config_from_text literal environment K t = (case loads K t of
     None \<Rightarrow> Inl (ValueError ''invalid JSON'')
   | Some (JObj data) \<Rightarrow> webhook_config_from_mapping literal environment data
   | Some _ \<Rightarrow> Inl (TypeError ''webhook config must be a JSON object''))"

end
