(* ===== verification/Webhook_Store.thy ===== *)
theory Webhook_Store
  imports Webhook_Config Database "HOL-Library.Product_Lexorder"
begin

text \<open>
  The durable delivery store of service/webhooks.py: endpoint checkpoints and deliveries, with every
  operation's transaction. A body is its text; the encoder escapes everything outside ASCII.
\<close>

datatype delivery_status = Wd_pending | Wd_delivering | Wd_delivered | Wd_dead

record endpoint_row =
  en_endpoint_id :: string
  en_config_digest :: string
  en_last_enqueued_sequence :: int

record delivery_row =
  dl_delivery_id :: string
  dl_endpoint_id :: string
  dl_receipt_sequence :: int
  dl_event_id :: string
  dl_event_type :: string
  dl_body :: string
  dl_status :: delivery_status
  dl_attempts :: int
  dl_next_attempt_at_ns :: int
  dl_lease_expires_at_ns :: "int option"
  dl_claimed_by :: "string option"
  dl_last_status_code :: "int option"
  dl_last_error :: "string option"
  dl_delivered_at_ns :: "int option"

record webhook_db =
  wh_endpoints :: "endpoint_row list"
  wh_deliveries :: "delivery_row list"

record webhook_delivery =
  wd_delivery_id :: string
  wd_endpoint_id :: string
  wd_receipt_sequence :: int
  wd_event_id :: string
  wd_event_type :: string
  wd_body :: string
  wd_attempts :: int

record webhook_snapshot =
  ws_delivery_id :: string
  ws_endpoint_id :: string
  ws_receipt_sequence :: int
  ws_event_id :: string
  ws_event_type :: string
  ws_status :: delivery_status
  ws_attempts :: int
  ws_next_attempt_at_ns :: int
  ws_last_status_code :: "int option"
  ws_last_error :: "string option"
  ws_delivered_at_ns :: "int option"

section \<open>Configuration\<close>

definition webhook_lease :: "pyfloat \<Rightarrow> runtime_error + int" where
  "webhook_lease seconds =
     (if \<not> is_finite seconds \<or> num_le seconds (of_int_num 0) then
        Inl (ValueError ''webhook claim_lease_seconds must be finite and greater than zero'')
      else case seconds_to_ns seconds of
        None \<Rightarrow> Inl OverflowError
      | Some n \<Rightarrow> if n < 1
          then Inl (ValueError ''webhook claim_lease_seconds must be at least one nanosecond'') else Inr n)"

definition find_endpoint :: "string \<Rightarrow> webhook_db \<Rightarrow> endpoint_row option" where
  "find_endpoint i w = find_row en_endpoint_id i (wh_endpoints w)"

definition find_delivery :: "string \<Rightarrow> webhook_db \<Rightarrow> delivery_row option" where
  "find_delivery i w = find_row dl_delivery_id i (wh_deliveries w)"

definition update_delivery :: "string \<Rightarrow> (delivery_row \<Rightarrow> delivery_row) \<Rightarrow> webhook_db \<Rightarrow> webhook_db" where
  "update_delivery i f w = w\<lparr>wh_deliveries := update_row dl_delivery_id i f (wh_deliveries w)\<rparr>"

section \<open>Endpoints and the outbox\<close>

text \<open>The checkpoint of a new endpoint: the present end of the log, or its beginning.\<close>

definition checkpoint_row :: "codec \<Rightarrow> webhook_endpoint \<Rightarrow> int \<Rightarrow> endpoint_row" where
  "checkpoint_row K e current_sequence = \<lparr>en_endpoint_id = we_endpoint_id e, en_config_digest = config_digest K e,
     en_last_enqueued_sequence = (if we_start_from e = ''latest'' then current_sequence else 0)\<rparr>"

definition register_endpoint ::
  "codec \<Rightarrow> webhook_endpoint \<Rightarrow> int \<Rightarrow> webhook_db \<Rightarrow> (runtime_error + int) \<times> webhook_db" where
  "register_endpoint K e current_sequence w = transaction (case find_endpoint (we_endpoint_id e) w of
     Some row \<Rightarrow>
       if en_config_digest row \<noteq> config_digest K e then Inl (ValueError ''webhook endpoint changed configuration'')
       else Inr (en_last_enqueued_sequence row, w)
   | None \<Rightarrow>
       let row = checkpoint_row K e current_sequence in
       Inr (en_last_enqueued_sequence row, w\<lparr>wh_endpoints := wh_endpoints w @ [row]\<rparr>)) w"

definition webhook_event_id :: "int \<Rightarrow> string" where
  "webhook_event_id sequence = ''runtime-receipt-'' @ show_int sequence"

definition new_delivery :: "codec \<Rightarrow> webhook_endpoint \<Rightarrow> int \<Rightarrow> runtime_receipt \<Rightarrow> string \<Rightarrow> delivery_row" where
  "new_delivery K e now r body =
     \<lparr>dl_delivery_id = sha256_hex K (we_endpoint_id e @ '':'' @ webhook_event_id (rc_sequence r)),
      dl_endpoint_id = we_endpoint_id e, dl_receipt_sequence = rc_sequence r,
      dl_event_id = webhook_event_id (rc_sequence r), dl_event_type = event_text (rc_event r),
      dl_body = body, dl_status = Wd_pending, dl_attempts = 0, dl_next_attempt_at_ns = now,
      dl_lease_expires_at_ns = None, dl_claimed_by = None, dl_last_status_code = None,
      dl_last_error = None, dl_delivered_at_ns = None\<rparr>"

text \<open>\<open>INSERT OR IGNORE\<close>: a row that repeats the key or the pair of endpoint and sequence is not added.\<close>

definition insert_or_ignore :: "delivery_row \<Rightarrow> delivery_row list \<Rightarrow> delivery_row list" where
  "insert_or_ignore row rows =
     (if list_ex (\<lambda>q. dl_delivery_id q = dl_delivery_id row \<or>
         dl_endpoint_id q = dl_endpoint_id row \<and> dl_receipt_sequence q = dl_receipt_sequence row) rows
      then rows else rows @ [row])"

text \<open>The loop over the events, from the checkpoint that was read before it.\<close>

definition enqueue_rows ::
  "codec \<Rightarrow> webhook_endpoint \<Rightarrow> int \<Rightarrow> int \<Rightarrow> (runtime_receipt \<times> string) list \<Rightarrow> delivery_row list \<Rightarrow>
   delivery_row list" where
  "enqueue_rows K e now checkpoint events rows =
     foldl (\<lambda>rows (r, body).
       if rc_sequence r \<le> checkpoint \<or> rc_event r \<notin> set (we_events e) then rows
       else insert_or_ignore (new_delivery K e now r body) rows) rows events"

definition enqueue ::
  "codec \<Rightarrow> int \<Rightarrow> webhook_endpoint \<Rightarrow> (runtime_receipt \<times> string) list \<Rightarrow> int \<Rightarrow> webhook_db \<Rightarrow>
   (runtime_error + int) \<times> webhook_db" where
  "enqueue K now e events observed_sequence w = transaction (case find_endpoint (we_endpoint_id e) w of
     None \<Rightarrow> Inl (KeyError ''unknown webhook endpoint'')
   | Some row \<Rightarrow>
       let checkpoint = en_last_enqueued_sequence row;
           rows = enqueue_rows K e now checkpoint events (wh_deliveries w);
           w' = w\<lparr>wh_deliveries := rows\<rparr>
       in Inr (int (length rows) - int (length (wh_deliveries w)),
            if checkpoint < observed_sequence
            then w'\<lparr>wh_endpoints := update_row en_endpoint_id (we_endpoint_id e)
              (\<lambda>q. q\<lparr>en_last_enqueued_sequence := observed_sequence\<rparr>) (wh_endpoints w')\<rparr>
            else w')) w"

section \<open>Claims\<close>

text \<open>The first update of \<open>claim_due\<close>: claims whose lease is over are pending again.\<close>

definition lease_over :: "int \<Rightarrow> delivery_row \<Rightarrow> bool" where
  "lease_over now q = (dl_status q = Wd_delivering \<and>
     (case dl_lease_expires_at_ns q of None \<Rightarrow> False | Some t \<Rightarrow> t \<le> now))"

definition release_abandoned :: "int \<Rightarrow> delivery_row \<Rightarrow> delivery_row" where
  "release_abandoned now q = (if lease_over now q
     then q\<lparr>dl_status := Wd_pending, dl_claimed_by := None, dl_lease_expires_at_ns := None,
            dl_next_attempt_at_ns := now\<rparr> else q)"

definition due_rows :: "int \<Rightarrow> delivery_row list \<Rightarrow> delivery_row list" where
  "due_rows now rows = sort_key (\<lambda>q. (dl_receipt_sequence q, dl_endpoint_id q))
     (filter (\<lambda>q. dl_status q = Wd_pending \<and> dl_next_attempt_at_ns q \<le> now) rows)"

definition delivery_of :: "delivery_row \<Rightarrow> webhook_delivery" where
  "delivery_of q = \<lparr>wd_delivery_id = dl_delivery_id q, wd_endpoint_id = dl_endpoint_id q,
     wd_receipt_sequence = dl_receipt_sequence q, wd_event_id = dl_event_id q,
     wd_event_type = dl_event_type q, wd_body = dl_body q, wd_attempts = dl_attempts q\<rparr>"

definition claim_row :: "int \<Rightarrow> int \<Rightarrow> string \<Rightarrow> delivery_row \<Rightarrow> delivery_row" where
  "claim_row lease now worker q = q\<lparr>dl_status := Wd_delivering, dl_attempts := dl_attempts q + 1,
     dl_claimed_by := Some worker, dl_lease_expires_at_ns := Some (now + lease)\<rparr>"

definition claim_due ::
  "int \<Rightarrow> int \<Rightarrow> string \<Rightarrow> webhook_db \<Rightarrow> (runtime_error + webhook_delivery option) \<times> webhook_db" where
  "claim_due lease now worker w =
     (if blank worker then (Inl (ValueError ''webhook worker_id must not be empty''), w)
      else transaction
        (let w1 = w\<lparr>wh_deliveries := map (release_abandoned now) (wh_deliveries w)\<rparr> in
         case due_rows now (wh_deliveries w1) of
           [] \<Rightarrow> Inr (None, w1)
         | q # _ \<Rightarrow> Inr (Some (delivery_of (claim_row lease now worker q)),
             update_delivery (dl_delivery_id q) (claim_row lease now worker) w1)) w)"

section \<open>Outcomes\<close>

definition require_owned :: "string \<Rightarrow> string \<Rightarrow> webhook_db \<Rightarrow> runtime_error + unit" where
  "require_owned i worker w = (case find_delivery i w of
     None \<Rightarrow> Inl (KeyError ''unknown webhook delivery'')
   | Some q \<Rightarrow> if dl_status q \<noteq> Wd_delivering \<or> dl_claimed_by q \<noteq> Some worker
       then Inl (ValueError ''webhook delivery is not owned by this worker'') else Inr ())"

definition delivered_row :: "int \<Rightarrow> int \<Rightarrow> delivery_row \<Rightarrow> delivery_row" where
  "delivered_row now status_code q = q\<lparr>dl_status := Wd_delivered, dl_delivered_at_ns := Some now,
     dl_last_status_code := Some status_code, dl_last_error := None, dl_claimed_by := None,
     dl_lease_expires_at_ns := None\<rparr>"

definition mark_delivered ::
  "int \<Rightarrow> string \<Rightarrow> string \<Rightarrow> int \<Rightarrow> webhook_db \<Rightarrow> (runtime_error + unit) \<times> webhook_db" where
  "mark_delivered now i worker status_code w =
     (if \<not> (100 \<le> status_code \<and> status_code \<le> 599)
      then (Inl (ValueError ''webhook HTTP status code must be between 100 and 599''), w)
      else transaction (bind_res (require_owned i worker w) (\<lambda>_.
        Inr ((), update_delivery i (delivered_row now status_code) w))) w)"

text \<open>
  The delay before the next attempt: exponential, bounded by the maximum. Two to a power of 1024 or
  more does not fit a float.
\<close>

definition retry_delay_ns :: "webhook_endpoint \<Rightarrow> int \<Rightarrow> runtime_error + int" where
  "retry_delay_ns e attempts =
     (if 1024 < attempts then Inl OverflowError
      else case seconds_to_ns (num_min (fmul_int (we_initial_backoff_seconds e) (2 ^ nat (attempts - 1)))
          (we_max_backoff_seconds e)) of
        None \<Rightarrow> Inl OverflowError | Some n \<Rightarrow> Inr n)"

definition failed_row ::
  "delivery_status \<Rightarrow> int \<Rightarrow> int option \<Rightarrow> string \<Rightarrow> delivery_row \<Rightarrow> delivery_row" where
  "failed_row status next_attempt status_code error q = q\<lparr>dl_status := status,
     dl_next_attempt_at_ns := next_attempt, dl_last_status_code := status_code,
     dl_last_error := Some error, dl_claimed_by := None, dl_lease_expires_at_ns := None\<rparr>"

definition mark_failed ::
  "int \<Rightarrow> webhook_delivery \<Rightarrow> string \<Rightarrow> webhook_endpoint \<Rightarrow> int option \<Rightarrow> string \<Rightarrow> webhook_db \<Rightarrow>
   (runtime_error + delivery_status) \<times> webhook_db" where
  "mark_failed now d worker e status_code error w =
     (if wd_endpoint_id d \<noteq> we_endpoint_id e then
        (Inl (ValueError ''webhook delivery and endpoint do not match''), w)
      else if (case status_code of None \<Rightarrow> False | Some c \<Rightarrow> \<not> (100 \<le> c \<and> c \<le> 599)) then
        (Inl (ValueError ''webhook HTTP status code must be between 100 and 599''), w)
      else if blank error \<or> 128 < length error then
        (Inl (ValueError ''webhook failure error must contain 1 to 128 characters''), w)
      else
        let terminal = (we_max_attempts e \<le> wd_attempts d);
            status = (if terminal then Wd_dead else Wd_pending)
        in case (if terminal \<and> wd_attempts d \<le> 1024 then Inr now
                 else bind_res (retry_delay_ns e (wd_attempts d)) (\<lambda>n. Inr (now + n))) of
             Inl x \<Rightarrow> (Inl x, w)
           | Inr next_attempt \<Rightarrow> transaction (bind_res (require_owned (wd_delivery_id d) worker w) (\<lambda>_.
               Inr (status, update_delivery (wd_delivery_id d)
                 (failed_row status next_attempt status_code error) w))) w)"

section \<open>Inspection and manual retries\<close>

definition snapshot_of :: "delivery_row \<Rightarrow> webhook_snapshot" where
  "snapshot_of q = \<lparr>ws_delivery_id = dl_delivery_id q, ws_endpoint_id = dl_endpoint_id q,
     ws_receipt_sequence = dl_receipt_sequence q, ws_event_id = dl_event_id q,
     ws_event_type = dl_event_type q, ws_status = dl_status q, ws_attempts = dl_attempts q,
     ws_next_attempt_at_ns = dl_next_attempt_at_ns q, ws_last_status_code = dl_last_status_code q,
     ws_last_error = dl_last_error q, ws_delivered_at_ns = dl_delivered_at_ns q\<rparr>"

definition snapshots :: "webhook_db \<Rightarrow> webhook_snapshot list" where
  "snapshots w = map snapshot_of
     (sort_key (\<lambda>q. (dl_receipt_sequence q, dl_endpoint_id q)) (wh_deliveries w))"

definition revived_row :: "int \<Rightarrow> delivery_row \<Rightarrow> delivery_row" where
  "revived_row now q = q\<lparr>dl_status := Wd_pending, dl_attempts := 0, dl_next_attempt_at_ns := now,
     dl_claimed_by := None, dl_lease_expires_at_ns := None, dl_delivered_at_ns := None\<rparr>"

definition retry_dead ::
  "int \<Rightarrow> string \<Rightarrow> string \<Rightarrow> webhook_db \<Rightarrow> (runtime_error + webhook_snapshot) \<times> webhook_db" where
  "retry_dead now endpoint_id event_id w =
     (if blank endpoint_id \<or> blank event_id then
        (Inl (ValueError ''webhook endpoint id and event id must not be empty''), w)
      else transaction (case find_row (\<lambda>q. (dl_endpoint_id q, dl_event_id q)) (endpoint_id, event_id)
          (wh_deliveries w) of
        None \<Rightarrow> Inl (KeyError ''unknown webhook delivery'')
      | Some q \<Rightarrow>
          if dl_status q \<noteq> Wd_dead then
            Inl (ValueError ''only a dead webhook delivery can be retried manually'')
          else let w' = update_delivery (dl_delivery_id q) (revived_row now) w in
            (case find_delivery (dl_delivery_id q) w' of
               None \<Rightarrow> Inl (RuntimeStoreError ''webhook delivery disappeared while retrying'')
             | Some q' \<Rightarrow> Inr (snapshot_of q', w'))) w)"

end
