(* ===== verification/Webhook.thy ===== *)
theory Webhook
  imports Webhook_Store Protocol
begin

text \<open>
  The bodies, signatures and worker of service/webhooks.py: the redaction of arguments, the canonical
  event body, the outbox that turns receipts into deliveries, and the loop that delivers them. The
  keyed hash of the signature and the HTTP sender are parameters.
\<close>

section \<open>Redaction\<close>

definition redacted :: json where
  "redacted = JStr ''[REDACTED]''"

definition sensitive_words :: "string list" where
  "sensitive_words = [''api_key'', ''api-key'', ''apikey'', ''authorization'', ''cookie'', ''password'',
     ''private_key'', ''private-key'', ''privatekey'', ''secret'', ''token'']"

definition key_separator :: "char \<Rightarrow> bool" where
  "key_separator c = (c = CHR ''_'' \<or> c = CHR ''-'')"

text \<open>One of the words, up to a separator or the end (which \<open>$\<close> also sees before a last line feed).\<close>

definition sensitive_from :: "string \<Rightarrow> bool" where
  "sensitive_from s = list_ex (\<lambda>w. starts_with s w \<and> (case drop (length w) s of
      [] \<Rightarrow> True | c # r \<Rightarrow> key_separator c \<or> code c = 10 \<and> r = [])) sensitive_words"

fun sensitive_after :: "string \<Rightarrow> bool" where
  "sensitive_after [] = False"
| "sensitive_after (c # r) = (key_separator c \<and> sensitive_from r \<or> sensitive_after r)"

definition sensitive_normalized_keys :: "string list" where
  "sensitive_normalized_keys = [''apikey'', ''apitoken'', ''accesstoken'', ''authorization'', ''authtoken'',
     ''clientsecret'', ''cookie'', ''password'', ''privatekey'', ''refreshtoken'', ''secret'',
     ''sessiontoken'', ''token'']"

definition sensitive_key :: "string \<Rightarrow> bool" where
  "sensitive_key k = (sensitive_from (py_lower k) \<or> sensitive_after (py_lower k) \<or>
     py_lower (filter ascii_alnum k) \<in> set sensitive_normalized_keys)"

fun redact_sensitive :: "json \<Rightarrow> json"
  and redact_items :: "json list \<Rightarrow> json list"
  and redact_members :: "(string \<times> json) list \<Rightarrow> (string \<times> json) list" where
  "redact_sensitive (JObj kvs) = JObj (redact_members kvs)"
| "redact_sensitive (JList js) = JList (redact_items js)"
| "redact_sensitive j = j"
| "redact_items [] = []"
| "redact_items (j # js) = redact_sensitive j # redact_items js"
| "redact_members [] = []"
| "redact_members ((k, v) # kvs) =
     (k, if sensitive_key k then redacted else redact_sensitive v) # redact_members kvs"

definition dict_update :: "string \<Rightarrow> (json \<Rightarrow> json) \<Rightarrow> (string \<times> json) list \<Rightarrow> (string \<times> json) list" where
  "dict_update k f kvs = map (\<lambda>(q, v). (q, if q = k then f v else v)) kvs"

fun redact_path :: "string list \<Rightarrow> json \<Rightarrow> json" where
  "redact_path [] j = j"
| "redact_path [k] (JObj kvs) = JObj (dict_update k (\<lambda>_. redacted) kvs)"
| "redact_path (k # p # ps) (JObj kvs) = JObj (dict_update k (redact_path (p # ps)) kvs)"
| "redact_path _ j = j"

definition redact_arguments :: "json \<Rightarrow> string list \<Rightarrow> runtime_error + json" where
  "redact_arguments arguments paths =
     (if \<not> json_finite arguments then Inl (ValueError ''Out of range float values are not JSON compliant'')
      else Inr (foldl (\<lambda>j path. redact_path (split_on (CHR ''.'') path) j) (redact_sensitive arguments) paths))"

section \<open>Bodies\<close>

text \<open>The dictionary of \<open>_event_status\<close>; an event it lacks is a \<open>KeyError\<close>.\<close>

definition event_status :: "runtime_event \<Rightarrow> runtime_error + string" where
  "event_status e = (case map_of
     [(Ev_POLICY_ALLOWED, ''approved''), (Ev_POLICY_DENIED, ''denied''), (Ev_APPROVAL_REQUESTED, ''pending''),
      (Ev_APPROVED, ''approved''), (Ev_REJECTED, ''rejected''), (Ev_EXPIRED, ''expired''),
      (Ev_EXECUTION_STARTED, ''executing''), (Ev_EXECUTION_SUCCEEDED, ''succeeded''),
      (Ev_EXECUTION_UNKNOWN, ''unknown''), (Ev_EXECUTION_ABANDONED, ''unknown''),
      (Ev_RECONCILIATION_COMMITTED, ''succeeded''), (Ev_RECONCILIATION_NOT_COMMITTED, ''pending_or_approved''),
      (Ev_RESULT_REPLAYED, ''succeeded'')] e of
     None \<Rightarrow> Inl (KeyError (event_text e)) | Some t \<Rightarrow> Inr t)"

definition webhook_payload :: "runtime_receipt \<Rightarrow> runtime_action \<Rightarrow> json \<Rightarrow> string \<Rightarrow> json" where
  "webhook_payload r a arguments status = JObj
     [(''specversion'', JStr ''1.0''),
      (''id'', JStr (webhook_event_id (rc_sequence r))),
      (''type'', JStr (''agentbarrier.runtime.'' @ event_text (rc_event r))),
      (''source'', JStr (''agentbarrier://'' @ ra_namespace a)),
      (''subject'', JStr (ra_action_id a)),
      (''time_ns'', JInt (rc_timestamp_ns r)),
      (''data'', JObj
         [(''action'', JObj
            [(''action_id'', JStr (ra_action_id a)), (''namespace'', JStr (ra_namespace a)),
             (''tool_name'', JStr (ra_tool_name a)), (''arguments'', arguments),
             (''request_digest'', JStr (ra_request_digest a)), (''policy_version'', JStr (ra_policy_version a)),
             (''policy_rule'', JStr (ra_policy_rule a)), (''event_status'', JStr status)]),
          (''receipt'', JObj
            [(''sequence'', JInt (rc_sequence r)), (''event'', JStr (event_text (rc_event r))),
             (''actor'', opt_str (rc_actor r)), (''detail'', opt_str (rc_detail r)),
             (''receipt_hash'', JStr (rc_receipt_hash r)), (''previous_hash'', opt_str (rc_previous_hash r))])])]"

definition build_webhook_body ::
  "codec \<Rightarrow> runtime_receipt \<Rightarrow> runtime_action \<Rightarrow> webhook_endpoint \<Rightarrow> runtime_error + string" where
  "build_webhook_body K r a e =
   bind_res (redact_arguments (ra_arguments a) (we_redact_argument_paths e)) (\<lambda>arguments.
   bind_res (event_status (rc_event r)) (\<lambda>status.
   json_result (canonical_json K (webhook_payload r a arguments status) ''webhook payload'')))"

definition signature_headers ::
  "(string \<Rightarrow> string \<Rightarrow> string) \<Rightarrow> webhook_endpoint \<Rightarrow> string \<Rightarrow> string \<Rightarrow> string \<Rightarrow> (string \<times> string) list" where
  "signature_headers hmac e body event_id timestamp =
     [(''Content-Type'', ''application/cloudevents+json''),
      (''User-Agent'', ''AgentBarrier-Webhooks/1.1.0''),
      (''X-AgentBarrier-Event-Id'', event_id),
      (''X-AgentBarrier-Timestamp'', timestamp),
      (''X-AgentBarrier-Signature'', ''v1='' @ hmac (we_secret e) (timestamp @ ''.'' @ body))]"

section \<open>The outbox\<close>

text \<open>
  The loop over the receipts for one endpoint, with the cache of the actions read so far. \<open>read_at\<close>
  is the time of the read of an action.
\<close>

fun select_receipts ::
  "'s store_ops \<Rightarrow> codec \<Rightarrow> (string \<Rightarrow> int) \<Rightarrow> webhook_endpoint \<Rightarrow> int \<Rightarrow> runtime_receipt list \<Rightarrow>
   (string \<times> runtime_action) list \<Rightarrow> 's \<Rightarrow>
   (runtime_error + (runtime_receipt \<times> string) list \<times> (string \<times> runtime_action) list) \<times> 's" where
  "select_receipts ops K read_at e checkpoint [] cache s = (Inr ([], cache), s)"
| "select_receipts ops K read_at e checkpoint (r # rs) cache s =
     (if rc_sequence r \<le> checkpoint \<or> rc_event r \<notin> set (we_events e)
      then select_receipts ops K read_at e checkpoint rs cache s
      else case (case map_of cache (rc_action_id r) of
            Some a \<Rightarrow> (Inr a, s) | None \<Rightarrow> st_get_action ops (read_at (rc_action_id r)) (rc_action_id r) s) of
          (Inl x, s1) \<Rightarrow> (Inl x, s1)
        | (Inr a, s1) \<Rightarrow> (case build_webhook_body K r a e of
            Inl x \<Rightarrow> (Inl x, s1)
          | Inr body \<Rightarrow> (case select_receipts ops K read_at e checkpoint rs ((rc_action_id r, a) # cache) s1 of
              (Inl x, s2) \<Rightarrow> (Inl x, s2)
            | (Inr (selected, cache'), s2) \<Rightarrow> (Inr ((r, body) # selected, cache'), s2))))"

text \<open>The loop over the endpoints; what earlier endpoints committed stays when a later one raises.\<close>

fun sync_endpoints ::
  "'s store_ops \<Rightarrow> codec \<Rightarrow> (string \<Rightarrow> int) \<Rightarrow> (string \<Rightarrow> int) \<Rightarrow> runtime_receipt list \<Rightarrow> int \<Rightarrow>
   webhook_endpoint list \<Rightarrow> (string \<times> runtime_action) list \<Rightarrow> int \<Rightarrow> 's \<times> webhook_db \<Rightarrow>
   (runtime_error + int) \<times> 's \<times> webhook_db" where
  "sync_endpoints ops K read_at enqueue_at rs observed [] cache sofar (s, w) = (Inr sofar, s, w)"
| "sync_endpoints ops K read_at enqueue_at rs observed (e # es) cache sofar (s, w) =
     (case register_endpoint K e observed w of
        (Inl x, w1) \<Rightarrow> (Inl x, s, w1)
      | (Inr checkpoint, w1) \<Rightarrow> (case select_receipts ops K read_at e checkpoint rs cache s of
          (Inl x, s1) \<Rightarrow> (Inl x, s1, w1)
        | (Inr (selected, cache'), s1) \<Rightarrow>
            (case enqueue K (enqueue_at (we_endpoint_id e)) e selected observed w1 of
               (Inl x, w2) \<Rightarrow> (Inl x, s1, w2)
             | (Inr n, w2) \<Rightarrow> sync_endpoints ops K read_at enqueue_at rs observed es cache'
                 (sofar + n) (s1, w2))))"

definition last_sequence :: "runtime_receipt list \<Rightarrow> int" where
  "last_sequence rs = (if rs = [] then 0 else rc_sequence (last rs))"

definition sync_outbox ::
  "'s store_ops \<Rightarrow> codec \<Rightarrow> (string \<Rightarrow> int) \<Rightarrow> (string \<Rightarrow> int) \<Rightarrow> webhook_endpoint list \<Rightarrow> 's \<times> webhook_db \<Rightarrow>
   (runtime_error + int) \<times> 's \<times> webhook_db" where
  "sync_outbox ops K read_at enqueue_at config sw =
     (let rs = st_receipts ops None (fst sw) in
      sync_endpoints ops K read_at enqueue_at rs (last_sequence rs) config [] 0 sw)"

section \<open>The worker\<close>

text \<open>\<open>WebhookWorker.__init__\<close>: the lease outlasts every timeout.\<close>

definition worker_ok :: "string \<Rightarrow> pyfloat \<Rightarrow> webhook_endpoint list \<Rightarrow> runtime_error + unit" where
  "worker_ok worker lease_seconds config =
     (if blank worker then Inl (ValueError ''webhook worker_id must not be empty'')
      else if list_ex (\<lambda>e. num_le lease_seconds (we_timeout_seconds e)) config then
        Inl (ValueError ''webhook claim lease must be longer than every endpoint timeout'')
      else Inr ())"

datatype sent = Sent_Status int | Sent_Raised string

text \<open>
  One turn of the loop of \<open>run_once\<close>: the times of its clock readings, what the sender did, and what
  other workers did to the delivery store while it was sending.
\<close>

record turn =
  tu_claim_ns :: int
  tu_sign_ns :: int
  tu_sent :: "string \<Rightarrow> string \<Rightarrow> (string \<times> string) list \<Rightarrow> sent"
  tu_others :: "webhook_db \<Rightarrow> webhook_db"
  tu_finish_ns :: int

record run_counts =
  rn_enqueued :: int
  rn_delivered :: int
  rn_retried :: int
  rn_dead :: int

definition finish_turn ::
  "string \<Rightarrow> turn \<Rightarrow> webhook_endpoint \<Rightarrow> webhook_delivery \<Rightarrow> sent \<Rightarrow> run_counts \<Rightarrow> webhook_db \<Rightarrow>
   (runtime_error + run_counts) \<times> webhook_db" where
  "finish_turn worker t e d outcome counts w =
     (let failed = (\<lambda>status_code error.
        (case mark_failed (tu_finish_ns t) d worker e status_code error w of
           (Inl x, w') \<Rightarrow> (Inl x, w')
         | (Inr st, w') \<Rightarrow> (Inr (if st = Wd_dead then counts\<lparr>rn_dead := rn_dead counts + 1\<rparr>
             else counts\<lparr>rn_retried := rn_retried counts + 1\<rparr>), w')))
      in case outcome of
        Sent_Raised name \<Rightarrow> failed None (take 128 name)
      | Sent_Status c \<Rightarrow>
          if 200 \<le> c \<and> c < 300 then
            (case mark_delivered (tu_finish_ns t) (wd_delivery_id d) worker c w of
               (Inl x, w') \<Rightarrow> (Inl x, w')
             | (Inr _, w') \<Rightarrow> (Inr (counts\<lparr>rn_delivered := rn_delivered counts + 1\<rparr>), w'))
          else failed (Some c) ''HTTPError'')"

text \<open>The loop, over the turns the environment gives; \<open>None\<close> when they end before the queue does.\<close>

fun deliver_all ::
  "(string \<Rightarrow> string \<Rightarrow> string) \<Rightarrow> int \<Rightarrow> string \<Rightarrow> webhook_endpoint list \<Rightarrow> turn list \<Rightarrow> run_counts \<Rightarrow>
   webhook_db \<Rightarrow> ((runtime_error + run_counts) \<times> webhook_db) option" where
  "deliver_all hmac lease worker config [] counts w = None"
| "deliver_all hmac lease worker config (t # ts) counts w =
     (case claim_due lease (tu_claim_ns t) worker w of
        (Inl x, w1) \<Rightarrow> Some (Inl x, w1)
      | (Inr None, w1) \<Rightarrow> Some (Inr counts, w1)
      | (Inr (Some d), w1) \<Rightarrow> (case find_row we_endpoint_id (wd_endpoint_id d) config of
          None \<Rightarrow> Some (Inl (KeyError (wd_endpoint_id d)), w1)
        | Some e \<Rightarrow>
            (case finish_turn worker t e d (tu_sent t (we_url e) (wd_body d)
                (signature_headers hmac e (wd_body d) (wd_event_id d)
                  (show_int (tu_sign_ns t div 1000000000)))) counts (tu_others t w1) of
               (Inl x, w2) \<Rightarrow> Some (Inl x, w2)
             | (Inr counts', w2) \<Rightarrow> deliver_all hmac lease worker config ts counts' w2)))"

definition run_once ::
  "'s store_ops \<Rightarrow> codec \<Rightarrow> (string \<Rightarrow> string \<Rightarrow> string) \<Rightarrow> int \<Rightarrow> string \<Rightarrow> webhook_endpoint list \<Rightarrow>
   (string \<Rightarrow> int) \<Rightarrow> (string \<Rightarrow> int) \<Rightarrow> turn list \<Rightarrow> 's \<times> webhook_db \<Rightarrow>
   ((runtime_error + run_counts) \<times> 's \<times> webhook_db) option" where
  "run_once ops K hmac lease worker config read_at enqueue_at turns sw =
     (case sync_outbox ops K read_at enqueue_at config sw of
        (Inl x, sw') \<Rightarrow> Some (Inl x, sw')
      | (Inr n, s', w') \<Rightarrow>
          map_option (\<lambda>(r, w''). (r, s', w'')) (deliver_all hmac lease worker config turns
            \<lparr>rn_enqueued = n, rn_delivered = 0, rn_retried = 0, rn_dead = 0\<rparr> w'))"

end
