(* ===== verification/Lease_Queue.thy ===== *)
theory Lease_Queue
  imports Main
begin

text \<open>
  The contract of a durable queue whose workers claim items for a bounded time: a claim takes only a
  free item and holds it for the claiming worker until its lease is over, and no step of another
  worker before that time touches it. The exclusiveness of a claim over every interleaving of steps
  follows once.
\<close>

text \<open>A step of a worker at a time, and the runs of the other workers before a time.\<close>

inductive others_run :: "(int \<Rightarrow> 'w \<Rightarrow> 's \<Rightarrow> 's \<Rightarrow> bool) \<Rightarrow> 'w \<Rightarrow> int \<Rightarrow> 's \<Rightarrow> 's \<Rightarrow> bool"
  for step v t where
  others_none: "others_run step v t s s"
| others_step: "others_run step v t s s' \<Longrightarrow> step now u s' s'' \<Longrightarrow> now < t \<Longrightarrow> u \<noteq> v \<Longrightarrow>
    others_run step v t s s''"

locale lease_queue =
  fixes step :: "int \<Rightarrow> 'w \<Rightarrow> 's \<Rightarrow> 's \<Rightarrow> bool" and inv :: "'s \<Rightarrow> bool"
    and claim :: "int \<Rightarrow> 'w \<Rightarrow> 's \<Rightarrow> 'i option \<times> 's"
    and held :: "'s \<Rightarrow> 'i \<Rightarrow> ('w \<times> int) option" and lease :: int
  assumes step_inv: "inv s \<Longrightarrow> step now u s s' \<Longrightarrow> inv s'"
    and claim_step: "inv s \<Longrightarrow> claim now u s = (Some i, s') \<Longrightarrow> step now u s s'"
    and claim_holds: "inv s \<Longrightarrow> claim now u s = (Some i, s') \<Longrightarrow> held s' i = Some (u, now + lease)"
    and claim_free: "inv s \<Longrightarrow> claim now u s = (Some i, s') \<Longrightarrow> held s i = Some (v, t) \<Longrightarrow> t \<le> now"
    and step_keeps: "inv s \<Longrightarrow> step now u s s' \<Longrightarrow> held s i = Some (v, t) \<Longrightarrow> now < t \<Longrightarrow> u \<noteq> v \<Longrightarrow>
      held s' i = Some (v, t)"
begin

lemma held_through:
  assumes "others_run step v t s s'" "inv s" "held s i = Some (v, t)"
  shows "inv s' \<and> held s' i = Some (v, t)"
  using assms by (induction rule: others_run.induct) (auto intro: step_inv step_keeps)

theorem claim_exclusive:
  assumes "inv s" "claim now v s = (Some i, s1)" "others_run step v (now + lease) s1 s2"
  shows "held s2 i = Some (v, now + lease)"
    and "claim later u s2 = (Some j, s3) \<Longrightarrow> later < now + lease \<Longrightarrow> j \<noteq> i"
proof -
  have held: "inv s2" "held s2 i = Some (v, now + lease)"
    using held_through [OF assms(3) step_inv [OF assms(1) claim_step [OF assms(1,2)]] claim_holds [OF assms(1,2)]]
    by auto
  then show "held s2 i = Some (v, now + lease)" by simp
  show "claim later u s2 = (Some j, s3) \<Longrightarrow> later < now + lease \<Longrightarrow> j \<noteq> i"
    using claim_free [OF held(1), of later u j s3] held(2) by force
qed

end

end
