(* ===== verification/Webhook_Facts.thy ===== *)
theory Webhook_Facts
  imports Webhook Lease_Queue
begin

text \<open>
  The delivery store as a transition system: its invariant, what no step can undo, and the
  interpretation of the lease queue on it.
\<close>

section \<open>Rows\<close>

definition wh_ok :: "webhook_db \<Rightarrow> bool" where
  "wh_ok w \<longleftrightarrow> distinct (map dl_delivery_id (wh_deliveries w)) \<and>
     distinct (map (\<lambda>q. (dl_endpoint_id q, dl_receipt_sequence q)) (wh_deliveries w)) \<and>
     distinct (map en_endpoint_id (wh_endpoints w)) \<and>
     (\<forall>q \<in> set (wh_deliveries w). dl_status q = Wd_delivering \<longleftrightarrow> dl_claimed_by q \<noteq> None) \<and>
     (\<forall>q \<in> set (wh_deliveries w). dl_claimed_by q = None \<longleftrightarrow> dl_lease_expires_at_ns q = None)"

text \<open>What no operation changes in a delivery.\<close>

definition letter_of :: "delivery_row \<Rightarrow> string \<times> string \<times> int \<times> string \<times> string \<times> string" where
  "letter_of q = (dl_delivery_id q, dl_endpoint_id q, dl_receipt_sequence q, dl_event_id q, dl_event_type q, dl_body q)"

lemma letter_ofD:
  assumes "letter_of q = letter_of r"
  shows "dl_delivery_id q = dl_delivery_id r" "dl_endpoint_id q = dl_endpoint_id r"
    "dl_receipt_sequence q = dl_receipt_sequence r" "dl_body q = dl_body r" "dl_event_id q = dl_event_id r"
  using assms by (simp_all add: letter_of_def)

lemma letter_updates [simp]:
  "letter_of (release_abandoned now q) = letter_of q" "letter_of (claim_row lease now v q) = letter_of q"
  "letter_of (delivered_row now c q) = letter_of q" "letter_of (failed_row st n sc e q) = letter_of q"
  "letter_of (revived_row now q) = letter_of q"
  by (simp_all add: letter_of_def release_abandoned_def claim_row_def delivered_row_def failed_row_def revived_row_def)

lemma key_updates [simp]:
  "dl_delivery_id (release_abandoned now q) = dl_delivery_id q" "dl_delivery_id (claim_row lease now v q) = dl_delivery_id q"
  "dl_delivery_id (delivered_row now c q) = dl_delivery_id q" "dl_delivery_id (failed_row st n sc e q) = dl_delivery_id q"
  "dl_delivery_id (revived_row now q) = dl_delivery_id q"
  using letter_updates [THEN letter_ofD(1)] by auto

definition claims_fit :: "delivery_row \<Rightarrow> bool" where
  "claims_fit q \<longleftrightarrow> (dl_status q = Wd_delivering \<longleftrightarrow> dl_claimed_by q \<noteq> None) \<and>
     (dl_claimed_by q = None \<longleftrightarrow> dl_lease_expires_at_ns q = None)"

lemma claims_fit_updates:
  "claims_fit q \<Longrightarrow> claims_fit (release_abandoned now q)" "claims_fit (claim_row lease now v q)"
  "claims_fit (delivered_row now c q)" "st \<in> {Wd_dead, Wd_pending} \<Longrightarrow> claims_fit (failed_row st n sc err q)"
  "claims_fit (revived_row now q)" "claims_fit (new_delivery K e now r body)"
  by (auto simp: claims_fit_def release_abandoned_def claim_row_def delivered_row_def failed_row_def
      revived_row_def new_delivery_def)

lemma wh_ok_alt: "wh_ok w \<longleftrightarrow> distinct (map dl_delivery_id (wh_deliveries w)) \<and>
     distinct (map (\<lambda>q. (dl_endpoint_id q, dl_receipt_sequence q)) (wh_deliveries w)) \<and>
     distinct (map en_endpoint_id (wh_endpoints w)) \<and> (\<forall>q \<in> set (wh_deliveries w). claims_fit q)"
  by (auto simp: wh_ok_def claims_fit_def)

text \<open>An update of every delivery that keeps its letter.\<close>

lemma wh_ok_map:
  assumes ok: "wh_ok w" and rows: "wh_deliveries w' = map f (wh_deliveries w)" "wh_endpoints w' = wh_endpoints w"
    and letter: "\<And>q. letter_of (f q) = letter_of q"
    and fit: "\<And>q. q \<in> set (wh_deliveries w) \<Longrightarrow> claims_fit q \<Longrightarrow> claims_fit (f q)"
  shows "wh_ok w'" "find_delivery i w' = map_option f (find_delivery i w)"
proof -
  have keys: "map dl_delivery_id (wh_deliveries w') = map dl_delivery_id (wh_deliveries w)"
    "map (\<lambda>q. (dl_endpoint_id q, dl_receipt_sequence q)) (wh_deliveries w') =
     map (\<lambda>q. (dl_endpoint_id q, dl_receipt_sequence q)) (wh_deliveries w)"
    using letter_ofD(1-3) [OF letter] by (simp_all add: rows(1))
  show "wh_ok w'" unfolding wh_ok_alt keys rows(2) using ok fit by (auto simp: wh_ok_alt rows(1))
  have "find_row dl_delivery_id i (map f rs) = map_option f (find_row dl_delivery_id i rs)" for rs
    using letter_ofD(1) [OF letter] by (induction rs) auto
  then show "find_delivery i w' = map_option f (find_delivery i w)" by (simp add: find_delivery_def rows(1))
qed

lemma update_delivery_map: "wh_deliveries (update_delivery k f w) =
    map (\<lambda>q. if dl_delivery_id q = k then f q else q) (wh_deliveries w)"
  "wh_endpoints (update_delivery k f w) = wh_endpoints w"
  by (simp_all add: update_delivery_def update_row_def)

lemma update_delivery_ok:
  assumes "wh_ok w" "\<And>q. letter_of (f q) = letter_of q" "\<And>q. claims_fit q \<Longrightarrow> claims_fit (f q)"
  shows "wh_ok (update_delivery k f w)"
    "find_delivery i (update_delivery k f w) = map_option (\<lambda>q. if i = k then f q else q) (find_delivery i w)"
proof -
  note m = wh_ok_map [OF assms(1) update_delivery_map, of "k" f]
  show "wh_ok (update_delivery k f w)"
    by (rule wh_ok_map(1) [OF assms(1) update_delivery_map]) (use assms in auto)
  have "find_delivery i (update_delivery k f w) =
      map_option (\<lambda>q. if dl_delivery_id q = k then f q else q) (find_delivery i w)"
    by (rule wh_ok_map(2) [OF assms(1) update_delivery_map]) (use assms in auto)
  also have "\<dots> = map_option (\<lambda>q. if i = k then f q else q) (find_delivery i w)"
    by (cases "find_delivery i w") (auto simp: find_delivery_def dest: find_row_SomeD)
  finally show "find_delivery i (update_delivery k f w) = map_option (\<lambda>q. if i = k then f q else q) (find_delivery i w)" .
qed

section \<open>Claims\<close>

definition released :: "int \<Rightarrow> webhook_db \<Rightarrow> webhook_db" where
  "released now w = w\<lparr>wh_deliveries := map (release_abandoned now) (wh_deliveries w)\<rparr>"

lemma claim_due_cases:
  assumes "claim_due lease now v w = (r, w')"
  shows "w' = w \<and> (\<exists>e. r = Inl e) \<or> r = Inr None \<and> w' = released now w \<or>
    (\<exists>q \<in> set (wh_deliveries (released now w)). dl_status q = Wd_pending \<and> dl_next_attempt_at_ns q \<le> now \<and>
      r = Inr (Some (delivery_of (claim_row lease now v q))) \<and>
      w' = update_delivery (dl_delivery_id q) (claim_row lease now v) (released now w))"
proof (cases "blank v")
  case True
  then show ?thesis using assms by (auto simp: claim_due_def)
next
  case False
  note claim = assms [unfolded claim_due_def Let_def, folded released_def]
  show ?thesis
  proof (cases "due_rows now (wh_deliveries (released now w))")
    case Nil
    then show ?thesis using claim False by simp
  next
    case (Cons q qs)
    then have "q \<in> set (due_rows now (wh_deliveries (released now w)))" by simp
    then have "q \<in> set (wh_deliveries (released now w))" "dl_status q = Wd_pending" "dl_next_attempt_at_ns q \<le> now"
      by (auto simp: due_rows_def)
    then show ?thesis using claim False Cons by auto
  qed
qed

lemma released_ok:
  assumes "wh_ok w"
  shows "wh_ok (released now w)" "find_delivery i (released now w) = map_option (release_abandoned now) (find_delivery i w)"
  using wh_ok_map [OF assms, of "released now w" "release_abandoned now"] claims_fit_updates(1)
  by (auto simp: released_def)

lemma claim_due_ok:
  assumes ok: "wh_ok w" and res: "claim_due lease now v w = (r, w')"
  shows "wh_ok w'"
  using claim_due_cases [OF res] ok released_ok(1) [OF ok]
    update_delivery_ok(1) [OF released_ok(1) [OF ok], of "claim_row lease now v"] claims_fit_updates(2)
  by auto

lemma claim_due_some:
  assumes ok: "wh_ok w" and res: "claim_due lease now v w = (Inr (Some d), w')"
  shows "\<exists>q. find_delivery (wd_delivery_id d) w = Some q \<and> (dl_status q = Wd_pending \<or> lease_over now q) \<and>
    d = delivery_of (claim_row lease now v (release_abandoned now q)) \<and>
    find_delivery (wd_delivery_id d) w' = Some (claim_row lease now v (release_abandoned now q)) \<and>
    (\<forall>j. j \<noteq> wd_delivery_id d \<longrightarrow> find_delivery j w' = map_option (release_abandoned now) (find_delivery j w))"
proof -
  obtain q where q: "q \<in> set (wh_deliveries (released now w))" "dl_status q = Wd_pending"
    "d = delivery_of (claim_row lease now v q)"
    "w' = update_delivery (dl_delivery_id q) (claim_row lease now v) (released now w)"
    using claim_due_cases [OF res] by blast
  note rel = released_ok [OF ok, where now = now]
  obtain q0 where q0: "q0 \<in> set (wh_deliveries w)" "q = release_abandoned now q0"
    using q(1) by (auto simp: released_def)
  have id: "wd_delivery_id d = dl_delivery_id q0"
    using q(3) q0(2) by (simp add: delivery_of_def)
  have "find_delivery (dl_delivery_id q0) w = Some q0"
    using ok q0(1) find_row_unique [of dl_delivery_id] by (auto simp: wh_ok_def find_delivery_def)
  moreover have "dl_status q0 = Wd_pending \<or> lease_over now q0"
    using q(2) q0(2) by (auto simp: release_abandoned_def split: if_splits)
  moreover have "find_delivery j w' = map_option (\<lambda>q. if j = dl_delivery_id q0 then claim_row lease now v q else q)
      (find_delivery j (released now w))" for j
    using update_delivery_ok(2) [OF rel(1), where f = "claim_row lease now v" and k = "dl_delivery_id q" and i = j]
      claims_fit_updates(2) q(4) q0(2) by simp
  ultimately show ?thesis
    unfolding id using rel(2) q(3) q0(2) by (intro exI [of _ q0]) (auto simp: option.map_comp comp_def)
qed

section \<open>Outcomes\<close>

lemma require_owned_iff: "require_owned i v w = Inr () \<longleftrightarrow> (\<exists>q. find_delivery i w = Some q \<and>
    dl_status q = Wd_delivering \<and> dl_claimed_by q = Some v)"
  by (auto simp: require_owned_def split: option.splits)

lemma transaction_owned:
  "transaction (bind_res (require_owned i v w) (\<lambda>_. Inr (x, w1))) w =
    (case require_owned i v w of Inl e \<Rightarrow> (Inl e, w) | Inr _ \<Rightarrow> (Inr x, w1))"
  by (cases "require_owned i v w") simp_all

lemma mark_delivered_cases:
  assumes "mark_delivered now i v c w = (r, w')"
  shows "w' = w \<and> (\<exists>e. r = Inl e) \<or>
    r = Inr () \<and> require_owned i v w = Inr () \<and> w' = update_delivery i (delivered_row now c) w"
  using assms unfolding mark_delivered_def transaction_owned
  by (cases "require_owned i v w") (auto dest: sym split: if_splits)

lemma mark_failed_cases:
  assumes "mark_failed now d v e c err w = (r, w')"
  shows "w' = w \<and> (\<exists>x. r = Inl x) \<or>
    (\<exists>st n. r = Inr st \<and> st \<in> {Wd_dead, Wd_pending} \<and> require_owned (wd_delivery_id d) v w = Inr () \<and>
      w' = update_delivery (wd_delivery_id d) (failed_row st n c err) w)"
  using assms unfolding mark_failed_def Let_def transaction_owned
  by (cases "require_owned (wd_delivery_id d) v w") (auto split: if_splits sum.splits)

lemma retry_dead_cases:
  assumes "retry_dead now e v w = (r, w')"
  shows "w' = w \<or> (\<exists>q \<in> set (wh_deliveries w). dl_status q = Wd_dead \<and>
      w' = update_delivery (dl_delivery_id q) (revived_row now) w)"
proof (cases "find_row (\<lambda>q. (dl_endpoint_id q, dl_event_id q)) (e, v) (wh_deliveries w)")
  case None
  with assms show ?thesis by (auto simp: retry_dead_def split: if_splits)
next
  case (Some q)
  then have "q \<in> set (wh_deliveries w)" using find_row_SomeD by metis
  with Some assms show ?thesis
    by (auto simp: retry_dead_def Let_def split: if_splits option.splits)
qed

section \<open>The outbox\<close>

definition outbox_ok :: "delivery_row list \<Rightarrow> bool" where
  "outbox_ok rows \<longleftrightarrow> distinct (map dl_delivery_id rows) \<and>
     distinct (map (\<lambda>q. (dl_endpoint_id q, dl_receipt_sequence q)) rows) \<and> (\<forall>q \<in> set rows. claims_fit q)"

lemma enqueue_rows_Cons:
  "enqueue_rows K e now cp ((r, body) # evs) rows =
     enqueue_rows K e now cp evs (if rc_sequence r \<le> cp \<or> rc_event r \<notin> set (we_events e) then rows
       else insert_or_ignore (new_delivery K e now r body) rows)"
  by (simp add: enqueue_rows_def)

lemma insert_or_ignore_ok: "outbox_ok rows \<Longrightarrow> outbox_ok (insert_or_ignore (new_delivery K e now r body) rows)"
  using claims_fit_updates(6) by (auto simp: outbox_ok_def insert_or_ignore_def list_ex_iff)

lemma enqueue_rows_ok:
  assumes "outbox_ok rows"
  shows "outbox_ok (enqueue_rows K e now cp evs rows) \<and> (\<exists>ex. enqueue_rows K e now cp evs rows = rows @ ex)"
  using assms
proof (induction evs arbitrary: rows)
  case Nil
  then show ?case by (simp add: enqueue_rows_def)
next
  case (Cons ev evs)
  obtain r body where ev: "ev = (r, body)" by fastforce
  let ?rows = "if rc_sequence r \<le> cp \<or> rc_event r \<notin> set (we_events e) then rows
       else insert_or_ignore (new_delivery K e now r body) rows"
  have "outbox_ok ?rows" using Cons.prems insert_or_ignore_ok by simp
  moreover have "\<exists>ex. ?rows = rows @ ex" by (auto simp: insert_or_ignore_def)
  ultimately show ?case using Cons.IH [of ?rows] by (auto simp: ev enqueue_rows_Cons)
qed

lemma enqueue_cases:
  assumes "enqueue K now e evs ob w = (r, w')"
  shows "w' = w \<and> (\<exists>x. r = Inl x) \<and> find_endpoint (we_endpoint_id e) w = None \<or>
    (\<exists>row n. r = Inr n \<and> find_endpoint (we_endpoint_id e) w = Some row \<and>
      wh_deliveries w' = enqueue_rows K e now (en_last_enqueued_sequence row) evs (wh_deliveries w) \<and>
      wh_endpoints w' = (if en_last_enqueued_sequence row < ob then update_row en_endpoint_id (we_endpoint_id e)
         (\<lambda>q. q\<lparr>en_last_enqueued_sequence := ob\<rparr>) (wh_endpoints w) else wh_endpoints w))"
  using assms by (cases "find_endpoint (we_endpoint_id e) w") (auto simp: enqueue_def Let_def)

lemma register_cases:
  assumes "register_endpoint K e cs w = (r, w')"
  shows "w' = w \<and> find_endpoint (we_endpoint_id e) w \<noteq> None \<or>
    find_endpoint (we_endpoint_id e) w = None \<and> r = Inr (en_last_enqueued_sequence (checkpoint_row K e cs)) \<and>
      w' = w\<lparr>wh_endpoints := wh_endpoints w @ [checkpoint_row K e cs]\<rparr>"
  using assms by (cases "find_endpoint (we_endpoint_id e) w") (auto simp: register_endpoint_def Let_def split: if_splits)

section \<open>Steps\<close>

inductive wh_step :: "codec \<Rightarrow> int \<Rightarrow> int \<Rightarrow> string \<Rightarrow> webhook_db \<Rightarrow> webhook_db \<Rightarrow> bool"
  for K :: codec and lease :: int and now :: int and v :: string where
  step_register: "register_endpoint K e cs w = (r, w') \<Longrightarrow> wh_step K lease now v w w'"
| step_enqueue: "enqueue K now e evs ob w = (r, w') \<Longrightarrow> wh_step K lease now v w w'"
| step_claim_due: "claim_due lease now v w = (r, w') \<Longrightarrow> wh_step K lease now v w w'"
| step_delivered: "mark_delivered now i v c w = (r, w') \<Longrightarrow> wh_step K lease now v w w'"
| step_failed: "mark_failed now d v e c err w = (r, w') \<Longrightarrow> wh_step K lease now v w w'"
| step_retry: "retry_dead now ei ev w = (r, w') \<Longrightarrow> wh_step K lease now v w w'"

text \<open>What a step of a worker may do to a delivery: never to a delivered one, nor to one another worker holds.\<close>

definition evolves :: "int \<Rightarrow> string \<Rightarrow> delivery_row \<Rightarrow> delivery_row \<Rightarrow> bool" where
  "evolves now v q q' \<longleftrightarrow> letter_of q' = letter_of q \<and> (dl_status q = Wd_delivered \<longrightarrow> q' = q) \<and>
     (\<forall>u t. dl_claimed_by q = Some u \<and> dl_lease_expires_at_ns q = Some t \<and> now < t \<and> u \<noteq> v \<longrightarrow> q' = q)"

lemma evolves_refl [simp]: "evolves now v q q"
  by (simp add: evolves_def)

lemma evolves_release: "claims_fit q \<Longrightarrow> evolves now v q (release_abandoned now q)"
  by (auto simp: evolves_def release_abandoned_def lease_over_def letter_of_def split: if_splits option.splits)

lemma find_delivery_fit: "wh_ok w \<Longrightarrow> find_delivery i w = Some q \<Longrightarrow> claims_fit q"
  by (auto simp: wh_ok_alt find_delivery_def dest: find_row_SomeD)

lemma owned_row:
  assumes "require_owned i v w = Inr ()" "find_delivery i w = Some q"
  shows "dl_status q = Wd_delivering" "dl_claimed_by q = Some v"
  using assms by (auto simp: require_owned_iff)

lemma evolves_owned: "dl_status q = Wd_delivering \<Longrightarrow> dl_claimed_by q = Some v \<Longrightarrow> letter_of q' = letter_of q \<Longrightarrow>
    evolves now v q q'"
  by (auto simp: evolves_def)

lemma evolves_free: "dl_status q \<noteq> Wd_delivered \<Longrightarrow> claims_fit q \<Longrightarrow> dl_status q \<noteq> Wd_delivering \<Longrightarrow>
    letter_of q' = letter_of q \<Longrightarrow> evolves now v q q'"
  by (auto simp: evolves_def claims_fit_def)

lemma claimed_evolves:
  assumes "dl_status q = Wd_pending \<or> lease_over now q" "claims_fit q"
  shows "evolves now v q (claim_row lease now v (release_abandoned now q))"
  using assms by (auto simp: evolves_def lease_over_def claims_fit_def split: option.splits)

lemma endpoints_ok:
  assumes "wh_ok w" "wh_deliveries w' = wh_deliveries w" "distinct (map en_endpoint_id (wh_endpoints w'))"
  shows "wh_ok w'" "find_delivery i w' = find_delivery i w"
  using assms by (simp_all add: wh_ok_alt find_delivery_def)

lemma registered_ok:
  assumes "wh_ok w" "register_endpoint K e cs w = (r, w')"
  shows "wh_ok w'" "find_delivery i w' = find_delivery i w"
proof -
  have d: "distinct (map en_endpoint_id (wh_endpoints w'))" "wh_deliveries w' = wh_deliveries w"
    using register_cases [OF assms(2)] assms(1)
    by (auto simp: wh_ok_alt find_endpoint_def find_row_None_iff checkpoint_row_def)
  show "wh_ok w'" "find_delivery i w' = find_delivery i w"
    using endpoints_ok [OF assms(1) d(2,1)] by auto
qed

lemma enqueued_ok:
  assumes "wh_ok w" "enqueue K now e evs ob w = (r, w')"
  shows "wh_ok w'" "find_delivery i w = Some q \<Longrightarrow> find_delivery i w' = Some q"
proof -
  have "wh_ok w' \<and> (find_delivery i w = Some q \<longrightarrow> find_delivery i w' = Some q)"
    using enqueue_cases [OF assms(2)]
  proof (elim disjE exE conjE)
    fix row n assume rows: "wh_deliveries w' = enqueue_rows K e now (en_last_enqueued_sequence row) evs (wh_deliveries w)"
      and ends: "wh_endpoints w' = (if en_last_enqueued_sequence row < ob then update_row en_endpoint_id (we_endpoint_id e)
         (\<lambda>q. q\<lparr>en_last_enqueued_sequence := ob\<rparr>) (wh_endpoints w) else wh_endpoints w)"
    have ob: "outbox_ok (wh_deliveries w)" using assms(1) by (simp add: wh_ok_alt outbox_ok_def)
    obtain ex where "wh_deliveries w' = wh_deliveries w @ ex" "outbox_ok (wh_deliveries w')"
      using enqueue_rows_ok [OF ob] rows by metis
    moreover have "map en_endpoint_id (wh_endpoints w') = map en_endpoint_id (wh_endpoints w)"
      by (simp add: ends update_row_def)
    ultimately show ?thesis
      using assms(1) by (auto simp: wh_ok_alt outbox_ok_def find_delivery_def find_row_append)
  qed (use assms(1) in simp)
  then show "wh_ok w'" "find_delivery i w = Some q \<Longrightarrow> find_delivery i w' = Some q" by auto
qed

lemma update_evolves:
  assumes ok: "wh_ok w" and f: "\<And>q. letter_of (f q) = letter_of q" "\<And>q. claims_fit q \<Longrightarrow> claims_fit (f q)"
    and one: "\<And>q. find_delivery k w = Some q \<Longrightarrow> evolves now v q (f q)"
  shows "wh_ok (update_delivery k f w) \<and> (\<forall>i q. find_delivery i w = Some q \<longrightarrow>
    (\<exists>q'. find_delivery i (update_delivery k f w) = Some q' \<and> evolves now v q q'))"
  using update_delivery_ok [OF ok f, where k = k] one by auto

lemma step_evolves:
  assumes "wh_step K lease now v w w'" "wh_ok w"
  shows "wh_ok w' \<and> (\<forall>i q. find_delivery i w = Some q \<longrightarrow> (\<exists>q'. find_delivery i w' = Some q' \<and> evolves now v q q'))"
  using assms
proof (induction rule: wh_step.induct)
  case (step_register e cs w r w')
  then show ?case using registered_ok by (metis evolves_refl)
next
  case (step_enqueue e evs ob w r w')
  then show ?case using enqueued_ok by (metis evolves_refl)
next
  case (step_claim_due w r w')
  note ok = step_claim_due.prems
  have rel: "\<exists>q'. find_delivery i (released now w) = Some q' \<and> evolves now v q q'" if "find_delivery i w = Some q" for i q
    using released_ok(2) [OF ok] that evolves_release [OF find_delivery_fit [OF ok that]] by simp
  show ?case
  proof (cases "\<exists>d. r = Inr (Some d)")
    case True
    then obtain d where "r = Inr (Some d)" by blast
    note some = claim_due_some [OF ok step_claim_due.hyps [unfolded this]]
    have "\<exists>q'. find_delivery i w' = Some q' \<and> evolves now v q q'" if q: "find_delivery i w = Some q" for i q
      using some q claimed_evolves [OF _ find_delivery_fit [OF ok q]] evolves_release [OF find_delivery_fit [OF ok q]]
      by (cases "i = wd_delivery_id d") auto
    with claim_due_ok [OF ok step_claim_due.hyps] show ?thesis by blast
  next
    case False
    then have "w' = w \<or> w' = released now w" using claim_due_cases [OF step_claim_due.hyps] by blast
    with rel claim_due_ok [OF ok step_claim_due.hyps] show ?thesis by fastforce
  qed
next
  case (step_delivered i c w r w')
  show ?case using mark_delivered_cases [OF step_delivered.hyps]
  proof (elim disjE conjE)
    assume own: "require_owned i v w = Inr ()" and w': "w' = update_delivery i (delivered_row now c) w"
    show ?thesis unfolding w'
      by (rule update_evolves [OF step_delivered.prems])
        (auto simp: claims_fit_updates intro: evolves_owned owned_row [OF own])
  qed (use step_delivered.prems in auto)
next
  case (step_failed d e c err w r w')
  show ?case using mark_failed_cases [OF step_failed.hyps]
  proof (elim disjE exE conjE)
    fix st n assume own: "require_owned (wd_delivery_id d) v w = Inr ()" and st: "st \<in> {Wd_dead, Wd_pending}"
      and w': "w' = update_delivery (wd_delivery_id d) (failed_row st n c err) w"
    show ?thesis unfolding w'
      by (rule update_evolves [OF step_failed.prems])
        (use st in \<open>auto simp: claims_fit_updates intro: evolves_owned owned_row [OF own]\<close>)
  qed (use step_failed.prems in auto)
next
  case (step_retry ei ev w r w')
  show ?case using retry_dead_cases [OF step_retry.hyps]
  proof
    assume "w' = w"
    then show ?thesis using step_retry.prems by auto
  next
    assume "\<exists>q \<in> set (wh_deliveries w). dl_status q = Wd_dead \<and>
      w' = update_delivery (dl_delivery_id q) (revived_row now) w"
    then obtain q0 where q0: "q0 \<in> set (wh_deliveries w)" "dl_status q0 = Wd_dead"
      "w' = update_delivery (dl_delivery_id q0) (revived_row now) w" by blast
    have "find_delivery (dl_delivery_id q0) w = Some q0"
      using step_retry.prems q0(1) find_row_unique [of dl_delivery_id] by (auto simp: wh_ok_def find_delivery_def)
    then show ?thesis unfolding q0(3)
      by (intro update_evolves [OF step_retry.prems])
        (use q0 find_delivery_fit [OF step_retry.prems] in \<open>auto simp: claims_fit_updates intro!: evolves_free\<close>)
  qed
qed

section \<open>The lease queue\<close>

definition held :: "webhook_db \<Rightarrow> string \<Rightarrow> (string \<times> int) option" where
  "held w i = (case find_delivery i w of None \<Rightarrow> None
     | Some q \<Rightarrow> (case (dl_claimed_by q, dl_lease_expires_at_ns q) of (Some v, Some t) \<Rightarrow> Some (v, t) | _ \<Rightarrow> None))"

definition claim_id :: "int \<Rightarrow> int \<Rightarrow> string \<Rightarrow> webhook_db \<Rightarrow> string option \<times> webhook_db" where
  "claim_id lease now v w = (case claim_due lease now v w of
     (Inr (Some d), w') \<Rightarrow> (Some (wd_delivery_id d), w') | (_, w') \<Rightarrow> (None, w'))"

lemma claim_id_Some: "claim_id lease now v w = (Some i, w') \<longleftrightarrow>
    (\<exists>d. claim_due lease now v w = (Inr (Some d), w') \<and> wd_delivery_id d = i)"
  by (auto simp: claim_id_def split: prod.splits sum.splits option.splits)

lemma held_Some: "held w i = Some (v, t) \<longleftrightarrow> (\<exists>q. find_delivery i w = Some q \<and> dl_claimed_by q = Some v \<and>
    dl_lease_expires_at_ns q = Some t)"
  by (auto simp: held_def split: option.splits)

interpretation webhook_queue: lease_queue "wh_step K lease" wh_ok "claim_id lease" held lease for K lease
proof
  fix w now v w' assume "wh_ok w" "wh_step K lease now v w w'"
  then show "wh_ok w'" using step_evolves by blast
next
  fix w now v i w' assume "wh_ok w" "claim_id lease now v w = (Some i, w')"
  then show "wh_step K lease now v w w'" by (auto simp: claim_id_Some intro: step_claim_due)
next
  fix w now v i w' assume "wh_ok w" "claim_id lease now v w = (Some i, w')"
  then show "held w' i = Some (v, now + lease)"
    using claim_due_some by (fastforce simp: claim_id_Some held_Some claim_row_def)
next
  fix w now u i w' v t assume ok: "wh_ok w" and "claim_id lease now u w = (Some i, w')" "held w i = Some (v, t)"
  then show "t \<le> now"
    using claim_due_some [OF ok] find_delivery_fit [OF ok]
    by (fastforce simp: claim_id_Some held_Some lease_over_def claims_fit_def)
next
  fix w now u w' i v t assume "wh_ok w" "wh_step K lease now u w w'" "held w i = Some (v, t)" "now < t" "u \<noteq> v"
  then show "held w' i = Some (v, t)"
    using step_evolves by (fastforce simp: held_Some evolves_def)
qed

end
