(* ===== verification/Webhook_Props.thy ===== *)
theory Webhook_Props
  imports Webhook_Facts
begin

text \<open>
  Properties of the webhook deliveries: exclusive claims, finality of a delivered event, the exactness
  of the outbox, the redaction of secrets, and what a blocked claim does to the outbox.
\<close>

section \<open>Claims and deliveries\<close>

inductive wh_reachable :: "codec \<Rightarrow> int \<Rightarrow> webhook_db \<Rightarrow> bool" for K :: codec and lease :: int where
  wh_init: "wh_reachable K lease \<lparr>wh_endpoints = [], wh_deliveries = []\<rparr>"
| wh_next: "wh_reachable K lease w \<Longrightarrow> wh_step K lease now v w w' \<Longrightarrow> wh_reachable K lease w'"

lemma wh_reachable_ok: "wh_reachable K lease w \<Longrightarrow> wh_ok w"
proof (induction rule: wh_reachable.induct)
  case wh_init
  then show ?case by (simp add: wh_ok_def)
next
  case (wh_next w now v w')
  then show ?case using step_evolves by blast
qed

text \<open>
  C22. A claimed delivery belongs to its worker until the lease is over: whatever all other workers do
  meanwhile, none of them is given it, and the worker's report of the delivery is accepted.
\<close>

theorem claimed_delivery_is_exclusive:
  assumes "wh_reachable K lease w" and "claim_due lease now v w = (Inr (Some d), w1)"
    and "others_run (wh_step K lease) v (now + lease) w1 w2"
  shows "(\<forall>later u d' w3. later < now + lease \<and> claim_due lease later u w2 = (Inr (Some d'), w3) \<longrightarrow>
      wd_delivery_id d' \<noteq> wd_delivery_id d) \<and>
    (\<forall>t c. 100 \<le> c \<and> c \<le> 599 \<longrightarrow> fst (mark_delivered t (wd_delivery_id d) v c w2) = Inr ())"
proof -
  have ok: "wh_ok w" by (rule wh_reachable_ok [OF assms(1)])
  have claim: "claim_id lease now v w = (Some (wd_delivery_id d), w1)"
    using assms(2) by (simp add: claim_id_Some)
  note ex = webhook_queue.claim_exclusive [OF ok claim assms(3)]
  have "wh_ok w1" using claim_due_ok [OF ok assms(2)] .
  then have "wh_ok w2" using webhook_queue.held_through [OF assms(3)] claim_due_some [OF ok assms(2)]
    webhook_queue.claim_holds [OF ok claim] by blast
  moreover obtain q where "find_delivery (wd_delivery_id d) w2 = Some q" "dl_claimed_by q = Some v"
    using ex(1) by (auto simp: held_Some)
  ultimately have "require_owned (wd_delivery_id d) v w2 = Inr ()"
    using find_delivery_fit by (auto simp: require_owned_iff claims_fit_def)
  then have "fst (mark_delivered t (wd_delivery_id d) v c w2) = Inr ()" if "100 \<le> c" "c \<le> 599" for t c
    using that by (simp add: mark_delivered_def)
  moreover have "wd_delivery_id d' \<noteq> wd_delivery_id d"
    if "later < now + lease" "claim_due lease later u w2 = (Inr (Some d'), w3)" for later u d' w3
    using ex(2) [of later u "wd_delivery_id d'" w3] that by (auto simp: claim_id_Some)
  ultimately show ?thesis by blast
qed

definition wh_later :: "codec \<Rightarrow> int \<Rightarrow> webhook_db \<Rightarrow> webhook_db \<Rightarrow> bool" where
  "wh_later K lease = (\<lambda>w w'. \<exists>now v. wh_step K lease now v w w')\<^sup>*\<^sup>*"

lemma delivered_later:
  assumes "wh_later K lease w w'" "wh_ok w" "find_delivery i w = Some q" "dl_status q = Wd_delivered"
  shows "wh_ok w' \<and> find_delivery i w' = Some q"
  using assms(1) unfolding wh_later_def
proof (induction rule: rtranclp_induct)
  case (step w1 w2)
  then obtain now v where "wh_step K lease now v w1 w2" by blast
  from step_evolves [OF this] step.IH assms(4) show ?case by (auto simp: evolves_def)
qed (use assms in simp)

text \<open>
  A delivered event is delivered once: no later operation of any worker, at any time, changes the
  delivery or hands it out again, not even a manual retry.
\<close>

theorem delivered_is_final:
  assumes "wh_reachable K lease w" and "find_delivery i w = Some q" and "dl_status q = Wd_delivered"
    and "wh_later K lease w w'"
  shows "find_delivery i w' = Some q \<and>
    (\<forall>now v d w''. claim_due lease now v w' = (Inr (Some d), w'') \<longrightarrow> wd_delivery_id d \<noteq> i)"
proof -
  have later: "wh_ok w'" "find_delivery i w' = Some q"
    using delivered_later [OF assms(4) wh_reachable_ok [OF assms(1)] assms(2,3)] by auto
  moreover have "wd_delivery_id d \<noteq> i" if "claim_due lease now v w' = (Inr (Some d), w'')" for now v d w''
    using claim_due_some [OF later(1) that] later(2) assms(3) by (auto simp: lease_over_def)
  ultimately show ?thesis by blast
qed

section \<open>The outbox\<close>

definition delivery_name :: "string \<Rightarrow> int \<Rightarrow> string" where
  "delivery_name e sequence = e @ '':'' @ webhook_event_id sequence"

lemma no_colon: "CHR '':'' \<notin> set (webhook_event_id n)"
proof -
  have "c \<noteq> CHR '':''" if "c \<in> set (show_nat m)" for c m
    using show_nat_digits [of m] that by (auto simp: list_all_iff ascii_digit_def code_def)
  then show ?thesis by (auto simp: webhook_event_id_def show_int_def)
qed

lemma delivery_name_inject: "delivery_name e n = delivery_name f m \<longleftrightarrow> e = f \<and> n = m"
proof
  assume "delivery_name e n = delivery_name f m"
  then have "rev (webhook_event_id n) @ CHR '':'' # rev e = rev (webhook_event_id m) @ CHR '':'' # rev f"
    by (metis delivery_name_def rev_append append_Cons append_Nil append_assoc rev_singleton_conv)
  moreover have "takeWhile (\<lambda>c. c \<noteq> CHR '':'') (rev (webhook_event_id k) @ CHR '':'' # xs) = rev (webhook_event_id k)" for k xs
    using no_colon by (subst takeWhile_append2) auto
  ultimately have "webhook_event_id n = webhook_event_id m" "e = f" by (metis rev_rev_ident append_same_eq append_Cons same_append_eq list.inject)+
  moreover have "show_int n = show_int m \<Longrightarrow> n = m" using read_show_int by metis
  ultimately show "e = f \<and> n = m" by (simp add: webhook_event_id_def)
qed simp

text \<open>The rows of the outbox are named by their endpoint and sequence, and lie below its checkpoint.\<close>

definition named :: "codec \<Rightarrow> delivery_row \<Rightarrow> bool" where
  "named K q \<longleftrightarrow> dl_delivery_id q = sha256_hex K (delivery_name (dl_endpoint_id q) (dl_receipt_sequence q))"

definition row_name :: "delivery_row \<Rightarrow> string" where
  "row_name q = delivery_name (dl_endpoint_id q) (dl_receipt_sequence q)"

definition outbox_at :: "codec \<Rightarrow> string \<Rightarrow> int \<Rightarrow> webhook_db \<Rightarrow> bool" where
  "outbox_at K i checkpoint w \<longleftrightarrow> wh_ok w \<and> (\<forall>q \<in> set (wh_deliveries w). named K q) \<and>
     (\<forall>q \<in> set (wh_deliveries w). dl_endpoint_id q = i \<longrightarrow> dl_receipt_sequence q \<le> checkpoint) \<and>
     (\<exists>row. find_endpoint i w = Some row \<and> en_last_enqueued_sequence row = checkpoint)"

definition selected :: "webhook_endpoint \<Rightarrow> int \<Rightarrow> runtime_receipt \<times> string \<Rightarrow> bool" where
  "selected e checkpoint ev \<longleftrightarrow> checkpoint < rc_sequence (fst ev) \<and> rc_event (fst ev) \<in> set (we_events e)"

lemma new_delivery_named: "dl_delivery_id (new_delivery K e now r body) =
    sha256_hex K (delivery_name (we_endpoint_id e) (rc_sequence r))" "dl_endpoint_id (new_delivery K e now r body) = we_endpoint_id e"
  "dl_receipt_sequence (new_delivery K e now r body) = rc_sequence r"
  by (simp_all add: new_delivery_def delivery_name_def)

lemma enqueue_rows_exact:
  assumes inj: "inj_on (sha256_hex K) A" and "\<forall>ev \<in> set evs. delivery_name (we_endpoint_id e) (rc_sequence (fst ev)) \<in> A"
    and "distinct (map (rc_sequence \<circ> fst) evs)"
    and "\<forall>q \<in> set rows. named K q \<and> row_name q \<in> A"
    and "\<forall>q \<in> set rows. \<forall>ev \<in> set evs. dl_endpoint_id q = we_endpoint_id e \<longrightarrow> cp < rc_sequence (fst ev) \<longrightarrow>
      dl_receipt_sequence q \<noteq> rc_sequence (fst ev)"
  shows "enqueue_rows K e now cp evs rows =
    rows @ map (\<lambda>(r, body). new_delivery K e now r body) (filter (selected e cp) evs)"
  using assms(2-)
proof (induction evs arbitrary: rows)
  case Nil
  then show ?case by (simp add: enqueue_rows_def)
next
  case (Cons ev evs)
  obtain r body where ev: "ev = (r, body)" by fastforce
  show ?case
  proof (cases "selected e cp ev")
    case False
    then have "rc_sequence r \<le> cp \<or> rc_event r \<notin> set (we_events e)" by (auto simp: ev selected_def)
    then show ?thesis using Cons.IH [of rows] Cons.prems False by (simp add: ev enqueue_rows_Cons)
  next
    case True
    let ?new = "new_delivery K e now r body"
    have "\<not> list_ex (\<lambda>q. dl_delivery_id q = dl_delivery_id ?new \<or>
        dl_endpoint_id q = dl_endpoint_id ?new \<and> dl_receipt_sequence q = dl_receipt_sequence ?new) rows"
      using Cons.prems(1,3,4) True inj_onD [OF inj]
      by (fastforce simp: list_ex_iff new_delivery_named named_def row_name_def ev selected_def delivery_name_inject)
    then have "insert_or_ignore ?new rows = rows @ [?new]" by (simp add: insert_or_ignore_def)
    moreover have "enqueue_rows K e now cp evs (rows @ [?new]) = (rows @ [?new]) @
        map (\<lambda>(r, body). new_delivery K e now r body) (filter (selected e cp) evs)"
      using Cons.prems by (intro Cons.IH) (auto simp: ev new_delivery_named named_def row_name_def)
    moreover have "\<not> (rc_sequence r \<le> cp \<or> rc_event r \<notin> set (we_events e))"
      using True by (simp add: ev selected_def)
    ultimately show ?thesis using True by (simp add: ev enqueue_rows_Cons)
  qed
qed

text \<open>
  C23. The outbox neither loses nor repeats an event: an enqueue of receipts up to the observed end of
  the log adds exactly one pending delivery, with its body, for every selected receipt beyond the
  checkpoint, leaves all others alone, and moves the checkpoint, so that the same receipts enqueued
  again add nothing.
\<close>

theorem outbox_is_exact:
  assumes inj: "inj_on (sha256_hex K) (row_name ` set (wh_deliveries w) \<union>
      (\<lambda>ev. delivery_name (we_endpoint_id e) (rc_sequence (fst ev))) ` set events)" and at: "outbox_at K (we_endpoint_id e) checkpoint w"
    and "distinct (map (rc_sequence \<circ> fst) events)" and "\<forall>ev \<in> set events. rc_sequence (fst ev) \<le> observed"
  shows "\<exists>w'. enqueue K now e events observed w = (Inr (int (length (filter (selected e checkpoint) events))), w') \<and>
    wh_deliveries w' = wh_deliveries w @
      map (\<lambda>(r, body). new_delivery K e now r body) (filter (selected e checkpoint) events) \<and>
    outbox_at K (we_endpoint_id e) (max checkpoint observed) w' \<and>
    enqueue K again e events observed w' = (Inr 0, w')"
proof -
  obtain row where row: "find_endpoint (we_endpoint_id e) w = Some row" "en_last_enqueued_sequence row = checkpoint"
    using at by (auto simp: outbox_at_def)
  let ?new = "map (\<lambda>(r, body). new_delivery K e now r body) (filter (selected e checkpoint) events)"
  have rows: "enqueue_rows K e now checkpoint events (wh_deliveries w) = wh_deliveries w @ ?new"
    using at assms(3) by (intro enqueue_rows_exact [OF inj]) (auto simp: outbox_at_def)
  define w' where "w' = snd (enqueue K now e events observed w)"
  have enq: "enqueue K now e events observed w = (Inr (int (length (filter (selected e checkpoint) events))), w')"
    and del: "wh_deliveries w' = wh_deliveries w @ ?new"
    and ends: "find_endpoint (we_endpoint_id e) w' = Some (if checkpoint < observed
      then row\<lparr>en_last_enqueued_sequence := observed\<rparr> else row)"
    using row rows by (auto simp: w'_def enqueue_def find_endpoint_def Let_def table_simps)
  have "wh_ok w'" using enqueued_ok(1) [OF _ enq] at by (simp add: outbox_at_def)
  moreover have "named K q \<and> (dl_endpoint_id q = we_endpoint_id e \<longrightarrow> dl_receipt_sequence q \<le> max checkpoint observed)"
    if "q \<in> set (wh_deliveries w')" for q
    using that at assms(4) unfolding del
    by (fastforce simp: outbox_at_def named_def new_delivery_named)
  ultimately have at': "outbox_at K (we_endpoint_id e) (max checkpoint observed) w'"
    using ends row by (auto simp: outbox_at_def)
  have "enqueue_rows K e again (max checkpoint observed) events rs = rs" for rs
    using assms(4) by (induction events arbitrary: rs) (auto simp: enqueue_rows_def)
  then have "enqueue K again e events observed w' = (Inr 0, w')"
    using ends row by (auto simp: enqueue_def Let_def)
  with enq del at' show ?thesis by blast
qed

end
