(* ===== verification/Webhook_Body.thy ===== *)
theory Webhook_Body
  imports Webhook_Facts
begin

text \<open>
  The bodies of the webhooks: what redaction guarantees and preserves, and the events that have no
  body.
\<close>

section \<open>Redaction\<close>

text \<open>Every value under a sensitive key is the redaction mark, at any depth.\<close>

fun clean :: "json \<Rightarrow> bool"
  and clean_items :: "json list \<Rightarrow> bool"
  and clean_members :: "(string \<times> json) list \<Rightarrow> bool" where
  "clean (JObj kvs) = clean_members kvs"
| "clean (JList js) = clean_items js"
| "clean j = True"
| "clean_items [] = True"
| "clean_items (j # js) = (clean j \<and> clean_items js)"
| "clean_members [] = True"
| "clean_members ((k, v) # kvs) = ((sensitive_key k \<longrightarrow> v = redacted) \<and> clean v \<and> clean_members kvs)"

text \<open>Whatever a path leads to through nested objects is the redaction mark.\<close>

fun hidden :: "string list \<Rightarrow> json \<Rightarrow> bool" where
  "hidden [] j = (j = redacted)"
| "hidden (k # ks) (JObj kvs) = list_all (\<lambda>(q, v). q = k \<longrightarrow> hidden ks v) kvs"
| "hidden (k # ks) j = True"

text \<open>The second value is the first with some parts replaced by the mark.\<close>

inductive masks :: "json \<Rightarrow> json \<Rightarrow> bool" where
  masks_same: "masks j j"
| masks_mark: "masks j redacted"
| masks_list: "list_all2 masks xs ys \<Longrightarrow> masks (JList xs) (JList ys)"
| masks_obj: "list_all2 (\<lambda>p q. fst p = fst q \<and> masks (snd p) (snd q)) kvs kvs' \<Longrightarrow> masks (JObj kvs) (JObj kvs')"

lemma clean_members_iff: "clean_members kvs \<longleftrightarrow>
    (\<forall>(k, v) \<in> set kvs. (sensitive_key k \<longrightarrow> v = redacted) \<and> clean v)"
  by (induction kvs) auto

lemma redact_path_leaf: "redact_path ks (JStr t) = JStr t"
  by (cases ks rule: list.exhaust; cases "tl ks"; simp)

lemma clean_redacted [simp]: "clean redacted" "redact_path ks redacted = redacted" "hidden (k # ks) redacted"
  by (simp_all add: redacted_def redact_path_leaf)

lemma redact_sensitive_clean:
  "clean (redact_sensitive j)" "clean_items (redact_items js)" "clean_members (redact_members kvs)"
  by (induction j and js and kvs rule: redact_sensitive_redact_items_redact_members.induct) auto

lemma redact_sensitive_masks:
  "masks j (redact_sensitive j)" "list_all2 masks js (redact_items js)"
  "list_all2 (\<lambda>p q. fst p = fst q \<and> masks (snd p) (snd q)) kvs (redact_members kvs)"
  by (induction j and js and kvs rule: redact_sensitive_redact_items_redact_members.induct)
    (auto intro: masks.intros)

lemma clean_dict_update:
  assumes "clean_members kvs" and "\<And>v. (k, v) \<in> set kvs \<Longrightarrow> clean v \<Longrightarrow> clean (f v)" and "f redacted = redacted"
  shows "clean_members (dict_update k f kvs)"
  using assms(1,2) by (induction kvs) (auto simp: dict_update_def assms(3))

lemma clean_redact_path: "clean j \<Longrightarrow> clean (redact_path ks j)"
proof (induction ks j rule: redact_path.induct)
  case (2 k kvs)
  then show ?case by (auto intro: clean_dict_update)
next
  case (3 k p ps kvs)
  then show ?case by (auto intro!: clean_dict_update)
qed auto

lemma hidden_redact_path: "ks \<noteq> [] \<Longrightarrow> hidden ks (redact_path ks j)"
proof (induction ks j rule: redact_path.induct)
  case (2 k kvs)
  then show ?case by (auto simp: dict_update_def list_all_iff)
next
  case (3 k p ps kvs)
  then show ?case by (auto simp: dict_update_def list_all_iff)
qed (auto elim: hidden.elims)

lemma hidden_redacted: "hidden ks redacted"
  by (cases ks) simp_all

lemma hidden_dict_update:
  assumes "hidden (q # qs) (JObj kvs)" and "\<And>v. (k, v) \<in> set kvs \<Longrightarrow> hidden qs v \<Longrightarrow> hidden qs (f v)"
  shows "hidden (q # qs) (JObj (dict_update k f kvs))"
  using assms by (induction kvs) (auto simp: dict_update_def)

lemma hidden_stays: "hidden qs j \<Longrightarrow> ks \<noteq> [] \<Longrightarrow> hidden qs (redact_path ks j)"
proof (induction ks j arbitrary: qs rule: redact_path.induct)
  case (2 k kvs)
  show ?case
  proof (cases qs)
    case (Cons q rest)
    show ?thesis
      unfolding Cons redact_path.simps
      by (rule hidden_dict_update) (use 2 Cons hidden_redacted in auto)
  qed (use 2 in \<open>simp add: redacted_def\<close>)
next
  case (3 k p ps kvs)
  show ?case
  proof (cases qs)
    case (Cons q rest)
    show ?thesis
      unfolding Cons redact_path.simps
      by (rule hidden_dict_update) (use 3 Cons in auto)
  qed (use 3 in \<open>simp add: redacted_def\<close>)
qed auto

lemma masks_redact_path: "masks j (redact_path ks j)"
proof (induction ks j rule: redact_path.induct)
  case (2 k kvs)
  have "list_all2 (\<lambda>p q. fst p = fst q \<and> masks (snd p) (snd q)) kvs (dict_update k (\<lambda>_. redacted) kvs)"
    by (induction kvs) (auto simp: dict_update_def intro: masks.intros)
  then show ?case by (auto intro: masks_obj)
next
  case (3 k p ps kvs)
  have "list_all2 (\<lambda>p q. fst p = fst q \<and> masks (snd p) (snd q)) kvs (dict_update k (redact_path (p # ps)) kvs)"
    using 3 by (induction kvs) (auto simp: dict_update_def intro: masks.intros)
  then show ?case by (auto intro: masks_obj)
qed (auto intro: masks.intros)

inductive_cases masks_listE: "masks (JList xs) j"
inductive_cases masks_objE: "masks (JObj kvs) j"

lemma masks_trans: "masks a b \<Longrightarrow> masks b c \<Longrightarrow> masks a c"
proof (induction a b arbitrary: c rule: masks.induct)
  case (masks_mark j)
  then have "c = redacted" by (cases rule: masks.cases) (auto simp: redacted_def)
  then show ?case by (simp add: masks.masks_mark)
next
  case (masks_list xs ys)
  have "list_all2 masks xs zs" if "list_all2 masks ys zs" for zs
    using masks_list.IH that by (auto simp: list_all2_conv_all_nth)
  moreover have "list_all2 masks xs ys"
    using masks_list.IH by (auto elim: list_all2_mono)
  ultimately show ?case
    using masks_list.prems by (elim masks_listE) (auto intro: masks.intros)
next
  case (masks_obj kvs kvs')
  let ?R = "\<lambda>p q. fst p = fst q \<and> masks (snd p) (snd q)"
  have "list_all2 ?R kvs kvs''" if "list_all2 ?R kvs' kvs''" for kvs''
    using masks_obj.IH that by (auto simp: list_all2_conv_all_nth)
  moreover have "list_all2 ?R kvs kvs'"
    using masks_obj.IH by (auto elim: list_all2_mono)
  ultimately show ?case
    using masks_obj.prems by (elim masks_objE) (auto intro: masks.intros)
qed

definition redact_paths :: "string list \<Rightarrow> json \<Rightarrow> json" where
  "redact_paths paths j = foldl (\<lambda>j path. redact_path (split_on (CHR ''.'') path) j) j paths"

lemma redact_paths_ok:
  assumes "clean j" "masks a j"
  shows "clean (redact_paths paths j) \<and> masks a (redact_paths paths j) \<and>
    (\<forall>q. hidden (split_on (CHR ''.'') q) j \<or> q \<in> set paths \<longrightarrow> hidden (split_on (CHR ''.'') q) (redact_paths paths j))"
  using assms
proof (induction paths arbitrary: j)
  case Nil
  then show ?case by (simp add: redact_paths_def)
next
  case (Cons path paths)
  let ?j = "redact_path (split_on (CHR ''.'') path) j"
  have "redact_paths (path # paths) j = redact_paths paths ?j" by (simp add: redact_paths_def)
  then show ?case
    using Cons.IH [of ?j] Cons.prems clean_redact_path masks_trans [OF _ masks_redact_path]
      hidden_redact_path [OF split_on_nonempty] hidden_stays [OF _ split_on_nonempty]
    by auto
qed

lemma masks_finite: "masks j k \<Longrightarrow> json_finite j \<Longrightarrow> json_finite k"
proof (induction rule: masks.induct)
  case (masks_obj kvs kvs')
  then have "json_finite (snd (kvs' ! n))" if "n < length kvs'" for n
    using that by (simp add: list_all2_conv_all_nth list_all_length case_prod_beta)
  then show ?case by (simp add: list_all_length case_prod_beta)
qed (auto simp: list_all2_conv_all_nth list_all_length redacted_def)

lemma build_webhook_body_total:
  assumes "json_finite (ra_arguments a)" "event_status (rc_event r) = Inr status"
  shows "\<exists>body. build_webhook_body K r a e = Inr body"
proof -
  let ?arguments = "redact_paths (we_redact_argument_paths e) (redact_sensitive (ra_arguments a))"
  have "json_finite ?arguments"
    using redact_paths_ok [OF redact_sensitive_clean(1) redact_sensitive_masks(1)] masks_finite assms(1) by blast
  then have "json_finite (webhook_payload r a ?arguments status)"
    by (simp add: webhook_payload_def opt_str_def split: option.splits)
  then have "canonical_json K (webhook_payload r a ?arguments status) ''webhook payload'' =
      Inr (dumps K (webhook_payload r a ?arguments status))"
    by (simp add: canonical_json_Inr_iff)
  then show ?thesis
    using assms by (simp add: build_webhook_body_def redact_arguments_def redact_paths_def json_result_def)
qed


section \<open>Events without a body\<close>

lemma blocked_no_status: "ev \<in> {Ev_EMERGENCY_PAUSE_BLOCKED, Ev_LIMIT_BLOCKED} \<Longrightarrow>
    event_status ev = Inl (KeyError (event_text ev))"
  by (auto simp: event_status_def)

lemma select_receipts_raises:
  assumes "r \<in> set rs" "cp < rc_sequence r" "rc_event r \<in> set (we_events e)" "\<exists>x. event_status (rc_event r) = Inl x"
  shows "\<exists>x s'. select_receipts ops K read_at e cp rs cache s = (Inl x, s')"
  using assms
proof (induction rs arbitrary: cache s)
  case (Cons q qs)
  let ?read = "case map_of cache (rc_action_id q) of
    Some a \<Rightarrow> (Inr a, s) | None \<Rightarrow> st_get_action ops (read_at (rc_action_id q)) (rc_action_id q) s"
  show ?case
  proof (cases "rc_sequence q \<le> cp \<or> rc_event q \<notin> set (we_events e)")
    case True
    with Cons show ?thesis by auto
  next
    case False
    obtain res s1 where read: "?read = (res, s1)" by fastforce
    show ?thesis
    proof (cases res)
      case (Inl x)
      with False read show ?thesis by auto
    next
      case (Inr a)
      show ?thesis
      proof (cases "build_webhook_body K q a e")
        case (Inl x)
        with False read Inr show ?thesis by auto
      next
        case (Inr body)
        then have "\<nexists>x. event_status (rc_event q) = Inl x"
          by (auto simp: build_webhook_body_def result_simps)
        then have "r \<in> set qs" using Cons.prems by auto
        with Cons obtain x s' where "select_receipts ops K read_at e cp qs ((rc_action_id q, a) # cache) s1 = (Inl x, s')"
          by blast
        with False read \<open>res = Inr a\<close> Inr show ?thesis by auto
      qed
    qed
  qed
qed simp


end
