(* ===== verification/Webhook_Demo.thy ===== *)
theory Webhook_Demo
  imports Webhook_Props Webhook_Body Claim_Props
begin

text \<open>
  The properties of the webhook deliveries at a concrete input: one endpoint, the receipts of the demo
  run of the store, and one delivery that is claimed and delivered.
\<close>

definition demo_endpoint :: webhook_endpoint where
  "demo_endpoint = \<lparr>we_endpoint_id = ''ops'', we_url = ''https://example.com/hook'',
     we_secret = replicate 32 (CHR ''k''), we_secret_env = ''HOOK_SECRET'', we_events = all_runtime_events,
     we_redact_argument_paths = [''card.number''], we_timeout_seconds = of_int_num 10, we_max_attempts = 5,
     we_initial_backoff_seconds = of_int_num 1, we_max_backoff_seconds = of_int_num 60,
     we_start_from = ''beginning''\<rparr>"

definition demo_event :: runtime_receipt where
  "demo_event = \<lparr>rc_sequence = 1, rc_action_id = ''a1'', rc_event = Ev_APPROVAL_REQUESTED, rc_timestamp_ns = 10,
     rc_request_digest = ''d'', rc_actor = None, rc_detail = None, rc_previous_hash = None, rc_receipt_hash = ''h''\<rparr>"

definition demo_deliveries :: webhook_db where
  "demo_deliveries = \<lparr>wh_endpoints = [], wh_deliveries = []\<rparr>"

definition demo_registered :: webhook_db where
  "demo_registered = \<lparr>wh_endpoints = [checkpoint_row demo_codec demo_endpoint 1], wh_deliveries = []\<rparr>"

definition demo_delivery :: delivery_row where
  "demo_delivery = new_delivery demo_codec demo_endpoint 5 demo_event ''body''"

definition demo_enqueued :: webhook_db where
  "demo_enqueued = \<lparr>wh_endpoints = [(checkpoint_row demo_codec demo_endpoint 1)\<lparr>en_last_enqueued_sequence := 1\<rparr>],
     wh_deliveries = [demo_delivery]\<rparr>"

definition demo_taken :: webhook_db where
  "demo_taken = demo_enqueued\<lparr>wh_deliveries := [claim_row 30 10 ''w'' demo_delivery]\<rparr>"

definition demo_sent :: webhook_db where
  "demo_sent = demo_enqueued\<lparr>wh_deliveries := [delivered_row 20 200 (claim_row 30 10 ''w'' demo_delivery)]\<rparr>"

lemma demo_endpoint_simps [simp]:
  "we_endpoint_id demo_endpoint = ''ops''" "we_events demo_endpoint = all_runtime_events"
  "we_start_from demo_endpoint = ''beginning''"
  by (simp_all add: demo_endpoint_def)

lemma demo_event_simps [simp]: "rc_sequence demo_event = 1" "rc_event demo_event = Ev_APPROVAL_REQUESTED"
  by (simp_all add: demo_event_def)

lemma demo_outbox_steps:
  "register_endpoint demo_codec demo_endpoint 1 demo_deliveries = (Inr 0, demo_registered)"
  "enqueue demo_codec 5 demo_endpoint [(demo_event, ''body'')] 1 demo_registered = (Inr 1, demo_enqueued)"
  "claim_due 30 10 ''w'' demo_enqueued =
     (Inr (Some (delivery_of (claim_row 30 10 ''w'' demo_delivery))), demo_taken)"
  "mark_delivered 20 (dl_delivery_id demo_delivery) ''w'' 200 demo_taken = (Inr (), demo_sent)"
  by (simp_all add: register_endpoint_def demo_deliveries_def demo_registered_def find_endpoint_def find_row_def
      checkpoint_row_def enqueue_def enqueue_rows_def insert_or_ignore_def demo_enqueued_def demo_delivery_def
      all_runtime_events_def Let_def update_row_def transaction_def claim_due_def due_rows_def
      release_abandoned_def lease_over_def new_delivery_def claim_row_def update_delivery_def demo_taken_def
      blank_iff py_space_def code_def mark_delivered_def require_owned_def find_delivery_def demo_sent_def
      delivered_row_def)

lemma demo_wh_reachable:
  "wh_reachable demo_codec 30 demo_registered" "wh_reachable demo_codec 30 demo_enqueued"
  "wh_reachable demo_codec 30 demo_taken" "wh_reachable demo_codec 30 demo_sent"
proof -
  have init: "wh_reachable demo_codec 30 demo_deliveries" by (simp add: demo_deliveries_def wh_init)
  show 1: "wh_reachable demo_codec 30 demo_registered"
    by (rule wh_next [OF init step_register [OF demo_outbox_steps(1)]])
  show 2: "wh_reachable demo_codec 30 demo_enqueued"
    by (rule wh_next [OF 1 step_enqueue [OF demo_outbox_steps(2)]])
  show 3: "wh_reachable demo_codec 30 demo_taken"
    by (rule wh_next [OF 2 step_claim_due [OF demo_outbox_steps(3)]])
  show "wh_reachable demo_codec 30 demo_sent"
    by (rule wh_next [OF 3 step_delivered [OF demo_outbox_steps(4)]])
qed

lemma claimed_delivery_is_exclusive_witness:
  "fst (mark_delivered 20 (dl_delivery_id demo_delivery) ''w'' 200 demo_taken) = Inr () \<and>
   fst (claim_due 30 39 ''other'' demo_taken) \<noteq> Inr (Some (delivery_of (claim_row 30 10 ''w'' demo_delivery)))"
proof -
  have "others_run (wh_step demo_codec 30) ''w'' (10 + 30) demo_taken demo_taken" by (rule others_none)
  from claimed_delivery_is_exclusive [OF demo_wh_reachable(2) demo_outbox_steps(3) this]
  have own: "fst (mark_delivered 20 (dl_delivery_id demo_delivery) ''w'' 200 demo_taken) = Inr ()"
    and none: "\<And>d w. claim_due 30 39 ''other'' demo_taken = (Inr (Some d), w) \<Longrightarrow>
      wd_delivery_id d \<noteq> wd_delivery_id (delivery_of (claim_row 30 10 ''w'' demo_delivery))"
    by (force simp: delivery_of_def claim_row_def)+
  show ?thesis using own none by (metis prod.collapse)
qed

lemma delivered_is_final_witness:
  "find_delivery (dl_delivery_id demo_delivery) demo_sent =
     Some (delivered_row 20 200 (claim_row 30 10 ''w'' demo_delivery)) \<and>
   fst (claim_due 30 99 ''w'' demo_sent) \<noteq> Inr (Some (delivery_of (claim_row 30 10 ''w'' demo_delivery)))"
proof -
  have found: "find_delivery (dl_delivery_id demo_delivery) demo_sent =
      Some (delivered_row 20 200 (claim_row 30 10 ''w'' demo_delivery))"
    by (simp add: find_delivery_def find_row_def demo_sent_def delivered_row_def claim_row_def)
  moreover have "dl_status (delivered_row 20 200 (claim_row 30 10 ''w'' demo_delivery)) = Wd_delivered"
    by (simp add: delivered_row_def)
  moreover have "wh_later demo_codec 30 demo_sent demo_sent" by (simp add: wh_later_def)
  ultimately have "claim_due 30 99 ''w'' demo_sent = (Inr (Some d), w) \<Longrightarrow> wd_delivery_id d \<noteq> dl_delivery_id demo_delivery"
    for d w
    using delivered_is_final [OF demo_wh_reachable(4)] by blast
  moreover have "wd_delivery_id (delivery_of (claim_row 30 10 ''w'' demo_delivery)) = dl_delivery_id demo_delivery"
    by (simp add: delivery_of_def claim_row_def)
  ultimately show ?thesis using found by (metis prod.collapse)
qed

lemma outbox_is_exact_witness:
  "\<exists>w'. enqueue demo_codec 5 demo_endpoint [(demo_event, ''body'')] 1 demo_registered = (Inr 1, w') \<and>
     enqueue demo_codec 6 demo_endpoint [(demo_event, ''body'')] 1 w' = (Inr 0, w')"
proof -
  have "outbox_at demo_codec (we_endpoint_id demo_endpoint) 0 demo_registered"
    using wh_reachable_ok [OF demo_wh_reachable(1)]
    by (simp add: outbox_at_def demo_registered_def find_endpoint_def find_row_def checkpoint_row_def)
  moreover have "inj_on (sha256_hex demo_codec) A" for A by (simp add: demo_codec_def inj_on_def)
  moreover have "filter (selected demo_endpoint 0) [(demo_event, ''body'')] = [(demo_event, ''body'')]"
    by (simp add: selected_def all_runtime_events_def)
  ultimately show ?thesis
    using outbox_is_exact [where K = demo_codec and e = demo_endpoint and checkpoint = 0 and w = demo_registered and
        events = "[(demo_event, ''body'')]" and observed = 1 and now = 5 and again = 6]
    by auto
qed

definition demo_secret_action :: runtime_action where
  "demo_secret_action = (row_to_action demo_row)\<lparr>ra_arguments := JObj [(''api_token'', JStr ''s3cret''),
     (''card'', JObj [(''number'', JStr ''4111''), (''holder'', JStr ''bob'')])]\<rparr>"


definition demo_blocked_store :: db where
  "demo_blocked_store = add_receipt demo_codec ''a1'' Ev_EMERGENCY_PAUSE_BLOCKED 30 demo_digest (Some ''runtime'')
     (Some ''global: stop'') empty_db"


end
