(* ===== verification/Slack_Config.thy ===== *)
theory Slack_Config
  imports Auth
begin

text \<open>
  The reviewers and the configuration of service/slack.py: their validation and the two versions of
  the configuration document. A \<open>frozenset\<close> is the list of its elements without repetition.
\<close>

section \<open>Patterns\<close>

definition upper_or_digit :: "char \<Rightarrow> bool" where
  "upper_or_digit c = (ascii_digit c \<or> 65 \<le> code c \<and> code c \<le> 90)"

text \<open>One of the given letters, then 2 to 63 capital letters or digits.\<close>

definition slack_id_ok :: "string \<Rightarrow> string \<Rightarrow> bool" where
  "slack_id_ok kinds t = (case t of [] \<Rightarrow> False
     | c # r \<Rightarrow> c \<in> set kinds \<and> 2 \<le> length r \<and> length r \<le> 63 \<and> list_all upper_or_digit r)"

definition workspace_id_ok :: "string \<Rightarrow> bool" where
  "workspace_id_ok = slack_id_ok ''T''"

definition app_id_ok :: "string \<Rightarrow> bool" where
  "app_id_ok = slack_id_ok ''A''"

definition channel_id_ok :: "string \<Rightarrow> bool" where
  "channel_id_ok = slack_id_ok ''CGD''"

definition user_id_ok :: "string \<Rightarrow> bool" where
  "user_id_ok = slack_id_ok ''UW''"

definition environment_name_ok :: "string \<Rightarrow> bool" where
  "environment_name_ok t = (case t of [] \<Rightarrow> False
     | c # r \<Rightarrow> (ascii_letter c \<or> c = CHR ''_'') \<and> list_all (\<lambda>d. ascii_alnum d \<or> d = CHR ''_'') r)"

definition short_digits :: "string \<Rightarrow> bool" where
  "short_digits t = (1 \<le> length t \<and> length t \<le> 20 \<and> list_all ascii_digit t)"

definition message_ts_ok :: "string \<Rightarrow> bool" where
  "message_ts_ok t = (case split_on (CHR ''.'') t of [a, b] \<Rightarrow> short_digits a \<and> short_digits b | _ \<Rightarrow> False)"

definition lower_hex :: "char \<Rightarrow> bool" where
  "lower_hex c = (ascii_digit c \<or> 97 \<le> code c \<and> code c \<le> 102)"

definition digest_ok :: "string \<Rightarrow> bool" where
  "digest_ok t = (length t = 64 \<and> list_all lower_hex t)"

definition slack_signature_ok :: "string \<Rightarrow> bool" where
  "slack_signature_ok t = (starts_with t ''v0='' \<and> digest_ok (drop 3 t))"

definition safe_error_ok :: "string \<Rightarrow> bool" where
  "safe_error_ok t = (1 \<le> length t \<and> length t \<le> 64 \<and> list_all (\<lambda>c. ascii_alnum c \<or> c \<in> set ''._-'') t)"

definition safe_error_code :: "string \<Rightarrow> string" where
  "safe_error_code t = (if safe_error_ok t then t else ''SlackAPIError'')"

section \<open>Reviewers\<close>

record slack_reviewer =
  sr_user_id :: string
  sr_subject :: string
  sr_decisions :: "decision list"

definition make_slack_reviewer :: "slack_reviewer \<Rightarrow> runtime_error + slack_reviewer" where
  "make_slack_reviewer r =
     (if \<not> user_id_ok (sr_user_id r) then Inl (ValueError ''Slack reviewer user_id is invalid'')
      else if blank (sr_subject r) \<or> 128 < length (sr_subject r) then
        Inl (ValueError ''Slack reviewer subject must contain 1 to 128 characters'')
      else if has_control (sr_subject r) then
        Inl (ValueError ''Slack reviewer subject must not contain control characters'')
      else if sr_decisions r = [] then Inl (ValueError ''Slack reviewer must allow at least one decision'')
      else Inr r)"

section \<open>Configuration\<close>

record slack_config =
  sc_workspace_id :: string
  sc_app_id :: string
  sc_channel_id :: string
  sc_bot_token :: string
  sc_bot_token_env :: string
  sc_signing_secret :: string
  sc_signing_secret_env :: string
  sc_reviewers :: "slack_reviewer list"
  sc_timeout_seconds :: pyfloat
  sc_max_attempts :: int
  sc_initial_backoff_seconds :: pyfloat
  sc_max_backoff_seconds :: pyfloat
  sc_organization_id :: "string option"
  sc_namespaces :: "string list"
  sc_require_separate_approver :: bool

definition validate_slack_secret :: "string \<Rightarrow> string \<Rightarrow> runtime_error + unit" where
  "validate_slack_secret v name =
     (if list_ex (\<lambda>c. code c < 33 \<or> 126 < code c) v
      then Inl (ValueError (''Slack '' @ name @ '' must contain printable non-whitespace ASCII'')) else Inr ())"

text \<open>The organization part of \<open>SlackConfig.__post_init__\<close>.\<close>

definition check_slack_organization :: "slack_config \<Rightarrow> runtime_error + unit" where
  "check_slack_organization c = (case sc_organization_id c of
     None \<Rightarrow>
       if sc_namespaces c \<noteq> [] \<or> sc_require_separate_approver c then
         Inl (ValueError ''legacy Slack config cannot carry organization authorization settings'')
       else Inr ()
   | Some org \<Rightarrow>
       if blank org \<or> 128 < length org then
         Inl (ValueError ''Slack organization_id must contain 1 to 128 characters'')
       else if has_control org then
         Inl (ValueError ''Slack organization_id must not contain control characters'')
       else if sc_namespaces c = [] \<or>
           list_ex (\<lambda>n. blank n \<or> 128 < length n \<or> has_control n) (sc_namespaces c) then
         Inl (ValueError ''Slack namespaces must contain at least one non-empty namespace'')
       else Inr ())"

definition check_slack_backoff :: "string \<Rightarrow> pyfloat \<Rightarrow> runtime_error + unit" where
  "check_slack_backoff name x =
     (if \<not> is_finite x \<or> num_le x (of_int_num 0)
      then Inl (ValueError (''Slack '' @ name @ '' must be finite and greater than zero'')) else Inr ())"

text \<open>\<open>SlackConfig.__post_init__\<close>\<close>

definition make_slack_config :: "slack_config \<Rightarrow> runtime_error + slack_config" where
  "make_slack_config c =
     (if \<not> workspace_id_ok (sc_workspace_id c) then Inl (ValueError ''Slack workspace_id is invalid'')
      else if \<not> app_id_ok (sc_app_id c) then Inl (ValueError ''Slack app_id is invalid'')
      else if \<not> channel_id_ok (sc_channel_id c) then Inl (ValueError ''Slack channel_id is invalid'')
      else if \<not> environment_name_ok (sc_bot_token_env c) then Inl (ValueError ''Slack bot_token_env is invalid'')
      else if \<not> environment_name_ok (sc_signing_secret_env c) then
        Inl (ValueError ''Slack signing_secret_env is invalid'')
      else if \<not> starts_with (sc_bot_token c) ''xoxb-'' \<or>
          \<not> (20 \<le> length (sc_bot_token c) \<and> length (sc_bot_token c) \<le> 512) then
        Inl (ValueError ''Slack bot token must be a valid xoxb token'')
      else bind_res (validate_slack_secret (sc_bot_token c) ''bot token'') (\<lambda>_.
        if \<not> (32 \<le> length (sc_signing_secret c) \<and> length (sc_signing_secret c) \<le> 512) then
          Inl (ValueError ''Slack signing secret must contain 32 to 512 characters'')
        else bind_res (validate_slack_secret (sc_signing_secret c) ''signing secret'') (\<lambda>_.
        if sc_reviewers c = [] then Inl (ValueError ''Slack config must contain at least one reviewer'')
        else if 100 < length (sc_reviewers c) then
          Inl (ValueError ''Slack config supports at most 100 reviewers'')
        else if \<not> distinct (map sr_user_id (sc_reviewers c)) then
          Inl (ValueError ''Slack reviewer user IDs must be unique'')
        else bind_res (check_slack_organization c) (\<lambda>_.
        if \<not> is_finite (sc_timeout_seconds c) \<or> num_le (sc_timeout_seconds c) (of_int_num 0) \<or>
            num_le (of_int_num 3) (sc_timeout_seconds c) then
          Inl (ValueError ''Slack timeout_seconds must be finite and between 0 and 3'')
        else if \<not> (1 \<le> sc_max_attempts c \<and> sc_max_attempts c \<le> 20) then
          Inl (ValueError ''Slack max_attempts must be between 1 and 20'')
        else bind_res (check_slack_backoff ''initial_backoff_seconds'' (sc_initial_backoff_seconds c)) (\<lambda>_.
        bind_res (check_slack_backoff ''max_backoff_seconds'' (sc_max_backoff_seconds c)) (\<lambda>_.
        if num_less (sc_max_backoff_seconds c) (sc_initial_backoff_seconds c) then
          Inl (ValueError ''Slack max_backoff_seconds must not be below initial backoff'')
        else Inr c))))))"

definition slack_reviewer_of :: "slack_config \<Rightarrow> string \<Rightarrow> slack_reviewer option" where
  "slack_reviewer_of c user_id = find_row sr_user_id user_id (sc_reviewers c)"

text \<open>\<open>SlackConfig.can_access_action\<close>\<close>

definition slack_can_access :: "slack_config \<Rightarrow> runtime_action \<Rightarrow> bool" where
  "slack_can_access c a = (case sc_organization_id c of
     None \<Rightarrow> True
   | Some org \<Rightarrow> ra_organization_id a = org \<and> ra_namespace a \<in> set (sc_namespaces c))"

section \<open>The configuration document\<close>

definition slack_list_of :: "json \<Rightarrow> string \<Rightarrow> runtime_error + json list" where
  "slack_list_of j message = (case j of JList js \<Rightarrow> Inr js | _ \<Rightarrow> Inl (TypeError message))"

definition slack_strings_of :: "json list \<Rightarrow> string \<Rightarrow> runtime_error + string list" where
  "slack_strings_of js message = (case strings_of js of None \<Rightarrow> Inl (TypeError message) | Some ss \<Rightarrow> Inr ss)"

definition slack_number :: "json \<Rightarrow> string \<Rightarrow> runtime_error + pyfloat" where
  "slack_number j name = (case j of
     JInt _ \<Rightarrow> to_float j | JFloat _ \<Rightarrow> to_float j
   | _ \<Rightarrow> Inl (TypeError (''Slack '' @ name @ '' must be a number'')))"

text \<open>\<open>Decision(text)\<close>\<close>

definition decision_value :: "string \<Rightarrow> runtime_error + decision" where
  "decision_value t = (case decision_of_text t of
     None \<Rightarrow> Inl (ValueError ''not a valid Decision'') | Some d \<Rightarrow> Inr d)"

definition parse_reviewer :: "json \<Rightarrow> runtime_error + slack_reviewer" where
  "parse_reviewer v = (case v of
     JObj item \<Rightarrow>
       bind_res (validate_keys item [''user_id'', ''subject'', ''decisions''] ''Slack reviewer'') (\<lambda>_.
       case (dict_get item ''user_id'' JNull, dict_get item ''subject'' JNull) of
         (JStr user_id, JStr subject) \<Rightarrow>
           bind_res (slack_list_of (dict_get item ''decisions'' (JList [JStr ''approve'', JStr ''reject'']))
             ''Slack reviewer decisions must be a list'') (\<lambda>raw.
           bind_res (slack_strings_of raw ''every Slack reviewer decision must be a string'') (\<lambda>names.
           bind_res (map_res decision_value names) (\<lambda>decisions.
           if \<not> distinct decisions then Inl (ValueError ''Slack reviewer decisions must not contain duplicates'')
           else make_slack_reviewer \<lparr>sr_user_id = user_id, sr_subject = subject, sr_decisions = decisions\<rparr>)))
       | _ \<Rightarrow> Inl (TypeError ''Slack reviewer user_id and subject must be strings''))
   | _ \<Rightarrow> Inl (TypeError ''each Slack reviewer must be an object''))"

text \<open>The organization, the namespaces and the separation of the two versions.\<close>

definition parse_slack_organization ::
  "(string \<times> json) list \<Rightarrow> string \<Rightarrow> runtime_error + (string option \<times> string list \<times> bool)" where
  "parse_slack_organization data version =
     (if version = ''2'' then
        (case dict_get data ''organization_id'' JNull of
           JStr org \<Rightarrow>
             bind_res (slack_list_of (dict_get data ''namespaces'' JNull) ''Slack namespaces must be a list'') (\<lambda>raw.
             bind_res (slack_strings_of raw ''every Slack namespace must be a string'') (\<lambda>namespaces.
             if \<not> distinct namespaces then Inl (ValueError ''Slack namespaces must not contain duplicates'')
             else case dict_get data ''require_separate_approver'' (JBool False) of
               JBool separation \<Rightarrow> Inr (Some org, namespaces, separation)
             | _ \<Rightarrow> Inl (TypeError ''Slack require_separate_approver must be a boolean'')))
         | _ \<Rightarrow> Inl (TypeError ''Slack organization_id must be a string''))
      else if list_ex (\<lambda>k. map_of data k \<noteq> None) [''organization_id'', ''namespaces'', ''require_separate_approver'']
      then Inl (ValueError (''Slack organization authorization requires config version '2'' @ [CHR 0x27]))
      else Inr (None, [], False))"

text \<open>\<open>version not in {"1", "2"}\<close>, which raises on a list and on an object.\<close>

definition slack_version_error :: "runtime_error + string" where
  "slack_version_error = Inl (ValueError (''Slack config version must be '1' or '2'' @ [CHR 0x27]))"

definition slack_version :: "json \<Rightarrow> runtime_error + string" where
  "slack_version v = (case v of
     JStr t \<Rightarrow> if t \<in> {''1'', ''2''} then Inr t else slack_version_error
   | JList _ \<Rightarrow> Inl (TypeError ''unhashable type'')
   | JObj _ \<Rightarrow> Inl (TypeError ''unhashable type'')
   | _ \<Rightarrow> slack_version_error)"

definition slack_config_from_mapping ::
  "(string \<Rightarrow> string option) \<Rightarrow> (string \<times> json) list \<Rightarrow> runtime_error + slack_config" where
  "slack_config_from_mapping environment data =
   bind_res (validate_keys data [''version'', ''workspace_id'', ''app_id'', ''channel_id'', ''bot_token_env'',
     ''signing_secret_env'', ''reviewers'', ''timeout_seconds'', ''max_attempts'', ''initial_backoff_seconds'',
     ''max_backoff_seconds'', ''organization_id'', ''namespaces'', ''require_separate_approver'']
     ''Slack config'') (\<lambda>_.
   bind_res (slack_version (dict_get data ''version'' JNull)) (\<lambda>version.
   case map (\<lambda>k. str_of (dict_get data k JNull))
       [''workspace_id'', ''app_id'', ''channel_id'', ''bot_token_env'', ''signing_secret_env''] of
     [Some workspace, Some app, Some channel, Some token_env, Some secret_env] \<Rightarrow>
       (case (environment token_env, environment secret_env) of
          (Some token, Some secret) \<Rightarrow>
            bind_res (slack_list_of (dict_get data ''reviewers'' JNull) ''Slack reviewers must be a list'') (\<lambda>raw.
            bind_res (map_res parse_reviewer raw) (\<lambda>reviewers.
            case dict_get data ''max_attempts'' (JInt 5) of
              JInt attempts \<Rightarrow>
                bind_res (parse_slack_organization data version) (\<lambda>(org, namespaces, separation).
                bind_res (slack_number (dict_get data ''timeout_seconds'' (JInt 2)) ''timeout_seconds'') (\<lambda>timeout.
                bind_res (slack_number (dict_get data ''initial_backoff_seconds'' (JInt 1))
                  ''initial_backoff_seconds'') (\<lambda>initial.
                bind_res (slack_number (dict_get data ''max_backoff_seconds'' (JInt 60))
                  ''max_backoff_seconds'') (\<lambda>maximum.
                make_slack_config \<lparr>sc_workspace_id = workspace, sc_app_id = app, sc_channel_id = channel,
                  sc_bot_token = token, sc_bot_token_env = token_env, sc_signing_secret = secret,
                  sc_signing_secret_env = secret_env, sc_reviewers = reviewers, sc_timeout_seconds = timeout,
                  sc_max_attempts = attempts, sc_initial_backoff_seconds = initial,
                  sc_max_backoff_seconds = maximum, sc_organization_id = org, sc_namespaces = namespaces,
                  sc_require_separate_approver = separation\<rparr>))))
            | _ \<Rightarrow> Inl (TypeError ''Slack max_attempts must be an integer'')))
        | _ \<Rightarrow> Inl (ValueError ''Slack secret environment variable is not set''))
   | _ \<Rightarrow> Inl (TypeError ''Slack identifiers and secret environment names must be strings'')))"

definition slack_config_from_text ::
  "(string \<Rightarrow> string option) \<Rightarrow> codec \<Rightarrow> string \<Rightarrow> runtime_error + slack_config" where
  "slack_config_from_text environment K t = (case loads K t of
     None \<Rightarrow> Inl (ValueError ''invalid JSON'')
   | Some (JObj data) \<Rightarrow> slack_config_from_mapping environment data
   | Some _ \<Rightarrow> Inl (TypeError ''Slack config must be a JSON object''))"

end
