(* ===== verification/Slack_Message.thy ===== *)
theory Slack_Message
  imports Slack_Config
begin

text \<open>
  The messages of service/slack.py and the replies of the Slack API. The dictionaries of a message are
  \<open>view\<close>s, whose texts are lists of code points, since a shortened text holds two characters beyond
  the others. The HTTP client behind the API is a parameter: its result is an \<open>http_result\<close>.
\<close>

section \<open>Texts\<close>

datatype view = VText "nat list" | VFlag bool | VList "view list" | VDict "(string \<times> view) list"

definition points :: "string \<Rightarrow> nat list" where
  "points s = map code s"

definition plain_text :: "nat list \<Rightarrow> view" where
  "plain_text t = VDict [(''type'', VText (points ''plain_text'')), (''text'', VText t)]"

text \<open>Control characters become U+FFFD, and a long text ends in U+2026.\<close>

definition truncate_text :: "string \<Rightarrow> nat \<Rightarrow> nat list" where
  "truncate_text v maximum =
     (let normalized = map (\<lambda>c. if control_char c then 0xFFFD else code c) v
      in if length normalized \<le> maximum then normalized else take (maximum - 1) normalized @ [0x2026])"

definition is_safe_plain_text :: "string \<Rightarrow> bool" where
  "is_safe_plain_text v = (\<not> has_control v)"

abbreviation newline :: string where
  "newline \<equiv> [CHR 0x0A]"

definition slack_metadata :: "runtime_action \<Rightarrow> string" where
  "slack_metadata a = ''Tool: '' @ ra_tool_name a @ newline @ ''Namespace: '' @ ra_namespace a @ newline @
     ''Action: '' @ ra_action_id a @ newline @ ''Policy rule: '' @ ra_policy_rule a @ newline @
     ''Request digest: '' @ ra_request_digest a"

definition bounded_metadata :: "runtime_action \<Rightarrow> nat list" where
  "bounded_metadata a = points ''Tool: '' @ truncate_text (ra_tool_name a) 512 @ points newline @
     points ''Namespace: '' @ truncate_text (ra_namespace a) 512 @ points newline @
     points ''Action: '' @ truncate_text (ra_action_id a) 512 @ points newline @
     points ''Policy rule: '' @ truncate_text (ra_policy_rule a) 512 @ points newline @
     points ''Request digest: '' @ points (ra_request_digest a)"

section \<open>The approval message\<close>

definition approve_action_id :: string where
  "approve_action_id = ''agentbarrier_approve_v1''"

definition reject_action_id :: string where
  "reject_action_id = ''agentbarrier_reject_v1''"

definition decision_button :: "string \<Rightarrow> string \<Rightarrow> string \<Rightarrow> string \<Rightarrow> string \<Rightarrow> view" where
  "decision_button t action_id v style title = VDict
     [(''type'', VText (points ''button'')),
      (''text'', plain_text (points t)),
      (''action_id'', VText (points action_id)),
      (''value'', VText (points v)),
      (''style'', VText (points style)),
      (''accessibility_label'', VText (points (t @ '' this exact AgentBarrier action''))),
      (''confirm'', VDict
        [(''title'', plain_text (points title)),
         (''text'', plain_text (points
           ''The decision is durable and bound to the displayed request digest.'')),
         (''confirm'', plain_text (points t)),
         (''deny'', plain_text (points ''Cancel''))])]"

text \<open>The value of the buttons.\<close>

definition slack_binding :: "codec \<Rightarrow> runtime_action \<Rightarrow> string" where
  "slack_binding K a = dumps K (JObj [(''action_id'', JStr (ra_action_id a)),
     (''request_digest'', JStr (ra_request_digest a))])"

definition metadata_safe :: "runtime_action \<Rightarrow> bool" where
  "metadata_safe a = (length (slack_metadata a) \<le> 3000 \<and> is_safe_plain_text (ra_tool_name a) \<and>
     is_safe_plain_text (ra_namespace a) \<and> is_safe_plain_text (ra_action_id a) \<and>
     is_safe_plain_text (ra_policy_rule a))"

definition slack_interactive :: "codec \<Rightarrow> runtime_action \<Rightarrow> string \<Rightarrow> bool" where
  "slack_interactive K a arguments = (length arguments \<le> 2400 \<and> metadata_safe a \<and>
     length (ra_action_id a) \<le> 128 \<and> length (slack_binding K a) \<le> 2000 \<and> digest_ok (ra_request_digest a))"

definition slack_section :: "nat list \<Rightarrow> view" where
  "slack_section t = VDict [(''type'', VText (points ''section'')), (''text'', plain_text t)]"

definition slack_header :: "nat list \<Rightarrow> view" where
  "slack_header t = VDict [(''type'', VText (points ''header'')), (''text'', plain_text t)]"

definition slack_buttons :: "codec \<Rightarrow> runtime_action \<Rightarrow> view" where
  "slack_buttons K a = VDict
     [(''type'', VText (points ''actions'')),
      (''block_id'', VText (take 255 (points (''agentbarrier_'' @ ra_action_id a)))),
      (''elements'', VList
        [decision_button ''Approve'' approve_action_id (slack_binding K a) ''primary'' ''Approve this exact action?'',
         decision_button ''Reject'' reject_action_id (slack_binding K a) ''danger'' ''Reject this exact action?''])]"

definition slack_guidance :: "bool \<Rightarrow> string" where
  "slack_guidance interactive = (if interactive
     then ''Review the complete exact arguments below before choosing a decision.''
     else ''Slack decisions are disabled because the complete action is too large.'')"

definition slack_argument_text :: "bool \<Rightarrow> string \<Rightarrow> string" where
  "slack_argument_text interactive arguments = (if interactive then arguments
     else ''This action cannot be represented completely within Slack'' @ [CHR 0x27] @
       ''s message limits. Review it in the AgentBarrier dashboard or CLI.'')"

definition slack_summary :: "runtime_action \<Rightarrow> string \<Rightarrow> string \<Rightarrow> nat list" where
  "slack_summary a guidance argument_text =
     points ''AgentBarrier approval required. Tool '' @ truncate_text (ra_tool_name a) 512 @
     points ''; namespace '' @ truncate_text (ra_namespace a) 512 @
     points ''; action '' @ truncate_text (ra_action_id a) 512 @
     points (''; digest '' @ ra_request_digest a @ ''. '' @ guidance @ '' Arguments: '' @ argument_text)"

definition build_slack_notification ::
  "codec \<Rightarrow> runtime_action \<Rightarrow> string \<Rightarrow> string \<Rightarrow> runtime_error + view" where
  "build_slack_notification K a channel_id client_id =
   bind_res (json_result (canonical_json K (ra_arguments a) ''Slack approval arguments'')) (\<lambda>arguments.
   let interactive = slack_interactive K a arguments;
       guidance = slack_guidance interactive;
       argument_text = slack_argument_text interactive arguments
   in Inr (VDict
     [(''channel'', VText (points channel_id)),
      (''client_msg_id'', VText (points client_id)),
      (''text'', VText (take 4000 (slack_summary a guidance argument_text))),
      (''mrkdwn'', VFlag False),
      (''blocks'', VList
        ([slack_header (points ''AgentBarrier approval required''),
          slack_section (if metadata_safe a then points (slack_metadata a) else bounded_metadata a),
          slack_section (points argument_text),
          VDict [(''type'', VText (points ''context'')), (''elements'', VList [plain_text (points guidance)])]] @
         (if interactive then [slack_buttons K a] else []))),
      (''unfurl_links'', VFlag False),
      (''unfurl_media'', VFlag False)]))"

section \<open>The update after a decision\<close>

definition build_slack_decision_update :: "runtime_action \<Rightarrow> (string \<times> view) list" where
  "build_slack_decision_update a =
     (let decided_by = truncate_text (case ra_decided_by a of None \<Rightarrow> ''unknown reviewer''
            | Some u \<Rightarrow> if u = [] then ''unknown reviewer'' else u) 512;
          tool_name = truncate_text (ra_tool_name a) 512;
          action_id = truncate_text (ra_action_id a) 512;
          status = points (status_text (ra_status a))
      in [(''text'', VText (take 4000 (points ''AgentBarrier action '' @ action_id @ points '' is '' @ status @
            points ''; tool '' @ tool_name @ points ''; decision recorded by '' @ decided_by @ points ''.''))),
          (''mrkdwn'', VFlag False),
          (''blocks'', VList
            [slack_header (points ''Action '' @ status),
             slack_section (points ''Tool: '' @ tool_name @ points newline @ points ''Action: '' @ action_id @
               points newline @ points ''Status: '' @ status @ points newline @ points ''Recorded by: '' @
               decided_by @ points newline @ points ''Request digest: '' @ points (ra_request_digest a))]),
          (''unfurl_links'', VFlag False),
          (''unfurl_media'', VFlag False)])"

section \<open>Replies of the API\<close>

record slack_api_error =
  sa_code :: string
  sa_status_code :: "int option"
  sa_retryable :: bool
  sa_retry_after :: "pyfloat option"

text \<open>\<open>SlackAPIError.__init__\<close>\<close>

definition make_api_error :: "string \<Rightarrow> int option \<Rightarrow> bool \<Rightarrow> pyfloat option \<Rightarrow> slack_api_error" where
  "make_api_error err_code status_code retryable retry_after =
     \<lparr>sa_code = safe_error_code err_code, sa_status_code = status_code, sa_retryable = retryable,
      sa_retry_after = retry_after\<rparr>"

text \<open>What a \<open>SlackAPICaller\<close> does: it returns, or raises a \<open>SlackAPIError\<close> or another exception.\<close>

datatype api_reply =
    Reply int "(string \<times> json) list" "pyfloat option"
  | Reply_Error slack_api_error
  | Reply_Raised string

definition require_slack_ok ::
  "(string \<times> json) list \<Rightarrow> int \<Rightarrow> pyfloat option \<Rightarrow> slack_api_error + unit" where
  "require_slack_ok result status_code retry_after =
     (if 200 \<le> status_code \<and> status_code < 300 \<and> dict_get result ''ok'' JNull = JBool True then Inr ()
      else
        let err_code = (case dict_get result ''error'' JNull of JStr t \<Rightarrow> t
              | _ \<Rightarrow> ''HTTP'' @ show_int status_code)
        in Inl (make_api_error err_code (Some status_code)
             (status_code = 429 \<or> 500 \<le> status_code \<or>
              err_code \<in> {''ratelimited'', ''internal_error'', ''fatal_error'', ''service_unavailable''})
             retry_after))"

text \<open>\<open>_retry_after_seconds\<close>, with \<open>float(text)\<close> as a parameter.\<close>

definition retry_after_seconds :: "(string \<Rightarrow> pyfloat option) \<Rightarrow> string option \<Rightarrow> pyfloat option" where
  "retry_after_seconds float_of v = (case Option.bind v float_of of
     None \<Rightarrow> None
   | Some x \<Rightarrow> if \<not> is_finite x \<or> num_less x (of_int_num 0) then None else Some x)"

text \<open>The HTTP exchange: an error of the client, or a status, the header \<open>Retry-After\<close> and the JSON.\<close>

datatype http_result = Http_Error string | Http_Response int "string option" "json option"

definition call_slack_api ::
  "(string \<Rightarrow> pyfloat option) \<Rightarrow> string \<Rightarrow> http_result \<Rightarrow> api_reply" where
  "call_slack_api float_of method result =
     (if method \<notin> {''chat.postMessage'', ''chat.update'', ''chat.postEphemeral''} then Reply_Raised ''ValueError''
      else case result of
        Http_Error name \<Rightarrow> Reply_Error (make_api_error name None True None)
      | Http_Response status_code header body \<Rightarrow>
          let retry_after = retry_after_seconds float_of header;
              retryable = (status_code = 429 \<or> 500 \<le> status_code)
          in (case body of
               None \<Rightarrow> Reply_Error (make_api_error ''InvalidJSON'' (Some status_code) retryable retry_after)
             | Some (JObj data) \<Rightarrow> Reply status_code data retry_after
             | Some _ \<Rightarrow> Reply_Error (make_api_error ''InvalidResponse'' (Some status_code) retryable retry_after)))"


end
