(* ===== verification/Slack_Store.thy ===== *)
theory Slack_Store
  imports Slack_Config Database "HOL-Library.Product_Lexorder"
begin

text \<open>
  The notification store of service/slack.py: the bindings of posted messages, the claims of the
  workers, the retry state and the interactions already handled, with every operation's transaction.
  The \<open>uuid5\<close> of a name is a parameter.
\<close>

datatype notification_status = Sn_pending | Sn_posting | Sn_posted | Sn_dead | Sn_obsolete | Sn_decided

record notification_row =
  sn_action_id :: string
  sn_request_digest :: string
  sn_channel_id :: string
  sn_client_message_id :: string
  sn_status :: notification_status
  sn_attempts :: int
  sn_next_attempt_at_ns :: int
  sn_lease_expires_at_ns :: "int option"
  sn_claimed_by :: "string option"
  sn_message_ts :: "string option"
  sn_last_status_code :: "int option"
  sn_last_error :: "string option"
  sn_decided_by :: "string option"
  sn_decision :: "decision option"
  sn_decided_at_ns :: "int option"

record interaction_row =
  si_signature_digest :: string
  si_action_id :: string
  si_request_digest :: string
  si_user_id :: string
  si_decision :: decision
  si_outcome :: string
  si_processed_at_ns :: int

record slack_db =
  sd_notifications :: "notification_row list"
  sd_interactions :: "interaction_row list"

record slack_notification =
  nt_action_id :: string
  nt_request_digest :: string
  nt_channel_id :: string
  nt_client_message_id :: string
  nt_attempts :: int

record notification_snapshot =
  ns_action_id :: string
  ns_request_digest :: string
  ns_channel_id :: string
  ns_status :: notification_status
  ns_attempts :: int
  ns_next_attempt_at_ns :: int
  ns_message_ts :: "string option"
  ns_last_status_code :: "int option"
  ns_last_error :: "string option"
  ns_decided_by :: "string option"
  ns_decision :: "decision option"

definition slack_lease :: "pyfloat \<Rightarrow> runtime_error + int" where
  "slack_lease seconds =
     (if \<not> is_finite seconds \<or> num_le seconds (of_int_num 0) then
        Inl (ValueError ''Slack claim lease must be finite and greater than zero'')
      else case seconds_to_ns seconds of
        None \<Rightarrow> Inl OverflowError
      | Some n \<Rightarrow> if n < 1 then Inl (ValueError ''Slack claim lease must be at least one nanosecond'') else Inr n)"

definition find_notification :: "string \<Rightarrow> slack_db \<Rightarrow> notification_row option" where
  "find_notification i w = find_row sn_action_id i (sd_notifications w)"

definition update_notification ::
  "string \<Rightarrow> (notification_row \<Rightarrow> notification_row) \<Rightarrow> slack_db \<Rightarrow> slack_db" where
  "update_notification i f w = w\<lparr>sd_notifications := update_row sn_action_id i f (sd_notifications w)\<rparr>"

definition notification_of :: "notification_row \<Rightarrow> notification_snapshot" where
  "notification_of q = \<lparr>ns_action_id = sn_action_id q, ns_request_digest = sn_request_digest q,
     ns_channel_id = sn_channel_id q, ns_status = sn_status q, ns_attempts = sn_attempts q,
     ns_next_attempt_at_ns = sn_next_attempt_at_ns q, ns_message_ts = sn_message_ts q,
     ns_last_status_code = sn_last_status_code q, ns_last_error = sn_last_error q,
     ns_decided_by = sn_decided_by q, ns_decision = sn_decision q\<rparr>"

text \<open>\<open>hmac.compare_digest\<close> on strings, which must be ASCII.\<close>

definition compare_digest :: "string \<Rightarrow> string \<Rightarrow> runtime_error + bool" where
  "compare_digest a b = (if list_ex (\<lambda>c. 128 \<le> code c) (a @ b)
     then Inl (TypeError ''comparing strings with non-ASCII characters is not supported'') else Inr (a = b))"

section \<open>Notifications\<close>

definition client_message_id :: "(string \<Rightarrow> string) \<Rightarrow> runtime_action \<Rightarrow> string" where
  "client_message_id uuid5 a =
     uuid5 (''https://agentbarrier.dev/slack/'' @ ra_action_id a @ ''/'' @ ra_request_digest a)"

definition new_notification :: "(string \<Rightarrow> string) \<Rightarrow> int \<Rightarrow> runtime_action \<Rightarrow> string \<Rightarrow> notification_row" where
  "new_notification uuid5 now a channel_id = \<lparr>sn_action_id = ra_action_id a,
     sn_request_digest = ra_request_digest a, sn_channel_id = channel_id,
     sn_client_message_id = client_message_id uuid5 a, sn_status = Sn_pending, sn_attempts = 0,
     sn_next_attempt_at_ns = now, sn_lease_expires_at_ns = None, sn_claimed_by = None, sn_message_ts = None,
     sn_last_status_code = None, sn_last_error = None, sn_decided_by = None, sn_decision = None,
     sn_decided_at_ns = None\<rparr>"

definition enqueue_notification ::
  "(string \<Rightarrow> string) \<Rightarrow> int \<Rightarrow> runtime_action \<Rightarrow> string \<Rightarrow> slack_db \<Rightarrow> (runtime_error + bool) \<times> slack_db" where
  "enqueue_notification uuid5 now a channel_id w = transaction (case find_notification (ra_action_id a) w of
     Some q \<Rightarrow>
       if sn_request_digest q \<noteq> ra_request_digest a \<or> sn_channel_id q \<noteq> channel_id \<or>
           sn_client_message_id q \<noteq> client_message_id uuid5 a then
         Inl (ValueError ''Slack action notification binding changed'')
       else Inr (False, w)
   | None \<Rightarrow>
       if client_message_id uuid5 a \<in> sn_client_message_id ` set (sd_notifications w) then
         Inl (IntegrityError ''slack_notifications.client_message_id'')
       else Inr (True, w\<lparr>sd_notifications := sd_notifications w @ [new_notification uuid5 now a channel_id]\<rparr>)) w"

definition notice_lapsed :: "int \<Rightarrow> notification_row \<Rightarrow> bool" where
  "notice_lapsed now q = (sn_status q = Sn_posting \<and>
     (case sn_lease_expires_at_ns q of None \<Rightarrow> False | Some t \<Rightarrow> t \<le> now))"

definition release_notice :: "int \<Rightarrow> notification_row \<Rightarrow> notification_row" where
  "release_notice now q = (if notice_lapsed now q
     then q\<lparr>sn_status := Sn_pending, sn_claimed_by := None, sn_lease_expires_at_ns := None,
            sn_next_attempt_at_ns := now\<rparr> else q)"

definition due_notices :: "int \<Rightarrow> notification_row list \<Rightarrow> notification_row list" where
  "due_notices now rows = sort_key (\<lambda>q. (sn_next_attempt_at_ns q, sn_action_id q))
     (filter (\<lambda>q. sn_status q = Sn_pending \<and> sn_next_attempt_at_ns q \<le> now) rows)"

definition claim_notice :: "int \<Rightarrow> int \<Rightarrow> string \<Rightarrow> notification_row \<Rightarrow> notification_row" where
  "claim_notice lease now worker q = q\<lparr>sn_status := Sn_posting, sn_attempts := sn_attempts q + 1,
     sn_claimed_by := Some worker, sn_lease_expires_at_ns := Some (now + lease)\<rparr>"

definition notice_of :: "notification_row \<Rightarrow> slack_notification" where
  "notice_of q = \<lparr>nt_action_id = sn_action_id q, nt_request_digest = sn_request_digest q,
     nt_channel_id = sn_channel_id q, nt_client_message_id = sn_client_message_id q,
     nt_attempts = sn_attempts q\<rparr>"

definition claim_notification ::
  "int \<Rightarrow> int \<Rightarrow> string \<Rightarrow> slack_db \<Rightarrow> (runtime_error + slack_notification option) \<times> slack_db" where
  "claim_notification lease now worker w =
     (if blank worker then (Inl (ValueError ''Slack worker_id must not be empty''), w)
      else transaction
        (let w1 = w\<lparr>sd_notifications := map (release_notice now) (sd_notifications w)\<rparr> in
         case due_notices now (sd_notifications w1) of
           [] \<Rightarrow> Inr (None, w1)
         | q # _ \<Rightarrow> Inr (Some (notice_of (claim_notice lease now worker q)),
             update_notification (sn_action_id q) (claim_notice lease now worker) w1)) w)"

section \<open>Outcomes of a claim\<close>

definition owned_notification :: "string \<Rightarrow> string \<Rightarrow> slack_db \<Rightarrow> runtime_error + unit" where
  "owned_notification i worker w = (case find_notification i w of
     None \<Rightarrow> Inl (KeyError ''unknown Slack notification'')
   | Some q \<Rightarrow> if sn_status q \<noteq> Sn_posting \<or> sn_claimed_by q \<noteq> Some worker
       then Inl (ValueError ''Slack notification is not owned by this worker'') else Inr ())"

definition posted_notice :: "string \<Rightarrow> int \<Rightarrow> notification_row \<Rightarrow> notification_row" where
  "posted_notice ts status_code q = q\<lparr>sn_status := Sn_posted, sn_message_ts := Some ts,
     sn_last_status_code := Some status_code, sn_last_error := None, sn_claimed_by := None,
     sn_lease_expires_at_ns := None\<rparr>"

definition mark_posted ::
  "slack_notification \<Rightarrow> string \<Rightarrow> string \<Rightarrow> int \<Rightarrow> slack_db \<Rightarrow> (runtime_error + unit) \<times> slack_db" where
  "mark_posted n worker ts status_code w =
     (if \<not> message_ts_ok ts then (Inl (ValueError ''Slack message timestamp is invalid''), w)
      else if \<not> (100 \<le> status_code \<and> status_code \<le> 599) then
        (Inl (ValueError ''Slack HTTP status code must be between 100 and 599''), w)
      else transaction (bind_res (owned_notification (nt_action_id n) worker w) (\<lambda>_.
        Inr ((), update_notification (nt_action_id n) (posted_notice ts status_code) w))) w)"

text \<open>
  The delay before the next attempt. Two to a power of 1024 or more does not fit a float; the first
  attempt is number one.
\<close>

definition notice_delay :: "slack_config \<Rightarrow> int \<Rightarrow> pyfloat option \<Rightarrow> runtime_error + pyfloat" where
  "notice_delay c attempts retry_after =
     (if 1024 < attempts then Inl OverflowError
      else let delay = num_min (fmul_int (sc_initial_backoff_seconds c) (2 ^ nat (attempts - 1)))
             (sc_max_backoff_seconds c)
        in Inr (case retry_after of None \<Rightarrow> delay
           | Some r \<Rightarrow> num_min (num_max delay r) (sc_max_backoff_seconds c)))"

definition failed_notice ::
  "notification_status \<Rightarrow> int \<Rightarrow> int option \<Rightarrow> string \<Rightarrow> notification_row \<Rightarrow> notification_row" where
  "failed_notice status next_attempt status_code error q = q\<lparr>sn_status := status,
     sn_next_attempt_at_ns := next_attempt, sn_last_status_code := status_code,
     sn_last_error := Some error, sn_claimed_by := None, sn_lease_expires_at_ns := None\<rparr>"

definition next_notice_attempt :: "int \<Rightarrow> bool \<Rightarrow> pyfloat \<Rightarrow> runtime_error + int" where
  "next_notice_attempt now terminal delay =
     (if terminal then Inr now
      else case seconds_to_ns delay of None \<Rightarrow> Inl OverflowError | Some n \<Rightarrow> Inr (now + n))"

definition mark_notice_failed ::
  "int \<Rightarrow> slack_notification \<Rightarrow> string \<Rightarrow> slack_config \<Rightarrow> int option \<Rightarrow> string \<Rightarrow> bool \<Rightarrow> pyfloat option \<Rightarrow>
   slack_db \<Rightarrow> (runtime_error + notification_status) \<times> slack_db" where
  "mark_notice_failed now n worker c status_code error retryable retry_after w =
     (if \<not> safe_error_ok error then (Inl (ValueError ''Slack failure error must be a safe code''), w)
      else
        let terminal = (\<not> retryable \<or> sc_max_attempts c \<le> nt_attempts n);
            status = (if terminal then Sn_dead else Sn_pending)
        in case bind_res (notice_delay c (nt_attempts n) retry_after) (next_notice_attempt now terminal) of
             Inl x \<Rightarrow> (Inl x, w)
           | Inr next_attempt \<Rightarrow> transaction (bind_res (owned_notification (nt_action_id n) worker w) (\<lambda>_.
               Inr (status, update_notification (nt_action_id n)
                 (failed_notice status next_attempt status_code error) w))) w)"

definition obsolete_notice :: "string \<Rightarrow> notification_row \<Rightarrow> notification_row" where
  "obsolete_notice reason q = q\<lparr>sn_status := Sn_obsolete, sn_last_error := Some reason,
     sn_claimed_by := None, sn_lease_expires_at_ns := None\<rparr>"

definition mark_obsolete ::
  "slack_notification \<Rightarrow> string \<Rightarrow> string \<Rightarrow> slack_db \<Rightarrow> (runtime_error + unit) \<times> slack_db" where
  "mark_obsolete n worker reason w =
     (if \<not> safe_error_ok reason then (Inl (ValueError ''Slack obsolete reason must be a safe code''), w)
      else transaction (bind_res (owned_notification (nt_action_id n) worker w) (\<lambda>_.
        Inr ((), update_notification (nt_action_id n) (obsolete_notice reason) w))) w)"

section \<open>Interactions\<close>

text \<open>The comparisons of \<open>require_message_binding\<close>, up to the first that fails.\<close>

definition binding_matches ::
  "notification_row \<Rightarrow> string \<Rightarrow> string \<Rightarrow> string \<Rightarrow> runtime_error + bool" where
  "binding_matches q digest channel_id ts =
   bind_res (compare_digest (sn_request_digest q) digest) (\<lambda>same_digest.
   if \<not> same_digest then Inr False
   else bind_res (compare_digest (sn_channel_id q) channel_id) (\<lambda>same_channel.
   if \<not> same_channel then Inr False
   else case sn_message_ts q of None \<Rightarrow> Inr False | Some posted \<Rightarrow> compare_digest posted ts))"

definition require_message_binding ::
  "string \<Rightarrow> string \<Rightarrow> string \<Rightarrow> string \<Rightarrow> slack_db \<Rightarrow> runtime_error + notification_snapshot" where
  "require_message_binding i digest channel_id ts w = (case find_notification i w of
     None \<Rightarrow> Inl (KeyError ''unknown Slack approval notification'')
   | Some q \<Rightarrow> bind_res (binding_matches q digest channel_id ts) (\<lambda>matches.
       if \<not> matches then Inl (ValueError ''Slack interaction does not match the posted approval notification'')
       else if sn_status q \<notin> {Sn_posted, Sn_decided} then
         Inl (ValueError ''Slack approval notification is not interactive'')
       else Inr (notification_of q)))"

definition interaction_outcome :: "string \<Rightarrow> slack_db \<Rightarrow> string option" where
  "interaction_outcome digest w =
     map_option si_outcome (find_row si_signature_digest digest (sd_interactions w))"

definition record_interaction ::
  "int \<Rightarrow> string \<Rightarrow> string \<Rightarrow> string \<Rightarrow> string \<Rightarrow> decision \<Rightarrow> string \<Rightarrow> slack_db \<Rightarrow>
   (runtime_error + unit) \<times> slack_db" where
  "record_interaction now signature i digest user d outcome w =
     (if blank outcome \<or> 64 < length outcome then (Inl (ValueError ''Slack interaction outcome is invalid''), w)
      else transaction (Inr ((), if interaction_outcome signature w \<noteq> None then w
        else w\<lparr>sd_interactions := sd_interactions w @ [\<lparr>si_signature_digest = signature, si_action_id = i,
          si_request_digest = digest, si_user_id = user, si_decision = d, si_outcome = outcome,
          si_processed_at_ns = now\<rparr>]\<rparr>)) w)"

definition decided_notice :: "int \<Rightarrow> string \<Rightarrow> decision \<Rightarrow> notification_row \<Rightarrow> notification_row" where
  "decided_notice now decided_by d q = q\<lparr>sn_status := Sn_decided, sn_decided_by := Some decided_by,
     sn_decision := Some d, sn_decided_at_ns := Some now\<rparr>"

definition mark_decided ::
  "int \<Rightarrow> string \<Rightarrow> string \<Rightarrow> string \<Rightarrow> decision \<Rightarrow> slack_db \<Rightarrow> (runtime_error + unit) \<times> slack_db" where
  "mark_decided now i digest decided_by d w = transaction (case find_notification i w of
     None \<Rightarrow> Inl (ValueError ''Slack decision notification binding changed'')
   | Some q \<Rightarrow> bind_res (compare_digest (sn_request_digest q) digest) (\<lambda>same.
       if \<not> same then Inl (ValueError ''Slack decision notification binding changed'')
       else Inr ((), update_notification i (decided_notice now decided_by d) w))) w"

section \<open>Inspection and manual retries\<close>

definition notification_snapshots :: "slack_db \<Rightarrow> notification_snapshot list" where
  "notification_snapshots w = map notification_of (sort_key sn_action_id (sd_notifications w))"

definition revived_notice :: "int \<Rightarrow> notification_row \<Rightarrow> notification_row" where
  "revived_notice now q = q\<lparr>sn_status := Sn_pending, sn_attempts := 0, sn_next_attempt_at_ns := now,
     sn_claimed_by := None, sn_lease_expires_at_ns := None, sn_last_error := None\<rparr>"

definition retry_dead_notification ::
  "int \<Rightarrow> string \<Rightarrow> slack_db \<Rightarrow> (runtime_error + notification_snapshot) \<times> slack_db" where
  "retry_dead_notification now i w = transaction (case find_notification i w of
     None \<Rightarrow> Inl (KeyError ''unknown Slack notification'')
   | Some q \<Rightarrow>
       if sn_status q \<noteq> Sn_dead then Inl (ValueError ''only a dead Slack notification can be retried'')
       else let w' = update_notification i (revived_notice now) w in
         (case find_notification i w' of
            None \<Rightarrow> Inl (RuntimeStoreError ''Slack notification disappeared while retrying'')
          | Some q' \<Rightarrow> Inr (notification_of q', w'))) w"

end
