(* ===== verification/Slack_Interaction.thy ===== *)
theory Slack_Interaction
  imports Slack_Message Slack_Store Api Url
begin

text \<open>
  The signed endpoint of service/slack.py: the body, the signature, the form and the payload of a
  request, and the decision it leads to. The keyed hash is a parameter. A form whose decoded text
  leaves the code points below 256, where the source would go on with other characters, counts as
  invalid.
\<close>

section \<open>Failures\<close>

datatype slack_failure = Slack_Rejected int string string | Slack_Uncaught runtime_error

text \<open>The three exception handlers: the status and the body of the response.\<close>

definition slack_error_response :: "slack_failure \<Rightarrow> int \<times> json" where
  "slack_error_response f = (case f of
     Slack_Rejected status err_code message \<Rightarrow>
       (status, JObj [(''error'', JObj [(''code'', JStr err_code), (''message'', JStr message)])])
   | Slack_Uncaught _ \<Rightarrow> (500, JObj [(''error'', JObj [(''code'', JStr ''internal_error''),
       (''message'', JStr ''Slack request failed closed'')])]))"

definition slack_http_error :: "int \<Rightarrow> int \<times> json" where
  "slack_http_error status = (status, JObj [(''error'', JObj [(''code'',
     JStr (if status = 404 then ''route_not_found'' else ''method_not_allowed''))])])"

section \<open>Requests\<close>

record slack_request =
  sq_timestamp :: "string option"
  sq_signature :: "string option"
  sq_content_type :: "string option"
  sq_content_length :: "string option"
  sq_chunks :: "string list"

definition max_interaction_bytes :: int where
  "max_interaction_bytes = 65536"

definition slack_body_too_large :: slack_failure where
  "slack_body_too_large = Slack_Rejected 413 ''body_too_large'' ''Slack request body is too large''"

fun slack_chunks :: "string list \<Rightarrow> string \<Rightarrow> slack_failure + string" where
  "slack_chunks [] body = Inr body"
| "slack_chunks (chunk # chunks) body =
     (if max_interaction_bytes < int (length body + length chunk) then Inl slack_body_too_large
      else slack_chunks chunks (body @ chunk))"

definition read_slack_body :: "slack_request \<Rightarrow> slack_failure + string" where
  "read_slack_body rq =
   bind_res (case sq_content_length rq of
       None \<Rightarrow> Inr ()
     | Some raw \<Rightarrow> (case int_of_text raw of
         None \<Rightarrow> Inl (Slack_Rejected 400 ''invalid_content_length'' ''Content-Length must be an integer'')
       | Some n \<Rightarrow> if max_interaction_bytes < n then Inl slack_body_too_large else Inr ()))
     (\<lambda>_. slack_chunks (sq_chunks rq) [])"

section \<open>Signatures\<close>

text \<open>\<open>x - k\<close> for a finite float and an integer that fits a float, rounded as Python rounds it.\<close>

definition float_minus_int :: "pyfloat \<Rightarrow> int \<Rightarrow> pyfloat" where
  "float_minus_int x k =
     (case (case x of Fin m e \<Rightarrow> (m, e) | _ \<Rightarrow> (0, 0), round64 k 0) of
        ((m, e), Fin n f) \<Rightarrow> let c = min e f in round64 (m * 2 ^ nat (e - c) - n * 2 ^ nat (f - c)) c
      | ((m, e), y) \<Rightarrow> y)"

definition num_abs :: "pyfloat \<Rightarrow> pyfloat" where
  "num_abs x = (case x of Fin m e \<Rightarrow> Fin \<bar>m\<bar> e | NegZero \<Rightarrow> Fin 0 0 | NInf \<Rightarrow> PInf | y \<Rightarrow> y)"

definition stale_request :: "pyfloat \<Rightarrow> int \<Rightarrow> bool" where
  "stale_request now ts = (\<not> is_finite now \<or> num_less (of_int_num 300) (num_abs (float_minus_int now ts)))"

definition expected_signature ::
  "(string \<Rightarrow> string \<Rightarrow> string) \<Rightarrow> string \<Rightarrow> string \<Rightarrow> string \<Rightarrow> string" where
  "expected_signature hmac secret timestamp body = ''v0='' @ hmac secret (''v0:'' @ timestamp @ '':'' @ body)"

definition verify_slack_signature ::
  "(string \<Rightarrow> string \<Rightarrow> string) \<Rightarrow> string \<Rightarrow> string option \<Rightarrow> string option \<Rightarrow> string \<Rightarrow> pyfloat \<Rightarrow>
   slack_failure + string" where
  "verify_slack_signature hmac secret timestamp signature body now =
     (case (timestamp, signature) of
        (Some ts, Some sg) \<Rightarrow>
          if \<not> short_digits ts then
            Inl (Slack_Rejected 401 ''invalid_timestamp'' ''Slack request timestamp is invalid'')
          else if \<not> slack_signature_ok sg then
            Inl (Slack_Rejected 401 ''invalid_signature'' ''Slack request signature is invalid'')
          else if stale_request now (int (read_nat ts)) then
            Inl (Slack_Rejected 401 ''stale_request'' ''Slack request is outside the replay window'')
          else if expected_signature hmac secret ts body \<noteq> sg then
            Inl (Slack_Rejected 401 ''invalid_signature'' ''Slack request signature is invalid'')
          else Inr sg
      | _ \<Rightarrow> Inl (Slack_Rejected 401 ''missing_signature'' ''Slack signature headers are required''))"

section \<open>Forms\<close>

text \<open>\<open>unquote_to_bytes\<close>: a percent sign without two hexadecimal digits stays.\<close>

fun percent_decode :: "string \<Rightarrow> string" where
  "percent_decode (p # a # b # r) =
     (if p = CHR ''%'' then (case (hex_val a, hex_val b) of
        (Some x, Some y) \<Rightarrow> char_of (16 * x + y) # percent_decode r
      | _ \<Rightarrow> p # percent_decode (a # b # r))
      else p # percent_decode (a # b # r))"
| "percent_decode r = r"

text \<open>\<open>unquote\<close>: the runs of ASCII characters are decoded, others stay.\<close>

function unquote :: "string \<Rightarrow> string option" where
  "unquote [] = Some []"
| "unquote (c # r) =
     (if 128 \<le> code c then map_option (\<lambda>t. c # t) (unquote r)
      else case (utf8_decode (percent_decode (takeWhile (\<lambda>d. code d < 128) (c # r))),
          unquote (dropWhile (\<lambda>d. code d < 128) r)) of
        (Some s, Some t) \<Rightarrow> Some (s @ t) | _ \<Rightarrow> None)"
  by pat_completeness auto
termination
  by (relation "measure length") (auto simp: le_imp_less_Suc length_dropWhile_le)

definition form_text :: "string \<Rightarrow> string option" where
  "form_text s = unquote (map (\<lambda>c. if c = CHR ''+'' then CHR '' '' else c) s)"

definition form_field :: "string \<Rightarrow> (string \<times> string) option" where
  "form_field s = (case partition_at (\<lambda>c. c = CHR ''='') s of
     (name, True, v) \<Rightarrow> (case (form_text name, form_text v) of
        (Some n, Some t) \<Rightarrow> Some (n, t) | _ \<Rightarrow> None)
   | _ \<Rightarrow> None)"

fun form_fields :: "string list \<Rightarrow> (string \<times> string) list option" where
  "form_fields [] = Some []"
| "form_fields (s # ss) = (case (form_field s, form_fields ss) of
     (Some f, Some fs) \<Rightarrow> Some (f # fs) | _ \<Rightarrow> None)"

text \<open>\<open>parse_qs\<close>, strict, with blank values and at most four fields.\<close>

definition parse_form :: "string \<Rightarrow> (string \<times> string) list option" where
  "parse_form s =
     (if 4 < length (split_on (CHR ''&'') s) then None else form_fields (split_on (CHR ''&'') s))"

section \<open>Payloads\<close>

record parsed_interaction =
  px_signature_digest :: string
  px_user_id :: string
  px_channel_id :: string
  px_message_ts :: string
  px_action_id :: string
  px_request_digest :: string
  px_decision :: decision

definition nested_identifier :: "(string \<times> json) list \<Rightarrow> string \<Rightarrow> string \<Rightarrow> slack_failure + string" where
  "nested_identifier payload parent child = (case dict_get payload parent JNull of
     JObj v \<Rightarrow> (case dict_get v child JNull of
        JStr t \<Rightarrow> Inr t
      | _ \<Rightarrow> Inl (Slack_Rejected 400 ''invalid_payload''
          (''Slack payload '' @ parent @ ''.'' @ child @ '' is invalid'')))
   | _ \<Rightarrow> Inl (Slack_Rejected 400 ''invalid_payload'' (''Slack payload '' @ parent @ '' is invalid'')))"

definition uncaught :: "runtime_error + 'a \<Rightarrow> slack_failure + 'a" where
  "uncaught r = (case r of Inl e \<Rightarrow> Inl (Slack_Uncaught e) | Inr v \<Rightarrow> Inr v)"

definition same_identifier :: "string \<Rightarrow> string \<Rightarrow> slack_failure \<Rightarrow> slack_failure + unit" where
  "same_identifier a b f = bind_res (uncaught (compare_digest a b)) (\<lambda>same. if same then Inr () else Inl f)"

definition invalid_binding :: slack_failure where
  "invalid_binding = Slack_Rejected 400 ''invalid_binding'' ''Slack action binding is invalid''"

text \<open>The action id and the digest in the value of a button.\<close>

definition parse_binding :: "codec \<Rightarrow> string \<Rightarrow> slack_failure + (string \<times> string)" where
  "parse_binding K raw = (case loads K raw of
     Some (JObj binding) \<Rightarrow>
       if set (map fst binding) \<noteq> {''action_id'', ''request_digest''} then Inl invalid_binding
       else (case (dict_get binding ''action_id'' JNull, dict_get binding ''request_digest'' JNull) of
          (JStr i, JStr digest) \<Rightarrow>
            if blank i \<or> 128 < length i \<or> \<not> digest_ok digest then Inl invalid_binding else Inr (i, digest)
        | _ \<Rightarrow> Inl invalid_binding)
   | _ \<Rightarrow> Inl invalid_binding)"

definition parse_button :: "codec \<Rightarrow> json \<Rightarrow> slack_failure + (decision \<times> string \<times> string)" where
  "parse_button K v = (case v of
     JObj action \<Rightarrow> (case (dict_get action ''action_id'' JNull, dict_get action ''value'' JNull) of
        (JStr identifier, JStr raw) \<Rightarrow>
          bind_res (if identifier = approve_action_id then Inr APPROVE
            else if identifier = reject_action_id then Inr REJECT
            else Inl (Slack_Rejected 400 ''unknown_action'' ''Slack action is not recognized'')) (\<lambda>d.
          bind_res (parse_binding K raw) (\<lambda>(i, digest). Inr (d, i, digest)))
      | _ \<Rightarrow> Inl (Slack_Rejected 400 ''invalid_action'' ''Slack button identity is invalid''))
   | _ \<Rightarrow> Inl (Slack_Rejected 400 ''invalid_action'' ''Slack action must be an object''))"

definition parse_payload ::
  "codec \<Rightarrow> slack_config \<Rightarrow> string \<Rightarrow> (string \<times> json) list \<Rightarrow> slack_failure + parsed_interaction" where
  "parse_payload K c signature payload =
     (if dict_get payload ''type'' JNull \<noteq> JStr ''block_actions'' then
        Inl (Slack_Rejected 400 ''unsupported_interaction'' ''only block actions are supported'')
      else if dict_get payload ''api_app_id'' JNull \<noteq> JStr (sc_app_id c) then
        Inl (Slack_Rejected 403 ''wrong_app'' ''Slack interaction app does not match'')
      else
      bind_res (nested_identifier payload ''team'' ''id'') (\<lambda>workspace.
      bind_res (same_identifier workspace (sc_workspace_id c)
        (Slack_Rejected 403 ''wrong_workspace'' ''Slack workspace does not match'')) (\<lambda>_.
      bind_res (nested_identifier payload ''channel'' ''id'') (\<lambda>channel.
      bind_res (same_identifier channel (sc_channel_id c)
        (Slack_Rejected 403 ''wrong_channel'' ''Slack channel does not match'')) (\<lambda>_.
      bind_res (nested_identifier payload ''user'' ''id'') (\<lambda>user.
      bind_res (nested_identifier payload ''message'' ''ts'') (\<lambda>ts.
      if \<not> user_id_ok user \<or> \<not> message_ts_ok ts then
        Inl (Slack_Rejected 400 ''invalid_identity'' ''Slack interaction identity is invalid'')
      else case dict_get payload ''actions'' JNull of
        JList [action] \<Rightarrow>
          bind_res (parse_button K action) (\<lambda>(d, i, digest).
          Inr \<lparr>px_signature_digest = sha256_hex K signature, px_user_id = user, px_channel_id = channel,
            px_message_ts = ts, px_action_id = i, px_request_digest = digest, px_decision = d\<rparr>)
      | _ \<Rightarrow> Inl (Slack_Rejected 400 ''invalid_action'' ''Slack interaction must contain one action''))))))))"

definition invalid_form :: "slack_failure" where
  "invalid_form = Slack_Rejected 400 ''invalid_form'' ''Slack interaction form is invalid''"

definition parse_interaction ::
  "(string \<Rightarrow> string \<Rightarrow> string) \<Rightarrow> codec \<Rightarrow> slack_config \<Rightarrow> pyfloat \<Rightarrow> slack_request \<Rightarrow> string \<Rightarrow>
   slack_failure + parsed_interaction" where
  "parse_interaction hmac K c now rq body =
   bind_res (verify_slack_signature hmac (sc_signing_secret c) (sq_timestamp rq) (sq_signature rq) body now)
     (\<lambda>signature.
   if py_lower (py_strip (takeWhile (\<lambda>d. d \<noteq> CHR '';'') (case sq_content_type rq of None \<Rightarrow> [] | Some t \<Rightarrow> t)))
       \<noteq> ''application/x-www-form-urlencoded'' then
     Inl (Slack_Rejected 415 ''unsupported_media_type''
       ''Slack interactions must use application/x-www-form-urlencoded'')
   else case Option.bind (utf8_decode body) parse_form of
     None \<Rightarrow> Inl invalid_form
   | Some [(name, raw)] \<Rightarrow>
       if name \<noteq> ''payload'' then Inl (Slack_Rejected 400 ''invalid_form''
         ''Slack interaction form must contain one payload field'')
       else (case loads K raw of
          None \<Rightarrow> Inl (Slack_Rejected 400 ''invalid_payload'' ''Slack interaction payload is not valid JSON'')
        | Some (JObj payload) \<Rightarrow> parse_payload K c signature payload
        | Some _ \<Rightarrow> Inl (Slack_Rejected 400 ''invalid_payload'' ''Slack interaction payload must be an object''))
   | Some _ \<Rightarrow> Inl (Slack_Rejected 400 ''invalid_form''
       ''Slack interaction form must contain one payload field''))"

end
