(* ===== verification/Slack_Service.thy ===== *)
theory Slack_Service
  imports Slack_Interaction Protocol
begin

text \<open>
  The worker and the handler of service/slack.py. The handler: from a signed request to a decision of
  the runtime store and a task that runs after the response. The handler's calls are its steps; what other processes do to the
  runtime store before the decision is a parameter of the step.
\<close>

section \<open>The worker\<close>

text \<open>
  The worker of service/slack.py: it enqueues the pending actions of its organization and posts what
  is due. The replies of the API, the times and what other processes do between the worker's steps
  are given turn by turn.
\<close>

definition slack_worker_ok :: "string \<Rightarrow> pyfloat \<Rightarrow> slack_config \<Rightarrow> runtime_error + unit" where
  "slack_worker_ok worker lease_seconds c =
     (if blank worker then Inl (ValueError ''Slack worker_id must not be empty'')
      else if num_le lease_seconds (sc_timeout_seconds c) then
        Inl (ValueError ''Slack claim lease must be longer than the API timeout'')
      else Inr ())"

subsection \<open>Pending actions\<close>

fun enqueue_pending ::
  "(string \<Rightarrow> string) \<Rightarrow> slack_config \<Rightarrow> (string \<Rightarrow> int) \<Rightarrow> runtime_action list \<Rightarrow> int \<Rightarrow> slack_db \<Rightarrow>
   (runtime_error + int) \<times> slack_db" where
  "enqueue_pending uuid5 c enqueue_at [] sofar w = (Inr sofar, w)"
| "enqueue_pending uuid5 c enqueue_at (a # as) sofar w =
     (if \<not> slack_can_access c a then enqueue_pending uuid5 c enqueue_at as sofar w
      else case enqueue_notification uuid5 (enqueue_at (ra_action_id a)) a (sc_channel_id c) w of
        (Inl x, w') \<Rightarrow> (Inl x, w')
      | (Inr fresh, w') \<Rightarrow> enqueue_pending uuid5 c enqueue_at as (sofar + (if fresh then 1 else 0)) w')"

definition sync_pending ::
  "'s store_ops \<Rightarrow> (string \<Rightarrow> string) \<Rightarrow> slack_config \<Rightarrow> int \<Rightarrow> (string \<Rightarrow> int) \<Rightarrow> 's \<times> slack_db \<Rightarrow>
   (runtime_error + int) \<times> 's \<times> slack_db" where
  "sync_pending ops uuid5 c list_ns enqueue_at sw =
     (case st_list_actions ops list_ns (Some PENDING) (fst sw) of
        (Inl x, s) \<Rightarrow> (Inl x, s, snd sw)
      | (Inr as, s) \<Rightarrow> (case enqueue_pending uuid5 c enqueue_at as 0 (snd sw) of (r, w) \<Rightarrow> (r, s, w)))"

subsection \<open>One notification\<close>

text \<open>
  The reply as the timestamp of the posted message and its status, or as the failure that the two
  \<open>except\<close> clauses report.
\<close>

definition post_outcome :: "slack_notification \<Rightarrow> api_reply \<Rightarrow> slack_api_error + (string \<times> int)" where
  "post_outcome n reply = (case reply of
     Reply_Raised name \<Rightarrow> Inl (make_api_error name None True None)
   | Reply_Error e \<Rightarrow> Inl e
   | Reply status_code result retry_after \<Rightarrow>
       bind_res (require_slack_ok result status_code retry_after) (\<lambda>_.
       let invalid = Inl (make_api_error ''InvalidPostResponse'' (Some status_code) False None) in
       if dict_get result ''channel'' JNull \<noteq> JStr (nt_channel_id n) then invalid
       else case dict_get result ''ts'' JNull of JStr ts \<Rightarrow> Inr (ts, status_code) | _ \<Rightarrow> invalid))"

record slack_turn =
  sv_claim_ns :: int
  sv_read_ns :: int
  sv_reply :: "view \<Rightarrow> api_reply"
  sv_others :: "slack_db \<Rightarrow> slack_db"
  sv_finish_ns :: int

record slack_counts =
  sl_enqueued :: int
  sl_posted :: int
  sl_retried :: int
  sl_dead :: int

definition finish_post ::
  "slack_config \<Rightarrow> string \<Rightarrow> int \<Rightarrow> slack_notification \<Rightarrow> slack_api_error + (string \<times> int) \<Rightarrow> slack_counts \<Rightarrow>
   slack_db \<Rightarrow> (runtime_error + slack_counts) \<times> slack_db" where
  "finish_post c worker now n outcome counts w = (case outcome of
     Inr (ts, status_code) \<Rightarrow> (case mark_posted n worker ts status_code w of
         (Inl x, w') \<Rightarrow> (Inl x, w')
       | (Inr _, w') \<Rightarrow> (Inr (counts\<lparr>sl_posted := sl_posted counts + 1\<rparr>), w'))
   | Inl e \<Rightarrow> (case mark_notice_failed now n worker c (sa_status_code e) (sa_code e) (sa_retryable e)
           (sa_retry_after e) w of
         (Inl x, w') \<Rightarrow> (Inl x, w')
       | (Inr status, w') \<Rightarrow> (Inr (if status = Sn_dead then counts\<lparr>sl_dead := sl_dead counts + 1\<rparr>
           else counts\<lparr>sl_retried := sl_retried counts + 1\<rparr>), w')))"

definition obsolete_turn ::
  "string \<Rightarrow> slack_notification \<Rightarrow> string \<Rightarrow> slack_counts \<Rightarrow> slack_db \<Rightarrow>
   (runtime_error + slack_counts) \<times> slack_db" where
  "obsolete_turn worker n reason counts w = (case mark_obsolete n worker reason w of
     (Inl x, w') \<Rightarrow> (Inl x, w') | (Inr _, w') \<Rightarrow> (Inr counts, w'))"

text \<open>\<open>value.title()\<close> of the one-word texts of the statuses.\<close>

definition status_title :: "runtime_status \<Rightarrow> string" where
  "status_title s = (case status_text s of [] \<Rightarrow> [] | c # r \<Rightarrow> char_of (code c - 32) # r)"

text \<open>The body of the loop after a claim.\<close>

definition post_turn ::
  "'s store_ops \<Rightarrow> codec \<Rightarrow> slack_config \<Rightarrow> string \<Rightarrow> slack_turn \<Rightarrow> slack_notification \<Rightarrow> slack_counts \<Rightarrow>
   's \<times> slack_db \<Rightarrow> (runtime_error + slack_counts) \<times> 's \<times> slack_db" where
  "post_turn ops K c worker t n counts sw =
     (case st_get_action ops (sv_read_ns t) (nt_action_id n) (fst sw) of
        (Inl (KeyError m), s) \<Rightarrow> (case obsolete_turn worker n ''ActionMissing'' counts (snd sw) of (r, w) \<Rightarrow> (r, s, w))
      | (Inl x, s) \<Rightarrow> (Inl x, s, snd sw)
      | (Inr a, s) \<Rightarrow> (case compare_digest (ra_request_digest a) (nt_request_digest n) of
          Inl x \<Rightarrow> (Inl x, s, snd sw)
        | Inr same \<Rightarrow>
            if \<not> same then (case obsolete_turn worker n ''BindingChanged'' counts (snd sw) of (r, w) \<Rightarrow> (r, s, w))
            else if ra_status a \<noteq> PENDING then
              (case obsolete_turn worker n (''Status'' @ status_title (ra_status a)) counts (snd sw) of
                 (r, w) \<Rightarrow> (r, s, w))
            else case build_slack_notification K a (nt_channel_id n) (nt_client_message_id n) of
              Inl x \<Rightarrow> (Inl x, s, snd sw)
            | Inr payload \<Rightarrow>
                (case finish_post c worker (sv_finish_ns t) n (post_outcome n (sv_reply t payload)) counts
                   (sv_others t (snd sw)) of (r, w) \<Rightarrow> (r, s, w))))"

text \<open>The loop, over the turns the environment gives; \<open>None\<close> when they end before the queue does.\<close>

fun post_all ::
  "'s store_ops \<Rightarrow> codec \<Rightarrow> slack_config \<Rightarrow> int \<Rightarrow> string \<Rightarrow> slack_turn list \<Rightarrow> slack_counts \<Rightarrow> 's \<times> slack_db \<Rightarrow>
   ((runtime_error + slack_counts) \<times> 's \<times> slack_db) option" where
  "post_all ops K c lease worker [] counts sw = None"
| "post_all ops K c lease worker (t # ts) counts sw =
     (case claim_notification lease (sv_claim_ns t) worker (snd sw) of
        (Inl x, w) \<Rightarrow> Some (Inl x, fst sw, w)
      | (Inr None, w) \<Rightarrow> Some (Inr counts, fst sw, w)
      | (Inr (Some n), w) \<Rightarrow> (case post_turn ops K c worker t n counts (fst sw, w) of
          (Inl x, sw') \<Rightarrow> Some (Inl x, sw')
        | (Inr counts', sw') \<Rightarrow> post_all ops K c lease worker ts counts' sw'))"

definition slack_run_once ::
  "'s store_ops \<Rightarrow> codec \<Rightarrow> (string \<Rightarrow> string) \<Rightarrow> slack_config \<Rightarrow> int \<Rightarrow> string \<Rightarrow> int \<Rightarrow> (string \<Rightarrow> int) \<Rightarrow>
   slack_turn list \<Rightarrow> 's \<times> slack_db \<Rightarrow> ((runtime_error + slack_counts) \<times> 's \<times> slack_db) option" where
  "slack_run_once ops K uuid5 c lease worker list_ns enqueue_at turns sw =
     (case sync_pending ops uuid5 c list_ns enqueue_at sw of
        (Inl x, sw') \<Rightarrow> Some (Inl x, sw')
      | (Inr n, sw') \<Rightarrow> post_all ops K c lease worker turns
          \<lparr>sl_enqueued = n, sl_posted = 0, sl_retried = 0, sl_dead = 0\<rparr> sw')"

text \<open>The check of \<open>run_forever\<close>, before its endless runs with their pauses.\<close>

definition slack_poll_ok :: "pyfloat \<Rightarrow> runtime_error + unit" where
  "slack_poll_ok seconds = (if \<not> is_finite seconds \<or> num_le seconds (of_int_num 0)
     then Inl (ValueError ''Slack poll interval must be finite and greater than zero'') else Inr ())"

section \<open>Handled requests\<close>

text \<open>The checks of the service's constructor.\<close>

definition slack_service_ok :: "string \<Rightarrow> pyfloat \<Rightarrow> runtime_error + unit" where
  "slack_service_ok path poll_seconds =
     (if \<not> starts_with path ''/'' \<or> CHR ''?'' \<in> set path \<or> CHR ''#'' \<in> set path then
        Inl (ValueError ''Slack interaction path must be absolute without query or fragment'')
      else slack_poll_ok poll_seconds)"

datatype slack_task =
    No_Task
  | Update_Message parsed_interaction runtime_action
  | Post_Ephemeral parsed_interaction string

text \<open>The method and the payload of the call a task makes; its reply, or exception, is ignored.\<close>

definition task_call :: "slack_task \<Rightarrow> (string \<times> (string \<times> view) list) option" where
  "task_call t = (case t of
     No_Task \<Rightarrow> None
   | Update_Message p a \<Rightarrow> Some (''chat.update'', build_slack_decision_update a @
       [(''channel'', VText (points (px_channel_id p))), (''ts'', VText (points (px_message_ts p)))])
   | Post_Ephemeral p t \<Rightarrow> Some (''chat.postEphemeral'', [(''channel'', VText (points (px_channel_id p))),
       (''user'', VText (points (px_user_id p))), (''text'', VText (points t))]))"

text \<open>The readings of the clocks, and the other processes.\<close>

record 's handling =
  hd_now :: pyfloat
  hd_read_ns :: int
  hd_others :: "'s \<Rightarrow> 's"
  hd_decide_ns :: int
  hd_reread_ns :: int
  hd_store_ns :: int

definition unauthorized_message :: string where
  "unauthorized_message = ''You are not authorized to make this AgentBarrier decision.''"

definition record_parsed ::
  "int \<Rightarrow> parsed_interaction \<Rightarrow> string \<Rightarrow> slack_task \<Rightarrow> slack_db \<Rightarrow> (slack_failure + slack_task) \<times> slack_db" where
  "record_parsed now p outcome task w =
     (case record_interaction now (px_signature_digest p) (px_action_id p) (px_request_digest p) (px_user_id p)
         (px_decision p) outcome w of
        (Inl e, w') \<Rightarrow> (Inl (Slack_Uncaught e), w') | (Inr _, w') \<Rightarrow> (Inr task, w'))"

definition unauthorized_interaction ::
  "int \<Rightarrow> parsed_interaction \<Rightarrow> slack_db \<Rightarrow> (slack_failure + slack_task) \<times> slack_db" where
  "unauthorized_interaction now p w =
     record_parsed now p ''unauthorized'' (Post_Ephemeral p unauthorized_message) w"

definition slack_actor :: "slack_config \<Rightarrow> parsed_interaction \<Rightarrow> slack_reviewer \<Rightarrow> string" where
  "slack_actor c p r = ''slack:'' @ sc_workspace_id c @ '':'' @ px_user_id p @ '':'' @ sr_subject r"

definition slack_reason :: string where
  "slack_reason = ''Slack interactive decision''"

text \<open>The decision itself, unconstrained or under the organization of the configuration.\<close>

definition slack_decide ::
  "'s store_ops \<Rightarrow> int \<Rightarrow> slack_config \<Rightarrow> parsed_interaction \<Rightarrow> slack_reviewer \<Rightarrow> 's \<Rightarrow>
   (runtime_error + runtime_action) \<times> 's" where
  "slack_decide ops now c p r s =
     (case sc_organization_id c of
        None \<Rightarrow> st_decide ops now (px_action_id p) (px_decision p) (slack_actor c p r) (Some slack_reason) s
      | Some org \<Rightarrow>
          (case make_authorization (slack_actor c p r) org (sc_namespaces c) (sr_decisions r)
              (sc_require_separate_approver c) (Some (sr_subject r)) of
             Inl e \<Rightarrow> (Inl e, s)
           | Inr auth \<Rightarrow>
               st_decide_authorized ops now (px_action_id p) (px_decision p) auth (Some slack_reason) s))"

definition decided_by_or :: "string \<Rightarrow> runtime_action \<Rightarrow> string" where
  "decided_by_or d a = (case ra_decided_by a of None \<Rightarrow> d | Some u \<Rightarrow> if u = [] then d else u)"

definition mark_and_record ::
  "int \<Rightarrow> parsed_interaction \<Rightarrow> runtime_action \<Rightarrow> string \<Rightarrow> decision \<Rightarrow> string \<Rightarrow> slack_db \<Rightarrow>
   (slack_failure + slack_task) \<times> slack_db" where
  "mark_and_record now p a decided_by d outcome w =
     (case mark_decided now (ra_action_id a) (ra_request_digest a) decided_by d w of
        (Inl e, w') \<Rightarrow> (Inl (Slack_Uncaught e), w')
      | (Inr _, w') \<Rightarrow> record_parsed now p outcome (Update_Message p a) w')"

text \<open>The action was decided or closed before: the message is brought up to date.\<close>

definition stale_interaction ::
  "int \<Rightarrow> parsed_interaction \<Rightarrow> runtime_action \<Rightarrow> slack_db \<Rightarrow> (slack_failure + slack_task) \<times> slack_db" where
  "stale_interaction now p current w =
     (let outcome = ''stale_'' @ status_text (ra_status current) in
      if ra_status current \<in> {APPROVED, REJECTED} then
        mark_and_record now p current (decided_by_or ''runtime:unknown'' current)
          (if ra_status current = APPROVED then APPROVE else REJECT) outcome w
      else record_parsed now p outcome (Update_Message p current) w)"

definition decided_interaction ::
  "int \<Rightarrow> slack_config \<Rightarrow> parsed_interaction \<Rightarrow> slack_reviewer \<Rightarrow> runtime_action \<Rightarrow> slack_db \<Rightarrow>
   (slack_failure + slack_task) \<times> slack_db" where
  "decided_interaction now c p r a w =
     mark_and_record now p a (decided_by_or (slack_actor c p r) a)
       (if ra_status a = APPROVED then APPROVE else REJECT) (status_text (ra_status a)) w"

text \<open>After the checks: the decision and its \<open>except\<close> clauses, in their order.\<close>

definition decide_interaction ::
  "'s store_ops \<Rightarrow> 's handling \<Rightarrow> slack_config \<Rightarrow> parsed_interaction \<Rightarrow> slack_reviewer \<Rightarrow> 's \<times> slack_db \<Rightarrow>
   (slack_failure + slack_task) \<times> 's \<times> slack_db" where
  "decide_interaction ops h c p r sw =
     (let with_store = (\<lambda>s (x, w). (x, s, w)); now = hd_store_ns h; w = snd sw in
      case slack_decide ops (hd_decide_ns h) c p r (fst sw) of
        (Inr a, s) \<Rightarrow> with_store s (decided_interaction now c p r a w)
      | (Inl (ApprovalAuthorizationError _), s) \<Rightarrow> with_store s (unauthorized_interaction now p w)
      | (Inl (InvalidActionState _ _), s) \<Rightarrow>
          (case st_get_action ops (hd_reread_ns h) (px_action_id p) s of
             (Inl e, s') \<Rightarrow> (Inl (Slack_Uncaught e), s', w)
           | (Inr current, s') \<Rightarrow> with_store s' (stale_interaction now p current w))
      | (Inl e, s) \<Rightarrow> (case error_action e of
          None \<Rightarrow> (Inl (Slack_Uncaught e), s, w)
        | Some current \<Rightarrow> with_store s (stale_interaction now p current w)))"

text \<open>The checks between the parsed request and the decision.\<close>

definition check_interaction ::
  "'s store_ops \<Rightarrow> 's handling \<Rightarrow> slack_config \<Rightarrow> parsed_interaction \<Rightarrow> 's \<times> slack_db \<Rightarrow>
   (slack_failure + slack_task) \<times> 's \<times> slack_db" where
  "check_interaction ops h c p sw =
     (let s = fst sw; w = snd sw; refuse = (\<lambda>s. case unauthorized_interaction (hd_store_ns h) p w of (x, w') \<Rightarrow> (x, s, w'))
      in if interaction_outcome (px_signature_digest p) w \<noteq> None then (Inr No_Task, s, w)
      else case require_message_binding (px_action_id p) (px_request_digest p) (px_channel_id p)
          (px_message_ts p) w of
        Inl e \<Rightarrow> (Inl (case e of
            KeyError _ \<Rightarrow> Slack_Rejected 409 ''notification_binding_failed''
              ''the Slack message is not bound to this approval''
          | ValueError _ \<Rightarrow> Slack_Rejected 409 ''notification_binding_failed''
              ''the Slack message is not bound to this approval''
          | _ \<Rightarrow> Slack_Uncaught e), s, w)
      | Inr _ \<Rightarrow> (case slack_reviewer_of c (px_user_id p) of
          None \<Rightarrow> refuse s
        | Some r \<Rightarrow>
            if px_decision p \<notin> set (sr_decisions r) then refuse s
            else case st_get_action ops (hd_read_ns h) (px_action_id p) s of
              (Inl (KeyError _), s1) \<Rightarrow>
                (Inl (Slack_Rejected 409 ''action_missing'' ''the runtime action no longer exists''), s1, w)
            | (Inl e, s1) \<Rightarrow> (Inl (Slack_Uncaught e), s1, w)
            | (Inr a, s1) \<Rightarrow> (case compare_digest (ra_request_digest a) (px_request_digest p) of
                Inl e \<Rightarrow> (Inl (Slack_Uncaught e), s1, w)
              | Inr same \<Rightarrow>
                  if \<not> same then (Inl (Slack_Rejected 409 ''binding_changed'' ''the action binding changed''), s1, w)
                  else if \<not> slack_can_access c a then refuse s1
                  else decide_interaction ops h c p r (hd_others h s1, w))))"

definition slack_handle ::
  "'s store_ops \<Rightarrow> (string \<Rightarrow> string \<Rightarrow> string) \<Rightarrow> codec \<Rightarrow> slack_config \<Rightarrow> 's handling \<Rightarrow> slack_request \<Rightarrow>
   's \<times> slack_db \<Rightarrow> (slack_failure + slack_task) \<times> 's \<times> slack_db" where
  "slack_handle ops hmac K c h rq sw =
     (case bind_res (read_slack_body rq) (parse_interaction hmac K c (hd_now h) rq) of
        Inl f \<Rightarrow> (Inl f, sw)
      | Inr p \<Rightarrow> check_interaction ops h c p sw)"

end
