(* ===== verification/Slack_Facts.thy ===== *)
theory Slack_Facts
  imports Slack_Store Lease_Queue
begin

text \<open>
  The notification store as a transition system: its invariant, what no step can undo, and the second
  interpretation of the lease queue.
\<close>

section \<open>Rows\<close>

definition notice_fit :: "notification_row \<Rightarrow> bool" where
  "notice_fit q \<longleftrightarrow> (sn_status q = Sn_posting \<longleftrightarrow> sn_claimed_by q \<noteq> None) \<and>
     (sn_claimed_by q = None \<longleftrightarrow> sn_lease_expires_at_ns q = None) \<and>
     (sn_status q \<in> {Sn_posted, Sn_decided} \<longleftrightarrow> sn_message_ts q \<noteq> None) \<and> 0 \<le> sn_attempts q"

definition slack_ok :: "slack_db \<Rightarrow> bool" where
  "slack_ok w \<longleftrightarrow> distinct (map sn_action_id (sd_notifications w)) \<and>
     distinct (map sn_client_message_id (sd_notifications w)) \<and>
     (\<forall>q \<in> set (sd_notifications w). notice_fit q) \<and>
     distinct (map si_signature_digest (sd_interactions w))"

text \<open>What binds a notification to its action; no operation changes it.\<close>

definition bound_to :: "notification_row \<Rightarrow> string \<times> string \<times> string \<times> string" where
  "bound_to q = (sn_action_id q, sn_request_digest q, sn_channel_id q, sn_client_message_id q)"

lemma bound_toD:
  assumes "bound_to q = bound_to r"
  shows "sn_action_id q = sn_action_id r" "sn_request_digest q = sn_request_digest r"
    "sn_channel_id q = sn_channel_id r" "sn_client_message_id q = sn_client_message_id r"
  using assms by (simp_all add: bound_to_def)

lemmas notice_update_defs = release_notice_def claim_notice_def posted_notice_def failed_notice_def
  obsolete_notice_def decided_notice_def revived_notice_def

lemma bound_updates [simp]:
  "bound_to (release_notice now q) = bound_to q" "bound_to (claim_notice lease now v q) = bound_to q"
  "bound_to (posted_notice ts c q) = bound_to q" "bound_to (failed_notice st n sc e q) = bound_to q"
  "bound_to (obsolete_notice t q) = bound_to q" "bound_to (decided_notice now u d q) = bound_to q"
  "bound_to (revived_notice now q) = bound_to q"
  by (simp_all add: bound_to_def notice_update_defs)

lemma notice_key_updates [simp]:
  "sn_action_id (release_notice now q) = sn_action_id q" "sn_action_id (claim_notice lease now v q) = sn_action_id q"
  using bound_updates [THEN bound_toD(1)] by auto

lemma notice_fit_updates:
  "notice_fit q \<Longrightarrow> notice_fit (release_notice now q)"
  "notice_fit q \<Longrightarrow> sn_message_ts q = None \<Longrightarrow> notice_fit (claim_notice lease now v q)"
  "notice_fit q \<Longrightarrow> notice_fit (posted_notice ts c q)"
  "notice_fit q \<Longrightarrow> sn_message_ts q = None \<Longrightarrow> st \<in> {Sn_dead, Sn_pending} \<Longrightarrow> notice_fit (failed_notice st n sc e q)"
  "notice_fit q \<Longrightarrow> sn_message_ts q = None \<Longrightarrow> notice_fit (obsolete_notice t q)"
  "notice_fit q \<Longrightarrow> sn_status q \<in> {Sn_posted, Sn_decided} \<Longrightarrow> notice_fit (decided_notice now u d q)"
  "notice_fit q \<Longrightarrow> sn_message_ts q = None \<Longrightarrow> notice_fit (revived_notice now q)"
  "notice_fit (new_notification uuid5 now a ch)"
  by (auto simp: notice_fit_def notice_update_defs notice_lapsed_def new_notification_def)

lemma find_notice_fit: "slack_ok w \<Longrightarrow> find_notification i w = Some q \<Longrightarrow> notice_fit q \<and> sn_action_id q = i"
  by (auto simp: slack_ok_def find_notification_def dest: find_row_SomeD)

text \<open>An update of every notification that keeps its binding.\<close>

lemma slack_ok_map:
  assumes ok: "slack_ok w" and rows: "sd_notifications w' = map f (sd_notifications w)"
    "sd_interactions w' = sd_interactions w"
    and bound: "\<And>q. bound_to (f q) = bound_to q"
    and fit: "\<And>q. q \<in> set (sd_notifications w) \<Longrightarrow> notice_fit q \<Longrightarrow> notice_fit (f q)"
  shows "slack_ok w'" "find_notification i w' = map_option f (find_notification i w)"
proof -
  have keys: "map sn_action_id (sd_notifications w') = map sn_action_id (sd_notifications w)"
    "map sn_client_message_id (sd_notifications w') = map sn_client_message_id (sd_notifications w)"
    using bound_toD(1,4) [OF bound] by (simp_all add: rows(1))
  show "slack_ok w'" unfolding slack_ok_def keys rows(2) using ok fit by (auto simp: slack_ok_def rows(1))
  have "find_row sn_action_id i (map f rs) = map_option f (find_row sn_action_id i rs)" for rs
    using bound_toD(1) [OF bound] by (induction rs) auto
  then show "find_notification i w' = map_option f (find_notification i w)"
    by (simp add: find_notification_def rows(1))
qed

lemma update_notification_simps: "sd_notifications (update_notification k f w) =
    map (\<lambda>q. if sn_action_id q = k then f q else q) (sd_notifications w)"
  "sd_interactions (update_notification k f w) = sd_interactions w"
  by (simp_all add: update_notification_def update_row_def)

lemma update_notification_ok:
  assumes "slack_ok w" "\<And>q. bound_to (f q) = bound_to q"
    "\<And>q. find_notification k w = Some q \<Longrightarrow> notice_fit q \<Longrightarrow> notice_fit (f q)"
  shows "slack_ok (update_notification k f w)"
    "find_notification i (update_notification k f w) = map_option (\<lambda>q. if i = k then f q else q) (find_notification i w)"
proof -
  have found: "find_notification k w = Some q" if "q \<in> set (sd_notifications w)" "sn_action_id q = k" for q
    using assms(1) that find_row_unique [of sn_action_id] by (auto simp: slack_ok_def find_notification_def)
  show "slack_ok (update_notification k f w)"
    by (rule slack_ok_map(1) [OF assms(1) update_notification_simps]) (use assms found in auto)
  have "find_notification i (update_notification k f w) =
      map_option (\<lambda>q. if sn_action_id q = k then f q else q) (find_notification i w)"
    by (rule slack_ok_map(2) [OF assms(1) update_notification_simps]) (use assms found in auto)
  also have "\<dots> = map_option (\<lambda>q. if i = k then f q else q) (find_notification i w)"
    by (cases "find_notification i w") (auto simp: find_notification_def dest: find_row_SomeD)
  finally show "find_notification i (update_notification k f w) =
      map_option (\<lambda>q. if i = k then f q else q) (find_notification i w)" .
qed

section \<open>Steps\<close>

text \<open>
  The decision of a handled request is marked on a notification that was posted; the handler checks
  this before, and a posted notification stays posted.
\<close>

inductive slack_step :: "(string \<Rightarrow> string) \<Rightarrow> int \<Rightarrow> int \<Rightarrow> string \<Rightarrow> slack_db \<Rightarrow> slack_db \<Rightarrow> bool"
  for uuid5 :: "string \<Rightarrow> string" and lease :: int and now :: int and v :: string where
  sl_enqueue: "enqueue_notification uuid5 now a ch w = (r, w') \<Longrightarrow> slack_step uuid5 lease now v w w'"
| sl_claim: "claim_notification lease now v w = (r, w') \<Longrightarrow> slack_step uuid5 lease now v w w'"
| sl_post: "mark_posted n v ts c w = (r, w') \<Longrightarrow> slack_step uuid5 lease now v w w'"
| sl_fail: "mark_notice_failed now n v cf sc e rt ra w = (r, w') \<Longrightarrow> slack_step uuid5 lease now v w w'"
| sl_obsolete: "mark_obsolete n v reason w = (r, w') \<Longrightarrow> slack_step uuid5 lease now v w w'"
| sl_record: "record_interaction now sg i digest user d outcome w = (r, w') \<Longrightarrow> slack_step uuid5 lease now v w w'"
| sl_decide: "find_notification i w = Some q \<Longrightarrow> sn_status q \<in> {Sn_posted, Sn_decided} \<Longrightarrow>
    mark_decided now i digest u d w = (r, w') \<Longrightarrow> slack_step uuid5 lease now v w w'"
| sl_retry: "retry_dead_notification now i w = (r, w') \<Longrightarrow> slack_step uuid5 lease now v w w'"

text \<open>What a step of a worker may do to a notification.\<close>

definition notice_evolves :: "int \<Rightarrow> string \<Rightarrow> notification_row \<Rightarrow> notification_row \<Rightarrow> bool" where
  "notice_evolves now v q q' \<longleftrightarrow> bound_to q' = bound_to q \<and>
     (sn_message_ts q \<noteq> None \<longrightarrow> sn_message_ts q' = sn_message_ts q \<and> sn_status q' \<in> {Sn_posted, Sn_decided}) \<and>
     (\<forall>u t. sn_claimed_by q = Some u \<and> sn_lease_expires_at_ns q = Some t \<and> now < t \<and> u \<noteq> v \<longrightarrow> q' = q)"

lemma notice_evolves_refl: "notice_fit q \<Longrightarrow> notice_evolves now v q q"
  by (auto simp: notice_evolves_def notice_fit_def)

lemma notice_evolves_release: "notice_fit q \<Longrightarrow> notice_evolves now v q (release_notice now q)"
  by (auto simp: notice_evolves_def release_notice_def notice_lapsed_def bound_to_def notice_fit_def split: option.splits)

lemma evolves_unclaimed:
  assumes "notice_fit q" "sn_claimed_by q = None \<or> sn_claimed_by q = Some v" "sn_message_ts q = None"
    "bound_to q' = bound_to q"
  shows "notice_evolves now v q q'"
  using assms by (auto simp: notice_evolves_def)

lemma evolves_decided: "notice_fit q \<Longrightarrow> sn_status q \<in> {Sn_posted, Sn_decided} \<Longrightarrow>
    notice_evolves now v q (decided_notice now u d q)"
  by (auto simp: notice_evolves_def notice_fit_def decided_notice_def bound_to_def)

lemma evolves_claimed:
  "notice_fit q \<Longrightarrow> sn_status q = Sn_pending \<or> notice_lapsed now q \<Longrightarrow>
    notice_evolves now v q (claim_notice lease now v (release_notice now q))"
  by (auto simp: notice_evolves_def notice_fit_def notice_lapsed_def split: option.splits)

section \<open>The operations\<close>

definition released_notices :: "int \<Rightarrow> slack_db \<Rightarrow> slack_db" where
  "released_notices now w = w\<lparr>sd_notifications := map (release_notice now) (sd_notifications w)\<rparr>"

lemma released_notices_ok:
  assumes "slack_ok w"
  shows "slack_ok (released_notices now w)"
    "find_notification i (released_notices now w) = map_option (release_notice now) (find_notification i w)"
  using slack_ok_map [OF assms, of "released_notices now w" "release_notice now"] notice_fit_updates(1)
  by (auto simp: released_notices_def)

lemma claim_notification_cases:
  assumes "claim_notification lease now v w = (r, w')"
  shows "w' = w \<and> (\<exists>e. r = Inl e) \<or> r = Inr None \<and> w' = released_notices now w \<or>
    (\<exists>q \<in> set (sd_notifications w). (sn_status q = Sn_pending \<or> notice_lapsed now q) \<and>
      r = Inr (Some (notice_of (claim_notice lease now v (release_notice now q)))) \<and>
      w' = update_notification (sn_action_id q) (claim_notice lease now v) (released_notices now w))"
proof (cases "blank v")
  case True
  then show ?thesis using assms by (auto simp: claim_notification_def)
next
  case False
  note claim = assms [unfolded claim_notification_def Let_def, folded released_notices_def]
  show ?thesis
  proof (cases "due_notices now (sd_notifications (released_notices now w))")
    case Nil
    then show ?thesis using claim False by simp
  next
    case (Cons q qs)
    then have "q \<in> set (due_notices now (sd_notifications (released_notices now w)))" by simp
    then obtain q0 where "q0 \<in> set (sd_notifications w)" "q = release_notice now q0" "sn_status q = Sn_pending"
      by (auto simp: due_notices_def released_notices_def)
    moreover from this(2,3) have "sn_status q0 = Sn_pending \<or> notice_lapsed now q0"
      by (auto simp: release_notice_def split: if_splits)
    ultimately show ?thesis using claim False Cons by auto
  qed
qed

text \<open>The state after a claim that returned a notification.\<close>

lemma claim_notification_some:
  assumes ok: "slack_ok w" and res: "claim_notification lease now v w = (Inr (Some n), w')"
  shows "\<exists>q. find_notification (nt_action_id n) w = Some q \<and> (sn_status q = Sn_pending \<or> notice_lapsed now q) \<and>
    n = notice_of (claim_notice lease now v (release_notice now q)) \<and> slack_ok w' \<and>
    (\<forall>j. find_notification j w' = map_option (\<lambda>q. if j = nt_action_id n then claim_notice lease now v (release_notice now q)
      else release_notice now q) (find_notification j w))"
proof -
  obtain q where q: "q \<in> set (sd_notifications w)" "sn_status q = Sn_pending \<or> notice_lapsed now q"
    "n = notice_of (claim_notice lease now v (release_notice now q))"
    "w' = update_notification (sn_action_id q) (claim_notice lease now v) (released_notices now w)"
    using claim_notification_cases [OF res] by blast
  have id: "nt_action_id n = sn_action_id q" using q(3) by (simp add: notice_of_def)
  have found: "find_notification (sn_action_id q) w = Some q"
    using ok q(1) find_row_unique [of sn_action_id] by (auto simp: slack_ok_def find_notification_def)
  then have fit: "notice_fit q" using find_notice_fit [OF ok] by blast
  note rel = released_notices_ok [OF ok, where now = now]
  have ts: "sn_message_ts (release_notice now q) = None"
    using q(2) fit by (auto simp: notice_fit_def notice_lapsed_def release_notice_def)
  note upd = update_notification_ok [OF rel(1), where f = "claim_notice lease now v" and k = "sn_action_id q"]
  have "slack_ok w'" unfolding q(4)
    by (rule upd(1)) (use rel(2) found ts notice_fit_updates(2) in auto)
  moreover have "find_notification j w' = map_option (\<lambda>q. if j = nt_action_id n then claim_notice lease now v (release_notice now q)
      else release_notice now q) (find_notification j w)" for j
  proof -
    have "find_notification j w' = map_option (\<lambda>r. if j = sn_action_id q then claim_notice lease now v r else r)
        (find_notification j (released_notices now w))"
      unfolding q(4) by (rule upd(2)) (use rel(2) found ts notice_fit_updates(2) in auto)
    then show ?thesis using rel(2) id by (auto simp: option.map_comp comp_def)
  qed
  ultimately show ?thesis using found q(2,3) id by auto
qed

lemma owned_notification_iff: "owned_notification i v w = Inr () \<longleftrightarrow> (\<exists>q. find_notification i w = Some q \<and>
    sn_status q = Sn_posting \<and> sn_claimed_by q = Some v)"
  by (auto simp: owned_notification_def split: option.splits)

lemma transaction_owned_notice:
  "transaction (bind_res (owned_notification i v w) (\<lambda>_. Inr (x, w1))) w =
    (case owned_notification i v w of Inl e \<Rightarrow> (Inl e, w) | Inr _ \<Rightarrow> (Inr x, w1))"
  by (cases "owned_notification i v w") simp_all

lemma mark_posted_cases:
  assumes "mark_posted n v ts c w = (r, w')"
  shows "w' = w \<and> (\<exists>e. r = Inl e) \<or> r = Inr () \<and> message_ts_ok ts \<and> owned_notification (nt_action_id n) v w = Inr () \<and>
    w' = update_notification (nt_action_id n) (posted_notice ts c) w"
  using assms unfolding mark_posted_def transaction_owned_notice
  by (cases "owned_notification (nt_action_id n) v w") (auto dest: sym split: if_splits)

lemma mark_notice_failed_cases:
  assumes "mark_notice_failed now n v cf sc e rt ra w = (r, w')"
  shows "w' = w \<and> (\<exists>x. r = Inl x) \<or> (\<exists>st na. r = Inr st \<and> st \<in> {Sn_dead, Sn_pending} \<and>
    owned_notification (nt_action_id n) v w = Inr () \<and>
    w' = update_notification (nt_action_id n) (failed_notice st na sc e) w)"
  using assms unfolding mark_notice_failed_def Let_def transaction_owned_notice
  by (cases "owned_notification (nt_action_id n) v w") (auto split: if_splits sum.splits)

lemma mark_obsolete_cases:
  assumes "mark_obsolete n v reason w = (r, w')"
  shows "w' = w \<and> (\<exists>x. r = Inl x) \<or> r = Inr () \<and> owned_notification (nt_action_id n) v w = Inr () \<and>
    w' = update_notification (nt_action_id n) (obsolete_notice reason) w"
  using assms unfolding mark_obsolete_def transaction_owned_notice
  by (cases "owned_notification (nt_action_id n) v w") (auto dest: sym split: if_splits)

lemma mark_decided_cases:
  assumes "mark_decided now i digest u d w = (r, w')"
  shows "w' = w \<and> (\<exists>x. r = Inl x) \<or> r = Inr () \<and> (\<exists>q. find_notification i w = Some q \<and> sn_request_digest q = digest) \<and>
    w' = update_notification i (decided_notice now u d) w"
  using assms unfolding mark_decided_def compare_digest_def
  by (cases "find_notification i w") (auto split: if_splits)

lemma retry_dead_notification_cases:
  assumes "retry_dead_notification now i w = (r, w')"
  shows "w' = w \<or> (\<exists>q. find_notification i w = Some q \<and> sn_status q = Sn_dead \<and>
    w' = update_notification i (revived_notice now) w)"
  using assms unfolding retry_dead_notification_def Let_def
  by (cases "find_notification i w") (auto split: if_splits option.splits)

lemma record_interaction_cases:
  assumes "record_interaction now sg i digest user d outcome w = (r, w')"
  shows "sd_notifications w' = sd_notifications w \<and>
    (slack_ok w \<longrightarrow> slack_ok w') \<and> ((\<exists>e. r = Inl e) \<and> w' = w \<or> r = Inr () \<and> interaction_outcome sg w' \<noteq> None) \<and>
    (\<forall>s t. interaction_outcome s w = Some t \<longrightarrow> interaction_outcome s w' = Some t)"
proof (cases "blank outcome \<or> 64 < length outcome \<or> interaction_outcome sg w \<noteq> None")
  case True
  then have "w' = w" "(\<exists>e. r = Inl e) \<or> r = Inr () \<and> interaction_outcome sg w \<noteq> None"
    using assms unfolding record_interaction_def by (auto split: if_splits)
  then show ?thesis by auto
next
  case False
  then have w': "r = Inr ()" "sd_notifications w' = sd_notifications w"
    "sd_interactions w' = sd_interactions w @ [\<lparr>si_signature_digest = sg, si_action_id = i,
       si_request_digest = digest, si_user_id = user, si_decision = d, si_outcome = outcome, si_processed_at_ns = now\<rparr>]"
    and fresh: "find_row si_signature_digest sg (sd_interactions w) = None"
    using assms by (auto simp: record_interaction_def interaction_outcome_def)
  then have "sg \<notin> si_signature_digest ` set (sd_interactions w)" by (simp add: find_row_None_iff)
  with w' fresh show ?thesis
    by (auto simp: slack_ok_def interaction_outcome_def find_row_append)
qed

lemma enqueue_notification_cases:
  assumes "enqueue_notification uuid5 now a ch w = (r, w')"
  shows "w' = w \<or> r = Inr True \<and> find_notification (ra_action_id a) w = None \<and>
    client_message_id uuid5 a \<notin> sn_client_message_id ` set (sd_notifications w) \<and>
    w' = w\<lparr>sd_notifications := sd_notifications w @ [new_notification uuid5 now a ch]\<rparr>"
  using assms unfolding enqueue_notification_def
  by (cases "find_notification (ra_action_id a) w") (auto split: if_splits)

lemma enqueue_notification_ok:
  assumes ok: "slack_ok w" and res: "enqueue_notification uuid5 now a ch w = (r, w')"
  shows "slack_ok w' \<and> (\<forall>i q. find_notification i w = Some q \<longrightarrow> find_notification i w' = Some q)"
  using enqueue_notification_cases [OF res]
proof
  assume new: "r = Inr True \<and> find_notification (ra_action_id a) w = None \<and>
    client_message_id uuid5 a \<notin> sn_client_message_id ` set (sd_notifications w) \<and>
    w' = w\<lparr>sd_notifications := sd_notifications w @ [new_notification uuid5 now a ch]\<rparr>"
  have key: "sn_action_id (new_notification uuid5 now a ch) = ra_action_id a"
    "sn_client_message_id (new_notification uuid5 now a ch) = client_message_id uuid5 a"
    by (simp_all add: new_notification_def)
  show ?thesis using new ok notice_fit_updates(8)
    by (auto simp: slack_ok_def key find_notification_def find_row_None_iff find_row_append)
qed (use ok in simp)

section \<open>Steps keep the invariant\<close>

lemma update_notice_evolves:
  assumes ok: "slack_ok w" and f: "\<And>q. bound_to (f q) = bound_to q"
    and one: "\<And>q. find_notification k w = Some q \<Longrightarrow> notice_fit q \<Longrightarrow> notice_fit (f q) \<and> notice_evolves now v q (f q)"
  shows "slack_ok (update_notification k f w) \<and> (\<forall>i q. find_notification i w = Some q \<longrightarrow>
    (\<exists>q'. find_notification i (update_notification k f w) = Some q' \<and> notice_evolves now v q q'))"
proof -
  note upd = update_notification_ok [OF ok f, of k]
  have "slack_ok (update_notification k f w)" by (rule upd(1)) (use one in blast)
  moreover have "\<exists>q'. find_notification i (update_notification k f w) = Some q' \<and> notice_evolves now v q q'"
    if q: "find_notification i w = Some q" for i q
  proof -
    have fit: "notice_fit q" using find_notice_fit [OF ok q] by blast
    have "find_notification i (update_notification k f w) = map_option (\<lambda>q. if i = k then f q else q) (find_notification i w)"
      by (rule upd(2)) (use one in blast)
    then show ?thesis using q one [of q] fit notice_evolves_refl [OF fit] by auto
  qed
  ultimately show ?thesis by blast
qed

lemma owned_evolves:
  assumes ok: "slack_ok w" and own: "owned_notification k v w = Inr ()" and f: "\<And>q. bound_to (f q) = bound_to q"
    and fit: "\<And>q. notice_fit q \<Longrightarrow> sn_message_ts q = None \<Longrightarrow> notice_fit (f q)"
  shows "slack_ok (update_notification k f w) \<and> (\<forall>i q. find_notification i w = Some q \<longrightarrow>
    (\<exists>q'. find_notification i (update_notification k f w) = Some q' \<and> notice_evolves now v q q'))"
proof (rule update_notice_evolves [OF ok f])
  fix q assume q: "find_notification k w = Some q" "notice_fit q"
  then have "sn_claimed_by q = Some v" "sn_message_ts q = None"
    using own by (auto simp: owned_notification_iff notice_fit_def)
  with q fit f show "notice_fit (f q) \<and> notice_evolves now v q (f q)" by (auto intro: evolves_unclaimed)
qed

lemma slack_step_evolves:
  assumes "slack_step uuid5 lease now v w w'" "slack_ok w"
  shows "slack_ok w' \<and> (\<forall>i q. find_notification i w = Some q \<longrightarrow>
    (\<exists>q'. find_notification i w' = Some q' \<and> notice_evolves now v q q'))"
proof -
  have same: "slack_ok w \<and> (\<forall>i q. find_notification i w = Some q \<longrightarrow>
      (\<exists>q'. find_notification i w = Some q' \<and> notice_evolves now v q q'))"
    using assms(2) find_notice_fit notice_evolves_refl by blast
  from assms(1) show ?thesis
  proof cases
    case (sl_enqueue a ch r)
    then show ?thesis using enqueue_notification_ok [OF assms(2)] same by fastforce
  next
    case (sl_claim r)
    have rel: "\<exists>q'. find_notification i (released_notices now w) = Some q' \<and> notice_evolves now v q q'"
      if "find_notification i w = Some q" for i q
      using released_notices_ok(2) [OF assms(2)] that notice_evolves_release find_notice_fit [OF assms(2) that] by simp
    show ?thesis
    proof (cases "\<exists>n. r = Inr (Some n)")
      case True
      then obtain n where "r = Inr (Some n)" by blast
      note some = claim_notification_some [OF assms(2) sl_claim [unfolded this]]
      have "\<exists>q'. find_notification i w' = Some q' \<and> notice_evolves now v q q'" if q: "find_notification i w = Some q" for i q
        using some q evolves_claimed notice_evolves_release find_notice_fit [OF assms(2) q]
        by (cases "i = nt_action_id n") auto
      with some show ?thesis by blast
    next
      case False
      then have "w' = w \<or> w' = released_notices now w" using claim_notification_cases [OF sl_claim] by blast
      with rel released_notices_ok(1) [OF assms(2)] same show ?thesis by fastforce
    qed
  next
    case (sl_post n ts c r)
    have "owned_notification (nt_action_id n) v w = Inr () \<Longrightarrow>
        slack_ok (update_notification (nt_action_id n) (posted_notice ts c) w) \<and> (\<forall>i q. find_notification i w = Some q \<longrightarrow>
        (\<exists>q'. find_notification i (update_notification (nt_action_id n) (posted_notice ts c) w) = Some q' \<and> notice_evolves now v q q'))"
      by (rule owned_evolves [OF assms(2)]) (auto intro: notice_fit_updates)
    with mark_posted_cases [OF sl_post] same show ?thesis by blast
  next
    case (sl_fail n cf sc e rt ra r)
    have "owned_notification (nt_action_id n) v w = Inr () \<Longrightarrow> st \<in> {Sn_dead, Sn_pending} \<Longrightarrow>
        slack_ok (update_notification (nt_action_id n) (failed_notice st na sc e) w) \<and>
        (\<forall>i q. find_notification i w = Some q \<longrightarrow> (\<exists>q'. find_notification i
          (update_notification (nt_action_id n) (failed_notice st na sc e) w) = Some q' \<and> notice_evolves now v q q'))" for st na
      by (rule owned_evolves [OF assms(2)]) (auto intro!: notice_fit_updates)
    with mark_notice_failed_cases [OF sl_fail] same show ?thesis by blast
  next
    case (sl_obsolete n reason r)
    have "owned_notification (nt_action_id n) v w = Inr () \<Longrightarrow>
        slack_ok (update_notification (nt_action_id n) (obsolete_notice reason) w) \<and> (\<forall>i q. find_notification i w = Some q \<longrightarrow>
        (\<exists>q'. find_notification i (update_notification (nt_action_id n) (obsolete_notice reason) w) = Some q' \<and> notice_evolves now v q q'))"
      by (rule owned_evolves [OF assms(2)]) (auto intro: notice_fit_updates)
    with mark_obsolete_cases [OF sl_obsolete] same show ?thesis by blast
  next
    case (sl_record sg i digest user d outcome r)
    then show ?thesis using record_interaction_cases [OF sl_record] same assms(2)
      by (simp add: find_notification_def)
  next
    case (sl_decide i q digest u d r)
    have "slack_ok (update_notification i (decided_notice now u d) w) \<and> (\<forall>j q. find_notification j w = Some q \<longrightarrow>
        (\<exists>q'. find_notification j (update_notification i (decided_notice now u d) w) = Some q' \<and> notice_evolves now v q q'))"
      by (rule update_notice_evolves [OF assms(2)])
        (use sl_decide(1,2) in \<open>auto intro!: notice_fit_updates evolves_decided\<close>)
    with mark_decided_cases [OF sl_decide(3)] same show ?thesis by blast
  next
    case (sl_retry i r)
    from retry_dead_notification_cases [OF sl_retry] show ?thesis
    proof
      assume "\<exists>q. find_notification i w = Some q \<and> sn_status q = Sn_dead \<and>
        w' = update_notification i (revived_notice now) w"
      then obtain q where q: "find_notification i w = Some q" "sn_status q = Sn_dead"
        "w' = update_notification i (revived_notice now) w" by blast
      have "sn_claimed_by q = None" "sn_message_ts q = None"
        using find_notice_fit [OF assms(2) q(1)] q(2) by (auto simp: notice_fit_def)
      then show ?thesis unfolding q(3) using q(1)
        by (intro update_notice_evolves [OF assms(2)]) (auto intro!: notice_fit_updates evolves_unclaimed)
    qed (use same in simp)
  qed
qed

section \<open>The lease queue\<close>

definition notice_held :: "slack_db \<Rightarrow> string \<Rightarrow> (string \<times> int) option" where
  "notice_held w i = (case find_notification i w of None \<Rightarrow> None
     | Some q \<Rightarrow> (case (sn_claimed_by q, sn_lease_expires_at_ns q) of (Some v, Some t) \<Rightarrow> Some (v, t) | _ \<Rightarrow> None))"

definition claim_notice_id :: "int \<Rightarrow> int \<Rightarrow> string \<Rightarrow> slack_db \<Rightarrow> string option \<times> slack_db" where
  "claim_notice_id lease now v w = (case claim_notification lease now v w of
     (Inr (Some n), w') \<Rightarrow> (Some (nt_action_id n), w') | (_, w') \<Rightarrow> (None, w'))"

lemma claim_notice_id_Some: "claim_notice_id lease now v w = (Some i, w') \<longleftrightarrow>
    (\<exists>n. claim_notification lease now v w = (Inr (Some n), w') \<and> nt_action_id n = i)"
  by (auto simp: claim_notice_id_def split: prod.splits sum.splits option.splits)

lemma notice_held_Some: "notice_held w i = Some (v, t) \<longleftrightarrow> (\<exists>q. find_notification i w = Some q \<and>
    sn_claimed_by q = Some v \<and> sn_lease_expires_at_ns q = Some t)"
  by (auto simp: notice_held_def split: option.splits)

interpretation slack_queue: lease_queue "slack_step uuid5 lease" slack_ok "claim_notice_id lease" notice_held lease
  for uuid5 lease
proof
  fix w now v w' assume "slack_ok w" "slack_step uuid5 lease now v w w'"
  then show "slack_ok w'" using slack_step_evolves by blast
next
  fix w now v i w' assume "slack_ok w" "claim_notice_id lease now v w = (Some i, w')"
  then show "slack_step uuid5 lease now v w w'" by (auto simp: claim_notice_id_Some intro: sl_claim)
next
  fix w now v i w' assume "slack_ok w" "claim_notice_id lease now v w = (Some i, w')"
  then show "notice_held w' i = Some (v, now + lease)"
    using claim_notification_some by (fastforce simp: claim_notice_id_Some notice_held_Some claim_notice_def)
next
  fix w now u i w' v t assume ok: "slack_ok w" and "claim_notice_id lease now u w = (Some i, w')"
    "notice_held w i = Some (v, t)"
  then show "t \<le> now"
    using claim_notification_some [OF ok] find_notice_fit [OF ok]
    by (fastforce simp: claim_notice_id_Some notice_held_Some notice_lapsed_def notice_fit_def)
next
  fix w now u w' i v t assume "slack_ok w" "slack_step uuid5 lease now u w w'" "notice_held w i = Some (v, t)"
    "now < t" "u \<noteq> v"
  then show "notice_held w' i = Some (v, t)"
    using slack_step_evolves by (fastforce simp: notice_held_Some notice_evolves_def)
qed

end
