(* ===== verification/Slack_Review.thy ===== *)
theory Slack_Review
  imports Slack_Service Slack_Facts Api_Facts
begin

text \<open>
  The Slack service as a second client of the reviewer's interface: the interface extended by who a
  decision is recorded for, its interpretation on the SQL store, and what a handled request may do to
  every store that keeps it.
\<close>

section \<open>The interface\<close>

locale slack_store = review_store +
  assumes decide_actor: "inv s \<Longrightarrow> st_decide ops now i d by why s = (Inr b, s') \<Longrightarrow> view s i = Some a \<Longrightarrow>
      ra_status a = PENDING \<Longrightarrow> ra_decided_by b = Some by"
    and authorized_actor: "inv s \<Longrightarrow> st_decide_authorized ops now i d auth why s = (Inr b, s') \<Longrightarrow>
      view s i = Some a \<Longrightarrow> ra_status a = PENDING \<Longrightarrow> ra_decided_by b = Some (da_actor auth)"
    and get_pending: "inv s \<Longrightarrow> st_get_action ops now i s = (r, s') \<Longrightarrow> view s j = Some a \<Longrightarrow>
      ra_status a = PENDING \<Longrightarrow> \<exists>b. view s' j = Some b \<and> ra_status b \<in> {PENDING, EXPIRED}"
    and get_inv: "inv s \<Longrightarrow> st_get_action ops now i s = (r, s') \<Longrightarrow> inv s'"
    and get_result: "inv s \<Longrightarrow> st_get_action ops now i s = (Inr a, s') \<Longrightarrow> view s' i = Some a"
    and decide_frame: "inv s \<Longrightarrow> st_decide ops now i d by why s = (r, s') \<Longrightarrow> j \<noteq> i \<Longrightarrow> view s' j = view s j"
    and authorized_frame: "inv s \<Longrightarrow> st_decide_authorized ops now i d auth why s = (r, s') \<Longrightarrow> j \<noteq> i \<Longrightarrow>
      view s' j = view s j"

section \<open>The SQL store keeps it\<close>

lemma decide_locked_actor:
  assumes "decide_locked K now a d by why s = Inr (b, s')" "ra_status a = PENDING"
    "find_action (ra_action_id a) s = Some r"
  shows "ra_decided_by b = Some by"
  using assms by (auto simp: decide_locked_def Let_def result_simps update_action_def add_receipt_def
      find_update_row_same split: if_splits)

lemma get_action_refreshed:
  assumes "find_action i s = Some r" "refreshed K now r s = (r', s')"
  shows "get_action K now i s = (Inr (row_to_action r'), s')"
  by (simp add: get_action_def require_found [OF assms(1)] refresh_found [OF assms(1)] assms(2))

lemma decide_pending_body:
  assumes "refreshed K now r s = (r', s1)" "r_status r = PENDING"
    "decide_locked K now (row_to_action r') d by why s1 = Inr (b, s')" "find_action i s = Some r"
  shows "ra_decided_by b = Some by"
  using refreshed_status(3) [OF assms(1)]
proof
  assume "r' = r \<and> s1 = s"
  with assms show ?thesis
    by (intro decide_locked_actor [OF assms(3)]) (auto dest: find_row_SomeD)
next
  assume "r_status r \<in> {PENDING, APPROVED} \<and> r_status r' = EXPIRED \<or> r_status r = EXECUTING \<and> r_status r' = UNKNOWN"
  with assms show ?thesis by (auto simp: decide_locked_def Let_def split: if_splits)
qed

lemma get_action_cases:
  assumes "store_ok K s" "get_action K now i s = (res, s')"
  shows "find_action i s = None \<and> s' = s \<and> (\<exists>e. res = Inl e) \<or> (\<exists>r r'. find_action i s = Some r \<and>
    refreshed K now r s = (r', s') \<and> res = Inr (row_to_action r') \<and> find_action i s' = Some r' \<and>
    store_ok K s' \<and> frame i s s')"
proof (cases "find_action i s")
  case None
  with assms show ?thesis by (auto simp: get_action_def require_row_def)
next
  case (Some r)
  obtain r' s1 where eq: "refreshed K now r s = (r', s1)" by fastforce
  with get_action_refreshed [OF Some eq] assms(2) refreshed_ok [OF assms(1) Some eq] Some show ?thesis by simp
qed

interpretation slack_sql: slack_store "sql_store K lease" sql_view "store_ok K" for K lease
proof unfold_locales
  fix s now i d "by" why b s' a
  assume ok: "store_ok K s" and res: "st_decide (sql_store K lease) now i d by why s = (Inr b, s')"
    and "sql_view s i = Some a" "ra_status a = PENDING"
  then obtain r where r: "find_action i s = Some r" "r_status r = PENDING" by (auto simp: sql_view_def)
  obtain r' s1 where eq: "refreshed K now r s = (r', s1)" by fastforce
  have "decide_locked K now (row_to_action r') d by why s1 = Inr (b, s')"
    using res by (auto simp: decide_def require_found [OF r(1)] refresh_found [OF r(1)] eq sql_store_def
        transaction_def split: if_splits sum.splits)
  with decide_pending_body [OF eq r(2) _ r(1)] show "ra_decided_by b = Some by" by blast
next
  fix s now i d auth why b s' a
  assume ok: "store_ok K s" and res: "st_decide_authorized (sql_store K lease) now i d auth why s = (Inr b, s')"
    and "sql_view s i = Some a" "ra_status a = PENDING"
  then obtain r where r: "find_action i s = Some r" "r_status r = PENDING" by (auto simp: sql_view_def)
  obtain r' s1 where eq: "refreshed K now r s = (r', s1)" by fastforce
  have "decide_locked K now (row_to_action r') d (da_actor auth) why s1 = Inr (b, s')"
    using res by (auto simp: decide_authorized_def require_found [OF r(1)] refresh_found [OF r(1)] eq
        transaction_def Let_def result_simps split: if_splits sum.splits)
  with decide_pending_body [OF eq r(2) _ r(1)] show "ra_decided_by b = Some (da_actor auth)" by blast
next
  fix s now i res s' j a
  assume ok: "store_ok K s" and res: "st_get_action (sql_store K lease) now i s = (res, s')"
    and a: "sql_view s j = Some a" "ra_status a = PENDING"
  have "get_action K now i s = (res, s')" using res by simp
  from get_action_cases [OF ok this]
  show "\<exists>b. sql_view s' j = Some b \<and> ra_status b \<in> {PENDING, EXPIRED}"
  proof (elim disjE exE conjE, simp_all)
    assume "s' = s"
    with a show "\<exists>b. sql_view s j = Some b \<and> (ra_status b = PENDING \<or> ra_status b = EXPIRED)" by auto
  next
    fix r r' assume r: "find_action i s = Some r" "refreshed K now r s = (r', s')" "find_action i s' = Some r'"
      and fr: "frame i s s'"
    show "\<exists>b. sql_view s' j = Some b \<and> (ra_status b = PENDING \<or> ra_status b = EXPIRED)"
      using a r fr refreshed_status(3) [OF r(2)]
      by (cases "j = i") (auto simp: sql_view_def frame_def)
  qed
next
  fix s now i res s'
  assume "store_ok K s" "st_get_action (sql_store K lease) now i s = (res, s')"
  with get_action_cases [of K s now i res s'] show "store_ok K s'" by auto
next
  fix s now i a s'
  assume "store_ok K s" "st_get_action (sql_store K lease) now i s = (Inr a, s')"
  with get_action_cases [of K s now i "Inr a" s'] show "sql_view s' i = Some a" by (auto simp: sql_view_def)
next
  fix s now i d "by" why res s' j
  assume ok: "store_ok K s" and "st_decide (sql_store K lease) now i d by why s = (res, s')" "j \<noteq> i"
  then show "sql_view s' j = sql_view s j"
    using decide_ok [OF ok, of now i d "by" why res s']
    by (cases res) (auto simp: sql_store_def sql_view_def frame_def)
next
  fix s now i d auth why res s' j
  assume ok: "store_ok K s" and "st_decide_authorized (sql_store K lease) now i d auth why s = (res, s')" "j \<noteq> i"
  then show "sql_view s' j = sql_view s j"
    using decide_authorized_ok [OF ok, of now i d auth why res s']
    by (cases res) (auto simp: sql_view_def frame_def)
qed

section \<open>What a handled request does\<close>

lemma require_message_binding_iff: "require_message_binding i digest ch ts w = Inr sn \<longleftrightarrow>
    (\<exists>q. find_notification i w = Some q \<and> binding_matches q digest ch ts = Inr True \<and>
      sn_status q \<in> {Sn_posted, Sn_decided} \<and> sn = notification_of q)"
  by (auto simp: require_message_binding_def result_simps split: option.splits)

lemma binding_matches_True: "binding_matches q digest ch ts = Inr True \<Longrightarrow>
    sn_request_digest q = digest \<and> sn_channel_id q = ch \<and> sn_message_ts q = Some ts"
  by (auto simp: binding_matches_def compare_digest_def result_simps split: if_splits option.splits)

text \<open>The request passed every check before the decision.\<close>

definition checks_passed ::
  "'s store_ops \<Rightarrow> 's handling \<Rightarrow> slack_config \<Rightarrow> parsed_interaction \<Rightarrow> slack_reviewer \<Rightarrow> 's \<times> slack_db \<Rightarrow> 's \<Rightarrow> bool" where
  "checks_passed ops h c p r sw s1 \<longleftrightarrow>
     interaction_outcome (px_signature_digest p) (snd sw) = None \<and>
     (\<exists>q. find_notification (px_action_id p) (snd sw) = Some q \<and> sn_status q \<in> {Sn_posted, Sn_decided} \<and>
       sn_request_digest q = px_request_digest p \<and> sn_channel_id q = px_channel_id p \<and>
       sn_message_ts q = Some (px_message_ts p)) \<and>
     slack_reviewer_of c (px_user_id p) = Some r \<and> px_decision p \<in> set (sr_decisions r) \<and>
     (\<exists>a. st_get_action ops (hd_read_ns h) (px_action_id p) (fst sw) = (Inr a, s1) \<and>
       ra_request_digest a = px_request_digest p \<and> slack_can_access c a)"

lemma check_interaction_cases:
  assumes "check_interaction ops h c p (s, w) = (res, s', w')"
  shows "s' = s \<or> s' = snd (st_get_action ops (hd_read_ns h) (px_action_id p) s) \<or>
    (\<exists>r s1. checks_passed ops h c p r (s, w) s1 \<and> decide_interaction ops h c p r (hd_others h s1, w) = (res, s', w'))"
proof (cases "interaction_outcome (px_signature_digest p) w = None")
  case False
  with assms show ?thesis by (auto simp: check_interaction_def)
next
  case fresh: True
  show ?thesis
  proof (cases "require_message_binding (px_action_id p) (px_request_digest p) (px_channel_id p) (px_message_ts p) w")
    case (Inl e)
    with assms fresh show ?thesis by (auto simp: check_interaction_def Let_def)
  next
    case bound: (Inr sn)
    then obtain q where q: "find_notification (px_action_id p) w = Some q" "sn_status q \<in> {Sn_posted, Sn_decided}"
      "binding_matches q (px_request_digest p) (px_channel_id p) (px_message_ts p) = Inr True"
      by (auto simp: require_message_binding_iff)
    show ?thesis
    proof (cases "\<exists>r. slack_reviewer_of c (px_user_id p) = Some r \<and> px_decision p \<in> set (sr_decisions r)")
      case False
      with assms fresh bound show ?thesis
        by (auto simp: check_interaction_def Let_def split: option.splits prod.splits)
    next
      case True
      then obtain r where r: "slack_reviewer_of c (px_user_id p) = Some r" "px_decision p \<in> set (sr_decisions r)"
        by blast
      obtain read s1 where read: "st_get_action ops (hd_read_ns h) (px_action_id p) s = (read, s1)" by fastforce
      show ?thesis
      proof (cases "\<exists>a. read = Inr a \<and> compare_digest (ra_request_digest a) (px_request_digest p) = Inr True \<and>
          slack_can_access c a")
        case True
        then obtain a where a: "read = Inr a" "compare_digest (ra_request_digest a) (px_request_digest p) = Inr True"
          "slack_can_access c a" by blast
        then have "checks_passed ops h c p r (s, w) s1"
          using fresh q binding_matches_True r read by (auto simp: checks_passed_def compare_digest_def split: if_splits)
        moreover have "decide_interaction ops h c p r (hd_others h s1, w) = (res, s', w')"
          using assms fresh bound r read a by (simp add: check_interaction_def Let_def)
        ultimately show ?thesis by blast
      next
        case False
        have "s' = s1"
          using assms fresh bound r read False
          by (auto simp: check_interaction_def Let_def split: sum.splits runtime_error.splits prod.splits if_splits bool.splits)
        then show ?thesis using read by simp
      qed
    qed
  qed
qed

lemma decide_interaction_store:
  assumes "decide_interaction ops h c p r (t, w) = (res, s', w')"
  obtains (left) x where "slack_decide ops (hd_decide_ns h) c p r t = (x, s')"
  | (reread) e t' read where "slack_decide ops (hd_decide_ns h) c p r t = (Inl e, t')"
    "st_get_action ops (hd_reread_ns h) (px_action_id p) t' = (read, s')"
proof -
  obtain x t' where dec: "slack_decide ops (hd_decide_ns h) c p r t = (x, t')" by fastforce
  show thesis
  proof (cases "\<exists>i st. x = Inl (InvalidActionState i st)")
    case True
    then obtain i st where x: "x = Inl (InvalidActionState i st)" by blast
    obtain read s2 where "st_get_action ops (hd_reread_ns h) (px_action_id p) t' = (read, s2)" by fastforce
    with assms dec x have "st_get_action ops (hd_reread_ns h) (px_action_id p) t' = (read, s')"
      by (auto simp: decide_interaction_def Let_def split: sum.splits prod.splits)
    with dec x show thesis by (auto intro: reread)
  next
    case False
    with assms dec have "s' = t'"
      by (auto simp: decide_interaction_def Let_def split: sum.splits prod.splits option.splits runtime_error.splits)
    with dec show thesis by (auto intro: left)
  qed
qed

context slack_store
begin

lemma slack_decide_ok:
  assumes inv: "inv s" and res: "slack_decide ops now c p r s = (Inr b, s')"
  shows "inv s' \<and> (\<exists>a. view s (px_action_id p) = Some a \<and> view s' (px_action_id p) = Some b \<and> same_subject a b \<and>
    ra_status a \<in> {PENDING, decision_target (px_decision p)} \<and> ra_status b = decision_target (px_decision p) \<and>
    (ra_status a = PENDING \<longrightarrow> ra_decided_by b = Some (slack_actor c p r)) \<and>
    (\<forall>org. sc_organization_id c = Some org \<longrightarrow> ra_organization_id a = org \<and> ra_namespace a \<in> set (sc_namespaces c) \<and>
      (sc_require_separate_approver c \<longrightarrow> ra_requested_by a \<noteq> Some (sr_subject r))))"
proof (cases "sc_organization_id c")
  case None
  with res have "st_decide ops now (px_action_id p) (px_decision p) (slack_actor c p r) (Some slack_reason) s = (Inr b, s')"
    by (simp add: slack_decide_def)
  from decide_law [OF inv this] decide_actor [OF inv this] None show ?thesis by fastforce
next
  case (Some org)
  with res obtain auth where auth: "make_authorization (slack_actor c p r) org (sc_namespaces c) (sr_decisions r)
      (sc_require_separate_approver c) (Some (sr_subject r)) = Inr auth"
    and dec: "st_decide_authorized ops now (px_action_id p) (px_decision p) auth (Some slack_reason) s = (Inr b, s')"
    by (auto simp: slack_decide_def split: sum.splits)
  have "sr_subject r \<noteq> []" "da_actor auth = slack_actor c p r" "da_organization_id auth = org"
    "da_namespaces auth = sc_namespaces c" "da_require_separate_approver auth = sc_require_separate_approver c"
    "da_reviewer_subject auth = Some (sr_subject r)"
    using auth by (auto simp: make_authorization_def result_simps validate_runtime_identity_def split: if_splits)
  with authorized_law [OF inv dec] authorized_actor [OF inv dec] Some show ?thesis
    by (fastforce simp: may_decide_def check_authorization_def split: if_splits)
qed

lemma slack_decide_error:
  assumes "inv s" "slack_decide ops now c p r s = (Inl e, s')"
  shows "s' = s"
  using assms decide_error authorized_error
  by (auto simp: slack_decide_def split: option.splits sum.splits)

lemma slack_decide_frame:
  assumes inv: "inv s" and res: "slack_decide ops now c p r s = (x, s')" and j: "j \<noteq> px_action_id p"
  shows "view s' j = view s j"
proof (cases "sc_organization_id c")
  case None
  with res have "st_decide ops now (px_action_id p) (px_decision p) (slack_actor c p r) (Some slack_reason) s = (x, s')"
    by (simp add: slack_decide_def)
  from decide_frame [OF inv this j] show ?thesis .
next
  case (Some org)
  show ?thesis
  proof (cases "make_authorization (slack_actor c p r) org (sc_namespaces c) (sr_decisions r)
      (sc_require_separate_approver c) (Some (sr_subject r))")
    case (Inl e)
    with Some res show ?thesis by (simp add: slack_decide_def)
  next
    case (Inr auth)
    with Some res have
      "st_decide_authorized ops now (px_action_id p) (px_decision p) auth (Some slack_reason) s = (x, s')"
      by (simp add: slack_decide_def)
    from authorized_frame [OF inv this j] show ?thesis .
  qed
qed

text \<open>A pending action that is decided afterwards was decided by this request.\<close>

lemma decided_by_request:
  assumes inv: "inv s" and others: "inv (hd_others h (snd (st_get_action ops (hd_read_ns h) (px_action_id p) s)))"
    and res: "check_interaction ops h c p (s, w) = (res, s', w')"
    and pending: "view s i = Some a" "ra_status a = PENDING"
      "view (hd_others h (snd (st_get_action ops (hd_read_ns h) (px_action_id p) s))) i = Some a1" "ra_status a1 = PENDING"
    and final: "view s' i = Some b" "ra_status b \<in> {APPROVED, REJECTED}"
  shows "px_action_id p = i \<and> (\<exists>r. checks_passed ops h c p r (s, w) (snd (st_get_action ops (hd_read_ns h) i s)) \<and>
    ra_status b = decision_target (px_decision p) \<and> ra_decided_by b = Some (slack_actor c p r) \<and> same_subject a1 b \<and>
    (\<forall>org. sc_organization_id c = Some org \<longrightarrow> ra_organization_id a1 = org \<and> ra_namespace a1 \<in> set (sc_namespaces c) \<and>
      (sc_require_separate_approver c \<longrightarrow> ra_requested_by a1 \<noteq> Some (sr_subject r))))"
proof -
  obtain read s1 where read: "st_get_action ops (hd_read_ns h) (px_action_id p) s = (read, s1)" by fastforce
  have "s' \<noteq> s" using pending(1,2) final by auto
  moreover have "s' \<noteq> s1" using get_pending [OF inv read pending(1,2)] final by auto
  ultimately obtain r s2 where r: "checks_passed ops h c p r (s, w) s2"
    and dec: "decide_interaction ops h c p r (hd_others h s2, w) = (res, s', w')"
    using check_interaction_cases [OF res] read by auto
  have s2: "s2 = s1" using r read by (auto simp: checks_passed_def)
  let ?t = "hd_others h s1"
  have t: "inv ?t" "view ?t i = Some a1" using others pending(3) read by auto
  from dec [unfolded s2] show ?thesis
  proof (cases rule: decide_interaction_store)
    case (reread e t' read')
    have "t' = ?t" by (rule slack_decide_error [OF t(1) reread(1)])
    then show ?thesis using get_pending [OF t(1) reread(2) [unfolded \<open>t' = ?t\<close>] t(2) pending(4)] final by auto
  next
    case (left x)
    show ?thesis
    proof (cases x)
      case (Inl e)
      then have "s' = ?t" using slack_decide_error [OF t(1)] left by blast
      then show ?thesis using t(2) pending(4) final by auto
    next
      case (Inr b')
      note ok = slack_decide_ok [OF t(1) left [unfolded Inr]]
      have "px_action_id p = i"
      proof (rule ccontr)
        assume "px_action_id p \<noteq> i"
        then have "view s' i = view ?t i" by (intro slack_decide_frame [OF t(1) left]) simp
        then show False using t(2) pending(4) final by auto
      qed
      with ok t(2) pending(4) final r s2 read show ?thesis by auto
    qed
  qed
qed

end

end
