(* ===== verification/Slack_Props.thy ===== *)
theory Slack_Props
  imports Slack_Review
begin

text \<open>
  Properties of the Slack approvals: exclusive claims, the finality of a posted message, the buttons of
  a message, who can decide by a click, and the repetition of a request.
\<close>

section \<open>Notifications\<close>

inductive slack_reachable :: "(string \<Rightarrow> string) \<Rightarrow> int \<Rightarrow> slack_db \<Rightarrow> bool"
  for uuid5 :: "string \<Rightarrow> string" and lease :: int where
  slack_init: "slack_reachable uuid5 lease \<lparr>sd_notifications = [], sd_interactions = []\<rparr>"
| slack_next: "slack_reachable uuid5 lease w \<Longrightarrow> slack_step uuid5 lease now v w w' \<Longrightarrow> slack_reachable uuid5 lease w'"

lemma slack_reachable_ok: "slack_reachable uuid5 lease w \<Longrightarrow> slack_ok w"
proof (induction rule: slack_reachable.induct)
  case slack_init
  then show ?case by (simp add: slack_ok_def)
next
  case (slack_next w now v w')
  then show ?case using slack_step_evolves by blast
qed

definition slack_later :: "(string \<Rightarrow> string) \<Rightarrow> int \<Rightarrow> slack_db \<Rightarrow> slack_db \<Rightarrow> bool" where
  "slack_later uuid5 lease = (\<lambda>w w'. \<exists>now v. slack_step uuid5 lease now v w w')\<^sup>*\<^sup>*"

text \<open>
  A notification is posted by one worker at a time: until the lease of a claim is over, whatever
  other workers and the endpoint do, no worker is given the notification again, and the claiming worker's
  report of the posted message is accepted.
\<close>

theorem claimed_notification_is_exclusive:
  assumes "slack_reachable uuid5 lease w" and "claim_notification lease now v w = (Inr (Some n), w1)"
    and "others_run (slack_step uuid5 lease) v (now + lease) w1 w2"
  shows "(\<forall>later u n' w3. later < now + lease \<and> claim_notification lease later u w2 = (Inr (Some n'), w3) \<longrightarrow>
      nt_action_id n' \<noteq> nt_action_id n) \<and>
    (\<forall>ts c. message_ts_ok ts \<and> 100 \<le> c \<and> c \<le> 599 \<longrightarrow> fst (mark_posted n v ts c w2) = Inr ())"
proof -
  have ok: "slack_ok w" by (rule slack_reachable_ok [OF assms(1)])
  have claim: "claim_notice_id lease now v w = (Some (nt_action_id n), w1)"
    using assms(2) by (simp add: claim_notice_id_Some)
  note ex = slack_queue.claim_exclusive [OF ok claim assms(3)]
  have "slack_ok w2"
    using slack_queue.held_through [OF assms(3)] claim_notification_some [OF ok assms(2)]
      slack_queue.claim_holds [OF ok claim] by blast
  moreover obtain q where "find_notification (nt_action_id n) w2 = Some q" "sn_claimed_by q = Some v"
    using ex(1) by (auto simp: notice_held_Some)
  ultimately have "owned_notification (nt_action_id n) v w2 = Inr ()"
    using find_notice_fit by (auto simp: owned_notification_iff notice_fit_def)
  then have "fst (mark_posted n v ts c w2) = Inr ()" if "message_ts_ok ts" "100 \<le> c" "c \<le> 599" for ts c
    using that by (simp add: mark_posted_def)
  moreover have "nt_action_id n' \<noteq> nt_action_id n"
    if "later < now + lease" "claim_notification lease later u w2 = (Inr (Some n'), w3)" for later u n' w3
    using ex(2) [of later u "nt_action_id n'" w3] that by (auto simp: claim_notice_id_Some)
  ultimately show ?thesis by blast
qed

definition posted_as :: "slack_db \<Rightarrow> string \<Rightarrow> string \<times> string \<times> string \<times> string \<Rightarrow> string \<Rightarrow> bool" where
  "posted_as w i binding ts \<longleftrightarrow> (\<exists>q. find_notification i w = Some q \<and> bound_to q = binding \<and>
     sn_message_ts q = Some ts \<and> sn_status q \<in> {Sn_posted, Sn_decided})"

lemma posted_later:
  assumes "slack_later uuid5 lease w w'" "slack_ok w" "posted_as w i binding ts"
  shows "slack_ok w' \<and> posted_as w' i binding ts"
  using assms(1) unfolding slack_later_def
proof (induction rule: rtranclp_induct)
  case (step w1 w2)
  then obtain now v where "slack_step uuid5 lease now v w1 w2" by blast
  from slack_step_evolves [OF this] step.IH show ?case
    by (fastforce simp: posted_as_def notice_evolves_def)
qed (use assms in simp)

text \<open>
  A posted message stays what the reviewers saw: no later operation of any worker or of the
  endpoint changes the action, the digest, the channel or the timestamp it is bound to, and the
  notification is never posted again, not even after a manual retry.
\<close>

theorem posted_message_stays_bound:
  assumes "slack_reachable uuid5 lease w" and "posted_as w i binding ts" and "slack_later uuid5 lease w w'"
  shows "posted_as w' i binding ts \<and>
    (\<forall>now v n w''. claim_notification lease now v w' = (Inr (Some n), w'') \<longrightarrow> nt_action_id n \<noteq> i)"
proof -
  have later: "slack_ok w'" "posted_as w' i binding ts"
    using posted_later [OF assms(3) slack_reachable_ok [OF assms(1)] assms(2)] by auto
  moreover have "nt_action_id n \<noteq> i" if "claim_notification lease now v w' = (Inr (Some n), w'')" for now v n w''
    using claim_notification_some [OF later(1) that] later(2) by (auto simp: posted_as_def notice_lapsed_def)
  ultimately show ?thesis by blast
qed

text \<open>
  A message that Slack accepted under a timestamp of another form than digits, point, digits ends the
  worker: the error is raised outside the block that handles failures, and the notification stays
  claimed, to be posted again after its lease.
\<close>

lemma invalid_timestamp_stops_worker:
  assumes "st_get_action ops (sv_read_ns t) (nt_action_id n) s = (Inr a, s')" and "ra_status a = PENDING"
    and "compare_digest (ra_request_digest a) (nt_request_digest n) = Inr True"
    and "build_slack_notification K a (nt_channel_id n) (nt_client_message_id n) = Inr m"
    and "post_outcome n (sv_reply t m) = Inr (ts, status_code)" and "\<not> message_ts_ok ts"
  shows "post_turn ops K c worker t n counts (s, w) =
    (Inl (ValueError ''Slack message timestamp is invalid''), s', sv_others t w)"
  using assms by (simp add: post_turn_def finish_post_def mark_posted_def)

section \<open>Messages\<close>

definition view_get :: "view \<Rightarrow> string \<Rightarrow> view option" where
  "view_get v k = (case v of VDict kvs \<Rightarrow> map_of kvs k | _ \<Rightarrow> None)"

definition view_list :: "view \<Rightarrow> string \<Rightarrow> view list" where
  "view_list v k = (case view_get v k of Some (VList vs) \<Rightarrow> vs | _ \<Rightarrow> [])"

text \<open>The elements of a message that carry an action: its buttons.\<close>

definition message_buttons :: "view \<Rightarrow> view list" where
  "message_buttons m = filter (\<lambda>e. view_get e ''action_id'' \<noteq> None)
     (concat (map (\<lambda>b. view_list b ''elements'') (view_list m ''blocks'')))"

lemma message_buttons_simps:
  "view_list (VDict kvs) k = (case map_of kvs k of Some (VList vs) \<Rightarrow> vs | _ \<Rightarrow> [])"
  "view_get (VDict kvs) k = map_of kvs k"
  by (simp_all add: view_list_def view_get_def)

lemma slack_binding_parses:
  assumes "codec_ok K" "\<not> blank (ra_action_id a)" "length (ra_action_id a) \<le> 128" "digest_ok (ra_request_digest a)"
  shows "parse_binding K (slack_binding K a) = Inr (ra_action_id a, ra_request_digest a)"
proof -
  let ?j = "JObj [(''action_id'', JStr (ra_action_id a)), (''request_digest'', JStr (ra_request_digest a))]"
  have "loads K (dumps K ?j) = Some (json_norm ?j)" by (rule loads_dumps [OF assms(1)]) simp_all
  moreover have "json_norm ?j = ?j" by simp
  ultimately have "loads K (slack_binding K a) = Some ?j" by (simp only: slack_binding_def)
  then show ?thesis using assms by (auto simp: parse_binding_def dict_get_def)
qed

lemma view_parts [simp]:
  "view_list (slack_header shown) ''elements'' = []" "view_list (slack_section shown) ''elements'' = []"
  "view_list (VDict [(''type'', x), (''elements'', VList vs)]) ''elements'' = vs"
  "view_get (plain_text shown) ''action_id'' = None"
  "view_get (decision_button l i v st ti) ''action_id'' = Some (VText (points i))"
  "view_get (decision_button l i v st ti) ''value'' = Some (VText (points v))"
  by (simp_all add: slack_header_def slack_section_def plain_text_def decision_button_def message_buttons_simps)

lemma slack_buttons_elements: "view_list (slack_buttons K a) ''elements'' =
    [decision_button ''Approve'' approve_action_id (slack_binding K a) ''primary'' ''Approve this exact action?'',
     decision_button ''Reject'' reject_action_id (slack_binding K a) ''danger'' ''Reject this exact action?'']"
  by (simp add: slack_buttons_def message_buttons_simps)

lemma notification_blocks:
  assumes "build_slack_notification K a ch cid = Inr m"
  shows "\<exists>interactive. interactive = slack_interactive K a (dumps K (ra_arguments a)) \<and> json_finite (ra_arguments a) \<and>
    view_list m ''blocks'' = [slack_header (points ''AgentBarrier approval required''),
      slack_section (if metadata_safe a then points (slack_metadata a) else bounded_metadata a),
      slack_section (points (slack_argument_text interactive (dumps K (ra_arguments a)))),
      VDict [(''type'', VText (points ''context'')),
        (''elements'', VList [plain_text (points (slack_guidance interactive))])]] @
     (if interactive then [slack_buttons K a] else [])"
proof -
  obtain t where t: "canonical_json K (ra_arguments a) ''Slack approval arguments'' = Inr t"
    using assms by (auto simp: build_slack_notification_def bind_res_Inr_iff json_result_Inr_iff)
  then have dumps: "json_finite (ra_arguments a)" "t = dumps K (ra_arguments a)" by (simp_all add: canonical_json_Inr_iff)
  from t have "json_result (canonical_json K (ra_arguments a) ''Slack approval arguments'') = Inr t"
    by (simp add: json_result_Inr_iff)
  then show ?thesis
    using assms dumps by (auto simp: build_slack_notification_def Let_def message_buttons_simps)
qed

lemma interactive_message:
  assumes "build_slack_notification K a ch cid = Inr m" "b \<in> set (message_buttons m)"
  shows "json_finite (ra_arguments a) \<and> slack_interactive K a (dumps K (ra_arguments a)) \<and>
    slack_section (points (slack_metadata a)) \<in> set (view_list m ''blocks'') \<and>
    slack_section (points (dumps K (ra_arguments a))) \<in> set (view_list m ''blocks'') \<and>
    (\<exists>ident \<in> {approve_action_id, reject_action_id}. view_get b ''action_id'' = Some (VText (points ident)) \<and>
      view_get b ''value'' = Some (VText (points (slack_binding K a))))"
proof -
  let ?i = "slack_interactive K a (dumps K (ra_arguments a))"
  note blocks = notification_blocks [OF assms(1), simplified]
  have "?i"
  proof (rule ccontr)
    assume "\<not> ?i"
    with assms(2) blocks show False by (simp add: message_buttons_def)
  qed
  moreover from this have "metadata_safe a" by (simp add: slack_interactive_def)
  ultimately show ?thesis
    using assms(2) blocks by (auto simp: message_buttons_def slack_buttons_elements slack_argument_text_def)
qed

text \<open>
  A message has buttons only when it shows everything: the reviewer then sees all metadata and the
  complete arguments, whose text reads back as the arguments of the action, and what a button carries
  is parsed as exactly the action and the digest of the message.
\<close>

theorem buttons_bind_exact_action:
  assumes "codec_ok K" and "json_wf (ra_arguments a)" and "\<not> blank (ra_action_id a)"
    and "build_slack_notification K a ch cid = Inr m" and "b \<in> set (message_buttons m)"
  shows "\<exists>shown ident v. slack_section (points shown) \<in> set (view_list m ''blocks'') \<and>
    loads K shown = Some (json_norm (ra_arguments a)) \<and>
    slack_section (points (slack_metadata a)) \<in> set (view_list m ''blocks'') \<and>
    view_get b ''action_id'' = Some (VText (points ident)) \<and> view_get b ''value'' = Some (VText (points v)) \<and>
    parse_button K (JObj [(''action_id'', JStr ident), (''value'', JStr v)]) =
      Inr (if ident = approve_action_id then APPROVE else REJECT, ra_action_id a, ra_request_digest a)"
proof -
  note m = interactive_message [OF assms(4,5)]
  have "parse_binding K (slack_binding K a) = Inr (ra_action_id a, ra_request_digest a)"
    using m assms(1,3) by (intro slack_binding_parses) (auto simp: slack_interactive_def)
  then have "parse_button K (JObj [(''action_id'', JStr ident), (''value'', JStr (slack_binding K a))]) =
      Inr (if ident = approve_action_id then APPROVE else REJECT, ra_action_id a, ra_request_digest a)"
    if "ident \<in> {approve_action_id, reject_action_id}" for ident
    using that by (auto simp: parse_button_def dict_get_def)
  with m loads_dumps [OF assms(1) _ assms(2)] show ?thesis by blast
qed

section \<open>Configurations\<close>

lemma parse_reviewer_InrD:
  assumes "parse_reviewer v = Inr r"
  shows "user_id_ok (sr_user_id r) \<and> \<not> blank (sr_subject r) \<and> length (sr_subject r) \<le> 128 \<and>
    sr_decisions r \<noteq> [] \<and> distinct (sr_decisions r)"
proof -
  have made: "make_slack_reviewer q = Inr r \<Longrightarrow> r = q \<and> user_id_ok (sr_user_id q) \<and> \<not> blank (sr_subject q) \<and>
      length (sr_subject q) \<le> 128 \<and> sr_decisions q \<noteq> []" for q
    by (auto simp: make_slack_reviewer_def split: if_splits)
  show ?thesis
    using assms by (auto simp: parse_reviewer_def result_simps split: json.split_asm if_split_asm dest!: made)
qed

lemma make_slack_config_InrD:
  assumes "make_slack_config c = Inr c'"
  shows "c' = c \<and> workspace_id_ok (sc_workspace_id c) \<and> app_id_ok (sc_app_id c) \<and> channel_id_ok (sc_channel_id c) \<and>
    20 \<le> length (sc_bot_token c) \<and> 32 \<le> length (sc_signing_secret c) \<and>
    list_all (\<lambda>x. 33 \<le> code x \<and> code x \<le> 126) (sc_bot_token c @ sc_signing_secret c) \<and>
    sc_reviewers c \<noteq> [] \<and> length (sc_reviewers c) \<le> 100 \<and> distinct (map sr_user_id (sc_reviewers c)) \<and>
    1 \<le> sc_max_attempts c \<and> sc_max_attempts c \<le> 20 \<and> is_finite (sc_timeout_seconds c) \<and>
    \<not> num_le (of_int_num 3) (sc_timeout_seconds c) \<and> is_finite (sc_max_backoff_seconds c) \<and>
    (case sc_organization_id c of None \<Rightarrow> sc_namespaces c = [] \<and> \<not> sc_require_separate_approver c
     | Some org \<Rightarrow> \<not> blank org \<and> sc_namespaces c \<noteq> [])"
  using assms
  by (auto simp: make_slack_config_def result_simps validate_slack_secret_def check_slack_organization_def
      check_slack_backoff_def list_ex_iff list_all_iff not_less split: if_split_asm option.split_asm)

lemma slack_config_from_mapping_InrD:
  assumes "slack_config_from_mapping environment data = Inr c"
  shows "\<exists>raw c0. map_res parse_reviewer raw = Inr (sc_reviewers c0) \<and> make_slack_config c0 = Inr c \<and>
    environment (sc_bot_token_env c0) = Some (sc_bot_token c0) \<and>
    environment (sc_signing_secret_env c0) = Some (sc_signing_secret c0)"
proof -
  let ?id = "\<lambda>k. str_of (dict_get data k JNull)"
  have "\<exists>w a ch te se. ?id ''workspace_id'' = Some w \<and> ?id ''app_id'' = Some a \<and> ?id ''channel_id'' = Some ch \<and>
      ?id ''bot_token_env'' = Some te \<and> ?id ''signing_secret_env'' = Some se"
    using assms unfolding slack_config_from_mapping_def
    by (cases "?id ''workspace_id''"; cases "?id ''app_id''"; cases "?id ''channel_id''"; cases "?id ''bot_token_env''";
      cases "?id ''signing_secret_env''") (simp_all add: result_simps)
  then obtain w a ch te se where ids: "?id ''workspace_id'' = Some w" "?id ''app_id'' = Some a"
    "?id ''channel_id'' = Some ch" "?id ''bot_token_env'' = Some te" "?id ''signing_secret_env'' = Some se" by blast
  have "\<exists>token secret. environment te = Some token \<and> environment se = Some secret"
    using assms unfolding slack_config_from_mapping_def
    by (cases "environment te"; cases "environment se") (simp_all add: ids result_simps)
  then obtain token secret where env: "environment te = Some token" "environment se = Some secret" by blast
  have "\<exists>n. dict_get data ''max_attempts'' (JInt 5) = JInt n"
    using assms unfolding slack_config_from_mapping_def
    by (cases "dict_get data ''max_attempts'' (JInt 5)") (auto simp: ids env result_simps)
  then obtain n where "dict_get data ''max_attempts'' (JInt 5) = JInt n" ..
  with assms show ?thesis
    unfolding slack_config_from_mapping_def by (auto simp: ids env result_simps) (force simp: env)
qed


end
