(* ===== verification/Slack_Requests.thy ===== *)
theory Slack_Requests
  imports Slack_Review Slack_Props Store_History
begin

text \<open>
  Properties of the signed endpoint of Slack: what a request has to carry, whose click decides an
  action, and the repetition of a request.
\<close>

section \<open>Requests that are read\<close>

lemma verify_slack_signature_InrD:
  assumes "verify_slack_signature hmac secret timestamp signature body now = Inr sg"
  shows "signature = Some sg \<and> slack_signature_ok sg \<and> (\<exists>ts. timestamp = Some ts \<and> short_digits ts \<and>
    expected_signature hmac secret ts body = sg \<and> \<not> stale_request now (int (read_nat ts)))"
  using assms by (auto simp: verify_slack_signature_def split: option.splits if_splits)

lemma same_identifier_Inr: "same_identifier a b f = Inr x \<Longrightarrow> a = b"
  by (auto simp: same_identifier_def uncaught_def compare_digest_def result_simps split: if_splits)

lemma parse_binding_InrD: "parse_binding K raw = Inr (i, digest) \<Longrightarrow> digest_ok digest \<and> \<not> blank i \<and> length i \<le> 128"
  by (auto simp: parse_binding_def split: option.splits json.splits if_splits)

lemma parse_button_InrD: "parse_button K v = Inr (d, i, digest) \<Longrightarrow> digest_ok digest"
  by (auto simp: parse_button_def result_simps split: json.split_asm prod.split_asm if_split_asm dest!: parse_binding_InrD)

lemma parse_payload_InrD:
  assumes "parse_payload K c sg payload = Inr p"
  shows "px_signature_digest p = sha256_hex K sg \<and> px_channel_id p = sc_channel_id c \<and>
    digest_ok (px_request_digest p) \<and> user_id_ok (px_user_id p) \<and> message_ts_ok (px_message_ts p)"
proof -
  have "\<exists>action. dict_get payload ''actions'' JNull = JList [action]"
  proof (cases "dict_get payload ''actions'' JNull")
    case (JList js)
    then show ?thesis
      using assms by (cases js; cases "tl js") (simp_all add: parse_payload_def result_simps split: if_split_asm)
  qed (use assms in \<open>simp_all add: parse_payload_def result_simps split: if_split_asm\<close>)
  then obtain action where "dict_get payload ''actions'' JNull = JList [action]" ..
  with assms show ?thesis
    by (auto simp: parse_payload_def result_simps split: if_split_asm prod.split_asm
        dest!: same_identifier_Inr parse_button_InrD)
qed

lemma parse_interaction_InrD:
  assumes "parse_interaction hmac K c now rq body = Inr p"
  shows "\<exists>ts sg. sq_timestamp rq = Some ts \<and> sq_signature rq = Some sg \<and>
    expected_signature hmac (sc_signing_secret c) ts body = sg \<and> \<not> stale_request now (int (read_nat ts)) \<and>
    px_signature_digest p = sha256_hex K sg \<and> px_channel_id p = sc_channel_id c"
proof -
  have "\<exists>sg payload. verify_slack_signature hmac (sc_signing_secret c) (sq_timestamp rq) (sq_signature rq) body now = Inr sg \<and>
      parse_payload K c sg payload = Inr p"
    using assms by (auto simp: parse_interaction_def result_simps split: if_splits option.splits list.splits json.splits)
  then obtain sg payload where
    "verify_slack_signature hmac (sc_signing_secret c) (sq_timestamp rq) (sq_signature rq) body now = Inr sg"
    "parse_payload K c sg payload = Inr p" by blast
  from verify_slack_signature_InrD [OF this(1)] parse_payload_InrD [OF this(2)] show ?thesis by blast
qed

lemma slack_handle_cases:
  assumes "slack_handle ops hmac K c h rq sw = (res, s', w')"
  obtains (refused) "(s', w') = sw" "\<exists>f. res = Inl f"
  | (parsed) body p where "read_slack_body rq = Inr body" "parse_interaction hmac K c (hd_now h) rq body = Inr p"
    "check_interaction ops h c p sw = (res, s', w')"
  using assms
  by (cases "read_slack_body rq"; cases "parse_interaction hmac K c (hd_now h) rq (projr (read_slack_body rq))")
    (auto simp: slack_handle_def)

section \<open>Repeated requests\<close>

lemma record_parsed_Inr:
  assumes "record_parsed now p outcome task w = (Inr t, w')"
  shows "interaction_outcome (px_signature_digest p) w' \<noteq> None"
  using assms record_interaction_cases
  by (fastforce simp: record_parsed_def split: prod.splits sum.splits)

lemma mark_and_record_Inr:
  assumes "mark_and_record now p a u d outcome w = (Inr t, w')"
  shows "interaction_outcome (px_signature_digest p) w' \<noteq> None"
  using assms by (auto simp: mark_and_record_def split: prod.splits sum.splits dest: record_parsed_Inr)

lemma stale_interaction_Inr:
  "stale_interaction now p a w = (Inr t, w') \<Longrightarrow> interaction_outcome (px_signature_digest p) w' \<noteq> None"
  by (auto simp: stale_interaction_def Let_def split: if_splits dest: record_parsed_Inr mark_and_record_Inr)

lemma unauthorized_interaction_Inr:
  "unauthorized_interaction now p w = (Inr t, w') \<Longrightarrow> interaction_outcome (px_signature_digest p) w' \<noteq> None"
  by (auto simp: unauthorized_interaction_def dest: record_parsed_Inr)

lemma decide_interaction_Inr:
  assumes "decide_interaction ops h c p r sw = (Inr t, s', w')"
  shows "interaction_outcome (px_signature_digest p) w' \<noteq> None"
  using assms
  by (auto simp: decide_interaction_def Let_def decided_interaction_def
      split: prod.splits sum.splits runtime_error.splits option.splits
      dest: mark_and_record_Inr stale_interaction_Inr unauthorized_interaction_Inr)

lemma check_interaction_Inr:
  assumes "check_interaction ops h c p (s, w) = (Inr t, s', w')"
  shows "interaction_outcome (px_signature_digest p) w' \<noteq> None"
proof (cases "interaction_outcome (px_signature_digest p) w = None")
  case False
  with assms show ?thesis by (auto simp: check_interaction_def)
next
  case True
  with assms show ?thesis
    by (auto simp: check_interaction_def Let_def
        split: sum.splits option.splits prod.splits if_splits runtime_error.splits
        dest: decide_interaction_Inr unauthorized_interaction_Inr)
qed

lemma interaction_outcome_later:
  assumes "slack_later uuid5 lease w w'" "interaction_outcome sg w \<noteq> None"
  shows "interaction_outcome sg w' \<noteq> None"
  using assms(1) unfolding slack_later_def
proof (induction rule: rtranclp_induct)
  case (step w1 w2)
  then obtain now v where "slack_step uuid5 lease now v w1 w2" by blast
  then show ?case
  proof cases
    case (sl_record sg' i digest user d outcome r)
    with record_interaction_cases [OF sl_record] step.IH show ?thesis by auto
  qed (use step.IH in \<open>auto simp: interaction_outcome_def update_notification_simps released_notices_def
      dest!: enqueue_notification_cases claim_notification_cases mark_posted_cases mark_notice_failed_cases
        mark_obsolete_cases mark_decided_cases retry_dead_notification_cases\<close>)
qed (use assms in simp)

text \<open>
  A request that was handled once cannot be replayed: another request with the same signature
  header, at any time and whatever happened to both stores meanwhile, changes nothing and starts no task.
\<close>

theorem slack_replay_changes_nothing:
  assumes "slack_handle ops hmac K c h rq (s, w) = (Inr task, s', w')"
    and "sq_signature rq2 = sq_signature rq" and "slack_later uuid5 lease w' w2"
  shows "\<exists>res. slack_handle ops hmac K c h2 rq2 (s2, w2) = (res, s2, w2) \<and> (\<forall>t. res = Inr t \<longrightarrow> t = No_Task)"
proof -
  obtain body p where p: "parse_interaction hmac K c (hd_now h) rq body = Inr p"
    and check: "check_interaction ops h c p (s, w) = (Inr task, s', w')"
    using slack_handle_cases [OF assms(1)] by (metis sum.distinct(1))
  have "interaction_outcome (px_signature_digest p) w' \<noteq> None" by (rule check_interaction_Inr [OF check])
  then have recorded: "interaction_outcome (px_signature_digest p) w2 \<noteq> None"
    by (rule interaction_outcome_later [OF assms(3)])
  obtain res s3 w3 where res: "slack_handle ops hmac K c h2 rq2 (s2, w2) = (res, s3, w3)" by (metis prod_cases3)
  then show ?thesis
  proof (cases rule: slack_handle_cases)
    case (parsed body2 p2)
    have "px_signature_digest p2 = px_signature_digest p"
      using parse_interaction_InrD [OF p] parse_interaction_InrD [OF parsed(2)] assms(2) by auto
    with parsed(3) recorded res show ?thesis by (auto simp: check_interaction_def)
  qed (use res in auto)
qed

section \<open>Whose click decides\<close>

definition signed_by :: "(string \<Rightarrow> string \<Rightarrow> string) \<Rightarrow> string \<Rightarrow> slack_request \<Rightarrow> pyfloat \<Rightarrow> string \<Rightarrow> bool" where
  "signed_by hmac secret rq now body \<longleftrightarrow> (\<exists>ts. sq_timestamp rq = Some ts \<and>
     sq_signature rq = Some (expected_signature hmac secret ts body) \<and> \<not> stale_request now (int (read_nat ts)))"

text \<open>
  What the other processes do between the handler's reading of an action, whichever it reads, and its
  decision: operations of the runtime store, none of which decides action \<open>i\<close>.
\<close>

definition others_leave_pending :: "codec \<Rightarrow> int \<Rightarrow> db handling \<Rightarrow> string \<Rightarrow> db \<Rightarrow> bool" where
  "others_leave_pending K lease h i s \<longleftrightarrow> (\<forall>j. let t = snd (get_action K (hd_read_ns h) j s) in
     later K lease t (hd_others h t) \<and> (\<exists>a. sql_view (hd_others h t) i = Some a \<and> ra_status a = PENDING))"

lemma later_same_subject:
  assumes "later K lease s s'" "reachable K lease s" "sql_view s i = Some a" "sql_view s' i = Some a'"
  shows "same_subject a a'"
proof -
  obtain r where r: "find_action i s = Some r" "a = row_to_action r" using assms(3) by (auto simp: sql_view_def)
  moreover from extendsD(3) [OF later_extends [OF assms(1,2)] r(1)] obtain r' where
    "find_action i s' = Some r'" "identity_of r' = identity_of r" by blast
  ultimately show ?thesis using assms(4) same_subject_row by (auto simp: sql_view_def)
qed

lemma others_leaveD:
  assumes "others_leave_pending K lease h i s" "reachable K lease s"
    and t: "t = snd (get_action K (hd_read_ns h) j s)"
  obtains a1 where "store_ok K (hd_others h t)" "sql_view (hd_others h t) i = Some a1" "ra_status a1 = PENDING"
    "\<And>a. sql_view t i = Some a \<Longrightarrow> same_subject a a1"
proof -
  have "store_step K lease s t" unfolding t by (rule step_get [of K "hd_read_ns h" j s "fst (get_action K (hd_read_ns h) j s)"]) simp
  with assms(2) have t': "reachable K lease t" by (rule reach_step)
  have "later K lease t (hd_others h t)" "\<exists>a. sql_view (hd_others h t) i = Some a \<and> ra_status a = PENDING"
    using assms(1) unfolding others_leave_pending_def t Let_def by auto
  with t' later_reachable later_same_subject reachable_ok that show thesis by metis
qed

text \<open>
  C26. An approval or a rejection that appears while a request is handled is the click of a reviewer:
  the action was pending until then, so the body is signed with the workspace's secret and fresh, it
  names the action and the digest of a message that was posted to the configured channel, at that
  message's timestamp, its user is a configured reviewer who may make this decision and is recorded as
  the decider, and a configured organization, its namespaces and the separation of requester and
  approver are respected.
\<close>

theorem slack_decision_is_genuine:
  assumes "reachable K lease s" and "sql_view s i = Some a" and "ra_status a = PENDING"
    and "others_leave_pending K lease h i s"
    and "slack_handle (sql_store K lease) hmac K c h rq (s, w) = (res, s', w')"
    and "sql_view s' i = Some b" and "ra_status b \<in> {APPROVED, REJECTED}"
  shows "\<exists>body p r q. read_slack_body rq = Inr body \<and> signed_by hmac (sc_signing_secret c) rq (hd_now h) body \<and>
    parse_interaction hmac K c (hd_now h) rq body = Inr p \<and> px_action_id p = i \<and>
    find_notification i w = Some q \<and> sn_status q \<in> {Sn_posted, Sn_decided} \<and>
    sn_request_digest q = ra_request_digest b \<and> px_request_digest p = ra_request_digest b \<and>
    sn_channel_id q = sc_channel_id c \<and> sn_message_ts q = Some (px_message_ts p) \<and>
    slack_reviewer_of c (px_user_id p) = Some r \<and> px_decision p \<in> set (sr_decisions r) \<and>
    ra_status b = decision_target (px_decision p) \<and> ra_decided_by b = Some (slack_actor c p r) \<and>
    (\<forall>org. sc_organization_id c = Some org \<longrightarrow> ra_organization_id b = org \<and> ra_namespace b \<in> set (sc_namespaces c) \<and>
      (sc_require_separate_approver c \<longrightarrow> ra_requested_by b \<noteq> Some (sr_subject r)))"
proof -
  have ok: "store_ok K s" by (rule reachable_ok [OF assms(1)])
  from assms(5) show ?thesis
  proof (cases rule: slack_handle_cases)
    case refused
    with assms(2,3,6,7) show ?thesis by auto
  next
    case (parsed body p)
    define t where "t = snd (get_action K (hd_read_ns h) (px_action_id p) s)"
    obtain a1 where a1: "store_ok K (hd_others h t)" "sql_view (hd_others h t) i = Some a1" "ra_status a1 = PENDING"
      and same: "\<And>a. sql_view t i = Some a \<Longrightarrow> same_subject a a1"
      using others_leaveD [OF assms(4,1) t_def] by blast
    have read: "snd (st_get_action (sql_store K lease) (hd_read_ns h) (px_action_id p) s) = t" by (simp add: t_def)
    note by_request = slack_sql.decided_by_request [OF ok _ parsed(3) assms(2,3) _ a1(3) assms(6,7), unfolded read, OF a1(1,2)]
    then obtain r where p: "px_action_id p = i"
      and r: "checks_passed (sql_store K lease) h c p r (s, w) t" and by_r: "ra_status b = decision_target (px_decision p)"
        "ra_decided_by b = Some (slack_actor c p r)" "same_subject a1 b"
        "\<forall>org. sc_organization_id c = Some org \<longrightarrow> ra_organization_id a1 = org \<and> ra_namespace a1 \<in> set (sc_namespaces c) \<and>
          (sc_require_separate_approver c \<longrightarrow> ra_requested_by a1 \<noteq> Some (sr_subject r))"
      using read by auto
    obtain a0 where a0: "get_action K (hd_read_ns h) i s = (Inr a0, t)" "ra_request_digest a0 = px_request_digest p"
      using r p by (auto simp: checks_passed_def)
    then have "sql_view t i = Some a0"
      using get_action_cases [OF ok, of "hd_read_ns h" i] by (auto simp: sql_view_def)
    then have "ra_request_digest b = px_request_digest p"
      using same a0(2) by_r(3) by (auto simp: same_subject_def)
    moreover have "signed_by hmac (sc_signing_secret c) rq (hd_now h) body" "px_channel_id p = sc_channel_id c"
      using parse_interaction_InrD [OF parsed(2)] by (auto simp: signed_by_def)
    ultimately show ?thesis
      using parsed(1,2) p r by_r by (fastforce simp: checks_passed_def same_subject_def)
  qed
qed

end
