(* ===== verification/Slack_Demo.thy ===== *)
theory Slack_Demo
  imports Slack_Requests Store_Demo
begin

text \<open>
  The properties of the Slack approvals at a concrete input: one action that waits for approval, its
  notification posted by a worker, and the click of a reviewer, sent twice.
\<close>

section \<open>The runtime\<close>

definition slack_codec :: codec where
  "slack_codec = demo_codec\<lparr>sha256_hex := (\<lambda>_. replicate 64 (CHR ''0''))\<rparr>"

definition slack_row :: action_row where
  "slack_row = new_row slack_codec 10 (demo_request ''a1'' 5) demo_decision None"

definition slack_submitted :: db where
  "slack_submitted = snd (submit slack_codec 10 (demo_request ''a1'' 5) demo_decision empty_db)"

definition slack_user :: slack_reviewer where
  "slack_user = \<lparr>sr_user_id = ''U01'', sr_subject = ''alice'', sr_decisions = [APPROVE, REJECT]\<rparr>"

definition slack_demo_config :: slack_config where
  "slack_demo_config = \<lparr>sc_workspace_id = ''T01'', sc_app_id = ''A01'', sc_channel_id = ''C01'',
     sc_bot_token = ''xoxb-token'', sc_bot_token_env = ''BOT'', sc_signing_secret = ''secret'',
     sc_signing_secret_env = ''SECRET'', sc_reviewers = [slack_user], sc_timeout_seconds = of_int_num 10,
     sc_max_attempts = 5, sc_initial_backoff_seconds = of_int_num 1, sc_max_backoff_seconds = of_int_num 60,
     sc_organization_id = None, sc_namespaces = [], sc_require_separate_approver = False\<rparr>"

definition slack_payload :: json where
  "slack_payload = JObj [(''type'', JStr ''block_actions''), (''api_app_id'', JStr ''A01''),
     (''team'', JObj [(''id'', JStr ''T01'')]), (''channel'', JObj [(''id'', JStr ''C01'')]),
     (''user'', JObj [(''id'', JStr ''U01'')]), (''message'', JObj [(''ts'', JStr ''1.2'')]),
     (''actions'', JList [JObj [(''action_id'', JStr approve_action_id),
        (''value'', JStr (slack_binding slack_codec (row_to_action slack_row)))]])]"

definition slack_demo_hmac :: "string \<Rightarrow> string \<Rightarrow> string" where
  "slack_demo_hmac = (\<lambda>_ _. replicate 64 (CHR ''1''))"

definition slack_click :: slack_request where
  "slack_click = \<lparr>sq_timestamp = Some ''1000'', sq_signature = Some (''v0='' @ replicate 64 (CHR ''1'')),
     sq_content_type = Some ''application/x-www-form-urlencoded'', sq_content_length = None,
     sq_chunks = [''payload='' @ dumps slack_codec slack_payload]\<rparr>"

definition slack_moment :: "db handling" where
  "slack_moment = \<lparr>hd_now = of_int_num 1001, hd_read_ns = 20, hd_others = id, hd_decide_ns = 30,
     hd_reread_ns = 40, hd_store_ns = 50\<rparr>"

definition slack_clicked :: parsed_interaction where
  "slack_clicked = \<lparr>px_signature_digest = replicate 64 (CHR ''0''), px_user_id = ''U01'', px_channel_id = ''C01'',
     px_message_ts = ''1.2'', px_action_id = ''a1'', px_request_digest = replicate 64 (CHR ''0''),
     px_decision = APPROVE\<rparr>"

lemma slack_click_reads:
  "bind_res (read_slack_body slack_click) (parse_interaction slack_demo_hmac slack_codec slack_demo_config (of_int_num 1001) slack_click) =
     Inr slack_clicked"
  by code_simp

section \<open>The notification\<close>

definition slack_none :: slack_db where
  "slack_none = \<lparr>sd_notifications = [], sd_interactions = []\<rparr>"

definition slack_notice :: notification_row where
  "slack_notice = new_notification (\<lambda>t. t) 10 (row_to_action slack_row) ''C01''"

definition slack_enqueued :: slack_db where
  "slack_enqueued = slack_none\<lparr>sd_notifications := [slack_notice]\<rparr>"

definition slack_claimed :: slack_db where
  "slack_claimed = slack_none\<lparr>sd_notifications := [claim_notice 30 10 ''w'' slack_notice]\<rparr>"

definition slack_posted :: slack_db where
  "slack_posted = slack_none\<lparr>sd_notifications := [posted_notice ''1.2'' 200 (claim_notice 30 10 ''w'' slack_notice)]\<rparr>"

lemma slack_row_simps [simp]:
  "r_action_id slack_row = ''a1''" "r_status slack_row = PENDING"
  "r_policy_effect slack_row = REQUIRE_APPROVAL" "r_request_digest slack_row = replicate 64 (CHR ''0'')"
  "r_expires_at_ns slack_row = None" "r_execution_lease_expires_at_ns slack_row = None"
  by (simp_all add: slack_row_def new_row_def demo_request_def demo_decision_def initial_status_def
      request_digest_def slack_codec_def)

lemma slack_notice_simps [simp]:
  "sn_action_id slack_notice = ''a1''" "sn_request_digest slack_notice = replicate 64 (CHR ''0'')"
  "sn_channel_id slack_notice = ''C01''" "sn_status slack_notice = Sn_pending" "sn_attempts slack_notice = 0"
  "sn_next_attempt_at_ns slack_notice = 10" "sn_lease_expires_at_ns slack_notice = None"
  "sn_claimed_by slack_notice = None" "sn_message_ts slack_notice = None"
  by (simp_all add: slack_notice_def new_notification_def)

lemma slack_demo_ts: "message_ts_ok ''1.2''"
  by code_simp

lemma slack_notice_steps:
  "enqueue_notification (\<lambda>t. t) 10 (row_to_action slack_row) ''C01'' slack_none = (Inr True, slack_enqueued)"
  "claim_notification 30 10 ''w'' slack_enqueued = (Inr (Some (notice_of (claim_notice 30 10 ''w'' slack_notice))), slack_claimed)"
  "mark_posted (notice_of (claim_notice 30 10 ''w'' slack_notice)) ''w'' ''1.2'' 200 slack_claimed = (Inr (), slack_posted)"
  by (simp_all add: enqueue_notification_def slack_none_def find_notification_def find_row_def slack_enqueued_def
      slack_notice_def [symmetric] claim_notification_def Let_def release_notice_def notice_lapsed_def
      due_notices_def update_notification_def update_row_def slack_claimed_def blank_iff py_space_def code_def
      mark_posted_def slack_demo_ts owned_notification_def notice_of_def
      claim_notice_def slack_posted_def transaction_def)

lemma slack_demo_reachable:
  "slack_reachable (\<lambda>t. t) 30 slack_enqueued" "slack_reachable (\<lambda>t. t) 30 slack_claimed"
  "slack_reachable (\<lambda>t. t) 30 slack_posted"
proof -
  have init: "slack_reachable (\<lambda>t. t) 30 slack_none" by (simp add: slack_none_def slack_init)
  show 1: "slack_reachable (\<lambda>t. t) 30 slack_enqueued"
    by (rule slack_next [OF init sl_enqueue [OF slack_notice_steps(1)]])
  show 2: "slack_reachable (\<lambda>t. t) 30 slack_claimed" by (rule slack_next [OF 1 sl_claim [OF slack_notice_steps(2)]])
  show "slack_reachable (\<lambda>t. t) 30 slack_posted" by (rule slack_next [OF 2 sl_post [OF slack_notice_steps(3)]])
qed

lemma claimed_notification_is_exclusive_witness:
  "fst (mark_posted (notice_of (claim_notice 30 10 ''w'' slack_notice)) ''w'' ''1.2'' 200 slack_claimed) = Inr () \<and>
   fst (claim_notification 30 39 ''other'' slack_claimed) \<noteq> Inr (Some (notice_of (claim_notice 30 10 ''w'' slack_notice)))"
proof -
  have "others_run (slack_step (\<lambda>t. t) 30) ''w'' (10 + 30) slack_claimed slack_claimed" by (rule others_none)
  from claimed_notification_is_exclusive [OF slack_demo_reachable(1) slack_notice_steps(2) this]
  have own: "fst (mark_posted (notice_of (claim_notice 30 10 ''w'' slack_notice)) ''w'' ''1.2'' 200 slack_claimed) = Inr ()"
    and none: "\<And>n w. claim_notification 30 39 ''other'' slack_claimed = (Inr (Some n), w) \<Longrightarrow>
      nt_action_id n \<noteq> nt_action_id (notice_of (claim_notice 30 10 ''w'' slack_notice))"
    using slack_demo_ts by force+
  show ?thesis using own none by (metis prod.collapse)
qed

lemma posted_message_stays_bound_witness:
  "posted_as slack_posted ''a1'' (bound_to slack_notice) ''1.2'' \<and>
   fst (claim_notification 30 99 ''w'' slack_posted) \<noteq> Inr (Some (notice_of (claim_notice 30 10 ''w'' slack_notice)))"
proof -
  have "posted_as slack_posted ''a1'' (bound_to slack_notice) ''1.2''"
    by (simp add: posted_as_def slack_posted_def slack_none_def find_notification_def find_row_def
        posted_notice_def claim_notice_def bound_to_def)
  moreover have "slack_later (\<lambda>t. t) 30 slack_posted slack_posted" by (simp add: slack_later_def)
  ultimately have "posted_as slack_posted ''a1'' (bound_to slack_notice) ''1.2''"
    "claim_notification 30 99 ''w'' slack_posted = (Inr (Some n), w) \<Longrightarrow> nt_action_id n \<noteq> ''a1''" for n w
    using posted_message_stays_bound [OF slack_demo_reachable(3)] by blast+
  moreover have "nt_action_id (notice_of (claim_notice 30 10 ''w'' slack_notice)) = ''a1''"
    by (simp add: notice_of_def claim_notice_def)
  ultimately show ?thesis by (metis prod.collapse)
qed

section \<open>The message\<close>

lemma slack_demo_interactive:
  "slack_interactive slack_codec (row_to_action slack_row) (dumps slack_codec (ra_arguments (row_to_action slack_row)))"
  "json_finite (ra_arguments (row_to_action slack_row))"
  by code_simp+

lemma slack_demo_message:
  "\<exists>m b. build_slack_notification slack_codec (row_to_action slack_row) ''C01'' ''id'' = Inr m \<and> b \<in> set (message_buttons m)"
proof -
  obtain m where m: "build_slack_notification slack_codec (row_to_action slack_row) ''C01'' ''id'' = Inr m"
    using slack_demo_interactive(2)
    by (auto simp: build_slack_notification_def Let_def canonical_json_Inr_iff result_simps json_result_Inr_iff)
  have "slack_buttons slack_codec (row_to_action slack_row) \<in> set (view_list m ''blocks'')"
    using notification_blocks [OF m] slack_demo_interactive(1) by auto
  then have "decision_button ''Approve'' approve_action_id (slack_binding slack_codec (row_to_action slack_row)) ''primary''
      ''Approve this exact action?'' \<in> set (message_buttons m)"
    by (auto simp: message_buttons_def slack_buttons_elements intro!: bexI)
  with m show ?thesis by blast
qed

lemma buttons_bind_exact_action_witness:
  "\<exists>m b ident v. build_slack_notification slack_codec (row_to_action slack_row) ''C01'' ''id'' = Inr m \<and>
     b \<in> set (message_buttons m) \<and> view_get b ''value'' = Some (VText (points v)) \<and>
     parse_button slack_codec (JObj [(''action_id'', JStr ident), (''value'', JStr v)]) =
       Inr (if ident = approve_action_id then APPROVE else REJECT, ''a1'', replicate 64 (CHR ''0''))"
proof -
  obtain m b where m: "build_slack_notification slack_codec (row_to_action slack_row) ''C01'' ''id'' = Inr m"
    "b \<in> set (message_buttons m)"
    using slack_demo_message by blast
  have "codec_ok slack_codec" using demo_codec_ok by (simp add: codec_ok_def slack_codec_def)
  moreover have "json_wf (ra_arguments (row_to_action slack_row))" by code_simp
  moreover have "\<not> blank (ra_action_id (row_to_action slack_row))" by code_simp
  moreover have "ra_action_id (row_to_action slack_row) = ''a1''"
    "ra_request_digest (row_to_action slack_row) = replicate 64 (CHR ''0'')" by simp_all
  ultimately show ?thesis using buttons_bind_exact_action [OF _ _ _ m] m by metis
qed

section \<open>The click\<close>

lemma slack_submit:
  "db_actions slack_submitted = [slack_row]" "find_action i slack_submitted = (if i = ''a1'' then Some slack_row else None)"
  "reachable slack_codec 100 slack_submitted"
proof -
  have s: "slack_submitted = inserted slack_codec 10 (demo_request ''a1'' 5) demo_decision None empty_db"
    by (simp add: slack_submitted_def submit_def submit_tx_def demo_decision_def demo_request_def empty_db_def
        decision_ttl_ns_def inserted_def require_row_def Let_def)
  show rows: "db_actions slack_submitted = [slack_row]"
    by (simp add: s inserted_def empty_db_def slack_row_def)
  show "find_action i slack_submitted = (if i = ''a1'' then Some slack_row else None)"
    by (simp add: rows find_row_def)
  show "reachable slack_codec 100 slack_submitted"
    unfolding slack_submitted_def by (rule reach_step [OF reach_init step_submit], rule prod.collapse [symmetric])
qed

lemma slack_demo_read: "snd (get_action slack_codec 20 i slack_submitted) = slack_submitted"
  "get_action slack_codec 20 ''a1'' slack_submitted = (Inr (row_to_action slack_row), slack_submitted)"
proof -
  have row: "refreshed slack_codec 20 slack_row slack_submitted = (slack_row, slack_submitted)"
    by (simp add: refreshed_def expiring_def abandoned_def due_def)
  show a1: "get_action slack_codec 20 ''a1'' slack_submitted = (Inr (row_to_action slack_row), slack_submitted)"
    by (rule get_action_refreshed [OF _ row]) (simp add: slack_submit)
  show "snd (get_action slack_codec 20 i slack_submitted) = slack_submitted"
    using a1 by (cases "i = ''a1''") (auto simp: get_action_def require_row_def slack_submit transaction_def)
qed

lemma slack_moment_simps [simp]:
  "hd_now slack_moment = of_int_num 1001" "hd_read_ns slack_moment = 20" "hd_others slack_moment = id"
  "hd_decide_ns slack_moment = 30" "hd_store_ns slack_moment = 50"
  by (simp_all add: slack_moment_def)

lemma slack_demo_pending: "others_leave_pending slack_codec 100 slack_moment ''a1'' slack_submitted"
  by (simp add: others_leave_pending_def Let_def slack_demo_read later_refl sql_view_def slack_submit)

definition slack_approver :: string where
  "slack_approver = slack_actor slack_demo_config slack_clicked slack_user"

definition slack_approved_row :: action_row where
  "slack_approved_row = decided_row APPROVED 30 slack_approver (Some slack_reason) slack_row"

definition slack_approved :: db where
  "slack_approved = snd (decide slack_codec 30 ''a1'' APPROVE slack_approver (Some slack_reason) slack_submitted)"

lemma slack_demo_decide:
  "decide slack_codec 30 ''a1'' APPROVE slack_approver (Some slack_reason) slack_submitted =
     (Inr (row_to_action slack_approved_row), slack_approved)"
  "find_action ''a1'' slack_approved = Some slack_approved_row"
proof -
  have find: "find_action ''a1'' slack_submitted = Some slack_row" by (simp add: slack_submit)
  have "\<not> blank slack_approver" by code_simp
  then have eq: "decide slack_codec 30 ''a1'' APPROVE slack_approver (Some slack_reason) slack_submitted =
      (Inr (row_to_action slack_approved_row), transition slack_codec ''a1''
        (decided_row APPROVED 30 slack_approver (Some slack_reason)) Ev_APPROVED 30 (replicate 64 (CHR ''0''))
        (Some slack_approver) (Some slack_reason) slack_submitted)"
    using decide_succeeds [OF find, of 30 slack_approver slack_codec APPROVE "Some slack_reason"]
    by (simp add: due_def decision_target_def decision_event_def slack_approved_row_def)
  then show "decide slack_codec 30 ''a1'' APPROVE slack_approver (Some slack_reason) slack_submitted =
      (Inr (row_to_action slack_approved_row), slack_approved)"
    by (simp add: slack_approved_def)
  have s: "slack_approved = transition slack_codec ''a1''
        (decided_row APPROVED 30 slack_approver (Some slack_reason)) Ev_APPROVED 30 (replicate 64 (CHR ''0''))
        (Some slack_approver) (Some slack_reason) slack_submitted"
    using eq by (simp add: slack_approved_def)
  show "find_action ''a1'' slack_approved = Some slack_approved_row"
    by (simp add: s slack_submit find_row_def slack_approved_row_def decided_row_def)
qed

text \<open>The first handling of the click approves the action.\<close>

lemma slack_clicked_simps [simp]:
  "px_action_id slack_clicked = ''a1''" "px_request_digest slack_clicked = replicate 64 (CHR ''0'')"
  "px_channel_id slack_clicked = ''C01''" "px_message_ts slack_clicked = ''1.2''" "px_user_id slack_clicked = ''U01''"
  "px_decision slack_clicked = APPROVE" "px_signature_digest slack_clicked = replicate 64 (CHR ''0'')"
  by (simp_all add: slack_clicked_def)

lemma slack_demo_digests [simp]:
  "compare_digest (replicate 64 (CHR ''0'')) (replicate 64 (CHR ''0'')) = Inr True"
  "compare_digest ''C01'' ''C01'' = Inr True" "compare_digest ''1.2'' ''1.2'' = Inr True"
  by code_simp+

lemma slack_posted_row: "find_notification ''a1'' slack_posted = Some (posted_notice ''1.2'' 200 (claim_notice 30 10 ''w'' slack_notice))"
  by (simp add: slack_posted_def slack_none_def find_notification_def find_row_def posted_notice_def claim_notice_def)

lemma slack_demo_checks:
  "interaction_outcome (replicate 64 (CHR ''0'')) slack_posted = None"
  "require_message_binding ''a1'' (replicate 64 (CHR ''0'')) ''C01'' ''1.2'' slack_posted =
     Inr (notification_of (posted_notice ''1.2'' 200 (claim_notice 30 10 ''w'' slack_notice)))"
  "slack_reviewer_of slack_demo_config ''U01'' = Some slack_user" "sr_decisions slack_user = [APPROVE, REJECT]"
  "slack_can_access slack_demo_config (row_to_action slack_row)" "sc_organization_id slack_demo_config = None"
proof -
  show "interaction_outcome (replicate 64 (CHR ''0'')) slack_posted = None"
    by (simp add: interaction_outcome_def slack_posted_def slack_none_def find_row_def)
  show "require_message_binding ''a1'' (replicate 64 (CHR ''0'')) ''C01'' ''1.2'' slack_posted =
     Inr (notification_of (posted_notice ''1.2'' 200 (claim_notice 30 10 ''w'' slack_notice)))"
    by (simp add: require_message_binding_def slack_posted_row binding_matches_def) (simp add: posted_notice_def claim_notice_def)
qed (simp_all add: slack_reviewer_of_def slack_demo_config_def slack_user_def slack_can_access_def)

lemma slack_demo_recorded:
  "\<exists>task w'. decided_interaction 50 slack_demo_config slack_clicked slack_user (row_to_action slack_approved_row) slack_posted =
     (Inr task, w')"
proof -
  have row: "r_action_id slack_approved_row = ''a1''" "r_status slack_approved_row = APPROVED"
    "r_request_digest slack_approved_row = replicate 64 (CHR ''0'')"
    by (simp_all add: slack_approved_row_def decided_row_def)
  have outcome: "\<not> blank (status_text APPROVED)" "length (status_text APPROVED) \<le> 64" by code_simp+
  then show ?thesis
    by (simp add: decided_interaction_def mark_and_record_def mark_decided_def slack_posted_row row transaction_def)
      (simp add: posted_notice_def claim_notice_def record_parsed_def record_interaction_def transaction_def)
qed

lemma slack_demo_handled:
  "\<exists>task w'. slack_handle (sql_store slack_codec 100) slack_demo_hmac slack_codec slack_demo_config slack_moment slack_click
     (slack_submitted, slack_posted) = (Inr task, slack_approved, w')"
proof -
  obtain task w' where recorded: "decided_interaction 50 slack_demo_config slack_clicked slack_user
      (row_to_action slack_approved_row) slack_posted = (Inr task, w')"
    using slack_demo_recorded by blast
  have "slack_decide (sql_store slack_codec 100) 30 slack_demo_config slack_clicked slack_user slack_submitted =
      (Inr (row_to_action slack_approved_row), slack_approved)"
    using slack_demo_decide(1) by (simp add: slack_decide_def slack_demo_checks slack_approver_def sql_store_def)
  with recorded have "check_interaction (sql_store slack_codec 100) slack_moment slack_demo_config slack_clicked
      (slack_submitted, slack_posted) = (Inr task, slack_approved, w')"
    by (simp add: check_interaction_def Let_def slack_demo_checks slack_demo_read decide_interaction_def)
  then show ?thesis using slack_click_reads by (simp add: slack_handle_def)
qed

lemma slack_decision_is_genuine_witness:
  "\<exists>task w' b. slack_handle (sql_store slack_codec 100) slack_demo_hmac slack_codec slack_demo_config slack_moment slack_click
      (slack_submitted, slack_posted) = (Inr task, slack_approved, w') \<and>
    sql_view slack_approved ''a1'' = Some b \<and> ra_status b = APPROVED \<and>
    (\<exists>p r. slack_reviewer_of slack_demo_config (px_user_id p) = Some r \<and>
       ra_decided_by b = Some (slack_actor slack_demo_config p r))"
proof -
  obtain task w' where handled: "slack_handle (sql_store slack_codec 100) slack_demo_hmac slack_codec slack_demo_config
      slack_moment slack_click (slack_submitted, slack_posted) = (Inr task, slack_approved, w')"
    using slack_demo_handled by blast
  have views: "sql_view slack_submitted ''a1'' = Some (row_to_action slack_row)" "ra_status (row_to_action slack_row) = PENDING"
    "sql_view slack_approved ''a1'' = Some (row_to_action slack_approved_row)"
    "ra_status (row_to_action slack_approved_row) = APPROVED"
    using slack_demo_decide(2) by (simp_all add: sql_view_def slack_submit slack_approved_row_def decided_row_def)
  with slack_decision_is_genuine [OF slack_submit(3) views(1,2) slack_demo_pending handled views(3)] handled
  show ?thesis by auto
qed

lemma slack_replay_changes_nothing_witness:
  "\<exists>task w' res. slack_handle (sql_store slack_codec 100) slack_demo_hmac slack_codec slack_demo_config slack_moment slack_click
      (slack_submitted, slack_posted) = (Inr task, slack_approved, w') \<and>
    slack_handle (sql_store slack_codec 100) slack_demo_hmac slack_codec slack_demo_config
      (slack_moment\<lparr>hd_now := of_int_num 1002\<rparr>) slack_click (slack_approved, w') = (res, slack_approved, w')"
proof -
  obtain task w' where handled: "slack_handle (sql_store slack_codec 100) slack_demo_hmac slack_codec slack_demo_config
      slack_moment slack_click (slack_submitted, slack_posted) = (Inr task, slack_approved, w')"
    using slack_demo_handled by blast
  have "slack_later (\<lambda>t. t) 30 w' w'" by (simp add: slack_later_def)
  from slack_replay_changes_nothing [OF handled refl this] handled show ?thesis by blast
qed

section \<open>The configuration\<close>

definition slack_document :: json where
  "slack_document = JObj [(''version'', JStr ''1''), (''workspace_id'', JStr ''T01''), (''app_id'', JStr ''A01''),
     (''channel_id'', JStr ''C01''), (''bot_token_env'', JStr ''BOT''), (''signing_secret_env'', JStr ''SIGN''),
     (''reviewers'', JList [JObj [(''user_id'', JStr ''U01''), (''subject'', JStr ''alice'')]])]"

definition slack_environment :: "string \<Rightarrow> string option" where
  "slack_environment = [''BOT'' \<mapsto> ''xoxb-'' @ replicate 20 (CHR ''t''), ''SIGN'' \<mapsto> replicate 32 (CHR ''s'')]"


end
