(* ===== verification/Dash_Session.thy ===== *)
theory Dash_Session
  imports Auth
begin

text \<open>
  The browser sessions of service/dashboard.py: \<open>DashboardSession\<close> and \<open>DashboardSessionStore\<close>. The
  dictionary of sessions is the list of its items, by the digest of a token; the token itself is not
  kept. A call takes the time it reads; creation also takes what the random generator yields.
\<close>

text \<open>\<open>_OPAQUE_TOKEN_PATTERN.fullmatch\<close>\<close>

definition opaque_token_ok :: "string \<Rightarrow> bool" where
  "opaque_token_ok t = (32 \<le> length t \<and> length t \<le> 128 \<and>
     list_all (\<lambda>c. ascii_alnum c \<or> c = CHR ''_'' \<or> c = CHR ''-'') t)"

record dash_session =
  dh_principal :: principal
  dh_csrf_token :: string
  dh_expires_at_ns :: int

type_synonym dash_sessions = "(string \<times> dash_session) list"

record session_config =
  dl_ttl_seconds :: pyfloat
  dl_ttl_ns :: int
  dl_max_sessions :: int

definition make_session_store :: "pyfloat \<Rightarrow> int \<Rightarrow> runtime_error + session_config" where
  "make_session_store ttl_seconds max_sessions =
     (if \<not> is_finite ttl_seconds \<or> num_le ttl_seconds (of_int_num 0) then
        Inl (ValueError ''dashboard session TTL must be finite and greater than zero'')
      else if num_less (of_int_num 604800) ttl_seconds then
        Inl (ValueError ''dashboard session TTL must not exceed seven days'')
      else case seconds_to_ns ttl_seconds of
        None \<Rightarrow> Inl OverflowError
      | Some ttl_ns \<Rightarrow>
          if ttl_ns < 1 then Inl (ValueError ''dashboard session TTL must be at least one nanosecond'')
          else if max_sessions < 1 then
            Inl (ValueError ''dashboard max_sessions must be a positive integer'')
          else Inr \<lparr>dl_ttl_seconds = ttl_seconds, dl_ttl_ns = ttl_ns, dl_max_sessions = max_sessions\<rparr>)"

definition session_digest :: "codec \<Rightarrow> string \<Rightarrow> string" where
  "session_digest K token = sha256_hex K token"

definition remove_expired :: "int \<Rightarrow> dash_sessions \<Rightarrow> dash_sessions" where
  "remove_expired now ss = filter (\<lambda>(_, h). now < dh_expires_at_ns h) ss"

definition drop_session :: "string \<Rightarrow> dash_sessions \<Rightarrow> dash_sessions" where
  "drop_session digest ss = filter (\<lambda>(k, _). k \<noteq> digest) ss"

text \<open>
  The loop that draws a token until its digest is new. It need not end, so its value is an option;
  \<open>tokens i\<close> is the generator's i-th answer.
\<close>

partial_function (option) draw_token :: "codec \<Rightarrow> dash_sessions \<Rightarrow> (nat \<Rightarrow> string) \<Rightarrow> nat \<Rightarrow> string option" where
  "draw_token K ss tokens i =
     (if session_digest K (tokens i) \<in> set (map fst ss) then draw_token K ss tokens (Suc i)
      else Some (tokens i))"

declare draw_token.simps [code]

text \<open>\<open>create\<close> returns, raises its \<open>RuntimeError\<close>, or does not end.\<close>

datatype session_creation = Session_Created string dash_session | Capacity_Exhausted | Still_Drawing

definition create_session ::
  "codec \<Rightarrow> session_config \<Rightarrow> int \<Rightarrow> (nat \<Rightarrow> string) \<Rightarrow> string \<Rightarrow> principal \<Rightarrow> dash_sessions \<Rightarrow>
   session_creation \<times> dash_sessions" where
  "create_session K c now tokens csrf p ss =
     (let live = remove_expired now ss in
      if dl_max_sessions c \<le> int (length live) then (Capacity_Exhausted, live)
      else case draw_token K live tokens 0 of
        None \<Rightarrow> (Still_Drawing, live)
      | Some token \<Rightarrow>
          let h = \<lparr>dh_principal = p, dh_csrf_token = csrf, dh_expires_at_ns = now + dl_ttl_ns c\<rparr>
          in (Session_Created token h, live @ [(session_digest K token, h)]))"

definition get_session ::
  "codec \<Rightarrow> int \<Rightarrow> string option \<Rightarrow> dash_sessions \<Rightarrow> dash_session option \<times> dash_sessions" where
  "get_session K now token ss = (case token of
     None \<Rightarrow> (None, ss)
   | Some t \<Rightarrow>
       if \<not> opaque_token_ok t then (None, ss)
       else (case map_of ss (session_digest K t) of
         None \<Rightarrow> (None, ss)
       | Some h \<Rightarrow>
           if dh_expires_at_ns h \<le> now then (None, drop_session (session_digest K t) ss)
           else (Some h, ss)))"

definition delete_session :: "codec \<Rightarrow> string option \<Rightarrow> dash_sessions \<Rightarrow> dash_sessions" where
  "delete_session K token ss = (case token of
     None \<Rightarrow> ss
   | Some t \<Rightarrow> if \<not> opaque_token_ok t then ss else drop_session (session_digest K t) ss)"

section \<open>What the store keeps\<close>

definition sessions_wf :: "session_config \<Rightarrow> dash_sessions \<Rightarrow> bool" where
  "sessions_wf c ss \<longleftrightarrow> distinct (map fst ss) \<and> int (length ss) \<le> dl_max_sessions c"

lemma map_of_filter_key: "map_of (filter (\<lambda>(k, _). k \<noteq> d) ss) e = (if e = d then None else map_of ss e)"
  by (induction ss) auto

lemma map_of_drop [simp]: "map_of (drop_session d ss) e = (if e = d then None else map_of ss e)"
  by (simp add: drop_session_def map_of_filter_key)

lemma sessions_wf_filter: "sessions_wf c ss \<Longrightarrow> sessions_wf c (filter P ss)"
  by (auto simp: sessions_wf_def distinct_map_filter intro: order_trans [OF of_nat_mono [OF length_filter_le]])

lemma sessions_wf_shrinks:
  assumes "sessions_wf c ss"
  shows "sessions_wf c (remove_expired now ss)" "sessions_wf c (drop_session d ss)"
    "sessions_wf c (delete_session K t ss)"
  using sessions_wf_filter [OF assms] assms
  by (auto simp: remove_expired_def drop_session_def delete_session_def split: option.splits)

lemma get_session_wf: "sessions_wf c ss \<Longrightarrow> sessions_wf c (snd (get_session K now t ss))"
  using sessions_wf_shrinks(2) by (auto simp: get_session_def split: option.splits)

lemma get_session_subset: "set (snd (get_session K now t ss)) \<subseteq> set ss"
  by (auto simp: get_session_def drop_session_def split: option.splits)

lemma delete_session_subset: "set (delete_session K t ss) \<subseteq> set ss"
  by (auto simp: delete_session_def drop_session_def split: option.splits)

lemma get_session_SomeD:
  assumes "get_session K now t ss = (Some h, ss')"
  shows "\<exists>tok. t = Some tok \<and> opaque_token_ok tok \<and> map_of ss (session_digest K tok) = Some h \<and>
    now < dh_expires_at_ns h \<and> ss' = ss"
  using assms by (auto simp: get_session_def split: option.splits if_splits)

lemma draw_token_fresh: "draw_token K ss tokens i = Some t \<Longrightarrow> session_digest K t \<notin> set (map fst ss)"
  by (erule draw_token.raw_induct [rotated, where P = "\<lambda>K ss tokens i t. session_digest K t \<notin> set (map fst ss)"])
    (auto split: if_splits)

lemma draw_token_member: "draw_token K ss tokens i = Some t \<Longrightarrow> \<exists>j. t = tokens j"
  by (erule draw_token.raw_induct [rotated, where P = "\<lambda>K ss tokens i t. \<exists>j. t = tokens j"])
    (auto split: if_splits)

text \<open>The loop ends as soon as the generator yields a token whose digest is not in use.\<close>

lemma draw_token_ends:
  assumes "session_digest K (tokens (i + n)) \<notin> set (map fst ss)"
  shows "\<exists>t. draw_token K ss tokens i = Some t"
  using assms
proof (induction n arbitrary: i)
  case 0
  then show ?case by (subst draw_token.simps) simp
next
  case (Suc n)
  from Suc.prems have "\<exists>t. draw_token K ss tokens (Suc i) = Some t" by (intro Suc.IH) simp
  then show ?case by (subst draw_token.simps) simp
qed

lemma create_session_CreatedD:
  assumes "create_session K c now tokens csrf p ss = (Session_Created t h, ss')"
  shows "int (length (remove_expired now ss)) < dl_max_sessions c"
    and "session_digest K t \<notin> set (map fst (remove_expired now ss))" and "\<exists>j. t = tokens j"
    and "h = \<lparr>dh_principal = p, dh_csrf_token = csrf, dh_expires_at_ns = now + dl_ttl_ns c\<rparr>"
    and "ss' = remove_expired now ss @ [(session_digest K t, h)]"
  using assms draw_token_fresh [of K "remove_expired now ss" tokens 0 t] draw_token_member [of K _ tokens 0 t]
  by (auto simp: create_session_def Let_def split: if_splits option.splits)

lemma create_session_other:
  assumes "create_session K c now tokens csrf p ss = (r, ss')" "\<And>t h. r \<noteq> Session_Created t h"
  shows "ss' = remove_expired now ss"
  using assms by (auto simp: create_session_def Let_def split: if_splits option.splits)

lemma create_session_wf:
  assumes "sessions_wf c ss" "create_session K c now tokens csrf p ss = (r, ss')"
  shows "sessions_wf c ss'"
proof (cases r)
  case (Session_Created t h)
  with assms(2) have "create_session K c now tokens csrf p ss = (Session_Created t h, ss')" by simp
  from create_session_CreatedD(1,2,5) [OF this] sessions_wf_shrinks(1) [OF assms(1), of now] show ?thesis
    by (simp add: sessions_wf_def)
next
  case Capacity_Exhausted
  with assms sessions_wf_shrinks(1) show ?thesis by (metis create_session_other session_creation.distinct(1))
next
  case Still_Drawing
  with assms sessions_wf_shrinks(1) show ?thesis by (metis create_session_other session_creation.distinct(3))
qed

end
