(* ===== verification/Dash_Html.thy ===== *)
theory Dash_Html
  imports Serialization Api Dash_Session
begin

text \<open>
  The text of the pages of service/dashboard.py. A page is the UTF-8 bytes that the response sends, so
  a value from outside goes through \<open>escaped\<close>: the entities of \<open>html.escape\<close>, then UTF-8. The
  characters of the templates beyond ASCII are written as their bytes. With them, what the pages use
  of the library: \<open>quote\<close>, \<open>json.dumps\<close> with an indentation, \<open>datetime.fromtimestamp\<close> and
  \<open>isoformat\<close> for UTC.
\<close>

section \<open>Escaping\<close>

definition utf8_char :: "char \<Rightarrow> string" where
  "utf8_char c = (if code c < 128 then [c] else [char_of (192 + code c div 64), char_of (128 + code c mod 64)])"

definition utf8_encode :: "string \<Rightarrow> string" where
  "utf8_encode s = concat (map utf8_char s)"

text \<open>\<open>html.escape\<close>, quotes included.\<close>

definition html_entity :: "char \<Rightarrow> string" where
  "html_entity c =
     (if c = CHR ''&'' then ''&amp;'' else if c = CHR ''<'' then ''&lt;'' else if c = CHR ''>'' then ''&gt;''
      else if code c = 34 then ''&quot;'' else if code c = 39 then ''&#x27;'' else [c])"

definition html_escape :: "string \<Rightarrow> string" where
  "html_escape s = concat (map html_entity s)"

definition escaped :: "string \<Rightarrow> string" where
  "escaped s = utf8_encode (html_escape s)"

definition hex_upper :: "nat \<Rightarrow> char" where
  "hex_upper n = (if n < 10 then char_of (48 + n) else char_of (55 + n))"

definition quote_byte :: "char \<Rightarrow> string" where
  "quote_byte c = (if ascii_alnum c \<or> c \<in> set ''_.-~'' then [c]
     else [CHR ''%'', hex_upper (code c div 16), hex_upper (code c mod 16)])"

text \<open>\<open>quote(text, safe="")\<close>\<close>

definition url_quote :: "string \<Rightarrow> string" where
  "url_quote s = concat (map quote_byte (utf8_encode s))"

definition nl :: "nat \<Rightarrow> string" where
  "nl n = CHR 0x0A # replicate n (CHR '' '')"

definition lines_of :: "nat \<Rightarrow> string list \<Rightarrow> string" where
  "lines_of n ls = join_on (nl n) ls"

section \<open>JSON blocks\<close>

text \<open>Without \<open>ensure_ascii\<close>.\<close>

definition json_char :: "char \<Rightarrow> string" where
  "json_char c = (if 127 \<le> code c then [c] else escape_char c)"

definition json_string :: "string \<Rightarrow> string" where
  "json_string s = CHR 0x22 # concat (map json_char s) @ [CHR 0x22]"

definition json_float :: "codec \<Rightarrow> pyfloat \<Rightarrow> string" where
  "json_float K x = (case x of NaN \<Rightarrow> ''NaN'' | PInf \<Rightarrow> ''Infinity'' | NInf \<Rightarrow> ''-Infinity''
     | _ \<Rightarrow> float_repr K x)"

fun pretty :: "codec \<Rightarrow> nat \<Rightarrow> json \<Rightarrow> string"
  and pretty_items :: "codec \<Rightarrow> nat \<Rightarrow> json list \<Rightarrow> string"
  and pretty_members :: "codec \<Rightarrow> nat \<Rightarrow> (string \<times> json) list \<Rightarrow> string" where
  "pretty K n JNull = ''null''"
| "pretty K n (JBool b) = (if b then ''true'' else ''false'')"
| "pretty K n (JInt i) = show_int i"
| "pretty K n (JFloat x) = json_float K x"
| "pretty K n (JStr s) = json_string s"
| "pretty K n (JList xs) = (if xs = [] then ''[]''
     else CHR ''['' # nl (2 * Suc n) @ pretty_items K (Suc n) xs @ nl (2 * n) @ '']'')"
| "pretty K n (JObj kvs) = (if kvs = [] then ''{}''
     else CHR ''{'' # nl (2 * Suc n) @ pretty_members K (Suc n) kvs @ nl (2 * n) @ ''}'')"
| "pretty_items K n [] = []"
| "pretty_items K n (x # xs) =
     pretty K n x @ (if xs = [] then [] else CHR '','' # nl (2 * n) @ pretty_items K n xs)"
| "pretty_members K n [] = []"
| "pretty_members K n (kv # kvs) =
     json_string (fst kv) @ '': '' @ pretty K n (snd kv) @
       (if kvs = [] then [] else CHR '','' # nl (2 * n) @ pretty_members K n kvs)"

text \<open>\<open>json.dumps(value, indent=2, sort_keys=True, ensure_ascii=False)\<close>\<close>

definition json_block :: "codec \<Rightarrow> json \<Rightarrow> string" where
  "json_block K v = ''<pre>'' @ escaped (pretty K 0 (json_norm v)) @ ''</pre>''"

section \<open>Timestamps\<close>

text \<open>\<open>a / b\<close> for integers, rounded once: the quotient to 120 more bits and whether something is left.\<close>

definition int_true_div :: "int \<Rightarrow> int \<Rightarrow> pyfloat" where
  "int_true_div a b =
     (let n = \<bar>a\<bar> * 2 ^ 120; q = n div b
      in round64 (sgn a * (2 * q + (if n mod b = 0 then 0 else 1))) (- 121))"

text \<open>The seconds and microseconds of a float, rounded to even as \<open>fromtimestamp\<close> does.\<close>

definition float_timeval :: "pyfloat \<Rightarrow> (int \<times> int) option" where
  "float_timeval x = (case x of
     Fin m e \<Rightarrow>
       (let whole = (if 0 \<le> e then m * 2 ^ nat e else signed m (nat \<bar>m\<bar> div 2 ^ nat (- e)));
            part = (if 0 \<le> e then 0 else signed m (nat \<bar>m\<bar> mod 2 ^ nat (- e)));
            us = (case round64 (part * 1000000) e of
                Fin k f \<Rightarrow> if 0 \<le> f then k * 2 ^ nat f else signed k (rne_shift (nat \<bar>k\<bar>) (nat (- f)))
              | _ \<Rightarrow> 0)
        in Some (if 1000000 \<le> us then (whole + 1, us - 1000000)
          else if us < 0 then (whole - 1, us + 1000000) else (whole, us)))
   | NegZero \<Rightarrow> Some (0, 0)
   | _ \<Rightarrow> None)"

text \<open>Year, month and day of a day counted from 1 January 1970, in the Gregorian calendar.\<close>

definition civil_date :: "int \<Rightarrow> int \<times> int \<times> int" where
  "civil_date days =
     (let z = days + 719468; era = z div 146097; doe = z mod 146097;
          yoe = (doe - doe div 1460 + doe div 36524 - doe div 146096) div 365;
          doy = doe - (365 * yoe + yoe div 4 - yoe div 100);
          mp = (5 * doy + 2) div 153;
          month = (if mp < 10 then mp + 3 else mp - 9)
      in (yoe + era * 400 + (if month \<le> 2 then 1 else 0), month, doy - (153 * mp + 2) div 5 + 1))"

definition padded :: "nat \<Rightarrow> int \<Rightarrow> string" where
  "padded n i = (let s = show_int i in replicate (n - length s) (CHR ''0'') @ s)"

definition iso_text :: "int \<Rightarrow> int \<Rightarrow> string" where
  "iso_text secs us = (case civil_date (secs div 86400) of (year, month, day) \<Rightarrow>
     let t = secs mod 86400 in
     padded 4 year @ ''-'' @ padded 2 month @ ''-'' @ padded 2 day @ ''T'' @ padded 2 (t div 3600) @ '':'' @
       padded 2 (t div 60 mod 60) @ '':'' @ padded 2 (t mod 60) @
       (if us = 0 then [] else CHR ''.'' # padded 6 us) @ ''+00:00'')"

definition timestamp_text :: "int \<Rightarrow> runtime_error + string" where
  "timestamp_text value_ns = (case float_timeval (int_true_div value_ns 1000000000) of
     None \<Rightarrow> Inl OverflowError
   | Some (secs, us) \<Rightarrow>
       if fst (civil_date (secs div 86400)) \<notin> {1..9999} then Inl (ValueError ''year is out of range'')
       else Inr (iso_text secs us))"

section \<open>The style sheet\<close>

definition dashboard_css :: string where
  "dashboard_css = lines_of 0
     ['':root { color-scheme: light; font-family: Inter, ui-sans-serif, system-ui, sans-serif; }'',
      ''* { box-sizing: border-box; }'',
      ''body { margin: 0; color: #172033; background: #f5f7fb; line-height: 1.5; }'',
      ''a { color: #155eef; }'',
      ''a:focus-visible, button:focus-visible, input:focus-visible, textarea:focus-visible {'',
      ''  outline: 3px solid #84adff; outline-offset: 2px;'',
      ''}'',
      ''.skip { position: absolute; left: -9999px; }'',
      ''.skip:focus { left: 1rem; top: 1rem; z-index: 10; background: white; padding: .75rem; }'',
      ''header { background: #111827; color: white; padding: 1rem 0; }'',
      ''.shell { width: min(1120px, calc(100% - 2rem)); margin: 0 auto; }'',
      ''.bar { display: flex; gap: 1rem; align-items: center; justify-content: space-between; flex-wrap: wrap; }'',
      ''.brand { color: white; text-decoration: none; font-weight: 750; font-size: 1.1rem; }'',
      ''main { padding: 2rem 0 4rem; }'',
      ''.card { background: white; border: 1px solid #dfe4ec; border-radius: .75rem; padding: 1.25rem; margin-bottom: 1rem; box-shadow: 0 1px 2px #1018280d; }'',
      ''.narrow { max-width: 32rem; margin: 3rem auto; }'',
      ''h1 { font-size: 1.75rem; margin: 0 0 .5rem; }'',
      ''h2 { font-size: 1.15rem; margin: 0 0 .75rem; }'',
      ''p { margin: .5rem 0 1rem; }'',
      ''.muted { color: #526078; }'',
      ''.notice { border-left: .3rem solid #155eef; background: #eff4ff; padding: .75rem 1rem; margin: 1rem 0; }'',
      ''.error { border-left-color: #b42318; background: #fef3f2; }'',
      ''.grid { display: grid; grid-template-columns: repeat(auto-fit, minmax(15rem, 1fr)); gap: 1rem; }'',
      ''.metric { font-size: 1.6rem; font-weight: 750; display: block; }'',
      ''label { display: block; font-weight: 650; margin: 1rem 0 .35rem; }'',
      ''input, textarea, select { width: 100%; border: 1px solid #98a2b3; border-radius: .4rem; padding: .65rem; font: inherit; background: white; }'',
      ''textarea { min-height: 6rem; resize: vertical; }'',
      ''button, .button { border: 0; border-radius: .4rem; padding: .65rem 1rem; font: inherit; font-weight: 700; cursor: pointer; background: #155eef; color: white; text-decoration: none; display: inline-block; }'',
      ''.danger { background: #b42318; }'',
      ''.secondary { background: #344054; }'',
      ''.actions { display: flex; flex-wrap: wrap; gap: .75rem; align-items: end; }'',
      ''.inline { display: inline; }'',
      ''table { border-collapse: collapse; width: 100%; }'',
      ''caption { text-align: left; font-weight: 700; padding: 0 0 .75rem; }'',
      ''th, td { border-bottom: 1px solid #e4e7ec; text-align: left; padding: .7rem .5rem; vertical-align: top; }'',
      ''th { color: #475467; font-size: .875rem; }'',
      ''.table-wrap { overflow-x: auto; }'',
      ''.status { display: inline-block; border-radius: 999px; padding: .15rem .55rem; font-size: .8rem; font-weight: 750; background: #eef2f6; }'',
      ''.pending { background: #fff3d6; color: #7a4d00; }'',
      ''.approved, .succeeded { background: #dcfae6; color: #067647; }'',
      ''.rejected, .denied, .unknown { background: #fee4e2; color: #b42318; }'',
      ''dl { display: grid; grid-template-columns: minmax(9rem, 14rem) 1fr; gap: .5rem 1rem; }'',
      ''dt { font-weight: 700; color: #475467; }'',
      ''dd { margin: 0; overflow-wrap: anywhere; }'',
      ''pre { white-space: pre-wrap; overflow-wrap: anywhere; background: #101828; color: #f2f4f7; border-radius: .5rem; padding: 1rem; overflow: auto; }'',
      ''.decision-grid { display: grid; grid-template-columns: repeat(auto-fit, minmax(18rem, 1fr)); gap: 1rem; }'',
      ''@media (max-width: 640px) { dl { grid-template-columns: 1fr; } dd { margin-bottom: .5rem; } }'']"

section \<open>The frame of a page\<close>

definition em_dash :: string where
  "em_dash = [CHR 0xE2, CHR 0x80, CHR 0x94]"

definition page_identity :: "dash_session option \<Rightarrow> string" where
  "page_identity session = (case session of
     None \<Rightarrow> []
   | Some h \<Rightarrow> nl 12 @ ''<div class=\"actions\"><span>'' @ escaped (pc_subject (dh_principal h)) @ ''</span>'' @
       nl 12 @ ''<form class=\"inline\" method=\"post\" action=\"/dashboard/logout\">'' @
       nl 12 @ ''<input type=\"hidden\" name=\"csrf\" value=\"'' @ escaped (dh_csrf_token h) @ ''\">'' @
       nl 12 @ ''<button class=\"secondary\" type=\"submit\">Sign out</button></form></div>'' @ nl 12)"

definition page :: "string \<Rightarrow> string \<Rightarrow> dash_session option \<Rightarrow> string" where
  "page title body session =
     ''<!doctype html><html lang=\"en\"><head><meta charset=\"utf-8\">'' @ nl 8 @
     ''<meta name=\"viewport\" content=\"width=device-width, initial-scale=1\">'' @ nl 8 @
     ''<title>'' @ escaped title @ '' '' @ [CHR 0xC2, CHR 0xB7] @ '' AgentBarrier</title>'' @ nl 8 @
     ''<link rel=\"stylesheet\" href=\"/dashboard/assets/style.css\"></head><body>'' @ nl 8 @
     ''<a class=\"skip\" href=\"#main\">Skip to main content</a><header><div class=\"shell bar\">'' @ nl 8 @
     ''<a class=\"brand\" href=\"/dashboard/\">AgentBarrier</a>'' @ page_identity session @ ''</div></header>'' @ nl 8 @
     ''<main id=\"main\" class=\"shell\">'' @ body @ ''</main></body></html>''"

section \<open>Sign-in and errors\<close>

definition login_body :: "string option \<Rightarrow> string \<Rightarrow> string" where
  "login_body error csrf =
     nl 8 @ ''<section class=\"card narrow\"><h1>Sign in to review actions</h1>'' @
     nl 8 @ ''<p class=\"muted\">Use a scoped reviewer bearer credential. It is verified once and is never stored in the browser or session database.</p>'' @
     nl 8 @ (case error of None \<Rightarrow> []
       | Some e \<Rightarrow> ''<div class=\"notice error\" role=\"alert\">'' @ escaped e @ ''</div>'') @
     ''<form method=\"post\" action=\"/dashboard/login\">'' @
     nl 8 @ ''<label for=\"token\">Reviewer credential</label><input id=\"token\" name=\"token\" type=\"password\" autocomplete=\"current-password\" required maxlength=\"512\">'' @
     nl 8 @ ''<input type=\"hidden\" name=\"csrf\" value=\"'' @ escaped csrf @ ''\">'' @
     nl 8 @ ''<p><button type=\"submit\">Sign in</button></p></form></section>'' @ nl 8"

definition error_body :: "string \<Rightarrow> string \<Rightarrow> string" where
  "error_body title message =
     ''<section class=\"card narrow\"><h1>'' @ escaped title @ ''</h1>'' @
     ''<p>'' @ escaped message @ ''</p>'' @
     ''<p><a href=\"/dashboard/login\">Sign in</a> or '' @
     ''<a href=\"/dashboard/\">return to the dashboard</a>.</p></section>''"

section \<open>The queue\<close>

definition selected_attr :: "string \<Rightarrow> string \<Rightarrow> string" where
  "selected_attr v expected = (if v = expected then '' selected'' else [])"

text \<open>\<open>str.title\<close> on ASCII text.\<close>

definition upper_letter :: "char \<Rightarrow> char" where
  "upper_letter c = (if 97 \<le> code c \<and> code c \<le> 122 then char_of (code c - 32) else c)"

fun title_case :: "bool \<Rightarrow> string \<Rightarrow> string" where
  "title_case inside [] = []"
| "title_case inside (c # cs) =
     (if inside then lower_char c else upper_letter c) # title_case (ascii_letter c) cs"

definition all_statuses :: "runtime_status list" where
  "all_statuses = [PENDING, APPROVED, REJECTED, DENIED, EXECUTING, SUCCEEDED, UNKNOWN, EXPIRED]"

definition status_option :: "string \<Rightarrow> runtime_status \<Rightarrow> string" where
  "status_option raw_status st = ''<option value=\"'' @ status_text st @ ''\"'' @
     selected_attr raw_status (status_text st) @ ''>'' @
     escaped (title_case False (map (\<lambda>c. if c = CHR ''_'' then CHR '' '' else c) (status_text st))) @ ''</option>''"

definition status_options :: "string \<Rightarrow> string" where
  "status_options raw_status =
     ''<option value=\"all\"'' @ selected_attr raw_status ''all'' @ ''>All</option>'' @
     concat (map (status_option raw_status) all_statuses)"

definition action_row_html :: "string \<Rightarrow> runtime_action \<Rightarrow> string" where
  "action_row_html created a =
     ''<tr>'' @ ''<td>'' @ escaped created @ ''</td>'' @
     ''<td><span class=\"status '' @ escaped (status_text (ra_status a)) @ ''\">'' @
       escaped (status_text (ra_status a)) @ ''</span></td>'' @
     ''<td>'' @ escaped (ra_namespace a) @ ''</td>'' @
     ''<td>'' @ escaped (ra_tool_name a) @ ''</td>'' @
     ''<td><a class=\"button\" href=\"/dashboard/actions/'' @ url_quote (ra_action_id a) @ ''\">Review</a></td>'' @
     ''</tr>''"

definition action_table_row :: "runtime_action \<Rightarrow> runtime_error + string" where
  "action_table_row a = bind_res (timestamp_text (ra_created_at_ns a)) (\<lambda>created. Inr (action_row_html created a))"

text \<open>\<open>usage[limit.limit_id]\<close>, for a dictionary in which a later item replaces an earlier one.\<close>

definition usage_of :: "runtime_limit_usage list \<Rightarrow> string \<Rightarrow> runtime_error + runtime_limit_usage" where
  "usage_of us i = (case map_of (rev (map (\<lambda>u. (ru_limit_id u, u)) us)) i of
     None \<Rightarrow> Inl (KeyError i) | Some u \<Rightarrow> Inr u)"

definition usage_row_html :: "runtime_limit_usage \<Rightarrow> runtime_limit \<Rightarrow> string" where
  "usage_row_html u l =
     ''<tr>'' @ ''<td>'' @ escaped (rl_limit_id l) @ ''</td>'' @
     ''<td>'' @ (if rl_enabled l then ''Enabled'' else ''Disabled'') @ ''</td>'' @
     ''<td>'' @ show_int (ru_actions_used u) @ ''</td>'' @
     ''<td>'' @ show_int (ru_value_used u) @ ''</td>'' @ ''</tr>''"

definition usage_table_row :: "runtime_limit_usage list \<Rightarrow> runtime_limit \<Rightarrow> runtime_error + string" where
  "usage_table_row us l = bind_res (usage_of us (rl_limit_id l)) (\<lambda>u. Inr (usage_row_html u l))"

definition metric :: "nat \<Rightarrow> string \<Rightarrow> string" where
  "metric n label = ''<span class=\"metric\">'' @ show_nat n @ ''</span> '' @ label @ (if n \<noteq> 1 then ''s'' else [])"

definition table_rows :: "string list \<Rightarrow> string \<Rightarrow> string" where
  "table_rows rows empty_row = (if concat rows = [] then empty_row else concat rows)"

definition index_html :: "string \<Rightarrow> string list \<Rightarrow> string list \<Rightarrow> nat \<Rightarrow> nat \<Rightarrow> bool \<Rightarrow> string" where
  "index_html raw_status rows usage_rows pauses enabled_limits valid =
     nl 8 @ ''<div class=\"bar\"><div><h1>Approval queue</h1><p class=\"muted\">Review exact agent actions before execution.</p></div>'' @
     nl 8 @ ''<form method=\"get\" action=\"/dashboard/\"><label for=\"status\">Status</label>'' @
     nl 8 @ ''<div class=\"actions\"><select id=\"status\" name=\"status\">'' @ status_options raw_status @
       ''</select><button type=\"submit\">Filter</button></div></form></div>'' @
     nl 8 @ ''<div class=\"grid\"><section class=\"card\" aria-label=\"Emergency pause status\">'' @
       metric pauses ''active emergency pause'' @ ''</section>'' @
     nl 8 @ ''<section class=\"card\" aria-label=\"Execution limit status\">'' @
       metric enabled_limits ''enabled execution limit'' @ ''</section>'' @
     nl 8 @ ''<section class=\"card\" aria-label=\"Audit status\"><span class=\"metric\">'' @
       (if valid then ''Valid'' else ''Invalid'') @ ''</span> action receipt chain</section></div>'' @
     nl 8 @ ''<section class=\"card\"><div class=\"table-wrap\"><table><caption>Runtime actions</caption>'' @
     nl 8 @ ''<thead><tr><th scope=\"col\">Created</th><th scope=\"col\">Status</th><th scope=\"col\">Namespace</th><th scope=\"col\">Tool</th><th scope=\"col\">Review</th></tr></thead>'' @
     nl 8 @ ''<tbody>'' @ table_rows rows ''<tr><td colspan=\"5\">No actions match this filter.</td></tr>'' @ ''</tbody></table></div></section>'' @
     nl 8 @ ''<section class=\"card\"><div class=\"table-wrap\"><table><caption>Current limit windows</caption>'' @
     nl 8 @ ''<thead><tr><th scope=\"col\">Limit</th><th scope=\"col\">State</th><th scope=\"col\">Actions used</th><th scope=\"col\">Value used</th></tr></thead>'' @
     nl 8 @ ''<tbody>'' @ table_rows usage_rows
       ''<tr><td colspan=\"4\">No execution limits configured.</td></tr>'' @ ''</tbody></table></div></section>'' @ nl 8"

definition index_body ::
  "string \<Rightarrow> runtime_action list \<Rightarrow> runtime_pause list \<Rightarrow> runtime_limit list \<Rightarrow> runtime_limit_usage list \<Rightarrow>
   bool \<Rightarrow> runtime_error + string" where
  "index_body raw_status actions pauses limits usage valid =
   bind_res (map_res action_table_row actions) (\<lambda>rows.
   bind_res (map_res (usage_table_row usage) limits) (\<lambda>usage_rows.
   Inr (index_html raw_status rows usage_rows (length pauses) (length (filter rl_enabled limits)) valid)))"

section \<open>One action\<close>

definition can_self_decide :: "principal \<Rightarrow> runtime_action \<Rightarrow> bool" where
  "can_self_decide p a = (\<not> (pc_organization_id p \<noteq> None \<and> pc_require_separate_approver p \<and>
     ra_requested_by a = Some (pc_subject p)))"

definition offers_decision :: "principal \<Rightarrow> runtime_action \<Rightarrow> decision \<Rightarrow> bool" where
  "offers_decision p a d = (has_scope p ''actions:decide'' \<and> can_self_decide p a \<and>
     (pc_organization_id p = None \<or> d \<in> set (pc_decisions p)))"

definition approve_form :: "string \<Rightarrow> string \<Rightarrow> string" where
  "approve_form encoded_id csrf =
     nl 14 @ ''<form class=\"card\" method=\"post\" action=\"/dashboard/actions/'' @ encoded_id @ ''/approve\">'' @
     nl 16 @ ''<h2>Approve this exact action</h2><label for=\"approve-reason\">Reason (optional)</label>'' @
     nl 16 @ ''<textarea id=\"approve-reason\" name=\"reason\" maxlength=\"2000\"></textarea>'' @
     nl 16 @ ''<input type=\"hidden\" name=\"csrf\" value=\"'' @ csrf @ ''\"><button type=\"submit\">Approve action</button>'' @
     nl 14 @ ''</form>'' @ nl 12"

definition reject_form :: "string \<Rightarrow> string \<Rightarrow> string" where
  "reject_form encoded_id csrf =
     nl 14 @ ''<form class=\"card\" method=\"post\" action=\"/dashboard/actions/'' @ encoded_id @ ''/reject\">'' @
     nl 16 @ ''<h2>Reject this action</h2><label for=\"reject-reason\">Reason (optional)</label>'' @
     nl 16 @ ''<textarea id=\"reject-reason\" name=\"reason\" maxlength=\"2000\"></textarea>'' @
     nl 16 @ ''<input type=\"hidden\" name=\"csrf\" value=\"'' @ csrf @ ''\"><button class=\"danger\" type=\"submit\">Reject action</button>'' @
     nl 14 @ ''</form>'' @ nl 12"

definition decision_forms :: "dash_session \<Rightarrow> runtime_action \<Rightarrow> string" where
  "decision_forms h a =
     (let can_approve = offers_decision (dh_principal h) a APPROVE;
          can_reject = offers_decision (dh_principal h) a REJECT;
          encoded_id = url_quote (ra_action_id a); csrf = escaped (dh_csrf_token h)
      in if ra_status a = PENDING \<and> (can_approve \<or> can_reject) then
           nl 12 @ ''<section class=\"decision-grid\" aria-label=\"Decision forms\">'' @
           nl 14 @ (if can_approve then approve_form encoded_id csrf else []) @
             (if can_reject then reject_form encoded_id csrf else []) @
           nl 12 @ ''</section>'' @ nl 12
         else if ra_status a = PENDING then
           ''<div class=\"notice\">Your identity can inspect actions but cannot decide them.</div>''
         else [])"

text \<open>\<open>_detail\<close>, whose value is a text or the dash that stands for a missing one.\<close>

definition or_dash :: "string option \<Rightarrow> string" where
  "or_dash v = (case v of None \<Rightarrow> em_dash | Some t \<Rightarrow> if t = [] then em_dash else escaped t)"

definition detail :: "string \<Rightarrow> string \<Rightarrow> string" where
  "detail label shown = ''<dt>'' @ escaped label @ ''</dt><dd>'' @ shown @ ''</dd>''"

definition result_notice :: "string option \<Rightarrow> string" where
  "result_notice decision = (case decision of None \<Rightarrow> []
     | Some d \<Rightarrow> ''<div class=\"notice\" role=\"status\">Action '' @ d @ ''.</div>'')"

definition detail_html :: "codec \<Rightarrow> dash_session \<Rightarrow> string option \<Rightarrow> string \<Rightarrow> runtime_action \<Rightarrow> string" where
  "detail_html K h decision created a =
     nl 8 @ ''<p><a href=\"/dashboard/\">'' @ [CHR 0xE2, CHR 0x86, CHR 0x90] @ '' Back to approval queue</a></p>'' @
       result_notice decision @
     nl 8 @ ''<section class=\"card\"><h1>Action details</h1><dl>'' @
     nl 8 @ detail ''Action ID'' (escaped (ra_action_id a)) @ detail ''Status'' (escaped (status_text (ra_status a))) @
     nl 8 @ detail ''Organization'' (escaped (ra_organization_id a)) @ detail ''Requested by'' (or_dash (ra_requested_by a)) @
     nl 8 @ detail ''Namespace'' (escaped (ra_namespace a)) @ detail ''Tool'' (escaped (ra_tool_name a)) @
     nl 8 @ detail ''Policy rule'' (escaped (ra_policy_rule a)) @
       detail ''Policy version'' (escaped (ra_policy_version a)) @
     nl 8 @ detail ''Created'' (escaped created) @ detail ''Decided by'' (or_dash (ra_decided_by a)) @
     nl 8 @ detail ''Decision reason'' (or_dash (ra_decision_reason a)) @ ''</dl>'' @
     nl 8 @ ''<h2>Exact arguments</h2>'' @ json_block K (ra_arguments a) @
     nl 8 @ ''<h2>Stored result</h2>'' @
       (if ra_result_available a then json_block K (ra_result a) else ''<p>Not available.</p>'') @
     nl 8 @ ''</section>'' @ decision_forms h a @ nl 8"

definition detail_body :: "codec \<Rightarrow> dash_session \<Rightarrow> string option \<Rightarrow> runtime_action \<Rightarrow> runtime_error + string" where
  "detail_body K h decision a =
     bind_res (timestamp_text (ra_created_at_ns a)) (\<lambda>created. Inr (detail_html K h decision created a))"

end
