(* ===== verification/Dashboard.thy ===== *)
theory Dashboard
  imports Dash_Html Slack_Interaction Url
begin

text \<open>
  The handlers of service/dashboard.py over any runtime store: origins, forms, the routes, the
  responses and the headers. A request is what the handlers ask the web framework for. Its handling
  reads the clock several times and the random generator, whose answers are \<open>dash_times\<close> and
  \<open>dash_draws\<close>. Whether a bracketed host is an IP literal is the parameter \<open>literal\<close>.
\<close>

section \<open>Requests and failures\<close>

record dash_request =
  dq_query :: "(string \<times> string) list"
  dq_action_id :: string
  dq_cookies :: "(string \<times> string) list"
  dq_origin :: "string option"
  dq_referer :: "string option"
  dq_fetch_site :: "string option"
  dq_base_url :: string
  dq_content_type :: "string option"
  dq_content_length :: "string option"
  dq_chunks :: "string list"

text \<open>The times of the session, of the store's calls, and of the error page's second look at the session.\<close>

record dash_times =
  dt_session :: int
  dt_store :: int
  dt_usage :: int
  dt_error :: int

record dash_draws =
  dw_login_csrf :: string
  dw_tokens :: "nat \<Rightarrow> string"
  dw_csrf :: string

text \<open>
  What a handler raises: the error of the dashboard, or an exception it does not foresee. The third
  case is a sign-in whose generator never yields an unused token, which does not return.
\<close>

datatype dash_failure = Dash_Error int string string | Dash_Uncaught runtime_error | Dash_Endless

definition action_missing :: dash_failure where
  "action_missing = Dash_Error 404 ''Action not found'' ''The requested action does not exist.''"

section \<open>Origins\<close>

definition normalize_public_origin ::
  "(string \<Rightarrow> bool) \<Rightarrow> string option \<Rightarrow> runtime_error + string option" where
  "normalize_public_origin literal v = (case v of
     None \<Rightarrow> Inr None
   | Some raw \<Rightarrow> (case urlsplit literal raw of
       None \<Rightarrow> Inl (ValueError ''dashboard public origin is invalid'')
     | Some u \<Rightarrow>
         if \<not> port_ok u then Inl (ValueError ''dashboard public origin is invalid'')
         else if up_scheme u \<notin> {''http'', ''https''} \<or> hostname u = None \<or> has_user_info u \<or>
             up_path u \<notin> {[], ''/''} \<or> up_query u \<noteq> [] \<or> up_fragment u \<noteq> [] \<or> url_port u = Some 0 then
           Inl (ValueError ''dashboard public origin must contain only an HTTP(S) origin'')
         else
           (let lowered = py_lower (the (hostname u));
                host = (if CHR '':'' \<in> set lowered then ''['' @ lowered @ '']'' else lowered);
                netloc = (case url_port u of None \<Rightarrow> host | Some p \<Rightarrow> host @ '':'' @ show_int p)
            in Inr (Some (py_lower (up_scheme u) @ ''://'' @ netloc)))))"

text \<open>\<open>str.rstrip("/")\<close>\<close>

definition rstrip_slash :: "string \<Rightarrow> string" where
  "rstrip_slash s = rev (dropWhile (\<lambda>c. c = CHR ''/'') (rev s))"

definition request_origin :: "(string \<Rightarrow> bool) \<Rightarrow> dash_request \<Rightarrow> runtime_error + string option" where
  "request_origin literal rq = normalize_public_origin literal (Some (rstrip_slash (dq_base_url rq)))"

definition origin_from_referer :: "(string \<Rightarrow> bool) \<Rightarrow> string \<Rightarrow> string option" where
  "origin_from_referer literal v = (case urlsplit literal v of
     None \<Rightarrow> None
   | Some u \<Rightarrow>
       if up_scheme u \<notin> {''http'', ''https''} \<or> hostname u = None then None
       else (case normalize_public_origin literal (Some (up_scheme u @ ''://'' @ up_netloc u)) of
         Inl _ \<Rightarrow> None | Inr origin \<Rightarrow> origin))"

definition presented_origin :: "(string \<Rightarrow> bool) \<Rightarrow> dash_request \<Rightarrow> string option" where
  "presented_origin literal rq = (case dq_origin rq of
     Some origin \<Rightarrow> (case normalize_public_origin literal (Some origin) of Inl _ \<Rightarrow> None | Inr p \<Rightarrow> p)
   | None \<Rightarrow> (case dq_referer rq of None \<Rightarrow> None | Some referer \<Rightarrow> origin_from_referer literal referer))"

text \<open>\<open>self.public_origin or _request_origin(request)\<close>\<close>

definition expected_origin ::
  "(string \<Rightarrow> bool) \<Rightarrow> string option \<Rightarrow> dash_request \<Rightarrow> dash_failure + string" where
  "expected_origin literal public_origin rq = (case public_origin of
     Some origin \<Rightarrow> Inr origin
   | None \<Rightarrow> (case request_origin literal rq of
       Inl e \<Rightarrow> Inl (Dash_Uncaught e) | Inr origin \<Rightarrow> Inr (the origin)))"

definition require_same_origin ::
  "(string \<Rightarrow> bool) \<Rightarrow> string option \<Rightarrow> dash_request \<Rightarrow> dash_failure + unit" where
  "require_same_origin literal public_origin rq = bind_res (expected_origin literal public_origin rq) (\<lambda>expected.
   if dq_origin rq = None \<and> dq_referer rq = None then Inr ()
   else if dq_origin rq = Some ''null'' \<and> dq_fetch_site rq = Some ''same-origin'' then Inr ()
   else case presented_origin literal rq of
     None \<Rightarrow> Inl (Dash_Error 403 ''Request rejected'' ''The request origin is not trusted.'')
   | Some presented \<Rightarrow> (case compare_digest expected presented of
       Inl e \<Rightarrow> Inl (Dash_Uncaught e)
     | Inr same \<Rightarrow> if same then Inr ()
         else Inl (Dash_Error 403 ''Request rejected'' ''The request origin is not trusted.'')))"

section \<open>Forms\<close>

definition max_form_bytes :: int where
  "max_form_bytes = 16384"

definition form_too_large :: dash_failure where
  "form_too_large = Dash_Error 413 ''Form too large'' ''The submitted form is too large.''"

fun form_chunks :: "string list \<Rightarrow> string \<Rightarrow> dash_failure + string" where
  "form_chunks [] body = Inr body"
| "form_chunks (chunk # chunks) body =
     (if max_form_bytes < int (length body + length chunk) then Inl form_too_large
      else form_chunks chunks (body @ chunk))"

definition check_form_headers :: "dash_request \<Rightarrow> dash_failure + unit" where
  "check_form_headers rq =
     (if py_lower (py_strip (takeWhile (\<lambda>c. c \<noteq> CHR '';'')
          (case dq_content_type rq of None \<Rightarrow> [] | Some t \<Rightarrow> t))) \<noteq> ''application/x-www-form-urlencoded'' then
        Inl (Dash_Error 415 ''Unsupported form'' ''Dashboard forms must use URL encoding.'')
      else case dq_content_length rq of
        None \<Rightarrow> Inr ()
      | Some raw \<Rightarrow> (case int_of_text raw of
          None \<Rightarrow> Inl (Dash_Error 400 ''Invalid request'' ''Content-Length must be an integer.'')
        | Some n \<Rightarrow> if max_form_bytes < n then Inl form_too_large else Inr ()))"

text \<open>\<open>parse_qs\<close>, strict, with blank values and at most eight fields; an empty text has none.\<close>

definition parse_dash_form :: "string \<Rightarrow> (string \<times> string) list option" where
  "parse_dash_form s = (if s = [] then Some []
     else if 8 < length (split_on (CHR ''&'') s) then None else form_fields (split_on (CHR ''&'') s))"

definition read_form :: "dash_request \<Rightarrow> string list \<Rightarrow> dash_failure + (string \<times> string) list" where
  "read_form rq allowed =
   bind_res (check_form_headers rq) (\<lambda>_.
   bind_res (form_chunks (dq_chunks rq) []) (\<lambda>body.
   case Option.bind (utf8_decode body) parse_dash_form of
     None \<Rightarrow> Inl (Dash_Error 400 ''Invalid form'' ''The submitted form is not valid UTF-8 data.'')
   | Some pairs \<Rightarrow>
       if \<not> set (map fst pairs) \<subseteq> set allowed \<or> \<not> distinct (map fst pairs) then
         Inl (Dash_Error 400 ''Invalid form'' ''The submitted form contains unexpected fields.'')
       else Inr pairs))"

definition validate_reason :: "string option \<Rightarrow> dash_failure + string option" where
  "validate_reason v = (case v of
     None \<Rightarrow> Inr None
   | Some reason \<Rightarrow>
       if reason = [] then Inr None
       else if blank reason \<or> 2000 < length reason then
         Inl (Dash_Error 400 ''Invalid reason'' ''A reason must contain 1 to 2000 characters.'')
       else if list_ex (\<lambda>c. code c < 32 \<and> code c \<notin> {9, 10, 13}) reason then
         Inl (Dash_Error 400 ''Invalid reason'' ''The reason contains invalid characters.'')
       else Inr (Some reason))"

section \<open>Path and query\<close>

definition dashboard_action_id :: "dash_request \<Rightarrow> dash_failure + string" where
  "dashboard_action_id rq = (if blank (dq_action_id rq) \<or> 128 < length (dq_action_id rq)
     then Inl (Dash_Error 400 ''Invalid action'' ''The action identifier is invalid.'') else Inr (dq_action_id rq))"

text \<open>\<open>query_params.getlist\<close>, and \<open>query_params.get\<close>, which takes the last.\<close>

definition query_values :: "dash_request \<Rightarrow> string \<Rightarrow> string list" where
  "query_values rq name = map snd (filter (\<lambda>(k, _). k = name) (dq_query rq))"

definition query_value :: "dash_request \<Rightarrow> string \<Rightarrow> string option" where
  "query_value rq name = (if query_values rq name = [] then None else Some (last (query_values rq name)))"

definition reject_dashboard_query :: "dash_request \<Rightarrow> string list \<Rightarrow> dash_failure + unit" where
  "reject_dashboard_query rq allowed =
     (if \<not> set (map fst (dq_query rq)) \<subseteq> set allowed \<or> list_ex (\<lambda>n. 1 < length (query_values rq n)) allowed
      then Inl (Dash_Error 400 ''Invalid query'' ''The dashboard query is not recognized.'') else Inr ())"

section \<open>Configuration\<close>

record dash_config =
  dg_sessions :: session_config
  dg_cookie_secure :: bool
  dg_public_origin :: "string option"

definition make_dashboard ::
  "(string \<Rightarrow> bool) \<Rightarrow> session_config \<Rightarrow> bool \<Rightarrow> string option \<Rightarrow> runtime_error + dash_config" where
  "make_dashboard literal sessions cookie_secure public_origin =
   bind_res (normalize_public_origin literal public_origin) (\<lambda>origin.
   if cookie_secure \<and> (case origin of None \<Rightarrow> False | Some t \<Rightarrow> \<not> starts_with t ''https://'') then
     Inl (ValueError ''secure dashboard cookies require an HTTPS public origin'')
   else Inr \<lparr>dg_sessions = sessions, dg_cookie_secure = cookie_secure, dg_public_origin = origin\<rparr>)"

definition session_cookie :: "dash_config \<Rightarrow> string" where
  "session_cookie c = (if dg_cookie_secure c then ''__Host-agentbarrier_session'' else ''agentbarrier_session'')"

definition login_csrf_cookie :: "dash_config \<Rightarrow> string" where
  "login_csrf_cookie c = (if dg_cookie_secure c then ''__Host-agentbarrier_login_csrf'' else ''agentbarrier_login_csrf'')"

definition cookie_path :: "dash_config \<Rightarrow> string" where
  "cookie_path c = (if dg_cookie_secure c then ''/'' else ''/dashboard'')"

section \<open>Responses\<close>

text \<open>The arguments of \<open>set_cookie\<close> and \<open>delete_cookie\<close>.\<close>

record cookie =
  ck_name :: string
  ck_value :: string
  ck_max_age :: int
  ck_path :: string
  ck_secure :: bool
  ck_httponly :: bool
  ck_samesite :: string

datatype cookie_change = Set_Cookie cookie | Delete_Cookie string string

record dash_response =
  dp_status :: int
  dp_location :: "string option"
  dp_cookies :: "cookie_change list"
  dp_media :: string
  dp_body :: string

definition redirect :: "string \<Rightarrow> int \<Rightarrow> dash_response" where
  "redirect location status =
     \<lparr>dp_status = status, dp_location = Some location, dp_cookies = [], dp_media = [], dp_body = []\<rparr>"

definition html_response :: "string \<Rightarrow> string \<Rightarrow> dash_session option \<Rightarrow> int \<Rightarrow> dash_response" where
  "html_response title body session status = \<lparr>dp_status = status, dp_location = None, dp_cookies = [],
     dp_media = ''text/html'', dp_body = page title body session\<rparr>"

definition strict_cookie :: "dash_config \<Rightarrow> string \<Rightarrow> string \<Rightarrow> int \<Rightarrow> cookie_change" where
  "strict_cookie c name v max_age = Set_Cookie \<lparr>ck_name = name, ck_value = v, ck_max_age = max_age,
     ck_path = cookie_path c, ck_secure = dg_cookie_secure c, ck_httponly = True, ck_samesite = ''strict''\<rparr>"

definition new_login_response :: "dash_config \<Rightarrow> dash_draws \<Rightarrow> string option \<Rightarrow> int \<Rightarrow> dash_response" where
  "new_login_response c dw error status =
     (html_response ''Sign in'' (login_body error (dw_login_csrf dw)) None status)
       \<lparr>dp_cookies := [strict_cookie c (login_csrf_cookie c) (dw_login_csrf dw) 600]\<rparr>"

text \<open>\<open>math.ceil\<close> of a finite float.\<close>

definition float_ceil :: "pyfloat \<Rightarrow> int" where
  "float_ceil x = (case x of
     Fin m e \<Rightarrow> if 0 \<le> e then m * 2 ^ nat e else - ((- m) div 2 ^ nat (- e))
   | _ \<Rightarrow> 0)"

section \<open>Sessions\<close>

definition session_of ::
  "codec \<Rightarrow> dash_config \<Rightarrow> int \<Rightarrow> dash_request \<Rightarrow> dash_sessions \<Rightarrow> dash_session option \<times> dash_sessions" where
  "session_of K c now rq ss = get_session K now (map_of (dq_cookies rq) (session_cookie c)) ss"

definition require_session ::
  "codec \<Rightarrow> dash_config \<Rightarrow> int \<Rightarrow> dash_request \<Rightarrow> dash_sessions \<Rightarrow> (dash_failure + dash_session) \<times> dash_sessions" where
  "require_session K c now rq ss = (case session_of K c now rq ss of
     (None, ss') \<Rightarrow> (Inl (Dash_Error 401 ''Sign-in required'' ''Sign in to review approval actions.''), ss')
   | (Some h, ss') \<Rightarrow> (Inr h, ss'))"

definition require_session_scope :: "dash_session \<Rightarrow> string \<Rightarrow> dash_failure + unit" where
  "require_session_scope h scope = (if has_scope (dh_principal h) scope then Inr ()
     else Inl (Dash_Error 403 ''Access denied'' ''Your identity cannot decide actions.''))"

definition require_csrf :: "dash_session \<Rightarrow> string option \<Rightarrow> dash_failure + unit" where
  "require_csrf h presented = (case presented of
     None \<Rightarrow> Inl (Dash_Error 403 ''Request rejected'' ''The form expired or is invalid.'')
   | Some t \<Rightarrow>
       if \<not> opaque_token_ok t then Inl (Dash_Error 403 ''Request rejected'' ''The form expired or is invalid.'')
       else (case compare_digest (dh_csrf_token h) t of
         Inl e \<Rightarrow> Inl (Dash_Uncaught e)
       | Inr same \<Rightarrow> if same then Inr ()
           else Inl (Dash_Error 403 ''Request rejected'' ''The form expired or is invalid.'')))"

section \<open>Signing in and out\<close>

definition form_value :: "(string \<times> string) list \<Rightarrow> string \<Rightarrow> string" where
  "form_value form name = (case map_of form name of None \<Rightarrow> [] | Some v \<Rightarrow> v)"

definition dash_login_form ::
  "codec \<Rightarrow> dash_config \<Rightarrow> dash_times \<Rightarrow> dash_draws \<Rightarrow> dash_request \<Rightarrow> dash_sessions \<Rightarrow>
   (dash_failure + dash_response) \<times> dash_sessions" where
  "dash_login_form K c tm dw rq ss = (case session_of K c (dt_session tm) rq ss of
     (Some _, ss') \<Rightarrow> (Inr (redirect ''/dashboard/'' 303), ss')
   | (None, ss') \<Rightarrow> (Inr (new_login_response c dw None 200), ss'))"

definition check_login_csrf :: "dash_config \<Rightarrow> dash_request \<Rightarrow> (string \<times> string) list \<Rightarrow> dash_failure + unit" where
  "check_login_csrf c rq form =
     (let presented = form_value form ''csrf''; stored = form_value (dq_cookies rq) (login_csrf_cookie c);
          rejected = Dash_Error 403 ''Request rejected'' ''The login form expired or is invalid.''
      in if \<not> opaque_token_ok presented \<or> \<not> opaque_token_ok stored then Inl rejected
         else case compare_digest presented stored of
           Inl e \<Rightarrow> Inl (Dash_Uncaught e)
         | Inr same \<Rightarrow> if same then Inr () else Inl rejected)"

definition login_credential :: "codec \<Rightarrow> credential list \<Rightarrow> (string \<times> string) list \<Rightarrow> auth_error + principal" where
  "login_credential K cs form =
     bind_res (authenticate K cs (Some (''Bearer '' @ form_value form ''token''))) (\<lambda>p.
     bind_res (require_scope p ''actions:read'') (\<lambda>_. Inr p))"

definition signed_in_response :: "dash_config \<Rightarrow> string \<Rightarrow> dash_response" where
  "signed_in_response c token = (redirect ''/dashboard/'' 303)\<lparr>dp_cookies :=
     [strict_cookie c (session_cookie c) token (max 1 (float_ceil (dl_ttl_seconds (dg_sessions c)))),
      Delete_Cookie (login_csrf_cookie c) (cookie_path c)]\<rparr>"

definition dash_login ::
  "codec \<Rightarrow> credential list \<Rightarrow> (string \<Rightarrow> bool) \<Rightarrow> dash_config \<Rightarrow> dash_times \<Rightarrow> dash_draws \<Rightarrow> dash_request \<Rightarrow>
   dash_sessions \<Rightarrow> (dash_failure + dash_response) \<times> dash_sessions" where
  "dash_login K cs literal c tm dw rq ss =
     (case bind_res (require_same_origin literal (dg_public_origin c) rq) (\<lambda>_.
         bind_res (read_form rq [''token'', ''csrf'']) (\<lambda>form.
         bind_res (check_login_csrf c rq form) (\<lambda>_. Inr form))) of
        Inl f \<Rightarrow> (Inl f, ss)
      | Inr form \<Rightarrow> (case login_credential K cs form of
          Inl _ \<Rightarrow> (Inr (new_login_response c dw
            (Some ''The credential is invalid or cannot read approval actions.'') 401), ss)
        | Inr p \<Rightarrow> (case create_session K (dg_sessions c) (dt_session tm) (dw_tokens dw) (dw_csrf dw) p ss of
            (Session_Created token h, ss') \<Rightarrow> (Inr (signed_in_response c token), ss')
          | (Capacity_Exhausted, ss') \<Rightarrow> (Inl (Dash_Error 503 ''Dashboard unavailable''
              ''The dashboard cannot create another session right now.''), ss')
          | (Still_Drawing, ss') \<Rightarrow> (Inl Dash_Endless, ss'))))"

definition dash_logout ::
  "codec \<Rightarrow> (string \<Rightarrow> bool) \<Rightarrow> dash_config \<Rightarrow> dash_times \<Rightarrow> dash_request \<Rightarrow> dash_sessions \<Rightarrow>
   (dash_failure + dash_response) \<times> dash_sessions" where
  "dash_logout K literal c tm rq ss = (case require_session K c (dt_session tm) rq ss of
     (Inl f, ss') \<Rightarrow> (Inl f, ss')
   | (Inr h, ss') \<Rightarrow>
       (case bind_res (require_same_origin literal (dg_public_origin c) rq) (\<lambda>_.
           bind_res (read_form rq [''csrf'']) (\<lambda>form. require_csrf h (map_of form ''csrf''))) of
          Inl f \<Rightarrow> (Inl f, ss')
        | Inr _ \<Rightarrow> (Inr ((redirect ''/dashboard/login'' 303)\<lparr>dp_cookies :=
              [Delete_Cookie (session_cookie c) (cookie_path c)]\<rparr>),
            delete_session K (map_of (dq_cookies rq) (session_cookie c)) ss')))"

section \<open>The queue and one action\<close>

definition max_dashboard_actions :: nat where
  "max_dashboard_actions = 100"

text \<open>The text of the filter, and the status it selects.\<close>

definition index_filter :: "dash_request \<Rightarrow> dash_failure + (string \<times> runtime_status option)" where
  "index_filter rq =
     (let raw_status = (case query_value rq ''status'' of None \<Rightarrow> status_text PENDING | Some t \<Rightarrow> t)
      in if \<not> set (map fst (dq_query rq)) \<subseteq> {''status''} then
           Inl (Dash_Error 400 ''Invalid filter'' ''The dashboard filter is not recognized.'')
         else if 1 < length (query_values rq ''status'') then
           Inl (Dash_Error 400 ''Invalid filter'' ''The status filter must not be repeated.'')
         else if raw_status = ''all'' then Inr (raw_status, None)
         else case status_of_text raw_status of
           None \<Rightarrow> Inl (Dash_Error 400 ''Invalid filter'' ''The selected action status is not recognized.'')
         | Some st \<Rightarrow> Inr (raw_status, Some st))"

text \<open>Whether a pause or a limit is shown: its namespace is one of the principal's.\<close>

definition shows_control :: "principal \<Rightarrow> string option \<Rightarrow> bool" where
  "shows_control p namespace = (pc_organization_id p = None \<or>
     (case namespace of None \<Rightarrow> False | Some n \<Rightarrow> n \<in> set (pc_namespaces p)))"

definition dash_index ::
  "'s store_ops \<Rightarrow> codec \<Rightarrow> dash_config \<Rightarrow> dash_times \<Rightarrow> dash_request \<Rightarrow> dash_sessions \<Rightarrow> 's \<Rightarrow>
   (dash_failure + dash_response) \<times> dash_sessions \<times> 's" where
  "dash_index ops K c tm rq ss s = (case require_session K c (dt_session tm) rq ss of
     (Inl f, ss') \<Rightarrow> (Inl f, ss', s)
   | (Inr h, ss') \<Rightarrow> (case index_filter rq of
       Inl f \<Rightarrow> (Inl f, ss', s)
     | Inr (raw_status, status) \<Rightarrow> (case st_list_actions ops (dt_store tm) status s of
         (Inl e, s') \<Rightarrow> (Inl (Dash_Uncaught e), ss', s')
       | (Inr listed, s') \<Rightarrow>
           (let p = dh_principal h;
                actions = take max_dashboard_actions (filter (can_access_action p) listed);
                pauses = filter (\<lambda>q. shows_control p (rp_namespace q)) (st_list_pauses ops s');
                limits = filter (\<lambda>l. shows_control p (rl_namespace l)) (st_list_limits ops s')
            in (case bind_res (st_limit_usage ops (dt_usage tm) None s') (\<lambda>usage.
                  index_body raw_status actions pauses limits usage (st_verify_receipt_chain ops s')) of
                Inl e \<Rightarrow> (Inl (Dash_Uncaught e), ss', s')
              | Inr body \<Rightarrow> (Inr (html_response ''Approval queue'' body (Some h) 200), ss', s'))))))"

definition dash_detail ::
  "'s store_ops \<Rightarrow> codec \<Rightarrow> dash_config \<Rightarrow> dash_times \<Rightarrow> dash_request \<Rightarrow> dash_sessions \<Rightarrow> 's \<Rightarrow>
   (dash_failure + dash_response) \<times> dash_sessions \<times> 's" where
  "dash_detail ops K c tm rq ss s = (case require_session K c (dt_session tm) rq ss of
     (Inl f, ss') \<Rightarrow> (Inl f, ss', s)
   | (Inr h, ss') \<Rightarrow>
       (case bind_res (reject_dashboard_query rq [''decision'']) (\<lambda>_. dashboard_action_id rq) of
          Inl f \<Rightarrow> (Inl f, ss', s)
        | Inr i \<Rightarrow> (case st_get_action ops (dt_store tm) i s of
            (Inl (KeyError m), s') \<Rightarrow> (Inl action_missing, ss', s')
          | (Inl e, s') \<Rightarrow> (Inl (Dash_Uncaught e), ss', s')
          | (Inr a, s') \<Rightarrow>
              if \<not> can_access_action (dh_principal h) a then (Inl action_missing, ss', s')
              else if query_value rq ''decision'' \<notin> {None, Some ''approved'', Some ''rejected''} then
                (Inl (Dash_Error 400 ''Invalid result'' ''The decision result is not recognized.''), ss', s')
              else (case detail_body K h (query_value rq ''decision'') a of
                Inl e \<Rightarrow> (Inl (Dash_Uncaught e), ss', s')
              | Inr body \<Rightarrow> (Inr (html_response (''Action '' @ ra_action_id a) body (Some h) 200), ss', s')))))"

section \<open>Decisions\<close>

definition state_changed :: dash_failure where
  "state_changed = Dash_Error 409 ''Action state changed''
     ''This action can no longer accept that decision. Refresh its current state.''"

text \<open>The \<open>except\<close> clauses of \<open>_decide\<close>, in their order.\<close>

definition decision_problem :: "runtime_error \<Rightarrow> dash_failure" where
  "decision_problem e = (case e of
     KeyError _ \<Rightarrow> action_missing
   | ApprovalAuthorizationError refusal \<Rightarrow>
       if refusal \<in> {''organization_mismatch'', ''namespace_forbidden''} then action_missing
       else Dash_Error 403 ''Decision forbidden'' (refusal_message refusal)
   | InvalidActionState _ _ \<Rightarrow> state_changed
   | _ \<Rightarrow> if error_action e \<noteq> None then state_changed else Dash_Uncaught e)"

text \<open>What a decision takes from its request: the reason and the action, after every check.\<close>

definition decision_form ::
  "(string \<Rightarrow> bool) \<Rightarrow> dash_config \<Rightarrow> dash_request \<Rightarrow> dash_session \<Rightarrow> dash_failure + (string option \<times> string)" where
  "decision_form literal c rq h =
     bind_res (require_session_scope h ''actions:decide'') (\<lambda>_.
     bind_res (require_same_origin literal (dg_public_origin c) rq) (\<lambda>_.
     bind_res (read_form rq [''csrf'', ''reason'']) (\<lambda>form.
     bind_res (require_csrf h (map_of form ''csrf'')) (\<lambda>_.
     bind_res (validate_reason (map_of form ''reason'')) (\<lambda>reason.
     bind_res (dashboard_action_id rq) (\<lambda>i. Inr (reason, i)))))))"

definition decided_location :: "string \<Rightarrow> decision \<Rightarrow> string" where
  "decided_location i d = ''/dashboard/actions/'' @ url_quote i @ ''?decision='' @
     (if d = APPROVE then ''approved'' else ''rejected'')"

definition dash_decide ::
  "'s store_ops \<Rightarrow> codec \<Rightarrow> (string \<Rightarrow> bool) \<Rightarrow> dash_config \<Rightarrow> dash_times \<Rightarrow> decision \<Rightarrow> dash_request \<Rightarrow>
   dash_sessions \<Rightarrow> 's \<Rightarrow> (dash_failure + dash_response) \<times> dash_sessions \<times> 's" where
  "dash_decide ops K literal c tm d rq ss s = (case require_session K c (dt_session tm) rq ss of
     (Inl f, ss') \<Rightarrow> (Inl f, ss', s)
   | (Inr h, ss') \<Rightarrow> (case decision_form literal c rq h of
       Inl f \<Rightarrow> (Inl f, ss', s)
     | Inr (reason, i) \<Rightarrow> (case decide_store ops (dt_store tm) (dh_principal h) i d reason s of
         (Inl e, s') \<Rightarrow> (Inl (decision_problem e), ss', s')
       | (Inr a, s') \<Rightarrow> (Inr (redirect (decided_location i d) 303), ss', s'))))"

section \<open>The application\<close>

datatype dash_endpoint = Dash_Root | Dash_Index | Dash_Login_Form | Dash_Login | Dash_Logout
  | Dash_Stylesheet | Dash_Detail | Dash_Approve | Dash_Reject

text \<open>The routes: path, method and handler.\<close>

definition dash_routes :: "(string \<times> string \<times> dash_endpoint) list" where
  "dash_routes =
     [(''/dashboard'', ''GET'', Dash_Root),
      (''/dashboard/'', ''GET'', Dash_Index),
      (''/dashboard/login'', ''GET'', Dash_Login_Form),
      (''/dashboard/login'', ''POST'', Dash_Login),
      (''/dashboard/logout'', ''POST'', Dash_Logout),
      (''/dashboard/assets/style.css'', ''GET'', Dash_Stylesheet),
      (''/dashboard/actions/{action_id:str}'', ''GET'', Dash_Detail),
      (''/dashboard/actions/{action_id:str}/approve'', ''POST'', Dash_Approve),
      (''/dashboard/actions/{action_id:str}/reject'', ''POST'', Dash_Reject)]"

definition dash_handler ::
  "'s store_ops \<Rightarrow> codec \<Rightarrow> credential list \<Rightarrow> (string \<Rightarrow> bool) \<Rightarrow> dash_config \<Rightarrow> dash_times \<Rightarrow> dash_draws \<Rightarrow>
   dash_endpoint \<Rightarrow> dash_request \<Rightarrow> dash_sessions \<Rightarrow> 's \<Rightarrow> (dash_failure + dash_response) \<times> dash_sessions \<times> 's" where
  "dash_handler ops K cs literal c tm dw e rq ss s = (case e of
     Dash_Root \<Rightarrow> (Inr (redirect ''/dashboard/'' 308), ss, s)
   | Dash_Stylesheet \<Rightarrow> (Inr \<lparr>dp_status = 200, dp_location = None, dp_cookies = [], dp_media = ''text/css'',
       dp_body = dashboard_css\<rparr>, ss, s)
   | Dash_Login_Form \<Rightarrow> (case dash_login_form K c tm dw rq ss of (r, ss') \<Rightarrow> (r, ss', s))
   | Dash_Login \<Rightarrow> (case dash_login K cs literal c tm dw rq ss of (r, ss') \<Rightarrow> (r, ss', s))
   | Dash_Logout \<Rightarrow> (case dash_logout K literal c tm rq ss of (r, ss') \<Rightarrow> (r, ss', s))
   | Dash_Index \<Rightarrow> dash_index ops K c tm rq ss s
   | Dash_Detail \<Rightarrow> dash_detail ops K c tm rq ss s
   | Dash_Approve \<Rightarrow> dash_decide ops K literal c tm APPROVE rq ss s
   | Dash_Reject \<Rightarrow> dash_decide ops K literal c tm REJECT rq ss s)"

section \<open>Error pages and headers\<close>

text \<open>\<open>dashboard_error\<close>: the page of an error, for whoever the cookie still identifies.\<close>

definition dash_error_page ::
  "codec \<Rightarrow> dash_config \<Rightarrow> dash_times \<Rightarrow> dash_request \<Rightarrow> int \<Rightarrow> string \<Rightarrow> string \<Rightarrow> dash_sessions \<Rightarrow>
   dash_response \<times> dash_sessions" where
  "dash_error_page K c tm rq status title message ss = (case session_of K c (dt_error tm) rq ss of
     (session, ss') \<Rightarrow> (html_response title (error_body title message) session status, ss'))"

definition dash_http_error ::
  "codec \<Rightarrow> dash_config \<Rightarrow> dash_times \<Rightarrow> dash_request \<Rightarrow> int \<Rightarrow> dash_sessions \<Rightarrow> dash_response \<times> dash_sessions" where
  "dash_http_error K c tm rq status ss = dash_error_page K c tm rq status
     (if status = 404 then ''Page not found'' else ''Method not allowed'')
     ''The requested dashboard route is unavailable.'' ss"

definition dash_internal_error ::
  "codec \<Rightarrow> dash_config \<Rightarrow> dash_times \<Rightarrow> dash_request \<Rightarrow> dash_sessions \<Rightarrow> dash_response \<times> dash_sessions" where
  "dash_internal_error K c tm rq ss = dash_error_page K c tm rq 500 ''Dashboard error''
     ''The dashboard could not complete this request.'' ss"

text \<open>One request: the handler, then the handler of what it raised. \<open>None\<close> is a request without an answer.\<close>

definition dash_handle ::
  "'s store_ops \<Rightarrow> codec \<Rightarrow> credential list \<Rightarrow> (string \<Rightarrow> bool) \<Rightarrow> dash_config \<Rightarrow> dash_times \<Rightarrow> dash_draws \<Rightarrow>
   dash_endpoint \<Rightarrow> dash_request \<Rightarrow> dash_sessions \<Rightarrow> 's \<Rightarrow> dash_response option \<times> dash_sessions \<times> 's" where
  "dash_handle ops K cs literal c tm dw e rq ss s =
     (case dash_handler ops K cs literal c tm dw e rq ss s of
        (Inr resp, ss', s') \<Rightarrow> (Some resp, ss', s')
      | (Inl Dash_Endless, ss', s') \<Rightarrow> (None, ss', s')
      | (Inl (Dash_Error status title message), ss', s') \<Rightarrow>
          (case dash_error_page K c tm rq status title message ss' of (resp, ss'') \<Rightarrow> (Some resp, ss'', s'))
      | (Inl (Dash_Uncaught _), ss', s') \<Rightarrow>
          (case dash_internal_error K c tm rq ss' of (resp, ss'') \<Rightarrow> (Some resp, ss'', s')))"

text \<open>The headers of the middleware; the identifier of a request is chosen as in the approval service.\<close>

definition dash_headers :: "bool \<Rightarrow> string \<Rightarrow> (string \<times> string) list \<Rightarrow> (string \<times> string) list" where
  "dash_headers secure_transport request_id headers =
     fold (\<lambda>(name, v). put_header name v)
       ([(''X-Request-Id'', request_id), (''Cache-Control'', ''no-store''), (''Pragma'', ''no-cache''),
         (''X-Content-Type-Options'', ''nosniff''), (''X-Frame-Options'', ''DENY''),
         (''Content-Security-Policy'', ''default-src '' @ quoted ''none'' @ ''; style-src '' @ quoted ''self'' @
            ''; form-action '' @ quoted ''self'' @ ''; frame-ancestors '' @ quoted ''none'' @
            ''; base-uri '' @ quoted ''none''),
         (''Referrer-Policy'', ''no-referrer''),
         (''Permissions-Policy'', ''camera=(), microphone=(), geolocation=(), payment=(), usb=()''),
         (''Cross-Origin-Opener-Policy'', ''same-origin''),
         (''Cross-Origin-Resource-Policy'', ''same-origin''), (''Vary'', ''Cookie'')] @
        (if secure_transport then [(''Strict-Transport-Security'', ''max-age=31536000'')] else [])) headers"

end
