(* ===== verification/Dash_Props.thy ===== *)
theory Dash_Props
  imports Dashboard Json_Roundtrip Api_Props
begin

text \<open>
  The properties of the dashboard: what its sessions are and how long they live, what a decision
  needs, what a refusal leaves behind, and that no stored text can add markup to a page.
\<close>

section \<open>Sessions\<close>

text \<open>What the generator \<open>token_urlsafe(32)\<close> yields: 43 characters of the URL-safe alphabet.\<close>

definition draws_ok :: "dash_draws \<Rightarrow> bool" where
  "draws_ok dw \<longleftrightarrow> opaque_token_ok (dw_login_csrf dw) \<and> opaque_token_ok (dw_csrf dw) \<and>
     (\<forall>i. opaque_token_ok (dw_tokens dw i))"

text \<open>The sessions that requests can lead to, whatever the runtime store holds when each is handled.\<close>

inductive dash_reachable ::
  "codec \<Rightarrow> credential list \<Rightarrow> (string \<Rightarrow> bool) \<Rightarrow> dash_config \<Rightarrow> dash_sessions \<Rightarrow> bool"
  for K cs literal c where
  dash_start: "dash_reachable K cs literal c []"
| dash_request: "dash_reachable K cs literal c ss \<Longrightarrow> draws_ok dw \<Longrightarrow>
    dash_handle (sql_store K lease) K cs literal c tm dw e rq ss s = (r, ss', s') \<Longrightarrow>
    dash_reachable K cs literal c ss'"

text \<open>A session stands for someone whose credential was verified and who may read.\<close>

definition session_genuine :: "codec \<Rightarrow> credential list \<Rightarrow> dash_session \<Rightarrow> bool" where
  "session_genuine K cs h \<longleftrightarrow> (\<exists>token. authenticate K cs (Some (''Bearer '' @ token)) = Inr (dh_principal h)) \<and>
     has_scope (dh_principal h) ''actions:read'' \<and> opaque_token_ok (dh_csrf_token h)"

definition dash_ok :: "codec \<Rightarrow> credential list \<Rightarrow> session_config \<Rightarrow> dash_sessions \<Rightarrow> bool" where
  "dash_ok K cs c ss \<longleftrightarrow> sessions_wf c ss \<and> (\<forall>h \<in> snd ` set ss. session_genuine K cs h)"

lemma dash_ok_filter: "dash_ok K cs c ss \<Longrightarrow> dash_ok K cs c (filter P ss)"
  using sessions_wf_filter [of c ss P] by (auto simp: dash_ok_def)

lemma dash_ok_shrinks:
  assumes "dash_ok K cs c ss"
  shows "dash_ok K cs c (remove_expired now ss)" "dash_ok K cs c (delete_session K t ss)"
    "dash_ok K cs c (snd (get_session K now t ss))"
  using dash_ok_filter [OF assms] assms
  by (auto simp: remove_expired_def delete_session_def get_session_def drop_session_def split: option.splits)

lemma session_of_ok:
  "dash_ok K cs d ss \<Longrightarrow> session_of K c now rq ss = (h, ss') \<Longrightarrow> dash_ok K cs d ss'"
  using dash_ok_shrinks(3) [of K cs d ss now "map_of (dq_cookies rq) (session_cookie c)"]
  by (simp add: session_of_def)

lemma require_session_ok:
  "dash_ok K cs d ss \<Longrightarrow> require_session K c now rq ss = (r, ss') \<Longrightarrow> dash_ok K cs d ss'"
  by (auto simp: require_session_def split: prod.splits option.splits dest: session_of_ok)

lemma require_session_InrD:
  assumes "require_session K c now rq ss = (Inr h, ss')"
  shows "ss' = ss" "\<exists>t. map_of (dq_cookies rq) (session_cookie c) = Some t \<and> opaque_token_ok t \<and>
    map_of ss (session_digest K t) = Some h \<and> now < dh_expires_at_ns h"
  using assms get_session_SomeD [of K now "map_of (dq_cookies rq) (session_cookie c)" ss h ss']
  by (auto simp: require_session_def session_of_def split: prod.splits option.splits)

lemma create_session_ok:
  assumes "dash_ok K cs c ss" "session_genuine K cs \<lparr>dh_principal = p, dh_csrf_token = csrf, dh_expires_at_ns = now + dl_ttl_ns c\<rparr>"
    and "create_session K c now tokens csrf p ss = (r, ss')"
  shows "dash_ok K cs c ss'"
proof (cases "\<exists>t h. r = Session_Created t h")
  case True
  then obtain t h where "create_session K c now tokens csrf p ss = (Session_Created t h, ss')"
    using assms(3) by blast
  from create_session_CreatedD(4,5) [OF this] create_session_wf [OF _ assms(3)] assms(1,2)
    dash_ok_shrinks(1) [OF assms(1), of now]
  show ?thesis by (auto simp: dash_ok_def)
next
  case False
  with create_session_other [OF assms(3)] dash_ok_shrinks(1) [OF assms(1)] show ?thesis by blast
qed

lemma dash_login_ok:
  assumes "dash_ok K cs (dg_sessions c) ss" "draws_ok dw" "dash_login K cs literal c tm dw rq ss = (r, ss')"
  shows "dash_ok K cs (dg_sessions c) ss'"
  using assms
  by (auto simp: dash_login_def login_credential_def require_scope_def result_simps session_genuine_def
      draws_ok_def split: sum.splits prod.splits session_creation.splits if_splits
      elim!: create_session_ok [rotated 2])

lemma dash_logout_ok:
  assumes "dash_ok K cs d ss" "dash_logout K literal c tm rq ss = (r, ss')"
  shows "dash_ok K cs d ss'"
  using assms by (auto simp: dash_logout_def split: sum.splits prod.splits
      dest: require_session_ok dash_ok_shrinks(2))

lemma store_handlers_ok:
  assumes "dash_ok K cs d ss"
  shows "dash_index ops K c tm rq ss s = (r, ss', s') \<Longrightarrow> dash_ok K cs d ss'"
    and "dash_detail ops K c tm rq ss s = (r, ss', s') \<Longrightarrow> dash_ok K cs d ss'"
    and "dash_decide ops K literal c tm dec rq ss s = (r, ss', s') \<Longrightarrow> dash_ok K cs d ss'"
  using assms by (auto simp: dash_index_def dash_detail_def dash_decide_def Let_def
      split: sum.splits prod.splits runtime_error.splits if_splits dest: require_session_ok)

lemma dash_handler_ok:
  assumes ok: "dash_ok K cs (dg_sessions c) ss" and dw: "draws_ok dw"
    and res: "dash_handler ops K cs literal c tm dw e rq ss s = (r, ss', s')"
  shows "dash_ok K cs (dg_sessions c) ss'"
proof (cases e)
  case Dash_Login_Form
  with res ok show ?thesis
    by (auto simp: dash_handler_def dash_login_form_def split: prod.splits option.splits dest: session_of_ok)
qed (use res ok dash_login_ok [OF ok dw] dash_logout_ok [OF ok] store_handlers_ok [OF ok] in
    \<open>auto simp: dash_handler_def split: prod.splits\<close>)

lemma dash_error_page_ok:
  "dash_ok K cs d ss \<Longrightarrow> dash_error_page K c tm rq st t m ss = (resp, ss') \<Longrightarrow> dash_ok K cs d ss'"
  by (auto simp: dash_error_page_def split: prod.splits dest: session_of_ok)

lemma dash_handle_ok:
  assumes "dash_ok K cs (dg_sessions c) ss" "draws_ok dw" "dash_handle ops K cs literal c tm dw e rq ss s = (r, ss', s')"
  shows "dash_ok K cs (dg_sessions c) ss'"
proof -
  obtain q ss1 s1 where h: "dash_handler ops K cs literal c tm dw e rq ss s = (q, ss1, s1)"
    by (metis prod_cases3)
  note ok = dash_handler_ok [OF assms(1,2) h]
  from assms(3) h ok show ?thesis
    by (auto simp: dash_handle_def dash_internal_error_def split: sum.splits dash_failure.splits prod.splits
        dest: dash_error_page_ok)
qed

text \<open>
  C33. The sessions stay what they should be under every sequence of requests: one entry per token
  digest, never more than the configured number, and each stands for a principal whose bearer token
  was verified and carries the reading scope.
\<close>

theorem dashboard_sessions_are_sound:
  assumes "make_session_store ttl max_sessions = Inr (dg_sessions c)" and "dash_reachable K cs literal c ss"
  shows "distinct (map fst ss) \<and> int (length ss) \<le> max_sessions \<and>
    (\<forall>h \<in> snd ` set ss. (\<exists>token. authenticate K cs (Some (''Bearer '' @ token)) = Inr (dh_principal h)) \<and>
      has_scope (dh_principal h) ''actions:read'')"
proof -
  have max: "dl_max_sessions (dg_sessions c) = max_sessions" "0 < max_sessions"
    using assms(1) by (auto simp: make_session_store_def split: if_splits option.splits)
      (metis session_config.select_convs(3))+
  from assms(2) have "dash_ok K cs (dg_sessions c) ss"
  proof induction
    case dash_start
    then show ?case using max by (simp add: dash_ok_def sessions_wf_def)
  next
    case dash_request
    then show ?case by (blast intro: dash_handle_ok)
  qed
  then show ?thesis using max by (auto simp: dash_ok_def sessions_wf_def session_genuine_def)
qed

section \<open>The life of a session\<close>

lemma cookies_differ [simp]: "session_cookie c \<noteq> login_csrf_cookie c" "login_csrf_cookie c \<noteq> session_cookie c"
  by (simp_all add: session_cookie_def login_csrf_cookie_def)

lemma get_session_present:
  assumes "opaque_token_ok t" "map_of ss (session_digest K t) = Some h"
  shows "fst (get_session K now (Some t) ss) = (if now < dh_expires_at_ns h then Some h else None)"
  using assms by (simp add: get_session_def)

lemma get_session_absent: "map_of ss (session_digest K t) = None \<Longrightarrow> fst (get_session K now (Some t) ss) = None"
  by (simp add: get_session_def)

lemma opaque_ascii: "opaque_token_ok t \<Longrightarrow> \<not> list_ex (\<lambda>c. 128 \<le> code c) t"
  by (auto simp: opaque_token_ok_def list_ex_iff list_all_iff ascii_alnum_def ascii_letter_def ascii_digit_def
      Let_def) (force simp: code_def)+

text \<open>
  A session is what the sign-in made it, until exactly its expiry: after a sign-in that sets the
  session cookie, that cookie resolves to the principal of the presented credential before the
  configured lifetime is over and to nothing from then on; and once its holder signs out it resolves
  to nothing at any time.
\<close>

theorem session_lives_until_expiry:
  assumes "dash_login K cs literal c tm dw rq ss = (Inr resp, ss')"
    and "dp_cookies resp = strict_cookie c (session_cookie c) token age # rest"
    and "draws_ok dw"
  shows "\<exists>form p. read_form rq [''token'', ''csrf''] = Inr form \<and> login_credential K cs form = Inr p \<and>
    (\<forall>now. fst (get_session K now (Some token) ss') =
      (if now < dt_session tm + dl_ttl_ns (dg_sessions c)
       then Some \<lparr>dh_principal = p, dh_csrf_token = dw_csrf dw,
         dh_expires_at_ns = dt_session tm + dl_ttl_ns (dg_sessions c)\<rparr>
       else None)) \<and>
    (\<forall>tm' rq' resp' ss''. map_of (dq_cookies rq') (session_cookie c) = Some token \<longrightarrow>
      dash_logout K literal c tm' rq' ss' = (Inr resp', ss'') \<longrightarrow>
      (\<forall>now. fst (get_session K now (Some token) ss'') = None))"
proof -
  from assms(1,2) obtain form p t h where form: "read_form rq [''token'', ''csrf''] = Inr form"
    "login_credential K cs form = Inr p" and resp: "resp = signed_in_response c t"
    and made: "create_session K (dg_sessions c) (dt_session tm) (dw_tokens dw) (dw_csrf dw) p ss =
      (Session_Created t h, ss')"
    by (auto simp: dash_login_def result_simps new_login_response_def strict_cookie_def
        split: sum.splits prod.splits session_creation.splits)
  have "t = token" using assms(2) resp by (auto simp: signed_in_response_def strict_cookie_def)
  note new = create_session_CreatedD [OF made]
  have ok: "opaque_token_ok token" using new(3) assms(3) \<open>t = token\<close> by (auto simp: draws_ok_def)
  have found: "map_of ss' (session_digest K token) = Some h"
    using new(2,5) \<open>t = token\<close> by (simp add: map_of_eq_None_iff [symmetric] map_add_def)
  have live: "fst (get_session K now (Some token) ss') = (if now < dh_expires_at_ns h then Some h else None)" for now
    by (rule get_session_present [OF ok found])
  have gone: "fst (get_session K now (Some token) ss'') = None"
    if "map_of (dq_cookies rq') (session_cookie c) = Some token"
      "dash_logout K literal c tm' rq' ss' = (Inr resp', ss'')" for now tm' rq' resp' ss''
    using that ok by (intro get_session_absent)
      (auto simp: dash_logout_def delete_session_def split: sum.splits prod.splits)
  show ?thesis
    using form live gone new(4) by (intro exI [of _ form] exI [of _ p]) auto
qed

section \<open>Decisions\<close>

text \<open>The origin of a request is absent, vouched for by the browser, or the dashboard's own.\<close>

definition origin_trusted :: "(string \<Rightarrow> bool) \<Rightarrow> string option \<Rightarrow> dash_request \<Rightarrow> bool" where
  "origin_trusted literal public_origin rq \<longleftrightarrow> (dq_origin rq = None \<and> dq_referer rq = None) \<or>
     (dq_origin rq = Some ''null'' \<and> dq_fetch_site rq = Some ''same-origin'') \<or>
     (\<exists>own. presented_origin literal rq = Some own \<and>
       (public_origin = Some own \<or> public_origin = None \<and> request_origin literal rq = Inr (Some own)))"

lemma normalized_origin: "normalize_public_origin literal (Some t) = Inr r \<Longrightarrow> \<exists>u. r = Some u"
  by (auto simp: normalize_public_origin_def Let_def split: option.splits if_splits)

lemma expected_origin_Inr: "expected_origin literal po rq = Inr own \<Longrightarrow>
    po = Some own \<or> po = None \<and> request_origin literal rq = Inr (Some own)"
  by (auto simp: expected_origin_def request_origin_def split: option.splits sum.splits dest: normalized_origin)

lemma require_same_origin_Inr:
  assumes "require_same_origin literal po rq = Inr ()"
  shows "origin_trusted literal po rq"
proof -
  obtain own where own: "expected_origin literal po rq = Inr own"
    using assms by (auto simp: require_same_origin_def result_simps)
  note po = expected_origin_Inr [OF this]
  from assms own have "(dq_origin rq = None \<and> dq_referer rq = None) \<or>
      (dq_origin rq = Some ''null'' \<and> dq_fetch_site rq = Some ''same-origin'') \<or> presented_origin literal rq = Some own"
    by (simp add: require_same_origin_def compare_digest_def split: if_splits option.splits)
  with po show ?thesis unfolding origin_trusted_def by blast
qed

lemma require_csrf_Inr: "require_csrf h v = Inr () \<Longrightarrow> v = Some (dh_csrf_token h)"
  by (auto simp: require_csrf_def compare_digest_def split: option.splits sum.splits if_splits)

lemma dash_decide_InrD:
  assumes "dash_decide ops K literal c tm d rq ss s = (Inr resp, ss', s')"
  obtains h form reason b where "require_session K c (dt_session tm) rq ss = (Inr h, ss)" "ss' = ss"
    "has_scope (dh_principal h) ''actions:decide''" "origin_trusted literal (dg_public_origin c) rq"
    "read_form rq [''csrf'', ''reason''] = Inr form" "map_of form ''csrf'' = Some (dh_csrf_token h)"
    "validate_reason (map_of form ''reason'') = Inr reason"
    "decide_store ops (dt_store tm) (dh_principal h) (dq_action_id rq) d reason s = (Inr b, s')"
    "resp = redirect (decided_location (dq_action_id rq) d) 303"
proof -
  obtain h reason i b where h: "require_session K c (dt_session tm) rq ss = (Inr h, ss')"
    and f: "decision_form literal c rq h = Inr (reason, i)"
    and d: "decide_store ops (dt_store tm) (dh_principal h) i d reason s = (Inr b, s')"
    and r: "resp = redirect (decided_location i d) 303"
    using assms by (auto simp: dash_decide_def split: sum.splits prod.splits)
  from f obtain form where form: "read_form rq [''csrf'', ''reason''] = Inr form"
    "require_csrf h (map_of form ''csrf'') = Inr ()" "validate_reason (map_of form ''reason'') = Inr reason"
    and o: "require_same_origin literal (dg_public_origin c) rq = Inr ()"
    and sc: "has_scope (dh_principal h) ''actions:decide''" and i: "i = dq_action_id rq"
    by (auto simp: decision_form_def result_simps require_session_scope_def dashboard_action_id_def split: if_splits)
  have "ss' = ss" by (rule require_session_InrD(1) [OF h])
  with h show thesis
    by (intro that [OF _ _ sc require_same_origin_Inr [OF o] form(1) require_csrf_Inr [OF form(2)] form(3)])
      (use d r i in simp_all)
qed

lemma genuine_principal:
  assumes "auth_from_text K t = Inr cs" "session_genuine K cs h"
  shows "principal_ok (dh_principal h)" "list_all identifier_ok (pc_namespaces (dh_principal h))"
proof -
  obtain token where "authenticate K cs (Some (''Bearer '' @ token)) = Inr (dh_principal h)"
    "has_scope (dh_principal h) ''actions:read''"
    using assms(2) by (auto simp: session_genuine_def)
  then have "authorize K cs \<lparr>hr_authorization = Some (''Bearer '' @ token), hr_content_type = None,
      hr_content_length = None, hr_query = [], hr_action_id = [], hr_chunks = []\<rparr> ''actions:read'' = Inr (dh_principal h)"
    by (simp add: authorize_iff)
  from authorized_principal [OF assms(1) this]
  show "principal_ok (dh_principal h)" "list_all identifier_ok (pc_namespaces (dh_principal h))" by auto
qed

lemma reachable_genuine:
  assumes "dash_reachable K cs literal c ss" "0 \<le> dl_max_sessions (dg_sessions c)"
  shows "dash_ok K cs (dg_sessions c) ss"
  using assms(1)
proof induction
  case dash_start
  then show ?case using assms(2) by (simp add: dash_ok_def sessions_wf_def)
next
  case dash_request
  then show ?case by (blast intro: dash_handle_ok)
qed

lemma session_principal:
  assumes "auth_from_text K t = Inr cs" "dash_reachable K cs literal c ss" "0 \<le> dl_max_sessions (dg_sessions c)"
    and "require_session K c now rq ss = (Inr h, ss')"
  shows "principal_ok (dh_principal h)" "list_all identifier_ok (pc_namespaces (dh_principal h))"
proof -
  obtain tok where "map_of ss (session_digest K tok) = Some h"
    using require_session_InrD(2) [OF assms(4)] by blast
  then have "h \<in> snd ` set ss" by (force dest: map_of_SomeD)
  with reachable_genuine [OF assms(2,3)] have "session_genuine K cs h" by (auto simp: dash_ok_def)
  from genuine_principal [OF assms(1) this]
  show "principal_ok (dh_principal h)" "list_all identifier_ok (pc_namespaces (dh_principal h))" by auto
qed

text \<open>
  C32. A decision confirmed by the dashboard passed every guard: the cookie resolves to a live session,
  whose principal has the decision scope; the origin is the dashboard's own, or the browser sends
  none; the form carries the CSRF token of this very session; and the decision is one the principal
  may take on the action as it is stored, which is then in its new state.
\<close>

theorem dashboard_decision_is_guarded:
  assumes "reachable K lease s" and "auth_from_text K t = Inr cs"
    and "dash_reachable K cs literal c ss" and "0 \<le> dl_max_sessions (dg_sessions c)"
    and "dash_decide (sql_store K lease) K literal c tm d rq ss s = (Inr resp, ss', s')"
  shows "\<exists>token h form a b. map_of (dq_cookies rq) (session_cookie c) = Some token \<and>
    map_of ss (session_digest K token) = Some h \<and> dt_session tm < dh_expires_at_ns h \<and>
    has_scope (dh_principal h) ''actions:decide'' \<and> origin_trusted literal (dg_public_origin c) rq \<and>
    read_form rq [''csrf'', ''reason''] = Inr form \<and> map_of form ''csrf'' = Some (dh_csrf_token h) \<and>
    sql_view s (dq_action_id rq) = Some a \<and> can_access_action (dh_principal h) a \<and>
    ra_status a \<in> {PENDING, decision_target d} \<and>
    (pc_organization_id (dh_principal h) \<noteq> None \<longrightarrow> d \<in> set (pc_decisions (dh_principal h)) \<and>
      (pc_require_separate_approver (dh_principal h) \<longrightarrow>
        ra_requested_by a \<noteq> Some (pc_subject (dh_principal h)))) \<and>
    sql_view s' (dq_action_id rq) = Some b \<and> same_subject a b \<and> ra_status b = decision_target d"
proof (rule dash_decide_InrD [OF assms(5)])
  fix h form reason b
  assume h: "require_session K c (dt_session tm) rq ss = (Inr h, ss)"
    and g: "has_scope (dh_principal h) ''actions:decide''" "origin_trusted literal (dg_public_origin c) rq"
    "read_form rq [''csrf'', ''reason''] = Inr form" "map_of form ''csrf'' = Some (dh_csrf_token h)"
    and res: "decide_store (sql_store K lease) (dt_store tm) (dh_principal h) (dq_action_id rq) d reason s = (Inr b, s')"
  note p = session_principal [OF assms(2-4) h]
  from sql_review.decide_store_ok [OF reachable_ok [OF assms(1)] p g(1) res] require_session_InrD(2) [OF h] g
  show ?thesis by blast
qed

text \<open>What refuses a request of its own making: the client is at fault, not the dashboard.\<close>

definition dash_client_error :: "dash_failure \<Rightarrow> bool" where
  "dash_client_error f \<longleftrightarrow> (\<exists>st title message. f = Dash_Error st title message \<and>
     st \<in> {400, 401, 403, 404, 409, 413, 415})"

lemma dash_client_error_simps [simp]:
  "dash_client_error (Dash_Error st title message) \<longleftrightarrow> st \<in> {400, 401, 403, 404, 409, 413, 415}"
  "dash_client_error action_missing" "dash_client_error state_changed" "dash_client_error form_too_large"
  by (simp_all add: dash_client_error_def action_missing_def state_changed_def form_too_large_def)

lemma form_chunks_Inl: "form_chunks chunks body = Inl f \<Longrightarrow> dash_client_error f"
  by (induction chunks body rule: form_chunks.induct) (auto split: if_splits)

lemma dash_parser_errors:
  "read_form rq allowed = Inl f \<Longrightarrow> dash_client_error f"
  "validate_reason v = Inl f \<Longrightarrow> dash_client_error f"
  "dashboard_action_id rq = Inl f \<Longrightarrow> dash_client_error f"
  "require_session_scope h scope = Inl f \<Longrightarrow> dash_client_error f"
  "require_session K c now rq ss = (Inl f, ss') \<Longrightarrow> dash_client_error f"
  by (auto simp: read_form_def check_form_headers_def result_simps validate_reason_def dashboard_action_id_def
      require_session_scope_def require_session_def split: if_splits option.splits prod.splits dest: form_chunks_Inl)

lemma require_csrf_Inl: "opaque_token_ok (dh_csrf_token h) \<Longrightarrow> require_csrf h v = Inl f \<Longrightarrow> dash_client_error f"
  using opaque_ascii by (fastforce simp: require_csrf_def compare_digest_def split: option.splits if_splits)

lemma require_same_origin_Inl: "require_same_origin literal po rq = Inl f \<Longrightarrow>
    dash_client_error f \<or> (\<exists>e. f = Dash_Uncaught e)"
  by (auto simp: require_same_origin_def expected_origin_def compare_digest_def result_simps
      split: if_splits option.splits sum.splits)

lemma decision_problem_foreseen: "foreseen e \<Longrightarrow> dash_client_error (decision_problem e)"
  by (auto simp: foreseen_def decision_failure_def decision_problem_def not_found_def service_failure_def
      split: runtime_error.splits if_splits)

text \<open>
  A decision that the dashboard refuses leaves the runtime store as it was, and the answer is a
  client error; the one exception is a request whose origin the check itself cannot handle, which
  ends as an internal error.
\<close>

theorem dashboard_refusal_is_clean:
  assumes "reachable K lease s" and "auth_from_text K t = Inr cs"
    and "dash_reachable K cs literal c ss" and "0 \<le> dl_max_sessions (dg_sessions c)"
    and "dash_decide (sql_store K lease) K literal c tm d rq ss s = (Inl f, ss', s')"
  shows "s' = s \<and> ((\<exists>status title message. f = Dash_Error status title message \<and>
      status \<in> {400, 401, 403, 404, 409, 413, 415}) \<or>
    (\<exists>e. f = Dash_Uncaught e \<and> require_same_origin literal (dg_public_origin c) rq = Inl f))"
proof (cases "require_session K c (dt_session tm) rq ss")
  case (Pair q ss1)
  show ?thesis
  proof (cases q)
    case (Inl g)
    with assms(5) Pair have "s' = s" "f = g" by (auto simp: dash_decide_def)
    with dash_parser_errors(5) Pair Inl show ?thesis unfolding dash_client_error_def by blast
  next
    case (Inr h)
    note h = Pair [unfolded Inr]
    note p = session_principal [OF assms(2-4) h]
    have csrf: "opaque_token_ok (dh_csrf_token h)"
      using require_session_InrD(2) [OF h] reachable_genuine [OF assms(3,4)]
      by (force simp: dash_ok_def session_genuine_def dest: map_of_SomeD)
    show ?thesis
    proof (cases "decision_form literal c rq h")
      case (Inl g)
      with assms(5) h have "s' = s" "f = g" by (auto simp: dash_decide_def)
      moreover from Inl have "dash_client_error g \<or> require_same_origin literal (dg_public_origin c) rq = Inl g"
        using require_csrf_Inl [OF csrf] by (auto simp: decision_form_def result_simps dest: dash_parser_errors)
      ultimately show ?thesis
        using require_same_origin_Inl unfolding dash_client_error_def by blast
    next
      case (Inr ri)
      obtain reason i where ri: "ri = (reason, i)" by (cases ri)
      with assms(5) h Inr obtain e where e: "f = decision_problem e"
        "decide_store (sql_store K lease) (dt_store tm) (dh_principal h) i d reason s = (Inl e, s')"
        by (auto simp: dash_decide_def split: sum.splits prod.splits)
      have "has_scope (dh_principal h) ''actions:decide''"
        using Inr by (auto simp: decision_form_def result_simps require_session_scope_def split: if_splits)
      from sql_review.decide_store_error [OF reachable_ok [OF assms(1)] p this e(2)]
        decision_problem_foreseen [of e] e(1) show ?thesis unfolding dash_client_error_def by blast
    qed
  qed
qed

section \<open>What can stand in a page\<close>

text \<open>
  The markup of a text is the sequence of its angle brackets and quotes, the only characters that open
  or close a tag or an attribute; values from outside contribute none, so the markup of a page does
  not depend on them.
\<close>

definition markup_char :: "char \<Rightarrow> bool" where
  "markup_char c \<longleftrightarrow> code c \<in> {34, 39, 60, 62}"

definition markup :: "string \<Rightarrow> string" where
  "markup s = filter markup_char s"

lemma markup_Nil [simp]: "markup [] = []"
  by (simp add: markup_def)

lemma markup_append: "markup (s @ t) = markup s @ markup t"
  by (simp add: markup_def)

lemma markup_concat: "markup (concat ss) = concat (map markup ss)"
  by (induction ss) (simp_all add: markup_def)

lemma markup_none: "\<forall>c \<in> set s. \<not> markup_char c \<Longrightarrow> markup s = []"
  by (simp add: markup_def)

subsection \<open>Values from outside\<close>

lemma utf8_char_markup: "c' \<in> set (utf8_char c) \<Longrightarrow> markup_char c' \<Longrightarrow> c' = c"
  using code_less_256 [of c] by (auto simp: utf8_char_def markup_char_def code_char_of split: if_splits)

lemma entity_plain:
  "\<forall>c \<in> set ''&amp;''. \<not> markup_char c" "\<forall>c \<in> set ''&lt;''. \<not> markup_char c"
  "\<forall>c \<in> set ''&gt;''. \<not> markup_char c" "\<forall>c \<in> set ''&quot;''. \<not> markup_char c"
  "\<forall>c \<in> set ''&#x27;''. \<not> markup_char c"
  by code_simp+

lemma html_entity_markup: "\<forall>c' \<in> set (html_entity c). \<not> markup_char c'"
proof -
  have "code (CHR ''<'') = 60" "code (CHR ''>'') = 62"
    by (simp_all add: code_def)
  then have "code c = 60 \<longleftrightarrow> c = CHR ''<''" "code c = 62 \<longleftrightarrow> c = CHR ''>''"
    by (metis code_inject)+
  then have "\<forall>c' \<in> set [c]. \<not> markup_char c'"
    if "c \<noteq> CHR ''<''" "c \<noteq> CHR ''>''" "code c \<noteq> 34" "code c \<noteq> 39"
    using that by (simp add: markup_char_def)
  with entity_plain show ?thesis unfolding html_entity_def by presburger
qed

lemma escaped_markup: "markup (escaped s) = []"
proof (rule markup_none, rule ballI, rule notI)
  fix c assume "c \<in> set (escaped s)" "markup_char c"
  then obtain d e where "d \<in> set s" "e \<in> set (html_entity d)" "c \<in> set (utf8_char e)"
    by (auto simp: escaped_def utf8_encode_def html_escape_def)
  with html_entity_markup utf8_char_markup \<open>markup_char c\<close> show False by blast
qed

lemma unreserved_plain: "ascii_alnum c \<or> c \<in> set ''_.-~'' \<Longrightarrow> \<not> markup_char c"
  by (auto simp: markup_char_def ascii_alnum_def ascii_letter_def ascii_digit_def Let_def code_def)

lemma hex_upper_plain: "n < 16 \<Longrightarrow> \<not> markup_char (hex_upper n)"
  by (simp add: hex_upper_def markup_char_def code_char_of)

lemma quote_byte_markup:
  assumes "c' \<in> set (quote_byte c)"
  shows "\<not> markup_char c'"
proof (cases "ascii_alnum c \<or> c \<in> set ''_.-~''")
  case True
  with assms have "c' = c" by (simp only: quote_byte_def if_True) simp
  with unreserved_plain [OF True] show ?thesis by simp
next
  case False
  with assms have "c' = CHR ''%'' \<or> c' = hex_upper (code c div 16) \<or> c' = hex_upper (code c mod 16)"
    by (simp only: quote_byte_def if_False) simp
  moreover have "code c div 16 < 16" using code_less_256 [of c] by linarith
  ultimately show ?thesis
    using hex_upper_plain by (auto simp: markup_char_def code_def)
qed

lemma url_quote_markup: "markup (url_quote s) = []"
  by (rule markup_none) (auto simp: url_quote_def dest: quote_byte_markup)

lemma nl_markup: "markup (nl n) = []"
  by (rule markup_none) (auto simp: nl_def markup_char_def code_def)

lemma show_nat_markup: "markup (show_nat n) = []"
proof (rule markup_none, induction n rule: show_nat.induct)
  case (1 n)
  then show ?case
    by (subst show_nat.simps) (auto simp: digit_char_def markup_char_def code_char_of)
qed

lemma show_int_markup: "markup (show_int i) = []"
proof -
  have "markup (CHR ''-'' # s) = markup s" for s by (simp add: markup_def markup_char_def code_def)
  then show ?thesis by (simp add: show_int_def show_nat_markup)
qed

lemma or_dash_markup: "markup (or_dash v) = []"
proof -
  have "markup em_dash = []" by code_simp
  then show ?thesis by (simp add: or_dash_def escaped_markup split: option.splits)
qed

lemma selected_markup: "markup (selected_attr v w) = []"
  by (simp add: selected_attr_def markup_def markup_char_def code_def)

lemma labels_markup:
  "markup (if b then ''Enabled'' else ''Disabled'') = []" "markup (if b then ''Valid'' else ''Invalid'') = []"
  "markup (if b then ''s'' else []) = []"
  by (simp_all add: markup_def markup_char_def code_def)

lemmas hole_markup = markup_append escaped_markup url_quote_markup nl_markup show_nat_markup show_int_markup
  or_dash_markup selected_markup labels_markup append_Nil append_Nil2 append_assoc

subsection \<open>The templates\<close>

lemma page_markup:
  assumes "markup x = markup y"
  shows "markup (page t x (Some h)) = markup (page u y (Some k))"
  by (simp only: page_def page_identity_def option.case hole_markup assms)

lemma row_markup:
  "markup (action_row_html created a) = markup (action_row_html created' b)"
  "markup (usage_row_html u l) = markup (usage_row_html v m)"
  by (simp_all only: action_row_html_def usage_row_html_def hole_markup)

lemma row_not_empty: "action_row_html created a \<noteq> []" "usage_row_html u l \<noteq> []"
  by (simp_all add: action_row_html_def usage_row_html_def)

lemma table_rows_markup:
  assumes "length rows = length rows'" "\<forall>r \<in> set rows. r \<noteq> [] \<and> markup r = f" "\<forall>r \<in> set rows'. r \<noteq> [] \<and> markup r = f"
  shows "markup (table_rows rows e) = markup (table_rows rows' e)"
proof -
  have "map markup rs = replicate (length rs) f" if "\<forall>r \<in> set rs. r \<noteq> [] \<and> markup r = f" for rs
    using that by (induction rs) auto
  with assms have "markup (concat rows) = markup (concat rows')" by (simp add: markup_concat)
  moreover have "concat rows = [] \<longleftrightarrow> concat rows' = []"
    using assms by (cases rows; cases rows') auto
  ultimately show ?thesis by (simp add: table_rows_def)
qed

lemma status_options_markup: "markup (status_options raw) = markup (status_options raw')"
  by (simp only: status_options_def status_option_def markup_concat map_map comp_def hole_markup)

lemma metric_markup: "markup (metric n label) = markup (metric m label)"
  by (simp only: metric_def hole_markup)

lemma index_markup:
  assumes "markup (table_rows rows ''<tr><td colspan=\"5\">No actions match this filter.</td></tr>'') =
      markup (table_rows rows' ''<tr><td colspan=\"5\">No actions match this filter.</td></tr>'')"
    and "markup (table_rows us ''<tr><td colspan=\"4\">No execution limits configured.</td></tr>'') =
      markup (table_rows us' ''<tr><td colspan=\"4\">No execution limits configured.</td></tr>'')"
  shows "markup (index_html raw rows us n e v) = markup (index_html raw' rows' us' n' e' v')"
  by (simp only: index_html_def hole_markup assms status_options_markup [of raw raw']
      metric_markup [of n _ n'] metric_markup [of e _ e'])

lemma map_res_rows:
  assumes "map_res f xs = Inr ys" "\<And>x y. f x = Inr y \<Longrightarrow> P y"
  shows "length ys = length xs \<and> (\<forall>y \<in> set ys. P y)"
  using assms by (induction xs arbitrary: ys) (auto simp: result_simps)

lemma index_body_markup:
  assumes "index_body raw actions pauses limits usage v = Inr x"
    and "index_body raw' actions' pauses' limits' usage' v' = Inr y"
    and len: "length actions = length actions'" "length limits = length limits'"
  shows "markup x = markup y"
proof -
  obtain rows us where r: "map_res action_table_row actions = Inr rows"
    "map_res (usage_table_row usage) limits = Inr us"
    and x: "x = index_html raw rows us (length pauses) (length (filter rl_enabled limits)) v"
    using assms(1) by (auto simp: index_body_def result_simps)
  obtain rows' us' where r': "map_res action_table_row actions' = Inr rows'"
    "map_res (usage_table_row usage') limits' = Inr us'"
    and y: "y = index_html raw' rows' us' (length pauses') (length (filter rl_enabled limits')) v'"
    using assms(2) by (auto simp: index_body_def result_simps)
  let ?A = "\<lambda>r. r \<noteq> [] \<and> markup r = markup (action_row_html [] (hd actions))"
  let ?U = "\<lambda>r. r \<noteq> [] \<and> markup r = markup (usage_row_html (hd usage) (hd limits))"
  have A: "?A r" if "action_table_row a = Inr r" for a r
    using that row_not_empty(1) row_markup(1) by (auto simp: action_table_row_def result_simps)
  have U: "?U r" if "usage_table_row w l = Inr r" for w l r
    using that row_not_empty(2) row_markup(2) by (auto simp: usage_table_row_def result_simps)
  note rows = map_res_rows [where P = ?A, OF r(1) A] map_res_rows [where P = ?A, OF r'(1) A]
  note us = map_res_rows [where P = ?U, OF r(2) U] map_res_rows [where P = ?U, OF r'(2) U]
  show ?thesis unfolding x y
    by (intro index_markup table_rows_markup [where f = "markup (action_row_html [] (hd actions))"]
        table_rows_markup [where f = "markup (usage_row_html (hd usage) (hd limits))"])
      (use rows us len in auto)
qed

lemma json_block_markup: "markup (json_block K x) = markup ''<pre>'' @ markup ''</pre>''"
  by (simp only: json_block_def hole_markup)

lemma forms_markup:
  assumes "ra_status a = ra_status b" "\<forall>d. offers_decision (dh_principal h) a d = offers_decision (dh_principal k) b d"
  shows "markup (decision_forms h a) = markup (decision_forms k b)"
  by (simp only: decision_forms_def Let_def assms(1) assms(2) [rule_format] approve_form_def reject_form_def
      if_distrib [of markup] hole_markup)

lemma detail_body_markup:
  assumes "detail_body K h shown a = Inr x" "detail_body L k shown b = Inr y"
    and "ra_status a = ra_status b" "ra_result_available a = ra_result_available b"
    and "\<forall>d. offers_decision (dh_principal h) a d = offers_decision (dh_principal k) b d"
  shows "markup x = markup y"
proof -
  obtain created where x: "x = detail_html K h shown created a"
    using assms(1) by (auto simp: detail_body_def result_simps)
  obtain created' where y: "y = detail_html L k shown created' b"
    using assms(2) by (auto simp: detail_body_def result_simps)
  show ?thesis unfolding x y detail_html_def
    by (simp only: hole_markup forms_markup [OF assms(3,5)] json_block_markup detail_def assms(4)
        if_distrib [of markup])
qed

text \<open>
  C34. No text that the runtime store or an auth document holds can add markup to a page. The angle
  brackets and quotes of an action's page are the same for every action in the same state that offers
  the same decisions, whatever its identifiers, arguments, result, names and reasons, and whoever
  looks at it; those of the queue depend only on the numbers of its rows.
\<close>

theorem stored_text_is_inert:
  assumes "detail_body K h shown a = Inr x" and "detail_body L k shown b = Inr y"
    and "ra_status a = ra_status b" and "ra_result_available a = ra_result_available b"
    and "\<forall>d. offers_decision (dh_principal h) a d = offers_decision (dh_principal k) b d"
    and "index_body raw actions pauses limits usage v = Inr p"
    and "index_body raw' actions' pauses' limits' usage' v' = Inr q"
    and "length actions = length actions'" and "length limits = length limits'"
  shows "markup (page title x (Some h)) = markup (page title' y (Some k)) \<and>
    markup (page title p (Some h)) = markup (page title' q (Some k))"
  using detail_body_markup [OF assms(1-5)] index_body_markup [OF assms(6-9)] by (simp add: page_markup)

end
