(* ===== verification/Dash_Demo.thy ===== *)
theory Dash_Demo
  imports Dash_Props Api_Props
begin

text \<open>
  The properties of the dashboard at a concrete input: alice of the demo document signs in and decides
  on the action of the demo run. With it two things the handlers do at the edge: an origin beyond
  ASCII, and a pause of every namespace.
\<close>

definition demo_dash :: dash_config where
  "demo_dash = \<lparr>dg_sessions = \<lparr>dl_ttl_seconds = Fin 60 0, dl_ttl_ns = 60000000000, dl_max_sessions = 2\<rparr>,
     dg_cookie_secure = True, dg_public_origin = Some ''https://review.example.com''\<rparr>"

definition no_literal :: "string \<Rightarrow> bool" where
  "no_literal t = False"

lemma demo_ttl: "seconds_to_ns (Fin 60 0) = Some 60000000000"
  by (simp add: seconds_to_ns_def fmul_int_def round64_def bitlen.simps signed_def py_int_def Let_def)

lemma demo_dash_made:
  "make_session_store (Fin 60 0) 2 = Inr (dg_sessions demo_dash)"
  "make_dashboard no_literal (dg_sessions demo_dash) True (Some ''https://Review.Example.com/'') = Inr demo_dash"
proof -
  show "make_session_store (Fin 60 0) 2 = Inr (dg_sessions demo_dash)"
    by (simp add: make_session_store_def demo_ttl is_finite_def num_le_def of_int_num_def dy_cmp_def demo_dash_def)
  show "make_dashboard no_literal (dg_sessions demo_dash) True (Some ''https://Review.Example.com/'') = Inr demo_dash"
    by code_simp
qed

definition demo_draws :: dash_draws where
  "demo_draws = \<lparr>dw_login_csrf = replicate 43 (CHR ''l''), dw_tokens = (\<lambda>i. replicate 43 (CHR ''t'')),
     dw_csrf = replicate 43 (CHR ''c'')\<rparr>"

definition demo_times :: dash_times where
  "demo_times = \<lparr>dt_session = 20, dt_store = 20, dt_usage = 20, dt_error = 20\<rparr>"

definition demo_post :: dash_request where
  "demo_post = \<lparr>dq_query = [], dq_action_id = ''a1'',
     dq_cookies = [(''__Host-agentbarrier_login_csrf'', replicate 43 (CHR ''l''))],
     dq_origin = Some ''https://REVIEW.example.com'', dq_referer = None, dq_fetch_site = None,
     dq_base_url = ''https://review.example.com/'',
     dq_content_type = Some ''application/x-www-form-urlencoded'', dq_content_length = None,
     dq_chunks = [''token='' @ demo_token, ''&csrf='' @ replicate 43 (CHR ''l'')]\<rparr>"

definition demo_session :: dash_session where
  "demo_session = \<lparr>dh_principal = alice, dh_csrf_token = replicate 43 (CHR ''c''), dh_expires_at_ns = 60000000020\<rparr>"

definition demo_sessions :: dash_sessions where
  "demo_sessions = [(replicate 43 (CHR ''t''), demo_session)]"

definition demo_decide_post :: dash_request where
  "demo_decide_post = demo_post\<lparr>dq_cookies := [(''__Host-agentbarrier_session'', replicate 43 (CHR ''t''))],
     dq_chunks := [''reason=&csrf='' @ replicate 43 (CHR ''c'')]\<rparr>"

lemma demo_checked:
  "require_same_origin no_literal (dg_public_origin demo_dash) demo_post = Inr ()"
  "read_form demo_post [''token'', ''csrf''] = Inr [(''token'', demo_token), (''csrf'', replicate 43 (CHR ''l''))]"
  "check_login_csrf demo_dash demo_post [(''token'', demo_token), (''csrf'', replicate 43 (CHR ''l''))] = Inr ()"
  "login_credential demo_codec demo_credentials [(''token'', demo_token), (''csrf'', replicate 43 (CHR ''l''))] = Inr alice"
  "session_digest demo_codec (replicate 43 (CHR ''t'')) = replicate 43 (CHR ''t'')"
  by code_simp+

lemma demo_created:
  "create_session demo_codec (dg_sessions demo_dash) 20 (dw_tokens demo_draws) (dw_csrf demo_draws) alice [] =
     (Session_Created (replicate 43 (CHR ''t'')) demo_session, demo_sessions)"
  unfolding demo_sessions_def by (simp add: create_session_def remove_expired_def draw_token.simps demo_checked(5)
      demo_draws_def demo_dash_def demo_session_def Let_def del: replicate.simps)

lemma demo_login:
  "dash_login demo_codec demo_credentials no_literal demo_dash demo_times demo_draws demo_post [] =
     (Inr (signed_in_response demo_dash (replicate 43 (CHR ''t''))), demo_sessions)"
  by (simp only: dash_login_def demo_checked bind_res_simps sum.case) (simp add: demo_times_def demo_created)

lemma demo_draws_ok: "draws_ok demo_draws"
proof -
  have "opaque_token_ok (replicate 43 (CHR ''l''))" "opaque_token_ok (replicate 43 (CHR ''t''))"
    "opaque_token_ok (replicate 43 (CHR ''c''))"
    by code_simp+
  then show ?thesis by (simp add: draws_ok_def demo_draws_def)
qed

lemma demo_dash_reachable: "dash_reachable demo_codec demo_credentials no_literal demo_dash demo_sessions"
proof (rule dash_request [OF dash_start demo_draws_ok])
  show "dash_handle (sql_store demo_codec 100) demo_codec demo_credentials no_literal demo_dash demo_times
      demo_draws Dash_Login demo_post [] demo_submitted =
    (Some (signed_in_response demo_dash (replicate 43 (CHR ''t''))), demo_sessions, demo_submitted)"
    by (simp add: dash_handle_def dash_handler_def demo_login)
qed

lemma demo_form:
  "require_session demo_codec demo_dash 20 demo_decide_post demo_sessions = (Inr demo_session, demo_sessions)"
  "decision_form no_literal demo_dash demo_decide_post demo_session = Inr (None, ''a1'')"
  "dq_action_id demo_decide_post = ''a1''" "0 \<le> dl_max_sessions (dg_sessions demo_dash)"
  by code_simp+

lemma demo_dash_decides:
  "\<exists>resp s'. dash_decide (sql_store demo_codec 100) demo_codec no_literal demo_dash demo_times APPROVE demo_decide_post
     demo_sessions demo_submitted = (Inr resp, demo_sessions, s')"
proof -
  obtain j s' where "api_decide (sql_store demo_codec 100) demo_codec demo_credentials 20 APPROVE demo_http
      demo_submitted = (Inr j, s')"
    using demo_reviewed by blast
  then obtain b where "decide_store (sql_store demo_codec 100) 20 alice ''a1'' APPROVE None demo_submitted = (Inr b, s')"
    by (auto simp: api_decide_eq demo_query split: prod.splits sum.splits)
  then show ?thesis
    using demo_form by (simp add: dash_decide_def demo_times_def demo_session_def)
qed

lemmas instants = int_true_div_def float_timeval_def round64_def bitlen.simps rne_shift_def signed_def Let_def

section \<open>Witnesses\<close>

lemma dashboard_sessions_are_sound_witness:
  "int (length demo_sessions) \<le> 2 \<and> has_scope (dh_principal demo_session) ''actions:read''"
  using dashboard_sessions_are_sound [OF demo_dash_made(1) demo_dash_reachable]
  by (simp add: demo_sessions_def)

lemma session_lives_until_expiry_witness:
  "fst (get_session demo_codec 60000000019 (Some (replicate 43 (CHR ''t''))) demo_sessions) \<noteq> None \<and>
   fst (get_session demo_codec 60000000020 (Some (replicate 43 (CHR ''t''))) demo_sessions) = None"
proof -
  have "dp_cookies (signed_in_response demo_dash (replicate 43 (CHR ''t''))) =
      strict_cookie demo_dash (session_cookie demo_dash) (replicate 43 (CHR ''t'')) 60 #
      [Delete_Cookie (login_csrf_cookie demo_dash) (cookie_path demo_dash)]"
    by code_simp
  from session_lives_until_expiry [OF demo_login this demo_draws_ok] show ?thesis
    by (auto simp: demo_times_def demo_dash_def)
qed

lemma dashboard_decision_is_guarded_witness:
  "\<exists>resp s' b. dash_decide (sql_store demo_codec 100) demo_codec no_literal demo_dash demo_times APPROVE demo_decide_post
     demo_sessions demo_submitted = (Inr resp, demo_sessions, s') \<and>
   sql_view s' ''a1'' = Some b \<and> ra_status b = APPROVED"
proof -
  obtain resp s' where res: "dash_decide (sql_store demo_codec 100) demo_codec no_literal demo_dash demo_times APPROVE
      demo_decide_post demo_sessions demo_submitted = (Inr resp, demo_sessions, s')"
    using demo_dash_decides by blast
  from dashboard_decision_is_guarded [OF demo_reachable(1) demo_auth_loads demo_dash_reachable demo_form(4) res] res
  show ?thesis by (auto simp: demo_form decision_target_def)
qed

lemma demo_stranger:
  "dash_decide (sql_store demo_codec 100) demo_codec no_literal demo_dash demo_times APPROVE demo_post
     demo_sessions demo_submitted =
   (Inl (Dash_Error 401 ''Sign-in required'' ''Sign in to review approval actions.''), demo_sessions, demo_submitted)"
proof -
  have "require_session demo_codec demo_dash 20 demo_post demo_sessions =
      (Inl (Dash_Error 401 ''Sign-in required'' ''Sign in to review approval actions.''), demo_sessions)"
    by code_simp
  then show ?thesis by (simp add: dash_decide_def demo_times_def)
qed

lemma dashboard_refusal_is_clean_witness:
  "\<exists>f s'. dash_decide (sql_store demo_codec 100) demo_codec no_literal demo_dash demo_times APPROVE demo_post
     demo_sessions demo_submitted = (Inl f, demo_sessions, s') \<and> s' = demo_submitted"
  using demo_stranger dashboard_refusal_is_clean [OF demo_reachable(1) demo_auth_loads demo_dash_reachable
      demo_form(4) demo_stranger] by blast

definition hostile_action :: runtime_action where
  "hostile_action = (row_to_action demo_row)\<lparr>ra_tool_name := ''</dd><script>'',
     ra_arguments := JObj [(''note'', JStr ''</pre><script src=x>'')]\<rparr>"

lemma demo_pages:
  "\<exists>x. detail_body demo_codec demo_session None (row_to_action demo_row) = Inr x"
  "\<exists>x. detail_body demo_codec demo_session None hostile_action = Inr x"
  "\<exists>x. index_body ''pending'' [row_to_action demo_row] [] [] [] True = Inr x"
  "\<exists>x. index_body ''pending'' [hostile_action] [] [] [] True = Inr x"
proof -
  have "float_timeval (int_true_div 5 1000000000) = Some (0, 0)"
    by (simp add: instants)
  moreover have "civil_date 0 = (1970, 1, 1)" by code_simp
  ultimately obtain created where "timestamp_text 5 = Inr created" by (simp add: timestamp_text_def)
  moreover have "ra_created_at_ns (row_to_action demo_row) = 5" by code_simp
  ultimately show "\<exists>x. detail_body demo_codec demo_session None (row_to_action demo_row) = Inr x"
    "\<exists>x. detail_body demo_codec demo_session None hostile_action = Inr x"
    "\<exists>x. index_body ''pending'' [row_to_action demo_row] [] [] [] True = Inr x"
    "\<exists>x. index_body ''pending'' [hostile_action] [] [] [] True = Inr x"
    by (simp_all add: detail_body_def index_body_def action_table_row_def hostile_action_def)
qed

lemma stored_text_is_inert_witness:
  "\<exists>x y. detail_body demo_codec demo_session None (row_to_action demo_row) = Inr x \<and>
     detail_body demo_codec demo_session None hostile_action = Inr y \<and>
     markup (page ''Action a1'' x (Some demo_session)) = markup (page ''Action a1'' y (Some demo_session))"
proof -
  obtain x y p q where pages: "detail_body demo_codec demo_session None (row_to_action demo_row) = Inr x"
    "detail_body demo_codec demo_session None hostile_action = Inr y"
    "index_body ''pending'' [row_to_action demo_row] [] [] [] True = Inr p"
    "index_body ''pending'' [hostile_action] [] [] [] True = Inr q"
    using demo_pages by blast
  have same: "ra_status (row_to_action demo_row) = ra_status hostile_action"
    "ra_result_available (row_to_action demo_row) = ra_result_available hostile_action"
    "\<forall>d. offers_decision (dh_principal demo_session) (row_to_action demo_row) d =
       offers_decision (dh_principal demo_session) hostile_action d"
    by (simp_all add: hostile_action_def offers_decision_def can_self_decide_def)
  from stored_text_is_inert [OF pages(1,2) same pages(3,4)] pages show ?thesis by auto
qed

section \<open>Edges\<close>

text \<open>
  An \<open>Origin\<close> header with a character beyond ASCII is an origin like any other to the parser, but not
  to \<open>compare_digest\<close>: the request ends as an internal error instead of being rejected.
\<close>

lemma foreign_origin_is_internal_error:
  "\<exists>e. require_same_origin no_literal (dg_public_origin demo_dash)
     (demo_post\<lparr>dq_origin := Some (''https://'' @ [CHR 0xE9] @ ''.example'')\<rparr>) = Inl (Dash_Uncaught e)"
proof -
  have "require_same_origin no_literal (dg_public_origin demo_dash)
      (demo_post\<lparr>dq_origin := Some (''https://'' @ [CHR 0xE9] @ ''.example'')\<rparr>) =
    Inl (Dash_Uncaught (TypeError ''comparing strings with non-ASCII characters is not supported''))"
    by code_simp
  then show ?thesis by blast
qed

text \<open>A configured origin keeps an explicit default port, which no browser sends.\<close>

lemma default_port_is_kept:
  "normalize_public_origin no_literal (Some ''https://review.example.com:443'') =
     Inr (Some (''https://review.example.com:'' @ show_int 443))"
proof -
  let ?u = "\<lparr>up_scheme = ''https'', up_netloc = ''review.example.com:443'', up_path = [], up_query = [],
      up_fragment = []\<rparr>"
  have "urlsplit no_literal ''https://review.example.com:443'' = Some ?u" by code_simp
  moreover have "\<not> has_user_info ?u" by code_simp
  moreover have "snd (host_and_port ''review.example.com:443'') = ''443''" by code_simp
  moreover have "read_nat ''443'' = 443" by code_simp
  moreover have "list_all ascii_digit ''443''" by code_simp
  moreover have "hostname ?u = Some ''review.example.com''" by code_simp
  moreover have "py_lower ''review.example.com'' = ''review.example.com''" by code_simp
  moreover have "py_lower ''https'' = ''https''" by code_simp
  ultimately show ?thesis by (simp add: normalize_public_origin_def url_port_def port_ok_def Let_def)
qed

text \<open>To a reviewer of an organization a pause of every namespace is not there.\<close>

lemma global_pause_is_hidden: "pc_organization_id p \<noteq> None \<Longrightarrow> \<not> shows_control p None"
  by (simp add: shows_control_def)

text \<open>Two instants: a leap day with a rounded fraction, and the last second of the calendar of \<open>datetime\<close>.\<close>

lemma instants_checked:
  "float_timeval (int_true_div 951782400123456789 1000000000) = Some (951782400, 123457)"
  "float_timeval (int_true_div 253402300799000000000 1000000000) = Some (253402300799, 0)"
  by (simp_all add: instants)

lemma dates_checked:
  "civil_date (951782400 div 86400) = (2000, 2, 29)" "civil_date (253402300799 div 86400) = (9999, 12, 31)"
  "civil_date (253402300800 div 86400) = (10000, 1, 1)" "civil_date (- 1) = (1969, 12, 31)"
  by code_simp+

end
