(* ===== verification/Conf_Models.thy ===== *)
theory Conf_Models
  imports Models
begin

text \<open>
  The value objects of models.py that the adapters, the scenarios and the reporters of the conformance
  suite share, with the errors of errors.py that adapters raise. The canonical text of an action's
  arguments is represented by the object it reads back as.
\<close>

section \<open>Representations\<close>

text \<open>\<open>repr\<close> of strings, of lists of strings, and of JSON values.\<close>

definition repr_char :: "char \<Rightarrow> char \<Rightarrow> string" where
  "repr_char quote c = (let n = code c; slash = CHR 0x5C in
     if c = quote \<or> n = 92 then [slash, c]
     else if n = 10 then [slash, CHR ''n'']
     else if n = 13 then [slash, CHR ''r'']
     else if n = 9 then [slash, CHR ''t'']
     else if n < 32 \<or> 127 \<le> n \<and> n \<le> 160 \<or> n = 173 then
       [slash, CHR ''x'', hex_digit (n div 16), hex_digit (n mod 16)]
     else [c])"

definition repr_str :: "string \<Rightarrow> string" where
  "repr_str s = (let quote = (if CHR 0x27 \<in> set s \<and> CHR 0x22 \<notin> set s then CHR 0x22 else CHR 0x27)
     in quote # concat (map (repr_char quote) s) @ [quote])"

definition comma_join :: "string list \<Rightarrow> string" where
  "comma_join = join_on '', ''"

definition repr_strs :: "string list \<Rightarrow> string" where
  "repr_strs ss = ''['' @ comma_join (map repr_str ss) @ '']''"

definition repr_bool :: "bool \<Rightarrow> string" where
  "repr_bool b = (if b then ''True'' else ''False'')"

fun repr_json :: "codec \<Rightarrow> json \<Rightarrow> string" where
  "repr_json K JNull = ''None''"
| "repr_json K (JBool b) = repr_bool b"
| "repr_json K (JInt i) = show_int i"
| "repr_json K (JFloat x) = float_repr K x"
| "repr_json K (JStr s) = repr_str s"
| "repr_json K (JList xs) = ''['' @ comma_join (map (repr_json K) xs) @ '']''"
| "repr_json K (JObj kvs) =
     [CHR 0x7B] @ comma_join (map (\<lambda>(k, v). repr_str k @ '': '' @ repr_json K v) kvs) @ [CHR 0x7D]"

section \<open>Enums\<close>

datatype capability =
    Cap_approval | Cap_rejection | Cap_argument_binding | Cap_replay | Cap_cancellation | Cap_timeout
  | Cap_parallel_barrier | Cap_outcome_ambiguity | Cap_outcome_reconciliation | Cap_audit_receipts
  | Cap_delegation

definition capability_text :: "capability \<Rightarrow> string" where
  "capability_text c = (case c of
     Cap_approval \<Rightarrow> ''approval'' | Cap_rejection \<Rightarrow> ''rejection''
   | Cap_argument_binding \<Rightarrow> ''argument_binding'' | Cap_replay \<Rightarrow> ''replay''
   | Cap_cancellation \<Rightarrow> ''cancellation'' | Cap_timeout \<Rightarrow> ''timeout''
   | Cap_parallel_barrier \<Rightarrow> ''parallel_barrier'' | Cap_outcome_ambiguity \<Rightarrow> ''outcome_ambiguity''
   | Cap_outcome_reconciliation \<Rightarrow> ''outcome_reconciliation''
   | Cap_audit_receipts \<Rightarrow> ''audit_receipts'' | Cap_delegation \<Rightarrow> ''delegation'')"

definition all_capabilities :: "capability list" where
  "all_capabilities = [Cap_approval, Cap_rejection, Cap_argument_binding, Cap_replay, Cap_cancellation,
     Cap_timeout, Cap_parallel_barrier, Cap_outcome_ambiguity, Cap_outcome_reconciliation,
     Cap_audit_receipts, Cap_delegation]"

datatype approval_profile = Run_Wide | Per_Action

datatype effect_phase = Ef_started | Ef_committed | Ef_aborted

datatype audit_event =
    Ae_run_started | Ae_approval_requested | Ae_approved | Ae_rejected | Ae_run_completed
  | Ae_run_cancelled | Ae_run_timed_out | Ae_run_unknown | Ae_run_failed | Ae_reconciliation_started
  | Ae_reconciliation_committed | Ae_reconciliation_not_committed | Ae_reconciliation_conflict
  | Ae_reconciliation_unavailable | Ae_reconciliation_timed_out

definition audit_event_text :: "audit_event \<Rightarrow> string" where
  "audit_event_text e = (case e of
     Ae_run_started \<Rightarrow> ''run_started'' | Ae_approval_requested \<Rightarrow> ''approval_requested''
   | Ae_approved \<Rightarrow> ''approved'' | Ae_rejected \<Rightarrow> ''rejected'' | Ae_run_completed \<Rightarrow> ''run_completed''
   | Ae_run_cancelled \<Rightarrow> ''run_cancelled'' | Ae_run_timed_out \<Rightarrow> ''run_timed_out''
   | Ae_run_unknown \<Rightarrow> ''run_unknown'' | Ae_run_failed \<Rightarrow> ''run_failed''
   | Ae_reconciliation_started \<Rightarrow> ''reconciliation_started''
   | Ae_reconciliation_committed \<Rightarrow> ''reconciliation_committed''
   | Ae_reconciliation_not_committed \<Rightarrow> ''reconciliation_not_committed''
   | Ae_reconciliation_conflict \<Rightarrow> ''reconciliation_conflict''
   | Ae_reconciliation_unavailable \<Rightarrow> ''reconciliation_unavailable''
   | Ae_reconciliation_timed_out \<Rightarrow> ''reconciliation_timed_out'')"

datatype run_status = Rs_completed | Rs_cancelled | Rs_timed_out | Rs_failed | Rs_unknown

definition run_status_text :: "run_status \<Rightarrow> string" where
  "run_status_text s = (case s of
     Rs_completed \<Rightarrow> ''completed'' | Rs_cancelled \<Rightarrow> ''cancelled'' | Rs_timed_out \<Rightarrow> ''timed_out''
   | Rs_failed \<Rightarrow> ''failed'' | Rs_unknown \<Rightarrow> ''unknown'')"

datatype reconciliation_status = Re_committed | Re_not_committed | Re_conflict | Re_unavailable

definition reconciliation_text :: "reconciliation_status \<Rightarrow> string" where
  "reconciliation_text s = (case s of
     Re_committed \<Rightarrow> ''committed'' | Re_not_committed \<Rightarrow> ''not_committed'' | Re_conflict \<Rightarrow> ''conflict''
   | Re_unavailable \<Rightarrow> ''unavailable'')"

datatype scenario_status = Sc_passed | Sc_failed | Sc_skipped | Sc_error

definition scenario_status_text :: "scenario_status \<Rightarrow> string" where
  "scenario_status_text s = (case s of
     Sc_passed \<Rightarrow> ''passed'' | Sc_failed \<Rightarrow> ''failed'' | Sc_skipped \<Rightarrow> ''skipped'' | Sc_error \<Rightarrow> ''error'')"

section \<open>Errors\<close>

text \<open>
  What adapters, probes and the suite raise: the classes of errors.py, Python's own, the cancellation
  of a task, and any other exception of an adapter, with its type and message.
\<close>

datatype conf_error =
    Contract_Error string
  | Unsupported_Capability string
  | Ambiguous_Effect string bool
  | Suite_Failure string
  | Conf_Value_Error string
  | Conf_Type_Error string
  | Timeout_Error
  | Cancelled_Error
  | Other_Error string string

text \<open>\<open>AmbiguousEffectError.__init__\<close>\<close>

definition ambiguous_text :: "string \<Rightarrow> bool \<Rightarrow> string" where
  "ambiguous_text action_id commit_observed =
     (if commit_observed then ''outcome was lost after '' @ repr_str action_id @ '' committed''
      else ''outcome was lost before '' @ repr_str action_id @ '' commit could be confirmed'')"

definition conf_error_type :: "conf_error \<Rightarrow> string" where
  "conf_error_type e = (case e of
     Contract_Error _ \<Rightarrow> ''AdapterContractError'' | Unsupported_Capability _ \<Rightarrow> ''UnsupportedCapability''
   | Ambiguous_Effect _ _ \<Rightarrow> ''AmbiguousEffectError'' | Suite_Failure _ \<Rightarrow> ''SuiteFailure''
   | Conf_Value_Error _ \<Rightarrow> ''ValueError'' | Conf_Type_Error _ \<Rightarrow> ''TypeError''
   | Timeout_Error \<Rightarrow> ''TimeoutError'' | Cancelled_Error \<Rightarrow> ''CancelledError'' | Other_Error name _ \<Rightarrow> name)"

definition conf_error_text :: "conf_error \<Rightarrow> string" where
  "conf_error_text e = (case e of
     Contract_Error m \<Rightarrow> m | Unsupported_Capability m \<Rightarrow> m | Ambiguous_Effect i b \<Rightarrow> ambiguous_text i b
   | Suite_Failure m \<Rightarrow> m | Conf_Value_Error m \<Rightarrow> m | Conf_Type_Error m \<Rightarrow> m
   | Timeout_Error \<Rightarrow> [] | Cancelled_Error \<Rightarrow> [] | Other_Error _ m \<Rightarrow> m)"

section \<open>Actions\<close>

record action_request =
  aq_action_id :: string
  aq_tool_name :: string
  aq_requires_approval :: bool
  aq_parent_action_id :: "string option"
  aq_arguments :: json

definition make_action :: "string \<Rightarrow> string \<Rightarrow> (string \<times> json) list \<Rightarrow> bool \<Rightarrow> string option \<Rightarrow>
   conf_error + action_request" where
  "make_action action_id tool_name arguments requires_approval parent =
     (if blank action_id then Inl (Conf_Value_Error ''action_id must not be empty'')
      else if blank tool_name then Inl (Conf_Value_Error ''tool_name must not be empty'')
      else if (case parent of None \<Rightarrow> False | Some p \<Rightarrow> blank p) then
        Inl (Conf_Value_Error ''parent_action_id must not be empty'')
      else (case validate_json ''arguments'' (JObj arguments) of
         Inl (NonFinite path) \<Rightarrow> Inl (Conf_Value_Error (path @ '' contains a non-finite number''))
       | Inr _ \<Rightarrow> Inr \<lparr>aq_action_id = action_id, aq_tool_name = tool_name,
           aq_requires_approval = requires_approval, aq_parent_action_id = parent,
           aq_arguments = json_norm (JObj arguments)\<rparr>))"

definition with_arguments :: "action_request \<Rightarrow> (string \<times> json) list \<Rightarrow> conf_error + action_request" where
  "with_arguments a arguments = make_action (aq_action_id a) (aq_tool_name a) arguments
     (aq_requires_approval a) (aq_parent_action_id a)"

definition action_digest :: "codec \<Rightarrow> action_request \<Rightarrow> string" where
  "action_digest K a = sha256_hex K (dumps K (JObj [(''action_id'', JStr (aq_action_id a)),
     (''tool_name'', JStr (aq_tool_name a)), (''arguments'', aq_arguments a)]))"

section \<open>Observations and outcomes\<close>

record effect_event =
  ee_sequence :: int
  ee_run_id :: string
  ee_action_id :: string
  ee_tool_name :: string
  ee_phase :: effect_phase
  ee_arguments :: json
  ee_timestamp_ns :: int
  ee_detail :: "string option"

record audit_receipt =
  ar_sequence :: int
  ar_run_id :: string
  ar_event :: audit_event
  ar_timestamp_ns :: int
  ar_action_id :: "string option"
  ar_action_digest :: "string option"
  ar_detail :: "string option"

record run_outcome =
  ro_status :: run_status
  ro_detail :: "string option"
  ro_metadata :: "(string \<times> json) list"

record evidence =
  ev_action_id :: string
  ev_status :: reconciliation_status
  ev_expected_action_digest :: string
  ev_observed_action_digests :: "string list"
  ev_detail :: "string option"

record finding =
  fi_code :: string
  fi_title :: string
  fi_expected :: string
  fi_observed :: string
  fi_remediation :: string

record scenario_result =
  sr_scenario_id :: string
  sr_name :: string
  sr_adapter :: string
  sr_status :: scenario_status
  sr_duration_seconds :: pyfloat
  sr_events :: "effect_event list"
  sr_receipts :: "audit_receipt list"
  sr_finding :: "finding option"
  sr_detail :: "string option"

record suite_result =
  su_adapter :: string
  su_results :: "scenario_result list"
  su_strict_skips :: bool
  su_approval_profile :: approval_profile

definition status_count :: "scenario_status \<Rightarrow> suite_result \<Rightarrow> nat" where
  "status_count st r = length (filter (\<lambda>x. sr_status x = st) (su_results r))"

definition suite_passed :: "suite_result \<Rightarrow> bool" where
  "suite_passed r =
     (if status_count Sc_failed r \<noteq> 0 \<or> status_count Sc_error r \<noteq> 0 then False
      else \<not> (su_strict_skips r \<and> status_count Sc_skipped r \<noteq> 0))"

definition suite_exit_code :: "suite_result \<Rightarrow> int" where
  "suite_exit_code r = (if suite_passed r then 0 else 1)"

definition raise_for_failure :: "suite_result \<Rightarrow> conf_error + unit" where
  "raise_for_failure r =
     (if suite_passed r then Inr ()
      else Inl (Suite_Failure (''AgentBarrier verification failed: '' @ comma_join
        (map (\<lambda>x. sr_scenario_id x @ '': '' @ scenario_status_text (sr_status x))
          (filter (\<lambda>x. sr_status x \<in> {Sc_failed, Sc_error} \<or> su_strict_skips r \<and> sr_status x = Sc_skipped)
            (su_results r))))))"

end
