(* ===== verification/Conf_Adapter.thy ===== *)
theory Conf_Adapter
  imports Conf_Models
begin

text \<open>
  journal.py and probe.py: the append-only journal of an effect and the sentinel that writes it. Then
  adapter.py: the contract between the suite and the adapter under test, as a record of operations on
  the state of the event loop, and the checks that adapters share.
\<close>

section \<open>The journal\<close>

record journal =
  jn_events :: "effect_event list"
  jn_receipts :: "audit_receipt list"

definition empty_journal :: journal where
  "empty_journal = \<lparr>jn_events = [], jn_receipts = []\<rparr>"

definition journal_record ::
  "int \<Rightarrow> string \<Rightarrow> string \<Rightarrow> string \<Rightarrow> effect_phase \<Rightarrow> json \<Rightarrow> string option \<Rightarrow> journal \<Rightarrow>
   (conf_error + effect_event) \<times> journal" where
  "journal_record now run_id action_id tool_name phase arguments detail j =
     (if \<not> json_finite arguments then
        (Inl (Conf_Value_Error ''Out of range float values are not JSON compliant''), j)
      else let e = \<lparr>ee_sequence = int (length (jn_events j)) + 1, ee_run_id = run_id, ee_action_id = action_id,
             ee_tool_name = tool_name, ee_phase = phase, ee_arguments = json_norm arguments,
             ee_timestamp_ns = now, ee_detail = detail\<rparr>
        in (Inr e, j\<lparr>jn_events := jn_events j @ [e]\<rparr>))"

definition journal_events :: "string option \<Rightarrow> effect_phase option \<Rightarrow> journal \<Rightarrow> effect_event list" where
  "journal_events run_id phase j = filter (\<lambda>e. (case run_id of None \<Rightarrow> True | Some r \<Rightarrow> ee_run_id e = r) \<and>
     (case phase of None \<Rightarrow> True | Some p \<Rightarrow> ee_phase e = p)) (jn_events j)"

definition committed_events :: "string option \<Rightarrow> journal \<Rightarrow> effect_event list" where
  "committed_events run_id j = journal_events run_id (Some Ef_committed) j"

definition record_receipt ::
  "int \<Rightarrow> string \<Rightarrow> audit_event \<Rightarrow> string option \<Rightarrow> string option \<Rightarrow> string option \<Rightarrow> journal \<Rightarrow> journal" where
  "record_receipt now run_id event action_id digest detail j =
     j\<lparr>jn_receipts := jn_receipts j @ [\<lparr>ar_sequence = int (length (jn_receipts j)) + 1, ar_run_id = run_id,
       ar_event = event, ar_timestamp_ns = now, ar_action_id = action_id, ar_action_digest = digest,
       ar_detail = detail\<rparr>]\<rparr>"

definition journal_receipts :: "string option \<Rightarrow> journal \<Rightarrow> audit_receipt list" where
  "journal_receipts run_id j = filter (\<lambda>r. case run_id of None \<Rightarrow> True | Some i \<Rightarrow> ar_run_id r = i) (jn_receipts j)"

section \<open>The probe\<close>

text \<open>The optional callables of the constructor are functions on the action.\<close>

record probe =
  pb_run_id :: string
  pb_reconciliation_available :: bool
  pb_reconciliation_delay_seconds :: pyfloat
  pb_commit_action :: "(action_request \<Rightarrow> bool option) option"
  pb_reconcile_action :: "(action_request \<Rightarrow> evidence) option"
  pb_raise_before_commit :: nat
  pb_raise_after_commit :: nat
  pb_started :: bool
  pb_released :: bool

definition make_probe :: "string \<Rightarrow> bool \<Rightarrow> bool \<Rightarrow> bool \<Rightarrow> bool \<Rightarrow> pyfloat \<Rightarrow>
   (action_request \<Rightarrow> bool option) option \<Rightarrow> (action_request \<Rightarrow> evidence) option \<Rightarrow> conf_error + probe" where
  "make_probe run_id block_before_commit raise_before raise_after available delay commit_action reconcile_action =
     (if num_less delay (of_int_num 0) then
        Inl (Conf_Value_Error ''reconciliation_delay_seconds must not be negative'')
      else Inr \<lparr>pb_run_id = run_id, pb_reconciliation_available = available,
        pb_reconciliation_delay_seconds = delay, pb_commit_action = commit_action,
        pb_reconcile_action = reconcile_action, pb_raise_before_commit = (if raise_before then 1 else 0),
        pb_raise_after_commit = (if raise_after then 1 else 0), pb_started = False,
        pb_released = (\<not> block_before_commit)\<rparr>)"

text \<open>One record of a probe about an action.\<close>

definition probe_record ::
  "int \<Rightarrow> probe \<Rightarrow> action_request \<Rightarrow> effect_phase \<Rightarrow> string option \<Rightarrow> journal \<Rightarrow> conf_error option \<times> journal" where
  "probe_record now p a phase detail j =
     (case journal_record now (pb_run_id p) (aq_action_id a) (aq_tool_name a) phase (aq_arguments a) detail j of
        (Inl e, j') \<Rightarrow> (Some e, j') | (Inr _, j') \<Rightarrow> (None, j'))"

text \<open>The call up to its wait, a cancellation there, and the rest after the release.\<close>

definition probe_start :: "int \<Rightarrow> action_request \<Rightarrow> probe \<times> journal \<Rightarrow> conf_error option \<times> probe \<times> journal" where
  "probe_start now a pj = (case probe_record now (fst pj) a Ef_started None (snd pj) of
     (Some e, j) \<Rightarrow> (Some e, fst pj, j) | (None, j) \<Rightarrow> (None, (fst pj)\<lparr>pb_started := True\<rparr>, j))"

definition probe_abort :: "int \<Rightarrow> action_request \<Rightarrow> probe \<Rightarrow> journal \<Rightarrow> conf_error \<times> journal" where
  "probe_abort now a p j = (case probe_record now p a Ef_aborted (Some ''cancelled before commit'') j of
     (Some e, j') \<Rightarrow> (e, j') | (None, j') \<Rightarrow> (Cancelled_Error, j'))"

definition probe_finish ::
  "int \<Rightarrow> action_request \<Rightarrow> probe \<times> journal \<Rightarrow> (conf_error + string) \<times> probe \<times> journal" where
  "probe_finish now a pj = (case pj of (p, j) \<Rightarrow>
     if pb_raise_before_commit p \<noteq> 0 then
       (Inl (Ambiguous_Effect (aq_action_id a) False),
        p\<lparr>pb_raise_before_commit := pb_raise_before_commit p - 1\<rparr>, j)
     else if (case pb_commit_action p of None \<Rightarrow> Some True | Some f \<Rightarrow> f a) = Some False then
       (Inr (''sentinel effect already committed for '' @ aq_action_id a), p, j)
     else case probe_record now p a Ef_committed None j of
       (Some e, j') \<Rightarrow> (Inl e, p, j')
     | (None, j') \<Rightarrow>
         if pb_raise_after_commit p \<noteq> 0 then
           (Inl (Ambiguous_Effect (aq_action_id a) True),
            p\<lparr>pb_raise_after_commit := pb_raise_after_commit p - 1\<rparr>, j')
         else (Inr (''sentinel effect committed for '' @ aq_action_id a), p, j'))"

section \<open>Reconciliation\<close>

text \<open>The digest of a recorded commit, under the approval and the parent of the action asked for.\<close>

definition event_action :: "action_request \<Rightarrow> effect_event \<Rightarrow> action_request" where
  "event_action a e = a\<lparr>aq_action_id := ee_action_id e, aq_tool_name := ee_tool_name e,
     aq_arguments := ee_arguments e\<rparr>"

definition probe_reconcile :: "codec \<Rightarrow> probe \<Rightarrow> action_request \<Rightarrow> journal \<Rightarrow> evidence" where
  "probe_reconcile K p a j =
     (let expected = action_digest K a;
          commits = filter (\<lambda>e. ee_action_id e = aq_action_id a) (committed_events (Some (pb_run_id p)) j);
          observed = map (\<lambda>e. action_digest K (event_action a e)) commits;
          answer = (\<lambda>st ds detail. \<lparr>ev_action_id = aq_action_id a, ev_status = st,
            ev_expected_action_digest = expected, ev_observed_action_digests = ds, ev_detail = Some detail\<rparr>)
      in if \<not> pb_reconciliation_available p then
           answer Re_unavailable [] ''reconciliation evidence is unavailable''
         else case pb_reconcile_action p of
           Some f \<Rightarrow> f a
         | None \<Rightarrow>
             if commits = [] then
               answer Re_not_committed [] ''no committed effect exists for the stable action identity''
             else if length commits = 1 \<and> observed = [expected] then
               answer Re_committed observed ''one matching committed effect was found''
             else answer Re_conflict observed
               (''found '' @ show_nat (length commits) @ '' conflicting commit record(s)''))"

section \<open>The contract\<close>

text \<open>
  The operations of \<open>AgentAdapter\<close> and \<open>RunHandle\<close>. An operation runs until it returns or raises, and
  with it everything else the event loop schedules meanwhile; a probe is given by its number.
\<close>

record ('w, 'h) adapter_ops =
  ad_name :: string
  ad_capabilities :: "capability list"
  ad_begin :: "string \<Rightarrow> action_request list \<Rightarrow> nat \<Rightarrow> pyfloat option \<Rightarrow> 'w \<Rightarrow> (conf_error + 'h) \<times> 'w"
  rh_wait_for_pending :: "'h \<Rightarrow> pyfloat \<Rightarrow> 'w \<Rightarrow> (conf_error + action_request list) \<times> 'w"
  rh_approve :: "'h \<Rightarrow> string \<Rightarrow> action_request option \<Rightarrow> 'w \<Rightarrow> (conf_error + unit) \<times> 'w"
  rh_reject :: "'h \<Rightarrow> string \<Rightarrow> string option \<Rightarrow> 'w \<Rightarrow> (conf_error + unit) \<times> 'w"
  rh_cancel :: "'h \<Rightarrow> 'w \<Rightarrow> (conf_error + unit) \<times> 'w"
  rh_wait :: "'h \<Rightarrow> pyfloat \<Rightarrow> 'w \<Rightarrow> (conf_error + run_outcome) \<times> 'w"
  rh_reconcile :: "'h \<Rightarrow> string \<Rightarrow> pyfloat \<Rightarrow> 'w \<Rightarrow> (conf_error + evidence) \<times> 'w"
  rh_replay :: "'h \<Rightarrow> 'w \<Rightarrow> (conf_error + 'h) \<times> 'w"
  rh_audit_receipts :: "'h \<Rightarrow> 'w \<Rightarrow> (conf_error + audit_receipt list) \<times> 'w"
  rh_close :: "'h \<Rightarrow> 'w \<Rightarrow> (conf_error + unit) \<times> 'w"

text \<open>\<open>RunHandle.reconcile\<close> of a handle that does not implement it.\<close>

definition unsupported_reconcile :: "'h \<Rightarrow> string \<Rightarrow> pyfloat \<Rightarrow> 'w \<Rightarrow> (conf_error + evidence) \<times> 'w" where
  "unsupported_reconcile h action_id seconds w =
     (Inl (Unsupported_Capability ''run handle does not support outcome reconciliation''), w)"

definition adapter_require :: "('w, 'h) adapter_ops \<Rightarrow> capability \<Rightarrow> conf_error + unit" where
  "adapter_require A c = (if c \<notin> set (ad_capabilities A)
     then Inl (Unsupported_Capability (''adapter '' @ repr_str (ad_name A) @ '' does not support '' @
       repr_str (capability_text c))) else Inr ())"

text \<open>
  \<open>wait_for_pending_or_terminal\<close> once \<open>asyncio.wait\<close> is over: whether the event was set, and what the
  run's task returned or raised, when it is done.
\<close>

definition pending_or_terminal :: "bool \<Rightarrow> (conf_error + run_outcome) option \<Rightarrow> string \<Rightarrow> conf_error + unit" where
  "pending_or_terminal pending run adapter_name =
     (if pending then Inr ()
      else case run of
        None \<Rightarrow> Inl Timeout_Error
      | Some (Inl e) \<Rightarrow> Inl e
      | Some (Inr outcome) \<Rightarrow> Inl (Contract_Error (adapter_name @ '' run terminated before requesting approval ('' @
          run_status_text (ro_status outcome) @
          (case ro_detail outcome of None \<Rightarrow> [] | Some d \<Rightarrow> if d = [] then [] else '': '' @ d) @ '')'')))"

section \<open>The actions of a run\<close>

definition duplicate_ids :: "action_request list \<Rightarrow> string list" where
  "duplicate_ids as = sort (remdups (filter (\<lambda>i. 1 < length (filter (\<lambda>a. aq_action_id a = i) as)) (map aq_action_id as)))"

definition unknown_parent :: "string \<Rightarrow> conf_error" where
  "unknown_parent i = Contract_Error (''parent_action_id '' @ repr_str i @ '' does not reference an action in this run'')"

text \<open>The \<open>while\<close> loop from an action up the chain of its parents.\<close>

function delegation_walk :: "action_request list \<Rightarrow> string list \<Rightarrow> action_request \<Rightarrow> conf_error + unit" where
  "delegation_walk as visited current = (case aq_parent_action_id current of
     None \<Rightarrow> Inr ()
   | Some parent \<Rightarrow>
       if aq_action_id current \<in> set visited then
         Inl (Contract_Error ''delegation relationships must not contain cycles'')
       else case find_row aq_action_id parent as of
         None \<Rightarrow> Inl (unknown_parent parent)
       | Some next_parent \<Rightarrow> delegation_walk as (aq_action_id current # visited) next_parent)"
  by pat_completeness auto
termination
proof (relation "measure (\<lambda>(as, visited, c). card (insert (aq_action_id c) (aq_action_id ` set as) - set visited))")
  fix as :: "action_request list" and visited parent and current next_parent :: action_request
  assume fresh: "\<not> aq_action_id current \<in> set visited" and "find_row aq_action_id parent as = Some next_parent"
  then have "next_parent \<in> set as" by (auto dest: find_row_SomeD)
  then have "insert (aq_action_id next_parent) (aq_action_id ` set as) - set (aq_action_id current # visited) \<subset>
      insert (aq_action_id current) (aq_action_id ` set as) - set visited"
    using fresh by auto
  then show "((as, aq_action_id current # visited, next_parent), as, visited, current) \<in>
      measure (\<lambda>(as, visited, c). card (insert (aq_action_id c) (aq_action_id ` set as) - set visited))"
    by (auto intro: psubset_card_mono)
qed simp

definition check_delegation :: "action_request list \<Rightarrow> action_request \<Rightarrow> conf_error + unit" where
  "check_delegation as a = (case aq_parent_action_id a of
     None \<Rightarrow> Inr ()
   | Some parent \<Rightarrow>
       if parent = aq_action_id a then Inl (Contract_Error ''an action cannot delegate to itself'')
       else case find_row aq_action_id parent as of
         None \<Rightarrow> Inl (unknown_parent parent)
       | Some current \<Rightarrow> delegation_walk as [aq_action_id a] current)"

definition validate_actions :: "action_request list \<Rightarrow> conf_error + action_request list" where
  "validate_actions as =
     (if as = [] then Inl (Contract_Error ''an adapter run requires at least one action'')
      else if duplicate_ids as \<noteq> [] then
        Inl (Contract_Error (''action_id values must be unique within a run: '' @ repr_strs (duplicate_ids as)))
      else bind_res (map_res (check_delegation as) as) (\<lambda>_. Inr as))"

definition validate_timeout :: "pyfloat option \<Rightarrow> conf_error + pyfloat option" where
  "validate_timeout seconds = (case seconds of
     None \<Rightarrow> Inr None
   | Some x \<Rightarrow> if \<not> is_finite x \<or> num_le x (of_int_num 0)
       then Inl (Contract_Error ''timeout_seconds must be finite and positive'') else Inr (Some x))"

section \<open>Validated actions\<close>

lemma duplicate_ids_Nil: "duplicate_ids as = [] \<longleftrightarrow> distinct (map aq_action_id as)"
proof -
  have "length (filter (\<lambda>a. aq_action_id a = i) as) = count_list (map aq_action_id as) i" for i
    by (induction as) auto
  moreover have "distinct xs \<longleftrightarrow> (\<forall>x \<in> set xs. \<not> 1 < count_list xs x)" for xs :: "string list"
  proof (induction xs)
    case (Cons x xs)
    have "x \<in> set xs \<longleftrightarrow> 0 < count_list xs x" using count_list_0_iff [of xs x] by auto
    moreover have "\<forall>y \<in> set (x # xs). \<not> 1 < count_list (x # xs) y \<longleftrightarrow> (y \<noteq> x \<or> count_list xs x = 0) \<and> (y = x \<or> \<not> 1 < count_list xs y)"
      by auto
    ultimately show ?case using Cons by (metis bot_nat_0.not_eq_extremum distinct.simps(2) list.set_intros set_ConsD)
  qed simp
  moreover have "sort xs = [] \<longleftrightarrow> xs = []" for xs :: "string list" by (metis set_empty set_sort)
  ultimately show ?thesis
    by (simp add: duplicate_ids_def filter_empty_conv)
qed

lemma validate_actions_InrD:
  assumes "validate_actions as = Inr bs"
  shows "bs = as" "as \<noteq> []" "distinct (map aq_action_id as)" "\<forall>a \<in> set as. check_delegation as a = Inr ()"
proof -
  have "as \<noteq> []" "duplicate_ids as = []" "\<exists>us. map_res (check_delegation as) as = Inr us \<and> bs = as"
    using assms by (auto simp: validate_actions_def bind_res_Inr_iff split: if_split_asm)
  moreover from this(3) have "\<forall>a \<in> set as. check_delegation as a = Inr ()"
    by (force simp: map_res_Inr_iff list_all2_conv_all_nth in_set_conv_nth)
  ultimately show "bs = as" "as \<noteq> []" "distinct (map aq_action_id as)" "\<forall>a \<in> set as. check_delegation as a = Inr ()"
    by (auto simp: duplicate_ids_Nil)
qed

end
