(* ===== verification/Conf_Reference.thy ===== *)
theory Conf_Reference
  imports Conf_Adapter
begin

text \<open>
  adapters/reference.py: the reference adapter, as the coroutines of its runs on one event loop. A run
  is the record of its handle with the point its task waits at; the coroutines of the loop interleave
  only where they wait, so each definition here is what happens between two waits. What one coroutine
  starts or cancels stands in the run: \<open>Tk_created\<close> is a task that has not begun, and a cancelled one
  that has not begun never does.
\<close>

section \<open>Runs\<close>

datatype future = Fu_waiting | Fu_decided decision "action_request option" | Fu_cancelled

datatype task_state = Tk_created | Tk_waiting | Tk_ended "conf_error option"

datatype run_phase =
    Rp_created
  | Rp_deciding
  | Rp_executing "(action_request \<times> task_state) list"
  | Rp_done run_outcome
  | Rp_never_started

record ref_run =
  rr_run_id :: string
  rr_actions :: "action_request list"
  rr_probe :: nat
  rr_timeout :: "pyfloat option"
  rr_decisions :: "(string \<times> future) list"
  rr_reconciliations :: "(string \<times> evidence) list"
  rr_phase :: run_phase
  rr_started_at :: int

text \<open>The event loop: what its coroutines share, and the two clocks they read.\<close>

record conf_world =
  cw_journal :: journal
  cw_probes :: "probe list"
  cw_completed :: "(string \<times> string) list"
  cw_runs :: "ref_run list"
  cw_time_ns :: int
  cw_loop_ns :: int

definition ref_pending :: "ref_run \<Rightarrow> action_request list" where
  "ref_pending r = filter aq_requires_approval (rr_actions r)"

definition update_run :: "nat \<Rightarrow> (ref_run \<Rightarrow> ref_run) \<Rightarrow> conf_world \<Rightarrow> conf_world" where
  "update_run k f w = w\<lparr>cw_runs := (cw_runs w)[k := f (cw_runs w ! k)]\<rparr>"

definition action_receipt ::
  "codec \<Rightarrow> string \<Rightarrow> audit_event \<Rightarrow> action_request \<Rightarrow> string option \<Rightarrow> conf_world \<Rightarrow> conf_world" where
  "action_receipt K run_id event a detail w = w\<lparr>cw_journal := record_receipt (cw_time_ns w) run_id event
     (Some (aq_action_id a)) (Some (action_digest K a)) detail (cw_journal w)\<rparr>"

definition run_receipt :: "string \<Rightarrow> audit_event \<Rightarrow> string option \<Rightarrow> conf_world \<Rightarrow> conf_world" where
  "run_receipt run_id event detail w =
     w\<lparr>cw_journal := record_receipt (cw_time_ns w) run_id event None None detail (cw_journal w)\<rparr>"

definition outcome :: "run_status \<Rightarrow> string option \<Rightarrow> run_outcome" where
  "outcome st detail = \<lparr>ro_status = st, ro_detail = detail, ro_metadata = []\<rparr>"

text \<open>\<open>ReferenceAdapter.begin\<close>\<close>

definition new_run :: "string \<Rightarrow> action_request list \<Rightarrow> nat \<Rightarrow> pyfloat option \<Rightarrow> ref_run" where
  "new_run run_id actions effect seconds = \<lparr>rr_run_id = run_id, rr_actions = actions, rr_probe = effect,
     rr_timeout = seconds, rr_decisions = [], rr_reconciliations = [], rr_phase = Rp_created, rr_started_at = 0\<rparr>"

definition ref_begin ::
  "string \<Rightarrow> action_request list \<Rightarrow> nat \<Rightarrow> pyfloat option \<Rightarrow> conf_world \<Rightarrow> (conf_error + nat) \<times> conf_world" where
  "ref_begin run_id actions effect seconds w =
     (case bind_res (validate_actions actions) (\<lambda>as. bind_res (validate_timeout seconds) (\<lambda>t. Inr (as, t))) of
        Inl e \<Rightarrow> (Inl e, w)
      | Inr (as, t) \<Rightarrow> (Inr (length (cw_runs w)),
          run_receipt run_id Ae_run_started None (w\<lparr>cw_runs := cw_runs w @ [new_run run_id as effect t]\<rparr>)))"

section \<open>Approvals\<close>

text \<open>
  \<open>_ancestors_allowed\<close>, whose loop need not end on arbitrary actions; what its dictionaries lack is a
  \<open>KeyError\<close>.
\<close>

definition missing_key :: "string \<Rightarrow> conf_error" where
  "missing_key k = Other_Error ''KeyError'' (repr_str k)"

definition future_approved :: "(string \<times> future) list \<Rightarrow> string \<Rightarrow> conf_error + bool" where
  "future_approved decisions i = (case map_of decisions i of
     Some (Fu_decided d _) \<Rightarrow> Inr (d = APPROVE) | _ \<Rightarrow> Inl (missing_key i))"

partial_function (option) ancestors_allowed ::
  "action_request list \<Rightarrow> (string \<times> future) list \<Rightarrow> string option \<Rightarrow> (conf_error + bool) option" where
  "ancestors_allowed actions decisions parent_id = (case parent_id of
     None \<Rightarrow> Some (Inr True)
   | Some i \<Rightarrow> (case find_row aq_action_id i actions of
       None \<Rightarrow> Some (Inl (missing_key i))
     | Some parent \<Rightarrow>
         (case (if aq_requires_approval parent then future_approved decisions (aq_action_id parent) else Inr True) of
            Inl e \<Rightarrow> Some (Inl e)
          | Inr allowed \<Rightarrow>
              if allowed then ancestors_allowed actions decisions (aq_parent_action_id parent)
              else Some (Inr False))))"

text \<open>The action as it may run, if it may.\<close>

definition executable_action ::
  "action_request list \<Rightarrow> (string \<times> future) list \<Rightarrow> action_request \<Rightarrow>
   (conf_error + action_request option) option" where
  "executable_action actions decisions a = (case ancestors_allowed actions decisions (aq_parent_action_id a) of
     None \<Rightarrow> None
   | Some (Inl e) \<Rightarrow> Some (Inl e)
   | Some (Inr False) \<Rightarrow> Some (Inr None)
   | Some (Inr True) \<Rightarrow>
       if \<not> aq_requires_approval a then Some (Inr (Some a))
       else (case map_of decisions (aq_action_id a) of
          Some (Fu_decided d replacement) \<Rightarrow> Some (Inr (if d = APPROVE
            then Some (case replacement of None \<Rightarrow> a | Some b \<Rightarrow> b) else None))
        | _ \<Rightarrow> Some (Inl (missing_key (aq_action_id a)))))"

fun executable_actions ::
  "action_request list \<Rightarrow> (string \<times> future) list \<Rightarrow> action_request list \<Rightarrow>
   (conf_error + action_request list) option" where
  "executable_actions actions decisions [] = Some (Inr [])"
| "executable_actions actions decisions (a # as) = (case executable_action actions decisions a of
     None \<Rightarrow> None
   | Some (Inl e) \<Rightarrow> Some (Inl e)
   | Some (Inr x) \<Rightarrow> map_option (\<lambda>r. bind_res r (\<lambda>bs. Inr (case x of None \<Rightarrow> bs | Some b \<Rightarrow> b # bs)))
       (executable_actions actions decisions as))"

section \<open>The run's task\<close>

text \<open>The \<open>except\<close> clauses of \<open>_drive\<close>.\<close>

definition end_run :: "nat \<Rightarrow> conf_error option \<Rightarrow> conf_world \<Rightarrow> conf_world" where
  "end_run k e w =
     (let rid = rr_run_id (cw_runs w ! k);
          finish = (\<lambda>st detail event why. run_receipt rid event why
            (update_run k (\<lambda>r. r\<lparr>rr_phase := Rp_done (outcome st detail)\<rparr>) w))
      in case e of
           None \<Rightarrow> finish Rs_completed None Ae_run_completed None
         | Some Timeout_Error \<Rightarrow> finish Rs_timed_out (Some ''run exceeded its tool timeout'') Ae_run_timed_out None
         | Some Cancelled_Error \<Rightarrow> finish Rs_cancelled (Some ''run was cancelled'') Ae_run_cancelled None
         | Some (Ambiguous_Effect i b) \<Rightarrow>
             finish Rs_unknown (Some (ambiguous_text i b)) Ae_run_unknown (Some (ambiguous_text i b))
         | Some x \<Rightarrow>
             (let d = Some (conf_error_type x @ '': '' @ conf_error_text x) in finish Rs_failed d Ae_run_failed d))"

text \<open>\<open>_execute_all\<close> up to its \<open>gather\<close>.\<close>

definition begin_tasks :: "nat \<Rightarrow> action_request list \<Rightarrow> conf_world \<Rightarrow> conf_world" where
  "begin_tasks k actions w =
     (let rid = rr_run_id (cw_runs w ! k);
          tasks = filter (\<lambda>a. (rid, aq_action_id a) \<notin> set (cw_completed w)) actions
      in if tasks = [] then end_run k None w
         else update_run k (\<lambda>r. r\<lparr>rr_phase := Rp_executing (map (\<lambda>a. (a, Tk_created)) tasks)\<rparr>) w)"

text \<open>The beginning of the run: it executes at once, or asks for the approvals.\<close>

definition request_approvals :: "codec \<Rightarrow> nat \<Rightarrow> conf_world \<Rightarrow> conf_world" where
  "request_approvals K k w =
     (let r = cw_runs w ! k in
      fold (\<lambda>a. action_receipt K (rr_run_id r) Ae_approval_requested a None) (ref_pending r)
        (update_run k (\<lambda>r. r\<lparr>rr_decisions := map (\<lambda>a. (aq_action_id a, Fu_waiting)) (ref_pending r),
           rr_phase := Rp_deciding\<rparr>) w))"

definition start_run :: "codec \<Rightarrow> nat \<Rightarrow> conf_world \<Rightarrow> conf_world" where
  "start_run K k w =
     (let r = cw_runs w ! k; w = update_run k (\<lambda>r. r\<lparr>rr_started_at := cw_loop_ns w\<rparr>) w
      in if ref_pending r = [] then begin_tasks k (rr_actions r) w else request_approvals K k w)"

definition all_decided :: "(string \<times> future) list \<Rightarrow> bool" where
  "all_decided ds = list_all (\<lambda>(i, f). f \<noteq> Fu_waiting) ds"

text \<open>The rest of \<open>_resolve_approvals\<close>; \<open>None\<close> when the loop over the parents does not end.\<close>

definition resolve_run :: "nat \<Rightarrow> conf_world \<Rightarrow> conf_world option" where
  "resolve_run k w =
     (let r = cw_runs w ! k in
      map_option (\<lambda>x. case x of Inl e \<Rightarrow> end_run k (Some e) w | Inr as \<Rightarrow> begin_tasks k as w)
        (executable_actions (rr_actions r) (rr_decisions r) (rr_actions r)))"

section \<open>Effects\<close>

definition set_task :: "nat \<Rightarrow> nat \<Rightarrow> task_state \<Rightarrow> conf_world \<Rightarrow> conf_world" where
  "set_task k j st = update_run k (\<lambda>r. case rr_phase r of
     Rp_executing ts \<Rightarrow> r\<lparr>rr_phase := Rp_executing (ts[j := (fst (ts ! j), st)])\<rparr> | _ \<Rightarrow> r)"

definition set_probe :: "nat \<Rightarrow> probe \<times> journal \<Rightarrow> conf_world \<Rightarrow> conf_world" where
  "set_probe p pj w = w\<lparr>cw_probes := (cw_probes w)[p := fst pj], cw_journal := snd pj\<rparr>"

definition mark_completed :: "string \<Rightarrow> string \<Rightarrow> conf_world \<Rightarrow> conf_world" where
  "mark_completed run_id i w = w\<lparr>cw_completed := List.insert (run_id, i) (cw_completed w)\<rparr>"

definition discard_completed :: "string \<Rightarrow> string \<Rightarrow> conf_world \<Rightarrow> conf_world" where
  "discard_completed run_id i w = w\<lparr>cw_completed := removeAll (run_id, i) (cw_completed w)\<rparr>"

text \<open>The effect past its release, and the end of \<open>_execute_one\<close>.\<close>

definition finish_task :: "nat \<Rightarrow> nat \<Rightarrow> action_request \<Rightarrow> conf_world \<Rightarrow> conf_world" where
  "finish_task k j a w =
     (let r = cw_runs w ! k in
      case probe_finish (cw_time_ns w) a (cw_probes w ! rr_probe r, cw_journal w) of
        (Inr _, pj) \<Rightarrow> mark_completed (rr_run_id r) (aq_action_id a)
          (set_task k j (Tk_ended None) (set_probe (rr_probe r) pj w))
      | (Inl (Ambiguous_Effect i b), pj) \<Rightarrow> mark_completed (rr_run_id r) (aq_action_id a)
          (set_task k j (Tk_ended (Some (Ambiguous_Effect i b))) (set_probe (rr_probe r) pj w))
      | (Inl e, pj) \<Rightarrow> set_task k j (Tk_ended (Some e)) (set_probe (rr_probe r) pj w))"

definition begin_task :: "nat \<Rightarrow> nat \<Rightarrow> action_request \<Rightarrow> conf_world \<Rightarrow> conf_world" where
  "begin_task k j a w =
     (let r = cw_runs w ! k in
      case probe_start (cw_time_ns w) a (cw_probes w ! rr_probe r, cw_journal w) of
        (Some e, pj) \<Rightarrow> set_task k j (Tk_ended (Some e)) (set_probe (rr_probe r) pj w)
      | (None, pj) \<Rightarrow>
          (let w' = set_probe (rr_probe r) pj w in
           if pb_released (cw_probes w' ! rr_probe r) then finish_task k j a w' else set_task k j Tk_waiting w'))"

text \<open>One task of a run that can go on.\<close>

definition task_ready :: "ref_run \<Rightarrow> nat \<Rightarrow> conf_world \<Rightarrow> bool" where
  "task_ready r j w = (case rr_phase r of
     Rp_executing ts \<Rightarrow> j < length ts \<and> (case snd (ts ! j) of
       Tk_created \<Rightarrow> True | Tk_waiting \<Rightarrow> pb_released (cw_probes w ! rr_probe r) | Tk_ended _ \<Rightarrow> False)
   | _ \<Rightarrow> False)"

definition task_step :: "nat \<Rightarrow> nat \<Rightarrow> conf_world \<Rightarrow> conf_world" where
  "task_step k j w = (case rr_phase (cw_runs w ! k) of
     Rp_executing ts \<Rightarrow> (case ts ! j of
        (a, Tk_created) \<Rightarrow> begin_task k j a w | (a, Tk_waiting) \<Rightarrow> finish_task k j a w | _ \<Rightarrow> w)
   | _ \<Rightarrow> w)"

text \<open>The cancellation of the tasks that have not ended: those that wait record that they abort.\<close>

fun abort_tasks :: "int \<Rightarrow> probe \<Rightarrow> (action_request \<times> task_state) list \<Rightarrow> journal \<Rightarrow> journal" where
  "abort_tasks now p [] j = j"
| "abort_tasks now p ((a, st) # ts) j =
     abort_tasks now p ts (if st = Tk_waiting then snd (probe_abort now a p j) else j)"

definition fence_run :: "nat \<Rightarrow> conf_error option \<Rightarrow> conf_world \<Rightarrow> conf_world" where
  "fence_run k e w =
     (let r = cw_runs w ! k; ts = (case rr_phase r of Rp_executing ts \<Rightarrow> ts | _ \<Rightarrow> []) in
      end_run k e (w\<lparr>cw_journal := abort_tasks (cw_time_ns w) (cw_probes w ! rr_probe r) ts (cw_journal w)\<rparr>))"

text \<open>The errors with which tasks ended; \<open>gather\<close> raises the first of them.\<close>

definition task_errors :: "(action_request \<times> task_state) list \<Rightarrow> conf_error list" where
  "task_errors ts = concat (map (\<lambda>(a, st). case st of Tk_ended (Some e) \<Rightarrow> [e] | _ \<Rightarrow> []) ts)"

definition all_ended :: "(action_request \<times> task_state) list \<Rightarrow> bool" where
  "all_ended ts = list_all (\<lambda>(a, st). st = Tk_ended None) ts"

text \<open>A cancelled or timed out run: the future it awaits is cancelled with it.\<close>

fun cancel_first_waiting :: "(string \<times> future) list \<Rightarrow> (string \<times> future) list" where
  "cancel_first_waiting [] = []"
| "cancel_first_waiting ((i, f) # ds) =
     (if f = Fu_waiting then (i, Fu_cancelled) # ds else (i, f) # cancel_first_waiting ds)"

definition interrupt_run :: "nat \<Rightarrow> conf_error \<Rightarrow> conf_world \<Rightarrow> conf_world" where
  "interrupt_run k e w = (case rr_phase (cw_runs w ! k) of
     Rp_created \<Rightarrow> update_run k (\<lambda>r. r\<lparr>rr_phase := Rp_never_started\<rparr>) w
   | Rp_deciding \<Rightarrow> end_run k (Some e)
       (update_run k (\<lambda>r. r\<lparr>rr_decisions := cancel_first_waiting (rr_decisions r)\<rparr>) w)
   | Rp_executing _ \<Rightarrow> fence_run k (Some e) w
   | _ \<Rightarrow> w)"

section \<open>The handle\<close>

text \<open>\<open>_decision_future\<close>\<close>

definition decision_future :: "ref_run \<Rightarrow> string \<Rightarrow> conf_error + unit" where
  "decision_future r i = (case map_of (rr_decisions r) i of
     None \<Rightarrow> Inl (Contract_Error (repr_str i @ '' is not pending approval''))
   | Some f \<Rightarrow> if f \<noteq> Fu_waiting then Inl (Contract_Error (repr_str i @ '' already has a decision''))
       else Inr ())"

definition set_decision :: "nat \<Rightarrow> string \<Rightarrow> decision \<Rightarrow> action_request option \<Rightarrow> conf_world \<Rightarrow> conf_world" where
  "set_decision k i d replacement = update_run k (\<lambda>r. r\<lparr>rr_decisions :=
     map (\<lambda>(j, f). (j, if j = i then Fu_decided d replacement else f)) (rr_decisions r)\<rparr>)"

definition ref_approve ::
  "codec \<Rightarrow> nat \<Rightarrow> string \<Rightarrow> action_request option \<Rightarrow> conf_world \<Rightarrow> (conf_error + unit) \<times> conf_world" where
  "ref_approve K k i replacement w =
     (let r = cw_runs w ! k in
      case decision_future r i of
        Inl e \<Rightarrow> (Inl e, w)
      | Inr _ \<Rightarrow> (case find_row aq_action_id i (ref_pending r) of
          None \<Rightarrow> (Inl (Contract_Error (repr_str i @ '' is not pending approval'')), w)
        | Some original \<Rightarrow>
            if (case replacement of None \<Rightarrow> False | Some b \<Rightarrow> aq_action_id b \<noteq> aq_action_id original) then
              (Inl (Contract_Error ''replacement must preserve action_id''), w)
            else if (case replacement of None \<Rightarrow> False | Some b \<Rightarrow> aq_tool_name b \<noteq> aq_tool_name original) then
              (Inl (Contract_Error ''replacement must preserve tool_name''), w)
            else (Inr (), set_decision k i APPROVE replacement (action_receipt K (rr_run_id r) Ae_approved
              (case replacement of None \<Rightarrow> original | Some b \<Rightarrow> b) None w))))"

definition ref_reject ::
  "codec \<Rightarrow> nat \<Rightarrow> string \<Rightarrow> string option \<Rightarrow> conf_world \<Rightarrow> (conf_error + unit) \<times> conf_world" where
  "ref_reject K k i reason w =
     (let r = cw_runs w ! k in
      case decision_future r i of
        Inl e \<Rightarrow> (Inl e, w)
      | Inr _ \<Rightarrow> (case find_row aq_action_id i (ref_pending r) of
          None \<Rightarrow> (Inl (Contract_Error (repr_str i @ '' is not pending approval'')), w)
        | Some original \<Rightarrow> (Inr (), set_decision k i REJECT None
            (action_receipt K (rr_run_id r) Ae_rejected original reason w))))"

definition task_over :: "ref_run \<Rightarrow> bool" where
  "task_over r = (case rr_phase r of Rp_done _ \<Rightarrow> True | Rp_never_started \<Rightarrow> True | _ \<Rightarrow> False)"

text \<open>\<open>cancel\<close>: the cancellation of a task that has not begun is raised again by the \<open>await\<close>.\<close>

definition ref_cancel :: "nat \<Rightarrow> conf_world \<Rightarrow> (conf_error + unit) \<times> conf_world" where
  "ref_cancel k w =
     (let r = cw_runs w ! k in
      if task_over r then (Inr (), w)
      else (if rr_phase r = Rp_created then Inl Cancelled_Error else Inr (), interrupt_run k Cancelled_Error w))"

definition ref_replay :: "nat \<Rightarrow> conf_world \<Rightarrow> (conf_error + nat) \<times> conf_world" where
  "ref_replay k w =
     (let r = cw_runs w ! k in
      if \<not> task_over r then (Inl (Contract_Error ''cannot replay a run before it reaches a terminal state''), w)
      else ref_begin (rr_run_id r) (rr_actions r) (rr_probe r) (rr_timeout r) w)"

section \<open>Reconciliation\<close>

text \<open>
  The lookup bounded by the timeout, which wins a tie with the probe's delay. The detail is given
  without the number of seconds.
\<close>

definition reconcile_times_out :: "pyfloat \<Rightarrow> pyfloat \<Rightarrow> bool" where
  "reconcile_times_out delay seconds = (\<not> num_eq delay (of_int_num 0) \<and> num_le seconds delay)"

definition timed_out_detail :: string where
  "timed_out_detail = ''reconciliation timed out''"

definition reconciliation_event :: "reconciliation_status \<Rightarrow> audit_event" where
  "reconciliation_event st = (case st of
     Re_committed \<Rightarrow> Ae_reconciliation_committed | Re_not_committed \<Rightarrow> Ae_reconciliation_not_committed
   | Re_conflict \<Rightarrow> Ae_reconciliation_conflict | Re_unavailable \<Rightarrow> Ae_reconciliation_unavailable)"

text \<open>The evidence for an action and the event that is recorded for it.\<close>

definition bound_evidence :: "codec \<Rightarrow> probe \<Rightarrow> pyfloat \<Rightarrow> action_request \<Rightarrow> journal \<Rightarrow> evidence \<times> audit_event" where
  "bound_evidence K p seconds a j =
     (let digest = action_digest K a in
      if reconcile_times_out (pb_reconciliation_delay_seconds p) seconds then
        (\<lparr>ev_action_id = aq_action_id a, ev_status = Re_unavailable, ev_expected_action_digest = digest,
          ev_observed_action_digests = [], ev_detail = Some timed_out_detail\<rparr>,
         Ae_reconciliation_timed_out)
      else
        let e = probe_reconcile K p a j;
            e' = (if ev_action_id e \<noteq> aq_action_id a \<or> ev_expected_action_digest e \<noteq> digest
              then \<lparr>ev_action_id = aq_action_id a, ev_status = Re_conflict, ev_expected_action_digest = digest,
                ev_observed_action_digests = ev_observed_action_digests e,
                ev_detail = Some ''reconciliation evidence was bound to a different action identity''\<rparr>
              else e)
        in (e', reconciliation_event (ev_status e')))"

definition settle_evidence :: "string \<Rightarrow> evidence \<Rightarrow> conf_world \<Rightarrow> conf_world" where
  "settle_evidence run_id e w = (case ev_status e of
     Re_committed \<Rightarrow> mark_completed run_id (ev_action_id e) w
   | Re_not_committed \<Rightarrow> discard_completed run_id (ev_action_id e) w
   | _ \<Rightarrow> w)"

definition ref_reconcile ::
  "codec \<Rightarrow> nat \<Rightarrow> string \<Rightarrow> pyfloat \<Rightarrow> conf_world \<Rightarrow> (conf_error + evidence) \<times> conf_world" where
  "ref_reconcile K k i seconds w =
     (let r = cw_runs w ! k in
      case map_of (rr_reconciliations r) i of
        Some e \<Rightarrow> (Inr e, w)
      | None \<Rightarrow> (case rr_phase r of
          Rp_done result \<Rightarrow>
            if ro_status result \<noteq> Rs_unknown then
              (Inl (Contract_Error ''only an unknown run outcome can be reconciled''), w)
            else (case find_row aq_action_id i (rr_actions r) of
              None \<Rightarrow> (Inl (Contract_Error (repr_str i @ '' does not identify an action in this run'')), w)
            | Some a \<Rightarrow> (case validate_timeout (Some seconds) of
                Inl e \<Rightarrow> (Inl e, w)
              | Inr _ \<Rightarrow>
                  let w1 = action_receipt K (rr_run_id r) Ae_reconciliation_started a None w;
                      (e, event) = bound_evidence K (cw_probes w1 ! rr_probe r) seconds a (cw_journal w1);
                      w2 = settle_evidence (rr_run_id r) e w1;
                      w3 = update_run k (\<lambda>r. r\<lparr>rr_reconciliations := (i, e) # rr_reconciliations r\<rparr>) w2
                  in (Inr e, action_receipt K (rr_run_id r) event a (ev_detail e) w3)))
        | _ \<Rightarrow> (Inl (Contract_Error ''cannot reconcile before the run reaches a terminal state''), w)))"

end
