(* ===== verification/Conf_Steps.thy ===== *)
theory Conf_Steps
  imports Conf_Reference Json_Roundtrip
begin

text \<open>
  The reference adapter as a transition system: every interleaving of the coroutines of its runs, of
  the calls on their handles, of timeouts and of releases of probes; and what each operation does to
  the fields of the event loop.
\<close>

section \<open>Steps\<close>

definition run_active :: "ref_run \<Rightarrow> bool" where
  "run_active r \<longleftrightarrow> \<not> task_over r"

definition inactive :: "string \<Rightarrow> conf_world \<Rightarrow> bool" where
  "inactive run_id w \<longleftrightarrow> (\<forall>r \<in> set (cw_runs w). rr_run_id r = run_id \<longrightarrow> \<not> run_active r)"

text \<open>
  A run is begun, or replayed, when no other run of its id is under way, with a probe of that id; the
  probe looks its evidence up in the journal.
\<close>

inductive ref_step :: "codec \<Rightarrow> conf_world \<Rightarrow> conf_world \<Rightarrow> bool" for K :: codec where
  rs_probe: "pb_reconcile_action p = None \<Longrightarrow> ref_step K w (w\<lparr>cw_probes := cw_probes w @ [p]\<rparr>)"
| rs_release: "p < length (cw_probes w) \<Longrightarrow>
    ref_step K w (w\<lparr>cw_probes := (cw_probes w)[p := (cw_probes w ! p)\<lparr>pb_released := True\<rparr>]\<rparr>)"
| rs_begin: "e < length (cw_probes w) \<Longrightarrow> pb_run_id (cw_probes w ! e) = run_id \<Longrightarrow> inactive run_id w \<Longrightarrow>
    ref_begin run_id as e t w = (x, w') \<Longrightarrow> ref_step K w w'"
| rs_replay: "k < length (cw_runs w) \<Longrightarrow> inactive (rr_run_id (cw_runs w ! k)) w \<Longrightarrow>
    ref_replay k w = (x, w') \<Longrightarrow> ref_step K w w'"
| rs_start: "k < length (cw_runs w) \<Longrightarrow> rr_phase (cw_runs w ! k) = Rp_created \<Longrightarrow> ref_step K w (start_run K k w)"
| rs_resolve: "k < length (cw_runs w) \<Longrightarrow> rr_phase (cw_runs w ! k) = Rp_deciding \<Longrightarrow>
    resolve_run k w = Some w' \<Longrightarrow> ref_step K w w'"
| rs_task: "k < length (cw_runs w) \<Longrightarrow> task_ready (cw_runs w ! k) j w \<Longrightarrow> ref_step K w (task_step k j w)"
| rs_conclude: "k < length (cw_runs w) \<Longrightarrow> rr_phase (cw_runs w ! k) = Rp_executing ts \<Longrightarrow> all_ended ts \<Longrightarrow>
    ref_step K w (end_run k None w)"
| rs_fail: "k < length (cw_runs w) \<Longrightarrow> rr_phase (cw_runs w ! k) = Rp_executing ts \<Longrightarrow> e \<in> set (task_errors ts) \<Longrightarrow>
    ref_step K w (fence_run k (Some e) w)"
| rs_timeout: "k < length (cw_runs w) \<Longrightarrow> rr_timeout (cw_runs w ! k) = Some t \<Longrightarrow>
    rr_phase (cw_runs w ! k) \<noteq> Rp_created \<Longrightarrow> ref_step K w (interrupt_run k Timeout_Error w)"
| rs_cancel: "k < length (cw_runs w) \<Longrightarrow> ref_cancel k w = (x, w') \<Longrightarrow> ref_step K w w'"
| rs_approve: "k < length (cw_runs w) \<Longrightarrow> ref_approve K k i b w = (x, w') \<Longrightarrow> ref_step K w w'"
| rs_reject: "k < length (cw_runs w) \<Longrightarrow> ref_reject K k i why w = (x, w') \<Longrightarrow> ref_step K w w'"
| rs_reconcile: "k < length (cw_runs w) \<Longrightarrow> ref_reconcile K k i s w = (y, w') \<Longrightarrow> ref_step K w w'"
| rs_time: "ref_step K w (w\<lparr>cw_time_ns := t, cw_loop_ns := l\<rparr>)"

inductive ref_reachable :: "codec \<Rightarrow> conf_world \<Rightarrow> bool" for K :: codec where
  ref_init: "ref_reachable K \<lparr>cw_journal = empty_journal, cw_probes = [], cw_completed = [], cw_runs = [],
    cw_time_ns = t, cw_loop_ns = l\<rparr>"
| ref_next: "ref_reachable K w \<Longrightarrow> ref_step K w w' \<Longrightarrow> ref_reachable K w'"

section \<open>The fields after an operation\<close>

lemma update_run_simps [simp]:
  "cw_runs (update_run k f w) = (cw_runs w)[k := f (cw_runs w ! k)]" "cw_journal (update_run k f w) = cw_journal w"
  "cw_probes (update_run k f w) = cw_probes w" "cw_completed (update_run k f w) = cw_completed w"
  "cw_time_ns (update_run k f w) = cw_time_ns w"
  by (simp_all add: update_run_def)

lemma receipt_simps [simp]:
  "cw_runs (action_receipt K rid ev a d w) = cw_runs w" "cw_probes (action_receipt K rid ev a d w) = cw_probes w"
  "cw_completed (action_receipt K rid ev a d w) = cw_completed w"
  "jn_events (cw_journal (action_receipt K rid ev a d w)) = jn_events (cw_journal w)"
  "cw_runs (run_receipt rid ev d w) = cw_runs w" "cw_probes (run_receipt rid ev d w) = cw_probes w"
  "cw_completed (run_receipt rid ev d w) = cw_completed w"
  "jn_events (cw_journal (run_receipt rid ev d w)) = jn_events (cw_journal w)"
  by (simp_all add: action_receipt_def run_receipt_def record_receipt_def)

lemma receipts_grow [simp]:
  "set (jn_receipts (cw_journal w)) \<subseteq> set (jn_receipts (cw_journal (action_receipt K rid ev a d w)))"
  "set (jn_receipts (cw_journal w)) \<subseteq> set (jn_receipts (cw_journal (run_receipt rid ev d w)))"
  by (auto simp: action_receipt_def run_receipt_def record_receipt_def)

lemma end_run_eq: "\<exists>o' ev d. end_run k e w =
    run_receipt (rr_run_id (cw_runs w ! k)) ev d (update_run k (\<lambda>r. r\<lparr>rr_phase := Rp_done o'\<rparr>) w)"
  unfolding end_run_def Let_def by (cases e; (cases "the e")?) auto

lemma end_run_simps [simp]:
  "cw_probes (end_run k e w) = cw_probes w" "cw_completed (end_run k e w) = cw_completed w"
  "jn_events (cw_journal (end_run k e w)) = jn_events (cw_journal w)"
  "set (jn_receipts (cw_journal w)) \<subseteq> set (jn_receipts (cw_journal (end_run k e w)))"
  "length (cw_runs (end_run k e w)) = length (cw_runs w)"
proof -
  obtain o' ev d where eq: "end_run k e w =
      run_receipt (rr_run_id (cw_runs w ! k)) ev d (update_run k (\<lambda>r. r\<lparr>rr_phase := Rp_done o'\<rparr>) w)"
    using end_run_eq by blast
  show "cw_probes (end_run k e w) = cw_probes w" "cw_completed (end_run k e w) = cw_completed w"
    "jn_events (cw_journal (end_run k e w)) = jn_events (cw_journal w)"
    "length (cw_runs (end_run k e w)) = length (cw_runs w)" by (simp_all add: eq)
  show "set (jn_receipts (cw_journal w)) \<subseteq> set (jn_receipts (cw_journal (end_run k e w)))"
    unfolding eq using receipts_grow(2) [of "update_run k (\<lambda>r. r\<lparr>rr_phase := Rp_done o'\<rparr>) w"] by simp
qed

lemma end_run_runs: "\<exists>o'. cw_runs (end_run k e w) = (cw_runs w)[k := (cw_runs w ! k)\<lparr>rr_phase := Rp_done o'\<rparr>]"
  using end_run_eq [of k e w] by auto

lemma fold_receipts [simp]:
  "cw_runs (fold (\<lambda>a. action_receipt K rid ev a d) as w) = cw_runs w"
  "cw_probes (fold (\<lambda>a. action_receipt K rid ev a d) as w) = cw_probes w"
  "cw_completed (fold (\<lambda>a. action_receipt K rid ev a d) as w) = cw_completed w"
  "jn_events (cw_journal (fold (\<lambda>a. action_receipt K rid ev a d) as w)) = jn_events (cw_journal w)"
  by (induction as arbitrary: w) simp_all

lemma fold_receipts_grow [simp]:
  "set (jn_receipts (cw_journal w)) \<subseteq> set (jn_receipts (cw_journal (fold (\<lambda>a. action_receipt K rid ev a d) as w)))"
proof (induction as arbitrary: w)
  case (Cons a as)
  have "set (jn_receipts (cw_journal w)) \<subseteq> set (jn_receipts (cw_journal (action_receipt K rid ev a d w)))" by simp
  also have "\<dots> \<subseteq> set (jn_receipts (cw_journal (fold (\<lambda>a. action_receipt K rid ev a d) as (action_receipt K rid ev a d w))))"
    by (rule Cons.IH)
  finally show ?case by simp
qed simp

section \<open>The journal of a probe\<close>

text \<open>The events an operation appends.\<close>

definition adds_events :: "string \<Rightarrow> effect_event list \<Rightarrow> journal \<Rightarrow> journal \<Rightarrow> bool" where
  "adds_events run_id es j j' \<longleftrightarrow> jn_events j' = jn_events j @ es \<and> jn_receipts j' = jn_receipts j \<and>
     (\<forall>e \<in> set es. ee_run_id e = run_id)"

text \<open>What the record of a commit of an action looks like.\<close>

definition commit_of :: "action_request \<Rightarrow> effect_event \<Rightarrow> bool" where
  "commit_of b e \<longleftrightarrow> ee_phase e = Ef_committed \<and> ee_action_id e = aq_action_id b \<and> ee_tool_name e = aq_tool_name b \<and>
     ee_arguments e = json_norm (aq_arguments b)"

lemma probe_record_adds:
  assumes "probe_record now p a ph d j = (x, j')"
  shows "\<exists>es. adds_events (pb_run_id p) es j j' \<and> (if x = None then \<exists>e. es = [e] \<and> ee_phase e = ph \<and>
    (ph = Ef_committed \<longrightarrow> commit_of a e) else es = [])"
proof (cases "json_finite (aq_arguments a)")
  case True
  let ?e = "\<lparr>ee_sequence = int (length (jn_events j)) + 1, ee_run_id = pb_run_id p, ee_action_id = aq_action_id a,
      ee_tool_name = aq_tool_name a, ee_phase = ph, ee_arguments = json_norm (aq_arguments a),
      ee_timestamp_ns = now, ee_detail = d\<rparr>"
  have "x = None" "j' = j\<lparr>jn_events := jn_events j @ [?e]\<rparr>"
    using assms True by (simp_all add: probe_record_def journal_record_def Let_def)
  then show ?thesis by (intro exI [of _ "[?e]"]) (simp add: adds_events_def commit_of_def)
next
  case False
  then have "x \<noteq> None" "j' = j" using assms by (auto simp: probe_record_def journal_record_def)
  then show ?thesis by (simp add: adds_events_def)
qed

lemma probe_start_adds:
  assumes "probe_start now a (p, j) = (x, p', j')"
  shows "p' \<in> {p, p\<lparr>pb_started := True\<rparr>} \<and> (\<exists>es. adds_events (pb_run_id p) es j j' \<and> (\<forall>e \<in> set es. ee_phase e = Ef_started))"
proof -
  obtain y j1 where rec: "probe_record now p a Ef_started None j = (y, j1)" by fastforce
  with assms have "p' \<in> {p, p\<lparr>pb_started := True\<rparr>}" "j' = j1"
    by (auto simp: probe_start_def split: option.splits)
  with probe_record_adds [OF rec] show ?thesis by (auto split: if_splits)
qed

lemma probe_abort_adds:
  "\<exists>es. adds_events (pb_run_id p) es j (snd (probe_abort now a p j)) \<and> (\<forall>e \<in> set es. ee_phase e = Ef_aborted)"
proof -
  obtain y j1 where rec: "probe_record now p a Ef_aborted (Some ''cancelled before commit'') j = (y, j1)" by fastforce
  then have "snd (probe_abort now a p j) = j1" by (simp add: probe_abort_def split: option.splits)
  with probe_record_adds [OF rec] show ?thesis by (auto split: if_splits)
qed

lemma adds_events_trans:
  "adds_events rid es j j1 \<Longrightarrow> adds_events rid es' j1 j2 \<Longrightarrow> adds_events rid (es @ es') j j2"
  by (auto simp: adds_events_def)

lemma abort_tasks_adds:
  "\<exists>es. adds_events (pb_run_id p) es j (abort_tasks now p ts j) \<and> (\<forall>e \<in> set es. ee_phase e = Ef_aborted)"
proof (induction now p ts j rule: abort_tasks.induct)
  case (1 now p j)
  then show ?case by (auto simp: adds_events_def)
next
  case (2 now p a st ts j)
  let ?j = "if st = Tk_waiting then snd (probe_abort now a p j) else j"
  have "\<exists>es. adds_events (pb_run_id p) es j ?j \<and> (\<forall>e \<in> set es. ee_phase e = Ef_aborted)"
    using probe_abort_adds [of p j now a] by (auto simp: adds_events_def)
  then obtain es where "adds_events (pb_run_id p) es j ?j" "\<forall>e \<in> set es. ee_phase e = Ef_aborted" by blast
  moreover obtain es' where "adds_events (pb_run_id p) es' ?j (abort_tasks now p ts ?j)" "\<forall>e \<in> set es'. ee_phase e = Ef_aborted"
    using 2 by blast
  ultimately show ?case using adds_events_trans by fastforce
qed

text \<open>
  The end of an effect: at most one commit, of this action; when the call returns or is ambiguous, or
  the commit is recorded, the task marks the action as completed.
\<close>

definition marks_completed :: "conf_error + string \<Rightarrow> bool" where
  "marks_completed x \<longleftrightarrow> (case x of Inr _ \<Rightarrow> True | Inl (Ambiguous_Effect _ _) \<Rightarrow> True | _ \<Rightarrow> False)"

lemma probe_finish_adds:
  assumes "probe_finish now a (p, j) = (x, p', j')"
  shows "pb_run_id p' = pb_run_id p \<and> pb_reconcile_action p' = pb_reconcile_action p \<and>
    (\<exists>es. adds_events (pb_run_id p) es j j' \<and> (es = [] \<or> (\<exists>e. es = [e] \<and> commit_of a e \<and> marks_completed x)))"
proof -
  obtain y j1 where rec: "probe_record now p a Ef_committed None j = (y, j1)" by fastforce
  obtain es where es: "adds_events (pb_run_id p) es j j1"
    "if y = None then \<exists>e. es = [e] \<and> commit_of a e else es = []"
    using probe_record_adds [OF rec] by (auto split: if_splits)
  have none: "adds_events (pb_run_id p) [] j j" by (simp add: adds_events_def)
  show ?thesis
  proof (cases "pb_raise_before_commit p \<noteq> 0 \<or>
      (case pb_commit_action p of None \<Rightarrow> Some True | Some f \<Rightarrow> f a) = Some False")
    case True
    with assms none show ?thesis by (auto simp: probe_finish_def split: if_splits)
  next
    case False
    with assms rec es show ?thesis
      by (cases y) (auto simp: probe_finish_def marks_completed_def split: if_splits)
  qed
qed

section \<open>A task's step\<close>

definition same_probe :: "probe \<Rightarrow> probe \<Rightarrow> bool" where
  "same_probe p p' \<longleftrightarrow> pb_run_id p' = pb_run_id p \<and> pb_reconcile_action p' = pb_reconcile_action p"

lemma same_probe_refl [simp]: "same_probe p p" "same_probe p (p\<lparr>pb_started := b\<rparr>)" "same_probe p (p\<lparr>pb_released := b\<rparr>)"
  by (simp_all add: same_probe_def)

lemma same_probe_trans: "same_probe p q \<Longrightarrow> same_probe q r \<Longrightarrow> same_probe p r"
  by (simp add: same_probe_def)

definition commits :: "effect_event list \<Rightarrow> effect_event list" where
  "commits es = filter (\<lambda>e. ee_phase e = Ef_committed) es"

lemma commits_simps [simp]: "commits [] = []" "commits (xs @ ys) = commits xs @ commits ys"
  by (simp_all add: commits_def)

lemma commits_none: "\<forall>e \<in> set es. ee_phase e \<noteq> Ef_committed \<Longrightarrow> commits es = []"
  by (simp add: commits_def filter_empty_conv)

text \<open>
  What the step of task \<open>j\<close> of run \<open>k\<close> on action \<open>a\<close> does: it sets the task's state, records events of
  the probe's run, and either neither commits nor completes the action, or ends and completes it.
\<close>

definition task_effect :: "nat \<Rightarrow> nat \<Rightarrow> action_request \<Rightarrow> conf_world \<Rightarrow> conf_world \<Rightarrow> bool" where
  "task_effect k j a w w' \<longleftrightarrow> (let r = cw_runs w ! k; q = rr_probe r in
     \<exists>p' j' es st c. w' = (set_task k j st w)\<lparr>cw_probes := (cw_probes w)[q := p'], cw_journal := j', cw_completed := c\<rparr> \<and>
       same_probe (cw_probes w ! q) p' \<and> adds_events (pb_run_id (cw_probes w ! q)) es (cw_journal w) j' \<and> st \<noteq> Tk_created \<and>
       (c = cw_completed w \<and> commits es = [] \<or>
        c = List.insert (rr_run_id r, aq_action_id a) (cw_completed w) \<and> (\<exists>x. st = Tk_ended x) \<and>
          (commits es = [] \<or> (\<exists>e. commits es = [e] \<and> commit_of a e))))"

lemma task_updates_commute: "set_task k j st (set_probe q pj w) =
     (set_task k j st w)\<lparr>cw_probes := (cw_probes w)[q := fst pj], cw_journal := snd pj, cw_completed := cw_completed w\<rparr>"
  by (cases "rr_phase (cw_runs w ! k)") (simp_all add: set_task_def set_probe_def update_run_def)

lemma finish_task_effect: "task_effect k j a w (finish_task k j a w)"
proof -
  let ?r = "cw_runs w ! k"
  let ?q = "rr_probe ?r"
  obtain x p' j' where fin: "probe_finish (cw_time_ns w) a (cw_probes w ! ?q, cw_journal w) = (x, p', j')"
    by (metis prod_cases3)
  obtain es where es: "same_probe (cw_probes w ! ?q) p'" "adds_events (pb_run_id (cw_probes w ! ?q)) es (cw_journal w) j'"
    "es = [] \<or> (\<exists>e. es = [e] \<and> commit_of a e \<and> marks_completed x)"
    using probe_finish_adds [OF fin] by (auto simp: same_probe_def)
  have commits: "commits es = [] \<or> (\<exists>e. commits es = [e] \<and> commit_of a e)"
    using es(3) by (auto simp: commits_def commit_of_def)
  define c where "c = (if marks_completed x then List.insert (rr_run_id ?r, aq_action_id a) (cw_completed w) else cw_completed w)"
  define st where "st = Tk_ended (case x of Inr _ \<Rightarrow> None | Inl e \<Rightarrow> Some e)"
  have "finish_task k j a w =
      (set_task k j st w)\<lparr>cw_probes := (cw_probes w)[?q := p'], cw_journal := j', cw_completed := c\<rparr>"
    by (cases x; (cases "projl x")?)
      (simp_all add: finish_task_def fin task_updates_commute mark_completed_def marks_completed_def c_def st_def Let_def)
  moreover have "commits es = [] \<or> marks_completed x" using es(3) by auto
  ultimately show ?thesis
    unfolding task_effect_def Let_def using es(1,2) commits
    by (intro exI [of _ p'] exI [of _ j'] exI [of _ es] exI [of _ st] exI [of _ c]) (auto simp: c_def st_def)
qed

lemma begin_task_effect:
  assumes "rr_probe (cw_runs w ! k) < length (cw_probes w)"
  shows "task_effect k j a w (begin_task k j a w)"
proof -
  let ?r = "cw_runs w ! k"
  let ?q = "rr_probe ?r"
  let ?p = "cw_probes w ! ?q"
  obtain x p1 j1 where start: "probe_start (cw_time_ns w) a (?p, cw_journal w) = (x, p1, j1)" by (metis prod_cases3)
  obtain es where es: "p1 \<in> {?p, ?p\<lparr>pb_started := True\<rparr>}" "adds_events (pb_run_id ?p) es (cw_journal w) j1"
    "\<forall>e \<in> set es. ee_phase e = Ef_started"
    using probe_start_adds [OF start] by blast
  then have p1: "same_probe ?p p1" and none: "commits es = []" by (auto intro: commits_none)
  let ?w = "set_probe ?q (p1, j1) w"
  show ?thesis
  proof (cases "x = None \<and> pb_released p1")
    case False
    then obtain st where "begin_task k j a w = set_task k j st ?w" "st \<noteq> Tk_created"
      using start assms
      by (cases x) (auto simp: begin_task_def Let_def set_probe_def)
    then show ?thesis
      unfolding task_effect_def Let_def task_updates_commute using p1 es(2) none
      by (intro exI [of _ p1] exI [of _ j1] exI [of _ es] exI [of _ st] exI [of _ "cw_completed w"]) auto
  next
    case True
    then have "begin_task k j a w = finish_task k j a ?w"
      using start assms by (simp add: begin_task_def Let_def set_probe_def)
    moreover have "cw_runs ?w = cw_runs w" "cw_probes ?w ! ?q = p1" "cw_journal ?w = j1" "cw_completed ?w = cw_completed w"
      "(cw_probes ?w)[?q := p'] = (cw_probes w)[?q := p']" for p'
      using assms by (simp_all add: set_probe_def)
    moreover have "set_task k j st ?w = (set_task k j st w)\<lparr>cw_probes := (cw_probes w)[?q := p1],
        cw_journal := j1, cw_completed := cw_completed w\<rparr>" for st
      using task_updates_commute [of k j st ?q "(p1, j1)" w] by simp
    moreover note finish_task_effect [of k j a ?w, unfolded task_effect_def Let_def]
    ultimately obtain p' j' es' st c where w': "begin_task k j a w =
        (set_task k j st w)\<lparr>cw_probes := (cw_probes w)[?q := p'], cw_journal := j', cw_completed := c\<rparr>"
      and eff: "same_probe p1 p'" "adds_events (pb_run_id p1) es' j1 j'" "st \<noteq> Tk_created"
       "c = cw_completed w \<and> commits es' = [] \<or>
        c = List.insert (rr_run_id ?r, aq_action_id a) (cw_completed w) \<and> (\<exists>x. st = Tk_ended x) \<and>
          (commits es' = [] \<or> (\<exists>e. commits es' = [e] \<and> commit_of a e))"
      by fastforce
    have "adds_events (pb_run_id ?p) (es @ es') (cw_journal w) j'"
      using adds_events_trans [OF es(2)] eff(2) p1 by (simp add: same_probe_def)
    then show ?thesis
      unfolding task_effect_def Let_def using w' same_probe_trans [OF p1 eff(1)] eff(3,4) none
      by (intro exI [of _ p'] exI [of _ j'] exI [of _ "es @ es'"] exI [of _ st] exI [of _ c]) auto
  qed
qed

lemma task_step_effect:
  assumes "task_ready (cw_runs w ! k) j w" "rr_probe (cw_runs w ! k) < length (cw_probes w)"
  obtains ts where "rr_phase (cw_runs w ! k) = Rp_executing ts" "j < length ts"
    "\<forall>x. snd (ts ! j) \<noteq> Tk_ended x" "task_effect k j (fst (ts ! j)) w (task_step k j w)"
proof -
  obtain ts where ts: "rr_phase (cw_runs w ! k) = Rp_executing ts" "j < length ts" "\<forall>x. snd (ts ! j) \<noteq> Tk_ended x"
    using assms(1) by (auto simp: task_ready_def split: run_phase.splits task_state.splits)
  obtain a st where "ts ! j = (a, st)" by fastforce
  with ts have "task_effect k j (fst (ts ! j)) w (task_step k j w)"
    using begin_task_effect [OF assms(2)] finish_task_effect
    by (cases st) (simp_all add: task_step_def)
  with ts that show thesis by blast
qed

end
