(* ===== verification/Conf_Delegation.thy ===== *)
theory Conf_Delegation
  imports Conf_Reference
begin

text \<open>
  The delegation among the actions of a run: validated actions form a forest, so the loops over the
  parents end, and what may execute was allowed by every gated action above it.
\<close>

section \<open>The chain of parents\<close>

text \<open>The actions above, from a parent's id on.\<close>

inductive delegator :: "action_request list \<Rightarrow> string option \<Rightarrow> action_request \<Rightarrow> bool" for as where
  dg_parent: "find_row aq_action_id i as = Some p \<Longrightarrow> delegator as (Some i) p"
| dg_up: "find_row aq_action_id i as = Some p \<Longrightarrow> delegator as (aq_parent_action_id p) q \<Longrightarrow> delegator as (Some i) q"

inductive_cases delegator_SomeE: "delegator as (Some i) p"
inductive_simps delegator_None [simp]: "delegator as None p"

declare delegation_walk.simps [simp del]

text \<open>What a walk accepts has met no action twice, as long as the chain goes on.\<close>

lemma delegation_walk_fresh:
  assumes "delegation_walk as visited c = Inr ()" "q = c \<or> delegator as (aq_parent_action_id c) q"
    "aq_parent_action_id q \<noteq> None"
  shows "aq_action_id q \<notin> set visited"
  using assms
proof (induction as visited c rule: delegation_walk.induct)
  case (1 as visited c)
  show ?case
  proof (cases "aq_parent_action_id c")
    case None
    with "1.prems" show ?thesis by simp
  next
    case (Some i)
    with "1.prems"(1) obtain n where n: "aq_action_id c \<notin> set visited" "find_row aq_action_id i as = Some n"
      "delegation_walk as (aq_action_id c # visited) n = Inr ()"
      by (auto simp: delegation_walk.simps [of as visited c] split: if_splits option.splits)
    from "1.prems"(2) show ?thesis
    proof
      assume "delegator as (aq_parent_action_id c) q"
      then have "q = n \<or> delegator as (aq_parent_action_id n) q" using Some n(2) by (auto elim: delegator_SomeE)
      with "1.IH" [OF Some n(1) n(2) n(3)] "1.prems"(3) show ?thesis by auto
    qed (use n in simp)
  qed
qed

lemma check_delegation_fresh:
  assumes "check_delegation as a = Inr ()"
  shows "\<not> delegator as (aq_parent_action_id a) a"
proof
  assume above: "delegator as (aq_parent_action_id a) a"
  then obtain i where i: "aq_parent_action_id a = Some i" by (cases "aq_parent_action_id a") auto
  with assms obtain n where n: "i \<noteq> aq_action_id a" "find_row aq_action_id i as = Some n"
    "delegation_walk as [aq_action_id a] n = Inr ()"
    by (auto simp: check_delegation_def split: if_splits option.splits)
  then have "a \<noteq> n" by (auto dest: find_row_SomeD)
  with above i n(2) have "delegator as (aq_parent_action_id n) a" by (auto elim: delegator_SomeE)
  with delegation_walk_fresh [OF n(3), of a] i show False by simp
qed

text \<open>The loop over the parents ends.\<close>

lemma ancestors_allowed_simps:
  "ancestors_allowed as ds None = Some (Inr True)"
  "find_row aq_action_id i as = None \<Longrightarrow> ancestors_allowed as ds (Some i) = Some (Inl (missing_key i))"
  "find_row aq_action_id i as = Some p \<Longrightarrow> ancestors_allowed as ds (Some i) =
     (case (if aq_requires_approval p then future_approved ds (aq_action_id p) else Inr True) of
        Inl e \<Rightarrow> Some (Inl e)
      | Inr allowed \<Rightarrow> if allowed then ancestors_allowed as ds (aq_parent_action_id p) else Some (Inr False))"
  by (simp_all add: ancestors_allowed.simps [of as ds "Some i"] ancestors_allowed.simps [of as ds None])

lemma walk_ends:
  assumes "delegation_walk as visited c = Inr ()"
  shows "\<exists>x. ancestors_allowed as ds (aq_parent_action_id c) = Some x"
  using assms
proof (induction as visited c rule: delegation_walk.induct)
  case (1 as visited c)
  show ?case
  proof (cases "aq_parent_action_id c")
    case (Some i)
    with "1.prems" obtain n where n: "aq_action_id c \<notin> set visited" "find_row aq_action_id i as = Some n"
      "delegation_walk as (aq_action_id c # visited) n = Inr ()"
      by (auto simp: delegation_walk.simps [of as visited c] split: if_splits option.splits)
    from "1.IH" [OF Some n(1) n(2) n(3)] Some n(2) show ?thesis
      by (auto simp: ancestors_allowed_simps split: sum.splits)
  qed (simp add: ancestors_allowed_simps)
qed

lemma check_delegation_ends:
  assumes "check_delegation as a = Inr ()"
  shows "\<exists>x. ancestors_allowed as ds (aq_parent_action_id a) = Some x"
proof (cases "aq_parent_action_id a")
  case (Some i)
  with assms obtain n where n: "find_row aq_action_id i as = Some n" "delegation_walk as [aq_action_id a] n = Inr ()"
    by (auto simp: check_delegation_def split: if_splits option.splits)
  with walk_ends [OF n(2)] Some show ?thesis by (auto simp: ancestors_allowed_simps split: sum.splits)
qed (simp add: ancestors_allowed_simps)

lemma executable_action_ends:
  assumes "check_delegation as a = Inr ()"
  shows "executable_action as ds a \<noteq> None"
  using check_delegation_ends [OF assms, of ds]
  by (auto simp: executable_action_def split: sum.splits option.splits future.splits bool.splits)

lemma executable_actions_end:
  assumes "\<forall>a \<in> set bs. check_delegation as a = Inr ()"
  shows "executable_actions as ds bs \<noteq> None"
  using assms
proof (induction bs)
  case (Cons b bs)
  then obtain x where "executable_action as ds b = Some x" using executable_action_ends by fastforce
  with Cons show ?case by (cases x) auto
qed simp

section \<open>What may execute\<close>

lemma approved_Inr: "future_approved ds i = Inr True \<longleftrightarrow> (\<exists>x. map_of ds i = Some (Fu_decided APPROVE x))"
  by (auto simp: future_approved_def split: option.splits future.splits)

lemma ancestors_allowed_True:
  assumes "delegator as pid p" "ancestors_allowed as ds pid = Some (Inr True)" "aq_requires_approval p"
  shows "future_approved ds (aq_action_id p) = Inr True"
  using assms
proof (induction rule: delegator.induct)
  case (dg_parent i p)
  then show ?case by (auto simp: ancestors_allowed_simps split: sum.splits if_splits)
next
  case (dg_up i p q)
  then show ?case by (auto simp: ancestors_allowed_simps split: sum.splits if_splits)
qed

text \<open>The request that runs for an action, under the decisions.\<close>

definition runs_as :: "action_request list \<Rightarrow> (string \<times> future) list \<Rightarrow> action_request \<Rightarrow> action_request \<Rightarrow> bool" where
  "runs_as as ds a b \<longleftrightarrow> (if aq_requires_approval a then \<exists>x. map_of ds (aq_action_id a) = Some (Fu_decided APPROVE x) \<and>
       b = (case x of None \<Rightarrow> a | Some c \<Rightarrow> c) else b = a) \<and>
     (\<forall>p. delegator as (aq_parent_action_id a) p \<and> aq_requires_approval p \<longrightarrow> future_approved ds (aq_action_id p) = Inr True)"

lemma executable_action_runs_as:
  assumes "executable_action as ds a = Some (Inr (Some b))"
  shows "runs_as as ds a b"
proof -
  have allowed: "ancestors_allowed as ds (aq_parent_action_id a) = Some (Inr True)"
    using assms by (auto simp: executable_action_def split: option.splits sum.splits bool.splits)
  with assms have "if aq_requires_approval a then \<exists>x. map_of ds (aq_action_id a) = Some (Fu_decided APPROVE x) \<and>
       b = (case x of None \<Rightarrow> a | Some c \<Rightarrow> c) else b = a"
    by (auto simp: executable_action_def split: option.splits future.splits if_splits)
  with ancestors_allowed_True [OF _ allowed] show ?thesis by (simp add: runs_as_def)
qed

lemma executable_actions_run_as:
  assumes "executable_actions as ds as0 = Some (Inr bs)"
  shows "\<exists>as1. list_all2 (runs_as as ds) as1 bs \<and> set as1 \<subseteq> set as0 \<and> (distinct (map aq_action_id as0) \<longrightarrow> distinct (map aq_action_id as1))"
  using assms
proof (induction as0 arbitrary: bs)
  case (Cons a as0)
  then obtain x where x: "executable_action as ds a = Some (Inr x)"
    by (auto split: option.splits sum.splits)
  with Cons.prems obtain cs where cs: "executable_actions as ds as0 = Some (Inr cs)"
    "bs = (case x of None \<Rightarrow> cs | Some b \<Rightarrow> b # cs)"
    by (auto simp: result_simps)
  obtain as1 where as1: "list_all2 (runs_as as ds) as1 cs" "set as1 \<subseteq> set as0"
    "distinct (map aq_action_id as0) \<longrightarrow> distinct (map aq_action_id as1)"
    using Cons.IH [OF cs(1)] by blast
  show ?case
  proof (cases x)
    case None
    with as1 cs show ?thesis by (intro exI [of _ as1]) auto
  next
    case (Some b)
    have "runs_as as ds a b" using executable_action_runs_as x Some by blast
    with as1 cs Some show ?thesis by (intro exI [of _ "a # as1"]) auto
  qed
qed simp

end
