(* ===== verification/Conf_Safety.thy ===== *)
theory Conf_Safety
  imports Conf_Steps Conf_Delegation
begin

text \<open>
  The invariant of the reference adapter: why every task and every recorded commit is allowed, and that
  no action of a run is committed twice.
\<close>

section \<open>What no step undoes\<close>

definition same_run :: "ref_run \<Rightarrow> ref_run \<Rightarrow> bool" where
  "same_run r r' \<longleftrightarrow> rr_run_id r' = rr_run_id r \<and> rr_actions r' = rr_actions r \<and> rr_probe r' = rr_probe r \<and>
     rr_timeout r' = rr_timeout r \<and>
     (\<forall>i d x. map_of (rr_decisions r) i = Some (Fu_decided d x) \<longrightarrow> map_of (rr_decisions r') i = Some (Fu_decided d x))"

lemma same_run_refl [simp]: "same_run r r" "same_run r (r\<lparr>rr_phase := ph\<rparr>)" "same_run r (r\<lparr>rr_started_at := t\<rparr>)"
  "same_run r (r\<lparr>rr_reconciliations := es\<rparr>)"
  by (simp_all add: same_run_def)

section \<open>Why a request may run\<close>

definition approval_recorded :: "codec \<Rightarrow> journal \<Rightarrow> string \<Rightarrow> action_request \<Rightarrow> bool" where
  "approval_recorded K j run_id b \<longleftrightarrow> (\<exists>rc \<in> set (jn_receipts j). ar_event rc = Ae_approved \<and> ar_run_id rc = run_id \<and>
     ar_action_id rc = Some (aq_action_id b) \<and> ar_action_digest rc = Some (action_digest K b))"

text \<open>
  A request runs for an action of its run: a gated one after its approval, which is recorded with the
  digest of what runs, another one as it was proposed; and every gated action above has been approved.
\<close>

definition permitted :: "codec \<Rightarrow> journal \<Rightarrow> ref_run \<Rightarrow> action_request \<Rightarrow> bool" where
  "permitted K j r b \<longleftrightarrow> (\<exists>a \<in> set (rr_actions r). aq_action_id b = aq_action_id a \<and> aq_tool_name b = aq_tool_name a \<and>
     (if aq_requires_approval a then future_approved (rr_decisions r) (aq_action_id a) = Inr True \<and> approval_recorded K j (rr_run_id r) b
      else json_norm (aq_arguments b) = json_norm (aq_arguments a)) \<and>
     (\<forall>p. delegator (rr_actions r) (aq_parent_action_id a) p \<and> aq_requires_approval p \<longrightarrow>
       future_approved (rr_decisions r) (aq_action_id p) = Inr True))"

lemma approval_recorded_mono:
  "approval_recorded K j rid b \<Longrightarrow> set (jn_receipts j) \<subseteq> set (jn_receipts j') \<Longrightarrow> approval_recorded K j' rid b"
  by (auto simp: approval_recorded_def)

lemma permitted_mono:
  assumes "permitted K j r b" "set (jn_receipts j) \<subseteq> set (jn_receipts j')" "same_run r r'"
  shows "permitted K j' r' b"
proof -
  have "future_approved (rr_decisions r) i = Inr True \<Longrightarrow> future_approved (rr_decisions r') i = Inr True" for i
    using assms(3) by (auto simp: approved_Inr same_run_def)
  with assms approval_recorded_mono [OF _ assms(2)] show ?thesis
    unfolding permitted_def same_run_def by (auto split: if_splits)
qed

text \<open>What a commit records, as a request.\<close>

definition recorded_request :: "effect_event \<Rightarrow> action_request" where
  "recorded_request e = \<lparr>aq_action_id = ee_action_id e, aq_tool_name = ee_tool_name e, aq_requires_approval = False,
     aq_parent_action_id = None, aq_arguments = ee_arguments e\<rparr>"

lemma permitted_commit:
  assumes "permitted K j r b" "commit_of b e"
  shows "permitted K j r (recorded_request e)"
proof -
  have "action_digest K (recorded_request e) = action_digest K b"
    using assms(2) by (simp add: action_digest_def commit_of_def recorded_request_def dumps_def json_norm_idem)
  with assms(2) have rec: "approval_recorded K j rid (recorded_request e) = approval_recorded K j rid b"
    "aq_action_id (recorded_request e) = aq_action_id b" "aq_tool_name (recorded_request e) = aq_tool_name b"
    "json_norm (aq_arguments (recorded_request e)) = json_norm (aq_arguments b)" for rid
    by (simp_all add: approval_recorded_def commit_of_def recorded_request_def json_norm_idem)
  show ?thesis using assms(1) unfolding permitted_def rec .
qed

section \<open>Runs in order\<close>

definition decisions_recorded :: "codec \<Rightarrow> journal \<Rightarrow> ref_run \<Rightarrow> bool" where
  "decisions_recorded K j r \<longleftrightarrow> (\<forall>i x. map_of (rr_decisions r) i = Some (Fu_decided APPROVE x) \<longrightarrow>
     (\<exists>a \<in> set (ref_pending r). aq_action_id a = i \<and> (let b = (case x of None \<Rightarrow> a | Some c \<Rightarrow> c) in
        aq_action_id b = i \<and> aq_tool_name b = aq_tool_name a \<and> approval_recorded K j (rr_run_id r) b)))"

definition run_ok :: "codec \<Rightarrow> conf_world \<Rightarrow> ref_run \<Rightarrow> bool" where
  "run_ok K w r \<longleftrightarrow> rr_probe r < length (cw_probes w) \<and> pb_run_id (cw_probes w ! rr_probe r) = rr_run_id r \<and>
     distinct (map aq_action_id (rr_actions r)) \<and> (\<forall>a \<in> set (rr_actions r). check_delegation (rr_actions r) a = Inr ()) \<and>
     (rr_phase r = Rp_created \<longrightarrow> rr_decisions r = []) \<and> decisions_recorded K (cw_journal w) r \<and>
     (\<forall>ts. rr_phase r = Rp_executing ts \<longrightarrow> distinct (map (\<lambda>t. aq_action_id (fst t)) ts) \<and>
       (\<forall>t \<in> set ts. permitted K (cw_journal w) r (fst t)))"

lemma decisions_recorded_mono:
  "decisions_recorded K j r \<Longrightarrow> set (jn_receipts j) \<subseteq> set (jn_receipts j') \<Longrightarrow> decisions_recorded K j' r"
  unfolding decisions_recorded_def Let_def using approval_recorded_mono by blast

lemma run_ok_mono:
  assumes ok: "run_ok K w r" and probes: "length (cw_probes w) \<le> length (cw_probes w')"
    "\<forall>q < length (cw_probes w). same_probe (cw_probes w ! q) (cw_probes w' ! q)"
    and receipts: "set (jn_receipts (cw_journal w)) \<subseteq> set (jn_receipts (cw_journal w'))"
  shows "run_ok K w' r"
proof -
  have "permitted K (cw_journal w') r b" if "permitted K (cw_journal w) r b" for b
    by (rule permitted_mono [OF that receipts]) simp
  with ok probes decisions_recorded_mono [OF _ receipts] show ?thesis
    by (auto simp: run_ok_def same_probe_def)
qed

text \<open>What has been committed, as run and action.\<close>

definition commit_key :: "effect_event \<Rightarrow> string \<times> string" where
  "commit_key e = (ee_run_id e, ee_action_id e)"

definition commit_keys :: "conf_world \<Rightarrow> (string \<times> string) set" where
  "commit_keys w = commit_key ` set (commits (jn_events (cw_journal w)))"

text \<open>What a run still has to execute has not been committed.\<close>

definition tasks_fresh :: "conf_world \<Rightarrow> ref_run \<Rightarrow> bool" where
  "tasks_fresh w r \<longleftrightarrow> (\<forall>ts t. rr_phase r = Rp_executing ts \<and> t \<in> set ts \<and> (\<forall>x. snd t \<noteq> Tk_ended x) \<longrightarrow>
     (rr_run_id r, aq_action_id (fst t)) \<notin> commit_keys w)"

definition one_active :: "ref_run list \<Rightarrow> bool" where
  "one_active rs \<longleftrightarrow> (\<forall>i < length rs. \<forall>j < length rs. i \<noteq> j \<and> run_active (rs ! i) \<and> run_active (rs ! j) \<longrightarrow>
     rr_run_id (rs ! i) \<noteq> rr_run_id (rs ! j))"

definition world_ok :: "codec \<Rightarrow> conf_world \<Rightarrow> bool" where
  "world_ok K w \<longleftrightarrow> (\<forall>r \<in> set (cw_runs w). run_ok K w r \<and> tasks_fresh w r) \<and>
     (\<forall>e \<in> set (commits (jn_events (cw_journal w))). \<exists>r \<in> set (cw_runs w). rr_run_id r = ee_run_id e \<and>
       permitted K (cw_journal w) r (recorded_request e)) \<and>
     distinct (map commit_key (commits (jn_events (cw_journal w)))) \<and> commit_keys w \<subseteq> set (cw_completed w) \<and>
     one_active (cw_runs w) \<and> (\<forall>p \<in> set (cw_probes w). pb_reconcile_action p = None)"

section \<open>Steps of one run\<close>

text \<open>
  What every operation on run \<open>k\<close> does: only that run changes, it does not become active, and what it
  records are events \<open>es\<close> of its own.
\<close>

definition run_change :: "nat \<Rightarrow> ref_run \<Rightarrow> effect_event list \<Rightarrow> conf_world \<Rightarrow> conf_world \<Rightarrow> bool" where
  "run_change k r' es w w' \<longleftrightarrow> cw_runs w' = (cw_runs w)[k := r'] \<and> same_run (cw_runs w ! k) r' \<and>
     (run_active r' \<longrightarrow> run_active (cw_runs w ! k)) \<and> list_all2 same_probe (cw_probes w) (cw_probes w') \<and>
     set (jn_receipts (cw_journal w)) \<subseteq> set (jn_receipts (cw_journal w')) \<and>
     jn_events (cw_journal w') = jn_events (cw_journal w) @ es \<and>
     (\<forall>e \<in> set es. ee_run_id e = rr_run_id (cw_runs w ! k) \<and> run_active (cw_runs w ! k))"

lemma run_ok_change: "run_ok K w r \<Longrightarrow> run_change k r' es w w' \<Longrightarrow> run_ok K w' r"
  by (rule run_ok_mono) (auto simp: run_change_def list_all2_conv_all_nth)

lemma one_active_update:
  assumes "one_active rs" "k < length rs" "rr_run_id r' = rr_run_id (rs ! k)" "run_active r' \<longrightarrow> run_active (rs ! k)"
  shows "one_active (rs[k := r'])"
  using assms by (auto simp: one_active_def nth_list_update)

lemma permitted_change:
  assumes "run_change k r' es w w'" "k < length (cw_runs w)" "r \<in> set (cw_runs w)" "permitted K (cw_journal w) r b"
  shows "\<exists>s \<in> set (cw_runs w'). rr_run_id s = rr_run_id r \<and> permitted K (cw_journal w') s b"
proof -
  obtain i where i: "i < length (cw_runs w)" "r = cw_runs w ! i" using assms(3) by (metis in_set_conv_nth)
  have "same_run r (cw_runs w' ! i)"
    using i assms(1,2) by (cases "i = k") (auto simp: run_change_def)
  moreover have "cw_runs w' ! i \<in> set (cw_runs w')" using i assms(1) by (simp add: run_change_def)
  ultimately show ?thesis
    using permitted_mono [OF assms(4)] assms(1) by (auto simp: run_change_def same_run_def)
qed

lemma world_ok_change:
  assumes ok: "world_ok K w" and k: "k < length (cw_runs w)" and change: "run_change k r' es w w'"
    and new: "run_ok K w' r'" and fresh: "tasks_fresh w' r'" and completed: "commit_keys w' \<subseteq> set (cw_completed w')"
    and once: "distinct (map commit_key (commits es))" "\<forall>e \<in> set (commits es). commit_key e \<notin> commit_keys w"
    and allowed: "\<forall>e \<in> set (commits es). permitted K (cw_journal w) (cw_runs w ! k) (recorded_request e)"
  shows "world_ok K w'"
proof -
  have runs: "cw_runs w' = (cw_runs w)[k := r']" and events: "jn_events (cw_journal w') = jn_events (cw_journal w) @ es"
    and own: "\<forall>e \<in> set es. ee_run_id e = rr_run_id (cw_runs w ! k) \<and> run_active (cw_runs w ! k)"
    and keep: "rr_run_id r' = rr_run_id (cw_runs w ! k)" "run_active r' \<longrightarrow> run_active (cw_runs w ! k)"
    using change by (auto simp: run_change_def same_run_def)
  have active: "one_active (cw_runs w)" using ok by (simp add: world_ok_def)
  have keys: "commit_keys w' = commit_keys w \<union> commit_key ` set (commits es)"
    using events by (simp add: commit_keys_def image_Un)
  have each: "run_ok K w' (cw_runs w' ! i) \<and> tasks_fresh w' (cw_runs w' ! i)" if i: "i < length (cw_runs w)" for i
  proof (cases "i = k")
    case False
    let ?r = "cw_runs w ! i"
    have r: "run_ok K w ?r" "tasks_fresh w ?r" "cw_runs w' ! i = ?r" using ok i False runs by (auto simp: world_ok_def)
    have "(rr_run_id ?r, x) \<notin> commit_key ` set (commits es)" if "run_active ?r" for x
    proof -
      have "rr_run_id ?r \<noteq> rr_run_id (cw_runs w ! k)" if "run_active (cw_runs w ! k)"
        using active i k False \<open>run_active ?r\<close> that by (auto simp: one_active_def)
      with own show ?thesis by (auto simp: commit_key_def commits_def)
    qed
    then have "tasks_fresh w' ?r"
      using r(2) by (auto simp: tasks_fresh_def keys run_active_def task_over_def)
    with run_ok_change [OF r(1) change] r(3) show ?thesis by simp
  qed (use new fresh k runs in simp)
  have "\<forall>r \<in> set (cw_runs w'). run_ok K w' r \<and> tasks_fresh w' r"
    using each runs by (metis in_set_conv_nth length_list_update)
  moreover have "\<exists>r \<in> set (cw_runs w'). rr_run_id r = ee_run_id e \<and> permitted K (cw_journal w') r (recorded_request e)"
    if e: "e \<in> set (commits (jn_events (cw_journal w')))" for e
  proof -
    have "\<exists>r \<in> set (cw_runs w). rr_run_id r = ee_run_id e \<and> permitted K (cw_journal w) r (recorded_request e)"
    proof (cases "e \<in> set (commits es)")
      case True
      then have "e \<in> set es" by (simp add: commits_def)
      with True allowed own k show ?thesis by (intro bexI [of _ "cw_runs w ! k"]) auto
    next
      case False
      with e events ok show ?thesis by (auto simp: world_ok_def)
    qed
    then show ?thesis using permitted_change [OF change k] by metis
  qed
  moreover have "distinct (map commit_key (commits (jn_events (cw_journal w'))))"
    using ok once events by (auto simp: world_ok_def commit_keys_def)
  moreover have "one_active (cw_runs w')" unfolding runs by (rule one_active_update [OF active k keep])
  moreover have "pb_reconcile_action p = None" if "p \<in> set (cw_probes w')" for p
  proof -
    have "list_all2 same_probe (cw_probes w) (cw_probes w')" using change by (simp add: run_change_def)
    with that obtain q where "q \<in> set (cw_probes w)" "same_probe q p"
      by (metis in_set_conv_nth list_all2_conv_all_nth)
    with ok show ?thesis by (simp add: world_ok_def same_probe_def)
  qed
  ultimately show ?thesis using completed by (simp add: world_ok_def)
qed

end
