(* ===== verification/Conf_Invariant.thy ===== *)
theory Conf_Invariant
  imports Conf_Safety
begin

text \<open>
  Every step of the reference adapter keeps its world in order: each operation is a change of one run.
\<close>

section \<open>Changes without a commit\<close>

lemma run_change_trans:
  assumes "run_change k r1 es w w1" "run_change k r2 fs w1 w2" "k < length (cw_runs w)"
  shows "run_change k r2 (es @ fs) w w2"
proof -
  have "list_all2 same_probe (cw_probes w) (cw_probes w2)"
    using assms(1,2) list_all2_trans [of same_probe same_probe same_probe] same_probe_trans
    unfolding run_change_def by blast
  moreover have "same_run (cw_runs w ! k) r2" "run_active r2 \<longrightarrow> run_active (cw_runs w ! k)"
    "cw_runs w2 = (cw_runs w)[k := r2]" "rr_run_id r1 = rr_run_id (cw_runs w ! k)" "cw_runs w1 ! k = r1"
    using assms by (auto simp: run_change_def same_run_def)
  moreover have "run_active r1 \<longrightarrow> run_active (cw_runs w ! k)" using assms(1) by (simp add: run_change_def)
  ultimately show ?thesis using assms(1,2) by (auto simp: run_change_def)
qed

lemma same_probes_refl [simp]: "list_all2 same_probe ps ps"
  by (simp add: list_all2_refl)

text \<open>A change of the run alone.\<close>

lemma update_run_change:
  assumes "same_run (cw_runs w ! k) (f (cw_runs w ! k))" "run_active (f (cw_runs w ! k)) \<longrightarrow> run_active (cw_runs w ! k)"
  shows "run_change k (f (cw_runs w ! k)) [] w (update_run k f w)"
  using assms by (simp add: run_change_def)

lemma receipt_change:
  "k < length (cw_runs w) \<Longrightarrow> run_change k (cw_runs w ! k) [] w (action_receipt K rid ev a d w)"
  "k < length (cw_runs w) \<Longrightarrow> run_change k (cw_runs w ! k) [] w (run_receipt rid ev d w)"
  by (simp_all add: run_change_def)

lemma end_run_change:
  "\<exists>o'. run_change k ((cw_runs w ! k)\<lparr>rr_phase := Rp_done o'\<rparr>) [] w (end_run k e w)"
  using end_run_runs [of k e w] by (auto simp: run_change_def run_active_def task_over_def)

lemma world_ok_quiet:
  assumes "world_ok K w" "k < length (cw_runs w)" "run_change k r' es w w'" "commits es = []"
    "run_ok K w' r'" "tasks_fresh w' r'" "commit_keys w \<subseteq> set (cw_completed w')"
  shows "world_ok K w'"
proof (rule world_ok_change [OF assms(1-3,5,6)])
  show "commit_keys w' \<subseteq> set (cw_completed w')"
    using assms(3,4,7) by (simp add: commit_keys_def run_change_def)
qed (use assms(4) in simp_all)

lemma run_ok_done [simp]: "run_ok K w r \<Longrightarrow> run_ok K w (r\<lparr>rr_phase := Rp_done o'\<rparr>)"
  by (simp add: run_ok_def decisions_recorded_def ref_pending_def)

lemma tasks_fresh_simps [simp]:
  "tasks_fresh w (r\<lparr>rr_phase := Rp_done o'\<rparr>)" "tasks_fresh w (r\<lparr>rr_phase := Rp_never_started\<rparr>)"
  "tasks_fresh w (r\<lparr>rr_decisions := ds, rr_phase := Rp_deciding\<rparr>)"
  by (simp_all add: tasks_fresh_def)

lemma world_okD:
  assumes "world_ok K w"
  shows "k < length (cw_runs w) \<Longrightarrow> run_ok K w (cw_runs w ! k)"
    "k < length (cw_runs w) \<Longrightarrow> tasks_fresh w (cw_runs w ! k)" "commit_keys w \<subseteq> set (cw_completed w)"
  using assms by (auto simp: world_ok_def)

text \<open>The end of a run, also after the events its tasks record when they are cancelled.\<close>

lemma end_after_events:
  assumes ok: "world_ok K w" and k: "k < length (cw_runs w)"
    and w1: "run_change k r1 es w w1" "commits es = []" "run_ok K w1 r1" "cw_completed w1 = cw_completed w"
  shows "world_ok K (end_run k e w1)"
proof -
  obtain o' where o': "run_change k ((cw_runs w1 ! k)\<lparr>rr_phase := Rp_done o'\<rparr>) [] w1 (end_run k e w1)"
    using end_run_change by blast
  have r1: "cw_runs w1 ! k = r1" using w1(1) k by (simp add: run_change_def)
  have "run_change k (r1\<lparr>rr_phase := Rp_done o'\<rparr>) (es @ []) w (end_run k e w1)"
    by (rule run_change_trans [OF w1(1) _ k]) (use o' r1 in simp)
  then show ?thesis
  proof (rule world_ok_quiet [OF ok k])
    have "run_ok K (end_run k e w1) r1" by (rule run_ok_change [OF w1(3) o'])
    then show "run_ok K (end_run k e w1) (r1\<lparr>rr_phase := Rp_done o'\<rparr>)" by simp
  qed (use w1(2,4) world_okD(3) [OF ok] in simp_all)
qed

lemma end_run_ok:
  assumes "world_ok K w" "k < length (cw_runs w)"
  shows "world_ok K (end_run k e w)"
  by (rule end_after_events [OF assms, of "cw_runs w ! k" "[]"])
    (use world_okD(1) [OF assms(1)] assms(2) in \<open>simp_all add: run_change_def\<close>)

lemma fence_run_ok:
  assumes ok: "world_ok K w" and k: "k < length (cw_runs w)" and active: "run_active (cw_runs w ! k)"
  shows "world_ok K (fence_run k e w)"
proof -
  let ?r = "cw_runs w ! k"
  let ?p = "cw_probes w ! rr_probe ?r"
  define ts where "ts = (case rr_phase ?r of Rp_executing ts \<Rightarrow> ts | _ \<Rightarrow> [])"
  define w1 where "w1 = w\<lparr>cw_journal := abort_tasks (cw_time_ns w) ?p ts (cw_journal w)\<rparr>"
  have r: "run_ok K w ?r" by (rule world_okD(1) [OF ok k])
  obtain es where es: "adds_events (pb_run_id ?p) es (cw_journal w) (cw_journal w1)" "\<forall>e \<in> set es. ee_phase e = Ef_aborted"
    using abort_tasks_adds [of ?p "cw_journal w" "cw_time_ns w" ts] by (auto simp: w1_def)
  have change: "run_change k ?r es w w1"
    using es(1) active r k by (simp add: run_change_def adds_events_def w1_def run_ok_def)
  have "commits es = []" by (rule commits_none) (use es(2) in simp)
  then have "world_ok K (end_run k e w1)"
    by (rule end_after_events [OF ok k change]) (use run_ok_change [OF r change] in \<open>simp_all add: w1_def\<close>)
  then show ?thesis by (simp add: fence_run_def w1_def ts_def Let_def)
qed

text \<open>A cancelled or timed out run.\<close>

lemma cancel_first_waiting_keeps:
  "map_of ds i = Some (Fu_decided d x) \<Longrightarrow> map_of (cancel_first_waiting ds) i = Some (Fu_decided d x)"
  "map_of (cancel_first_waiting ds) i = Some (Fu_decided d x) \<Longrightarrow> map_of ds i = Some (Fu_decided d x)"
  by (induction ds rule: cancel_first_waiting.induct) (auto split: if_splits)

lemma run_ok_decisions:
  assumes "run_ok K w r" "rr_phase r = Rp_deciding"
    and sub: "\<And>i x. map_of ds i = Some (Fu_decided APPROVE x) \<Longrightarrow> map_of (rr_decisions r) i = Some (Fu_decided APPROVE x)"
  shows "run_ok K w (r\<lparr>rr_decisions := ds\<rparr>)"
proof -
  have "decisions_recorded K (cw_journal w) r" using assms(1) by (simp add: run_ok_def)
  then have "decisions_recorded K (cw_journal w) (r\<lparr>rr_decisions := ds\<rparr>)"
    using sub by (simp add: decisions_recorded_def ref_pending_def)
  with assms(1,2) show ?thesis by (simp add: run_ok_def)
qed

lemma interrupt_run_ok:
  assumes ok: "world_ok K w" and k: "k < length (cw_runs w)" and active: "run_active (cw_runs w ! k)"
  shows "world_ok K (interrupt_run k e w)"
proof (cases "rr_phase (cw_runs w ! k)")
  case Rp_created
  let ?r = "(cw_runs w ! k)\<lparr>rr_phase := Rp_never_started\<rparr>"
  let ?w = "update_run k (\<lambda>r. r\<lparr>rr_phase := Rp_never_started\<rparr>) w"
  have change: "run_change k ?r [] w ?w" using active by (intro update_run_change) simp_all
  have "run_ok K ?w (cw_runs w ! k)" by (rule run_ok_change [OF world_okD(1) [OF ok k] change])
  then have "world_ok K ?w"
    using world_ok_quiet [OF ok k change] world_okD(3) [OF ok] by (simp add: run_ok_def decisions_recorded_def ref_pending_def)
  then show ?thesis using Rp_created by (simp add: interrupt_run_def)
next
  case Rp_deciding
  let ?f = "\<lambda>r. r\<lparr>rr_decisions := cancel_first_waiting (rr_decisions r)\<rparr>"
  let ?w = "update_run k ?f w"
  have change: "run_change k (?f (cw_runs w ! k)) [] w ?w"
    using active by (intro update_run_change) (simp_all add: same_run_def cancel_first_waiting_keeps(1))
  have "run_ok K ?w (cw_runs w ! k)" by (rule run_ok_change [OF world_okD(1) [OF ok k] change])
  then have "run_ok K ?w (?f (cw_runs w ! k))"
    by (rule run_ok_decisions [OF _ Rp_deciding cancel_first_waiting_keeps(2)])
  then have "world_ok K (end_run k (Some e) ?w)" by (rule end_after_events [OF ok k change, rotated]) simp_all
  then show ?thesis using Rp_deciding by (simp add: interrupt_run_def)
next
  case (Rp_executing ts)
  with fence_run_ok [OF assms] show ?thesis by (simp add: interrupt_run_def)
qed (use ok in \<open>simp_all add: interrupt_run_def\<close>)

section \<open>The beginning of the execution\<close>

lemma begin_tasks_ok:
  assumes ok: "world_ok K w" and k: "k < length (cw_runs w)" and active: "run_active (cw_runs w ! k)"
    and allowed: "\<forall>b \<in> set bs. permitted K (cw_journal w) (cw_runs w ! k) b" "distinct (map aq_action_id bs)"
  shows "world_ok K (begin_tasks k bs w)"
proof -
  let ?r = "cw_runs w ! k"
  define tasks where "tasks = filter (\<lambda>a. (rr_run_id ?r, aq_action_id a) \<notin> set (cw_completed w)) bs"
  show ?thesis
  proof (cases "tasks = []")
    case True
    with end_run_ok [OF ok k] show ?thesis by (simp add: begin_tasks_def tasks_def)
  next
    case False
    let ?f = "\<lambda>r. r\<lparr>rr_phase := Rp_executing (map (\<lambda>a. (a, Tk_created)) tasks)\<rparr>"
    let ?w = "update_run k ?f w"
    have change: "run_change k (?f ?r) [] w ?w" using active by (intro update_run_change) simp_all
    have "run_ok K ?w ?r" by (rule run_ok_change [OF world_okD(1) [OF ok k] change])
    moreover have "distinct (map aq_action_id tasks)" unfolding tasks_def by (rule distinct_map_filter [OF allowed(2)])
    moreover have "permitted K (cw_journal ?w) (?f ?r) b" if "b \<in> set tasks" for b
      using allowed(1) that by (auto simp: tasks_def intro: permitted_mono)
    ultimately have "run_ok K ?w (?f ?r)"
      by (simp add: run_ok_def decisions_recorded_def ref_pending_def comp_def)
    moreover have "tasks_fresh ?w (?f ?r)"
      using world_okD(3) [OF ok] by (auto simp: tasks_fresh_def tasks_def commit_keys_def)
    ultimately have "world_ok K ?w"
      using world_ok_quiet [OF ok k change] world_okD(3) [OF ok] by simp
    moreover have "begin_tasks k bs w = ?w" using False by (simp add: begin_tasks_def tasks_def Let_def)
    ultimately show ?thesis by simp
  qed
qed

lemma delegator_in: "delegator as pid p \<Longrightarrow> p \<in> set as"
  by (induction rule: delegator.induct) (auto dest: find_row_SomeD)

text \<open>Without a gated action, every action is permitted as proposed.\<close>

lemma ungated_permitted:
  assumes "ref_pending r = []" "a \<in> set (rr_actions r)"
  shows "permitted K j r a"
  using assms by (auto simp: permitted_def ref_pending_def filter_empty_conv dest: delegator_in intro!: bexI [of _ a])

lemma request_approvals_ok:
  assumes ok: "world_ok K w" and k: "k < length (cw_runs w)" and created: "rr_phase (cw_runs w ! k) = Rp_created"
  shows "world_ok K (request_approvals K k w)"
proof -
  let ?r = "cw_runs w ! k"
  let ?ds = "map (\<lambda>a. (aq_action_id a, Fu_waiting)) (ref_pending ?r)"
  let ?w = "request_approvals K k w"
  have r: "run_ok K w ?r" by (rule world_okD(1) [OF ok k])
  then have none: "rr_decisions ?r = []" using created by (simp add: run_ok_def)
  have waiting: "map_of ?ds i \<noteq> Some (Fu_decided d x)" for i d x
    by (auto dest!: map_of_SomeD)
  have change: "run_change k (?r\<lparr>rr_decisions := ?ds, rr_phase := Rp_deciding\<rparr>) [] w ?w"
    using created fold_receipts_grow [THEN subsetD] by (auto simp: request_approvals_def run_change_def Let_def same_run_def none run_active_def task_over_def)
  have "run_ok K ?w ?r" by (rule run_ok_change [OF r change])
  then have "run_ok K ?w (?r\<lparr>rr_decisions := ?ds, rr_phase := Rp_deciding\<rparr>)"
    using waiting by (simp add: run_ok_def decisions_recorded_def)
  then show ?thesis
    by (intro world_ok_quiet [OF ok k change]) (use world_okD(3) [OF ok] in \<open>simp_all add: request_approvals_def Let_def\<close>)
qed

lemma start_run_ok:
  assumes ok: "world_ok K w" and k: "k < length (cw_runs w)" and created: "rr_phase (cw_runs w ! k) = Rp_created"
  shows "world_ok K (start_run K k w)"
proof -
  let ?f = "\<lambda>r. r\<lparr>rr_started_at := cw_loop_ns w\<rparr>"
  let ?w = "update_run k ?f w"
  have r: "run_ok K w (cw_runs w ! k)" by (rule world_okD(1) [OF ok k])
  have change: "run_change k (?f (cw_runs w ! k)) [] w ?w" by (intro update_run_change) (simp_all add: run_active_def task_over_def)
  have "run_ok K ?w (?f (cw_runs w ! k))"
    using run_ok_change [OF r change] created by (simp add: run_ok_def decisions_recorded_def ref_pending_def)
  then have ok1: "world_ok K ?w"
    using world_ok_quiet [OF ok k change] world_okD(3) [OF ok] created by (simp add: tasks_fresh_def)
  show ?thesis
  proof (cases "ref_pending (cw_runs w ! k) = []")
    case True
    then have "ref_pending (?f (cw_runs w ! k)) = []" by (simp add: ref_pending_def)
    then have "world_ok K (begin_tasks k (rr_actions (cw_runs w ! k)) ?w)"
      using r ungated_permitted k created
      by (intro begin_tasks_ok [OF ok1]) (auto simp: run_ok_def run_active_def task_over_def)
    with True show ?thesis by (simp add: start_run_def Let_def)
  next
    case False
    have "world_ok K (request_approvals K k ?w)" by (rule request_approvals_ok [OF ok1]) (use k created in simp_all)
    with False show ?thesis by (simp add: start_run_def Let_def)
  qed
qed

text \<open>The decisions allow what executes.\<close>

lemma runs_as_permitted:
  assumes "run_ok K w r" "runs_as (rr_actions r) (rr_decisions r) a b" "a \<in> set (rr_actions r)"
  shows "aq_action_id b = aq_action_id a" "permitted K (cw_journal w) r b"
proof -
  have dist: "distinct (map aq_action_id (rr_actions r))" and rec: "decisions_recorded K (cw_journal w) r"
    using assms(1) by (simp_all add: run_ok_def)
  have "aq_action_id b = aq_action_id a \<and> aq_tool_name b = aq_tool_name a \<and>
     (if aq_requires_approval a then future_approved (rr_decisions r) (aq_action_id a) = Inr True \<and>
        approval_recorded K (cw_journal w) (rr_run_id r) b else b = a)"
  proof (cases "aq_requires_approval a")
    case True
    then obtain x where x: "map_of (rr_decisions r) (aq_action_id a) = Some (Fu_decided APPROVE x)"
      "b = (case x of None \<Rightarrow> a | Some c \<Rightarrow> c)"
      using assms(2) by (auto simp: runs_as_def)
    then obtain a' where a': "a' \<in> set (ref_pending r)" "aq_action_id a' = aq_action_id a"
      "let b = (case x of None \<Rightarrow> a' | Some c \<Rightarrow> c) in aq_action_id b = aq_action_id a \<and> aq_tool_name b = aq_tool_name a' \<and>
         approval_recorded K (cw_journal w) (rr_run_id r) b"
      using rec unfolding decisions_recorded_def by blast
    have "a' \<in> set (rr_actions r)" using a'(1) by (simp add: ref_pending_def)
    then have "a' = a" using a'(2) assms(3) dist by (auto simp: distinct_map dest: inj_onD)
    with a'(3) x True show ?thesis by (auto simp: Let_def approved_Inr)
  next
    case False
    with assms(2) show ?thesis by (simp add: runs_as_def)
  qed
  then show "aq_action_id b = aq_action_id a" "permitted K (cw_journal w) r b"
    using assms(2,3) by (auto simp: permitted_def runs_as_def split: if_splits intro!: bexI [of _ a])
qed

lemma resolve_run_ok:
  assumes ok: "world_ok K w" and k: "k < length (cw_runs w)" and deciding: "rr_phase (cw_runs w ! k) = Rp_deciding"
    and w': "resolve_run k w = Some w'"
  shows "world_ok K w'"
proof -
  let ?r = "cw_runs w ! k"
  have r: "run_ok K w ?r" by (rule world_okD(1) [OF ok k])
  obtain x where x: "executable_actions (rr_actions ?r) (rr_decisions ?r) (rr_actions ?r) = Some x"
    "w' = (case x of Inl e \<Rightarrow> end_run k (Some e) w | Inr as \<Rightarrow> begin_tasks k as w)"
    using w' by (auto simp: resolve_run_def Let_def)
  show ?thesis
  proof (cases x)
    case (Inl e)
    with x end_run_ok [OF ok k] show ?thesis by simp
  next
    case (Inr bs)
    then obtain as where as: "list_all2 (runs_as (rr_actions ?r) (rr_decisions ?r)) as bs"
      "set as \<subseteq> set (rr_actions ?r)" "distinct (map aq_action_id as)"
      using executable_actions_run_as x(1) r unfolding run_ok_def by metis
    have each: "list_all2 (\<lambda>a b. aq_action_id b = aq_action_id a \<and> permitted K (cw_journal w) ?r b) as bs"
      using as(1,2) runs_as_permitted [OF r] unfolding list_all2_conv_all_nth by (metis nth_mem subsetD)
    then have "map aq_action_id bs = map aq_action_id as"
      by (simp add: list_all2_conv_all_nth list_eq_iff_nth_eq)
    moreover have "\<forall>b \<in> set bs. permitted K (cw_journal w) ?r b"
      using each by (auto simp: list_all2_conv_all_nth in_set_conv_nth)
    moreover have "run_active ?r" using deciding by (simp add: run_active_def task_over_def)
    ultimately have "world_ok K (begin_tasks k bs w)"
      using as(3) by (intro begin_tasks_ok [OF ok k]) simp_all
    with x Inr show ?thesis by simp
  qed
qed

section \<open>A task's step\<close>

lemma set_task_run:
  assumes "rr_phase (cw_runs w ! k) = Rp_executing ts"
  shows "cw_runs (set_task k j st w) =
    (cw_runs w)[k := (cw_runs w ! k)\<lparr>rr_phase := Rp_executing (ts[j := (fst (ts ! j), st)])\<rparr>]"
  using assms by (simp add: set_task_def)

text \<open>A task that goes on stays allowed; the others are as fresh as they were.\<close>

lemma run_ok_set_task:
  assumes "run_ok K w r" "rr_phase r = Rp_executing ts" "j < length ts"
  shows "run_ok K w (r\<lparr>rr_phase := Rp_executing (ts[j := (fst (ts ! j), st)])\<rparr>)"
proof -
  define us where "us = ts[j := (fst (ts ! j), st)]"
  have eq: "map fst us = map fst ts" using assms(3) by (simp add: us_def map_update) (metis list_update_id nth_map)
  have firsts: "map (\<lambda>t. aq_action_id (fst t)) us = map (\<lambda>t. aq_action_id (fst t)) ts" "fst ` set us = fst ` set ts"
    using arg_cong [OF eq, of "map aq_action_id"] arg_cong [OF eq, of set] by (simp_all add: comp_def)
  have "permitted K (cw_journal w) (r\<lparr>rr_phase := Rp_executing us\<rparr>) (fst t)" if "t \<in> set us" for t
  proof -
    have "fst t \<in> fst ` set ts" using that firsts(2) by auto
    then obtain t' where "t' \<in> set ts" "fst t = fst t'" unfolding image_iff by blast
    with assms(1,2) have "permitted K (cw_journal w) r (fst t)" by (simp add: run_ok_def)
    then show ?thesis by (rule permitted_mono) simp_all
  qed
  with assms(1,2) firsts(1) have "run_ok K w (r\<lparr>rr_phase := Rp_executing us\<rparr>)"
    by (simp add: run_ok_def decisions_recorded_def ref_pending_def)
  then show ?thesis by (simp add: us_def)
qed

lemma tasks_fresh_set_task:
  assumes fresh: "tasks_fresh w r" and ts: "rr_phase r = Rp_executing ts" "j < length ts" "\<forall>x. snd (ts ! j) \<noteq> Tk_ended x"
    and dist: "distinct (map (\<lambda>t. aq_action_id (fst t)) ts)"
    and keys: "commit_keys w' \<subseteq> commit_keys w \<union> {(rr_run_id r, aq_action_id (fst (ts ! j)))}"
    and ends: "(\<exists>x. st = Tk_ended x) \<or> commit_keys w' = commit_keys w"
  shows "tasks_fresh w' (r\<lparr>rr_phase := Rp_executing (ts[j := (fst (ts ! j), st)])\<rparr>)"
proof -
  have old: "(rr_run_id r, aq_action_id (fst (ts ! i))) \<notin> commit_keys w" if "i < length ts" "\<forall>x. snd (ts ! i) \<noteq> Tk_ended x" for i
    using fresh that ts(1) nth_mem unfolding tasks_fresh_def by blast
  have "(rr_run_id r, aq_action_id (fst t)) \<notin> commit_keys w'"
    if t: "t \<in> set (ts[j := (fst (ts ! j), st)])" "\<forall>x. snd t \<noteq> Tk_ended x" for t
  proof -
    obtain i where i: "i < length ts" "t = ts[j := (fst (ts ! j), st)] ! i"
      using t(1) by (metis in_set_conv_nth length_list_update)
    show ?thesis
    proof (cases "i = j")
      case True
      with i t(2) ends old [OF ts(2,3)] show ?thesis by auto
    next
      case False
      have "aq_action_id (fst (ts ! i)) \<noteq> aq_action_id (fst (ts ! j))"
        using dist i False ts(2) by (auto simp: distinct_conv_nth)
      with keys old [of i] t(2) i False show ?thesis by auto
    qed
  qed
  then show ?thesis by (auto simp: tasks_fresh_def)
qed

lemma task_step_ok:
  assumes ok: "world_ok K w" and k: "k < length (cw_runs w)" and ready: "task_ready (cw_runs w ! k) j w"
  shows "world_ok K (task_step k j w)"
proof -
  let ?r = "cw_runs w ! k"
  let ?w = "task_step k j w"
  have r: "run_ok K w ?r" by (rule world_okD(1) [OF ok k])
  then have q: "rr_probe ?r < length (cw_probes w)" "pb_run_id (cw_probes w ! rr_probe ?r) = rr_run_id ?r"
    by (simp_all add: run_ok_def)
  obtain ts where ts: "rr_phase ?r = Rp_executing ts" "j < length ts" "\<forall>x. snd (ts ! j) \<noteq> Tk_ended x"
    and eff: "task_effect k j (fst (ts ! j)) w ?w"
    by (rule task_step_effect [OF ready q(1)])
  define a where "a = fst (ts ! j)"
  obtain p' j' es st c where w': "?w = (set_task k j st w)\<lparr>cw_probes := (cw_probes w)[rr_probe ?r := p'], cw_journal := j', cw_completed := c\<rparr>"
    and p': "same_probe (cw_probes w ! rr_probe ?r) p'" and es: "adds_events (rr_run_id ?r) es (cw_journal w) j'"
    and cases: "c = cw_completed w \<and> commits es = [] \<or>
        c = List.insert (rr_run_id ?r, aq_action_id a) (cw_completed w) \<and> (\<exists>x. st = Tk_ended x) \<and>
          (commits es = [] \<or> (\<exists>e. commits es = [e] \<and> commit_of a e))"
    using eff q(2) unfolding task_effect_def Let_def a_def by auto
  let ?r' = "?r\<lparr>rr_phase := Rp_executing (ts[j := (fst (ts ! j), st)])\<rparr>"
  have "list_all2 same_probe (cw_probes w) ((cw_probes w)[rr_probe ?r := p'])"
    using p' q(1) by (auto simp: list_all2_conv_all_nth nth_list_update)
  then have change: "run_change k ?r' es w ?w"
    using es ts(1) set_task_run [OF ts(1)]
    by (auto simp: run_change_def w' adds_events_def run_active_def task_over_def)
  have "\<forall>e \<in> set (commits es). ee_action_id e = aq_action_id a" using cases by (auto simp: commit_of_def)
  moreover have "\<forall>e \<in> set (commits es). ee_run_id e = rr_run_id ?r" using es by (simp add: commits_def adds_events_def)
  ultimately have keys: "commit_key ` set (commits es) \<subseteq> {(rr_run_id ?r, aq_action_id a)}" by (auto simp: commit_key_def)
  have all_keys: "commit_keys ?w = commit_keys w \<union> commit_key ` set (commits es)"
    using change by (simp add: commit_keys_def run_change_def image_Un)
  have dist: "distinct (map (\<lambda>t. aq_action_id (fst t)) ts)" and "permitted K (cw_journal w) ?r a"
    using r ts(1,2) by (simp_all add: run_ok_def a_def)
  show ?thesis
  proof (rule world_ok_change [OF ok k change])
    show "run_ok K ?w ?r'" by (rule run_ok_set_task [OF run_ok_change [OF r change] ts(1,2)])
    show "tasks_fresh ?w ?r'"
      by (rule tasks_fresh_set_task [OF world_okD(2) [OF ok k] ts dist])
        (use keys all_keys cases in \<open>auto simp: a_def\<close>)
    show "commit_keys ?w \<subseteq> set (cw_completed ?w)"
      using all_keys keys cases world_okD(3) [OF ok] by (auto simp: w')
    show "distinct (map commit_key (commits es))" using cases by auto
    have "(rr_run_id ?r, aq_action_id a) \<notin> commit_keys w"
      using world_okD(2) [OF ok k] ts(1,3) nth_mem [OF ts(2)] unfolding tasks_fresh_def a_def by blast
    then show "\<forall>e \<in> set (commits es). commit_key e \<notin> commit_keys w" using keys by auto
    show "\<forall>e \<in> set (commits es). permitted K (cw_journal w) ?r (recorded_request e)"
      using cases permitted_commit [OF \<open>permitted K (cw_journal w) ?r a\<close>] by auto
  qed
qed

section \<open>The handle\<close>

lemma map_of_set_decision:
  "map_of (map (\<lambda>(j, f). (j, if j = i then g else f)) ds) k =
   (if k = i \<and> map_of ds k \<noteq> None then Some g else map_of ds k)"
  by (induction ds) auto

lemma ref_decide_ok:
  assumes ok: "world_ok K w" and k: "k < length (cw_runs w)"
    and waiting: "map_of (rr_decisions (cw_runs w ! k)) i = Some Fu_waiting"
    and w1: "run_change k (cw_runs w ! k) [] w w1" "cw_completed w1 = cw_completed w"
    and rec: "d = APPROVE \<Longrightarrow> \<exists>a \<in> set (ref_pending (cw_runs w ! k)). aq_action_id a = i \<and> (let b = (case x of None \<Rightarrow> a | Some c \<Rightarrow> c) in
        aq_action_id b = i \<and> aq_tool_name b = aq_tool_name a \<and> approval_recorded K (cw_journal w1) (rr_run_id (cw_runs w ! k)) b)"
  shows "world_ok K (set_decision k i d x w1)"
proof -
  let ?r = "cw_runs w ! k"
  let ?f = "\<lambda>r. r\<lparr>rr_decisions := map (\<lambda>(j, f). (j, if j = i then Fu_decided d x else f)) (rr_decisions r)\<rparr>"
  let ?w = "update_run k ?f w1"
  have r1: "cw_runs w1 ! k = ?r" "k < length (cw_runs w1)" using w1(1) k by (auto simp: run_change_def)
  have same: "same_run (cw_runs w1 ! k) (?f (cw_runs w1 ! k))"
    using waiting r1 by (auto simp: same_run_def map_of_set_decision)
  then have "run_change k (?f (cw_runs w1 ! k)) [] w1 ?w"
    by (intro update_run_change) (simp_all add: run_active_def task_over_def)
  then have change: "run_change k (?f ?r) [] w ?w" using run_change_trans [OF w1(1) _ k] r1(1) by fastforce
  have r: "run_ok K w ?r" by (rule world_okD(1) [OF ok k])
  have rw: "run_ok K ?w ?r" by (rule run_ok_change [OF r change])
  then have "decisions_recorded K (cw_journal ?w) (?f ?r)"
    using rec by (auto simp: run_ok_def decisions_recorded_def map_of_set_decision ref_pending_def)
  moreover have "permitted K (cw_journal ?w) (?f ?r) b" if "permitted K (cw_journal ?w) ?r b" for b
    using permitted_mono [OF that _ same [unfolded r1(1)]] by simp
  moreover have "rr_decisions ?r \<noteq> []" using waiting by auto
  ultimately have "run_ok K ?w (?f ?r)" using rw by (auto simp: run_ok_def)
  moreover have "tasks_fresh ?w (?f ?r)"
    using world_okD(2) [OF ok k] change by (simp add: tasks_fresh_def commit_keys_def run_change_def)
  ultimately have "world_ok K ?w"
    using world_ok_quiet [OF ok k change] world_okD(3) [OF ok] w1(2) by simp
  then show ?thesis by (simp add: set_decision_def)
qed

lemma decision_future_Inr: "decision_future r i = Inr u \<longleftrightarrow> map_of (rr_decisions r) i = Some Fu_waiting"
  by (auto simp: decision_future_def split: option.splits)

lemma approval_is_recorded:
  "approval_recorded K (cw_journal (action_receipt K rid Ae_approved b d w)) rid b"
  by (simp add: approval_recorded_def action_receipt_def record_receipt_def)

lemma ref_approve_ok:
  assumes ok: "world_ok K w" and k: "k < length (cw_runs w)" and w': "ref_approve K k i x w = (y, w')"
  shows "world_ok K w'"
proof (cases "w' = w")
  case False
  let ?r = "cw_runs w ! k"
  obtain a where a: "map_of (rr_decisions ?r) i = Some Fu_waiting" "find_row aq_action_id i (ref_pending ?r) = Some a"
    "case x of None \<Rightarrow> True | Some b \<Rightarrow> aq_action_id b = aq_action_id a \<and> aq_tool_name b = aq_tool_name a"
    "w' = set_decision k i APPROVE x (action_receipt K (rr_run_id ?r) Ae_approved (case x of None \<Rightarrow> a | Some b \<Rightarrow> b) None w)"
    using w' False by (auto simp: ref_approve_def Let_def decision_future_Inr split: sum.splits option.splits if_splits)
  show ?thesis unfolding a(4)
    by (rule ref_decide_ok [OF ok k a(1)])
      (use a(2,3) k in \<open>auto simp: approval_is_recorded receipt_change split: option.splits intro!: bexI [of _ a] dest: find_row_SomeD\<close>)
qed (use ok in simp)

lemma ref_reject_ok:
  assumes ok: "world_ok K w" and k: "k < length (cw_runs w)" and w': "ref_reject K k i why w = (y, w')"
  shows "world_ok K w'"
proof (cases "w' = w")
  case False
  let ?r = "cw_runs w ! k"
  obtain a where a: "map_of (rr_decisions ?r) i = Some Fu_waiting"
    "w' = set_decision k i REJECT None (action_receipt K (rr_run_id ?r) Ae_rejected a why w)"
    using w' False by (auto simp: ref_reject_def Let_def decision_future_Inr split: sum.splits option.splits)
  show ?thesis unfolding a(2)
    by (rule ref_decide_ok [OF ok k a(1)]) (use k in \<open>simp_all add: receipt_change\<close>)
qed (use ok in simp)

lemma ref_cancel_ok:
  assumes ok: "world_ok K w" and k: "k < length (cw_runs w)" and w': "ref_cancel k w = (y, w')"
  shows "world_ok K w'"
  using w' ok interrupt_run_ok [OF ok k] by (auto simp: ref_cancel_def run_active_def Let_def split: if_splits)

end
