(* ===== verification/Conf_Reach.thy ===== *)
theory Conf_Reach
  imports Conf_Invariant
begin

text \<open>
  Reconciliation and the beginning of runs keep the world in order; so every world that the reference
  adapter reaches is in order.
\<close>

section \<open>Reconciliation\<close>

text \<open>The evidence is bound to the action, and it reports no effect only where the journal has none.\<close>

lemma bound_evidence_bound:
  assumes "bound_evidence K p s a j = (e, ev)"
  shows "ev_action_id e = aq_action_id a" "ev_expected_action_digest e = action_digest K a"
  using assms by (auto simp: bound_evidence_def Let_def split: if_splits)

lemma not_committed_evidence:
  assumes "bound_evidence K p s a j = (e, ev)" "ev_status e = Re_not_committed" "pb_reconcile_action p = None"
  shows "(pb_run_id p, aq_action_id a) \<notin> commit_key ` set (commits (jn_events j))"
proof -
  have "e = probe_reconcile K p a j" using assms(1,2) by (auto simp: bound_evidence_def Let_def split: if_splits)
  with assms(2,3) have "filter (\<lambda>e. ee_action_id e = aq_action_id a) (committed_events (Some (pb_run_id p)) j) = []"
    by (auto simp: probe_reconcile_def Let_def split: if_split_asm)
  then show ?thesis
    by (auto simp: filter_empty_conv committed_events_def journal_events_def commits_def commit_key_def)
qed

lemma settle_evidence_simps [simp]:
  "cw_runs (settle_evidence rid e w) = cw_runs w" "cw_probes (settle_evidence rid e w) = cw_probes w"
  "cw_journal (settle_evidence rid e w) = cw_journal w"
  by (simp_all add: settle_evidence_def mark_completed_def discard_completed_def split: reconciliation_status.splits)

lemma settle_evidence_completed:
  "set (cw_completed (settle_evidence rid e w)) \<supseteq>
   set (cw_completed w) - (if ev_status e = Re_not_committed then {(rid, ev_action_id e)} else {})"
  by (auto simp: settle_evidence_def mark_completed_def discard_completed_def split: reconciliation_status.splits)

text \<open>What a reconciliation that reaches the probe does.\<close>

lemma ref_reconcileE:
  assumes "ref_reconcile K k i s w = (y, w')" "w' \<noteq> w \<or> map_of (rr_reconciliations (cw_runs w ! k)) i = None \<and> (\<exists>e. y = Inr e)"
  obtains a e ev w1 where "rr_phase (cw_runs w ! k) \<noteq> Rp_created" "find_row aq_action_id i (rr_actions (cw_runs w ! k)) = Some a"
    "w1 = action_receipt K (rr_run_id (cw_runs w ! k)) Ae_reconciliation_started a None w"
    "bound_evidence K (cw_probes w ! rr_probe (cw_runs w ! k)) s a (cw_journal w1) = (e, ev)" "y = Inr e"
    "w' = action_receipt K (rr_run_id (cw_runs w ! k)) ev a (ev_detail e)
       (update_run k (\<lambda>r. r\<lparr>rr_reconciliations := (i, e) # rr_reconciliations r\<rparr>) (settle_evidence (rr_run_id (cw_runs w ! k)) e w1))"
proof -
  let ?r = "cw_runs w ! k"
  note step = assms(1) [unfolded ref_reconcile_def Let_def]
  have none: "map_of (rr_reconciliations ?r) i = None"
    using step assms(2) by (cases "map_of (rr_reconciliations ?r) i") auto
  obtain o' where o': "rr_phase ?r = Rp_done o'"
    using step assms(2) none by (cases "rr_phase ?r") auto
  have unknown: "ro_status o' = Rs_unknown" using step assms(2) none o' by (cases "ro_status o' = Rs_unknown") auto
  obtain a where a: "find_row aq_action_id i (rr_actions ?r) = Some a"
    using step assms(2) none o' unknown by (cases "find_row aq_action_id i (rr_actions ?r)") auto
  obtain t where t: "validate_timeout (Some s) = Inr t"
    using step assms(2) none o' unknown a by (cases "validate_timeout (Some s)") auto
  define w1 where "w1 = action_receipt K (rr_run_id ?r) Ae_reconciliation_started a None w"
  obtain e ev where e: "bound_evidence K (cw_probes w ! rr_probe ?r) s a (cw_journal w1) = (e, ev)" by fastforce
  have "cw_probes w1 = cw_probes w" by (simp add: w1_def)
  with step none o' unknown a t e show thesis
    by (intro that [OF _ a w1_def e]) (simp_all add: w1_def [symmetric])
qed

lemma ref_reconcile_ok:
  assumes ok: "world_ok K w" and k: "k < length (cw_runs w)" and w': "ref_reconcile K k i s w = (y, w')"
  shows "world_ok K w'"
proof (cases "w' = w")
  case False
  let ?r = "cw_runs w ! k"
  obtain a e ev w1 where created: "rr_phase ?r \<noteq> Rp_created" and a: "find_row aq_action_id i (rr_actions ?r) = Some a"
    and w1: "w1 = action_receipt K (rr_run_id ?r) Ae_reconciliation_started a None w"
    and e: "bound_evidence K (cw_probes w ! rr_probe ?r) s a (cw_journal w1) = (e, ev)"
    and w'_eq: "w' = action_receipt K (rr_run_id ?r) ev a (ev_detail e)
       (update_run k (\<lambda>r. r\<lparr>rr_reconciliations := (i, e) # rr_reconciliations r\<rparr>) (settle_evidence (rr_run_id ?r) e w1))"
    by (rule ref_reconcileE [OF w' disjI1 [OF False]])
  let ?r' = "?r\<lparr>rr_reconciliations := (i, e) # rr_reconciliations ?r\<rparr>"
  have r: "run_ok K w ?r" by (rule world_okD(1) [OF ok k])
  have "set (jn_receipts (cw_journal w)) \<subseteq> set (jn_receipts (cw_journal w'))"
    by (auto simp: w'_eq w1 action_receipt_def record_receipt_def)
  then have change: "run_change k ?r' [] w w'"
    by (simp add: run_change_def w'_eq w1 run_active_def task_over_def)
  have "run_ok K w' ?r" by (rule run_ok_change [OF r change])
  then have new: "run_ok K w' ?r'"
    using permitted_mono [of K "cw_journal w'" ?r _ "cw_journal w'" ?r'] by (simp add: run_ok_def decisions_recorded_def ref_pending_def)
  have keys: "commit_keys w' = commit_keys w" using change by (simp add: commit_keys_def run_change_def)
  have "tasks_fresh w' ?r'" using world_okD(2) [OF ok k] by (simp add: tasks_fresh_def keys)
  have p: "pb_run_id (cw_probes w ! rr_probe ?r) = rr_run_id ?r" "pb_reconcile_action (cw_probes w ! rr_probe ?r) = None"
    using r ok by (simp_all add: run_ok_def world_ok_def)
  have "ev_status e = Re_not_committed \<Longrightarrow> (rr_run_id ?r, ev_action_id e) \<notin> commit_keys w"
    using not_committed_evidence [OF e _ p(2)] p(1) bound_evidence_bound [OF e] by (simp add: w1 commit_keys_def)
  then have "commit_keys w \<subseteq> set (cw_completed w')"
    using settle_evidence_completed [of w1 e "rr_run_id ?r"] world_okD(3) [OF ok] by (auto simp: w'_eq w1 split: if_splits)
  with world_ok_quiet [OF ok k change] new \<open>tasks_fresh w' ?r'\<close> show ?thesis by simp
qed (use ok in simp)

section \<open>The beginning of a run\<close>

lemma new_run_simps [simp]:
  "rr_run_id (new_run rid as e t) = rid" "rr_actions (new_run rid as e t) = as" "rr_probe (new_run rid as e t) = e"
  "rr_timeout (new_run rid as e t) = t" "rr_decisions (new_run rid as e t) = []" "rr_phase (new_run rid as e t) = Rp_created"
  by (simp_all add: new_run_def)

lemma ref_beginE:
  assumes "ref_begin rid as e t w = (y, w')" "w' \<noteq> w"
  obtains "validate_actions as = Inr as" "y = Inr (length (cw_runs w))"
    "w' = run_receipt rid Ae_run_started None (w\<lparr>cw_runs := cw_runs w @ [new_run rid as e t]\<rparr>)"
proof -
  obtain bs where bs: "validate_actions as = Inr bs"
    using assms by (cases "validate_actions as") (auto simp: ref_begin_def bind_res_def)
  moreover obtain s where s: "validate_timeout t = Inr s"
    using assms bs by (cases "validate_timeout t") (auto simp: ref_begin_def bind_res_def)
  moreover from s have "s = t" by (auto simp: validate_timeout_def split: option.splits if_splits)
  ultimately show thesis
    using assms(1) validate_actions_InrD(1) [OF bs] by (intro that) (auto simp: ref_begin_def bind_res_def)
qed

lemma one_active_snoc:
  assumes "one_active rs" "\<forall>r \<in> set rs. rr_run_id r = rr_run_id r' \<longrightarrow> \<not> run_active r"
  shows "one_active (rs @ [r'])"
  using assms by (auto simp: one_active_def nth_append less_Suc_eq)

lemma tasks_fresh_cong: "commit_keys w' = commit_keys w \<Longrightarrow> tasks_fresh w' r = tasks_fresh w r"
  by (simp add: tasks_fresh_def)

lemma ref_begin_ok:
  assumes ok: "world_ok K w" and e: "e < length (cw_probes w)" "pb_run_id (cw_probes w ! e) = rid" "inactive rid w"
    and w': "ref_begin rid as e t w = (y, w')"
  shows "world_ok K w'"
proof (cases "w' = w")
  case False
  have valid: "validate_actions as = Inr as"
    and w'_eq: "w' = run_receipt rid Ae_run_started None (w\<lparr>cw_runs := cw_runs w @ [new_run rid as e t]\<rparr>)"
    using ref_beginE [OF w' False] by blast+
  have events: "jn_events (cw_journal w') = jn_events (cw_journal w)" "commit_keys w' = commit_keys w"
    and receipts: "set (jn_receipts (cw_journal w)) \<subseteq> set (jn_receipts (cw_journal w'))"
    by (auto simp: w'_eq commit_keys_def run_receipt_def record_receipt_def)
  have probes: "cw_probes w' = cw_probes w" "cw_completed w' = cw_completed w" by (simp_all add: w'_eq)
  have "run_ok K w' r \<and> tasks_fresh w' r" if "r \<in> set (cw_runs w)" for r
    using run_ok_mono [of K w r w'] ok that receipts tasks_fresh_cong [OF events(2)] by (simp add: probes world_ok_def)
  moreover have "run_ok K w' (new_run rid as e t)"
    using e validate_actions_InrD [OF valid] by (simp add: run_ok_def probes decisions_recorded_def)
  moreover have "tasks_fresh w' (new_run rid as e t)" by (simp add: tasks_fresh_def)
  moreover have "permitted K (cw_journal w') r b" if "permitted K (cw_journal w) r b" for r b
    by (rule permitted_mono [OF that receipts]) simp
  moreover have "one_active (cw_runs w')"
    using one_active_snoc [of "cw_runs w"] ok e(3) by (simp add: w'_eq world_ok_def inactive_def)
  moreover have "cw_runs w' = cw_runs w @ [new_run rid as e t]" by (simp add: w'_eq)
  ultimately show ?thesis
    using ok unfolding world_ok_def events probes by (auto 0 3)
qed (use ok in simp)

section \<open>Reachable worlds\<close>

lemma world_ok_probes:
  assumes "world_ok K w" "list_all2 same_probe (cw_probes w) qs" "\<forall>p \<in> set ps. pb_reconcile_action p = None"
  shows "world_ok K (w\<lparr>cw_probes := qs @ ps\<rparr>)"
proof -
  let ?w = "w\<lparr>cw_probes := qs @ ps\<rparr>"
  have "run_ok K ?w r" if "run_ok K w r" for r
    using run_ok_mono [OF that, of ?w] assms(2) by (auto simp: list_all2_conv_all_nth nth_append)
  moreover have "pb_reconcile_action p = None" if p: "p \<in> set qs" for p
  proof -
    obtain q where "q \<in> set (cw_probes w)" "same_probe q p"
      using p assms(2) by (metis in_set_conv_nth list_all2_conv_all_nth)
    with assms(1) show ?thesis by (simp add: world_ok_def same_probe_def)
  qed
  moreover have keys: "commit_keys ?w = commit_keys w" by (simp add: commit_keys_def)
  ultimately show ?thesis
    using assms(1,3) tasks_fresh_cong [OF keys] by (auto simp: world_ok_def keys)
qed

lemma world_ok_time: "world_ok K w \<Longrightarrow> world_ok K (w\<lparr>cw_time_ns := t, cw_loop_ns := l\<rparr>)"
proof -
  let ?w = "w\<lparr>cw_time_ns := t, cw_loop_ns := l\<rparr>"
  have keys: "commit_keys ?w = commit_keys w" and "run_ok K ?w r = run_ok K w r" for r
    by (simp_all add: commit_keys_def run_ok_def)
  then show "world_ok K w \<Longrightarrow> world_ok K ?w"
    using tasks_fresh_cong [OF keys] by (simp add: world_ok_def keys)
qed

lemma ref_step_ok:
  assumes "ref_step K w w'" "world_ok K w"
  shows "world_ok K w'"
  using assms
proof (cases rule: ref_step.cases)
  case (rs_probe p)
  with world_ok_probes [OF assms(2), of "cw_probes w" "[p]"] show ?thesis by simp
next
  case (rs_release p)
  have "list_all2 same_probe (cw_probes w) ((cw_probes w)[p := (cw_probes w ! p)\<lparr>pb_released := True\<rparr>])"
    using rs_release(2) by (simp add: list_all2_conv_all_nth nth_list_update)
  with world_ok_probes [OF assms(2) this, of "[]"] rs_release(1) show ?thesis by simp
next
  case (rs_begin e rid as t x)
  with ref_begin_ok [OF assms(2)] show ?thesis by simp
next
  case (rs_replay k x)
  have r: "run_ok K w (cw_runs w ! k)" by (rule world_okD(1) [OF assms(2) rs_replay(1)])
  show ?thesis
    using rs_replay r ref_begin_ok [OF assms(2), of "rr_probe (cw_runs w ! k)"] assms(2)
    by (auto simp: ref_replay_def Let_def run_ok_def split: if_splits)
next
  case (rs_start k)
  with start_run_ok [OF assms(2)] show ?thesis by simp
next
  case (rs_resolve k)
  with resolve_run_ok [OF assms(2)] show ?thesis by simp
next
  case (rs_task k j)
  with task_step_ok [OF assms(2)] show ?thesis by simp
next
  case (rs_conclude k ts)
  with end_run_ok [OF assms(2)] show ?thesis by simp
next
  case (rs_fail k ts e)
  with fence_run_ok [OF assms(2)] show ?thesis by (simp add: run_active_def task_over_def)
next
  case (rs_timeout k t)
  show ?thesis
  proof (cases "run_active (cw_runs w ! k)")
    case True
    with rs_timeout interrupt_run_ok [OF assms(2)] show ?thesis by simp
  next
    case False
    then have "interrupt_run k Timeout_Error w = w"
      by (auto simp: interrupt_run_def run_active_def task_over_def split: run_phase.splits)
    with rs_timeout assms(2) show ?thesis by simp
  qed
next
  case (rs_cancel k x)
  with ref_cancel_ok [OF assms(2)] show ?thesis by simp
next
  case (rs_approve k i b x)
  with ref_approve_ok [OF assms(2)] show ?thesis by simp
next
  case (rs_reject k i why x)
  with ref_reject_ok [OF assms(2)] show ?thesis by simp
next
  case (rs_reconcile k i s y)
  with ref_reconcile_ok [OF assms(2)] show ?thesis by simp
next
  case (rs_time t l)
  with world_ok_time [OF assms(2)] show ?thesis by simp
qed

lemma ref_reachable_ok: "ref_reachable K w \<Longrightarrow> world_ok K w"
proof (induction rule: ref_reachable.induct)
  case (ref_init t l)
  show ?case by (simp add: world_ok_def empty_journal_def commit_keys_def one_active_def)
qed (rule ref_step_ok)

end
