(* ===== verification/Conf_Props.thy ===== *)
theory Conf_Props
  imports Conf_Reach
begin

text \<open>
  What the reference adapter promises in every interleaving: no effect without its approvals, none
  twice, none after the run is over, delegation that ends, and evidence that the journal supports.
\<close>

section \<open>Approval\<close>

lemma committed_events_commits: "committed_events None j = commits (jn_events j)"
  by (simp add: committed_events_def journal_events_def commits_def)

lemma committed_events_of: "committed_events (Some rid) j = filter (\<lambda>e. ee_run_id e = rid) (commits (jn_events j))"
  by (simp add: committed_events_def journal_events_def commits_def conj_commute)

text \<open>The approval of an action by its id, whatever arguments it was approved with.\<close>

definition approval_receipt :: "journal \<Rightarrow> string \<Rightarrow> string \<Rightarrow> string \<Rightarrow> bool" where
  "approval_receipt j rid i digest \<longleftrightarrow> (\<exists>rc \<in> set (journal_receipts (Some rid) j). ar_event rc = Ae_approved \<and>
     ar_action_id rc = Some i \<and> ar_action_digest rc = Some digest)"

lemma approval_recorded_receipt:
  "approval_recorded K j rid b \<Longrightarrow> approval_receipt j rid (aq_action_id b) (action_digest K b)"
  by (auto simp: approval_recorded_def approval_receipt_def journal_receipts_def)

lemma approved_has_receipt:
  assumes "run_ok K w r" "future_approved (rr_decisions r) i = Inr True"
  shows "\<exists>d. approval_receipt (cw_journal w) (rr_run_id r) i d"
proof -
  obtain x where "map_of (rr_decisions r) i = Some (Fu_decided APPROVE x)" using assms(2) by (auto simp: approved_Inr)
  with assms(1) obtain b where "aq_action_id b = i" "approval_recorded K (cw_journal w) (rr_run_id r) b"
    unfolding run_ok_def decisions_recorded_def Let_def by blast
  with approval_recorded_receipt show ?thesis by metis
qed



section \<open>Silence\<close>

lemma begin_tasks_events [simp]: "jn_events (cw_journal (begin_tasks k bs w)) = jn_events (cw_journal w)"
  by (simp add: begin_tasks_def Let_def)

lemma start_run_events [simp]: "jn_events (cw_journal (start_run K k w)) = jn_events (cw_journal w)"
  by (simp add: start_run_def request_approvals_def Let_def)

lemma set_decision_events [simp]: "jn_events (cw_journal (set_decision k i d x w)) = jn_events (cw_journal w)"
  by (simp add: set_decision_def)

text \<open>Only a task's step and the cancellation of tasks record events, and those of a run under way.\<close>

definition own_events :: "conf_world \<Rightarrow> effect_event list \<Rightarrow> bool" where
  "own_events w es \<longleftrightarrow> (\<forall>e \<in> set es. \<exists>r \<in> set (cw_runs w). run_active r \<and> rr_run_id r = ee_run_id e)"

lemma own_events_Nil [simp]: "own_events w []"
  by (simp add: own_events_def)

lemma task_step_events:
  assumes "run_ok K w (cw_runs w ! k)" "k < length (cw_runs w)" "task_ready (cw_runs w ! k) j w"
  shows "\<exists>es. jn_events (cw_journal (task_step k j w)) = jn_events (cw_journal w) @ es \<and> own_events w es"
proof -
  let ?r = "cw_runs w ! k"
  have q: "rr_probe ?r < length (cw_probes w)" "pb_run_id (cw_probes w ! rr_probe ?r) = rr_run_id ?r"
    using assms(1) by (simp_all add: run_ok_def)
  obtain ts where ts: "rr_phase (cw_runs w ! k) = Rp_executing ts" "task_effect k j (fst (ts ! j)) w (task_step k j w)"
    by (rule task_step_effect [OF assms(3) q(1)])
  then have "run_active ?r" "?r \<in> set (cw_runs w)" using assms(2) by (simp_all add: run_active_def task_over_def)
  moreover obtain es where "adds_events (rr_run_id ?r) es (cw_journal w) (cw_journal (task_step k j w))"
    using ts(2) q(2) unfolding task_effect_def Let_def by auto
  ultimately show ?thesis unfolding adds_events_def own_events_def by metis
qed

lemma fence_run_events:
  assumes "run_ok K w (cw_runs w ! k)" "k < length (cw_runs w)" "run_active (cw_runs w ! k)"
  shows "\<exists>es. jn_events (cw_journal (fence_run k e w)) = jn_events (cw_journal w) @ es \<and> own_events w es"
proof -
  let ?r = "cw_runs w ! k"
  obtain es where "adds_events (pb_run_id (cw_probes w ! rr_probe ?r)) es (cw_journal w) (abort_tasks (cw_time_ns w)
      (cw_probes w ! rr_probe ?r) (case rr_phase ?r of Rp_executing ts \<Rightarrow> ts | _ \<Rightarrow> []) (cw_journal w))"
    using abort_tasks_adds by metis
  with assms show ?thesis
    by (intro exI [of _ es]) (auto simp: fence_run_def Let_def adds_events_def own_events_def run_ok_def)
qed

lemma interrupt_run_events:
  assumes "run_ok K w (cw_runs w ! k)" "k < length (cw_runs w)"
  shows "\<exists>es. jn_events (cw_journal (interrupt_run k e w)) = jn_events (cw_journal w) @ es \<and> own_events w es"
proof (cases "rr_phase (cw_runs w ! k)")
  case (Rp_executing ts)
  then show ?thesis
    using fence_run_events [OF assms, of "Some e"] by (simp add: interrupt_run_def run_active_def task_over_def)
qed (simp_all add: interrupt_run_def)

lemma quiet_events: "jn_events j' = jn_events j \<Longrightarrow> \<exists>es. jn_events j' = jn_events j @ es \<and> own_events w es"
  by (intro exI [of _ "[]"]) simp

lemma ref_begin_events: "ref_begin rid as e t w = (y, w') \<Longrightarrow> jn_events (cw_journal w') = jn_events (cw_journal w)"
  using ref_beginE [of rid as e t w y w' "jn_events (cw_journal w') = jn_events (cw_journal w)"] by (cases "w' = w") auto

lemma ref_step_events:
  assumes "world_ok K w" "ref_step K w w'"
  shows "\<exists>es. jn_events (cw_journal w') = jn_events (cw_journal w) @ es \<and> own_events w es"
  using assms(2)
proof (cases rule: ref_step.cases)
  case (rs_replay k x)
  then show ?thesis
    by (intro quiet_events) (auto simp: ref_replay_def Let_def dest: ref_begin_events split: if_splits)
next
  case (rs_resolve k)
  then obtain x where "w' = (case x of Inl e \<Rightarrow> end_run k (Some e) w | Inr as \<Rightarrow> begin_tasks k as w)"
    by (auto simp: resolve_run_def Let_def)
  then show ?thesis by (intro quiet_events) (cases x, simp_all)
next
  case (rs_task k j)
  with task_step_events [OF world_okD(1) [OF assms(1)]] show ?thesis by blast
next
  case (rs_fail k ts e)
  then show ?thesis
    using fence_run_events [OF world_okD(1) [OF assms(1) rs_fail(2)] rs_fail(2), of "Some e"] by (simp add: run_active_def task_over_def)
next
  case (rs_timeout k t)
  with interrupt_run_events [OF world_okD(1) [OF assms(1)]] show ?thesis by blast
next
  case (rs_cancel k x)
  with interrupt_run_events [OF world_okD(1) [OF assms(1) rs_cancel(1)] rs_cancel(1), of Cancelled_Error] show ?thesis
    by (auto simp: ref_cancel_def Let_def intro: quiet_events split: if_splits)
next
  case (rs_approve k i b x)
  then show ?thesis
    by (intro quiet_events) (auto simp: ref_approve_def Let_def split: sum.splits option.splits if_splits)
next
  case (rs_reject k i why x)
  then show ?thesis
    by (intro quiet_events) (auto simp: ref_reject_def Let_def split: sum.splits option.splits)
next
  case (rs_reconcile k i s y)
  have "jn_events (cw_journal w') = jn_events (cw_journal w)"
  proof (cases "w' = w")
    case False
    show ?thesis by (rule ref_reconcileE [OF rs_reconcile(2) disjI1 [OF False]]) simp
  qed simp
  then show ?thesis by (rule quiet_events)
qed (auto intro: quiet_events dest: ref_begin_events)

text \<open>
  Once no run of an id is under way - it has completed, failed, or been cancelled or timed out -
  nothing that happens next records an effect event of it: late work is fenced.
\<close>

theorem terminal_run_is_quiet:
  assumes "ref_reachable K w" "inactive run_id w" "ref_step K w w'"
  shows "journal_events (Some run_id) phase (cw_journal w') = journal_events (Some run_id) phase (cw_journal w)"
proof -
  obtain es where es: "jn_events (cw_journal w') = jn_events (cw_journal w) @ es" "own_events w es"
    using ref_step_events [OF ref_reachable_ok [OF assms(1)] assms(3)] by blast
  then have "\<forall>e \<in> set es. ee_run_id e \<noteq> run_id" using assms(2) by (auto simp: own_events_def inactive_def)
  with es(1) show ?thesis by (simp add: journal_events_def filter_empty_conv)
qed

section \<open>Delegation\<close>

text \<open>
  C37. The actions that \<open>validate_actions\<close> accepts form a forest, none above itself; so the loop over the
  parents, which need not end on other actions, ends whatever has been decided, and a run whose
  approvals are decided goes on.
\<close>

theorem validated_delegation_ends:
  assumes "validate_actions as = Inr bs"
  shows "(\<forall>a \<in> set bs. \<not> delegator bs (aq_parent_action_id a) a) \<and> executable_actions bs decisions bs \<noteq> None"
  using validate_actions_InrD [OF assms] check_delegation_fresh executable_actions_end by blast

section \<open>Reconciliation\<close>


end
