(* ===== verification/Conf_Loop.thy ===== *)
theory Conf_Loop
  imports Conf_Props
begin

text \<open>
  The event loop as asyncio runs it, and the reference adapter on it: the loop takes what is ready in
  order until nothing is, and then the clock moves to the next timeout. The clock is ideal, in
  nanoseconds; each step of the loop is a step of the interleaving semantics.
\<close>

section \<open>What is ready\<close>

fun first_some :: "('a \<Rightarrow> 'b option) \<Rightarrow> 'a list \<Rightarrow> 'b option" where
  "first_some f [] = None"
| "first_some f (x # xs) = (case f x of None \<Rightarrow> first_some f xs | Some y \<Rightarrow> Some y)"

lemma first_some_SomeD: "first_some f xs = Some y \<Longrightarrow> \<exists>x \<in> set xs. f x = Some y"
  by (induction xs) (auto split: option.splits)

text \<open>
  The next thing a run does: its tasks go on before the coroutine that gathers them wakes up.
\<close>

definition run_next :: "codec \<Rightarrow> nat \<Rightarrow> conf_world \<Rightarrow> conf_world option" where
  "run_next K k w =
     (let r = cw_runs w ! k in
      case rr_phase r of
        Rp_created \<Rightarrow> Some (start_run K k w)
      | Rp_deciding \<Rightarrow> if all_decided (rr_decisions r) then resolve_run k w else None
      | Rp_executing ts \<Rightarrow> (case List.find (\<lambda>j. task_ready r j w) [0..<length ts] of
          Some j \<Rightarrow> Some (task_step k j w)
        | None \<Rightarrow> (case task_errors ts of
            e # _ \<Rightarrow> Some (fence_run k (Some e) w)
          | [] \<Rightarrow> if all_ended ts then Some (end_run k None w) else None))
      | _ \<Rightarrow> None)"

definition loop_next :: "codec \<Rightarrow> conf_world \<Rightarrow> conf_world option" where
  "loop_next K w = first_some (\<lambda>k. run_next K k w) [0..<length (cw_runs w)]"

section \<open>What is left to do\<close>

definition task_work :: "task_state \<Rightarrow> nat" where
  "task_work st = (case st of Tk_created \<Rightarrow> 2 | Tk_waiting \<Rightarrow> 1 | Tk_ended _ \<Rightarrow> 0)"

definition phase_work :: "nat \<Rightarrow> run_phase \<Rightarrow> nat" where
  "phase_work n ph = (case ph of
     Rp_created \<Rightarrow> 2 * n + 3 | Rp_deciding \<Rightarrow> 2 * n + 2
   | Rp_executing ts \<Rightarrow> 1 + sum_list (map (\<lambda>t. task_work (snd t)) ts) | _ \<Rightarrow> 0)"

definition run_work :: "ref_run \<Rightarrow> nat" where
  "run_work r = phase_work (length (rr_actions r)) (rr_phase r)"

definition loop_work :: "conf_world \<Rightarrow> nat" where
  "loop_work w = sum_list (map run_work (cw_runs w))"

lemma phase_work_simps [simp]:
  "phase_work n (Rp_done x) = 0" "phase_work n Rp_never_started = 0" "phase_work n Rp_created = 2 * n + 3"
  "phase_work n Rp_deciding = 2 * n + 2"
  by (simp_all add: phase_work_def)

text \<open>An operation on a run leaves less to do.\<close>

definition works :: "nat \<Rightarrow> conf_world \<Rightarrow> conf_world \<Rightarrow> bool" where
  "works k w w' \<longleftrightarrow> (\<exists>r'. cw_runs w' = (cw_runs w)[k := r'] \<and> run_work r' < run_work (cw_runs w ! k))"

lemma sum_list_update_less:
  fixes xs :: "nat list"
  assumes "k < length xs" "x < xs ! k"
  shows "sum_list (xs[k := x]) < sum_list xs"
  using assms elem_le_sum_list [of k xs] by (simp add: sum_list_update)

lemma works_less: "works k w w' \<Longrightarrow> k < length (cw_runs w) \<Longrightarrow> loop_work w' < loop_work w"
  by (auto simp: works_def loop_work_def map_update intro!: sum_list_update_less)

lemma end_run_works: "run_active (cw_runs w ! k) \<Longrightarrow> works k w (end_run k e w)"
  using end_run_runs [of k e w]
  by (auto simp: works_def run_work_def phase_work_def run_active_def task_over_def split: run_phase.splits)

lemma begin_tasks_works:
  assumes "rr_phase (cw_runs w ! k) = Rp_created \<or> rr_phase (cw_runs w ! k) = Rp_deciding"
    "length bs \<le> length (rr_actions (cw_runs w ! k))"
  shows "works k w (begin_tasks k bs w)"
proof -
  define tasks where "tasks = filter (\<lambda>a. (rr_run_id (cw_runs w ! k), aq_action_id a) \<notin> set (cw_completed w)) bs"
  show ?thesis
  proof (cases "tasks = []")
    case True
    with end_run_works [of w k None] assms(1) show ?thesis
      by (auto simp: begin_tasks_def tasks_def run_active_def task_over_def)
  next
    case False
    have "sum_list (map (\<lambda>t. task_work (snd t)) (map (\<lambda>a. (a, Tk_created)) tasks)) = 2 * length tasks"
      by (induction tasks) (simp_all add: task_work_def)
    moreover have "length tasks \<le> length (rr_actions (cw_runs w ! k))"
      using assms(2) length_filter_le [of _ bs] unfolding tasks_def by (meson le_trans)
    moreover have "begin_tasks k bs w = update_run k (\<lambda>r. r\<lparr>rr_phase := Rp_executing (map (\<lambda>a. (a, Tk_created)) tasks)\<rparr>) w"
      using False by (simp add: begin_tasks_def tasks_def)
    ultimately show ?thesis
      using assms(1) unfolding works_def run_work_def by (auto simp: phase_work_def)
  qed
qed

lemma executable_actions_length: "executable_actions as ds bs = Some (Inr cs) \<Longrightarrow> length cs \<le> length bs"
proof (induction bs arbitrary: cs)
  case (Cons b bs)
  then show ?case by (auto simp: result_simps split: option.splits sum.splits)
qed simp

lemma resolve_run_works:
  assumes "rr_phase (cw_runs w ! k) = Rp_deciding" "resolve_run k w = Some w'"
  shows "works k w w'"
proof -
  obtain x where x: "executable_actions (rr_actions (cw_runs w ! k)) (rr_decisions (cw_runs w ! k)) (rr_actions (cw_runs w ! k)) = Some x"
    "w' = (case x of Inl e \<Rightarrow> end_run k (Some e) w | Inr as \<Rightarrow> begin_tasks k as w)"
    using assms(2) by (auto simp: resolve_run_def Let_def)
  with assms(1) begin_tasks_works [of w k] executable_actions_length end_run_works [of w k] show ?thesis
    by (cases x) (auto simp: run_active_def task_over_def)
qed

lemma start_run_works:
  assumes "rr_phase (cw_runs w ! k) = Rp_created" "k < length (cw_runs w)"
  shows "works k w (start_run K k w)"
proof -
  let ?w = "update_run k (\<lambda>r. r\<lparr>rr_started_at := cw_loop_ns w\<rparr>) w"
  show ?thesis
  proof (cases "ref_pending (cw_runs w ! k) = []")
    case True
    have "works k ?w (begin_tasks k (rr_actions (cw_runs w ! k)) ?w)"
      by (rule begin_tasks_works) (use assms in simp_all)
    with True assms(2) show ?thesis by (auto simp: start_run_def Let_def works_def run_work_def)
  next
    case False
    with assms show ?thesis
      by (auto simp: start_run_def request_approvals_def Let_def works_def run_work_def)
  qed
qed

lemma finish_task_runs: "\<exists>x. cw_runs (finish_task k j a w) = cw_runs (set_task k j (Tk_ended x) w)"
  by (cases "rr_phase (cw_runs w ! k)")
    (auto simp: finish_task_def Let_def set_task_def set_probe_def update_run_def mark_completed_def split: prod.split sum.split conf_error.split)

lemma begin_task_runs: "\<exists>st. cw_runs (begin_task k j a w) = cw_runs (set_task k j st w) \<and> st \<noteq> Tk_created"
proof -
  obtain x p1 j1 where start: "probe_start (cw_time_ns w) a (cw_probes w ! rr_probe (cw_runs w ! k), cw_journal w) = (x, p1, j1)"
    by (metis prod_cases3)
  define w1 where "w1 = set_probe (rr_probe (cw_runs w ! k)) (p1, j1) w"
  have same: "cw_runs (set_task k j st w1) = cw_runs (set_task k j st w)" for st
    by (simp add: w1_def task_updates_commute)
  obtain y where finish: "cw_runs (finish_task k j a w1) = cw_runs (set_task k j (Tk_ended y) w1)"
    using finish_task_runs by blast
  show ?thesis
  proof (cases x)
    case (Some e)
    with start have "begin_task k j a w = set_task k j (Tk_ended (Some e)) w1"
      by (simp add: begin_task_def Let_def w1_def)
    with same show ?thesis by auto
  next
    case None
    with start have "begin_task k j a w = (if pb_released (cw_probes w1 ! rr_probe (cw_runs w ! k)) then finish_task k j a w1
        else set_task k j Tk_waiting w1)"
      by (simp add: begin_task_def Let_def w1_def)
    with same finish show ?thesis by auto
  qed
qed

lemma task_step_works:
  assumes "task_ready (cw_runs w ! k) j w" "rr_phase (cw_runs w ! k) = Rp_executing ts"
  shows "works k w (task_step k j w)"
proof -
  have j: "j < length ts" "0 < task_work (snd (ts ! j))"
    using assms by (auto simp: task_ready_def task_work_def split: task_state.splits)
  obtain st where st: "cw_runs (task_step k j w) = cw_runs (set_task k j st w)" "task_work st < task_work (snd (ts ! j))"
  proof (cases "ts ! j")
    case (Pair a s)
    show thesis
    proof (cases s)
      case Tk_created
      obtain st where "cw_runs (begin_task k j a w) = cw_runs (set_task k j st w)" "st \<noteq> Tk_created"
        using begin_task_runs by blast
      then show thesis using that [of st] Tk_created Pair assms(2)
        by (cases st) (simp_all add: task_step_def task_work_def)
    next
      case Tk_waiting
      obtain x where "cw_runs (finish_task k j a w) = cw_runs (set_task k j (Tk_ended x) w)" using finish_task_runs by blast
      then show thesis using that [of "Tk_ended x"] Tk_waiting Pair assms(2) by (simp add: task_step_def task_work_def)
    qed (use j(2) Pair in \<open>simp add: task_work_def\<close>)
  qed
  have "sum_list (map (\<lambda>t. task_work (snd t)) (ts[j := (a, st)])) < sum_list (map (\<lambda>t. task_work (snd t)) ts)" for a
    using j(1) st(2) by (auto simp: map_update intro: sum_list_update_less)
  with st(1) assms(2) show ?thesis
    by (auto simp: set_task_run works_def run_work_def phase_work_def)
qed

lemma fence_run_works: "run_active (cw_runs w ! k) \<Longrightarrow> works k w (fence_run k e w)"
  using end_run_works [of "w\<lparr>cw_journal := j\<rparr>" k e for j]
  by (simp add: fence_run_def Let_def works_def)

lemma interrupt_run_works:
  assumes "run_active (cw_runs w ! k)" "k < length (cw_runs w)"
  shows "works k w (interrupt_run k e w)"
proof (cases "rr_phase (cw_runs w ! k)")
  case Rp_deciding
  let ?w = "update_run k (\<lambda>r. r\<lparr>rr_decisions := cancel_first_waiting (rr_decisions r)\<rparr>) w"
  have "works k ?w (end_run k (Some e) ?w)"
    by (rule end_run_works) (use Rp_deciding assms(2) in \<open>simp add: run_active_def task_over_def\<close>)
  with Rp_deciding assms(2) show ?thesis by (auto simp: interrupt_run_def works_def run_work_def)
next
  case (Rp_executing ts)
  with fence_run_works [OF assms(1)] show ?thesis by (simp add: interrupt_run_def)
qed (use assms in \<open>auto simp: interrupt_run_def works_def run_work_def run_active_def task_over_def\<close>)

lemma find_SomeD: "List.find P xs = Some x \<Longrightarrow> P x"
  by (induction xs) (auto split: if_splits)

lemma task_errors_active: "rr_phase r = Rp_executing ts \<Longrightarrow> run_active r"
  by (simp add: run_active_def task_over_def)

lemma run_next_works:
  assumes "run_next K k w = Some w'" "k < length (cw_runs w)"
  shows "works k w w'"
proof (cases "rr_phase (cw_runs w ! k)")
  case Rp_created
  with assms start_run_works [OF this assms(2)] show ?thesis by (auto simp: run_next_def Let_def)
next
  case Rp_deciding
  with assms resolve_run_works [OF this] show ?thesis by (simp add: run_next_def Let_def split: if_splits)
next
  case (Rp_executing ts)
  note active = task_errors_active [OF this]
  from Rp_executing assms(1) show ?thesis
    by (auto simp: run_next_def Let_def active split: option.splits list.splits if_splits
        dest!: find_SomeD intro: task_step_works fence_run_works end_run_works)
qed (use assms in \<open>simp_all add: run_next_def Let_def\<close>)

lemma loop_next_works: "loop_next K w = Some w' \<Longrightarrow> loop_work w' < loop_work w"
  unfolding loop_next_def by (auto dest!: first_some_SomeD intro!: works_less [OF run_next_works])

section \<open>The loop\<close>

text \<open>Until nothing is ready.\<close>

function drain :: "codec \<Rightarrow> conf_world \<Rightarrow> conf_world" where
  "drain K w = (case loop_next K w of None \<Rightarrow> w | Some w' \<Rightarrow> drain K w')"
  by pat_completeness auto
termination
  by (relation "measure (\<lambda>(K, w). loop_work w)") (simp_all add: loop_next_works)

declare drain.simps [simp del]

lemma drain_work: "loop_work (drain K w) \<le> loop_work w"
proof (induction K w rule: drain.induct)
  case (1 K w)
  show ?case
  proof (cases "loop_next K w")
    case (Some w')
    with "1.IH" [OF Some] loop_next_works [OF Some] show ?thesis by (simp add: drain.simps [of K w])
  qed (simp add: drain.simps [of K w])
qed

text \<open>A number of seconds in nanoseconds.\<close>

definition seconds_ns :: "pyfloat \<Rightarrow> int" where
  "seconds_ns x = (case x of
     Fin m e \<Rightarrow> (if 0 \<le> e then m * 2 ^ nat e * 10 ^ 9 else (m * 10 ^ 9) div 2 ^ nat (- e)) | _ \<Rightarrow> 0)"

definition advance_to :: "int \<Rightarrow> conf_world \<Rightarrow> conf_world" where
  "advance_to t w = w\<lparr>cw_time_ns := cw_time_ns w + max 0 (t - cw_loop_ns w), cw_loop_ns := max t (cw_loop_ns w)\<rparr>"

definition run_deadline :: "ref_run \<Rightarrow> int option" where
  "run_deadline r = (if task_over r \<or> rr_phase r = Rp_created then None
     else map_option (\<lambda>t. rr_started_at r + seconds_ns t) (rr_timeout r))"

text \<open>The run whose timeout is next, up to a time.\<close>

definition next_expiry :: "int \<Rightarrow> conf_world \<Rightarrow> (int \<times> nat) option" where
  "next_expiry target w =
     (let due = concat (map (\<lambda>k. case run_deadline (cw_runs w ! k) of
          None \<Rightarrow> [] | Some d \<Rightarrow> if d \<le> target then [(d, k)] else []) [0..<length (cw_runs w)])
      in if due = [] then None else Some (fold (\<lambda>x y. if fst x < fst y then x else y) (tl due) (hd due)))"

lemma fold_choose_in: "fold (\<lambda>x y. if P x y then x else y) xs y \<in> insert y (set xs)"
proof (induction xs arbitrary: y)
  case (Cons x xs)
  from Cons.IH [of "if P x y then x else y"] show ?case by (auto split: if_splits)
qed simp

lemma next_expiry_SomeD:
  assumes "next_expiry target w = Some (d, k)"
  shows "k < length (cw_runs w)" "run_deadline (cw_runs w ! k) = Some d"
proof -
  define due where "due = concat (map (\<lambda>k. case run_deadline (cw_runs w ! k) of
          None \<Rightarrow> [] | Some d \<Rightarrow> if d \<le> target then [(d, k)] else []) [0..<length (cw_runs w)])"
  have "due \<noteq> []" "(d, k) = fold (\<lambda>x y. if fst x < fst y then x else y) (tl due) (hd due)"
    using assms by (auto simp: next_expiry_def due_def [symmetric] Let_def split: if_splits)
  then have "(d, k) \<in> set due"
    using fold_choose_in [of "\<lambda>x y. fst x < fst y" "tl due" "hd due"] by (cases due) auto
  then show "k < length (cw_runs w)" "run_deadline (cw_runs w ! k) = Some d"
    by (auto simp: due_def split: option.splits if_splits)
qed

text \<open>The loop while a coroutine outside waits: until \<open>over\<close>, or until the clock reaches \<open>target\<close>.\<close>

lemma advance_simps [simp]:
  "cw_runs (advance_to t w) = cw_runs w" "cw_journal (advance_to t w) = cw_journal w" "cw_probes (advance_to t w) = cw_probes w"
  by (simp_all add: advance_to_def)

function loop_until :: "codec \<Rightarrow> (conf_world \<Rightarrow> bool) \<Rightarrow> int \<Rightarrow> conf_world \<Rightarrow> conf_world" where
  "loop_until K over target w =
     (let w1 = drain K w in
      if over w1 then w1
      else case next_expiry target w1 of
        None \<Rightarrow> advance_to target w1
      | Some (d, k) \<Rightarrow> loop_until K over target (interrupt_run k Timeout_Error (advance_to d w1)))"
  by pat_completeness auto

lemma expiry_works:
  assumes "next_expiry target w = Some (d, k)"
  shows "loop_work (interrupt_run k e (advance_to d w)) < loop_work w"
proof -
  have k: "k < length (cw_runs w)" "run_active (cw_runs w ! k)"
    using next_expiry_SomeD [OF assms] by (auto simp: run_deadline_def run_active_def split: if_splits)
  have "loop_work (interrupt_run k e (advance_to d w)) < loop_work (advance_to d w)"
    by (rule works_less [OF interrupt_run_works]) (use k in simp_all)
  also have "loop_work (advance_to d w) = loop_work w" by (simp add: loop_work_def)
  finally show ?thesis .
qed

termination loop_until
proof (relation "measure (\<lambda>(K, over, target, w). loop_work w)")
  fix K :: codec and over :: "conf_world \<Rightarrow> bool" and target d :: int and k :: nat and w w1 :: conf_world and dk :: "int \<times> nat"
  assume "w1 = drain K w" "next_expiry target w1 = Some dk" "(d, k) = dk"
  then have "loop_work (interrupt_run k Timeout_Error (advance_to d w1)) < loop_work w"
    using expiry_works [of target w1 d k] drain_work [of K w] by (metis order_less_le_trans)
  then show "((K, over, target, interrupt_run k Timeout_Error (advance_to d w1)), K, over, target, w) \<in>
      measure (\<lambda>(K, over, target, w). loop_work w)" by simp
qed simp

declare loop_until.simps [simp del]

section \<open>The loop takes steps\<close>

lemma run_next_step:
  assumes "run_next K k w = Some w'" "k < length (cw_runs w)"
  shows "ref_step K w w'"
proof (cases "rr_phase (cw_runs w ! k)")
  case Rp_created
  with assms rs_start [OF assms(2) this] show ?thesis by (auto simp: run_next_def Let_def)
next
  case Rp_deciding
  with assms rs_resolve [OF assms(2) this] show ?thesis by (simp add: run_next_def Let_def split: if_splits)
next
  case (Rp_executing ts)
  from this assms show ?thesis
    by (auto simp: run_next_def Let_def split: option.splits list.splits if_splits
        dest!: find_SomeD intro: rs_task [OF assms(2)] rs_conclude [OF assms(2)] rs_fail [OF assms(2) Rp_executing])
qed (use assms in \<open>simp_all add: run_next_def Let_def\<close>)

lemma drain_reachable: "ref_reachable K w \<Longrightarrow> ref_reachable K (drain K w)"
proof (induction K w rule: drain.induct)
  case (1 K w)
  show ?case
  proof (cases "loop_next K w")
    case (Some w')
    then have "ref_step K w w'" by (auto simp: loop_next_def dest!: first_some_SomeD intro: run_next_step)
    with "1.IH" [OF Some] ref_next [OF "1.prems"] Some show ?thesis by (simp add: drain.simps [of K w])
  qed (use "1.prems" in \<open>simp add: drain.simps [of K w]\<close>)
qed

lemma advance_reachable: "ref_reachable K w \<Longrightarrow> ref_reachable K (advance_to t w)"
  unfolding advance_to_def by (rule ref_next [OF _ rs_time])

lemma loop_until_reachable: "ref_reachable K w \<Longrightarrow> ref_reachable K (loop_until K over target w)"
proof (induction K over target w rule: loop_until.induct)
  case (1 K over target w)
  have w1: "ref_reachable K (drain K w)" by (rule drain_reachable [OF "1.prems"])
  show ?case
  proof (cases "over (drain K w) \<or> next_expiry target (drain K w) = None")
    case True
    with w1 advance_reachable [OF w1] show ?thesis by (auto simp: loop_until.simps [of K over target w] Let_def)
  next
    case False
    then obtain d k where dk: "next_expiry target (drain K w) = Some (d, k)" by auto
    have k: "k < length (cw_runs (drain K w))" "run_deadline (cw_runs (drain K w) ! k) = Some d"
      using next_expiry_SomeD [OF dk] by simp_all
    then obtain t where "rr_timeout (cw_runs (drain K w) ! k) = Some t" "rr_phase (cw_runs (drain K w) ! k) \<noteq> Rp_created"
      by (auto simp: run_deadline_def split: if_splits)
    then have "ref_step K (advance_to d (drain K w)) (interrupt_run k Timeout_Error (advance_to d (drain K w)))"
      using rs_timeout [of k "advance_to d (drain K w)"] k(1) by simp
    then have "ref_reachable K (interrupt_run k Timeout_Error (advance_to d (drain K w)))"
      by (rule ref_next [OF advance_reachable [OF w1]])
    from "1.IH" [OF refl _ dk refl this] False show ?thesis
      by (simp add: loop_until.simps [of K over target w] Let_def dk)
  qed
qed

section \<open>The reference adapter\<close>

text \<open>
  The handle's coroutines, from call to return. The time that a lookup takes passes after the one step
  it is; \<open>wait\<close> answers with a failed run when the task is not done in time, and raises what the task
  was cancelled with before it began.
\<close>

definition pending_ready :: "nat \<Rightarrow> conf_world \<Rightarrow> bool" where
  "pending_ready k w = (rr_decisions (cw_runs w ! k) \<noteq> [])"

definition ref_wait_for_pending ::
  "codec \<Rightarrow> nat \<Rightarrow> pyfloat \<Rightarrow> conf_world \<Rightarrow> (conf_error + action_request list) \<times> conf_world" where
  "ref_wait_for_pending K k seconds w =
     (let pending = ref_pending (cw_runs w ! k) in
      if pending = [] then (Inl (Contract_Error ''this run contains no approval-gated actions''), w)
      else let w' = loop_until K (pending_ready k) (cw_loop_ns w + seconds_ns seconds) w
        in (if pending_ready k w' then Inr pending else Inl Timeout_Error, w'))"

definition ref_wait :: "codec \<Rightarrow> nat \<Rightarrow> pyfloat \<Rightarrow> conf_world \<Rightarrow> (conf_error + run_outcome) \<times> conf_world" where
  "ref_wait K k seconds w =
     (let w' = loop_until K (\<lambda>w. task_over (cw_runs w ! k)) (cw_loop_ns w + seconds_ns seconds) w
      in (case rr_phase (cw_runs w' ! k) of
            Rp_done x \<Rightarrow> Inr x
          | Rp_never_started \<Rightarrow> Inl Cancelled_Error
          | _ \<Rightarrow> Inr (outcome Rs_failed (Some ''run did not reach a terminal state in time'')), w'))"

definition loop_sleep :: "codec \<Rightarrow> pyfloat \<Rightarrow> conf_world \<Rightarrow> conf_world" where
  "loop_sleep K seconds w = loop_until K (\<lambda>_. False) (cw_loop_ns w + seconds_ns seconds) w"

definition ref_reconcile_wait ::
  "codec \<Rightarrow> nat \<Rightarrow> string \<Rightarrow> pyfloat \<Rightarrow> conf_world \<Rightarrow> (conf_error + evidence) \<times> conf_world" where
  "ref_reconcile_wait K k i seconds w =
     (let (x, w') = ref_reconcile K k i seconds w; r = cw_runs w ! k in
      (x, if isl x \<or> map_of (rr_reconciliations r) i \<noteq> None then w'
          else loop_sleep K (num_min seconds (pb_reconciliation_delay_seconds (cw_probes w ! rr_probe r))) w'))"

definition ref_audit_receipts :: "nat \<Rightarrow> conf_world \<Rightarrow> (conf_error + audit_receipt list) \<times> conf_world" where
  "ref_audit_receipts k w = (Inr (journal_receipts (Some (rr_run_id (cw_runs w ! k))) (cw_journal w)), w)"

definition reference_adapter :: "codec \<Rightarrow> (conf_world, nat) adapter_ops" where
  "reference_adapter K = \<lparr>ad_name = ''reference'', ad_capabilities = all_capabilities, ad_begin = ref_begin,
     rh_wait_for_pending = ref_wait_for_pending K, rh_approve = ref_approve K, rh_reject = ref_reject K,
     rh_cancel = ref_cancel, rh_wait = ref_wait K, rh_reconcile = ref_reconcile_wait K, rh_replay = ref_replay,
     rh_audit_receipts = ref_audit_receipts, rh_close = ref_cancel\<rparr>"

section \<open>At rest\<close>

lemma first_some_None: "first_some f xs = None \<longleftrightarrow> (\<forall>x \<in> set xs. f x = None)"
  by (induction xs) (auto split: option.splits)

lemma drain_rests: "loop_next K (drain K w) = None"
proof (induction K w rule: drain.induct)
  case (1 K w)
  then show ?case by (cases "loop_next K w") (simp_all add: drain.simps [of K w])
qed

text \<open>
  C39. The loop comes to rest, in a world that some interleaving of steps reaches; and a run that is not
  over then waits for a decision, or for the release of its probe. No run is stuck.
\<close>

theorem reference_runs_settle:
  assumes "ref_reachable K w" "k < length (cw_runs (drain K w))"
  shows "ref_reachable K (drain K w) \<and> (let r = cw_runs (drain K w) ! k in
    task_over r \<or> (rr_phase r = Rp_deciding \<and> (\<exists>i. (i, Fu_waiting) \<in> set (rr_decisions r))) \<or>
    (\<exists>ts. rr_phase r = Rp_executing ts \<and> Tk_waiting \<in> snd ` set ts \<and> \<not> pb_released (cw_probes (drain K w) ! rr_probe r)))"
proof -
  define w1 where "w1 = drain K w"
  let ?r = "cw_runs w1 ! k"
  have reach: "ref_reachable K w1" unfolding w1_def by (rule drain_reachable [OF assms(1)])
  have rest: "run_next K k w1 = None"
    using drain_rests [of K w] assms(2) by (simp add: loop_next_def first_some_None w1_def)
  have "task_over ?r \<or> (rr_phase ?r = Rp_deciding \<and> (\<exists>i. (i, Fu_waiting) \<in> set (rr_decisions ?r))) \<or>
    (\<exists>ts. rr_phase ?r = Rp_executing ts \<and> Tk_waiting \<in> snd ` set ts \<and> \<not> pb_released (cw_probes w1 ! rr_probe ?r))"
  proof (cases "rr_phase ?r")
    case Rp_deciding
    have "run_ok K w1 ?r" by (rule world_okD(1) [OF ref_reachable_ok [OF reach]]) (use assms(2) in \<open>simp add: w1_def\<close>)
    then have "resolve_run k w1 \<noteq> None"
      using executable_actions_end [of "rr_actions ?r" "rr_actions ?r" "rr_decisions ?r"]
      by (auto simp: resolve_run_def Let_def run_ok_def)
    with rest Rp_deciding have "\<not> all_decided (rr_decisions ?r)" by (auto simp: run_next_def Let_def)
    with Rp_deciding show ?thesis by (auto simp: all_decided_def list_all_iff)
  next
    case (Rp_executing ts)
    with rest have idle: "\<forall>j < length ts. \<not> task_ready ?r j w1" and "task_errors ts = []" "\<not> all_ended ts"
      by (auto simp: run_next_def Let_def find_None_iff split: option.splits list.splits if_splits)
    then obtain a st where st: "(a, st) \<in> set ts" "\<forall>x. st \<noteq> Tk_ended x"
      by (fastforce simp: all_ended_def list_all_iff task_errors_def split: task_state.splits option.splits)
    then obtain j where "j < length ts" "ts ! j = (a, st)" by (auto simp: in_set_conv_nth)
    with idle st(2) Rp_executing have "st = Tk_waiting" "\<not> pb_released (cw_probes w1 ! rr_probe ?r)"
      by (cases st; force simp: task_ready_def)+
    with st(1) Rp_executing show ?thesis by force
  qed (use rest in \<open>simp_all add: run_next_def Let_def task_over_def\<close>)
  with reach show ?thesis by (simp add: w1_def Let_def)
qed

section \<open>Cancellation before the beginning\<close>

text \<open>
  A run that is cancelled before its task has begun never executes anything, but its cancellation
  leaves \<open>cancel\<close> as an exception and is not recorded: the journal has a run that started and never
  ended.
\<close>

lemma early_cancellation_is_silent:
  assumes "k < length (cw_runs w)" "rr_phase (cw_runs w ! k) = Rp_created"
  shows "\<exists>w'. ref_cancel k w = (Inl Cancelled_Error, w') \<and> cw_journal w' = cw_journal w \<and>
    rr_phase (cw_runs w' ! k) = Rp_never_started \<and> run_next K k w' = None"
  using assms by (simp add: ref_cancel_def task_over_def interrupt_run_def run_next_def)

end
