(* ===== verification/Conf_Scenarios.thy ===== *)
theory Conf_Scenarios
  imports Conf_Adapter
begin

text \<open>
  scenarios.py: the lifecycle scenarios, as actions on the state of the event loop with the handles that
  the \<open>finally\<close> clause closes. What a scenario uses beside the adapter - the journal, its probes, the
  clock - is a record of operations on that state.
\<close>

section \<open>Actions of a scenario\<close>

record 'w harness_ops =
  hn_journal :: "'w \<Rightarrow> journal"
  hn_record_commit :: "string \<Rightarrow> string \<Rightarrow> string \<Rightarrow> json \<Rightarrow> string option \<Rightarrow> 'w \<Rightarrow> (conf_error + unit) \<times> 'w"
  hn_probe :: "probe \<Rightarrow> 'w \<Rightarrow> (conf_error + nat) \<times> 'w"
  hn_wait_started :: "nat \<Rightarrow> pyfloat \<Rightarrow> 'w \<Rightarrow> (conf_error + unit) \<times> 'w"
  hn_release :: "nat \<Rightarrow> 'w \<Rightarrow> 'w"
  hn_sleep :: "pyfloat \<Rightarrow> 'w \<Rightarrow> 'w"

text \<open>A \<open>ScenarioViolation\<close>, or another exception.\<close>

datatype stop = Violation finding "audit_receipt list" | Raised conf_error

type_synonym ('a, 'w, 'h) act = "'w \<times> 'h list \<Rightarrow> (stop + 'a) \<times> 'w \<times> 'h list"

definition act_return :: "'a \<Rightarrow> ('a, 'w, 'h) act" where
  "act_return x s = (Inr x, s)"

definition act_bind :: "('a, 'w, 'h) act \<Rightarrow> ('a \<Rightarrow> ('b, 'w, 'h) act) \<Rightarrow> ('b, 'w, 'h) act" where
  "act_bind m f s = (case m s of (Inl e, s') \<Rightarrow> (Inl e, s') | (Inr x, s') \<Rightarrow> f x s')"

definition act_then :: "('a, 'w, 'h) act \<Rightarrow> ('b, 'w, 'h) act \<Rightarrow> ('b, 'w, 'h) act" where
  "act_then m n = act_bind m (\<lambda>_. n)"

definition act_res :: "conf_error + 'a \<Rightarrow> ('a, 'w, 'h) act" where
  "act_res x s = (case x of Inl e \<Rightarrow> (Inl (Raised e), s) | Inr y \<Rightarrow> (Inr y, s))"

definition act_call :: "('w \<Rightarrow> (conf_error + 'a) \<times> 'w) \<Rightarrow> ('a, 'w, 'h) act" where
  "act_call f s = (case f (fst s) of (Inl e, w) \<Rightarrow> (Inl (Raised e), w, snd s) | (Inr x, w) \<Rightarrow> (Inr x, w, snd s))"

definition act_read :: "('w \<Rightarrow> 'a) \<Rightarrow> ('a, 'w, 'h) act" where
  "act_read f s = (Inr (f (fst s)), s)"

definition act_do :: "('w \<Rightarrow> 'w) \<Rightarrow> (unit, 'w, 'h) act" where
  "act_do f s = (Inr (), f (fst s), snd s)"

text \<open>A call that returns a handle for the \<open>finally\<close> clause.\<close>

definition act_open :: "('w \<Rightarrow> (conf_error + 'h) \<times> 'w) \<Rightarrow> ('h, 'w, 'h) act" where
  "act_open f s = (case f (fst s) of (Inl e, w) \<Rightarrow> (Inl (Raised e), w, snd s) | (Inr h, w) \<Rightarrow> (Inr h, w, h # snd s))"

definition act_check :: "bool \<Rightarrow> stop \<Rightarrow> (unit, 'w, 'h) act" where
  "act_check bad v s = (if bad then (Inl v, s) else (Inr (), s))"

text \<open>The \<open>finally\<close> clauses: an operation, and the handles, the last opened first.\<close>

definition act_finally :: "('w \<Rightarrow> 'w) \<Rightarrow> ('a, 'w, 'h) act \<Rightarrow> ('a, 'w, 'h) act" where
  "act_finally f m s = (case m s of (x, w, hs) \<Rightarrow> (x, f w, hs))"

fun close_all :: "('w, 'h) adapter_ops \<Rightarrow> 'h list \<Rightarrow> 'w \<Rightarrow> conf_error option \<times> 'w" where
  "close_all A [] w = (None, w)"
| "close_all A (h # hs) w = (case rh_close A h w of
     (Inl e, w') \<Rightarrow> (Some e, w') | (Inr _, w') \<Rightarrow> close_all A hs w')"

definition exercise_closing :: "('w, 'h) adapter_ops \<Rightarrow> ('a, 'w, 'h) act \<Rightarrow> 'w \<Rightarrow> (stop + 'a) \<times> 'w" where
  "exercise_closing A m w = (case m (w, []) of (x, w', hs) \<Rightarrow>
     (case close_all A hs w' of (Some e, w'') \<Rightarrow> (Inl (Raised e), w'') | (None, w'') \<Rightarrow> (x, w'')))"

section \<open>The parts of a scenario\<close>

record scenario_options =
  so_settle_seconds :: pyfloat
  so_operation_timeout_seconds :: pyfloat
  so_tool_timeout_seconds :: pyfloat
  so_approval_profile :: approval_profile

definition scenario_action :: "string \<Rightarrow> string \<Rightarrow> bool \<Rightarrow> string option \<Rightarrow> conf_error + action_request" where
  "scenario_action run_id suffix requires_approval parent =
     make_action (run_id @ '':'' @ suffix) ''sentinel_write''
       [(''recipient'', JStr ''original@example.com''), (''amount'', JInt 3)] requires_approval parent"

definition violation_with ::
  "audit_receipt list \<Rightarrow> string \<Rightarrow> string \<Rightarrow> string \<Rightarrow> string \<Rightarrow> string \<Rightarrow> stop" where
  "violation_with rs ident title expected observed remediation =
     Violation \<lparr>fi_code = ident, fi_title = title, fi_expected = expected, fi_observed = observed,
       fi_remediation = remediation\<rparr> rs"

definition violation :: "string \<Rightarrow> string \<Rightarrow> string \<Rightarrow> string \<Rightarrow> string \<Rightarrow> stop" where
  "violation = violation_with []"

definition last_label :: "string \<Rightarrow> string" where
  "last_label s = rev (takeWhile (\<lambda>c. c \<noteq> CHR '':'') (rev s))"

definition describe_commits :: "effect_event list \<Rightarrow> string" where
  "describe_commits es = show_nat (length es) @ '' commit(s) for action(s) '' @
     repr_strs (map (\<lambda>e. last_label (ee_action_id e)) es)"

definition commits_for :: "string \<Rightarrow> string \<Rightarrow> journal \<Rightarrow> effect_event list" where
  "commits_for run_id i j = filter (\<lambda>e. ee_action_id e = i) (committed_events (Some run_id) j)"

definition run_text :: "run_outcome \<Rightarrow> string" where
  "run_text o' = ''run='' @ run_status_text (ro_status o')"

text \<open>What most scenarios begin with: a probe, and a run of its actions.\<close>

definition plain_probe :: "string \<Rightarrow> conf_error + probe" where
  "plain_probe run_id = make_probe run_id False False False True (of_int_num 0) None None"

definition open_probe :: "'w harness_ops \<Rightarrow> conf_error + probe \<Rightarrow> (nat, 'w, 'h) act" where
  "open_probe H p = act_bind (act_res p) (\<lambda>p. act_call (hn_probe H p))"

definition commits_of :: "'w harness_ops \<Rightarrow> string \<Rightarrow> (effect_event list, 'w, 'h) act" where
  "commits_of H run_id = act_read (\<lambda>w. committed_events (Some run_id) (hn_journal H w))"

type_synonym ('w, 'h) exercise =
  "codec \<Rightarrow> ('w, 'h) adapter_ops \<Rightarrow> 'w harness_ops \<Rightarrow> string \<Rightarrow> scenario_options \<Rightarrow>
   'w \<Rightarrow> (stop + audit_receipt list) \<times> 'w"

section \<open>Approval\<close>

definition approval_hold_body ::
  "('w, 'h) adapter_ops \<Rightarrow> 'w harness_ops \<Rightarrow> string \<Rightarrow> scenario_options \<Rightarrow> (audit_receipt list, 'w, 'h) act" where
  "approval_hold_body A H run_id opts =
     act_bind (act_res (scenario_action run_id ''primary'' True None)) (\<lambda>request.
     act_bind (open_probe H (plain_probe run_id)) (\<lambda>probe.
     act_bind (act_open (ad_begin A run_id [request] probe None)) (\<lambda>handle.
     act_bind (act_call (rh_wait_for_pending A handle (so_operation_timeout_seconds opts))) (\<lambda>pending.
     act_then (act_check (map aq_action_id pending \<noteq> [aq_action_id request])
       (violation ''AB001'' ''Approval request did not bind the proposed action''
         (''one pending action with id '' @ repr_str (aq_action_id request))
         (''pending ids were '' @ repr_strs (map aq_action_id pending))
         ''Preserve stable action identity from proposal through approval.''))
     (act_then (act_do (hn_sleep H (so_settle_seconds opts)))
     (act_bind (commits_of H run_id) (\<lambda>early.
     act_then (act_check (early \<noteq> [])
       (violation ''AB002'' ''Effect committed before approval''
         ''zero committed effects while approval was pending'' (describe_commits early)
         ''Move the approval barrier before every side-effect boundary.''))
     (act_then (act_call (rh_approve A handle (aq_action_id request) None))
     (act_bind (act_call (rh_wait A handle (so_operation_timeout_seconds opts))) (\<lambda>result.
     act_bind (commits_of H run_id) (\<lambda>commits.
     act_then (act_check (ro_status result \<noteq> Rs_completed \<or> length commits \<noteq> 1)
       (violation ''AB003'' ''Approved effect did not execute exactly once''
         ''a completed run with exactly one committed effect''
         (run_text result @ ''; '' @ describe_commits commits)
         ''Resume the approved call once and preserve its stable identity.''))
     (act_return []))))))))))))"

definition exercise_approval_hold :: "('w, 'h) exercise" where
  "exercise_approval_hold K A H run_id opts = exercise_closing A (approval_hold_body A H run_id opts)"

definition rejection_body ::
  "('w, 'h) adapter_ops \<Rightarrow> 'w harness_ops \<Rightarrow> string \<Rightarrow> scenario_options \<Rightarrow> (audit_receipt list, 'w, 'h) act" where
  "rejection_body A H run_id opts =
     act_bind (act_res (scenario_action run_id ''primary'' True None)) (\<lambda>request.
     act_bind (open_probe H (plain_probe run_id)) (\<lambda>probe.
     act_bind (act_open (ad_begin A run_id [request] probe None)) (\<lambda>handle.
     act_then (act_call (rh_wait_for_pending A handle (so_operation_timeout_seconds opts)))
     (act_then (act_call (rh_reject A handle (aq_action_id request) (Some ''rejected by AgentBarrier'')))
     (act_then (act_call (rh_wait A handle (so_operation_timeout_seconds opts)))
     (act_then (act_do (hn_sleep H (so_settle_seconds opts)))
     (act_bind (commits_of H run_id) (\<lambda>commits.
     act_then (act_check (commits \<noteq> [])
       (violation ''AB004'' ''Rejected effect committed'' ''zero committed effects after rejection''
         (describe_commits commits)
         ''Make rejection terminal for the exact action and its queued work.''))
     (act_return [])))))))))"

definition exercise_rejection :: "('w, 'h) exercise" where
  "exercise_rejection K A H run_id opts = exercise_closing A (rejection_body A H run_id opts)"

definition argument_binding_body ::
  "codec \<Rightarrow> ('w, 'h) adapter_ops \<Rightarrow> 'w harness_ops \<Rightarrow> string \<Rightarrow> scenario_options \<Rightarrow> (audit_receipt list, 'w, 'h) act" where
  "argument_binding_body K A H run_id opts =
     act_bind (act_res (scenario_action run_id ''primary'' True None)) (\<lambda>request.
     act_bind (act_res (with_arguments request [(''recipient'', JStr ''reviewed@example.com''), (''amount'', JInt 7)])) (\<lambda>replacement.
     act_bind (open_probe H (plain_probe run_id)) (\<lambda>probe.
     act_bind (act_open (ad_begin A run_id [request] probe None)) (\<lambda>handle.
     act_then (act_call (rh_wait_for_pending A handle (so_operation_timeout_seconds opts)))
     (act_then (act_call (rh_approve A handle (aq_action_id request) (Some replacement)))
     (act_then (act_call (rh_wait A handle (so_operation_timeout_seconds opts)))
     (act_bind (commits_of H run_id) (\<lambda>commits.
     let observed = (case commits of [c] \<Rightarrow> ee_arguments c | _ \<Rightarrow> JNull);
         expected = aq_arguments replacement in
     act_then (act_check (\<not> py_eq observed expected)
       (violation ''AB005'' ''Executed arguments differed from approved arguments''
         (''one commit with arguments '' @ repr_json K expected)
         (''committed arguments were '' @ repr_json K observed)
         ''Bind approval to the canonical arguments used at execution.''))
     (act_return [])))))))))"

definition exercise_argument_binding :: "('w, 'h) exercise" where
  "exercise_argument_binding K A H run_id opts = exercise_closing A (argument_binding_body K A H run_id opts)"

section \<open>Replay\<close>

definition replay_body ::
  "('w, 'h) adapter_ops \<Rightarrow> 'w harness_ops \<Rightarrow> string \<Rightarrow> scenario_options \<Rightarrow> (audit_receipt list, 'w, 'h) act" where
  "replay_body A H run_id opts =
     act_bind (act_res (scenario_action run_id ''primary'' False None)) (\<lambda>request.
     act_bind (open_probe H (plain_probe run_id)) (\<lambda>probe.
     act_bind (act_open (ad_begin A run_id [request] probe None)) (\<lambda>handle.
     act_bind (act_call (rh_wait A handle (so_operation_timeout_seconds opts))) (\<lambda>first.
     act_then (act_check (ro_status first \<noteq> Rs_completed)
       (violation ''AB006'' ''Initial action did not complete'' ''the initial run to complete before replay''
         (''initial run status was '' @ run_status_text (ro_status first))
         ''Make the adapter expose a stable completed run before replay.''))
     (act_bind (act_open (rh_replay A handle)) (\<lambda>replay.
     act_then (act_call (rh_wait A replay (so_operation_timeout_seconds opts)))
     (act_then (act_do (hn_sleep H (so_settle_seconds opts)))
     (act_bind (commits_of H run_id) (\<lambda>commits.
     act_then (act_check (length commits \<noteq> 1)
       (violation ''AB007'' ''Replay executed an effect more than once''
         ''one committed effect across the initial run and replay'' (describe_commits commits)
         ''Deduplicate at the effect boundary using stable action identity.''))
     (act_return []))))))))))"

definition exercise_replay :: "('w, 'h) exercise" where
  "exercise_replay K A H run_id opts = exercise_closing A (replay_body A H run_id opts)"

definition outcome_ambiguity_body ::
  "('w, 'h) adapter_ops \<Rightarrow> 'w harness_ops \<Rightarrow> string \<Rightarrow> scenario_options \<Rightarrow> (audit_receipt list, 'w, 'h) act" where
  "outcome_ambiguity_body A H run_id opts =
     act_bind (act_res (scenario_action run_id ''primary'' False None)) (\<lambda>request.
     act_bind (open_probe H (make_probe run_id False False True True (of_int_num 0) None None)) (\<lambda>probe.
     act_bind (act_open (ad_begin A run_id [request] probe None)) (\<lambda>handle.
     act_bind (act_call (rh_wait A handle (so_operation_timeout_seconds opts))) (\<lambda>first.
     act_bind (commits_of H run_id) (\<lambda>initial_commits.
     act_then (act_check (ro_status first \<noteq> Rs_unknown \<or> length initial_commits \<noteq> 1)
       (violation ''AB012'' ''Lost effect response was not reported as unknown''
         ''one commit and an unknown terminal outcome''
         (run_text first @ ''; '' @ describe_commits initial_commits)
         ''Represent post-commit response loss as UNKNOWN instead of success/failure.''))
     (act_bind (act_open (rh_replay A handle)) (\<lambda>replay.
     act_then (act_call (rh_wait A replay (so_operation_timeout_seconds opts)))
     (act_then (act_do (hn_sleep H (so_settle_seconds opts)))
     (act_bind (commits_of H run_id) (\<lambda>commits.
     act_then (act_check (length commits \<noteq> 1)
       (violation ''AB013'' ''Unknown outcome was retried blindly''
         ''one total commit across the ambiguous run and replay'' (describe_commits commits)
         ''Reconcile or deduplicate unknown outcomes before attempting the action again.''))
     (act_return [])))))))))))"

definition exercise_outcome_ambiguity :: "('w, 'h) exercise" where
  "exercise_outcome_ambiguity K A H run_id opts = exercise_closing A (outcome_ambiguity_body A H run_id opts)"

section \<open>Fencing\<close>

definition blocking_probe :: "string \<Rightarrow> conf_error + probe" where
  "blocking_probe run_id = make_probe run_id True False False True (of_int_num 0) None None"

definition cancellation_body ::
  "('w, 'h) adapter_ops \<Rightarrow> 'w harness_ops \<Rightarrow> string \<Rightarrow> scenario_options \<Rightarrow> (audit_receipt list, 'w, 'h) act" where
  "cancellation_body A H run_id opts =
     act_bind (act_res (scenario_action run_id ''primary'' False None)) (\<lambda>request.
     act_bind (open_probe H (blocking_probe run_id)) (\<lambda>probe.
     act_finally (hn_release H probe)
     (act_bind (act_open (ad_begin A run_id [request] probe None)) (\<lambda>handle.
     act_then (act_call (hn_wait_started H probe (so_operation_timeout_seconds opts)))
     (act_then (act_call (rh_cancel A handle))
     (act_then (act_do (hn_release H probe))
     (act_bind (act_call (rh_wait A handle (so_operation_timeout_seconds opts))) (\<lambda>result.
     act_then (act_do (hn_sleep H (so_settle_seconds opts)))
     (act_bind (commits_of H run_id) (\<lambda>commits.
     act_then (act_check (ro_status result \<noteq> Rs_cancelled \<or> commits \<noteq> [])
       (violation ''AB008'' ''Cancellation was not terminal and effect-safe''
         ''a cancelled run with zero later commits'' (run_text result @ ''; '' @ describe_commits commits)
         ''Propagate cancellation and fence late commits by run generation.''))
     (act_return [])))))))))))"

definition exercise_cancellation :: "('w, 'h) exercise" where
  "exercise_cancellation K A H run_id opts = exercise_closing A (cancellation_body A H run_id opts)"

definition timeout_body ::
  "('w, 'h) adapter_ops \<Rightarrow> 'w harness_ops \<Rightarrow> string \<Rightarrow> scenario_options \<Rightarrow> (audit_receipt list, 'w, 'h) act" where
  "timeout_body A H run_id opts =
     act_bind (act_res (scenario_action run_id ''primary'' False None)) (\<lambda>request.
     act_bind (open_probe H (blocking_probe run_id)) (\<lambda>probe.
     act_finally (hn_release H probe)
     (act_bind (act_open (ad_begin A run_id [request] probe (Some (so_tool_timeout_seconds opts)))) (\<lambda>handle.
     act_then (act_call (hn_wait_started H probe (so_operation_timeout_seconds opts)))
     (act_bind (act_call (rh_wait A handle (so_operation_timeout_seconds opts))) (\<lambda>result.
     act_then (act_do (hn_release H probe))
     (act_then (act_do (hn_sleep H (so_settle_seconds opts)))
     (act_bind (commits_of H run_id) (\<lambda>commits.
     act_then (act_check (ro_status result \<noteq> Rs_timed_out \<or> commits \<noteq> [])
       (violation ''AB009'' ''Timed-out work was not safely fenced''
         ''a timed-out run with zero later commits'' (run_text result @ ''; '' @ describe_commits commits)
         ''Cancel timed-out work and reject commits from expired runs.''))
     (act_return []))))))))))"

definition exercise_timeout :: "('w, 'h) exercise" where
  "exercise_timeout K A H run_id opts = exercise_closing A (timeout_body A H run_id opts)"

section \<open>Parallel and delegated actions\<close>

definition parallel_barrier_body ::
  "('w, 'h) adapter_ops \<Rightarrow> 'w harness_ops \<Rightarrow> string \<Rightarrow> scenario_options \<Rightarrow> (audit_receipt list, 'w, 'h) act" where
  "parallel_barrier_body A H run_id opts =
     act_bind (act_res (scenario_action run_id ''gated'' True None)) (\<lambda>gated.
     act_bind (act_res (scenario_action run_id ''sibling'' False None)) (\<lambda>sibling.
     act_bind (open_probe H (plain_probe run_id)) (\<lambda>probe.
     act_bind (act_open (ad_begin A run_id [gated, sibling] probe None)) (\<lambda>handle.
     act_then (act_call (rh_wait_for_pending A handle (so_operation_timeout_seconds opts)))
     (act_then (act_do (hn_sleep H (so_settle_seconds opts)))
     (act_bind (commits_of H run_id) (\<lambda>early.
     act_then (act_check (so_approval_profile opts = Run_Wide \<and> early \<noteq> [])
       (violation ''AB010'' ''Sibling effect bypassed a pending approval''
         ''zero commits while any run action was pending approval'' (describe_commits early)
         ''Apply a run-wide hold before scheduling sibling effects.''))
     (act_then (act_check (so_approval_profile opts = Per_Action \<and> aq_action_id gated \<in> ee_action_id ` set early)
       (violation ''AB018'' ''Gated parallel effect committed before its approval''
         ''the approval-gated action to remain uncommitted while its decision was pending'' (describe_commits early)
         ''Apply the per-action approval hold at the gated tool's effect boundary.''))
     (act_then (act_call (rh_approve A handle (aq_action_id gated) None))
     (act_bind (act_call (rh_wait A handle (so_operation_timeout_seconds opts))) (\<lambda>result.
     act_bind (commits_of H run_id) (\<lambda>commits.
     let committed_ids = remdups (map ee_action_id commits);
         expected_ids = remdups [aq_action_id gated, aq_action_id sibling] in
     act_then (act_check (ro_status result \<noteq> Rs_completed \<or> set committed_ids \<noteq> set expected_ids \<or>
         length commits \<noteq> length expected_ids)
       (violation ''AB011'' ''Parallel run did not release exactly the intended effects''
         (''one commit for each action '' @ repr_strs (sort expected_ids))
         (run_text result @ ''; ids='' @ repr_strs (sort committed_ids) @ ''; commits='' @ show_nat (length commits))
         ''Release approved and ungated siblings once after the hold resolves.''))
     (act_return [])))))))))))))"

definition exercise_parallel_barrier :: "('w, 'h) exercise" where
  "exercise_parallel_barrier K A H run_id opts = exercise_closing A (parallel_barrier_body A H run_id opts)"

definition delegation_body ::
  "('w, 'h) adapter_ops \<Rightarrow> 'w harness_ops \<Rightarrow> string \<Rightarrow> scenario_options \<Rightarrow> (audit_receipt list, 'w, 'h) act" where
  "delegation_body A H run_id opts =
     act_bind (act_res (scenario_action run_id ''parent'' True None)) (\<lambda>parent.
     act_bind (act_res (scenario_action run_id ''delegated-child'' False (Some (aq_action_id parent)))) (\<lambda>child.
     act_bind (open_probe H (plain_probe run_id)) (\<lambda>probe.
     act_bind (act_open (ad_begin A run_id [parent, child] probe None)) (\<lambda>handle.
     act_then (act_call (rh_wait_for_pending A handle (so_operation_timeout_seconds opts)))
     (act_then (act_do (hn_sleep H (so_settle_seconds opts)))
     (act_bind (commits_of H run_id) (\<lambda>early.
     act_then (act_check (early \<noteq> [])
       (violation ''AB014'' ''Delegated effect escaped its parent approval boundary''
         ''zero child commits while the parent was pending'' (describe_commits early)
         ''Propagate the parent's approval scope into every delegated action.''))
     (act_then (act_call (rh_reject A handle (aq_action_id parent) (Some ''parent delegation rejected'')))
     (act_then (act_call (rh_wait A handle (so_operation_timeout_seconds opts)))
     (act_then (act_do (hn_sleep H (so_settle_seconds opts)))
     (act_bind (commits_of H run_id) (\<lambda>commits.
     act_then (act_check (commits \<noteq> [])
       (violation ''AB015'' ''Delegated effect survived parent rejection''
         ''zero child commits after the parent was rejected'' (describe_commits commits)
         ''Make parent rejection terminal for all descendant work.''))
     (act_return [])))))))))))))"

definition exercise_delegation :: "('w, 'h) exercise" where
  "exercise_delegation K A H run_id opts = exercise_closing A (delegation_body A H run_id opts)"

end
