(* ===== verification/Conf_Evidence.thy ===== *)
theory Conf_Evidence
  imports Conf_Scenarios
begin

text \<open>
  scenarios.py, the rest: the scenarios that judge an adapter's evidence - the reconciliation of unknown
  outcomes and the audit receipts - and the registry of the scenarios.
\<close>

section \<open>Reconciliation\<close>

definition digests_bound :: "codec \<Rightarrow> action_request \<Rightarrow> audit_receipt list \<Rightarrow> bool" where
  "digests_bound K a rs = list_all (\<lambda>r. ar_action_digest r = Some (action_digest K a)) rs"

text \<open>\<open>_assert_reconciliation_receipts\<close>\<close>

definition reconciliation_receipts_part ::
  "codec \<Rightarrow> ('w, 'h) adapter_ops \<Rightarrow> 'h \<Rightarrow> action_request \<Rightarrow> audit_event \<Rightarrow> (unit, 'w, 'h) act" where
  "reconciliation_receipts_part K A handle a terminal_event =
     act_bind (act_call (rh_audit_receipts A handle)) (\<lambda>rs.
     let relevant = filter (\<lambda>r. ar_action_id r = Some (aq_action_id a)) rs;
         events = remdups (map ar_event relevant);
         bound = digests_bound K a relevant in
     act_check (\<not> {Ae_reconciliation_started, terminal_event} \<subseteq> set events \<or> \<not> bound)
       (violation_with rs ''AB023'' ''Reconciliation audit evidence was incomplete or unbound''
         (''identity-bound receipts for reconciliation_started and '' @ audit_event_text terminal_event)
         (''events='' @ repr_strs (sort (map audit_event_text events)) @ ''; identity_bound='' @ repr_bool bound @
          ''; receipt_count='' @ show_nat (length relevant))
         ''Persist the stable action digest at reconciliation start and terminal resolution, including conflict, unavailable, and timeout outcomes.''))"

definition evidence_text :: "evidence \<Rightarrow> string" where
  "evidence_text e = ''reconciliation='' @ reconciliation_text (ev_status e)"

text \<open>An ungated action whose outcome is lost, run to its end.\<close>

definition lost_outcome_part ::
  "('w, 'h) adapter_ops \<Rightarrow> 'w harness_ops \<Rightarrow> string \<Rightarrow> scenario_options \<Rightarrow> action_request \<Rightarrow> conf_error + probe \<Rightarrow>
   ('h \<times> run_outcome, 'w, 'h) act" where
  "lost_outcome_part A H run_id opts a p =
     act_bind (open_probe H p) (\<lambda>probe.
     act_bind (act_open (ad_begin A run_id [a] probe None)) (\<lambda>handle.
     act_bind (act_call (rh_wait A handle (so_operation_timeout_seconds opts))) (\<lambda>result.
     act_return (handle, result))))"

definition reconcile_part ::
  "('w, 'h) adapter_ops \<Rightarrow> 'h \<Rightarrow> scenario_options \<Rightarrow> action_request \<Rightarrow> (evidence, 'w, 'h) act" where
  "reconcile_part A handle opts a = act_call (rh_reconcile A handle (aq_action_id a) (so_tool_timeout_seconds opts))"

text \<open>The replay that follows decisive evidence.\<close>

definition guarded_replay_part ::
  "('w, 'h) adapter_ops \<Rightarrow> 'w harness_ops \<Rightarrow> string \<Rightarrow> scenario_options \<Rightarrow> 'h \<Rightarrow> action_request \<Rightarrow>
   string \<Rightarrow> string \<Rightarrow> string \<Rightarrow> (unit, 'w, 'h) act" where
  "guarded_replay_part A H run_id opts handle a title expected remediation =
     act_bind (act_open (rh_replay A handle)) (\<lambda>replay.
     act_bind (act_call (rh_wait A replay (so_operation_timeout_seconds opts))) (\<lambda>result.
     act_bind (act_read (\<lambda>w. commits_for run_id (aq_action_id a) (hn_journal H w))) (\<lambda>events.
     act_check (ro_status result \<noteq> Rs_completed \<or> length events \<noteq> 1)
       (violation ''AB020'' title expected
         (''replay='' @ run_status_text (ro_status result) @ ''; '' @ describe_commits events) remediation))))"

definition reconcile_committed_part ::
  "codec \<Rightarrow> ('w, 'h) adapter_ops \<Rightarrow> 'w harness_ops \<Rightarrow> string \<Rightarrow> scenario_options \<Rightarrow> (unit, 'w, 'h) act" where
  "reconcile_committed_part K A H run_id opts =
     act_bind (act_res (scenario_action run_id ''reconcile-committed'' False None)) (\<lambda>a.
     act_bind (lost_outcome_part A H run_id opts a
       (make_probe run_id False False True True (of_int_num 0) None None)) (\<lambda>(handle, result).
     act_bind (reconcile_part A handle opts a) (\<lambda>e.
     act_then (act_check (ro_status result \<noteq> Rs_unknown \<or> ev_status e \<noteq> Re_committed \<or>
         ev_expected_action_digest e \<noteq> action_digest K a)
       (violation ''AB019'' ''Committed outcome was not reconciled by stable identity''
         ''UNKNOWN followed by identity-bound COMMITTED evidence''
         (run_text result @ ''; '' @ evidence_text e @ ''; expected_digest='' @ repr_str (action_digest K a) @
          ''; evidence_digest='' @ repr_str (ev_expected_action_digest e))
         ''Query durable effect state with the original action/idempotency identity before deciding whether a retry is safe.''))
     (act_then (reconciliation_receipts_part K A handle a Ae_reconciliation_committed)
     (guarded_replay_part A H run_id opts handle a ''Reconciled committed action executed again''
       ''one total commit after COMMITTED reconciliation and guarded replay''
       ''Treat matching COMMITTED evidence as terminal and deduplicate at the effect boundary using the stable action identity.'')))))"

definition reconcile_not_committed_part ::
  "codec \<Rightarrow> ('w, 'h) adapter_ops \<Rightarrow> 'w harness_ops \<Rightarrow> string \<Rightarrow> scenario_options \<Rightarrow> (unit, 'w, 'h) act" where
  "reconcile_not_committed_part K A H run_id opts =
     act_bind (act_res (scenario_action run_id ''reconcile-not-committed'' False None)) (\<lambda>a.
     act_bind (lost_outcome_part A H run_id opts a
       (make_probe run_id False True False True (of_int_num 0) None None)) (\<lambda>(handle, result).
     act_bind (reconcile_part A handle opts a) (\<lambda>e.
     act_bind (act_read (\<lambda>w. commits_for run_id (aq_action_id a) (hn_journal H w))) (\<lambda>initial_events.
     act_then (act_check (ro_status result \<noteq> Rs_unknown \<or> ev_status e \<noteq> Re_not_committed \<or> initial_events \<noteq> [])
       (violation ''AB019'' ''Absent outcome was not proven safe to retry''
         ''UNKNOWN, zero commits, and identity-bound NOT_COMMITTED evidence''
         (run_text result @ ''; '' @ evidence_text e @ ''; '' @ describe_commits initial_events)
         ''Retry only after an authoritative lookup proves the stable operation identity has no committed effect.''))
     (act_then (reconciliation_receipts_part K A handle a Ae_reconciliation_not_committed)
     (guarded_replay_part A H run_id opts handle a ''Proven not-committed action did not retry exactly once''
       ''one commit after NOT_COMMITTED evidence authorizes guarded replay''
       ''Allow one identity-preserving retry only after NOT_COMMITTED evidence, then persist the operation identity atomically with the effect.''))))))"

text \<open>\<open>repr\<close> of a tuple of strings.\<close>

definition repr_tuple :: "string list \<Rightarrow> string" where
  "repr_tuple ss = (case ss of [s] \<Rightarrow> ''('' @ repr_str s @ '',)'' | _ \<Rightarrow> ''('' @ comma_join (map repr_str ss) @ '')'')"

definition reconcile_conflict_part ::
  "codec \<Rightarrow> ('w, 'h) adapter_ops \<Rightarrow> 'w harness_ops \<Rightarrow> string \<Rightarrow> scenario_options \<Rightarrow> (unit, 'w, 'h) act" where
  "reconcile_conflict_part K A H run_id opts =
     act_bind (act_res (scenario_action run_id ''reconcile-conflict'' False None)) (\<lambda>a.
     act_bind (lost_outcome_part A H run_id opts a
       (make_probe run_id False False True True (of_int_num 0) None None)) (\<lambda>(handle, result).
     act_then (act_call (hn_record_commit H run_id (aq_action_id a) (aq_tool_name a)
       (JObj [(''recipient'', JStr ''conflict@example.com''), (''amount'', JInt 999)])
       (Some ''scenario-owned conflicting reconciliation evidence'')))
     (act_bind (reconcile_part A handle opts a) (\<lambda>e.
     act_bind (act_read (\<lambda>w. commits_for run_id (aq_action_id a) (hn_journal H w))) (\<lambda>events.
     act_then (act_check (ro_status result \<noteq> Rs_unknown \<or> ev_status e \<noteq> Re_conflict \<or>
         length (ev_observed_action_digests e) \<noteq> 2 \<or> length events \<noteq> 2)
       (violation ''AB021'' ''Conflicting reconciliation evidence was treated as decisive''
         ''UNKNOWN preserved with explicit CONFLICT evidence and no retry''
         (run_text result @ ''; '' @ evidence_text e @ ''; observed_digests='' @
          repr_tuple (ev_observed_action_digests e) @ ''; '' @ describe_commits events)
         ''Quarantine conflicting records for operator repair; never choose one record or retry a possibly committed operation automatically.''))
     (reconciliation_receipts_part K A handle a Ae_reconciliation_conflict))))))"

definition times_four :: "pyfloat \<Rightarrow> pyfloat" where
  "times_four x = (case x of
     Fin m e \<Rightarrow> if m = 0 then x else if num_le (Fin 1 1024) (Fin m (e + 2)) then PInf
       else if num_le (Fin m (e + 2)) (Fin (- 1) 1024) then NInf else Fin m (e + 2)
   | _ \<Rightarrow> x)"

definition reconcile_unavailable_part ::
  "codec \<Rightarrow> ('w, 'h) adapter_ops \<Rightarrow> 'w harness_ops \<Rightarrow> string \<Rightarrow> scenario_options \<Rightarrow> (unit, 'w, 'h) act" where
  "reconcile_unavailable_part K A H run_id opts =
     act_bind (act_res (scenario_action run_id ''reconcile-unavailable'' False None)) (\<lambda>a.
     act_bind (lost_outcome_part A H run_id opts a
       (make_probe run_id False False True True (times_four (so_tool_timeout_seconds opts)) None None)) (\<lambda>(handle, result).
     act_bind (reconcile_part A handle opts a) (\<lambda>e.
     act_bind (act_read (\<lambda>w. commits_for run_id (aq_action_id a) (hn_journal H w))) (\<lambda>events.
     act_then (act_check (ro_status result \<noteq> Rs_unknown \<or> ev_status e \<noteq> Re_unavailable \<or>
         (case ev_detail e of None \<Rightarrow> True | Some d \<Rightarrow> \<not> contains_str d ''timed out'') \<or> length events \<noteq> 1)
       (violation ''AB022'' ''Unavailable reconciliation did not preserve unknown outcome''
         ''bounded UNAVAILABLE evidence, UNKNOWN preserved, and no retry''
         (run_text result @ ''; '' @ evidence_text e @ ''; detail='' @
          (case ev_detail e of None \<Rightarrow> ''None'' | Some d \<Rightarrow> repr_str d) @ ''; '' @ describe_commits events)
         ''Bound the lookup, retain UNKNOWN when evidence is unavailable, and send the stable operation identity to a recovery queue instead of retrying.''))
     (reconciliation_receipts_part K A handle a Ae_reconciliation_timed_out)))))"

definition exercise_outcome_reconciliation :: "('w, 'h) exercise" where
  "exercise_outcome_reconciliation K A H run_id opts = exercise_closing A
     (act_then (reconcile_committed_part K A H run_id opts)
     (act_then (reconcile_not_committed_part K A H run_id opts)
     (act_then (reconcile_conflict_part K A H run_id opts)
     (act_then (reconcile_unavailable_part K A H run_id opts)
     (act_return [])))))"

section \<open>Audit receipts\<close>

definition receipt_key :: "audit_receipt \<Rightarrow> audit_event \<times> string option \<times> string option" where
  "receipt_key r = (ar_event r, ar_action_id r, ar_action_digest r)"

definition expected_receipts ::
  "codec \<Rightarrow> action_request \<Rightarrow> action_request \<Rightarrow> (audit_event \<times> string option \<times> string option) list" where
  "expected_receipts K a r =
     (let key = (\<lambda>ev x. (ev, Some (aq_action_id x), Some (action_digest K x)))
      in remdups [key Ae_approval_requested a, key Ae_approval_requested r, key Ae_approved a, key Ae_rejected r])"

text \<open>The dictionary of positions: the last receipt of an event about an action.\<close>

definition last_position :: "audit_event \<Rightarrow> string \<Rightarrow> audit_receipt list \<Rightarrow> nat" where
  "last_position ev i rs =
     last (filter (\<lambda>n. ar_event (rs ! n) = ev \<and> ar_action_id (rs ! n) = Some i) [0..<length rs])"

record receipts_verdict =
  rv_same_run :: bool
  rv_ordered :: bool
  rv_clean_run_receipts :: bool
  rv_exact_events :: bool
  rv_lifecycle_order :: bool
  rv_decision_order :: bool

definition judge_receipts ::
  "codec \<Rightarrow> string \<Rightarrow> action_request \<Rightarrow> action_request \<Rightarrow> audit_receipt list \<Rightarrow> receipts_verdict" where
  "judge_receipts K run_id a r rs =
     (let expected = expected_receipts K a r;
          action_receipts = filter (\<lambda>x. ar_action_id x \<noteq> None) rs;
          run_receipts = filter (\<lambda>x. ar_action_id x = None) rs;
          sequences = map ar_sequence rs;
          timestamps = map ar_timestamp_ns rs;
          exact = (length action_receipts = length expected \<and>
            set (map receipt_key action_receipts) = set expected \<and> length run_receipts = 2 \<and>
            set (map ar_event run_receipts) = {Ae_run_started, Ae_run_completed})
      in \<lparr>rv_same_run = list_all (\<lambda>x. ar_run_id x = run_id) rs,
          rv_ordered = (list_all (\<lambda>s. 0 < s) sequences \<and> list_all (\<lambda>t. 0 < t) timestamps \<and>
            sequences = sort (remdups sequences) \<and> timestamps = sort timestamps),
          rv_clean_run_receipts = list_all (\<lambda>x. ar_action_digest x = None) run_receipts,
          rv_exact_events = exact,
          rv_lifecycle_order = (rs \<noteq> [] \<and> ar_event (hd rs) = Ae_run_started \<and> ar_event (last rs) = Ae_run_completed),
          rv_decision_order = (exact \<and>
            last_position Ae_approval_requested (aq_action_id a) rs < last_position Ae_approved (aq_action_id a) rs \<and>
            last_position Ae_approval_requested (aq_action_id r) rs < last_position Ae_rejected (aq_action_id r) rs)\<rparr>)"

definition verdict_holds :: "receipts_verdict \<Rightarrow> bool" where
  "verdict_holds v = (rv_same_run v \<and> rv_ordered v \<and> rv_clean_run_receipts v \<and> rv_exact_events v \<and>
     rv_lifecycle_order v \<and> rv_decision_order v)"

definition missing_texts :: "codec \<Rightarrow> action_request \<Rightarrow> action_request \<Rightarrow> audit_receipt list \<Rightarrow> string list \<times> string list" where
  "missing_texts K a r rs =
     (sort (map (\<lambda>(ev, i, d). audit_event_text ev @ '':'' @ the i)
        (filter (\<lambda>k. k \<notin> receipt_key ` set (filter (\<lambda>x. ar_action_id x \<noteq> None) rs)) (expected_receipts K a r))),
      sort (map audit_event_text (filter (\<lambda>ev. ev \<notin> ar_event ` set (filter (\<lambda>x. ar_action_id x = None) rs))
        [Ae_run_started, Ae_run_completed])))"

definition verdict_text :: "receipts_verdict \<Rightarrow> string list \<times> string list \<Rightarrow> effect_event list \<Rightarrow> string" where
  "verdict_text v missing commits =
     ''missing_action_receipts='' @ repr_strs (fst missing) @ ''; missing_run_receipts='' @ repr_strs (snd missing) @
     ''; same_run='' @ repr_bool (rv_same_run v) @ ''; ordered='' @ repr_bool (rv_ordered v) @
     ''; exact_events='' @ repr_bool (rv_exact_events v) @ ''; lifecycle_order='' @ repr_bool (rv_lifecycle_order v) @
     ''; decision_order='' @ repr_bool (rv_decision_order v) @ ''; commits='' @ show_nat (length commits)"

definition audit_receipts_body ::
  "codec \<Rightarrow> ('w, 'h) adapter_ops \<Rightarrow> 'w harness_ops \<Rightarrow> string \<Rightarrow> scenario_options \<Rightarrow> (audit_receipt list, 'w, 'h) act" where
  "audit_receipts_body K A H run_id opts =
     act_bind (act_res (scenario_action run_id ''approved'' True None)) (\<lambda>approved.
     act_bind (act_res (scenario_action run_id ''rejected'' True None)) (\<lambda>rejected.
     act_bind (open_probe H (plain_probe run_id)) (\<lambda>probe.
     act_bind (act_open (ad_begin A run_id [approved, rejected] probe None)) (\<lambda>handle.
     act_bind (act_call (rh_wait_for_pending A handle (so_operation_timeout_seconds opts))) (\<lambda>pending.
     act_then (act_check (aq_action_id ` set pending \<noteq> {aq_action_id approved, aq_action_id rejected})
       (violation ''AB016'' ''Audit probe did not surface both decisions'' ''both actions to be pending''
         (''pending ids were '' @ repr_strs (map aq_action_id pending))
         ''Expose every gated action before recording its decision.''))
     (act_then (act_call (rh_approve A handle (aq_action_id approved) None))
     (act_then (act_call (rh_reject A handle (aq_action_id rejected) (Some ''receipt rejection probe'')))
     (act_bind (act_call (rh_wait A handle (so_operation_timeout_seconds opts))) (\<lambda>result.
     act_bind (act_call (rh_audit_receipts A handle)) (\<lambda>rs.
     act_bind (commits_of H run_id) (\<lambda>commits.
     let v = judge_receipts K run_id approved rejected rs in
     act_then (act_check (\<not> (ro_status result = Rs_completed \<and> verdict_holds v \<and>
         map ee_action_id commits = [aq_action_id approved]))
       (violation_with rs ''AB017'' ''Approval audit trail was incomplete or unbound''
         ''requested/resolved receipts bound to both actions and a terminal run''
         (verdict_text v (missing_texts K approved rejected rs) commits)
         ''Persist one action-digest-bound receipt for every request and decision, plus the terminal run state.''))
     (act_return rs))))))))))))"

definition exercise_audit_receipts :: "('w, 'h) exercise" where
  "exercise_audit_receipts K A H run_id opts = exercise_closing A (audit_receipts_body K A H run_id opts)"

section \<open>The registry\<close>

record ('w, 'h) scenario =
  sn_scenario_id :: string
  sn_name :: string
  sn_capability :: capability
  sn_exercise :: "('w, 'h) exercise"

definition default_scenarios :: "('w, 'h) scenario list" where
  "default_scenarios = [
     \<lparr>sn_scenario_id = ''approval_hold'', sn_name = ''Approval holds the effect'',
       sn_capability = Cap_approval, sn_exercise = exercise_approval_hold\<rparr>,
     \<lparr>sn_scenario_id = ''rejection'', sn_name = ''Rejection prevents the effect'',
       sn_capability = Cap_rejection, sn_exercise = exercise_rejection\<rparr>,
     \<lparr>sn_scenario_id = ''argument_binding'', sn_name = ''Approval binds exact arguments'',
       sn_capability = Cap_argument_binding, sn_exercise = exercise_argument_binding\<rparr>,
     \<lparr>sn_scenario_id = ''replay'', sn_name = ''Replay is idempotent'',
       sn_capability = Cap_replay, sn_exercise = exercise_replay\<rparr>,
     \<lparr>sn_scenario_id = ''outcome_ambiguity'', sn_name = ''Unknown outcomes are not retried blindly'',
       sn_capability = Cap_outcome_ambiguity, sn_exercise = exercise_outcome_ambiguity\<rparr>,
     \<lparr>sn_scenario_id = ''outcome_reconciliation'', sn_name = ''Unknown outcomes use bounded reconciliation'',
       sn_capability = Cap_outcome_reconciliation, sn_exercise = exercise_outcome_reconciliation\<rparr>,
     \<lparr>sn_scenario_id = ''cancellation'', sn_name = ''Cancellation fences in-flight work'',
       sn_capability = Cap_cancellation, sn_exercise = exercise_cancellation\<rparr>,
     \<lparr>sn_scenario_id = ''timeout'', sn_name = ''Timeout fences late effects'',
       sn_capability = Cap_timeout, sn_exercise = exercise_timeout\<rparr>,
     \<lparr>sn_scenario_id = ''parallel_barrier'', sn_name = ''Parallel effects respect the approval profile'',
       sn_capability = Cap_parallel_barrier, sn_exercise = exercise_parallel_barrier\<rparr>,
     \<lparr>sn_scenario_id = ''delegation'', sn_name = ''Delegated effects inherit parent rejection'',
       sn_capability = Cap_delegation, sn_exercise = exercise_delegation\<rparr>,
     \<lparr>sn_scenario_id = ''audit_receipts'', sn_name = ''Approval decisions produce bound receipts'',
       sn_capability = Cap_audit_receipts, sn_exercise = exercise_audit_receipts\<rparr>]"

definition select_scenarios :: "string list option \<Rightarrow> conf_error + ('w, 'h) scenario list" where
  "select_scenarios ids = (case ids of
     None \<Rightarrow> Inr default_scenarios
   | Some requested \<Rightarrow>
       (let known = map sn_scenario_id (default_scenarios :: ('w, 'h) scenario list);
            unknown = filter (\<lambda>i. i \<notin> set known) (remdups requested)
        in if unknown \<noteq> [] then Inl (Conf_Value_Error (''unknown scenarios: '' @ comma_join (sort unknown)))
           else Inr (filter (\<lambda>s. sn_scenario_id s \<in> set requested) default_scenarios)))"

end
