(* ===== verification/Conf_Runner.thy ===== *)
theory Conf_Runner
  imports Conf_Evidence
begin

text \<open>
  runner.py: the suite, which exercises the selected scenarios one by one, each with a journal of its
  own, and turns what they raise into results.
\<close>

record runner_options =
  rp_settle_seconds :: pyfloat
  rp_operation_timeout_seconds :: pyfloat
  rp_tool_timeout_seconds :: pyfloat
  rp_strict_skips :: bool
  rp_scenarios :: "string list option"
  rp_fail_fast :: bool
  rp_approval_profile :: approval_profile

text \<open>\<open>RunnerOptions.__post_init__\<close>\<close>

definition check_seconds :: "string \<Rightarrow> pyfloat \<Rightarrow> conf_error + unit" where
  "check_seconds field x = (if \<not> is_finite x \<or> num_le x (of_int_num 0)
     then Inl (Conf_Value_Error (field @ '' must be finite and positive'')) else Inr ())"

definition check_runner_options :: "runner_options \<Rightarrow> conf_error + runner_options" where
  "check_runner_options ro =
     bind_res (check_seconds ''settle_seconds'' (rp_settle_seconds ro)) (\<lambda>_.
     bind_res (check_seconds ''operation_timeout_seconds'' (rp_operation_timeout_seconds ro)) (\<lambda>_.
     bind_res (check_seconds ''tool_timeout_seconds'' (rp_tool_timeout_seconds ro)) (\<lambda>_. Inr ro)))"

definition make_scenario_options :: "runner_options \<Rightarrow> scenario_options" where
  "make_scenario_options ro = \<lparr>so_settle_seconds = rp_settle_seconds ro,
     so_operation_timeout_seconds = rp_operation_timeout_seconds ro,
     so_tool_timeout_seconds = rp_tool_timeout_seconds ro, so_approval_profile = rp_approval_profile ro\<rparr>"

text \<open>
  What the runner uses beside the scenarios: a fresh run id's hexadecimal part, a new journal, and the
  performance counter.
\<close>

record 'w runner_ops =
  rn_uuid_hex :: "'w \<Rightarrow> string \<times> 'w"
  rn_new_journal :: "'w \<Rightarrow> 'w"
  rn_elapsed :: "'w \<Rightarrow> 'w \<Rightarrow> pyfloat"

text \<open>
  \<open>_run_scenario\<close>; a cancellation is not an \<open>Exception\<close>, so it leaves the suite.
\<close>

definition scenario_verdict ::
  "stop + audit_receipt list \<Rightarrow> conf_error + (scenario_status \<times> finding option \<times> string option \<times> audit_receipt list)" where
  "scenario_verdict x = (case x of
     Inr rs \<Rightarrow> Inr (Sc_passed, None, None, rs)
   | Inl (Violation f rs) \<Rightarrow> Inr (Sc_failed, Some f, Some (fi_observed f), rs)
   | Inl (Raised Cancelled_Error) \<Rightarrow> Inl Cancelled_Error
   | Inl (Raised e) \<Rightarrow> Inr (Sc_error, None, Some (conf_error_type e @ '': '' @ conf_error_text e), []))"

definition run_scenario ::
  "codec \<Rightarrow> ('w, 'h) adapter_ops \<Rightarrow> 'w harness_ops \<Rightarrow> 'w runner_ops \<Rightarrow> runner_options \<Rightarrow> ('w, 'h) scenario \<Rightarrow>
   'w \<Rightarrow> (conf_error + scenario_result) \<times> 'w" where
  "run_scenario K A H R ro s w =
     (if sn_capability s \<notin> set (ad_capabilities A) then
        (Inr \<lparr>sr_scenario_id = sn_scenario_id s, sr_name = sn_name s, sr_adapter = ad_name A, sr_status = Sc_skipped,
          sr_duration_seconds = rn_elapsed R w w, sr_events = [], sr_receipts = [], sr_finding = None,
          sr_detail = Some (''adapter does not declare '' @ repr_str (capability_text (sn_capability s)))\<rparr>, w)
      else
        let (u, w1) = rn_uuid_hex R w;
            run_id = sn_scenario_id s @ ''-'' @ u;
            (x, w2) = sn_exercise s K A H run_id (make_scenario_options ro) (rn_new_journal R w1)
        in (case scenario_verdict x of
            Inl e \<Rightarrow> (Inl e, w2)
          | Inr (status, f, detail, rs) \<Rightarrow>
              (Inr \<lparr>sr_scenario_id = sn_scenario_id s, sr_name = sn_name s, sr_adapter = ad_name A, sr_status = status,
                sr_duration_seconds = rn_elapsed R w w2, sr_events = journal_events (Some run_id) None (hn_journal H w2),
                sr_receipts = (if rs = [] then journal_receipts (Some run_id) (hn_journal H w2) else rs),
                sr_finding = f, sr_detail = detail\<rparr>, w2)))"

text \<open>\<open>SuiteRunner.verify\<close>\<close>

fun run_scenarios ::
  "codec \<Rightarrow> ('w, 'h) adapter_ops \<Rightarrow> 'w harness_ops \<Rightarrow> 'w runner_ops \<Rightarrow> runner_options \<Rightarrow> ('w, 'h) scenario list \<Rightarrow>
   'w \<Rightarrow> (conf_error + scenario_result list) \<times> 'w" where
  "run_scenarios K A H R ro [] w = (Inr [], w)"
| "run_scenarios K A H R ro (s # ss) w = (case run_scenario K A H R ro s w of
     (Inl e, w') \<Rightarrow> (Inl e, w')
   | (Inr r, w') \<Rightarrow>
       if rp_fail_fast ro \<and> sr_status r \<in> {Sc_failed, Sc_error} then (Inr [r], w')
       else (case run_scenarios K A H R ro ss w' of
          (Inl e, w'') \<Rightarrow> (Inl e, w'') | (Inr rs, w'') \<Rightarrow> (Inr (r # rs), w'')))"

definition verify_adapter ::
  "codec \<Rightarrow> ('w, 'h) adapter_ops \<Rightarrow> 'w harness_ops \<Rightarrow> 'w runner_ops \<Rightarrow> runner_options \<Rightarrow> 'w \<Rightarrow>
   (conf_error + suite_result) \<times> 'w" where
  "verify_adapter K A H R ro w = (case select_scenarios (rp_scenarios ro) of
     Inl e \<Rightarrow> (Inl e, w)
   | Inr ss \<Rightarrow> (case run_scenarios K A H R ro ss w of
       (Inl e, w') \<Rightarrow> (Inl e, w')
     | (Inr rs, w') \<Rightarrow> (Inr \<lparr>su_adapter = ad_name A, su_results = rs, su_strict_skips = rp_strict_skips ro,
         su_approval_profile = rp_approval_profile ro\<rparr>, w')))"

end
