(* ===== verification/Conf_Suite.thy ===== *)
theory Conf_Suite
  imports Conf_Loop Conf_Runner
begin

text \<open>
  The suite on the reference adapter: the harness on the event loop, and the scenarios evaluated.
\<close>

definition loop_record_commit ::
  "string \<Rightarrow> string \<Rightarrow> string \<Rightarrow> json \<Rightarrow> string option \<Rightarrow> conf_world \<Rightarrow> (conf_error + unit) \<times> conf_world" where
  "loop_record_commit run_id i tool arguments detail w =
     (case journal_record (cw_time_ns w) run_id i tool Ef_committed arguments detail (cw_journal w) of
        (Inl e, j) \<Rightarrow> (Inl e, w) | (Inr _, j) \<Rightarrow> (Inr (), w\<lparr>cw_journal := j\<rparr>))"

definition loop_probe :: "probe \<Rightarrow> conf_world \<Rightarrow> (conf_error + nat) \<times> conf_world" where
  "loop_probe p w = (Inr (length (cw_probes w)), w\<lparr>cw_probes := cw_probes w @ [p]\<rparr>)"

definition loop_wait_started :: "codec \<Rightarrow> nat \<Rightarrow> pyfloat \<Rightarrow> conf_world \<Rightarrow> (conf_error + unit) \<times> conf_world" where
  "loop_wait_started K p seconds w =
     (let w' = loop_until K (\<lambda>w. pb_started (cw_probes w ! p)) (cw_loop_ns w + seconds_ns seconds) w
      in (if pb_started (cw_probes w' ! p) then Inr () else Inl Timeout_Error, w'))"

definition loop_release :: "nat \<Rightarrow> conf_world \<Rightarrow> conf_world" where
  "loop_release p w = w\<lparr>cw_probes := (cw_probes w)[p := (cw_probes w ! p)\<lparr>pb_released := True\<rparr>]\<rparr>"

definition loop_harness :: "codec \<Rightarrow> conf_world harness_ops" where
  "loop_harness K = \<lparr>hn_journal = cw_journal, hn_record_commit = loop_record_commit, hn_probe = loop_probe,
     hn_wait_started = loop_wait_started K, hn_release = loop_release, hn_sleep = loop_sleep K\<rparr>"

definition new_loop :: conf_world where
  "new_loop = \<lparr>cw_journal = empty_journal, cw_probes = [], cw_completed = [], cw_runs = [], cw_time_ns = 1, cw_loop_ns = 0\<rparr>"

definition demo_options :: scenario_options where
  "demo_options = \<lparr>so_settle_seconds = Fin 1 (- 4), so_operation_timeout_seconds = Fin 5 0,
     so_tool_timeout_seconds = Fin 1 (- 4), so_approval_profile = Run_Wide\<rparr>"

definition passes :: "codec \<Rightarrow> (conf_world, nat) exercise \<Rightarrow> bool" where
  "passes K x = (\<not> isl (fst (x K (reference_adapter K) (loop_harness K) ''r'' demo_options new_loop)))"

definition part_passes :: "codec \<Rightarrow>
    (codec \<Rightarrow> (conf_world, nat) adapter_ops \<Rightarrow> conf_world harness_ops \<Rightarrow> string \<Rightarrow> scenario_options \<Rightarrow> (unit, conf_world, nat) act) \<Rightarrow> bool" where
  "part_passes K x = (\<not> isl (fst (x K (reference_adapter K) (loop_harness K) ''r'' demo_options (new_loop, []))))"

section \<open>Evaluation\<close>

text \<open>The digests stay symbolic.\<close>

declare ancestors_allowed.simps [code]
declare action_digest_def [code del]

lemma approval_scenarios_pass:
  "passes K exercise_approval_hold" "passes K exercise_rejection" "passes K exercise_argument_binding"
  by code_simp+

lemma replay_scenarios_pass: "passes K exercise_replay" "passes K exercise_outcome_ambiguity"
  by code_simp+

lemma fencing_scenarios_pass: "passes K exercise_cancellation" "passes K exercise_timeout"
  by code_simp+

lemma parallel_scenarios_pass: "passes K exercise_parallel_barrier" "passes K exercise_delegation"
  by code_simp+

lemma audit_scenario_passes: "passes K exercise_audit_receipts"
  by code_simp

lemma decisive_reconciliation_passes:
  "part_passes K reconcile_committed_part" "part_passes K reconcile_not_committed_part"
  by code_simp+

lemma undecided_reconciliation_passes:
  "part_passes K reconcile_conflict_part" "part_passes K reconcile_unavailable_part"
  by code_simp+


end
