(* ===== verification/Conf_Verdicts.thy ===== *)
theory Conf_Verdicts
  imports Conf_Runner "HOL-Library.Multiset"
begin

text \<open>
  What a verdict of the suite says about any adapter: which evidence a scenario accepts, and what a
  suite that passes has exercised.
\<close>

section \<open>Actions that succeed\<close>

named_theorems act_simps \<open>when an action returns a value\<close>

lemma act_bind_Inr [act_simps]: "act_bind m f s = (Inr y, s') \<longleftrightarrow> (\<exists>x s1. m s = (Inr x, s1) \<and> f x s1 = (Inr y, s'))"
  by (auto simp: act_bind_def split: prod.splits sum.splits)

lemma act_then_Inr [act_simps]: "act_then m n s = (Inr y, s') \<longleftrightarrow> (\<exists>x s1. m s = (Inr x, s1) \<and> n s1 = (Inr y, s'))"
  by (simp add: act_then_def act_bind_Inr)

lemma act_return_Inr [act_simps]: "act_return x s = (Inr y, s') \<longleftrightarrow> y = x \<and> s' = s"
  by (auto simp: act_return_def)

lemma act_check_Inr [act_simps]: "act_check bad v s = (Inr y, s') \<longleftrightarrow> \<not> bad \<and> s' = s"
  by (auto simp: act_check_def)

lemma act_res_Inr [act_simps]: "act_res x s = (Inr y, s') \<longleftrightarrow> x = Inr y \<and> s' = s"
  by (auto simp: act_res_def split: sum.splits)

lemma act_call_Inr [act_simps]: "act_call f s = (Inr y, s') \<longleftrightarrow> (\<exists>w. f (fst s) = (Inr y, w) \<and> s' = (w, snd s))"
  by (auto simp: act_call_def split: prod.splits sum.splits)

lemma act_open_Inr [act_simps]: "act_open f s = (Inr y, s') \<longleftrightarrow> (\<exists>w. f (fst s) = (Inr y, w) \<and> s' = (w, y # snd s))"
  by (auto simp: act_open_def split: prod.splits sum.splits)

lemma act_read_Inr [act_simps]: "act_read f s = (Inr y, s') \<longleftrightarrow> y = f (fst s) \<and> s' = s"
  by (auto simp: act_read_def)

lemma act_do_Inr [act_simps]: "act_do f s = (Inr y, s') \<longleftrightarrow> s' = (f (fst s), snd s)"
  by (auto simp: act_do_def)

lemma exercise_closing_Inr [act_simps]:
  "exercise_closing A m w = (Inr y, w') \<longleftrightarrow> (\<exists>w1 hs. m (w, []) = (Inr y, w1, hs) \<and> close_all A hs w1 = (None, w'))"
  by (auto simp: exercise_closing_def split: prod.splits option.splits)

section \<open>The approval scenario\<close>

text \<open>
  The scenario of the approval passes only for an adapter that had committed nothing of the run when
  the approval was given to it, and then completed the run with exactly one commit.
\<close>

lemma passing_hold_is_genuine:
  assumes "exercise_approval_hold K A H run_id opts w = (Inr rs, w')"
  shows "\<exists>handle w1 w2 w3 result. rh_approve A handle (run_id @ '':primary'') None w1 = (Inr (), w2) \<and>
    committed_events (Some run_id) (hn_journal H w1) = [] \<and>
    rh_wait A handle (so_operation_timeout_seconds opts) w2 = (Inr result, w3) \<and> ro_status result = Rs_completed \<and>
    length (committed_events (Some run_id) (hn_journal H w3)) = 1"
proof -
  have "aq_action_id a = run_id @ '':'' @ suffix" if "scenario_action run_id suffix g p = Inr a" for a suffix g p
    using that by (auto simp: scenario_action_def make_action_def split: if_splits sum.splits json_error.splits)
  with assms show ?thesis
    by (fastforce simp: exercise_approval_hold_def approval_hold_body_def commits_of_def act_simps)
qed

section \<open>The audit scenario\<close>

lemma scenario_action_id:
  "scenario_action run_id suffix g p = Inr a \<Longrightarrow> aq_action_id a = run_id @ '':'' @ suffix"
  by (auto simp: scenario_action_def make_action_def split: if_splits sum.splits json_error.splits)

text \<open>As many entries as expected, and the same ones: each exactly once.\<close>

lemma exact_mset:
  assumes "length xs = length ys" "set xs = set ys" "distinct ys"
  shows "mset xs = mset ys"
proof -
  have "distinct xs" using assms by (metis card_distinct distinct_card)
  with assms show ?thesis by (simp add: set_eq_iff_mset_eq_distinct)
qed

lemma strictly_sorted: "xs = sort (remdups xs) \<Longrightarrow> sorted_wrt (<) (xs :: int list)"
  by (metis distinct_remdups distinct_sort sorted_sort strict_sorted_iff)

lemma last_position_in:
  assumes "\<exists>x \<in> set rs. ar_event x = ev \<and> ar_action_id x = Some i"
  shows "last_position ev i rs < length rs" "ar_event (rs ! last_position ev i rs) = ev"
    "ar_action_id (rs ! last_position ev i rs) = Some i"
proof -
  let ?ns = "filter (\<lambda>n. ar_event (rs ! n) = ev \<and> ar_action_id (rs ! n) = Some i) [0..<length rs]"
  obtain n where "n < length rs" "ar_event (rs ! n) = ev \<and> ar_action_id (rs ! n) = Some i"
    using assms by (auto simp: in_set_conv_nth)
  then have "n \<in> set ?ns" by simp
  then have "?ns \<noteq> []" by (metis empty_iff empty_set)
  from last_in_set [OF this] have "last ?ns \<in> {n \<in> set [0..<length rs]. ar_event (rs ! n) = ev \<and> ar_action_id (rs ! n) = Some i}"
    unfolding set_filter .
  then show "last_position ev i rs < length rs" "ar_event (rs ! last_position ev i rs) = ev"
    "ar_action_id (rs ! last_position ev i rs) = Some i"
    by (simp_all add: last_position_def)
qed

text \<open>A receipt about an action before another.\<close>

definition receipt_before :: "audit_receipt list \<Rightarrow> audit_event \<Rightarrow> audit_event \<Rightarrow> action_request \<Rightarrow> bool" where
  "receipt_before rs ev ev' a \<longleftrightarrow> (\<exists>i j. i < j \<and> j < length rs \<and> ar_event (rs ! i) = ev \<and> ar_event (rs ! j) = ev' \<and>
     ar_action_id (rs ! i) = Some (aq_action_id a) \<and> ar_action_id (rs ! j) = Some (aq_action_id a))"

lemma last_positions_before:
  assumes "last_position ev (aq_action_id a) rs < last_position ev' (aq_action_id a) rs"
    "\<exists>x \<in> set rs. ar_event x = ev \<and> ar_action_id x = Some (aq_action_id a)"
    "\<exists>x \<in> set rs. ar_event x = ev' \<and> ar_action_id x = Some (aq_action_id a)"
  shows "receipt_before rs ev ev' a"
  unfolding receipt_before_def using assms(1) last_position_in [OF assms(2)] last_position_in [OF assms(3)] by blast

lemma verdict_exact:
  assumes ids: "aq_action_id a \<noteq> aq_action_id r" and holds: "verdict_holds (judge_receipts K run_id a r rs)"
  defines "key \<equiv> \<lambda>ev x. (ev, Some (aq_action_id x), Some (action_digest K x))"
  shows "mset (map receipt_key (filter (\<lambda>x. ar_action_id x \<noteq> None) rs)) =
      {# key Ae_approval_requested a, key Ae_approval_requested r, key Ae_approved a, key Ae_rejected r #}"
    "mset (map ar_event (filter (\<lambda>x. ar_action_id x = None) rs)) = {# Ae_run_started, Ae_run_completed #}"
    "receipt_before rs Ae_approval_requested Ae_approved a" "receipt_before rs Ae_approval_requested Ae_rejected r"
proof -
  let ?keys = "[key Ae_approval_requested a, key Ae_approval_requested r, key Ae_approved a, key Ae_rejected r]"
  let ?acts = "map receipt_key (filter (\<lambda>x. ar_action_id x \<noteq> None) rs)"
  have keys: "distinct ?keys" "expected_receipts K a r = ?keys"
    using ids by (auto simp: expected_receipts_def key_def)
  have exact: "length ?acts = length ?keys" "set ?acts = set ?keys"
    and runs: "length (map ar_event (filter (\<lambda>x. ar_action_id x = None) rs)) = 2"
      "set (map ar_event (filter (\<lambda>x. ar_action_id x = None) rs)) = {Ae_run_started, Ae_run_completed}"
    and order: "last_position Ae_approval_requested (aq_action_id a) rs < last_position Ae_approved (aq_action_id a) rs"
      "last_position Ae_approval_requested (aq_action_id r) rs < last_position Ae_rejected (aq_action_id r) rs"
    using holds unfolding verdict_holds_def judge_receipts_def keys(2) Let_def by simp_all
  have "mset ?acts = mset ?keys" by (rule exact_mset [OF exact keys(1)])
  then show "mset ?acts = {# key Ae_approval_requested a, key Ae_approval_requested r, key Ae_approved a, key Ae_rejected r #}"
    by simp
  have "mset (map ar_event (filter (\<lambda>x. ar_action_id x = None) rs)) = mset [Ae_run_started, Ae_run_completed]"
    by (rule exact_mset) (use runs in simp_all)
  then show "mset (map ar_event (filter (\<lambda>x. ar_action_id x = None) rs)) = {# Ae_run_started, Ae_run_completed #}" by simp
  have found: "\<exists>x \<in> set rs. ar_event x = ev \<and> ar_action_id x = Some (aq_action_id x')" if "key ev x' \<in> set ?keys" for ev x'
  proof -
    have "key ev x' \<in> set ?acts" using that exact(2) by simp
    then show ?thesis by (auto simp: receipt_key_def key_def)
  qed
  show "receipt_before rs Ae_approval_requested Ae_approved a"
    by (rule last_positions_before [OF order(1) found found]) simp_all
  show "receipt_before rs Ae_approval_requested Ae_rejected r"
    by (rule last_positions_before [OF order(2) found found]) simp_all
qed

text \<open>
  The audit scenario passes only with an exact trail: of the two actions' receipts, each of the two
  requests, the approval and the rejection exactly once and under the digest of its action, each
  decision after its request; of the run's, its start first and its completion last, and nothing else;
  strictly increasing sequence numbers; and only the approved action committed.
\<close>

theorem audit_verdict_is_exact:
  assumes "exercise_audit_receipts K A H run_id opts w = (Inr rs, w')"
  shows "\<exists>a r w1. scenario_action run_id ''approved'' True None = Inr a \<and>
    scenario_action run_id ''rejected'' True None = Inr r \<and>
    (let key = (\<lambda>ev x. (ev, Some (aq_action_id x), Some (action_digest K x))) in
     mset (map receipt_key (filter (\<lambda>x. ar_action_id x \<noteq> None) rs)) =
       {# key Ae_approval_requested a, key Ae_approval_requested r, key Ae_approved a, key Ae_rejected r #}) \<and>
    mset (map ar_event (filter (\<lambda>x. ar_action_id x = None) rs)) = {# Ae_run_started, Ae_run_completed #} \<and>
    receipt_before rs Ae_approval_requested Ae_approved a \<and> receipt_before rs Ae_approval_requested Ae_rejected r \<and>
    ar_event (hd rs) = Ae_run_started \<and> ar_event (last rs) = Ae_run_completed \<and>
    sorted_wrt (<) (map ar_sequence rs) \<and> map ar_run_id rs = replicate (length rs) run_id \<and>
    map ee_action_id (committed_events (Some run_id) (hn_journal H w1)) = [aq_action_id a]"
proof -
  obtain a r w1 z where ar: "scenario_action run_id ''approved'' True None = Inr a"
    "scenario_action run_id ''rejected'' True None = Inr r"
    and verdict: "verdict_holds (judge_receipts K run_id a r rs)"
    and z: "committed_events (Some run_id) (hn_journal H w1) = [z]" "ee_action_id z = aq_action_id a"
    using assms by (clarsimp simp: exercise_audit_receipts_def audit_receipts_body_def commits_of_def Let_def act_simps)
  then have commits: "map ee_action_id (committed_events (Some run_id) (hn_journal H w1)) = [aq_action_id a]" by simp
  have ids: "aq_action_id a \<noteq> aq_action_id r" using ar by (simp add: scenario_action_id)
  have rest: "map ar_sequence rs = sort (remdups (map ar_sequence rs))" "\<forall>x \<in> set rs. ar_run_id x = run_id"
    "ar_event (hd rs) = Ae_run_started" "ar_event (last rs) = Ae_run_completed"
    using verdict by (simp_all add: verdict_holds_def judge_receipts_def Let_def list_all_iff)
  have "map ar_run_id rs = replicate (length rs) run_id"
    by (rule replicate_eqI [symmetric, THEN sym]) (use rest(2) in auto)
  with verdict_exact [OF ids verdict] strictly_sorted [OF rest(1)] rest(3,4) ar commits show ?thesis
    unfolding Let_def by (intro exI [of _ a] exI [of _ r] exI [of _ w1] conjI) simp_all
qed

section \<open>The suite\<close>

lemma run_scenario_status:
  assumes "run_scenario K A H R ro s w = (Inr r, w')"
  shows "sr_scenario_id r = sn_scenario_id s"
    "sn_capability s \<notin> set (ad_capabilities A) \<longleftrightarrow> sr_status r = Sc_skipped"
proof -
  have "sr_status r \<noteq> Sc_skipped \<and> sr_scenario_id r = sn_scenario_id s" if cap: "sn_capability s \<in> set (ad_capabilities A)"
  proof -
    obtain u w1 x w2 where run: "rn_uuid_hex R w = (u, w1)"
      "sn_exercise s K A H (sn_scenario_id s @ ''-'' @ u) (make_scenario_options ro) (rn_new_journal R w1) = (x, w2)"
      by fastforce
    obtain st f d rs where v: "scenario_verdict x = Inr (st, f, d, rs)" "sr_status r = st" "sr_scenario_id r = sn_scenario_id s"
      using assms cap run by (auto simp: run_scenario_def Let_def split: sum.splits prod.splits)
    have "st \<noteq> Sc_skipped" using v(1) by (auto simp: scenario_verdict_def split: sum.splits stop.splits conf_error.splits)
    with v show ?thesis by simp
  qed
  moreover have "sr_status r = Sc_skipped \<and> sr_scenario_id r = sn_scenario_id s" if "sn_capability s \<notin> set (ad_capabilities A)"
    using assms that by (auto simp: run_scenario_def)
  ultimately show "sr_scenario_id r = sn_scenario_id s" "sn_capability s \<notin> set (ad_capabilities A) \<longleftrightarrow> sr_status r = Sc_skipped"
    by blast+
qed

lemma run_scenarios_all:
  assumes "run_scenarios K A H R ro ss w = (Inr rs, w')" "\<forall>r \<in> set rs. sr_status r \<notin> {Sc_failed, Sc_error}"
  shows "list_all2 (\<lambda>s r. sr_scenario_id r = sn_scenario_id s \<and>
    sr_status r = (if sn_capability s \<in> set (ad_capabilities A) then Sc_passed else Sc_skipped)) ss rs"
  using assms
proof (induction K A H R ro ss w arbitrary: rs rule: run_scenarios.induct)
  case (2 K A H R ro s ss w)
  obtain r w1 where r: "run_scenario K A H R ro s w = (Inr r, w1)"
    using "2.prems"(1) by (cases "run_scenario K A H R ro s w") (auto split: sum.splits)
  obtain rs' where rs': "rs = r # rs'"
    using "2.prems"(1) r by (auto split: if_splits sum.splits prod.splits)
  then have ok: "sr_status r \<notin> {Sc_failed, Sc_error}" using "2.prems"(2) by simp
  then have "run_scenarios K A H R ro ss w1 = (Inr rs', w')"
    using "2.prems"(1) r rs' by (auto split: if_splits sum.splits prod.splits)
  with "2.IH" [OF r [symmetric] refl] ok "2.prems"(2) rs' run_scenario_status [OF r] show ?case
    by (cases "sr_status r") auto
qed auto

text \<open>
  A suite that passes is complete: it has one result for each selected scenario, in the canonical
  order; each scenario whose capability the adapter declares was exercised and passed, each other one is
  reported as skipped, and with strict skips there is none.
\<close>

theorem green_suite_is_complete:
  fixes A :: "('w, 'h) adapter_ops"
  assumes "verify_adapter K A H R ro w = (Inr su, w')" "suite_passed su"
  shows "\<exists>ss :: ('w, 'h) scenario list. select_scenarios (rp_scenarios ro) = Inr ss \<and>
    list_all2 (\<lambda>s r. sr_scenario_id r = sn_scenario_id s \<and>
      sr_status r = (if sn_capability s \<in> set (ad_capabilities A) then Sc_passed else Sc_skipped)) ss (su_results su) \<and>
    (if rp_strict_skips ro then set (map sn_capability ss) \<subseteq> set (ad_capabilities A) else True)"
proof -
  obtain ss :: "('w, 'h) scenario list" where ss: "select_scenarios (rp_scenarios ro) = Inr ss"
    using assms(1) by (cases "select_scenarios (rp_scenarios ro) :: conf_error + ('w, 'h) scenario list") (auto simp: verify_adapter_def)
  then obtain rs where rs: "run_scenarios K A H R ro ss w = (Inr rs, w')" "su_results su = rs" "su_strict_skips su = rp_strict_skips ro"
    using assms(1) by (auto simp: verify_adapter_def split: sum.splits prod.splits)
  have "\<forall>r \<in> set rs. sr_status r \<notin> {Sc_failed, Sc_error}"
    using assms(2) rs(2) by (auto simp: suite_passed_def status_count_def filter_empty_conv split: if_splits)
  note all = run_scenarios_all [OF rs(1) this]
  have "sn_capability s \<in> set (ad_capabilities A)" if strict: "rp_strict_skips ro" and s: "s \<in> set ss" for s
  proof -
    have "\<forall>r \<in> set rs. sr_status r \<noteq> Sc_skipped"
      using assms(2) rs(2,3) strict by (auto simp: suite_passed_def status_count_def filter_empty_conv split: if_splits)
    moreover obtain i where i: "i < length ss" "s = ss ! i" using s by (auto simp: in_set_conv_nth)
    moreover have "rs ! i \<in> set rs" using i(1) all by (simp add: list_all2_conv_all_nth)
    ultimately have "sr_status (rs ! i) \<noteq> Sc_skipped" by simp
    with list_all2_nthD [OF all i(1)] i(2) show ?thesis by (auto split: if_splits)
  qed
  with ss all rs(2) show ?thesis by auto
qed

end
