(* ===== verification/Conf_Demo.thy ===== *)
theory Conf_Demo
  imports Conf_Suite Conf_Verdicts
begin

text \<open>
  Concrete runs of the reference adapter and of the suite, at which the theorems about them apply.
\<close>

section \<open>An approved run\<close>

definition demo_gated :: action_request where
  "demo_gated = \<lparr>aq_action_id = ''a'', aq_tool_name = ''t'', aq_requires_approval = True, aq_parent_action_id = None,
     aq_arguments = JObj [(''n'', JInt 3)]\<rparr>"

definition demo_child :: action_request where
  "demo_child = \<lparr>aq_action_id = ''b'', aq_tool_name = ''t'', aq_requires_approval = False, aq_parent_action_id = Some ''a'',
     aq_arguments = JObj []\<rparr>"

definition demo_probe :: "bool \<Rightarrow> probe" where
  "demo_probe lost = projr (make_probe ''r'' False False lost True (of_int_num 0) None None)"

definition demo_begun :: "action_request list \<Rightarrow> bool \<Rightarrow> conf_world" where
  "demo_begun as lost = snd (ref_begin ''r'' as 0 None (snd (loop_probe (demo_probe lost) new_loop)))"

definition demo_approved :: "codec \<Rightarrow> conf_world" where
  "demo_approved K = snd (ref_approve K 0 ''a'' None (drain K (demo_begun [demo_gated, demo_child] False)))"

definition demo_lost :: "codec \<Rightarrow> conf_world" where
  "demo_lost K = drain K (demo_begun [demo_gated\<lparr>aq_requires_approval := False\<rparr>] True)"

lemma demo_begun_reachable: "ref_reachable K (demo_begun as lost)"
proof -
  let ?w = "new_loop\<lparr>cw_probes := [demo_probe lost]\<rparr>"
  have "ref_reachable K new_loop" unfolding new_loop_def by (rule ref_init)
  then have "ref_reachable K (new_loop\<lparr>cw_probes := cw_probes new_loop @ [demo_probe lost]\<rparr>)"
    by (rule ref_next [OF _ rs_probe]) (simp add: demo_probe_def make_probe_def of_int_num_def dy_cmp_def)
  then have w: "ref_reachable K ?w" by (simp add: new_loop_def)
  obtain x w' where begun: "ref_begin ''r'' as 0 None ?w = (x, w')" by fastforce
  have "ref_step K ?w w'"
    by (rule rs_begin [OF _ _ _ begun])
      (simp_all add: inactive_def new_loop_def demo_probe_def make_probe_def of_int_num_def dy_cmp_def)
  with ref_next [OF w] begun show ?thesis by (simp add: demo_begun_def loop_probe_def new_loop_def)
qed

lemma demo_approved_reachable: "ref_reachable K (demo_approved K)" "ref_reachable K (drain K (demo_approved K))"
proof -
  let ?w = "drain K (demo_begun [demo_gated, demo_child] False)"
  have w: "ref_reachable K ?w" by (rule drain_reachable [OF demo_begun_reachable])
  obtain x w' where approve: "ref_approve K 0 ''a'' None ?w = (x, w')" by fastforce
  have "0 < length (cw_runs ?w)" by code_simp
  then have "ref_step K ?w w'" by (rule rs_approve [OF _ approve])
  with ref_next [OF w] approve show "ref_reachable K (demo_approved K)" by (simp add: demo_approved_def)
  then show "ref_reachable K (drain K (demo_approved K))" by (rule drain_reachable)
qed

lemma demo_approved_commits:
  "map ee_action_id (committed_events None (cw_journal (drain K (demo_approved K)))) = [''a'', ''b'']"
  by code_simp



lemma terminal_run_is_quiet_witness:
  "\<exists>w w'. ref_reachable demo_codec w \<and> inactive ''r'' w \<and> ref_step demo_codec w w' \<and>
     journal_events (Some ''r'') None (cw_journal w') = journal_events (Some ''r'') None (cw_journal w)"
proof -
  let ?w = "drain demo_codec (demo_approved demo_codec)"
  have "inactive ''r'' (drain K (demo_approved K))" for K by code_simp
  then have quiet: "inactive ''r'' ?w" .
  have reach: "ref_reachable demo_codec ?w" by (rule demo_approved_reachable)
  have step: "ref_step demo_codec ?w (?w\<lparr>cw_time_ns := 9, cw_loop_ns := 9\<rparr>)" by (rule rs_time)
  from terminal_run_is_quiet [OF reach quiet step] reach quiet step show ?thesis by blast
qed

lemma validated_delegation_ends_witness:
  "validate_actions [demo_gated, demo_child] = Inr [demo_gated, demo_child] \<and>
   \<not> delegator [demo_gated, demo_child] (Some ''a'') demo_child \<and>
   executable_actions [demo_gated, demo_child] [(''a'', Fu_decided REJECT None)] [demo_gated, demo_child] \<noteq> None"
proof -
  have valid: "validate_actions [demo_gated, demo_child] = Inr [demo_gated, demo_child]" by code_simp
  from validated_delegation_ends [OF this] show ?thesis
    using valid by (simp add: demo_child_def)
qed

lemma reference_runs_settle_witness:
  "\<exists>w. ref_reachable demo_codec w \<and> 0 < length (cw_runs (drain demo_codec w)) \<and>
     (let r = cw_runs (drain demo_codec w) ! 0 in task_over r \<or>
       (rr_phase r = Rp_deciding \<and> (\<exists>i. (i, Fu_waiting) \<in> set (rr_decisions r))) \<or>
       (\<exists>ts. rr_phase r = Rp_executing ts \<and> Tk_waiting \<in> snd ` set ts))"
proof -
  let ?w = "demo_begun [demo_gated, demo_child] False"
  have reach: "ref_reachable demo_codec ?w" by (rule demo_begun_reachable)
  have "0 < length (cw_runs (drain K ?w))" for K by code_simp
  then have len: "0 < length (cw_runs (drain demo_codec ?w))" .
  show ?thesis
    using reference_runs_settle [OF reach len] reach len by (intro exI [of _ ?w]) (auto simp: Let_def)
qed

section \<open>A lost outcome\<close>


section \<open>Cancelled runs\<close>

lemma early_cancellation_is_silent_witness:
  "\<exists>w'. ref_cancel 0 (demo_begun [demo_gated] False) = (Inl Cancelled_Error, w') \<and>
     map ar_event (jn_receipts (cw_journal w')) = [Ae_run_started]"
proof -
  have begun: "0 < length (cw_runs (demo_begun [demo_gated] False))"
    "rr_phase (cw_runs (demo_begun [demo_gated] False) ! 0) = Rp_created"
    "map ar_event (jn_receipts (cw_journal (demo_begun [demo_gated] False))) = [Ae_run_started]"
    by code_simp+
  from early_cancellation_is_silent [OF begun(1,2)] begun(3) show ?thesis by fastforce
qed

text \<open>
  Two replays of a cancelled run at the same time, which \<open>replay\<close> accepts: each starts its task before
  the other has committed, and the action is committed twice.
\<close>

definition demo_replayed :: "codec \<Rightarrow> conf_world" where
  "demo_replayed K =
     (let p = projr (make_probe ''r'' True False False True (of_int_num 0) None None);
          w = snd (ref_begin ''r'' [demo_gated\<lparr>aq_requires_approval := False\<rparr>] 0 None (snd (loop_probe p new_loop)));
          w = loop_release 0 (snd (ref_cancel 0 (drain K w)))
      in snd (ref_replay 0 (snd (ref_replay 0 w))))"

lemma concurrent_replays_commit_twice:
  "map ee_action_id (committed_events (Some ''r'') (cw_journal
     (task_step 2 0 (task_step 1 0 (start_run K 2 (start_run K 1 (demo_replayed K))))))) = [''a'', ''a'']"
  by code_simp

section \<open>The suite\<close>

lemma passes_Inr:
  assumes "passes K x"
  obtains rs w' where "x K (reference_adapter K) (loop_harness K) ''r'' demo_options new_loop = (Inr rs, w')"
  using assms that unfolding passes_def by (metis prod.collapse sum.collapse(2))

lemma passing_hold_is_genuine_witness:
  "\<exists>rs w' handle w1 w2. exercise_approval_hold demo_codec (reference_adapter demo_codec) (loop_harness demo_codec) ''r''
      demo_options new_loop = (Inr rs, w') \<and>
    rh_approve (reference_adapter demo_codec) handle ''r:primary'' None w1 = (Inr (), w2) \<and>
    committed_events (Some ''r'') (cw_journal w1) = []"
proof -
  obtain rs w' where "exercise_approval_hold demo_codec (reference_adapter demo_codec) (loop_harness demo_codec) ''r''
      demo_options new_loop = (Inr rs, w')"
    by (rule passes_Inr [OF approval_scenarios_pass(1)])
  with passing_hold_is_genuine [OF this] show ?thesis by (fastforce simp: loop_harness_def)
qed

lemma audit_verdict_is_exact_witness:
  "\<exists>rs w'. exercise_audit_receipts demo_codec (reference_adapter demo_codec) (loop_harness demo_codec) ''r''
      demo_options new_loop = (Inr rs, w') \<and>
    mset (map ar_event (filter (\<lambda>x. ar_action_id x = None) rs)) = {# Ae_run_started, Ae_run_completed #}"
proof -
  obtain rs w' where "exercise_audit_receipts demo_codec (reference_adapter demo_codec) (loop_harness demo_codec) ''r''
      demo_options new_loop = (Inr rs, w')"
    by (rule passes_Inr [OF audit_scenario_passes])
  with audit_verdict_is_exact [OF this] show ?thesis by blast
qed

definition demo_runner :: "conf_world runner_ops" where
  "demo_runner = \<lparr>rn_uuid_hex = (\<lambda>w. (''0'', w)), rn_new_journal = (\<lambda>w. w\<lparr>cw_journal := empty_journal\<rparr>),
     rn_elapsed = (\<lambda>_ _. of_int_num 0)\<rparr>"

definition demo_runner_options :: runner_options where
  "demo_runner_options = \<lparr>rp_settle_seconds = Fin 1 (- 4), rp_operation_timeout_seconds = Fin 5 0,
     rp_tool_timeout_seconds = Fin 1 (- 4), rp_strict_skips = True, rp_scenarios = Some [''rejection''],
     rp_fail_fast = True, rp_approval_profile = Run_Wide\<rparr>"

definition demo_suite :: "codec \<Rightarrow> (conf_error + suite_result) \<times> conf_world" where
  "demo_suite K = verify_adapter K (reference_adapter K) (loop_harness K) demo_runner demo_runner_options new_loop"

lemma demo_suite_passes: "case fst (demo_suite K) of Inl _ \<Rightarrow> False | Inr su \<Rightarrow> suite_passed su"
  by code_simp

lemma green_suite_is_complete_witness:
  "\<exists>su w'. demo_suite demo_codec = (Inr su, w') \<and> map sr_scenario_id (su_results su) = [''rejection'']"
proof -
  obtain x w' where run: "demo_suite demo_codec = (x, w')" by fastforce
  with demo_suite_passes [of demo_codec] obtain su where su: "demo_suite demo_codec = (Inr su, w')" "suite_passed su"
    by (cases x) auto
  have "map sr_scenario_id (su_results su) = map sn_scenario_id ss"
    if "list_all2 (\<lambda>s r. sr_scenario_id r = sn_scenario_id s \<and> P s r) ss (su_results su)" for P and ss :: "(conf_world, nat) scenario list"
    using that by (auto simp: list_all2_conv_all_nth list_eq_iff_nth_eq)
  with green_suite_is_complete [OF su(1) [unfolded demo_suite_def] su(2)] su(1) show ?thesis
    by (auto simp: demo_runner_options_def select_scenarios_def default_scenarios_def Let_def split: if_splits)
qed

end
