(* ===== verification/Mcp_Gateway.thy ===== *)
theory Mcp_Gateway
  imports Conf_Models Barrier Auth
begin

text \<open>
  The policy gateway of mcp/gateway.py and the bearer middleware of mcp/auth.py. A tool call comes from
  the MCP SDK and goes through \<open>execute_async\<close> to the upstream server, which is a parameter: what it is
  called with, what it does to the state, and how the call ends.
\<close>

section \<open>Messages of the runtime's errors\<close>

text \<open>\<open>str(error)\<close> of the errors of errors.py that carry an action.\<close>

definition of_action :: "runtime_action \<Rightarrow> string" where
  "of_action a = ''action '' @ repr_str (ra_action_id a)"

definition action_error_text :: "runtime_error \<Rightarrow> string" where
  "action_error_text e = (case e of
     ApprovalRequired a \<Rightarrow> of_action a @ '' requires approval before '' @ repr_str (ra_tool_name a) @ '' can run''
   | PolicyDenied a \<Rightarrow> of_action a @ '' was denied by policy rule '' @ repr_str (ra_policy_rule a)
   | ApprovalRejected a \<Rightarrow> of_action a @ '' was rejected''
   | ApprovalExpired a \<Rightarrow> ''approval for '' @ of_action a @ '' expired''
   | ActionInProgress a \<Rightarrow> of_action a @ '' is already executing''
   | ActionOutcomeUnknown a \<Rightarrow> of_action a @ '' has an unknown outcome and will not be retried''
   | EmergencyPauseActive a scope reason \<Rightarrow>
       of_action a @ '' is blocked by emergency pause '' @ repr_str scope @ '': '' @ reason
   | ActionLimitExceeded a limit_id resource used requested maximum \<Rightarrow>
       of_action a @ '' would exceed '' @ resource @ '' limit '' @ repr_str limit_id @
       '' ('' @ show_int used @ '' + '' @ show_int requested @ '' > '' @ show_int maximum @ '')''
   | ActionLimitValueError a limit_id argument \<Rightarrow>
       of_action a @ '' has no non-negative integer at '' @ repr_str argument @
       '' required by limit '' @ repr_str limit_id
   | _ \<Rightarrow> [])"

section \<open>Idempotency keys\<close>

text \<open>A resolver: from the tool's name, the arguments and the request's metadata, what it returns or raises.\<close>

type_synonym key_resolver =
  "string \<Rightarrow> (string \<times> json) list \<Rightarrow> (string \<times> json) list option \<Rightarrow> runtime_error + json"

definition idempotency_meta_key :: string where
  "idempotency_meta_key = ''agentbarrier/idempotencyKey''"

definition action_meta_key :: string where
  "action_meta_key = ''agentbarrier/action''"

definition error_meta_key :: string where
  "error_meta_key = ''agentbarrier/error''"

definition key_text :: "json \<Rightarrow> string option" where
  "key_text v = (case v of JStr k \<Rightarrow> if blank k then None else Some k | _ \<Rightarrow> None)"

definition meta_idempotency_key :: key_resolver where
  "meta_idempotency_key tool_name arguments meta =
     (case Option.bind meta (\<lambda>m. Option.bind (map_of m idempotency_meta_key) key_text) of
        Some k \<Rightarrow> Inr (JStr k)
      | None \<Rightarrow> Inl (ValueError (''MCP tool calls must include a non-empty '' @ repr_str idempotency_meta_key @
          '' string in params._meta'')))"

definition argument_idempotency_key :: "string \<Rightarrow> runtime_error + key_resolver" where
  "argument_idempotency_key path =
     (if blank path \<or> [] \<in> set (split_on (CHR ''.'') path) then
        Inl (ValueError ''idempotency argument path must contain non-empty segments'')
      else Inr (\<lambda>tool_name arguments meta.
        case lookup_path (JObj arguments) (split_on (CHR ''.'') path) of
          None \<Rightarrow> Inl (ValueError (''idempotency argument path '' @ repr_str path @ '' was not found''))
        | Some v \<Rightarrow> (case key_text v of
            Some k \<Rightarrow> Inr (JStr k)
          | None \<Rightarrow> Inl (ValueError (''idempotency argument path '' @ repr_str path @ '' must resolve to a string'')))))"

section \<open>Tool calls\<close>

text \<open>
  \<open>CallToolRequestParams\<close>: besides the name, the arguments and the metadata, what the gateway passes on
  as it is (the input responses and the request state).
\<close>

record tool_call =
  tc_name :: string
  tc_arguments :: "(string \<times> json) list option"
  tc_meta :: "(string \<times> json) list option"
  tc_input_responses :: "json option"
  tc_request_state :: "json option"

text \<open>
  What the upstream call gives: a result as \<open>model_dump\<close> writes it, a request for further input, or an
  exception.
\<close>

datatype upstream_outcome = Up_Result json | Up_Input_Required | Up_Raised string

type_synonym 's upstream = "tool_call \<Rightarrow> 's \<Rightarrow> upstream_outcome \<times> 's"

text \<open>
  What a call is answered with: the payload of a result, a tool error made by the gateway with its
  metadata, or an exception left to the SDK.
\<close>

datatype gateway_answer = Gw_Payload json | Gw_Refused string json | Gw_Raised call_error

record gateway =
  gw_barrier :: runtime_barrier
  gw_resolver :: key_resolver

text \<open>\<open>_normalize_arguments\<close>\<close>

definition normalized_arguments :: "tool_call \<Rightarrow> (string \<times> json) list" where
  "normalized_arguments call = (case tc_arguments call of None \<Rightarrow> [] | Some arguments \<Rightarrow> arguments)"

definition request_error :: "string \<Rightarrow> string \<Rightarrow> gateway_answer" where
  "request_error message err_code =
     Gw_Refused (''AgentBarrier blocked the tool call: '' @ message)
       (JObj [(error_meta_key, JObj [(''code'', JStr err_code)])])"

definition action_metadata :: "runtime_action \<Rightarrow> json" where
  "action_metadata a = JObj [(action_meta_key, JObj
     [(''actionId'', JStr (ra_action_id a)), (''requestDigest'', JStr (ra_request_digest a)),
      (''status'', JStr (status_text (ra_status a))), (''policyRule'', JStr (ra_policy_rule a)),
      (''policyVersion'', JStr (ra_policy_version a))])]"

definition action_message :: "runtime_action \<Rightarrow> runtime_error \<Rightarrow> string" where
  "action_message a e =
     (if ra_status a = PENDING then
        ''Approval is required for action '' @ ra_action_id a @ ''. Do not retry until an '' @
        ''operator approves it; then retry with the same arguments and idempotency key.''
      else ''AgentBarrier blocked action '' @ ra_action_id a @ '': '' @ action_error_text e)"

text \<open>The key of a call: what the resolver returns, which must be a text that is not blank.\<close>

definition gateway_key :: "key_resolver \<Rightarrow> tool_call \<Rightarrow> runtime_error + string" where
  "gateway_key resolver call =
     bind_res (resolver (tc_name call) (normalized_arguments call) (tc_meta call)) (\<lambda>v.
       case key_text v of
         Some k \<Rightarrow> Inr k
       | None \<Rightarrow> Inl (ValueError ''MCP idempotency resolver must return a non-empty string''))"

text \<open>The operation \<open>forward\<close>: the upstream gets the call with the arguments normalized.\<close>

definition forward :: "'s upstream \<Rightarrow> tool_call \<Rightarrow> 's \<Rightarrow> op_outcome \<times> 's" where
  "forward upstream call s =
     (case upstream (call\<lparr>tc_arguments := Some (normalized_arguments call)\<rparr>) s of
        (Up_Result v, s') \<Rightarrow> (Op_Returned v, s')
      | (Up_Input_Required, s') \<Rightarrow> (Op_Raised ''RuntimeError'', s')
      | (Up_Raised x, s') \<Rightarrow> (Op_Raised x, s'))"

text \<open>
  The answer to what \<open>execute_async\<close> gives. Whether a payload is one of a tool result is the SDK's
  \<open>model_validate\<close>.
\<close>

definition gateway_answer_of :: "(json \<Rightarrow> bool) \<Rightarrow> call_error + json \<Rightarrow> gateway_answer" where
  "gateway_answer_of validates r = (case r of
     Inr payload \<Rightarrow> if validates payload then Gw_Payload payload else Gw_Raised (Foreign_Exn ''ValidationError'')
   | Inl (Runtime_Exn e) \<Rightarrow>
       if e = ActionBindingError then
         request_error ''the idempotency key is already bound to a different exact tool request''
           ''action_binding_error''
       else (case error_action e of
           Some a \<Rightarrow> Gw_Refused (action_message a e) (action_metadata a)
         | None \<Rightarrow> Gw_Raised (Runtime_Exn e))
   | Inl (Foreign_Exn x) \<Rightarrow> Gw_Raised (Foreign_Exn x))"

text \<open>\<open>_call_tool\<close>: the answer, the state, and the state in which the upstream was called if it was.\<close>

definition call_tool ::
  "'s store_ops \<Rightarrow> codec \<Rightarrow> (observation \<Rightarrow> string option) \<Rightarrow> (json \<Rightarrow> bool) \<Rightarrow> gateway \<Rightarrow> 's upstream \<Rightarrow>
   's attempt \<Rightarrow> (('s \<Rightarrow> 's) \<times> ('s \<Rightarrow> 's)) list \<Rightarrow> tool_call \<Rightarrow> 's \<Rightarrow>
   gateway_answer \<times> 's \<times> 's option" where
  "call_tool ops K handler validates g upstream att segments call s =
     (case gateway_key (gw_resolver g) call of
        Inl (ValueError m) \<Rightarrow> (request_error m ''invalid_idempotency_key'', s, None)
      | Inl (TypeError m) \<Rightarrow> (request_error m ''invalid_idempotency_key'', s, None)
      | Inl e \<Rightarrow> (Gw_Raised (Runtime_Exn e), s, None)
      | Inr key \<Rightarrow>
          (let run = execute_async ops K handler (gw_barrier g)
             (att\<lparr>at_operation := forward upstream call\<rparr>) segments (tc_name call)
             (normalized_arguments call) key s
           in (gateway_answer_of validates (xr_result run), xr_state run, xr_called run)))"

section \<open>The bearer middleware\<close>

text \<open>
  What the middleware does with a connection: pass it to the gateway, with the principal it has
  authenticated for HTTP, or answer it.
\<close>

datatype middleware_outcome =
  Mw_Pass "principal option"
| Mw_Answer int json "(string \<times> string) list"

definition mcp_call_scope :: string where
  "mcp_call_scope = ''mcp:call''"

definition mcp_middleware ::
  "codec \<Rightarrow> credential list \<Rightarrow> string \<Rightarrow> string option \<Rightarrow> middleware_outcome" where
  "mcp_middleware K cs scope_type authorization =
     (if scope_type \<noteq> ''http'' then Mw_Pass None
      else case bind_res (authenticate K cs authorization) (\<lambda>p.
          bind_res (require_scope p mcp_call_scope) (\<lambda>_. Inr p)) of
        Inr p \<Rightarrow> Mw_Pass (Some p)
      | Inl e \<Rightarrow> Mw_Answer (ae_status e)
          (JObj [(''error'', JObj [(''code'', JStr (ae_code e)), (''message'', JStr (ae_message e))])])
          [(''Cache-Control'', ''no-store''), (''Referrer-Policy'', ''no-referrer''),
           (''WWW-Authenticate'', ae_challenge e), (''X-Content-Type-Options'', ''nosniff''),
           (''X-Frame-Options'', ''DENY'')])"

end
