(* ===== verification/Launch.thy ===== *)
theory Launch
  imports Mcp_Gateway Webhook Slack_Service Dashboard
begin

text \<open>
  How the services are started: the choice of the store in runtime/factory.py, the runners of
  service/runner.py, and the configuration, the upstream connection and the runners of mcp/runner.py.
  What an entry point reads of the host is a record. A listener is what the web server is given; the
  server itself, the opened databases and the upstream's transport are not modelled.
\<close>

text \<open>
  Environment variables, the texts of files, \<open>expanduser().resolve()\<close>, and \<open>ipaddress\<close>: whether a text
  is an address and then a loopback one, and whether it is a literal between the brackets of a URL.
\<close>

record host_env =
  he_variable :: "string \<Rightarrow> string option"
  he_file :: "string \<Rightarrow> string option"
  he_resolve :: "string \<Rightarrow> string"
  he_ip_loopback :: "string \<Rightarrow> bool option"
  he_ip_literal :: "string \<Rightarrow> bool"

datatype launch_error = Launch_Refused runtime_error | File_Missing string

definition value_error :: "string \<Rightarrow> launch_error + 'a" where
  "value_error message = Inl (Launch_Refused (ValueError message))"

definition refusing :: "runtime_error + 'a \<Rightarrow> launch_error + 'a" where
  "refusing r = (case r of Inl e \<Rightarrow> Inl (Launch_Refused e) | Inr v \<Rightarrow> Inr v)"

definition read_text :: "host_env \<Rightarrow> string \<Rightarrow> launch_error + string" where
  "read_text E path = (case he_file E path of None \<Rightarrow> Inl (File_Missing path) | Some t \<Rightarrow> Inr t)"

section \<open>The store\<close>

datatype backend = Sqlite_Backend string | Postgres_Backend string string bool bool

record store_choice =
  so_database_path :: "string option"
  so_postgres_dsn_env :: "string option"
  so_postgres_schema :: string
  so_postgres_create_schema :: bool
  so_postgres_migrate :: bool

definition exactly_one :: "'a option \<Rightarrow> 'b option \<Rightarrow> bool" where
  "exactly_one x y = ((x \<noteq> None) \<noteq> (y \<noteq> None))"

definition required_variable :: "host_env \<Rightarrow> string \<Rightarrow> launch_error + string" where
  "required_variable E name = (case he_variable E name of
     None \<Rightarrow> value_error (''environment variable '' @ repr_str name @ '' is not set'')
   | Some v \<Rightarrow> Inr v)"

definition open_runtime_store :: "host_env \<Rightarrow> store_choice \<Rightarrow> launch_error + backend" where
  "open_runtime_store E c =
     (if \<not> exactly_one (so_database_path c) (so_postgres_dsn_env c) then
        value_error ''configure exactly one runtime SQLite path or PostgreSQL DSN environment''
      else case so_database_path c of
        Some path \<Rightarrow> Inr (Sqlite_Backend path)
      | None \<Rightarrow>
          (let name = (case so_postgres_dsn_env c of None \<Rightarrow> [] | Some n \<Rightarrow> n)
           in if \<not> environment_name_ok name then value_error ''PostgreSQL DSN environment name is invalid''
              else bind_res (required_variable E name) (\<lambda>dsn.
                Inr (Postgres_Backend dsn (so_postgres_schema c) (so_postgres_create_schema c)
                  (so_postgres_migrate c)))))"

text \<open>The choice as the runners make it, which neither create the schema nor migrate it.\<close>

definition runner_store :: "string option \<Rightarrow> string option \<Rightarrow> string \<Rightarrow> store_choice" where
  "runner_store database_path dsn_env schema = \<lparr>so_database_path = database_path,
     so_postgres_dsn_env = dsn_env, so_postgres_schema = schema, so_postgres_create_schema = False,
     so_postgres_migrate = False\<rparr>"

section \<open>Hosts\<close>

definition service_loopback :: "host_env \<Rightarrow> string \<Rightarrow> bool" where
  "service_loopback E host = (let normalized = py_lower (py_strip host) in
     normalized = ''localhost'' \<or> he_ip_loopback E normalized = Some True)"

definition unbracketed :: "string \<Rightarrow> string" where
  "unbracketed s = (if starts_with s ''['' \<and> ends_with s '']'' then butlast (tl s) else s)"

definition mcp_loopback :: "host_env \<Rightarrow> string \<Rightarrow> bool" where
  "mcp_loopback E host = (let normalized = py_lower (py_strip host) in
     normalized = ''localhost'' \<or> he_ip_loopback E (unbracketed normalized) = Some True)"

section \<open>The MCP gateway's configuration\<close>

record mcp_config =
  mc_policy_path :: string
  mc_store :: store_choice
  mc_namespace :: string
  mc_upstream_url :: "string option"
  mc_upstream_command :: "string option"
  mc_upstream_args :: "string list"
  mc_upstream_timeout_seconds :: "pyfloat option"
  mc_upstream_bearer_token_env :: "string option"
  mc_idempotency_argument :: "string option"
  mc_organization_id :: string
  mc_requested_by :: "string option"

definition validate_upstream_url :: "host_env \<Rightarrow> string \<Rightarrow> runtime_error + unit" where
  "validate_upstream_url E url = (case urlsplit (he_ip_literal E) url of
     None \<Rightarrow> Inl (ValueError ''upstream_url must be a valid HTTP or HTTPS URL'')
   | Some u \<Rightarrow>
       if \<not> port_ok u \<or> up_scheme u \<notin> {''http'', ''https''} \<or> hostname u = None \<or> url_port u = Some 0 then
         Inl (ValueError ''upstream_url must be a valid HTTP or HTTPS URL'')
       else if has_user_info u then Inl (ValueError ''upstream_url must not contain embedded credentials'')
       else if up_fragment u \<noteq> [] then Inl (ValueError ''upstream_url must not contain a fragment'')
       else if up_scheme u = ''http'' \<and> \<not> mcp_loopback E (the (hostname u)) then
         Inl (ValueError ''non-loopback upstream_url must use HTTPS'')
       else Inr ())"

text \<open>\<open>MCPGatewayConfig.__post_init__\<close>, its checks in order.\<close>

definition check_all :: "(bool \<times> string) list \<Rightarrow> runtime_error + unit" where
  "check_all rules = (case List.find fst rules of None \<Rightarrow> Inr () | Some (_, message) \<Rightarrow> Inl (ValueError message))"

definition make_mcp_config :: "host_env \<Rightarrow> mcp_config \<Rightarrow> runtime_error + mcp_config" where
  "make_mcp_config E c =
     (let url = mc_upstream_url c; command = mc_upstream_command c; dsn_env = so_postgres_dsn_env (mc_store c);
          token_env = mc_upstream_bearer_token_env c
      in bind_res (check_all
        [(blank (mc_namespace c), ''MCP gateway namespace must not be empty''),
         (blank (mc_organization_id c), ''MCP gateway organization must not be empty''),
         (\<exists>r \<in> set_option (mc_requested_by c). blank r,
           ''MCP gateway requester must not be empty when provided''),
         (mc_organization_id c \<noteq> ''default'' \<and> mc_requested_by c = None,
           ''an organization-scoped MCP gateway requires --requested-by''),
         (\<not> exactly_one (so_database_path (mc_store c)) dsn_env,
           ''configure exactly one MCP runtime database backend''),
         (\<exists>e \<in> set_option dsn_env. \<not> environment_name_ok e, ''PostgreSQL DSN environment name is invalid''),
         (\<not> exactly_one url command, ''configure exactly one of upstream_url or upstream_command''),
         (\<exists>u \<in> set_option url. blank u, ''upstream_url must not be empty'')]) (\<lambda>_.
      bind_res (case url of None \<Rightarrow> Inr () | Some u \<Rightarrow> validate_upstream_url E u) (\<lambda>_.
      bind_res (check_all
        [(\<exists>x \<in> set_option command. blank x, ''upstream_command must not be empty''),
         (url \<noteq> None \<and> mc_upstream_args c \<noteq> [], ''upstream_args are valid only with upstream_command''),
         (token_env \<noteq> None \<and> url = None, ''upstream bearer authentication requires upstream_url''),
         (\<exists>e \<in> set_option token_env. \<not> environment_name_ok e,
           ''upstream bearer token environment name is invalid''),
         (\<exists>x \<in> set_option (mc_upstream_timeout_seconds c). num_le x (of_int_num 0),
           ''upstream_timeout_seconds must be greater than zero'')]) (\<lambda>_.
      bind_res (case mc_idempotency_argument c of None \<Rightarrow> Inr ()
        | Some path \<Rightarrow> bind_res (argument_idempotency_key path) (\<lambda>_. Inr ())) (\<lambda>_. Inr c)))))"

section \<open>The upstream connection\<close>

text \<open>
  What the client factory connects to: an HTTP URL with the headers of every request, the read timeout
  and whether redirects are followed; or a process.
\<close>

datatype upstream_client =
  Http_Client string "(string \<times> string) list" pyfloat bool "pyfloat option"
| Process_Client string "string list" "pyfloat option"

definition http_transport :: "string \<Rightarrow> string option \<Rightarrow> pyfloat option \<Rightarrow> upstream_client" where
  "http_transport url token timeout = Http_Client url
     (case token of None \<Rightarrow> [] | Some t \<Rightarrow> [(''Authorization'', ''Bearer '' @ t)])
     (case timeout of None \<Rightarrow> of_int_num 300
        | Some t \<Rightarrow> if num_le t (of_int_num 0) \<and> num_le (of_int_num 0) t then of_int_num 300 else t)
     False timeout"

definition client_factory :: "host_env \<Rightarrow> codec \<Rightarrow> mcp_config \<Rightarrow> launch_error + upstream_client" where
  "client_factory E K c = (case mc_upstream_url c of
     Some url \<Rightarrow>
       (case mc_upstream_bearer_token_env c of
          None \<Rightarrow> Inr (http_transport url None (mc_upstream_timeout_seconds c))
        | Some name \<Rightarrow>
            bind_res (required_variable E name) (\<lambda>token.
            bind_res (refusing (hash_bearer_token K token)) (\<lambda>_.
            Inr (http_transport url (Some token) (mc_upstream_timeout_seconds c)))))
   | None \<Rightarrow> (case mc_upstream_command c of
       Some command \<Rightarrow> Inr (Process_Client command (mc_upstream_args c) (mc_upstream_timeout_seconds c))
     | None \<Rightarrow> Inl (Launch_Refused (RuntimeStoreError ''MCP gateway upstream was not configured''))))"

definition build_gateway :: "host_env \<Rightarrow> codec \<Rightarrow> mcp_config \<Rightarrow> launch_error + gateway" where
  "build_gateway E K c =
   bind_res (read_text E (mc_policy_path c)) (\<lambda>text.
   bind_res (refusing (policy_from_text K text)) (\<lambda>policy.
   bind_res (refusing (make_barrier policy (mc_namespace c) (mc_organization_id c) (mc_requested_by c))) (\<lambda>b.
   bind_res (case mc_idempotency_argument c of
       None \<Rightarrow> Inr meta_idempotency_key
     | Some path \<Rightarrow> refusing (argument_idempotency_key path)) (\<lambda>resolver.
   Inr \<lparr>gw_barrier = b, gw_resolver = resolver\<rparr>))))"

section \<open>Listeners\<close>

datatype service_app =
  Api_App "credential list"
| Dashboard_App "credential list" dash_config
| Slack_App slack_config string pyfloat
| Mcp_App gateway string int "credential list option"

record listener =
  li_host :: string
  li_port :: int
  li_backend :: backend
  li_app :: service_app

definition check_address :: "string \<Rightarrow> string \<Rightarrow> int \<Rightarrow> launch_error + unit" where
  "check_address label host port =
     (if blank host then value_error (label @ '' host must not be empty'')
      else if \<not> (1 \<le> port \<and> port \<le> 65535) then value_error (label @ '' port must be between 1 and 65535'')
      else Inr ())"

definition require_existing_file :: "host_env \<Rightarrow> string option \<Rightarrow> launch_error + unit" where
  "require_existing_file E path = (case path of None \<Rightarrow> Inr ()
     | Some p \<Rightarrow> if he_file E p = None then Inl (File_Missing p) else Inr ())"

definition load_auth :: "host_env \<Rightarrow> codec \<Rightarrow> string \<Rightarrow> launch_error + credential list" where
  "load_auth E K path = bind_res (read_text E path) (\<lambda>text. refusing (auth_from_text K text))"

definition run_approval_api ::
  "host_env \<Rightarrow> codec \<Rightarrow> store_choice \<Rightarrow> string \<Rightarrow> string \<Rightarrow> int \<Rightarrow> launch_error + listener" where
  "run_approval_api E K choice auth_path host port =
   bind_res (check_address ''approval API'' host port) (\<lambda>_.
   bind_res (load_auth E K auth_path) (\<lambda>cs.
   bind_res (open_runtime_store E choice) (\<lambda>backend.
   Inr \<lparr>li_host = host, li_port = port, li_backend = backend, li_app = Api_App cs\<rparr>)))"

text \<open>\<open>DashboardSessionStore(ttl_seconds=...)\<close> keeps at most 1000 sessions unless told otherwise.\<close>

definition default_max_sessions :: int where
  "default_max_sessions = 1000"

definition run_approval_dashboard ::
  "host_env \<Rightarrow> codec \<Rightarrow> store_choice \<Rightarrow> string \<Rightarrow> string \<Rightarrow> int \<Rightarrow> string option \<Rightarrow> bool \<Rightarrow> pyfloat \<Rightarrow>
   launch_error + listener" where
  "run_approval_dashboard E K choice auth_path host port public_origin cookie_secure ttl_seconds =
   bind_res (check_address ''approval dashboard'' host port) (\<lambda>_.
   if \<not> service_loopback E host \<and> (\<not> cookie_secure \<or> public_origin = None) then
     value_error ''non-loopback dashboard listeners require --cookie-secure and --public-origin''
   else
     bind_res (require_existing_file E (so_database_path choice)) (\<lambda>_.
     bind_res (load_auth E K auth_path) (\<lambda>cs.
     bind_res (refusing (make_session_store ttl_seconds default_max_sessions)) (\<lambda>sessions.
     bind_res (open_runtime_store E choice) (\<lambda>backend.
     bind_res (refusing (make_dashboard (he_ip_literal E) sessions cookie_secure public_origin)) (\<lambda>config.
     Inr \<lparr>li_host = host, li_port = port, li_backend = backend, li_app = Dashboard_App cs config\<rparr>))))))"

definition run_slack_service ::
  "host_env \<Rightarrow> codec \<Rightarrow> store_choice \<Rightarrow> string \<Rightarrow> string \<Rightarrow> string \<Rightarrow> int \<Rightarrow> string \<Rightarrow> pyfloat \<Rightarrow>
   launch_error + listener" where
  "run_slack_service E K choice state_path config_path host port interaction_path poll_seconds =
   bind_res (check_address ''Slack service'' host port) (\<lambda>_.
   bind_res (require_existing_file E (so_database_path choice)) (\<lambda>_.
   if \<exists>path \<in> set_option (so_database_path choice). he_resolve E path = he_resolve E state_path then
     value_error ''Slack state database must be separate from the runtime database''
   else
     bind_res (read_text E config_path) (\<lambda>text.
     bind_res (refusing (slack_config_from_text (he_variable E) K text)) (\<lambda>config.
     bind_res (open_runtime_store E choice) (\<lambda>backend.
     bind_res (refusing (slack_service_ok interaction_path poll_seconds)) (\<lambda>_.
     Inr \<lparr>li_host = host, li_port = port, li_backend = backend,
       li_app = Slack_App config interaction_path poll_seconds\<rparr>))))))"

definition max_mcp_request_bytes :: int where
  "max_mcp_request_bytes = 16 * 1024 * 1024"

definition create_http_gateway_app ::
  "host_env \<Rightarrow> gateway \<Rightarrow> string \<Rightarrow> string \<Rightarrow> credential list option \<Rightarrow> int \<Rightarrow> launch_error + service_app" where
  "create_http_gateway_app E g host path auth limit =
   bind_res (refusing (check_all
     [(blank host, ''HTTP gateway host must not be empty''),
      (\<not> starts_with path ''/'' \<or> CHR ''?'' \<in> set path \<or> CHR ''#'' \<in> set path,
        ''HTTP gateway path must be an absolute path without query or fragment''),
      (\<not> (1024 \<le> limit \<and> limit \<le> max_mcp_request_bytes),
        ''HTTP gateway request limit must be between 1024 and '' @ show_int max_mcp_request_bytes @ '' bytes''),
      (auth = None \<and> \<not> mcp_loopback E host, ''non-loopback MCP HTTP listeners require --auth-config'')]))
   (\<lambda>_. Inr (Mcp_App g path limit auth))"

definition run_http_gateway ::
  "host_env \<Rightarrow> codec \<Rightarrow> mcp_config \<Rightarrow> string \<Rightarrow> int \<Rightarrow> string \<Rightarrow> string option \<Rightarrow> int \<Rightarrow> launch_error + listener" where
  "run_http_gateway E K c host port path auth_path limit =
     (if \<not> (1 \<le> port \<and> port \<le> 65535) then value_error ''HTTP gateway port must be between 1 and 65535''
      else
        bind_res (case auth_path of None \<Rightarrow> Inr None
          | Some p \<Rightarrow> bind_res (load_auth E K p) (\<lambda>cs. Inr (Some cs))) (\<lambda>auth.
        bind_res (open_runtime_store E (mc_store c)) (\<lambda>backend.
        bind_res (build_gateway E K c) (\<lambda>g.
        bind_res (create_http_gateway_app E g host path auth limit) (\<lambda>app.
        Inr \<lparr>li_host = host, li_port = port, li_backend = backend, li_app = app\<rparr>)))))"

text \<open>The stdio gateway: the store and the gateway that serves the standard streams.\<close>

definition run_stdio_gateway :: "host_env \<Rightarrow> codec \<Rightarrow> mcp_config \<Rightarrow> launch_error + (backend \<times> gateway)" where
  "run_stdio_gateway E K c =
   bind_res (open_runtime_store E (mc_store c)) (\<lambda>backend.
   bind_res (build_gateway E K c) (\<lambda>g. Inr (backend, g)))"

text \<open>
  What a listener does with the head of an HTTP request before its handlers run: the gateway's
  middleware authenticates it when there is one.
\<close>

definition mcp_admits ::
  "codec \<Rightarrow> credential list option \<Rightarrow> string option \<Rightarrow> middleware_outcome" where
  "mcp_admits K auth authorization = (case auth of
     None \<Rightarrow> Mw_Pass None
   | Some cs \<Rightarrow> mcp_middleware K cs ''http'' authorization)"

section \<open>Workers and their stores\<close>

text \<open>The webhook worker, once its configuration and the store are there: one run, or the checked loop.\<close>

definition webhook_poll_ok :: "pyfloat \<Rightarrow> runtime_error + unit" where
  "webhook_poll_ok seconds = (if \<not> is_finite seconds \<or> num_le seconds (of_int_num 0)
     then Inl (ValueError ''webhook poll interval must be finite and greater than zero'') else Inr ())"

definition run_webhook_worker ::
  "host_env \<Rightarrow> codec \<Rightarrow> store_choice \<Rightarrow> string \<Rightarrow> bool \<Rightarrow> pyfloat \<Rightarrow>
   launch_error + (backend \<times> webhook_endpoint list)" where
  "run_webhook_worker E K choice config_path once poll_seconds =
   bind_res (require_existing_file E (so_database_path choice)) (\<lambda>_.
   bind_res (read_text E config_path) (\<lambda>text.
   bind_res (refusing (webhook_config_from_text (he_ip_literal E) (he_variable E) K text)) (\<lambda>endpoints.
   bind_res (open_runtime_store E choice) (\<lambda>backend.
   bind_res (if once then Inr () else refusing (webhook_poll_ok poll_seconds)) (\<lambda>_.
   Inr (backend, endpoints))))))"

text \<open>
  The operator's calls on a worker's state file: the snapshots, and the requeueing of one dead item.
\<close>

definition on_state_file ::
  "host_env \<Rightarrow> string \<Rightarrow> ('w \<Rightarrow> (runtime_error + 'a) \<times> 'w) \<Rightarrow> 'w \<Rightarrow> (launch_error + 'a) \<times> 'w" where
  "on_state_file E state_path operation w = (case require_existing_file E (Some state_path) of
     Inl e \<Rightarrow> (Inl e, w)
   | Inr _ \<Rightarrow> (case operation w of (r, w') \<Rightarrow> (refusing r, w')))"

definition webhook_delivery_status ::
  "host_env \<Rightarrow> string \<Rightarrow> webhook_db \<Rightarrow> (launch_error + webhook_snapshot list) \<times> webhook_db" where
  "webhook_delivery_status E path = on_state_file E path (\<lambda>w. (Inr (snapshots w), w))"

definition retry_webhook_delivery ::
  "host_env \<Rightarrow> string \<Rightarrow> int \<Rightarrow> string \<Rightarrow> string \<Rightarrow> webhook_db \<Rightarrow>
   (launch_error + webhook_snapshot) \<times> webhook_db" where
  "retry_webhook_delivery E path now endpoint_id event_id =
     on_state_file E path (retry_dead now endpoint_id event_id)"

definition slack_notification_status ::
  "host_env \<Rightarrow> string \<Rightarrow> slack_db \<Rightarrow> (launch_error + notification_snapshot list) \<times> slack_db" where
  "slack_notification_status E path = on_state_file E path (\<lambda>w. (Inr (notification_snapshots w), w))"

definition retry_slack_notification ::
  "host_env \<Rightarrow> string \<Rightarrow> int \<Rightarrow> string \<Rightarrow> slack_db \<Rightarrow> (launch_error + notification_snapshot) \<times> slack_db" where
  "retry_slack_notification E path now action_id = on_state_file E path (retry_dead_notification now action_id)"

end
