(* ===== verification/Mcp_Props.thy ===== *)
theory Mcp_Props
  imports Launch Slack_Props Dash_Props Auth_Props Barrier_Live
begin

text \<open>
  What the gateway adds to the barrier: a tool call reaches the upstream server only under a claim on
  exactly this call, and an answer that refuses a call tells the caller whether it may have run; and no service listens beyond the
  loopback interface without its guard. At the end a concrete call and a concrete listener.
\<close>

section \<open>The run behind a call\<close>

lemma key_text_SomeD: "key_text v = Some k \<Longrightarrow> v = JStr k \<and> \<not> blank k"
  by (auto simp: key_text_def split: json.splits if_splits)

lemma gateway_key_InrD:
  "gateway_key resolver call = Inr key \<Longrightarrow>
   resolver (tc_name call) (normalized_arguments call) (tc_meta call) = Inr (JStr key) \<and> \<not> blank key"
  by (auto simp: gateway_key_def bind_res_Inr_iff dest: key_text_SomeD split: option.splits)

text \<open>The attempt that the gateway makes of a call.\<close>

definition call_attempt ::
  "'s upstream \<Rightarrow> 's attempt \<Rightarrow> (('s \<Rightarrow> 's) \<times> ('s \<Rightarrow> 's)) list \<Rightarrow> tool_call \<Rightarrow> 's attempt" where
  "call_attempt upstream att segments call =
     att\<lparr>at_operation := awaited segments (forward upstream call)\<rparr>"

lemma call_attempt_simps [simp]:
  "at_before_claim (call_attempt upstream att segments call) = at_before_claim att"
  "at_before_report (call_attempt upstream att segments call) = at_before_report att"
  "at_claim_ns (call_attempt upstream att segments call) = at_claim_ns att"
  "at_operation (call_attempt upstream att segments call) = awaited segments (forward upstream call)"
  "barrier_request b (call_attempt upstream att segments call) t args key = barrier_request b att t args key"
  by (simp_all add: call_attempt_def barrier_request_def)

lemma call_tool_key:
  "gateway_key (gw_resolver g) call = Inr key \<Longrightarrow>
   call_tool ops K handler validates g upstream att segments call s =
     (let run = execute ops K handler (gw_barrier g) (call_attempt upstream att segments call) (tc_name call)
        (normalized_arguments call) key s
      in (gateway_answer_of validates (xr_result run), xr_state run, xr_called run))"
  by (simp add: call_tool_def execute_async_def call_attempt_def)

lemma call_tool_called:
  assumes "call_tool ops K handler validates g upstream att segments call s = (answer, s', Some s2)"
  obtains key where "gateway_key (gw_resolver g) call = Inr key"
    "xr_called (execute ops K handler (gw_barrier g) (call_attempt upstream att segments call) (tc_name call)
       (normalized_arguments call) key s) = Some s2"
    "answer = gateway_answer_of validates (xr_result (execute ops K handler (gw_barrier g)
       (call_attempt upstream att segments call) (tc_name call) (normalized_arguments call) key s))"
proof (cases "gateway_key (gw_resolver g) call")
  case (Inl e)
  then show thesis using assms by (cases e) (simp_all add: call_tool_def)
next
  case (Inr key)
  with assms that show thesis by (auto simp: call_tool_key Let_def)
qed

text \<open>
  C28. The gateway does not open a way around the policy: when a tool call reaches the upstream server,
  its idempotency key is the one the resolver has read from the call, and the action bound to exactly
  this namespace, tool, key and arguments is executing under a fresh lease; its policy effect is not
  deny, and if that effect requires approval the log holds an approval.
\<close>

theorem gateway_forwards_under_claim:
  assumes "reachable K lease s" and "\<And>x. later K lease x (at_before_claim att x)"
    and "codec_ok K" and "json_wf (JObj (normalized_arguments call))"
    and "call_tool (sql_store K lease) K handler validates g upstream att segments call s = (answer, s', Some s2)"
  shows "\<exists>key i r. gw_resolver g (tc_name call) (normalized_arguments call) (tc_meta call) = Inr (JStr key) \<and>
    \<not> blank key \<and> find_action i s2 = Some r \<and> r_status r = EXECUTING \<and>
    r_execution_lease_expires_at_ns r = Some (at_claim_ns att + lease) \<and>
    (r_namespace r, r_tool_name r, r_idempotency_key r) = (ba_namespace (gw_barrier g), tc_name call, key) \<and>
    r_request_digest r =
      request_digest K (barrier_request (gw_barrier g) att (tc_name call) (normalized_arguments call) key) \<and>
    r_policy_effect r \<noteq> DENY \<and>
    (r_policy_effect r = REQUIRE_APPROVAL \<longrightarrow> Ev_APPROVED \<in> set (map rc_event (receipts (Some i) s2)))"
proof -
  obtain key where key: "gateway_key (gw_resolver g) call = Inr key"
    and called: "xr_called (execute (sql_store K lease) K handler (gw_barrier g)
      (call_attempt upstream att segments call) (tc_name call) (normalized_arguments call) key s) = Some s2"
    by (rule call_tool_called [OF assms(5)])
  obtain a c s1 row where cr: "claimed_run K lease (gw_barrier g) (call_attempt upstream att segments call)
      (tc_name call) (normalized_arguments call) key s s2 a c s1 row"
    by (rule called_facts [OF assms(1) _ assms(3,4) called]) (simp add: assms(2))
  show ?thesis
    using gateway_key_InrD [OF key] claimed_run_action [OF cr] by auto
qed

section \<open>Refusals\<close>

lemma awaited_keeps:
  assumes "\<And>segment others x. (segment, others) \<in> set segments \<Longrightarrow> P x \<Longrightarrow> P (others (segment x))"
    and "\<And>x. P x \<Longrightarrow> P (snd (operation x))" and "P s"
  shows "P (snd (awaited segments operation s))"
  using assms by (induction segments operation s rule: awaited.induct) auto

context store_contract
begin

text \<open>After the operation was called, the only error of the runtime says that the outcome is unknown.\<close>

lemma called_failure:
  assumes "inv s" and before: "\<And>x. inv x \<Longrightarrow> inv (at_before_claim att x)"
    and operation: "\<And>x. inv x \<Longrightarrow> inv (snd (at_operation att x))"
    and report: "\<And>x. inv x \<Longrightarrow> inv (at_before_report att x)"
    and called: "xr_called (execute ops K handler b att t args key s) = Some s2"
    and failed: "xr_result (execute ops K handler b att t args key s) = Inl (Runtime_Exn e)"
  shows "\<exists>u. e = ActionOutcomeUnknown u \<and> ra_status u = UNKNOWN"
proof (rule called_under_claim [OF assms(1) before called])
  fix rq a s1 c
  assume r: "prepare_request ops K b att t args key s = (Inr (rq, a), s1)" and i2: "inv s2"
    and cl: "st_claim ops (at_claim_ns att) (ra_action_id a) (request_digest K rq) (at_before_claim att s1) = (Inr c, s2)"
    and ex: "ec_outcome c = EXECUTE"
  obtain out s3 where op: "at_operation att s2 = (out, s3)" by fastforce
  have i3: "inv s3" using operation [OF i2] op by simp
  obtain res s4 where res: "complete_result ops K att (ec_action c) rq out s3 = (res, s4)" by fastforce
  show ?thesis
  proof (cases out)
    case (Op_Raised x)
    obtain u s5 where "record_unknown ops K (at_report_ns att) (ec_action c) rq x (at_before_report att s3) = (u, s5)"
      by fastforce
    from execute_run(2) [OF r cl ex op [unfolded Op_Raised] this] failed show ?thesis by simp
  next
    case (Op_Returned v)
    show ?thesis
    proof (cases res)
      case (Inl u)
      from execute_run(3) [OF r cl ex op _ res [unfolded Inl]] Op_Returned failed
        complete_result_fails(2) [OF i3 res [unfolded Inl] report]
      show ?thesis by auto
    next
      case (Inr d)
      from execute_run(4) [OF r cl ex op [unfolded Op_Returned] res [unfolded Inr Op_Returned]] failed
      show ?thesis by simp
    qed
  next
    case Op_Unsupported
    then obtain u where "res = Inl u"
      using res by (cases res) (auto simp: complete_result_def encode_result_def split: prod.splits)
    with execute_run(3) [OF r cl ex op _ res [unfolded this]] Op_Unsupported failed
      complete_result_fails(2) [OF i3 res [unfolded this] report]
    show ?thesis by auto
  qed
qed

end

lemma later_ok: "later K lease s s' \<Longrightarrow> store_ok K s \<Longrightarrow> store_ok K s'"
  by (induction rule: later.induct) (auto intro: step_ok)

lemma refused_answer:
  assumes "gateway_answer_of validates r = Gw_Refused message meta"
  shows "\<exists>e. r = Inl (Runtime_Exn e)"
    "r = Inl (Runtime_Exn (ActionOutcomeUnknown u)) \<Longrightarrow> meta = action_metadata u"
  using assms by (auto simp: gateway_answer_of_def error_action_def split: sum.splits call_error.splits if_splits)

text \<open>
  C29. A refused call has not run, unless the refusal says that nobody knows: when the gateway answers a
  call with an error of its own, the upstream server was not called, or the answer names an action
  whose outcome is unknown. In particular, a call that waits for approval was not forwarded.
\<close>

theorem gateway_refusal_is_honest:
  assumes "reachable K lease s" and "\<And>x. later K lease x (at_before_claim att x)"
    and "\<And>x. later K lease x (at_before_report att x)"
    and "\<And>c x. later K lease x (snd (upstream c x))"
    and "\<And>segment others x. (segment, others) \<in> set segments \<Longrightarrow> later K lease x (others (segment x))"
    and "call_tool (sql_store K lease) K handler validates g upstream att segments call s =
      (Gw_Refused message meta, s', called)"
  shows "called = None \<or> (\<exists>a. meta = action_metadata a \<and> ra_status a = UNKNOWN)"
proof (cases called)
  case (Some s2)
  obtain key where called: "xr_called (execute (sql_store K lease) K handler (gw_barrier g)
      (call_attempt upstream att segments call) (tc_name call) (normalized_arguments call) key s) = Some s2"
    and answer: "Gw_Refused message meta = gateway_answer_of validates (xr_result (execute (sql_store K lease)
      K handler (gw_barrier g) (call_attempt upstream att segments call) (tc_name call)
      (normalized_arguments call) key s))"
    by (rule call_tool_called [OF assms(6) [unfolded Some]])
  obtain e where e: "xr_result (execute (sql_store K lease) K handler (gw_barrier g)
      (call_attempt upstream att segments call) (tc_name call) (normalized_arguments call) key s) = Inl (Runtime_Exn e)"
    using refused_answer(1) [OF answer [symmetric]] by blast
  have keeps: "store_ok K x \<Longrightarrow> store_ok K y" if "later K lease x y" for x y
    using that by (rule later_ok)
  have operation: "store_ok K x \<Longrightarrow> store_ok K (snd (awaited segments (forward upstream call) x))" for x
    using keeps [OF assms(4)] keeps [OF assms(5)]
    by (intro awaited_keeps [where P = "store_ok K"])
      (auto simp: forward_def split: prod.splits upstream_outcome.splits dest: sndI)
  obtain u where "e = ActionOutcomeUnknown u" "ra_status u = UNKNOWN"
    using sql.called_failure [OF reachable_ok [OF assms(1)] _ _ _ called e] keeps [OF assms(2)] keeps [OF assms(3)]
      operation by auto
  with refused_answer(2) [OF answer [symmetric]] e show ?thesis by auto
qed simp

section \<open>Listeners\<close>

text \<open>What the entry points of the services hand to the web server.\<close>

inductive listens :: "host_env \<Rightarrow> codec \<Rightarrow> listener \<Rightarrow> bool" for E K where
  listens_api: "run_approval_api E K choice auth_path host port = Inr l \<Longrightarrow> listens E K l"
| listens_dashboard: "run_approval_dashboard E K choice auth_path host port origin secure ttl = Inr l \<Longrightarrow>
    listens E K l"
| listens_slack: "run_slack_service E K choice state_path config_path host port path seconds = Inr l \<Longrightarrow>
    listens E K l"
| listens_mcp: "make_mcp_config E c = Inr c' \<Longrightarrow>
    run_http_gateway E K c' host port path auth_path limit = Inr l \<Longrightarrow> listens E K l"

lemma refusing_Inr_iff [result_simps]: "refusing r = Inr v \<longleftrightarrow> r = Inr v"
  by (simp add: refusing_def split: sum.split)

lemma value_error_neq [simp]: "value_error message \<noteq> Inr v" "Inr v \<noteq> value_error message"
  by (simp_all add: value_error_def)

lemma load_auth_InrD: "load_auth E K path = Inr cs \<Longrightarrow> auth_ok cs"
  by (auto simp: load_auth_def result_simps dest: auth_from_text_InrD(1))

lemma check_all_iff [result_simps]: "check_all rules = Inr () \<longleftrightarrow> list_all (\<lambda>r. \<not> fst r) rules"
  by (auto simp: check_all_def list_all_iff find_None_iff find_Some_iff split: option.split)

lemma https_origin:
  assumes "make_dashboard literal sessions True (Some origin) = Inr config"
  shows "dg_cookie_secure config \<and> (\<exists>rest. dg_public_origin config = Some (''https://'' @ rest))"
proof -
  obtain t where "normalize_public_origin literal (Some origin) = Inr (Some t)" "starts_with t ''https://''"
    "config = \<lparr>dg_sessions = sessions, dg_cookie_secure = True, dg_public_origin = Some t\<rparr>"
    using assms normalized_origin by (fastforce simp: make_dashboard_def result_simps split: if_splits)
  moreover from this(2) have "take (length ''https://'') t = ''https://''"
    by (simp add: starts_with_def)
  ultimately show ?thesis by (metis append_take_drop_id dash_config.select_convs(2,3))
qed

lemma admitted_caller:
  assumes "auth_ok cs"
  shows "case mcp_admits K (Some cs) authorization of
      Mw_Pass p \<Rightarrow> (\<exists>header token c. authorization = Some header \<and> presents header token \<and> c \<in> set cs \<and>
        cd_token_digest c = sha256_hex K token \<and> p = Some (cd_principal c) \<and>
        has_scope (cd_principal c) ''mcp:call'')
    | Mw_Answer status body headers \<Rightarrow> status \<in> {401, 403}"
proof (cases authorization)
  case None
  then show ?thesis
    by (simp add: mcp_admits_def mcp_middleware_def authenticate_def missing_token_def bind_res_def)
next
  case (Some header)
  show ?thesis
  proof (cases "authenticate K cs authorization")
    case (Inl e)
    moreover have "ae_status e \<in> {401, 403}"
      using Inl by (auto simp: authenticate_def missing_token_def invalid_token_def
          split: option.splits prod.splits if_splits)
    ultimately show ?thesis by (simp add: mcp_admits_def mcp_middleware_def bind_res_def)
  next
    case (Inr p)
    moreover obtain token c where "presents header token" "c \<in> set cs"
      "cd_token_digest c = sha256_hex K token" "cd_principal c = p"
      using Inr authenticate_cases [of cs K header p] assms by (auto simp: Some auth_ok_def)
    ultimately show ?thesis
      using Some by (auto simp: mcp_admits_def mcp_middleware_def mcp_call_scope_def require_scope_def bind_res_def)
  qed
qed

text \<open>
  C30. Nothing listens beyond the loopback interface without a guard. A listener on another host is the
  approval API with credentials; the dashboard with credentials, secure cookies and an HTTPS origin;
  the Slack service with a signing secret; or the MCP gateway with credentials, which passes an HTTP
  request on only for a caller whose token is among them and grants \<open>mcp:call\<close>, and answers every
  other one with 401 or 403.
\<close>

theorem public_listeners_are_guarded:
  assumes "listens E K l" and "\<not> service_loopback E (li_host l)" and "\<not> mcp_loopback E (li_host l)"
  shows "case li_app l of
      Api_App cs \<Rightarrow> cs \<noteq> []
    | Dashboard_App cs config \<Rightarrow> cs \<noteq> [] \<and> dg_cookie_secure config \<and>
        (\<exists>rest. dg_public_origin config = Some (''https://'' @ rest))
    | Slack_App config path seconds \<Rightarrow> 32 \<le> length (sc_signing_secret config)
    | Mcp_App g path limit auth \<Rightarrow> (\<exists>cs. auth = Some cs \<and> cs \<noteq> [] \<and>
        (\<forall>authorization. case mcp_admits K auth authorization of
            Mw_Pass p \<Rightarrow> (\<exists>header token c. authorization = Some header \<and> presents header token \<and> c \<in> set cs \<and>
              cd_token_digest c = sha256_hex K token \<and> p = Some (cd_principal c) \<and>
              has_scope (cd_principal c) ''mcp:call'')
          | Mw_Answer status body headers \<Rightarrow> status \<in> {401, 403}))"
  using assms
proof (cases rule: listens.cases)
  case (listens_api choice auth_path host port)
  then show ?thesis
    by (auto simp: run_approval_api_def result_simps auth_ok_def dest!: load_auth_InrD)
next
  case (listens_dashboard choice auth_path host port origin secure ttl)
  then show ?thesis
    using assms(2)
    by (auto simp: run_approval_dashboard_def result_simps auth_ok_def dest!: load_auth_InrD https_origin
        split: if_splits)
next
  case (listens_slack choice state_path config_path host port path seconds)
  then obtain data config where "slack_config_from_mapping (he_variable E) data = Inr config"
    and l: "li_app l = Slack_App config path seconds"
    by (auto simp: run_slack_service_def slack_config_from_text_def result_simps
        split: if_splits option.splits json.splits)
  then have "32 \<le> length (sc_signing_secret config)"
    using slack_config_from_mapping_InrD make_slack_config_InrD by metis
  with l show ?thesis by simp
next
  case (listens_mcp c c' host port path auth_path limit)
  then obtain g auth where l: "li_app l = Mcp_App g path limit auth" "li_host l = host"
    and auth: "auth = None \<longrightarrow> mcp_loopback E host" "\<And>cs. auth = Some cs \<Longrightarrow> auth_ok cs"
    by (auto simp: run_http_gateway_def create_http_gateway_app_def result_simps
        split: if_splits option.splits dest!: load_auth_InrD)
  then obtain cs where "auth = Some cs" "auth_ok cs" using assms(3) by (cases auth) auto
  with admitted_caller [OF \<open>auth_ok cs\<close>] show ?thesis by (simp add: l(1) auth_ok_def)
qed

text \<open>
  The token for the upstream server leaves the host only over TLS and never follows a redirect.
\<close>

lemma upstream_token_stays_private:
  assumes "make_mcp_config E c = Inr c'" and "client_factory E K c' = Inr (Http_Client url headers read redirects t)"
  shows "\<not> redirects \<and> (\<exists>u. urlsplit (he_ip_literal E) url = Some u \<and> \<not> has_user_info u \<and>
    (up_scheme u = ''https'' \<or> up_scheme u = ''http'' \<and> (\<exists>h. hostname u = Some h \<and> mcp_loopback E h)))"
proof -
  have c: "c' = c" "\<And>u. mc_upstream_url c = Some u \<Longrightarrow> validate_upstream_url E u = Inr ()"
    using assms(1) by (auto simp: make_mcp_config_def Let_def result_simps split: option.splits)
  have "mc_upstream_url c = Some url \<and> \<not> redirects"
    using assms(2) by (auto simp: client_factory_def http_transport_def result_simps c(1)
        required_variable_def split: option.splits)
  with c(2) [of url] show ?thesis
    by (auto simp: validate_upstream_url_def split: option.splits if_splits)
qed

section \<open>A concrete call\<close>

definition demo_gateway :: gateway where
  "demo_gateway = \<lparr>gw_barrier = demo_barrier, gw_resolver = meta_idempotency_key\<rparr>"

definition demo_call :: tool_call where
  "demo_call = \<lparr>tc_name = ''pay_bill'', tc_arguments = Some (demo_args 50),
     tc_meta = Some [(''agentbarrier/idempotencyKey'', JStr ''k'')], tc_input_responses = None,
     tc_request_state = None\<rparr>"

definition demo_upstream :: "json \<Rightarrow> db upstream" where
  "demo_upstream v = (\<lambda>call s. (Up_Result v, s))"

lemma demo_call_simps [simp]:
  "tc_name demo_call = ''pay_bill''" "normalized_arguments demo_call = demo_args 50"
  "gw_barrier demo_gateway = demo_barrier"
  by (simp_all add: demo_call_def normalized_arguments_def demo_gateway_def)

lemma demo_key: "gateway_key (gw_resolver demo_gateway) demo_call = Inr ''k''"
  by code_simp

lemma demo_call_attempt:
  "call_attempt (demo_upstream v) (demo_attempt i out) [] demo_call = demo_attempt i (Op_Returned v)"
  by (simp add: call_attempt_def demo_attempt_def forward_def demo_upstream_def fun_eq_iff)

lemma demo_call_tool:
  "call_tool (sql_store demo_codec 100) demo_codec h validates demo_gateway (demo_upstream v)
     (demo_attempt i out) [] demo_call s =
   (let run = execute (sql_store demo_codec 100) demo_codec h demo_barrier (demo_attempt i (Op_Returned v))
      ''pay_bill'' (demo_args 50) ''k'' s
    in (gateway_answer_of validates (xr_result run), xr_state run, xr_called run))"
  by (simp only: call_tool_key [OF demo_key] demo_call_attempt demo_call_simps)

lemma demo_conditions:
  "later demo_codec 100 x (at_before_claim (demo_attempt i out) x)"
  "later demo_codec 100 x (at_before_report (demo_attempt i out) x)"
  "later demo_codec 100 x (snd (demo_upstream v call x))"
  "json_wf (JObj (normalized_arguments demo_call))"
  by (simp_all only: demo_attempt_simps demo_upstream_def snd_conv id_apply later_refl demo_call_simps
      demo_args_wf(1))

lemma gateway_forwards_under_claim_witness:
  "\<exists>answer s' s2 i r. call_tool (sql_store demo_codec 100) demo_codec (\<lambda>_. None) (\<lambda>_. True) demo_gateway
      (demo_upstream (JInt 7)) (demo_attempt ''c1'' Op_Unsupported) [] demo_call empty_db = (answer, s', Some s2) \<and>
    find_action i s2 = Some r \<and> r_status r = EXECUTING"
proof -
  obtain s2 where "xr_called (execute (sql_store demo_codec 100) demo_codec (\<lambda>_. None) demo_barrier
      (demo_attempt ''c1'' (Op_Returned (JInt 7))) ''pay_bill'' (demo_args 50) ''k'' empty_db) = Some s2"
    using demo_called [OF demo_ids(1)] by blast
  then obtain answer s' where run: "call_tool (sql_store demo_codec 100) demo_codec (\<lambda>_. None) (\<lambda>_. True)
      demo_gateway (demo_upstream (JInt 7)) (demo_attempt ''c1'' Op_Unsupported) [] demo_call empty_db =
      (answer, s', Some s2)"
    by (simp add: demo_call_tool Let_def)
  from gateway_forwards_under_claim [OF reach_init demo_conditions(1) demo_codec_ok demo_conditions(4) run] run
  show ?thesis by blast
qed

text \<open>The upstream returned a value that is not JSON: the call ran, and the answer says so.\<close>

lemma demo_unencodable:
  "\<exists>u s' s2. call_tool (sql_store demo_codec 100) demo_codec (\<lambda>_. None) (\<lambda>_. True) demo_gateway
      (demo_upstream (JFloat NaN)) (demo_attempt ''c1'' Op_Unsupported) [] demo_call empty_db =
    (Gw_Refused (action_message u (ActionOutcomeUnknown u)) (action_metadata u), s', Some s2)"
proof -
  let ?att = "demo_attempt ''c1'' (Op_Returned (JFloat NaN)) :: db attempt"
  let ?run = "execute (sql_store demo_codec 100) demo_codec (\<lambda>_. None) demo_barrier ?att ''pay_bill''
      (demo_args 50) ''k'' empty_db"
  obtain s2 where called: "xr_called ?run = Some s2"
    using demo_called [OF demo_ids(1)] by blast
  obtain a c s1 row where cr: "claimed_run demo_codec 100 demo_barrier ?att ''pay_bill'' (demo_args 50) ''k''
      empty_db s2 a c s1 row"
    by (rule called_facts [OF reach_init _ demo_codec_ok demo_args_wf(1) called]) (simp add: later_refl)
  let ?rq = "barrier_request demo_barrier ?att ''pay_bill'' (demo_args 50) ''k''"
  have run: "prepare_request (sql_store demo_codec 100) demo_codec demo_barrier ?att ''pay_bill'' (demo_args 50)
      ''k'' empty_db = (Inr (?rq, a), s1)"
    "st_claim (sql_store demo_codec 100) (at_claim_ns ?att) (ra_action_id a) (request_digest demo_codec ?rq)
      (at_before_claim ?att s1) = (Inr c, s2)" "ec_outcome c = EXECUTE"
    using cr by (simp_all add: claimed_run_def)
  have "encode_result demo_codec (Op_Returned (JFloat NaN)) = Inl ''ValueError''"
    by code_simp
  moreover obtain u s4 where "record_unknown (sql_store demo_codec 100) demo_codec (at_report_ns ?att) (ec_action c)
      ?rq ''ValueError'' (at_before_report ?att s2) = (u, s4)" by fastforce
  ultimately have "complete_result (sql_store demo_codec 100) demo_codec ?att (ec_action c) ?rq
      (Op_Returned (JFloat NaN)) s2 = (Inl u, s4)"
    by (simp only: complete_result_def sum.case prod.case)
  from execute_run(3) [OF run _ _ this, of "\<lambda>_. None"] called show ?thesis
    by (auto simp: demo_call_tool Let_def gateway_answer_of_def error_action_def)
qed

lemma gateway_refusal_is_honest_witness:
  "\<exists>message a s' s2. call_tool (sql_store demo_codec 100) demo_codec (\<lambda>_. None) (\<lambda>_. True) demo_gateway
      (demo_upstream (JFloat NaN)) (demo_attempt ''c1'' Op_Unsupported) [] demo_call empty_db =
      (Gw_Refused message (action_metadata a), s', Some s2) \<and> ra_status a = UNKNOWN"
proof -
  obtain u s' s2 where run: "call_tool (sql_store demo_codec 100) demo_codec (\<lambda>_. None) (\<lambda>_. True) demo_gateway
      (demo_upstream (JFloat NaN)) (demo_attempt ''c1'' Op_Unsupported) [] demo_call empty_db =
    (Gw_Refused (action_message u (ActionOutcomeUnknown u)) (action_metadata u), s', Some s2)"
    using demo_unencodable by blast
  obtain a where "action_metadata u = action_metadata a" "ra_status a = UNKNOWN"
    using gateway_refusal_is_honest [OF reach_init demo_conditions(1-3) _ run] by auto
  with run show ?thesis by metis
qed

section \<open>A gateway on every interface\<close>

definition demo_host :: host_env where
  "demo_host = \<lparr>he_variable = (\<lambda>name. None),
     he_file = map_of [(''auth.json'', dumps demo_codec (JObj demo_auth_document)),
       (''policy.json'', dumps demo_codec (JObj demo_document))],
     he_resolve = id, he_ip_loopback = map_of [(''0.0.0.0'', False), (''127.0.0.1'', True)],
     he_ip_literal = (\<lambda>t. False)\<rparr>"

definition demo_mcp_config :: mcp_config where
  "demo_mcp_config = \<lparr>mc_policy_path = ''policy.json'',
     mc_store = runner_store (Some ''agentbarrier.db'') None ''agentbarrier'', mc_namespace = ''payments'',
     mc_upstream_url = Some ''http://127.0.0.1:9000/mcp'', mc_upstream_command = None, mc_upstream_args = [],
     mc_upstream_timeout_seconds = None, mc_upstream_bearer_token_env = None, mc_idempotency_argument = None,
     mc_organization_id = ''default'', mc_requested_by = None\<rparr>"

definition demo_listener :: listener where
  "demo_listener = \<lparr>li_host = ''0.0.0.0'', li_port = 8765, li_backend = Sqlite_Backend ''agentbarrier.db'',
     li_app = Mcp_App demo_gateway ''/mcp'' 1048576 (Some demo_credentials)\<rparr>"

lemma demo_upstream_url: "validate_upstream_url demo_host ''http://127.0.0.1:9000/mcp'' = Inr ()"
proof -
  have "urlsplit (he_ip_literal demo_host) ''http://127.0.0.1:9000/mcp'' =
      Some \<lparr>up_scheme = ''http'', up_netloc = ''127.0.0.1:9000'', up_path = ''/mcp'', up_query = [], up_fragment = []\<rparr>"
    by code_simp
  moreover have "host_and_port ''127.0.0.1:9000'' = (''127.0.0.1'', ''9000'')" by code_simp
  moreover have "mcp_loopback demo_host ''127.0.0.1''" by code_simp
  moreover have "read_nat ''9000'' = 9000" by (simp add: read_nat_def digit_val_def code_def)
  ultimately show ?thesis
    by (simp add: validate_upstream_url_def port_ok_def url_port_def hostname_def has_user_info_def
        py_lower_def lower_char_def ascii_digit_def code_def)
qed

lemma demo_mcp_configured: "make_mcp_config demo_host demo_mcp_config = Inr demo_mcp_config"
proof -
  have "\<not> blank ''payments''" "\<not> blank ''default''" "\<not> blank ''http://127.0.0.1:9000/mcp''"
    by code_simp+
  then show ?thesis
    by (simp add: make_mcp_config_def demo_mcp_config_def runner_store_def exactly_one_def check_all_def
        demo_upstream_url bind_res_def)
qed

lemma demo_listens: "listens demo_host demo_codec demo_listener"
proof (rule listens_mcp [OF demo_mcp_configured])
  have "load_auth demo_host demo_codec ''auth.json'' = Inr demo_credentials"
    by (simp add: load_auth_def read_text_def demo_host_def demo_auth_loads refusing_def bind_res_def)
  moreover have "build_gateway demo_host demo_codec demo_mcp_config = Inr demo_gateway"
  proof -
    have "make_barrier demo_policy ''payments'' ''default'' None = Inr demo_barrier" by code_simp
    then show ?thesis
      by (simp add: build_gateway_def read_text_def demo_host_def demo_mcp_config_def demo_text_loads refusing_def
          bind_res_def demo_gateway_def)
  qed
  moreover have "create_http_gateway_app demo_host demo_gateway ''0.0.0.0'' ''/mcp'' (Some demo_credentials) 1048576 =
      Inr (Mcp_App demo_gateway ''/mcp'' 1048576 (Some demo_credentials))"
  proof -
    have "\<not> blank ''0.0.0.0''" "starts_with ''/mcp'' ''/''" by code_simp+
    then show ?thesis
      by (simp add: create_http_gateway_app_def check_all_def refusing_def bind_res_def max_mcp_request_bytes_def)
  qed
  moreover have "open_runtime_store demo_host (mc_store demo_mcp_config) = Inr (Sqlite_Backend ''agentbarrier.db'')"
    by code_simp
  ultimately show "run_http_gateway demo_host demo_codec demo_mcp_config ''0.0.0.0'' 8765 ''/mcp'' (Some ''auth.json'')
      1048576 = Inr demo_listener"
    by (simp add: run_http_gateway_def bind_res_def demo_listener_def)
qed

text \<open>The demo's credentials do not grant \<open>mcp:call\<close>.\<close>

lemma public_listeners_are_guarded_witness:
  "\<exists>cs. Some demo_credentials = Some cs \<and> cs \<noteq> [] \<and>
     (\<exists>body headers. mcp_admits demo_codec (Some cs) (Some demo_header) = Mw_Answer 403 body headers)"
proof -
  have "\<not> service_loopback demo_host (li_host demo_listener)" "\<not> mcp_loopback demo_host (li_host demo_listener)"
    by code_simp+
  from public_listeners_are_guarded [OF demo_listens this]
  have "demo_credentials \<noteq> []" by (simp add: demo_listener_def)
  moreover have "mcp_admits demo_codec (Some demo_credentials) (Some demo_header) \<noteq> Mw_Pass p" for p
    by (simp add: mcp_admits_def mcp_middleware_def demo_header_authenticates require_scope_def has_scope_def
        alice_def mcp_call_scope_def bind_res_def)
  ultimately show ?thesis
    by (simp add: mcp_admits_def mcp_middleware_def demo_header_authenticates require_scope_def has_scope_def
        alice_def mcp_call_scope_def bind_res_def)
qed

end
