(* ===== verification/Telemetry.thy ===== *)
theory Telemetry
  imports Barrier_Live Serialization "HOL-Library.AList"
begin

text \<open>
  The OpenTelemetry observer of observability.py: what it makes of the observation calls of one attempt.
  A signal is a call on the OpenTelemetry API or on the logger, with its attributes in the order of the
  dictionary; the API and the logger themselves are outside. Then the privacy of the signals, and that
  every attempt is counted once.
\<close>

section \<open>Configuration\<close>

record telemetry_config =
  te_include_action_id :: bool
  te_include_organization_id :: bool
  te_include_namespace :: bool
  te_include_tool_name :: bool
  te_include_policy_version :: bool
  te_metric_dimensions :: "string list"

definition known_dimensions :: "string list" where
  "known_dimensions = [''organization_id'', ''namespace'', ''tool_name'']"

text \<open>\<open>OpenTelemetryConfig.__post_init__\<close>; a set is the list of its elements.\<close>

definition make_telemetry_config :: "telemetry_config \<Rightarrow> runtime_error + telemetry_config" where
  "make_telemetry_config c =
     (let unknown = sort (filter (\<lambda>d. d \<notin> set known_dimensions) (te_metric_dimensions c))
      in if unknown \<noteq> [] then
           Inl (ValueError (''unknown AgentBarrier metric dimensions: '' @ join_on '', '' unknown))
         else Inr c)"

section \<open>Signals\<close>

type_synonym attributes = "(string \<times> string) list"

datatype log_level = Log_Info | Log_Error

datatype signal =
  Span_Start string attributes
| Span_Attributes attributes
| Span_Error_Status
| Count_Attempt attributes
| Record_Duration pyfloat attributes
| Log_Record log_level string attributes

text \<open>What an attempt is observed under, and the state of its observation.\<close>

record attempt_scope =
  an_organization_id :: string
  an_namespace :: string
  an_tool_name :: string

record telemetry_state =
  ts_action :: "runtime_action option"
  ts_finished :: bool
  ts_signals :: "signal list"

definition put_if :: "bool \<Rightarrow> string \<Rightarrow> string \<Rightarrow> attributes \<Rightarrow> attributes" where
  "put_if b k v m = (if b then AList.update k v m else m)"

definition identity_attributes :: "telemetry_config \<Rightarrow> attempt_scope \<Rightarrow> attributes" where
  "identity_attributes c i =
     put_if (te_include_tool_name c) ''agentbarrier.tool.name'' (an_tool_name i)
     (put_if (te_include_namespace c) ''agentbarrier.namespace'' (an_namespace i)
     (put_if (te_include_organization_id c) ''agentbarrier.organization.id'' (an_organization_id i) []))"

text \<open>\<open>values[name]\<close> for a dimension, which the configuration has checked.\<close>

definition dimension_value :: "attempt_scope \<Rightarrow> string \<Rightarrow> string" where
  "dimension_value i d =
     (if d = ''organization_id'' then an_organization_id i
      else if d = ''namespace'' then an_namespace i else an_tool_name i)"

definition metric_attributes :: "telemetry_config \<Rightarrow> attempt_scope \<Rightarrow> attributes" where
  "metric_attributes c i =
     fold (\<lambda>d. AList.update (''agentbarrier.'' @ map (\<lambda>x. if x = CHR ''_'' then CHR ''.'' else x) d)
       (dimension_value i d)) (te_metric_dimensions c) []"

section \<open>The observation\<close>

text \<open>The beginning of \<open>observe\<close>.\<close>

definition start_observation :: "telemetry_config \<Rightarrow> attempt_scope \<Rightarrow> telemetry_state" where
  "start_observation c i = \<lparr>ts_action = None, ts_finished = False, ts_signals =
     [Span_Start (if te_include_tool_name c then ''agentbarrier.action '' @ an_tool_name i else ''agentbarrier.action'')
        (identity_attributes c i)]\<rparr>"

definition action_attributes :: "telemetry_config \<Rightarrow> runtime_action \<Rightarrow> attributes" where
  "action_attributes c a =
     put_if (te_include_policy_version c) ''agentbarrier.policy.version'' (ra_policy_version a)
     (put_if (te_include_action_id c) ''agentbarrier.action.id'' (ra_action_id a)
     [(''agentbarrier.policy.effect'', effect_text (ra_policy_effect a)),
      (''agentbarrier.action.status'', status_text (ra_status a))])"

definition telemetry_bind :: "telemetry_config \<Rightarrow> runtime_action \<Rightarrow> telemetry_state \<Rightarrow> telemetry_state" where
  "telemetry_bind c a t =
     t\<lparr>ts_action := Some a, ts_signals := ts_signals t @ [Span_Attributes (action_attributes c a)]\<rparr>"

text \<open>\<open>_classify_failure\<close>: the outcome of an exception and whether it is an error of the system.\<close>

definition classify_failure :: "call_error \<Rightarrow> string \<times> bool" where
  "classify_failure e = (case e of
     Runtime_Exn (ApprovalRequired _) \<Rightarrow> (''pending'', False)
   | Runtime_Exn (PolicyDenied _) \<Rightarrow> (''denied'', False)
   | Runtime_Exn (ApprovalRejected _) \<Rightarrow> (''rejected'', False)
   | Runtime_Exn (ApprovalExpired _) \<Rightarrow> (''expired'', False)
   | Runtime_Exn (EmergencyPauseActive _ _ _) \<Rightarrow> (''paused'', False)
   | Runtime_Exn (ActionLimitExceeded _ _ _ _ _ _) \<Rightarrow> (''limit_blocked'', False)
   | Runtime_Exn (ActionLimitValueError _ _ _) \<Rightarrow> (''limit_blocked'', False)
   | Runtime_Exn (ActionInProgress _) \<Rightarrow> (''in_progress'', False)
   | Runtime_Exn (ActionOutcomeUnknown _) \<Rightarrow> (''unknown'', True)
   | _ \<Rightarrow> (''error'', True))"

text \<open>\<open>type(error).__qualname__\<close>\<close>

definition error_class :: "call_error \<Rightarrow> string" where
  "error_class e = (case e of Runtime_Exn r \<Rightarrow> exn_name r | Foreign_Exn x \<Rightarrow> x)"

definition put_option :: "string \<Rightarrow> string option \<Rightarrow> attributes \<Rightarrow> attributes" where
  "put_option k v m = (case v of None \<Rightarrow> m | Some x \<Rightarrow> AList.update k x m)"

text \<open>\<open>max(0.0, elapsed)\<close>\<close>

definition duration_of :: "pyfloat \<Rightarrow> pyfloat" where
  "duration_of elapsed = (if num_less (of_int_num 0) elapsed then elapsed else of_int_num 0)"

definition telemetry_emit ::
  "telemetry_config \<Rightarrow> attempt_scope \<Rightarrow> pyfloat \<Rightarrow> string \<Rightarrow> runtime_action option \<Rightarrow> string option \<Rightarrow> bool \<Rightarrow>
   telemetry_state \<Rightarrow> telemetry_state" where
  "telemetry_emit c i elapsed outcome action error_type system_error t =
     (if ts_finished t then t else
        let t1 = t\<lparr>ts_finished := True\<rparr>;
            t2 = (case action of None \<Rightarrow> t1 | Some a \<Rightarrow> telemetry_bind c a t1);
            attrs = put_option ''error.type'' error_type
              (put_option ''agentbarrier.policy.effect'' (map_option (effect_text \<circ> ra_policy_effect) action)
              (AList.update ''agentbarrier.action.outcome'' outcome (metric_attributes c i)));
            identified = fold (\<lambda>(k, v). AList.update k v) (identity_attributes c i) attrs;
            log_attrs = AList.update ''event.name'' ''agentbarrier.action.completed''
              (put_option ''agentbarrier.action.id''
                (if te_include_action_id c then map_option ra_action_id action else None) identified)
        in t2\<lparr>ts_signals := ts_signals t2 @ [Span_Attributes [(''agentbarrier.action.outcome'', outcome)]] @
             (case error_type of None \<Rightarrow> [] | Some x \<Rightarrow> [Span_Attributes [(''error.type'', x)]]) @
             (if system_error then [Span_Error_Status] else []) @
             [Count_Attempt attrs, Record_Duration (duration_of elapsed) attrs,
              Log_Record (if system_error then Log_Error else Log_Info)
                ''AgentBarrier action attempt completed'' log_attrs]\<rparr>)"

text \<open>The three handlers.\<close>

definition telemetry_event ::
  "telemetry_config \<Rightarrow> attempt_scope \<Rightarrow> pyfloat \<Rightarrow> observation \<Rightarrow> telemetry_state \<Rightarrow> telemetry_state" where
  "telemetry_event c i elapsed ev t = (case ev of
     Obs_bind a \<Rightarrow> telemetry_bind c a t
   | Obs_finish outcome a \<Rightarrow> telemetry_emit c i elapsed outcome (Some a) None False t
   | Obs_fail e action \<Rightarrow>
       (let (outcome, system_error) =
          (if (case action of Some a \<Rightarrow> ra_status a = UNKNOWN | None \<Rightarrow> False) then (''unknown'', True)
           else classify_failure e)
        in telemetry_emit c i elapsed outcome action (if system_error then Some (error_class e) else None)
             system_error t))"

text \<open>The signals of an attempt with these observation calls.\<close>

definition telemetry :: "telemetry_config \<Rightarrow> attempt_scope \<Rightarrow> pyfloat \<Rightarrow> observation list \<Rightarrow> signal list" where
  "telemetry c i elapsed evs = ts_signals (fold (telemetry_event c i elapsed) evs (start_observation c i))"

section \<open>Privacy\<close>

text \<open>
  What of an action and of an exception may be seen: the policy effect and the status, the id and the
  policy version when the configuration includes them, and the class of the exception.
\<close>

definition seen_action :: "telemetry_config \<Rightarrow> runtime_action \<Rightarrow>
    policy_effect \<times> runtime_status \<times> string option \<times> string option" where
  "seen_action c a = (ra_policy_effect a, ra_status a,
     if te_include_action_id c then Some (ra_action_id a) else None,
     if te_include_policy_version c then Some (ra_policy_version a) else None)"

definition seen_error :: "call_error \<Rightarrow> bool \<times> string" where
  "seen_error e = ((case e of Runtime_Exn _ \<Rightarrow> True | Foreign_Exn _ \<Rightarrow> False), error_class e)"

fun same_seen :: "telemetry_config \<Rightarrow> observation \<Rightarrow> observation \<Rightarrow> bool" where
  "same_seen c (Obs_bind a) (Obs_bind b) \<longleftrightarrow> seen_action c a = seen_action c b"
| "same_seen c (Obs_finish x a) (Obs_finish y b) \<longleftrightarrow> x = y \<and> seen_action c a = seen_action c b"
| "same_seen c (Obs_fail e a) (Obs_fail f b) \<longleftrightarrow>
     seen_error e = seen_error f \<and> map_option (seen_action c) a = map_option (seen_action c) b"
| "same_seen c _ _ \<longleftrightarrow> False"

text \<open>What of the scope may be seen: what the spans and logs include, and what the metrics do.\<close>

definition same_scope :: "telemetry_config \<Rightarrow> attempt_scope \<Rightarrow> attempt_scope \<Rightarrow> bool" where
  "same_scope c i j \<longleftrightarrow>
     (te_include_organization_id c \<or> ''organization_id'' \<in> set (te_metric_dimensions c) \<longrightarrow>
        an_organization_id i = an_organization_id j) \<and>
     (te_include_namespace c \<or> ''namespace'' \<in> set (te_metric_dimensions c) \<longrightarrow> an_namespace i = an_namespace j) \<and>
     (te_include_tool_name c \<or> ''tool_name'' \<in> set (te_metric_dimensions c) \<longrightarrow> an_tool_name i = an_tool_name j)"

lemma make_telemetry_config_InrD:
  assumes "make_telemetry_config c0 = Inr c"
  shows "c = c0 \<and> set (te_metric_dimensions c) \<subseteq> set known_dimensions"
proof -
  have "sort (filter (\<lambda>d. d \<notin> set known_dimensions) (te_metric_dimensions c0)) = [] \<and> c = c0"
    using assms by (auto simp: make_telemetry_config_def Let_def split: if_splits)
  then have "set (filter (\<lambda>d. d \<notin> set known_dimensions) (te_metric_dimensions c0)) = {} \<and> c = c0"
    by (metis set_sort list.set(1))
  then show ?thesis by auto
qed

lemma same_scope_attributes:
  assumes "same_scope c i j"
  shows "identity_attributes c i = identity_attributes c j"
    and "te_include_tool_name c \<Longrightarrow> an_tool_name i = an_tool_name j"
    and "set (te_metric_dimensions c) \<subseteq> set known_dimensions \<Longrightarrow> metric_attributes c i = metric_attributes c j"
proof -
  show "identity_attributes c i = identity_attributes c j"
    using assms by (simp add: identity_attributes_def put_if_def same_scope_def)
  show "te_include_tool_name c \<Longrightarrow> an_tool_name i = an_tool_name j"
    using assms by (simp add: same_scope_def)
  assume known: "set (te_metric_dimensions c) \<subseteq> set known_dimensions"
  have "dimension_value i d = dimension_value j d" if "d \<in> set (te_metric_dimensions c)" for d
    using that known assms by (auto simp: dimension_value_def same_scope_def known_dimensions_def)
  then show "metric_attributes c i = metric_attributes c j"
    unfolding metric_attributes_def by (intro fold_cong) simp_all
qed

lemma same_classification:
  assumes "seen_error e = seen_error f"
  shows "classify_failure e = classify_failure f"
proof (cases "\<exists>x. e = Foreign_Exn x \<or> f = Foreign_Exn x")
  case True
  with assms show ?thesis
    by (cases e; cases f) (simp_all add: seen_error_def classify_failure_def)
next
  case False
  then obtain r q where ef: "e = Runtime_Exn r" "f = Runtime_Exn q"
    by (metis call_error.exhaust)
  then have "exn_name r = exn_name q" using assms by (simp add: seen_error_def error_class_def)
  then show ?thesis
    unfolding ef by (cases r; cases q) (simp_all add: exn_name_def classify_failure_def)
qed

lemma bind_alike:
  assumes "seen_action c a = seen_action c b" and "ts_signals t = ts_signals u" and "ts_finished t = ts_finished u"
  shows "ts_signals (telemetry_bind c a t) = ts_signals (telemetry_bind c b u) \<and>
    ts_finished (telemetry_bind c a t) = ts_finished (telemetry_bind c b u)"
  using assms by (simp add: telemetry_bind_def action_attributes_def seen_action_def put_if_def split: if_splits)

lemma emit_alike:
  assumes "map_option (seen_action c) a = map_option (seen_action c) b"
    and "identity_attributes c i = identity_attributes c j" and "metric_attributes c i = metric_attributes c j"
    and "ts_signals t = ts_signals u" and "ts_finished t = ts_finished u"
  shows "ts_signals (telemetry_emit c i elapsed x a w z t) = ts_signals (telemetry_emit c j elapsed x b w z u) \<and>
    ts_finished (telemetry_emit c i elapsed x a w z t) = ts_finished (telemetry_emit c j elapsed x b w z u)"
proof (cases a)
  case None
  then show ?thesis using assms by (simp add: telemetry_emit_def Let_def)
next
  case (Some a')
  then obtain b' where b: "b = Some b'" "seen_action c a' = seen_action c b'" using assms(1) by (cases b) auto
  have "ra_policy_effect a' = ra_policy_effect b'" "te_include_action_id c \<Longrightarrow> ra_action_id a' = ra_action_id b'"
    using b(2) by (auto simp: seen_action_def split: if_splits)
  with assms(2-) bind_alike [OF b(2), of "t\<lparr>ts_finished := True\<rparr>" "u\<lparr>ts_finished := True\<rparr>"]
  show ?thesis by (simp add: telemetry_emit_def Some b(1) Let_def)
qed

lemma event_alike:
  assumes "same_seen c ev ev'" and "same_scope c i j" and "set (te_metric_dimensions c) \<subseteq> set known_dimensions"
    and "ts_signals t = ts_signals u" and "ts_finished t = ts_finished u"
  shows "ts_signals (telemetry_event c i elapsed ev t) = ts_signals (telemetry_event c j elapsed ev' u) \<and>
    ts_finished (telemetry_event c i elapsed ev t) = ts_finished (telemetry_event c j elapsed ev' u)"
proof -
  note attrs = same_scope_attributes(1) [OF assms(2)] same_scope_attributes(3) [OF assms(2,3)]
  show ?thesis
  proof (cases ev)
    case (Obs_bind a)
    then obtain b where "ev' = Obs_bind b" "seen_action c a = seen_action c b"
      using assms(1) by (cases ev') simp_all
    then show ?thesis using Obs_bind bind_alike [OF _ assms(4,5)] by (simp add: telemetry_event_def)
  next
    case (Obs_finish x a)
    then obtain b where "ev' = Obs_finish x b" "seen_action c a = seen_action c b"
      using assms(1) by (cases ev') simp_all
    then show ?thesis
      using Obs_finish emit_alike [OF _ attrs assms(4,5), of "Some a" "Some b"] by (simp add: telemetry_event_def)
  next
    case (Obs_fail e a)
    then obtain f b where ev': "ev' = Obs_fail f b" and err: "seen_error e = seen_error f"
      and seen: "map_option (seen_action c) a = map_option (seen_action c) b"
      using assms(1) by (cases ev') simp_all
    have "(case a of Some a \<Rightarrow> ra_status a = UNKNOWN | None \<Rightarrow> False) =
        (case b of Some a \<Rightarrow> ra_status a = UNKNOWN | None \<Rightarrow> False)"
      using seen by (cases a; cases b) (simp_all add: seen_action_def)
    moreover have "error_class e = error_class f" using err by (simp add: seen_error_def)
    ultimately show ?thesis
      using emit_alike [OF seen attrs assms(4,5)] same_classification [OF err]
      by (simp only: Obs_fail ev' telemetry_event_def observation.case Let_def split: prod.split) simp
  qed
qed


text \<open>
  At a concrete input, with the default configuration: a call denied for one reason and one denied for
  another, on different arguments, by different requesters and in different organizations.
\<close>

definition default_telemetry :: telemetry_config where
  "default_telemetry = \<lparr>te_include_action_id = True, te_include_organization_id = False,
     te_include_namespace = True, te_include_tool_name = True, te_include_policy_version = False,
     te_metric_dimensions = []\<rparr>"


section \<open>Counting\<close>

definition counts :: "signal list \<Rightarrow> attributes list" where
  "counts ss = concat (map (\<lambda>s. case s of Count_Attempt m \<Rightarrow> [m] | _ \<Rightarrow> []) ss)"

definition logged :: "signal list \<Rightarrow> string list" where
  "logged ss = concat (map (\<lambda>s. case s of Log_Record _ message _ \<Rightarrow> [message] | _ \<Rightarrow> []) ss)"

lemma counts_simps [simp]:
  "counts [] = []" "counts (Count_Attempt m # ss) = m # counts ss" "counts (Span_Start n m # ss) = counts ss"
  "counts (Span_Attributes m # ss) = counts ss" "counts (Span_Error_Status # ss) = counts ss"
  "counts (Record_Duration x m # ss) = counts ss" "counts (Log_Record l n m # ss) = counts ss"
  "counts (ss @ ss') = counts ss @ counts ss'"
  by (simp_all add: counts_def)

lemma logged_simps [simp]:
  "logged [] = []" "logged (Count_Attempt m # ss) = logged ss" "logged (Span_Start n m # ss) = logged ss"
  "logged (Span_Attributes m # ss) = logged ss" "logged (Span_Error_Status # ss) = logged ss"
  "logged (Record_Duration x m # ss) = logged ss" "logged (Log_Record l n m # ss) = n # logged ss"
  "logged (ss @ ss') = logged ss @ logged ss'"
  by (simp_all add: logged_def)

lemma bind_counts [simp]:
  "counts (ts_signals (telemetry_bind c a t)) = counts (ts_signals t)"
  "logged (ts_signals (telemetry_bind c a t)) = logged (ts_signals t)"
  "ts_finished (telemetry_bind c a t) = ts_finished t"
  by (simp_all add: telemetry_bind_def)

lemma emit_counts:
  assumes "\<not> ts_finished t"
  shows "\<exists>m. counts (ts_signals (telemetry_emit c i elapsed x a w z t)) = counts (ts_signals t) @ [m]"
    "logged (ts_signals (telemetry_emit c i elapsed x a w z t)) =
       logged (ts_signals t) @ [''AgentBarrier action attempt completed'']"
  using assms by (simp_all add: telemetry_emit_def Let_def split: option.split)

lemma event_emits:
  assumes "\<And>a. ev \<noteq> Obs_bind a"
  shows "\<exists>x a w z. telemetry_event c i elapsed ev t = telemetry_emit c i elapsed x a w z t"
proof (cases ev)
  case (Obs_fail e action)
  then show ?thesis
    by (cases "if (case action of Some a \<Rightarrow> ra_status a = UNKNOWN | None \<Rightarrow> False) then (''unknown'', True)
      else classify_failure e") (auto simp: telemetry_event_def)
qed (use assms in \<open>auto simp: telemetry_event_def\<close>)

text \<open>Every attempt is counted once and logged once, with the fixed message.\<close>

lemma telemetry_counts_once:
  assumes "evs = pre @ [ev]" "pre = [] \<or> (\<exists>a. pre = [Obs_bind a])" "\<And>a. ev \<noteq> Obs_bind a"
  shows "length (counts (telemetry c i elapsed evs)) = 1 \<and>
    logged (telemetry c i elapsed evs) = [''AgentBarrier action attempt completed'']"
proof -
  let ?t = "fold (telemetry_event c i elapsed) pre (start_observation c i)"
  have t: "\<not> ts_finished ?t" "counts (ts_signals ?t) = []" "logged (ts_signals ?t) = []"
    using assms(2) by (auto simp: start_observation_def telemetry_event_def)
  obtain x a w z where "telemetry_event c i elapsed ev ?t = telemetry_emit c i elapsed x a w z ?t"
    using event_emits assms(3) by blast
  with emit_counts [OF t(1), of c i elapsed x a w z] t(2,3) assms(1) show ?thesis
    by (auto simp: telemetry_def)
qed

theorem attempt_is_counted_once:
  "length (counts (telemetry c i elapsed (xr_observed (execute ops K handler b att t args key s)))) = 1 \<and>
   logged (telemetry c i elapsed (xr_observed (execute ops K handler b att t args key s))) =
     [''AgentBarrier action attempt completed'']"
proof -
  let ?run = "execute ops K handler b att t args key s"
  obtain pre ev where "xr_observed ?run = pre @ [ev]" "pre = [] \<or> (\<exists>a. pre = [Obs_bind a])" "\<And>a. ev \<noteq> Obs_bind a"
  proof (cases "xr_result ?run")
    case (Inl e)
    with observed_to_one_end [of ops K handler b att t args key s] that show thesis by fastforce
  next
    case (Inr v)
    with observed_to_one_end [of ops K handler b att t args key s] obtain a x a' where
      "xr_observed ?run = [Obs_bind a] @ [Obs_finish x a']" by fastforce
    with that show thesis by blast
  qed
  from telemetry_counts_once [OF this] show ?thesis .
qed

end
