(* ===== verification/Spec2Isabelle.thy ===== *)
theory Spec2Isabelle
  imports Policy Outcome_Props Barrier_Live Api_Props Webhook_Demo Slack_Demo Dash_Demo Conf_Demo
    Mcp_Props Telemetry
begin

text \<open>
  A model of AgentBarrier, a library that puts a durable approval and execution barrier in front of
  the tool calls of agents. Paths below are under src/src/agentbarrier/.

  The program. A tool call becomes a \<open>RuntimeRequest\<close> (runtime/models.py) with a digest over its
  namespace, tool, canonical arguments, idempotency key, policy version and identity. A policy
  (runtime/policy.py) decides allow, deny or require approval. The runtime store (runtime/store.py)
  records the action, takes decisions, hands out one execution claim per approval, records results
  and uncertain outcomes, and keeps emergency pauses, execution limits and two hash-linked logs.

  Theories, in the order the code depends on one another.

  \<^item> \<open>Prelude\<close>: results that may raise, the transaction wrapper, Python's string predicates, decimal
    numbers, and database tables as lists of rows with their update lemmas.
  \<^item> \<open>Py_Float\<close>, \<open>Json\<close>, \<open>Json_Text\<close>, \<open>Json_Roundtrip\<close>: Python's numbers and \<open>json.dumps\<close> and
    \<open>json.loads\<close> as the source calls them, and the proof that a canonical text reads back as the value
    it encodes. A canonical JSON text in a field or a column is represented by its value.
  \<^item> \<open>Models\<close>: enums, records, validating constructors, request digest and exceptions of
    runtime/models.py and errors.py.
  \<^item> \<open>Glob\<close>, \<open>Policy\<close>: \<open>fnmatchcase\<close> and the policy evaluator with its loader.
  \<^item> \<open>Hash_Log\<close>: the locale of a hash-linked log and its two interpretations, the receipts and the
    control receipts of the store.
  \<^item> \<open>Database\<close>, \<open>Controls\<close>, \<open>Store\<close>: the tables and every operation of runtime/store.py, one
    definition each, with the body of its transaction. \<open>Controls_Facts\<close> holds the accounting of
    limit capacity.
  \<^item> \<open>Lifecycle\<close>: the abstract specification of one action, an automaton over audit events.
  \<^item> \<open>Store_Inv\<close>, \<open>Store_Refresh\<close>, \<open>Store_Safety\<close>, \<open>Store_Reach\<close>: the invariant \<open>store_ok\<close>, its
    preservation by every operation, and the transition system \<open>store_step\<close> with \<open>reachable\<close>.
  \<^item> \<open>Store_Progress\<close>, \<open>Store_Demo\<close>, \<open>Store_History\<close>: the calls that must succeed, a concrete run, and
    what no later call can undo.
  \<^item> \<open>Store_Props\<close>, \<open>Claim_Props\<close>, \<open>Outcome_Props\<close>: the properties of the store.
  \<^item> \<open>Protocol\<close>: the \<open>RuntimeStore\<close> protocol of runtime/protocol.py as a record of operations, the
    locale \<open>store_contract\<close> of what the barrier relies on, and its interpretation on the SQL store.
  \<^item> \<open>Barrier\<close>, \<open>Barrier_Facts\<close>, \<open>Barrier_Props\<close>, \<open>Barrier_Live\<close>: runtime/barrier.py and the guard of
    runtime/observation.py. One call is an \<open>attempt\<close>: the fresh action id, the times its steps read,
    the operation as a function on the store's state that returns or raises, and what other workers
    do to the state between its steps. The result says in which state the operation was called.
  \<^item> \<open>Serialization\<close>: runtime/serialization.py.
  \<^item> \<open>Auth\<close>, \<open>Auth_Props\<close>: service/auth.py, the auth document, its validation and what a header of a
    caller authenticates; a principal's constraints on the store.
  \<^item> \<open>Api\<close>: service/api.py over any \<open>store_ops\<close>. \<open>Api_Facts\<close> has the locale \<open>review_store\<close> of what the
    endpoints rely on, interpreted on the SQL store; \<open>Api_Props\<close> the locale \<open>pager\<close> of keyset
    pagination, interpreted on the action pages and the audit pages, and the properties of the
    service with their concrete inputs.
  \<^item> \<open>Lease_Queue\<close>: the locale of a queue whose workers claim items for a bounded time; \<open>Url\<close>: what the
    services use of \<open>urlsplit\<close>.
  \<^item> \<open>Webhook_Config\<close>, \<open>Webhook_Store\<close>, \<open>Webhook\<close>: service/webhooks.py, its configuration document, the
    delivery store with the body of every transaction, and the bodies, the outbox and the worker. The
    worker's loop runs over a list of \<open>turn\<close>s: the times it reads, what the HTTP sender did, and what
    other workers did to the store meanwhile. \<open>Webhook_Facts\<close> has the invariant, the step relation and
    the interpretation of the queue on it; \<open>Webhook_Props\<close>, \<open>Webhook_Body\<close> and \<open>Webhook_Demo\<close> the
    properties and their concrete inputs.
  \<^item> \<open>Slack_Config\<close>, \<open>Slack_Store\<close>, \<open>Slack_Message\<close>, \<open>Slack_Interaction\<close>,
    \<open>Slack_Service\<close>: service/slack.py, in its order. A message is a \<open>view\<close>, the worker's loop runs over
    \<open>slack_turn\<close>s, and a handled request is a step on the pair of the runtime's state and the
    notification store; its \<open>handling\<close> gives the times and what other processes do to the runtime
    between the handler's reading and its decision. \<open>Slack_Facts\<close> has the invariant, the step relation
    and the second interpretation of \<open>lease_queue\<close>; \<open>Slack_Review\<close> the locale \<open>slack_store\<close>, which
    extends \<open>review_store\<close>, and its interpretation on the SQL store; \<open>Slack_Props\<close>,
    \<open>Slack_Requests\<close> and \<open>Slack_Demo\<close> the properties and their concrete inputs.
  \<^item> \<open>Dash_Session\<close>, \<open>Dash_Html\<close>, \<open>Dashboard\<close>: service/dashboard.py over any \<open>store_ops\<close>: the store of
    browser sessions, the text of the pages as the bytes that are sent, and the handlers with their
    errors, cookies and headers. A request takes the times it reads and what the random generator
    yields. \<open>Dash_Props\<close> has the sessions that requests can lead to, which values reach the markup of a page,
    and the properties, which rest on \<open>review_store\<close>; \<open>Dash_Demo\<close> the concrete inputs and the edges
    behind the findings.
  \<^item> \<open>Mcp_Gateway\<close>: mcp/gateway.py and mcp/auth.py. A tool call goes through the barrier's \<open>execute_async\<close>
    to the upstream server, a function on the state that gives a result, a request for further input or
    an exception; the answer is a payload, a refusal with its metadata, or an exception left to the SDK.
  \<^item> \<open>Launch\<close>: runtime/factory.py, service/runner.py and mcp/runner.py, from the host's environment, files
    and addresses to the \<open>listener\<close> that the web server is given. \<open>Mcp_Props\<close> has the properties of the
    gateway, by the store's contract and the facts about barrier runs, and of the listeners.
  \<^item> \<open>Telemetry\<close>: observability.py. The observation calls of an attempt become a list of signals, the
    calls on the OpenTelemetry API and the logger; privacy is that two attempts which agree on what the
    configuration includes give the same list.
  \<^item> \<open>Conf_Models\<close>, \<open>Conf_Adapter\<close>: the conformance harness's value objects (models.py),
    its journal and sentinel effect (journal.py, probe.py), the contract of an adapter as a record of
    operations, and the checks of a run's actions (adapter.py).
  \<^item> \<open>Conf_Reference\<close>: adapters/reference.py. Every definition is what one coroutine does between two
    waits, on the state of the event loop. \<open>Conf_Steps\<close> has the relation \<open>ref_step\<close> of all interleavings,
    \<open>Conf_Delegation\<close> the forest of the actions, \<open>Conf_Safety\<close>, \<open>Conf_Invariant\<close> and \<open>Conf_Reach\<close> the
    invariant \<open>world_ok\<close> and its preservation, \<open>Conf_Props\<close> the properties.
  \<^item> \<open>Conf_Loop\<close>: the event loop, which takes what is ready in order and then moves the clock to the next
    timeout, by steps of the relation only; and the reference adapter's operations on it.
  \<^item> \<open>Conf_Scenarios\<close>, \<open>Conf_Evidence\<close>, \<open>Conf_Runner\<close>: scenarios.py and runner.py, over any adapter. A
    scenario is an action on the loop's state with the handles to close; what it raises is a value.
    \<open>Conf_Verdicts\<close> shows what a verdict says about any adapter, \<open>Conf_Suite\<close> runs the scenarios on the
    reference adapter, \<open>Conf_Demo\<close> has the concrete inputs.

  Conventions. An operation that reads the clock takes the time \<open>now\<close> as an argument, so every
  interleaving of calls of concurrent workers is a sequence of steps: the source serialises them
  with \<open>BEGIN IMMEDIATE\<close>. A call returns \<open>Inr\<close> a value or \<open>Inl\<close> the exception, and the database it
  leaves; a transaction whose body raises leaves the database it found. The parameter \<open>K\<close> holds what
  the source takes from the interpreter and cannot be read here: the hexadecimal SHA-256 of a text
  and the repr and parse of floats. \<open>codec_ok\<close> states their documented behaviour (repr reads back,
  and is a number literal); freedom from hash collisions is a hypothesis of the two theorems that
  need it, on the finitely many texts involved.

  Fuel. Only the JSON reader has fuel; \<open>parse_value_fuel\<close> shows that the length of the text plus one
  is enough, and \<open>loads\<close> uses that. The loops of the event loop end by a measure, the work that is
  left; the loop over the parents of an action is a partial function, which ends on validated actions,
  and so is the loop that draws a session token, which ends with the first unused one.

  The keyed hash of signatures, the HTTP sender, the Slack API's replies, the \<open>uuid5\<close> of a name, the
  random generator of tokens, the parsing of a float in a header, the module \<open>ipaddress\<close>, the validation of
  a tool result and the upstream server are parameters of the definitions that use them.

  Simplifications. Strings hold code points below 256. Timestamps are unbounded integers, so
  SQLite's refusal of values beyond 64 bits is not modelled, except where the source checks it
  itself. Error messages that quote a value are abbreviated. Of two pauses of the same width set at
  the same instant the earlier row is reported, where SQLite leaves the choice open.

  The interpreter's limit of 4300 digits is modelled for the integers of requests, not for those
  inside JSON texts, and a decision body is read as UTF-8. A form of Slack or of the dashboard whose
  text leaves the code points below 256 counts as invalid. An instant that \<open>datetime\<close> cannot represent
  raises one exception, whichever of its kinds the platform gives.

  The event loop's clock is ideal. The lookup of a reconciliation is one step, and the time it takes
  passes after it; the detail of one that timed out is given without the number of seconds. The scenario
  of reconciliation is run on the reference adapter in its four parts, each on a new loop.

  Not modelled: the schema migration and the file backup of the store and the PostgreSQL backend, which
  are SQL and connection handling; the adapters of third-party frameworks and the framework bindings,
  which translate between those frameworks' objects and the parts above; the MCP SDK's transports; the
  reporters, the compatibility report and the command line, which format and print. HTTP routing and
  transport are the web framework's. Whether an entry point's database opens is not modelled either.
\<close>

end
